(* ===== verification/Prelude.thy ===== *)
theory Prelude
  imports Main
begin

text \<open>
  What every component of the development shares:
  \<^item> the type of a request handler, \<open>act\<close>: a function from the state of the platform to
    a result and a new state. The result is \<open>Inl\<close> of the exception that the handler
    throws or \<open>Inr\<close> of the value that it returns. An exception keeps the writes made
    before it, as it does in the code outside a transaction;
  \<^item> the statement forms of the TypeScript sources: \<open>await\<close> for \<^verbatim>\<open>await\<close>
    (sequencing), \<open>ret\<close>, \<open>throw\<close>, \<open>tryCatch\<close> and \<open>transaction\<close> for
    \<^verbatim>\<open>prisma.$transaction\<close>, whose writes are undone when its body throws;
  \<^item> the locale \<open>effect\<close>: relations between the state before and after a handler that
    hold of a whole handler when they hold of its steps;
  \<^item> tables as lists of rows with the query forms that the sources use, and the locale
    \<open>keyed_table\<close> with what the sources rely on when they query by a unique column;
  \<^item> the locale \<open>rerunnable\<close> for loops that do nothing when they are run once more;
  \<^item> string helpers of the language: \<^verbatim>\<open>trim\<close>, \<^verbatim>\<open>toLowerCase\<close> and truthiness.
\<close>

subsection \<open>Handlers\<close>

type_synonym ('e, 's, 'a) act = "'s \<Rightarrow> ('e + 'a) \<times> 's"

definition ret :: "'a \<Rightarrow> ('e, 's, 'a) act" where
  "ret x = (\<lambda>s. (Inr x, s))"

definition throw :: "'e \<Rightarrow> ('e, 's, 'a) act" where
  "throw e = (\<lambda>s. (Inl e, s))"

definition await :: "('e, 's, 'a) act \<Rightarrow> ('a \<Rightarrow> ('e, 's, 'b) act) \<Rightarrow> ('e, 's, 'b) act" where
  "await m f = (\<lambda>s. case m s of (Inl e, s') \<Rightarrow> (Inl e, s') | (Inr x, s') \<Rightarrow> f x s')"

definition reads :: "('s \<Rightarrow> 'a) \<Rightarrow> ('e, 's, 'a) act" where
  "reads f = (\<lambda>s. (Inr (f s), s))"

definition writes :: "('s \<Rightarrow> 's) \<Rightarrow> ('e, 's, unit) act" where
  "writes f = (\<lambda>s. (Inr (), f s))"

definition throwIf :: "bool \<Rightarrow> 'e \<Rightarrow> ('e, 's, unit) act" where
  "throwIf b e = (if b then throw e else ret ())"

definition tryCatch :: "('e, 's, 'a) act \<Rightarrow> ('e \<Rightarrow> ('e, 's, 'a) act) \<Rightarrow> ('e, 's, 'a) act" where
  "tryCatch m h = (\<lambda>s. case m s of (Inl e, s') \<Rightarrow> h e s' | (Inr x, s') \<Rightarrow> (Inr x, s'))"

definition transaction :: "('e, 's, 'a) act \<Rightarrow> ('e, 's, 'a) act" where
  "transaction m = (\<lambda>s. case m s of (Inl e, s') \<Rightarrow> (Inl e, s) | (Inr x, s') \<Rightarrow> (Inr x, s'))"

fun forEach :: "'a list \<Rightarrow> ('a \<Rightarrow> ('e, 's, unit) act) \<Rightarrow> ('e, 's, unit) act" where
  "forEach [] f = ret ()"
| "forEach (x # xs) f = await (f x) (\<lambda>_. forEach xs f)"

text \<open>\<^verbatim>\<open>Array.from({ length: n }, () => ...)\<close> and \<^verbatim>\<open>for\<close> loops that collect a value per element.\<close>

fun timesM :: "nat \<Rightarrow> ('e, 's, 'a) act \<Rightarrow> ('e, 's, 'a list) act" where
  "timesM 0 m = ret []"
| "timesM (Suc n) m = await m (\<lambda>x. await (timesM n m) (\<lambda>xs. ret (x # xs)))"

fun mapM :: "('a \<Rightarrow> ('e, 's, 'b) act) \<Rightarrow> 'a list \<Rightarrow> ('e, 's, 'b list) act" where
  "mapM f [] = ret []"
| "mapM f (x # xs) = await (f x) (\<lambda>y. await (mapM f xs) (\<lambda>ys. ret (y # ys)))"

text \<open>What a caller observes of a handler run from a state.\<close>

definition outcome :: "('e, 's, 'a) act \<Rightarrow> 's \<Rightarrow> 'e + 'a" where
  "outcome m s = fst (m s)"

definition after :: "('e, 's, 'a) act \<Rightarrow> 's \<Rightarrow> 's" where
  "after m s = snd (m s)"

definition returns :: "('e, 's, 'a) act \<Rightarrow> 's \<Rightarrow> bool" where
  "returns m s \<longleftrightarrow> (case fst (m s) of Inl _ \<Rightarrow> False | Inr _ \<Rightarrow> True)"

text \<open>The collection \<open>act\<close> runs a handler symbolically.\<close>

named_theorems act "equations that run a handler one statement at a time"

lemma ret_run [act, simp]: "ret x s = (Inr x, s)"
  by (simp add: ret_def)

lemma throw_run [act, simp]: "throw e s = (Inl e, s)"
  by (simp add: throw_def)

lemma reads_run [act, simp]: "reads f s = (Inr (f s), s)"
  by (simp add: reads_def)

lemma writes_run [act, simp]: "writes f s = (Inr (), f s)"
  by (simp add: writes_def)

lemma throwIf_run [act]: "throwIf b e s = (if b then (Inl e, s) else (Inr (), s))"
  by (simp add: throwIf_def)

lemma await_run [act]:
  "await m f s = (case m s of (r, s') \<Rightarrow> case r of Inl e \<Rightarrow> (Inl e, s') | Inr x \<Rightarrow> f x s')"
  by (simp add: await_def split: prod.splits sum.splits)

lemma tryCatch_run [act]:
  "tryCatch m h s = (case m s of (r, s') \<Rightarrow> case r of Inl e \<Rightarrow> h e s' | Inr x \<Rightarrow> (Inr x, s'))"
  by (simp add: tryCatch_def split: prod.splits sum.splits)

lemma transaction_run [act]:
  "transaction m s =
     (case m s of (r, s') \<Rightarrow> case r of Inl e \<Rightarrow> (Inl e, s) | Inr x \<Rightarrow> (Inr x, s'))"
  by (simp add: transaction_def split: prod.splits sum.splits)

lemma await_ok: "m s = (Inr x, s') \<Longrightarrow> await m f s = f x s'"
  by (simp add: await_run)

lemma await_err: "m s = (Inl e, s') \<Longrightarrow> await m f s = (Inl e, s')"
  by (simp add: await_run)

lemma await_Inr_iff:
  "await m f s = (Inr y, t) \<longleftrightarrow> (\<exists>x s'. m s = (Inr x, s') \<and> f x s' = (Inr y, t))"
  by (auto simp: await_run split: prod.splits sum.splits)

lemma await_Inl_iff:
  "await m f s = (Inl e, t) \<longleftrightarrow>
     m s = (Inl e, t) \<or> (\<exists>x s'. m s = (Inr x, s') \<and> f x s' = (Inl e, t))"
  by (auto simp: await_run split: prod.splits sum.splits)

lemma await_ret [simp]: "await (ret x) f = f x"
  by (rule ext) (simp add: await_run)

lemma await_throw [simp]: "await (throw e) f = throw e"
  by (rule ext) (simp add: await_run)

lemma await_assoc: "await (await m f) g = await m (\<lambda>x. await (f x) g)"
  by (rule ext) (simp add: await_run split: prod.splits sum.splits)

text \<open>A transaction that throws leaves the state as it was.\<close>

lemma transaction_rolls_back:
  "outcome (transaction m) s = Inl e \<Longrightarrow> after (transaction m) s = s"
  by (auto simp: outcome_def after_def transaction_run split: prod.splits sum.splits)

subsection \<open>Handlers at a state\<close>

text \<open>
  At a state a handler can \<^emph>\<open>only read\<close>, it can \<^emph>\<open>reject\<close>, which is to end with an error and change
  nothing, or it can be \<^emph>\<open>clean\<close>: if it ends with an error it has changed nothing.
\<close>

definition reading :: "('e, 's, 'a) act \<Rightarrow> 's \<Rightarrow> bool" where
  "reading m s \<longleftrightarrow> snd (m s) = s"

definition rejects :: "('e, 's, 'a) act \<Rightarrow> 's \<Rightarrow> bool" where
  "rejects m s \<longleftrightarrow> (\<exists>e. m s = (Inl e, s))"

definition clean :: "('e, 's, 'a) act \<Rightarrow> 's \<Rightarrow> bool" where
  "clean m s \<longleftrightarrow> (\<forall>e s'. m s = (Inl e, s') \<longrightarrow> s' = s)"

lemma reading_after: "reading m s \<Longrightarrow> m s = (r, s') \<Longrightarrow> s' = s"
  by (simp add: reading_def)

lemma clean_after: "clean m s \<Longrightarrow> m s = (Inl e, s') \<Longrightarrow> s' = s"
  by (simp add: clean_def)

lemma reading_clean: "reading m s \<Longrightarrow> clean m s"
  by (auto simp: reading_def clean_def)

lemma rejects_reading: "rejects m s \<Longrightarrow> reading m s"
  by (auto simp: rejects_def reading_def)

lemma reading_ret: "reading (ret x) s" and reading_throw: "reading (throw e) s"
  and reading_reads: "reading (reads f) s" and reading_throwIf: "reading (throwIf b e) s"
  by (simp_all add: reading_def throwIf_run)

lemma reading_option: "reading n s \<Longrightarrow> (\<And>x. reading (f x) s) \<Longrightarrow> reading (case v of None \<Rightarrow> n | Some x \<Rightarrow> f x) s"
  by (cases v) simp_all

lemma reading_if: "(b \<Longrightarrow> reading m s) \<Longrightarrow> (\<not> b \<Longrightarrow> reading n s) \<Longrightarrow> reading (if b then m else n) s"
  by simp

lemma rejects_first: "rejects m s \<Longrightarrow> rejects (await m f) s"
  by (auto simp: rejects_def await_run)

lemma rejects_prod: "(\<And>a b. rejects (f a b) s) \<Longrightarrow> rejects (case p of (a, b) \<Rightarrow> f a b) s"
  by (cases p) simp

lemma clean_transaction: "clean (transaction m) s"
  by (auto simp: clean_def transaction_run split: prod.splits sum.splits)

lemma clean_option: "clean n s \<Longrightarrow> (\<And>x. clean (f x) s) \<Longrightarrow> clean (case v of None \<Rightarrow> n | Some x \<Rightarrow> f x) s"
  by (cases v) simp_all

text \<open>After a handler that only reads, the next one starts at the same state.\<close>

lemma reading_first:
  assumes "reading m s"
  obtains e where "await m f s = (Inl e, s)" | x where "m s = (Inr x, s)" "await m f s = f x s"
proof (cases "m s")
  case (Pair r s')
  then show ?thesis using assms that by (cases r) (auto simp: reading_def await_run)
qed

lemma reading_await: "reading m s \<Longrightarrow> (\<And>x. m s = (Inr x, s) \<Longrightarrow> reading (f x) s) \<Longrightarrow> reading (await m f) s"
  by (erule reading_first [where f = f]) (auto simp: reading_def)

lemma rejects_await: "reading m s \<Longrightarrow> (\<And>x. m s = (Inr x, s) \<Longrightarrow> rejects (f x) s) \<Longrightarrow> rejects (await m f) s"
  by (erule reading_first [where f = f]) (auto simp: rejects_def)

lemma clean_await: "reading m s \<Longrightarrow> (\<And>x. m s = (Inr x, s) \<Longrightarrow> clean (f x) s) \<Longrightarrow> clean (await m f) s"
  by (erule reading_first [where f = f]) (auto simp: clean_def)

text \<open>Nor does a step that cannot fail spoil one that is clean.\<close>

lemma clean_then:
  "clean m s \<Longrightarrow> (\<And>x s'. m s = (Inr x, s') \<Longrightarrow> \<not> rejects (f x) s' \<and> reading (f x) s') \<Longrightarrow> clean (await m f) s"
  by (cases "m s"; cases "fst (m s)")
     (auto simp: clean_def rejects_def reading_def await_run prod_eq_iff split: prod.splits sum.splits)

lemmas reading_rules = reading_await reading_option reading_if reading_ret reading_throw
  reading_reads reading_throwIf

subsection \<open>Relations between the states before and after a handler\<close>

definition has_effect :: "('s \<Rightarrow> 's \<Rightarrow> bool) \<Rightarrow> ('e, 's, 'a) act \<Rightarrow> bool" where
  "has_effect R m \<longleftrightarrow> (\<forall>s. R s (after m s))"

lemma has_effectI: "(\<And>s. R s (after m s)) \<Longrightarrow> has_effect R m"
  by (simp add: has_effect_def)

lemma has_effectD: "has_effect R m \<Longrightarrow> m s = (r, s') \<Longrightarrow> R s s'"
  by (metis after_def has_effect_def snd_conv)

locale effect =
  fixes R :: "'s \<Rightarrow> 's \<Rightarrow> bool"
  assumes refl: "R s s"
    and trans: "R s t \<Longrightarrow> R t u \<Longrightarrow> R s u"
begin

lemma effect_ret: "has_effect R (ret x)"
  by (simp add: has_effect_def after_def refl)

lemma effect_throw: "has_effect R (throw e)"
  by (simp add: has_effect_def after_def refl)

lemma effect_reads: "has_effect R (reads f)"
  by (simp add: has_effect_def after_def refl)

lemma effect_throwIf: "has_effect R (throwIf b e)"
  by (simp add: has_effect_def after_def throwIf_run refl)

lemma effect_await:
  assumes "has_effect R m" and "\<And>x. has_effect R (f x)"
  shows "has_effect R (await m f)"
proof (rule has_effectI)
  fix s
  obtain r t where m: "m s = (r, t)" by fastforce
  with assms(1) have st: "R s t" by (rule has_effectD)
  show "R s (after (await m f) s)"
  proof (cases r)
    case (Inl e)
    with m st show ?thesis by (simp add: after_def await_run)
  next
    case (Inr x)
    have "R t (snd (f x t))" using assms(2) by (simp add: has_effect_def after_def)
    with st have "R s (snd (f x t))" by (rule trans)
    with m Inr show ?thesis by (simp add: after_def await_run)
  qed
qed

lemma effect_tryCatch:
  assumes "has_effect R m" and "\<And>e. has_effect R (h e)"
  shows "has_effect R (tryCatch m h)"
proof (rule has_effectI)
  fix s
  obtain r t where m: "m s = (r, t)" by fastforce
  with assms(1) have st: "R s t" by (rule has_effectD)
  show "R s (after (tryCatch m h) s)"
  proof (cases r)
    case (Inr x)
    with m st show ?thesis by (simp add: after_def tryCatch_run)
  next
    case (Inl e)
    have "R t (snd (h e t))" using assms(2) by (simp add: has_effect_def after_def)
    with st have "R s (snd (h e t))" by (rule trans)
    with m Inl show ?thesis by (simp add: after_def tryCatch_run)
  qed
qed

lemma effect_transaction: "has_effect R m \<Longrightarrow> has_effect R (transaction m)"
  by (auto simp: has_effect_def after_def transaction_run refl split: prod.splits sum.splits)
     (metis snd_conv)

lemma effect_forEach:
  "(\<And>x. x \<in> set xs \<Longrightarrow> has_effect R (f x)) \<Longrightarrow> has_effect R (forEach xs f)"
  by (induction xs) (auto intro!: effect_ret effect_await)

lemma effect_timesM: "has_effect R m \<Longrightarrow> has_effect R (timesM n m)"
  by (induction n) (auto intro!: effect_ret effect_await)

lemma effect_mapM:
  "(\<And>x. x \<in> set xs \<Longrightarrow> has_effect R (f x)) \<Longrightarrow> has_effect R (mapM f xs)"
  by (induction xs) (auto intro!: effect_ret effect_await)

lemma effect_option:
  "(v = None \<Longrightarrow> has_effect R m) \<Longrightarrow> (\<And>x. v = Some x \<Longrightarrow> has_effect R (f x)) \<Longrightarrow>
     has_effect R (case v of None \<Rightarrow> m | Some x \<Rightarrow> f x)"
  by (cases v) auto

lemma effect_if:
  "(b \<Longrightarrow> has_effect R m) \<Longrightarrow> (\<not> b \<Longrightarrow> has_effect R n) \<Longrightarrow> has_effect R (if b then m else n)"
  by simp

lemma effect_prod: "(\<And>a b. has_effect R (f a b)) \<Longrightarrow> has_effect R (case p of (a, b) \<Rightarrow> f a b)"
  by (cases p) auto

lemmas effect_rules =
  effect_ret effect_throw effect_reads effect_throwIf effect_await effect_tryCatch
  effect_transaction effect_option effect_if effect_prod effect_timesM
  effect_forEach effect_mapM

end

text \<open>
  The relations used below: \<open>keeps P\<close> says that a handler preserves the invariant \<open>P\<close>, \<open>same f\<close> that
  it leaves the part \<open>f\<close> of the state alone, \<open>grows f\<close> that it only adds to the set \<open>f\<close>.
\<close>

definition keeps :: "('s \<Rightarrow> bool) \<Rightarrow> 's \<Rightarrow> 's \<Rightarrow> bool" where
  "keeps P s t \<longleftrightarrow> (P s \<longrightarrow> P t)"

definition same :: "('s \<Rightarrow> 'v) \<Rightarrow> 's \<Rightarrow> 's \<Rightarrow> bool" where
  "same f s t \<longleftrightarrow> f t = f s"

definition grows :: "('s \<Rightarrow> 'v set) \<Rightarrow> 's \<Rightarrow> 's \<Rightarrow> bool" where
  "grows f s t \<longleftrightarrow> f s \<subseteq> f t"

interpretation keeps: effect "keeps P" for P :: "'s \<Rightarrow> bool"
  by unfold_locales (auto simp: keeps_def)

interpretation same: effect "same f" for f :: "'s \<Rightarrow> 'v"
  by unfold_locales (auto simp: same_def)

interpretation grows: effect "grows f" for f :: "'s \<Rightarrow> 'v set"
  by unfold_locales (auto simp: grows_def)

subsection \<open>Total correctness\<close>

text \<open>\<open>achieves P m Q\<close>: from a state with \<open>P\<close> the handler returns, in a state with \<open>Q\<close>.\<close>

definition achieves :: "('s \<Rightarrow> bool) \<Rightarrow> ('e, 's, 'a) act \<Rightarrow> ('a \<Rightarrow> 's \<Rightarrow> bool) \<Rightarrow> bool" where
  "achieves P m Q \<longleftrightarrow> (\<forall>s. P s \<longrightarrow> (\<exists>x s'. m s = (Inr x, s') \<and> Q x s'))"

lemma achievesI: "(\<And>s. P s \<Longrightarrow> \<exists>x s'. m s = (Inr x, s') \<and> Q x s') \<Longrightarrow> achieves P m Q"
  by (simp add: achieves_def)

lemma achievesD: "achieves P m Q \<Longrightarrow> P s \<Longrightarrow> \<exists>x s'. m s = (Inr x, s') \<and> Q x s'"
  by (simp add: achieves_def)

lemma achieves_ret: "(\<And>s. P s \<Longrightarrow> Q x s) \<Longrightarrow> achieves P (ret x) Q"
  by (simp add: achieves_def)

lemma achieves_await:
  assumes "achieves P m Q" and "\<And>x. achieves (Q x) (f x) R"
  shows "achieves P (await m f) R"
proof (rule achievesI)
  fix s
  assume "P s"
  then obtain x s' where "m s = (Inr x, s')" "Q x s'" using achievesD [OF assms(1)] by blast
  then show "\<exists>y t. await m f s = (Inr y, t) \<and> R y t"
    using achievesD [OF assms(2)] by (simp add: await_ok)
qed

text \<open>A loop that adds one element to a set per turn.\<close>

lemma achieves_forEach:
  assumes "\<And>x S. x \<in> set xs \<Longrightarrow> achieves (I S) (f x) (\<lambda>_. I (insert (g x) S))"
  shows "achieves (I S) (forEach xs f) (\<lambda>_. I (S \<union> g ` set xs))"
  using assms
proof (induction xs arbitrary: S)
  case (Cons x xs)
  have "achieves (I S) (f x) (\<lambda>_. I (insert (g x) S))" using Cons.prems by simp
  moreover have "achieves (I (insert (g x) S)) (forEach xs f) (\<lambda>_. I (insert (g x) S \<union> g ` set xs))"
    using Cons.prems by (intro Cons.IH) simp
  ultimately show ?case by (simp add: achieves_await)
qed (simp add: achieves_ret)

subsection \<open>Tables\<close>

text \<open>
  A table is the list of its rows in storage order; queries that do not say an order see the
  rows in that order, and no theorem fixes it.
\<close>

definition findRow :: "('r \<Rightarrow> bool) \<Rightarrow> 'r list \<Rightarrow> 'r option" where
  "findRow p t = List.find p t"

definition updateRows :: "('r \<Rightarrow> bool) \<Rightarrow> ('r \<Rightarrow> 'r) \<Rightarrow> 'r list \<Rightarrow> 'r list" where
  "updateRows p f t = map (\<lambda>r. if p r then f r else r) t"

definition countRows :: "('r \<Rightarrow> bool) \<Rightarrow> 'r list \<Rightarrow> nat" where
  "countRows p t = length (filter p t)"

definition deleteRows :: "('r \<Rightarrow> bool) \<Rightarrow> 'r list \<Rightarrow> 'r list" where
  "deleteRows p t = filter (\<lambda>r. \<not> p r) t"

definition insertRow :: "'r \<Rightarrow> 'r list \<Rightarrow> 'r list" where
  "insertRow r t = t @ [r]"

definition existsRow :: "('r \<Rightarrow> bool) \<Rightarrow> 'r list \<Rightarrow> bool" where
  "existsRow p t = list_ex p t"

named_theorems table "equations about the rows of a table"

lemma set_insertRow [table, simp]: "set (insertRow r t) = insert r (set t)"
  by (simp add: insertRow_def)

lemma set_updateRows [table]: "set (updateRows p f t) = (\<lambda>r. if p r then f r else r) ` set t"
  by (simp add: updateRows_def)

lemma set_deleteRows [table, simp]: "set (deleteRows p t) = {r \<in> set t. \<not> p r}"
  by (auto simp: deleteRows_def)

lemma existsRow_iff [table]: "existsRow p t \<longleftrightarrow> (\<exists>r \<in> set t. p r)"
  by (simp add: existsRow_def list_ex_iff)

lemma findRow_Some: "findRow p t = Some r \<Longrightarrow> r \<in> set t \<and> p r"
  by (auto simp: findRow_def find_Some_iff)

lemma findRow_None_iff: "findRow p t = None \<longleftrightarrow> (\<forall>r \<in> set t. \<not> p r)"
  by (auto simp: findRow_def find_None_iff)

lemma findRow_exists: "r \<in> set t \<Longrightarrow> p r \<Longrightarrow> \<exists>q. findRow p t = Some q"
  by (metis findRow_None_iff not_None_eq)

lemma countRows_zero: "countRows p t = 0 \<longleftrightarrow> (\<forall>r \<in> set t. \<not> p r)"
  by (auto simp: countRows_def filter_empty_conv)

lemma countRows_pos: "r \<in> set t \<Longrightarrow> p r \<Longrightarrow> 0 < countRows p t"
  by (metis countRows_zero gr0I)

lemma countRows_insert [table, simp]:
  "countRows p (insertRow r t) = countRows p t + (if p r then 1 else 0)"
  by (simp add: countRows_def insertRow_def)

lemma map_updateRows:
  "(\<And>r. g (f r) = g r) \<Longrightarrow> map g (updateRows p f t) = map g t"
  by (simp add: updateRows_def)

lemma map_insertRow [table, simp]: "map g (insertRow r t) = map g t @ [g r]"
  by (simp add: insertRow_def)

lemma length_updateRows [table, simp]: "length (updateRows p f t) = length t"
  by (simp add: updateRows_def)

lemma countRows_updateRows:
  "(\<And>r. r \<in> set t \<Longrightarrow> q (if p r then f r else r) = q r) \<Longrightarrow>
     countRows q (updateRows p f t) = countRows q t"
  by (induction t) (auto simp: countRows_def updateRows_def)

text \<open>
  Queries by a column that the schema declares unique: what a lookup returns after an insert,
  after an update of other columns and after a delete. \<open>wf\<close> says that the column has no
  duplicate.
\<close>

locale keyed_table =
  fixes key :: "'r \<Rightarrow> 'k"
    and lookup :: "'k \<Rightarrow> 't \<Rightarrow> 'r option"
    and insert_row :: "'r \<Rightarrow> 't \<Rightarrow> 't"
    and update_key :: "'k \<Rightarrow> ('r \<Rightarrow> 'r) \<Rightarrow> 't \<Rightarrow> 't"
    and wf :: "'t \<Rightarrow> bool"
  assumes lookup_key: "lookup k t = Some r \<Longrightarrow> key r = k"
    and lookup_insert:
      "lookup (key r) t = None \<Longrightarrow> lookup k (insert_row r t) = (if k = key r then Some r else lookup k t)"
    and lookup_update:
      "wf t \<Longrightarrow> (\<And>r. key (f r) = key r) \<Longrightarrow>
         lookup k' (update_key k f t) = (if k' = k then map_option f (lookup k' t) else lookup k' t)"
    and wf_insert: "wf t \<Longrightarrow> lookup (key r) t = None \<Longrightarrow> wf (insert_row r t)"
    and wf_update: "wf t \<Longrightarrow> (\<And>r. key (f r) = key r) \<Longrightarrow> wf (update_key k f t)"
begin

lemma lookup_inserted: "lookup (key r) t = None \<Longrightarrow> lookup (key r) (insert_row r t) = Some r"
  by (simp add: lookup_insert)

lemma update_twice:
  assumes "wf t" and "\<And>r. key (f r) = key r" and "\<And>r. key (g r) = key r"
  shows "lookup k (update_key k g (update_key k f t)) = map_option (g \<circ> f) (lookup k t)"
  using assms by (simp add: lookup_update wf_update option.map_comp)

lemma update_other:
  "wf t \<Longrightarrow> (\<And>r. key (f r) = key r) \<Longrightarrow> k' \<noteq> k \<Longrightarrow> lookup k' (update_key k f t) = lookup k' t"
  by (simp add: lookup_update)

end

definition lookupBy :: "('r \<Rightarrow> 'k) \<Rightarrow> 'k \<Rightarrow> 'r list \<Rightarrow> 'r option" where
  "lookupBy key k t = findRow (\<lambda>r. key r = k) t"

definition updateBy :: "('r \<Rightarrow> 'k) \<Rightarrow> 'k \<Rightarrow> ('r \<Rightarrow> 'r) \<Rightarrow> 'r list \<Rightarrow> 'r list" where
  "updateBy key k f t = updateRows (\<lambda>r. key r = k) f t"

lemma updateBy_eta: "updateBy key k f = updateRows (\<lambda>r. key r = k) f"
  by (rule ext) (simp add: updateBy_def)

definition uniqueBy :: "('r \<Rightarrow> 'k) \<Rightarrow> 'r list \<Rightarrow> bool" where
  "uniqueBy key t \<longleftrightarrow> distinct (map key t)"

lemma lookupBy_Nil [simp]: "lookupBy key k [] = None"
  by (simp add: lookupBy_def findRow_def)

lemma lookupBy_Cons [simp]:
  "lookupBy key k (r # t) = (if key r = k then Some r else lookupBy key k t)"
  by (simp add: lookupBy_def findRow_def)

lemma lookupBy_append:
  "lookupBy key k (t @ u) = (case lookupBy key k t of None \<Rightarrow> lookupBy key k u | Some r \<Rightarrow> Some r)"
  by (induction t) auto

lemma lookupBy_in: "lookupBy key k t = Some r \<Longrightarrow> r \<in> set t \<and> key r = k"
  by (auto simp: lookupBy_def dest: findRow_Some)

lemma lookupBy_None_iff: "lookupBy key k t = None \<longleftrightarrow> (\<forall>r \<in> set t. key r \<noteq> k)"
  by (simp add: lookupBy_def findRow_None_iff)

lemma lookupBy_unique: "uniqueBy key t \<Longrightarrow> r \<in> set t \<Longrightarrow> lookupBy key (key r) t = Some r"
  by (induction t) (auto simp: uniqueBy_def)

lemma lookupBy_updateRows:
  "(\<And>r. key (f r) = key r) \<Longrightarrow>
     lookupBy key k (updateRows p f t) = map_option (\<lambda>r. if p r then f r else r) (lookupBy key k t)"
  by (induction t) (auto simp: updateRows_def)

lemma lookupBy_updateBy:
  "(\<And>r. key (f r) = key r) \<Longrightarrow>
     lookupBy key k' (updateBy key k f t) =
       (if k' = k then map_option f (lookupBy key k' t) else lookupBy key k' t)"
  by (induction t) (auto simp: updateBy_def updateRows_def)

lemma uniqueBy_updateRows:
  "(\<And>r. key (f r) = key r) \<Longrightarrow> uniqueBy key (updateRows p f t) = uniqueBy key t"
  by (simp add: uniqueBy_def map_updateRows)

lemma uniqueBy_insertRow:
  "uniqueBy key (insertRow r t) \<longleftrightarrow> uniqueBy key t \<and> lookupBy key (key r) t = None"
  by (auto simp: uniqueBy_def lookupBy_None_iff) (metis image_eqI)

interpretation rows: keyed_table key "lookupBy key" insertRow "updateBy key" "uniqueBy key"
  for key :: "'r \<Rightarrow> 'k"
proof
  show "lookupBy key k t = Some r \<Longrightarrow> key r = k" for k t r
    by (blast dest: lookupBy_in)
  show "lookupBy key (key r) t = None \<Longrightarrow>
      lookupBy key k (insertRow r t) = (if k = key r then Some r else lookupBy key k t)" for r t k
    by (auto simp: insertRow_def lookupBy_append split: option.splits)
  show "uniqueBy key t \<Longrightarrow> (\<And>r. key (f r) = key r) \<Longrightarrow>
      lookupBy key k' (updateBy key k f t) =
        (if k' = k then map_option f (lookupBy key k' t) else lookupBy key k' t)" for t f k k'
    by (rule lookupBy_updateBy)
  show "uniqueBy key t \<Longrightarrow> lookupBy key (key r) t = None \<Longrightarrow> uniqueBy key (insertRow r t)" for t r
    by (simp add: uniqueBy_insertRow)
  show "uniqueBy key t \<Longrightarrow> (\<And>r. key (f r) = key r) \<Longrightarrow> uniqueBy key (updateBy key k f t)" for t f k
    by (simp add: updateBy_def uniqueBy_updateRows)
qed

lemma uniqueBy_deleteRows: "uniqueBy key t \<Longrightarrow> uniqueBy key (deleteRows p t)"
  by (simp add: uniqueBy_def deleteRows_def distinct_map_filter)

lemma image_updateRows:
  assumes "\<And>r. key (f r) = key r"
  shows "key ` set (updateRows p f t) = key ` set t"
proof -
  have "map key (updateRows p f t) = map key t" using assms by (rule map_updateRows)
  then show ?thesis by (metis set_map)
qed

lemma image_keep_updateRows:
  "(\<And>r. h (f r) = h r) \<Longrightarrow> (\<Union>r \<in> set (updateRows p f t). h r) = (\<Union>r \<in> set t. h r)"
  by (auto simp: set_updateRows)

lemma uniqueBy_insert_free:
  assumes "uniqueBy key t" and "\<not> existsRow (clash r) t" and "\<And>r'. key r' = key r \<Longrightarrow> clash r r'"
  shows "uniqueBy key (insertRow r t)"
proof -
  have "lookupBy key (key r) t = None"
    using assms(2,3) by (auto simp: lookupBy_None_iff existsRow_iff)
  with assms(1) show ?thesis by (simp add: uniqueBy_insertRow)
qed

subsection \<open>Loops that may be run again\<close>

text \<open>
  The interface asks of every kind of step for what it leaves behind: a successful step is
  settled, it stays settled while the steps that may follow it run, and a settled step does nothing.
\<close>

locale rerunnable =
  fixes run :: "'st \<Rightarrow> ('e, 's, unit) act"
    and settled :: "'st \<Rightarrow> 's \<Rightarrow> bool"
    and steady :: "'st \<Rightarrow> bool"
    and before :: "'st \<Rightarrow> 'st \<Rightarrow> bool"
  assumes settles: "steady st \<Longrightarrow> run st s = (Inr (), s') \<Longrightarrow> settled st s'"
    and stays: "before st st' \<Longrightarrow> settled st s \<Longrightarrow> run st' s = (Inr (), s') \<Longrightarrow> settled st s'"
    and skips: "steady st \<Longrightarrow> settled st s \<Longrightarrow> run st s = (Inr (), s)"
begin

lemma stays_all:
  "\<forall>st' \<in> set sts. before st st' \<Longrightarrow> settled st s \<Longrightarrow> forEach sts run s = (Inr (), s') \<Longrightarrow> settled st s'"
  by (induction sts arbitrary: s) (auto simp: await_Inr_iff intro: stays)

lemma settles_all:
  "list_all steady sts \<Longrightarrow> sorted_wrt before sts \<Longrightarrow> forEach sts run s = (Inr (), s') \<Longrightarrow>
     \<forall>st \<in> set sts. settled st s'"
  by (induction sts arbitrary: s) (auto simp: await_Inr_iff intro: stays_all settles)

lemma skips_all: "list_all steady sts \<Longrightarrow> \<forall>st \<in> set sts. settled st s \<Longrightarrow> forEach sts run s = (Inr (), s)"
  by (induction sts) (auto simp: await_run skips)

lemma rerun:
  "list_all steady sts \<Longrightarrow> sorted_wrt before sts \<Longrightarrow> forEach sts run s = (Inr (), s') \<Longrightarrow>
     forEach sts run s' = (Inr (), s')"
  by (rule skips_all) (auto dest: settles_all)

end

subsection \<open>Strings of the language\<close>

text \<open>
  A string is a list of characters. \<^verbatim>\<open>String.prototype.trim\<close> removes white space at both
  ends and \<^verbatim>\<open>toLowerCase\<close> maps each letter; both are given on ASCII characters.
\<close>

definition is_space :: "char \<Rightarrow> bool" where
  "is_space c \<longleftrightarrow> (of_char c :: nat) \<in> {32, 9, 10, 11, 12, 13}"

definition trim :: "string \<Rightarrow> string" where
  "trim s = rev (dropWhile is_space (rev (dropWhile is_space s)))"

definition between :: "nat \<Rightarrow> nat \<Rightarrow> char \<Rightarrow> bool" where
  "between lo hi c \<longleftrightarrow> lo \<le> (of_char c :: nat) \<and> (of_char c :: nat) \<le> hi"

definition is_upper :: "char \<Rightarrow> bool" where "is_upper = between 65 90"

definition is_lower :: "char \<Rightarrow> bool" where "is_lower = between 97 122"

definition is_digit :: "char \<Rightarrow> bool" where "is_digit = between 48 57"

definition lower_char :: "char \<Rightarrow> char" where
  "lower_char c = (if is_upper c then char_of ((of_char c :: nat) + 32) else c)"

definition upper_char :: "char \<Rightarrow> char" where
  "upper_char c = (if is_lower c then char_of ((of_char c :: nat) - 32) else c)"

definition toLowerCase :: "string \<Rightarrow> string" where
  "toLowerCase s = map lower_char s"

definition toUpperCase :: "string \<Rightarrow> string" where
  "toUpperCase s = map upper_char s"

text \<open>An optional string is truthy when it is there and not empty.\<close>

definition truthy :: "string option \<Rightarrow> bool" where
  "truthy v = (case v of None \<Rightarrow> False | Some s \<Rightarrow> s \<noteq> [])"

definition orElse :: "'a option \<Rightarrow> 'a \<Rightarrow> 'a" where
  "orElse v d = (case v of None \<Rightarrow> d | Some x \<Rightarrow> x)"

lemma orElse_simps [simp]: "orElse None d = d" "orElse (Some x) d = x"
  by (simp_all add: orElse_def)

lemma truthy_simps [simp]: "\<not> truthy None" "truthy (Some s) \<longleftrightarrow> s \<noteq> []"
  by (simp_all add: truthy_def)

lemma is_upper_lower_char [simp]: "\<not> is_upper (lower_char c)"
proof (cases "is_upper c")
  case True
  define n :: nat where "n = of_char c"
  from True have n: "65 \<le> n" "n \<le> 90" by (auto simp: is_upper_def between_def n_def)
  then have "(of_char (char_of (n + 32) :: char) :: nat) = n + 32" by simp
  with True n show ?thesis by (simp add: lower_char_def is_upper_def between_def n_def [symmetric])
next
  case False
  then show ?thesis by (simp add: lower_char_def)
qed

lemma lower_char_idem [simp]: "lower_char (lower_char c) = lower_char c"
  by (subst lower_char_def) simp

lemma toLowerCase_idem [simp]: "toLowerCase (toLowerCase s) = toLowerCase s"
  by (simp add: toLowerCase_def)

lemma dropWhile_idem [simp]: "dropWhile p (dropWhile p xs) = dropWhile p xs"
  by (induction xs) auto

lemma trim_no_lead: "trim s = [] \<or> \<not> is_space (hd (trim s))"
proof -
  define u where "u = dropWhile is_space s"
  obtain v where v: "rev u = v @ dropWhile is_space (rev u)"
    by (metis takeWhile_dropWhile_id)
  then have u: "u = trim s @ rev v" by (metis rev_append rev_rev_ident trim_def u_def)
  show ?thesis
  proof (cases "trim s")
    case (Cons c cs)
    then have "u = c # cs @ rev v" using u by simp
    then have "\<not> is_space c" by (metis dropWhile_eq_Cons_conv u_def)
    with Cons show ?thesis by simp
  qed simp
qed

lemma dropWhile_trim: "dropWhile is_space (trim s) = trim s"
  using trim_no_lead [of s] by (cases "trim s") auto

lemma trim_idem [simp]: "trim (trim s) = trim s"
proof -
  have "dropWhile is_space (rev (trim s)) = rev (trim s)" by (simp add: trim_def)
  then show ?thesis using dropWhile_trim [of s] by (simp add: trim_def)
qed

lemma is_space_lower [simp]: "is_space (lower_char c) \<longleftrightarrow> is_space c"
proof (cases "is_upper c")
  case True
  from True have n: "65 \<le> (of_char c :: nat)" "(of_char c :: nat) \<le> 90"
    by (auto simp: is_upper_def between_def)
  then have "(of_char (lower_char c) :: nat) = of_char c + 32"
    using True by (simp add: lower_char_def)
  with n show ?thesis by (simp add: is_space_def)
next
  case False
  then show ?thesis by (simp add: lower_char_def)
qed

lemma trim_toLowerCase: "trim (toLowerCase s) = toLowerCase (trim s)"
  by (simp add: trim_def toLowerCase_def dropWhile_map rev_map comp_def)

text \<open>The dash of subjects and messages, in UTF-8.\<close>

definition em_dash :: string where
  "em_dash = [CHR 0xE2, CHR 0x80, CHR 0x94]"

text \<open>The decimal text of a number, as in a template literal.\<close>

fun nat_text :: "nat \<Rightarrow> string" where
  "nat_text n =
     (if n < 10 then [char_of (48 + n)] else nat_text (n div 10) @ [char_of (48 + n mod 10)])"

declare nat_text.simps [simp del]

text \<open>Different numbers have different texts.\<close>

definition text_nat :: "string \<Rightarrow> nat" where
  "text_nat s = foldl (\<lambda>n c. 10 * n + (of_char c - 48)) 0 s"

lemma text_nat_text: "text_nat (nat_text n) = n"
proof (induction n rule: nat_text.induct)
  case (1 n)
  show ?case
  proof (cases "n < 10")
    case True
    then show ?thesis by (subst nat_text.simps) (simp add: text_nat_def)
  next
    case False
    then have "text_nat (nat_text (n div 10)) = n div 10" by (rule 1)
    moreover have "n mod 10 < 10" by simp
    ultimately show ?thesis
      using False by (subst nat_text.simps) (simp add: text_nat_def)
  qed
qed

lemma inj_nat_text: "inj nat_text"
  by (rule inj_on_inverseI) (rule text_nat_text)

end
