(* ===== verification/Errors.thy ===== *)
theory Errors
  imports Prelude
begin

text \<open>
  The exceptions of the platform, \<^verbatim>\<open>libs/errors/src\<close>: the enumeration \<open>ErrorCode\<close>, one
  datatype per file of exception classes with the source's class names, the options each
  constructor hands to \<^verbatim>\<open>BosException\<close> (code, message, HTTP status, details), and the union
  \<open>bos_error\<close> of everything that a handler may throw: those classes, the built-in exceptions of
  the web framework that the sources construct with a message, and the errors of the database
  client, named by its documented codes. A \<open>cause\<close> is not kept.
\<close>

subsection \<open>JSON values\<close>

text \<open>\<open>JIso t\<close> is the ISO-8601 text of the instant \<open>t\<close> (\<^verbatim>\<open>Date.toISOString\<close>).\<close>

datatype json =
    JNull
  | JBool bool
  | JNum int
  | JStr string
  | JIso int
  | JArr "json list"
  | JObj "(string \<times> json) list"

subsection \<open>Error codes\<close>

datatype (plugins only: size) ErrorCode =
    INVALID_CREDENTIALS | ACCOUNT_LOCKED | EMAIL_NOT_VERIFIED
  | TWO_FACTOR_REQUIRED | TWO_FACTOR_INVALID | INVALID_TOKEN
  | TOKEN_EXPIRED | TOKEN_REVOKED | TOKEN_REUSE_DETECTED
  | REFRESH_TOKEN_INVALID | SESSION_NOT_FOUND | INVALID_INVITE
  | INVITE_EXPIRED | INVITE_ALREADY_USED | PASSWORD_RESET_INVALID
  | PASSWORD_RESET_EXPIRED | PASSWORD_TOO_WEAK | PASSWORD_REUSED
  | EMAIL_VERIFY_INVALID | EMAIL_VERIFY_EXPIRED | SSO_FAILED
  | TWO_FACTOR_NOT_ENABLED | TWO_FACTOR_ALREADY_ENABLED | IMPERSONATION_NOT_ALLOWED
  | IMPERSONATION_ACTION_BLOCKED | EMAIL_ALREADY_VERIFIED | USER_NOT_FOUND
  | USER_ALREADY_EXISTS | USER_INACTIVE | USER_SUSPENDED
  | USER_DELETED | TENANT_NOT_FOUND | TENANT_SUSPENDED
  | TENANT_PROVISIONING_FAILED | TENANT_NAME_TAKEN | TENANT_SLUG_TAKEN
  | INSUFFICIENT_PERMISSIONS | FORBIDDEN_RESOURCE | ROLE_NOT_FOUND
  | ROLE_IN_USE | CANNOT_REMOVE_LAST_OWNER | VALIDATION_FAILED
  | INVALID_INPUT | RATE_LIMIT_EXCEEDED | CUSTOM_FIELD_NOT_FOUND
  | CUSTOM_FIELD_KEY_CONFLICT | CONTACT_NOT_FOUND | LEAD_NOT_FOUND
  | LEAD_ALREADY_CONVERTED | TAG_NOT_FOUND | TAG_NAME_CONFLICT
  | CONTACT_LIST_NOT_FOUND | CONTACT_LIST_NAME_CONFLICT | CONTACT_SOURCE_NOT_FOUND
  | CONTACT_SOURCE_NAME_CONFLICT | LEAD_STATUS_NOT_FOUND | LEAD_STATUS_NAME_CONFLICT
  | CONTACT_ALREADY_IN_LIST | CONTACT_NOT_IN_LIST | LEAD_ACTIVITY_NOT_FOUND
  | TASK_NOT_FOUND | TASK_CHECKLIST_NOT_FOUND | TASK_CHECKLIST_ITEM_NOT_FOUND
  | DATABASE_ERROR | REDIS_ERROR | QUEUE_ERROR
  | EXTERNAL_SERVICE_ERROR | INTERNAL_ERROR

primrec code_value :: "ErrorCode \<Rightarrow> string" where
  "code_value INVALID_CREDENTIALS = ''AUTH_1001''"
| "code_value ACCOUNT_LOCKED = ''AUTH_1002''"
| "code_value EMAIL_NOT_VERIFIED = ''AUTH_1003''"
| "code_value TWO_FACTOR_REQUIRED = ''AUTH_1004''"
| "code_value TWO_FACTOR_INVALID = ''AUTH_1005''"
| "code_value INVALID_TOKEN = ''AUTH_1006''"
| "code_value TOKEN_EXPIRED = ''AUTH_1007''"
| "code_value TOKEN_REVOKED = ''AUTH_1008''"
| "code_value TOKEN_REUSE_DETECTED = ''AUTH_1009''"
| "code_value REFRESH_TOKEN_INVALID = ''AUTH_1010''"
| "code_value SESSION_NOT_FOUND = ''AUTH_1011''"
| "code_value INVALID_INVITE = ''AUTH_1012''"
| "code_value INVITE_EXPIRED = ''AUTH_1013''"
| "code_value INVITE_ALREADY_USED = ''AUTH_1014''"
| "code_value PASSWORD_RESET_INVALID = ''AUTH_1015''"
| "code_value PASSWORD_RESET_EXPIRED = ''AUTH_1016''"
| "code_value PASSWORD_TOO_WEAK = ''AUTH_1017''"
| "code_value PASSWORD_REUSED = ''AUTH_1018''"
| "code_value EMAIL_VERIFY_INVALID = ''AUTH_1019''"
| "code_value EMAIL_VERIFY_EXPIRED = ''AUTH_1020''"
| "code_value SSO_FAILED = ''AUTH_1021''"
| "code_value TWO_FACTOR_NOT_ENABLED = ''AUTH_1022''"
| "code_value TWO_FACTOR_ALREADY_ENABLED = ''AUTH_1023''"
| "code_value IMPERSONATION_NOT_ALLOWED = ''AUTH_1024''"
| "code_value IMPERSONATION_ACTION_BLOCKED = ''AUTH_1025''"
| "code_value EMAIL_ALREADY_VERIFIED = ''AUTH_1026''"
| "code_value USER_NOT_FOUND = ''USER_2001''"
| "code_value USER_ALREADY_EXISTS = ''USER_2002''"
| "code_value USER_INACTIVE = ''USER_2003''"
| "code_value USER_SUSPENDED = ''USER_2004''"
| "code_value USER_DELETED = ''USER_2005''"
| "code_value TENANT_NOT_FOUND = ''TENANT_3001''"
| "code_value TENANT_SUSPENDED = ''TENANT_3002''"
| "code_value TENANT_PROVISIONING_FAILED = ''TENANT_3003''"
| "code_value TENANT_NAME_TAKEN = ''TENANT_3004''"
| "code_value TENANT_SLUG_TAKEN = ''TENANT_3005''"
| "code_value INSUFFICIENT_PERMISSIONS = ''PERM_4001''"
| "code_value FORBIDDEN_RESOURCE = ''PERM_4002''"
| "code_value ROLE_NOT_FOUND = ''PERM_4003''"
| "code_value ROLE_IN_USE = ''PERM_4004''"
| "code_value CANNOT_REMOVE_LAST_OWNER = ''PERM_4005''"
| "code_value VALIDATION_FAILED = ''VAL_5001''"
| "code_value INVALID_INPUT = ''VAL_5002''"
| "code_value RATE_LIMIT_EXCEEDED = ''RATE_6001''"
| "code_value CUSTOM_FIELD_NOT_FOUND = ''CF_7001''"
| "code_value CUSTOM_FIELD_KEY_CONFLICT = ''CF_7002''"
| "code_value CONTACT_NOT_FOUND = ''CRM_8001''"
| "code_value LEAD_NOT_FOUND = ''CRM_8002''"
| "code_value LEAD_ALREADY_CONVERTED = ''CRM_8003''"
| "code_value TAG_NOT_FOUND = ''CRM_8004''"
| "code_value TAG_NAME_CONFLICT = ''CRM_8005''"
| "code_value CONTACT_LIST_NOT_FOUND = ''CRM_8006''"
| "code_value CONTACT_LIST_NAME_CONFLICT = ''CRM_8007''"
| "code_value CONTACT_SOURCE_NOT_FOUND = ''CRM_8008''"
| "code_value CONTACT_SOURCE_NAME_CONFLICT = ''CRM_8009''"
| "code_value LEAD_STATUS_NOT_FOUND = ''CRM_8010''"
| "code_value LEAD_STATUS_NAME_CONFLICT = ''CRM_8011''"
| "code_value CONTACT_ALREADY_IN_LIST = ''CRM_8012''"
| "code_value CONTACT_NOT_IN_LIST = ''CRM_8013''"
| "code_value LEAD_ACTIVITY_NOT_FOUND = ''CRM_8014''"
| "code_value TASK_NOT_FOUND = ''CRM_8015''"
| "code_value TASK_CHECKLIST_NOT_FOUND = ''CRM_8016''"
| "code_value TASK_CHECKLIST_ITEM_NOT_FOUND = ''CRM_8017''"
| "code_value DATABASE_ERROR = ''INFRA_9001''"
| "code_value REDIS_ERROR = ''INFRA_9002''"
| "code_value QUEUE_ERROR = ''INFRA_9003''"
| "code_value EXTERNAL_SERVICE_ERROR = ''INFRA_9004''"
| "code_value INTERNAL_ERROR = ''INFRA_9999''"

definition ErrorCodes :: "ErrorCode list" where
  "ErrorCodes = [
     INVALID_CREDENTIALS, ACCOUNT_LOCKED, EMAIL_NOT_VERIFIED,
     TWO_FACTOR_REQUIRED, TWO_FACTOR_INVALID, INVALID_TOKEN,
     TOKEN_EXPIRED, TOKEN_REVOKED, TOKEN_REUSE_DETECTED,
     REFRESH_TOKEN_INVALID, SESSION_NOT_FOUND, INVALID_INVITE,
     INVITE_EXPIRED, INVITE_ALREADY_USED, PASSWORD_RESET_INVALID,
     PASSWORD_RESET_EXPIRED, PASSWORD_TOO_WEAK, PASSWORD_REUSED,
     EMAIL_VERIFY_INVALID, EMAIL_VERIFY_EXPIRED, SSO_FAILED,
     TWO_FACTOR_NOT_ENABLED, TWO_FACTOR_ALREADY_ENABLED, IMPERSONATION_NOT_ALLOWED,
     IMPERSONATION_ACTION_BLOCKED, EMAIL_ALREADY_VERIFIED, USER_NOT_FOUND,
     USER_ALREADY_EXISTS, USER_INACTIVE, USER_SUSPENDED,
     USER_DELETED, TENANT_NOT_FOUND, TENANT_SUSPENDED,
     TENANT_PROVISIONING_FAILED, TENANT_NAME_TAKEN, TENANT_SLUG_TAKEN,
     INSUFFICIENT_PERMISSIONS, FORBIDDEN_RESOURCE, ROLE_NOT_FOUND,
     ROLE_IN_USE, CANNOT_REMOVE_LAST_OWNER, VALIDATION_FAILED,
     INVALID_INPUT, RATE_LIMIT_EXCEEDED, CUSTOM_FIELD_NOT_FOUND,
     CUSTOM_FIELD_KEY_CONFLICT, CONTACT_NOT_FOUND, LEAD_NOT_FOUND,
     LEAD_ALREADY_CONVERTED, TAG_NOT_FOUND, TAG_NAME_CONFLICT,
     CONTACT_LIST_NOT_FOUND, CONTACT_LIST_NAME_CONFLICT, CONTACT_SOURCE_NOT_FOUND,
     CONTACT_SOURCE_NAME_CONFLICT, LEAD_STATUS_NOT_FOUND, LEAD_STATUS_NAME_CONFLICT,
     CONTACT_ALREADY_IN_LIST, CONTACT_NOT_IN_LIST, LEAD_ACTIVITY_NOT_FOUND,
     TASK_NOT_FOUND, TASK_CHECKLIST_NOT_FOUND, TASK_CHECKLIST_ITEM_NOT_FOUND,
     DATABASE_ERROR, REDIS_ERROR, QUEUE_ERROR,
     EXTERNAL_SERVICE_ERROR, INTERNAL_ERROR]"

subsection \<open>Exception classes\<close>

text \<open>\<^verbatim>\<open>BosExceptionOptions\<close>; the status defaults to 500 in the constructor of \<^verbatim>\<open>BosException\<close>.\<close>

record BosExceptionOptions =
  bx_code :: ErrorCode
  bx_message :: string
  bx_statusCode :: "nat option"
  bx_details :: "(string \<times> json) list option"

definition bos :: "ErrorCode \<Rightarrow> string \<Rightarrow> nat \<Rightarrow> (string \<times> json) list option \<Rightarrow> BosExceptionOptions" where
  "bos c m st d = \<lparr>bx_code = c, bx_message = m, bx_statusCode = Some st, bx_details = d\<rparr>"

definition BosException_status :: "BosExceptionOptions \<Rightarrow> nat" where
  "BosException_status x = orElse (bx_statusCode x) 500"

text \<open>\<^verbatim>\<open>auth.exceptions.ts\<close>: login, tokens, sessions and invites.\<close>

datatype auth_error =
    InvalidCredentialsException
  | AccountLockedException "int option"
  | EmailNotVerifiedException
  | TwoFactorRequiredException string
  | TwoFactorInvalidException
  | InvalidTokenException "string option"
  | TokenExpiredException
  | TokenRevokedException
  | TokenReuseDetectedException
  | RefreshTokenInvalidException
  | SessionNotFoundException
  | InvalidInviteException
  | InviteExpiredException
  | InviteAlreadyUsedException

primrec auth_options :: "auth_error \<Rightarrow> BosExceptionOptions" where
  "auth_options InvalidCredentialsException =
     bos INVALID_CREDENTIALS ''Invalid email or password'' 401 None"
| "auth_options (AccountLockedException unlockAt) =
     bos ACCOUNT_LOCKED
       ''Account is locked due to too many failed login attempts'' 423
       (map_option (\<lambda>u. [(''unlockAt'', JIso u)]) unlockAt)"
| "auth_options EmailNotVerifiedException =
     bos EMAIL_NOT_VERIFIED ''Email address has not been verified'' 403 None"
| "auth_options (TwoFactorRequiredException tempToken) =
     bos TWO_FACTOR_REQUIRED
       ''Two-factor authentication is required'' 200
       (Some [(''tempToken'', JStr tempToken), (''requires2FA'', JBool True)])"
| "auth_options TwoFactorInvalidException =
     bos TWO_FACTOR_INVALID ''Invalid two-factor authentication code'' 401 None"
| "auth_options (InvalidTokenException detail) =
     bos INVALID_TOKEN (orElse detail ''Invalid authentication token'') 401 None"
| "auth_options TokenExpiredException =
     bos TOKEN_EXPIRED ''Authentication token has expired'' 401 None"
| "auth_options TokenRevokedException =
     bos TOKEN_REVOKED ''Authentication token has been revoked'' 401 None"
| "auth_options TokenReuseDetectedException =
     bos TOKEN_REUSE_DETECTED
       ''Refresh token reuse detected; session terminated for security'' 401
       None"
| "auth_options RefreshTokenInvalidException =
     bos REFRESH_TOKEN_INVALID ''Refresh token is invalid or expired'' 401 None"
| "auth_options SessionNotFoundException =
     bos SESSION_NOT_FOUND ''Session not found or expired'' 401 None"
| "auth_options InvalidInviteException =
     bos INVALID_INVITE ''Invitation token is invalid'' 400 None"
| "auth_options InviteExpiredException =
     bos INVITE_EXPIRED ''Invitation has expired'' 400 None"
| "auth_options InviteAlreadyUsedException =
     bos INVITE_ALREADY_USED ''Invitation has already been accepted'' 409 None"

text \<open>\<^verbatim>\<open>auth.exceptions.ts\<close>: passwords, e-mail verification, second factor, impersonation.\<close>

datatype account_error =
    PasswordResetInvalidException
  | PasswordResetExpiredException
  | PasswordTooWeakException "string list option"
  | PasswordReusedException
  | EmailVerifyInvalidException
  | EmailVerifyExpiredException
  | SsoFailedException string "string option"
  | TwoFactorNotEnabledException
  | TwoFactorAlreadyEnabledException
  | UserAlreadyVerifiedException
  | ImpersonationNotAllowedException
  | ImpersonationActionBlockedException string

primrec account_options :: "account_error \<Rightarrow> BosExceptionOptions" where
  "account_options PasswordResetInvalidException =
     bos PASSWORD_RESET_INVALID ''Password reset token is invalid'' 400 None"
| "account_options PasswordResetExpiredException =
     bos PASSWORD_RESET_EXPIRED ''Password reset token has expired'' 400 None"
| "account_options (PasswordTooWeakException requirements) =
     bos PASSWORD_TOO_WEAK
       ''Password does not meet security requirements'' 400
       (map_option (\<lambda>r. [(''requirements'', JArr (map JStr r))]) requirements)"
| "account_options PasswordReusedException =
     bos PASSWORD_REUSED ''Password cannot be one of your recent passwords'' 400 None"
| "account_options EmailVerifyInvalidException =
     bos EMAIL_VERIFY_INVALID ''Email verification token is invalid'' 400 None"
| "account_options EmailVerifyExpiredException =
     bos EMAIL_VERIFY_EXPIRED ''Email verification token has expired'' 400 None"
| "account_options (SsoFailedException provider reason) =
     bos SSO_FAILED
       (''SSO authentication with '' @ provider @ '' failed'') 401
       (if truthy reason then Some [(''reason'', JStr (the reason))] else None)"
| "account_options TwoFactorNotEnabledException =
     bos TWO_FACTOR_NOT_ENABLED ''Two-factor authentication is not enabled'' 400 None"
| "account_options TwoFactorAlreadyEnabledException =
     bos TWO_FACTOR_ALREADY_ENABLED ''Two-factor authentication is already enabled'' 409 None"
| "account_options UserAlreadyVerifiedException =
     bos EMAIL_ALREADY_VERIFIED ''Email address has already been verified'' 409 None"
| "account_options ImpersonationNotAllowedException =
     bos IMPERSONATION_NOT_ALLOWED
       ''Impersonation is not permitted for this action'' 403
       None"
| "account_options (ImpersonationActionBlockedException action) =
     bos IMPERSONATION_ACTION_BLOCKED
       (''Action '' @ [CHR 0x27] @ action @ [CHR 0x27] @ '' is blocked during impersonation'') 403
       (Some [(''action'', JStr action)])"

text \<open>\<^verbatim>\<open>user.exceptions.ts\<close>.\<close>

datatype user_error =
    UserNotFoundException
  | UserAlreadyExistsException
  | UserInactiveException
  | UserSuspendedException

primrec user_options :: "user_error \<Rightarrow> BosExceptionOptions" where
  "user_options UserNotFoundException =
     bos USER_NOT_FOUND ''User not found'' 404 None"
| "user_options UserAlreadyExistsException =
     bos USER_ALREADY_EXISTS ''A user with this email already exists'' 409 None"
| "user_options UserInactiveException =
     bos USER_INACTIVE ''User account is not active'' 403 None"
| "user_options UserSuspendedException =
     bos USER_SUSPENDED ''User account has been suspended'' 403 None"

text \<open>\<^verbatim>\<open>tenant.exceptions.ts\<close>.\<close>

datatype tenant_error =
    TenantNotFoundException
  | TenantSuspendedException
  | TenantProvisioningFailedException "string option"
  | TenantNameTakenException
  | TenantSlugTakenException

primrec tenant_options :: "tenant_error \<Rightarrow> BosExceptionOptions" where
  "tenant_options TenantNotFoundException =
     bos TENANT_NOT_FOUND ''Tenant not found'' 404 None"
| "tenant_options TenantSuspendedException =
     bos TENANT_SUSPENDED ''Tenant has been suspended'' 403 None"
| "tenant_options (TenantProvisioningFailedException reason) =
     bos TENANT_PROVISIONING_FAILED
       ''Tenant provisioning failed'' 500
       (if truthy reason then Some [(''reason'', JStr (the reason))] else None)"
| "tenant_options TenantNameTakenException =
     bos TENANT_NAME_TAKEN ''Tenant name is already taken'' 409 None"
| "tenant_options TenantSlugTakenException =
     bos TENANT_SLUG_TAKEN ''Tenant slug is already taken'' 409 None"

text \<open>\<^verbatim>\<open>permission.exceptions.ts\<close>.\<close>

datatype permission_error =
    InsufficientPermissionsException "string list option"
  | ForbiddenResourceException
  | RoleNotFoundException
  | RoleInUseException nat
  | CannotRemoveLastOwnerException

primrec permission_options :: "permission_error \<Rightarrow> BosExceptionOptions" where
  "permission_options (InsufficientPermissionsException required) =
     bos INSUFFICIENT_PERMISSIONS
       ''You do not have permission to perform this action'' 403
       (map_option (\<lambda>r. [(''required'', JArr (map JStr r))]) required)"
| "permission_options ForbiddenResourceException =
     bos FORBIDDEN_RESOURCE ''Access to this resource is forbidden'' 403 None"
| "permission_options RoleNotFoundException =
     bos ROLE_NOT_FOUND ''Role not found'' 404 None"
| "permission_options (RoleInUseException userCount) =
     bos ROLE_IN_USE
       ''Role cannot be deleted while assigned to users'' 409
       (Some [(''userCount'', JNum (int userCount))])"
| "permission_options CannotRemoveLastOwnerException =
     bos CANNOT_REMOVE_LAST_OWNER ''Cannot remove the last owner of a tenant'' 409 None"

text \<open>\<^verbatim>\<open>validation.exception.ts\<close>.\<close>

datatype validation_error =
    ValidationFailedException json
  | InvalidInputException string "string option"

primrec validation_options :: "validation_error \<Rightarrow> BosExceptionOptions" where
  "validation_options (ValidationFailedException errors) =
     bos VALIDATION_FAILED ''Validation failed'' 422 (Some [(''errors'', errors)])"
| "validation_options (InvalidInputException message field) =
     bos INVALID_INPUT
       message 400
       (if truthy field then Some [(''field'', JStr (the field))] else None)"

text \<open>\<^verbatim>\<open>custom-field.exceptions.ts\<close>.\<close>

datatype custom_field_error =
    CustomFieldNotFoundException
  | CustomFieldKeyConflictException string string

primrec custom_field_options :: "custom_field_error \<Rightarrow> BosExceptionOptions" where
  "custom_field_options CustomFieldNotFoundException =
     bos CUSTOM_FIELD_NOT_FOUND ''Custom field definition not found'' 404 None"
| "custom_field_options (CustomFieldKeyConflictException entityType key) =
     bos CUSTOM_FIELD_KEY_CONFLICT
       (''A custom field with key '' @ [CHR 0x27] @ key @ [CHR 0x27] @ '' already exists for entity type '' @ [CHR 0x27] @ entityType @ [CHR 0x27]) 409
       None"

text \<open>\<^verbatim>\<open>crm.exceptions.ts\<close>.\<close>

datatype crm_error =
    ContactNotFoundException
  | LeadNotFoundException
  | LeadAlreadyConvertedException
  | TagNotFoundException
  | TagNameConflictException string
  | ContactListNotFoundException
  | ContactListNameConflictException string
  | ContactSourceNotFoundException
  | ContactSourceNameConflictException string
  | LeadStatusNotFoundException
  | LeadStatusNameConflictException string
  | ContactAlreadyInListException
  | ContactNotInListException
  | LeadActivityNotFoundException
  | TaskNotFoundException
  | TaskChecklistNotFoundException
  | TaskChecklistItemNotFoundException

primrec crm_options :: "crm_error \<Rightarrow> BosExceptionOptions" where
  "crm_options ContactNotFoundException =
     bos CONTACT_NOT_FOUND ''Contact not found'' 404 None"
| "crm_options LeadNotFoundException =
     bos LEAD_NOT_FOUND ''Lead not found'' 404 None"
| "crm_options LeadAlreadyConvertedException =
     bos LEAD_ALREADY_CONVERTED ''Lead has already been converted'' 409 None"
| "crm_options TagNotFoundException =
     bos TAG_NOT_FOUND ''Tag not found'' 404 None"
| "crm_options (TagNameConflictException name) =
     bos TAG_NAME_CONFLICT
       (''A tag named '' @ [CHR 0x27] @ name @ [CHR 0x27] @ '' already exists'') 409
       None"
| "crm_options ContactListNotFoundException =
     bos CONTACT_LIST_NOT_FOUND ''Contact list not found'' 404 None"
| "crm_options (ContactListNameConflictException name) =
     bos CONTACT_LIST_NAME_CONFLICT
       (''A contact list named '' @ [CHR 0x27] @ name @ [CHR 0x27] @ '' already exists in this branch'') 409
       None"
| "crm_options ContactSourceNotFoundException =
     bos CONTACT_SOURCE_NOT_FOUND ''Contact source not found'' 404 None"
| "crm_options (ContactSourceNameConflictException name) =
     bos CONTACT_SOURCE_NAME_CONFLICT
       (''A source named '' @ [CHR 0x27] @ name @ [CHR 0x27] @ '' already exists in this branch'') 409
       None"
| "crm_options LeadStatusNotFoundException =
     bos LEAD_STATUS_NOT_FOUND ''Lead status not found'' 404 None"
| "crm_options (LeadStatusNameConflictException name) =
     bos LEAD_STATUS_NAME_CONFLICT
       (''A lead status named '' @ [CHR 0x27] @ name @ [CHR 0x27] @ '' already exists in this branch'') 409
       None"
| "crm_options ContactAlreadyInListException =
     bos CONTACT_ALREADY_IN_LIST ''Contact is already a member of this list'' 409 None"
| "crm_options ContactNotInListException =
     bos CONTACT_NOT_IN_LIST ''Contact is not a member of this list'' 404 None"
| "crm_options LeadActivityNotFoundException =
     bos LEAD_ACTIVITY_NOT_FOUND ''Lead activity not found'' 404 None"
| "crm_options TaskNotFoundException =
     bos TASK_NOT_FOUND ''Task not found'' 404 None"
| "crm_options TaskChecklistNotFoundException =
     bos TASK_CHECKLIST_NOT_FOUND ''Task checklist not found'' 404 None"
| "crm_options TaskChecklistItemNotFoundException =
     bos TASK_CHECKLIST_ITEM_NOT_FOUND ''Task checklist item not found'' 404 None"

text \<open>\<^verbatim>\<open>infrastructure.exceptions.ts\<close>.\<close>

datatype infrastructure_error =
    DatabaseException string
  | RedisException string
  | QueueException string
  | ExternalServiceException string string
  | RateLimitExceededException "nat option"

primrec infrastructure_options :: "infrastructure_error \<Rightarrow> BosExceptionOptions" where
  "infrastructure_options (DatabaseException message) =
     bos DATABASE_ERROR message 500 None"
| "infrastructure_options (RedisException message) =
     bos REDIS_ERROR message 500 None"
| "infrastructure_options (QueueException message) =
     bos QUEUE_ERROR message 500 None"
| "infrastructure_options (ExternalServiceException service message) =
     bos EXTERNAL_SERVICE_ERROR
       (''External service '' @ [CHR 0x27] @ service @ [CHR 0x27] @ '' failed: '' @ message) 502
       (Some [(''service'', JStr service)])"
| "infrastructure_options (RateLimitExceededException retryAfterSeconds) =
     bos RATE_LIMIT_EXCEEDED
       ''Rate limit exceeded'' 429
       (case retryAfterSeconds of None \<Rightarrow> None | Some n \<Rightarrow> if n = 0 then None else Some [(''retryAfterSeconds'', JNum (int n))])"

subsection \<open>Everything a handler throws\<close>

text \<open>
  The built-in exceptions of the web framework, each with the HTTP status that its documentation
  gives, and the request errors of the database client that the sources can meet: a unique
  constraint (\<open>P2002\<close>), a foreign key (\<open>P2003\<close>), a table of a schema that does not exist
  (\<open>P2021\<close>), a value that its column does not take, such as a text that is no
  identifier (\<open>P2023\<close>), a row to update, delete or connect to that does not
  exist (\<open>P2025\<close>), an argument that the client rejects before it asks the database
  (\<open>PrismaValidation\<close>).
\<close>

datatype nest_exception =
    BadRequestException string
  | UnauthorizedException string
  | ForbiddenException string
  | NotFoundException string
  | ConflictException string
  | UnprocessableEntityException string

datatype prisma_error = P2002 | P2003 | P2021 | P2023 | P2025 | PrismaValidation

datatype bos_error =
    Auth auth_error
  | Account account_error
  | User user_error
  | Tenant tenant_error
  | Permission permission_error
  | Validation validation_error
  | CustomField custom_field_error
  | Crm crm_error
  | Infrastructure infrastructure_error
  | Nest nest_exception
  | Prisma prisma_error
  | PlainError string

primrec nest_status :: "nest_exception \<Rightarrow> nat" where
  "nest_status (BadRequestException m) = 400"
| "nest_status (UnauthorizedException m) = 401"
| "nest_status (ForbiddenException m) = 403"
| "nest_status (NotFoundException m) = 404"
| "nest_status (ConflictException m) = 409"
| "nest_status (UnprocessableEntityException m) = 422"

primrec nest_message :: "nest_exception \<Rightarrow> string" where
  "nest_message (BadRequestException m) = m"
| "nest_message (UnauthorizedException m) = m"
| "nest_message (ForbiddenException m) = m"
| "nest_message (NotFoundException m) = m"
| "nest_message (ConflictException m) = m"
| "nest_message (UnprocessableEntityException m) = m"

text \<open>The options of an error that is a \<^verbatim>\<open>BosException\<close>.\<close>

primrec bos_options :: "bos_error \<Rightarrow> BosExceptionOptions option" where
  "bos_options (Auth e) = Some (auth_options e)"
| "bos_options (Account e) = Some (account_options e)"
| "bos_options (User e) = Some (user_options e)"
| "bos_options (Tenant e) = Some (tenant_options e)"
| "bos_options (Permission e) = Some (permission_options e)"
| "bos_options (Validation e) = Some (validation_options e)"
| "bos_options (CustomField e) = Some (custom_field_options e)"
| "bos_options (Crm e) = Some (crm_options e)"
| "bos_options (Infrastructure e) = Some (infrastructure_options e)"
| "bos_options (Nest e) = None"
| "bos_options (Prisma e) = None"
| "bos_options (PlainError m) = None"

text \<open>The handlers of the development.\<close>

type_synonym ('s, 'a) handler = "(bos_error, 's, 'a) act"

end
