(* ===== verification/Core_Schema.thy ===== *)
theory Core_Schema
  imports Errors
begin

text \<open>
  The rows of the platform-wide database, \<^verbatim>\<open>prisma/core/schema.prisma\<close>, and the enumerations of
  \<^verbatim>\<open>libs/common/src/enums\<close> that they use. A row is a record with the columns of its model, in the
  schema's order, less the column \<^verbatim>\<open>updatedAt\<close> that the client maintains and no code reads. An
  instant is the number of milliseconds since the epoch, an identifier its text, a nullable column
  an option. Constructors of enumerations are written qualified, as in the sources:
  \<open>UserStatus.ACTIVE\<close>.
\<close>

subsection \<open>Enumerations\<close>

datatype UserStatus = INVITED | PENDING_VERIFICATION | ACTIVE | LOCKED | SUSPENDED | DELETED

datatype TenantStatus = PROVISIONING | ACTIVE | SUSPENDED | DELETED

datatype TenantMembershipStatus = INVITED | ACTIVE | SUSPENDED | LEFT

datatype SessionScope = TENANT | PLATFORM | IMPERSONATION

datatype SessionEndReason =
    LOGOUT
  | EXPIRED
  | REVOKED_BY_ADMIN
  | PASSWORD_CHANGED
  | TOKEN_REUSE_DETECTED
  | USER_SUSPENDED
  | TENANT_SUSPENDED
  | IMPERSONATION_ENDED

datatype VerticalType = MEDICAL | LAW | RESTAURANT | SCHOOL | GYM

datatype ModuleKey =
    CONTACTS
  | STAFF
  | BRANCHES
  | ROLES_PERMISSIONS
  | NOTES_ACTIVITIES
  | DOCUMENTS
  | DEALS_PIPELINE
  | APPOINTMENTS
  | CALENDAR
  | BILLING
  | INVENTORY
  | AI_LEADS
  | CAMPAIGNS
  | WORKFLOWS
  | MEDIA_LIBRARY
  | WHATSAPP

datatype EmailTemplateId = VERIFY_EMAIL | PASSWORD_RESET | STAFF_INVITE | TASK_ASSIGNED

text \<open>The texts of the enumerations that appear in tokens, templates and seeds.\<close>

primrec scope_text :: "SessionScope \<Rightarrow> string" where
  "scope_text TENANT = ''tenant''"
| "scope_text PLATFORM = ''platform''"
| "scope_text IMPERSONATION = ''impersonation''"

primrec vertical_text :: "VerticalType \<Rightarrow> string" where
  "vertical_text MEDICAL = ''medical''"
| "vertical_text LAW = ''law''"
| "vertical_text RESTAURANT = ''restaurant''"
| "vertical_text SCHOOL = ''school''"
| "vertical_text GYM = ''gym''"

subsection \<open>Rows\<close>

record tenant_plan =
  p_id :: string
  p_slug :: string
  p_name :: string
  p_isActive :: bool

record tenant =
  t_id :: string
  t_name :: string
  t_slug :: string
  t_vertical :: "VerticalType option"
  t_status :: TenantStatus
  t_schemaName :: string
  t_planId :: string
  t_ownerUserId :: string
  t_locale :: string
  t_timezone :: string
  t_onboardingCompleted :: bool
  t_goals :: "string list"
  t_businessPhone :: "string option"
  t_businessCity :: "string option"
  t_websiteUrl :: "string option"
  t_logoUrl :: "string option"

record user =
  u_id :: string
  u_email :: string
  u_emailVerified :: bool
  u_passwordHash :: "string option"
  u_firstName :: "string option"
  u_lastName :: "string option"
  u_avatarUrl :: "string option"
  u_phone :: "string option"
  u_locale :: "string option"
  u_timezone :: "string option"
  u_status :: UserStatus
  u_twoFactorEnabled :: bool
  u_twoFactorSecret :: "string option"
  u_twoFactorBackupCodes :: "string list"
  u_lockedUntil :: "int option"
  u_lastLoginAt :: "int option"
  u_lastLoginIp :: "string option"
  u_deletedAt :: "int option"
  u_createdAt :: int

record tenant_membership =
  tm_id :: string
  tm_userId :: string
  tm_tenantId :: string
  tm_status :: TenantMembershipStatus
  tm_joinedAt :: "int option"
  tm_leftAt :: "int option"
  tm_leftReason :: "string option"
  tm_createdAt :: int

record session =
  s_id :: string
  s_userId :: string
  s_scope :: SessionScope
  s_tenantId :: "string option"
  s_activeBranchId :: "string option"
  s_ipAddress :: "string option"
  s_userAgent :: "string option"
  s_createdAt :: int
  s_lastActiveAt :: int
  s_endedAt :: "int option"
  s_endReason :: "SessionEndReason option"

record refresh_token =
  rt_id :: string
  rt_tokenHash :: string
  rt_userId :: string
  rt_sessionId :: string
  rt_familyId :: string
  rt_parentId :: "string option"
  rt_expiresAt :: int
  rt_usedAt :: "int option"
  rt_revokedAt :: "int option"
  rt_revokedReason :: "string option"
  rt_createdAt :: int

record user_invite =
  ui_id :: string
  ui_tokenHash :: string
  ui_userId :: string
  ui_tenantId :: string
  ui_invitedByUserId :: string
  ui_roleId :: string
  ui_branchId :: "string option"
  ui_email :: string
  ui_expiresAt :: int
  ui_acceptedAt :: "int option"
  ui_revokedAt :: "int option"
  ui_createdAt :: int

record password_reset =
  pr_id :: string
  pr_tokenHash :: string
  pr_userId :: string
  pr_expiresAt :: int
  pr_usedAt :: "int option"
  pr_createdAt :: int

record email_verification =
  ev_id :: string
  ev_tokenHash :: string
  ev_userId :: string
  ev_email :: string
  ev_expiresAt :: int
  ev_verifiedAt :: "int option"
  ev_createdAt :: int

text \<open>A job of the mail queue, \<^verbatim>\<open>SendEmailJobPayload\<close> of \<^verbatim>\<open>libs/queue/src/queue.types.ts\<close>.\<close>

record SendEmailJobPayload =
  m_tenantId :: "string option"
  m_recipientEmail :: string
  m_subject :: string
  m_templateId :: EmailTemplateId
  m_templateData :: "(string \<times> json) list"
  m_triggeredByUserId :: "string option"
  m_correlationId :: "string option"

text \<open>
  \<^verbatim>\<open>OutboundMessage\<close> of \<^verbatim>\<open>prisma/volatile/schema.prisma\<close>, with the states that its enumeration has.
\<close>

datatype MessageChannel = email_channel | sms_channel | push_channel

datatype MessageType = transactional | campaign | notification

datatype MessageStatus = queued | sending | sent | failed | cancelled

record outbound_message =
  om_id :: string
  om_tenantId :: "string option"
  om_channel :: MessageChannel
  om_messageType :: MessageType
  om_recipientEmail :: string
  om_subject :: string
  om_templateId :: EmailTemplateId
  om_templateData :: "(string \<times> json) list"
  om_status :: MessageStatus
  om_providerId :: "string option"
  om_errorMessage :: "string option"
  om_retryCount :: int
  om_triggeredByUserId :: "string option"
  om_correlationId :: "string option"
  om_sentAt :: "int option"
  om_createdAt :: int

text \<open>The modules of a tenant, and what is seeded for a vertical.\<close>

record tenant_module =
  mo_id :: string
  mo_tenantId :: string
  mo_moduleKey :: ModuleKey
  mo_isEnabled :: bool
  mo_enabledAt :: int
  mo_enabledBy :: "string option"

record module_preset =
  mp_vertical :: VerticalType
  mp_modules :: "ModuleKey list"

record vertical_terminology =
  vt_vertical :: VerticalType
  vt_termKey :: string
  vt_singular :: string
  vt_plural :: string
  vt_icon :: "string option"

text \<open>The jobs of the workflow queue, one constructor for each name of a job.\<close>

record LeadCreatedJobPayload =
  lj_tenantId :: string
  lj_schemaName :: string
  lj_leadId :: string
  lj_contactId :: string
  lj_branchId :: string
  lj_createdByUserId :: "string option"

record LeadStatusChangedJobPayload =
  lsj_tenantId :: string
  lsj_schemaName :: string
  lsj_leadId :: string
  lsj_contactId :: "string option"
  lsj_branchId :: string
  lsj_oldStatusId :: "string option"
  lsj_newStatusId :: "string option"
  lsj_changedByUserId :: "string option"

record LeadAssignedJobPayload =
  laj_tenantId :: string
  laj_schemaName :: string
  laj_leadId :: string
  laj_contactId :: "string option"
  laj_branchId :: string
  laj_assignedUserId :: string

datatype workflow_job =
    LEAD_CREATED LeadCreatedJobPayload
  | LEAD_STATUS_CHANGED LeadStatusChangedJobPayload
  | LEAD_ASSIGNED LeadAssignedJobPayload

end
