(* ===== verification/Crm_Schema.thy ===== *)
theory Crm_Schema
  imports Errors
begin

text \<open>
  The rows of the CRM tables of a tenant's schema, \<^verbatim>\<open>prisma/tenant-template/schema.prisma\<close>: custom
  fields, tags, sources, contacts, contact lists, leads with their statuses and activities, the
  assignment of leads, webhooks, and tasks. As in the core schema a row has the columns of its model
  in the schema's order, less \<^verbatim>\<open>updatedAt\<close>. A number that the code only stores and returns
  (\<^verbatim>\<open>estimatedValue\<close>) is kept as its text.
\<close>

subsection \<open>Enumerations\<close>

datatype CustomFieldEntityType = CONTACT | DEAL | LEAD

datatype CustomFieldType =
    TEXT | TEXTAREA | NUMBER | BOOLEAN | DATE | DATETIME | SELECT | MULTI_SELECT | URL | EMAIL | PHONE

datatype TagEntityType = CONTACT | LEAD

datatype ContactStatus = ACTIVE | INACTIVE | ARCHIVED

datatype LeadPriority = LOW | MEDIUM | HIGH

datatype LeadActivityType = NOTE | CALL | EMAIL | SMS | WHATSAPP | MEETING | TASK

datatype ActivityDirection = INBOUND | OUTBOUND

datatype CallOutcome = SPOKE | NO_ANSWER | VOICEMAIL | BUSY | WRONG_NUMBER | CALL_BACK_REQUESTED

datatype ActivityTaskStatus = PENDING | IN_PROGRESS | COMPLETED | CANCELLED

datatype LeadAssignmentMode = ROUND_ROBIN | MANUAL

datatype TaskType = TODO | CALL | EMAIL | MEETING | FOLLOW_UP

datatype TaskStatus = TODO | IN_PROGRESS | BLOCKED | DONE | CANCELLED

datatype TaskPriority = URGENT | HIGH | NORMAL | LOW

datatype TaskEntityType = LEAD | CONTACT

subsection \<open>Rows\<close>

text \<open>\<^verbatim>\<open>options\<close> is a JSON array of label and value.\<close>

record custom_field =
  cf_id :: string
  cf_entityType :: CustomFieldEntityType
  cf_label :: string
  cf_key :: string
  cf_fieldType :: CustomFieldType
  cf_isRequired :: bool
  cf_options :: "(string \<times> string) list"
  cf_defaultValue :: "string option"
  cf_placeholder :: "string option"
  cf_displayOrder :: int
  cf_isActive :: bool
  cf_createdAt :: int

record tag =
  tg_id :: string
  tg_name :: string
  tg_color :: "string option"
  tg_isSystem :: bool
  tg_createdAt :: int

record entity_tag =
  et_tagId :: string
  et_entityType :: TagEntityType
  et_entityId :: string
  et_createdAt :: int

record contact_source =
  cs_id :: string
  cs_branchId :: string
  cs_name :: string
  cs_isSystem :: bool
  cs_isActive :: bool
  cs_createdAt :: int

record lead_status =
  ls_id :: string
  ls_branchId :: string
  ls_name :: string
  ls_color :: "string option"
  ls_displayOrder :: int
  ls_isSystem :: bool
  ls_isActive :: bool
  ls_createdAt :: int

record contact =
  ct_id :: string
  ct_branchId :: string
  ct_firstName :: string
  ct_lastName :: "string option"
  ct_email :: "string option"
  ct_phone :: "string option"
  ct_company :: "string option"
  ct_jobTitle :: "string option"
  ct_address :: "string option"
  ct_city :: "string option"
  ct_state :: "string option"
  ct_country :: "string option"
  ct_postalCode :: "string option"
  ct_sourceId :: "string option"
  ct_originLeadId :: "string option"
  ct_status :: ContactStatus
  ct_ownedByUserId :: "string option"
  ct_notes :: "string option"
  ct_createdByUserId :: "string option"
  ct_deletedAt :: "int option"
  ct_createdAt :: int

record lead =
  ld_id :: string
  ld_branchId :: string
  ld_contactId :: "string option"
  ld_firstName :: string
  ld_lastName :: "string option"
  ld_email :: "string option"
  ld_phone :: "string option"
  ld_company :: "string option"
  ld_sourceId :: "string option"
  ld_statusId :: "string option"
  ld_priority :: LeadPriority
  ld_estimatedValue :: "string option"
  ld_ownedByUserId :: "string option"
  ld_notes :: "string option"
  ld_convertedAt :: "int option"
  ld_convertedByUserId :: "string option"
  ld_lastActivityAt :: "int option"
  ld_nextFollowUpAt :: "int option"
  ld_touchpointCount :: int
  ld_createdByUserId :: "string option"
  ld_deletedAt :: "int option"
  ld_createdAt :: int

record lead_activity =
  la_id :: string
  la_leadId :: string
  la_type :: LeadActivityType
  la_direction :: "ActivityDirection option"
  la_subject :: "string option"
  la_body :: "string option"
  la_outcome :: "CallOutcome option"
  la_durationSeconds :: "int option"
  la_recordingUrl :: "string option"
  la_transcriptUrl :: "string option"
  la_scheduledAt :: "int option"
  la_completedAt :: "int option"
  la_dueAt :: "int option"
  la_taskStatus :: "ActivityTaskStatus option"
  la_createdByUserId :: string
  la_assignedToUserId :: "string option"
  la_metadata :: "json option"
  la_deletedAt :: "int option"
  la_createdAt :: int

record contact_list =
  cl_id :: string
  cl_branchId :: string
  cl_name :: string
  cl_description :: "string option"
  cl_createdByUserId :: "string option"
  cl_isActive :: bool
  cl_createdAt :: int

record contact_list_member =
  cm_listId :: string
  cm_contactId :: string
  cm_addedByUserId :: "string option"
  cm_addedAt :: int

record assignment_config =
  ac_id :: string
  ac_branchId :: string
  ac_assignmentMode :: LeadAssignmentMode
  ac_eligibleRoleIds :: "string list"
  ac_isActive :: bool
  ac_createdAt :: int

record lead_webhook =
  wh_id :: string
  wh_branchId :: string
  wh_sourceId :: "string option"
  wh_name :: string
  wh_token :: string
  wh_isActive :: bool
  wh_createdAt :: int

record task =
  tk_id :: string
  tk_title :: string
  tk_description :: "string option"
  tk_type :: TaskType
  tk_status :: TaskStatus
  tk_priority :: TaskPriority
  tk_startDate :: "int option"
  tk_dueAt :: "int option"
  tk_completedAt :: "int option"
  tk_points :: "int option"
  tk_timeEstimate :: "int option"
  tk_recurrenceRule :: "string option"
  tk_reminders :: "string list option"
  tk_entityType :: "TaskEntityType option"
  tk_entityId :: "string option"
  tk_parentTaskId :: "string option"
  tk_createdByUserId :: string
  tk_metadata :: "json option"
  tk_deletedAt :: "int option"
  tk_createdAt :: int

record task_assignee =
  ta_taskId :: string
  ta_userId :: string
  ta_assignedAt :: int
  ta_assignedByUserId :: "string option"

record task_checklist =
  ch_id :: string
  ch_taskId :: string
  ch_title :: string
  ch_displayOrder :: int
  ch_createdAt :: int

record checklist_item =
  ci_id :: string
  ci_checklistId :: string
  ci_title :: string
  ci_isChecked :: bool
  ci_checkedAt :: "int option"
  ci_checkedByUserId :: "string option"
  ci_displayOrder :: int
  ci_createdAt :: int

subsection \<open>The tables\<close>

record crm_db =
  crm_customFields :: "custom_field list"
  crm_tags :: "tag list"
  crm_entityTags :: "entity_tag list"
  crm_sources :: "contact_source list"
  crm_leadStatuses :: "lead_status list"
  crm_contacts :: "contact list"
  crm_leads :: "lead list"
  crm_activities :: "lead_activity list"
  crm_lists :: "contact_list list"
  crm_listMembers :: "contact_list_member list"
  crm_configs :: "assignment_config list"
  crm_webhooks :: "lead_webhook list"
  crm_tasks :: "task list"
  crm_assignees :: "task_assignee list"
  crm_checklists :: "task_checklist list"
  crm_items :: "checklist_item list"

definition empty_crm :: crm_db where
  "empty_crm =
     \<lparr>crm_customFields = [], crm_tags = [], crm_entityTags = [], crm_sources = [],
      crm_leadStatuses = [], crm_contacts = [], crm_leads = [], crm_activities = [],
      crm_lists = [], crm_listMembers = [], crm_configs = [], crm_webhooks = [],
      crm_tasks = [], crm_assignees = [], crm_checklists = [], crm_items = []\<rparr>"

text \<open>
  The unique constraints. The foreign keys are with the modules that write them.
\<close>

definition custom_field_clash :: "custom_field \<Rightarrow> custom_field \<Rightarrow> bool" where
  "custom_field_clash f f' \<longleftrightarrow>
     cf_id f' = cf_id f \<or> (cf_entityType f' = cf_entityType f \<and> cf_key f' = cf_key f)"

definition tag_clash :: "tag \<Rightarrow> tag \<Rightarrow> bool" where
  "tag_clash t t' \<longleftrightarrow> tg_id t' = tg_id t \<or> tg_name t' = tg_name t"

definition entity_tag_key :: "entity_tag \<Rightarrow> string \<times> TagEntityType \<times> string" where
  "entity_tag_key e = (et_tagId e, et_entityType e, et_entityId e)"

definition entity_tag_clash :: "entity_tag \<Rightarrow> entity_tag \<Rightarrow> bool" where
  "entity_tag_clash e e' \<longleftrightarrow> entity_tag_key e' = entity_tag_key e"

definition source_clash :: "contact_source \<Rightarrow> contact_source \<Rightarrow> bool" where
  "source_clash s s' \<longleftrightarrow>
     cs_id s' = cs_id s \<or> (cs_branchId s' = cs_branchId s \<and> cs_name s' = cs_name s)"

definition lead_status_clash :: "lead_status \<Rightarrow> lead_status \<Rightarrow> bool" where
  "lead_status_clash s s' \<longleftrightarrow>
     ls_id s' = ls_id s \<or> (ls_branchId s' = ls_branchId s \<and> ls_name s' = ls_name s)"

definition contact_clash :: "contact \<Rightarrow> contact \<Rightarrow> bool" where
  "contact_clash c c' \<longleftrightarrow> ct_id c' = ct_id c"

definition lead_clash :: "lead \<Rightarrow> lead \<Rightarrow> bool" where
  "lead_clash l l' \<longleftrightarrow> ld_id l' = ld_id l"

definition activity_clash :: "lead_activity \<Rightarrow> lead_activity \<Rightarrow> bool" where
  "activity_clash a a' \<longleftrightarrow> la_id a' = la_id a"

definition contact_list_clash :: "contact_list \<Rightarrow> contact_list \<Rightarrow> bool" where
  "contact_list_clash l l' \<longleftrightarrow>
     cl_id l' = cl_id l \<or> (cl_branchId l' = cl_branchId l \<and> cl_name l' = cl_name l)"

definition member_key :: "contact_list_member \<Rightarrow> string \<times> string" where
  "member_key m = (cm_listId m, cm_contactId m)"

definition member_clash :: "contact_list_member \<Rightarrow> contact_list_member \<Rightarrow> bool" where
  "member_clash m m' \<longleftrightarrow> member_key m' = member_key m"

definition config_clash :: "assignment_config \<Rightarrow> assignment_config \<Rightarrow> bool" where
  "config_clash c c' \<longleftrightarrow> ac_id c' = ac_id c \<or> ac_branchId c' = ac_branchId c"

definition webhook_clash :: "lead_webhook \<Rightarrow> lead_webhook \<Rightarrow> bool" where
  "webhook_clash h h' \<longleftrightarrow> wh_id h' = wh_id h \<or> wh_token h' = wh_token h"

definition task_clash :: "task \<Rightarrow> task \<Rightarrow> bool" where
  "task_clash t t' \<longleftrightarrow> tk_id t' = tk_id t"

definition assignee_key :: "task_assignee \<Rightarrow> string \<times> string" where
  "assignee_key a = (ta_taskId a, ta_userId a)"

definition assignee_clash :: "task_assignee \<Rightarrow> task_assignee \<Rightarrow> bool" where
  "assignee_clash a a' \<longleftrightarrow> assignee_key a' = assignee_key a"

definition checklist_clash :: "task_checklist \<Rightarrow> task_checklist \<Rightarrow> bool" where
  "checklist_clash c c' \<longleftrightarrow> ch_id c' = ch_id c"

definition item_clash :: "checklist_item \<Rightarrow> checklist_item \<Rightarrow> bool" where
  "item_clash i i' \<longleftrightarrow> ci_id i' = ci_id i"

subsection \<open>Changes of the leads\<close>

text \<open>
  The changes that the modules make to the CRM tables, one write at a time, seen by what they do to
  the conversion of the leads: only a lead that is not converted is converted, no other write touches
  the contact, the instant and the author of a conversion, and no lead is ever deleted.
\<close>

definition conversion :: "lead \<Rightarrow> string \<times> string option \<times> int option \<times> string option" where
  "conversion l = (ld_id l, ld_contactId l, ld_convertedAt l, ld_convertedByUserId l)"

inductive crm_change :: "crm_db \<Rightarrow> crm_db \<Rightarrow> bool" for c c' where
  Same_leads: "crm_leads c' = crm_leads c \<Longrightarrow> crm_change c c'"
| New_lead: "crm_leads c' = insertRow l (crm_leads c) \<Longrightarrow>
    \<not> existsRow (lead_clash l) (crm_leads c) \<Longrightarrow> crm_change c c'"
| Change_leads: "crm_leads c' = updateRows p f (crm_leads c) \<Longrightarrow>
    (\<And>l. conversion (f l) = conversion l) \<Longrightarrow> crm_change c c'"
| Convert_lead: "crm_leads c' = updateRows (\<lambda>l. ld_id l = k) f (crm_leads c) \<Longrightarrow>
    (\<And>l. ld_id (f l) = ld_id l) \<Longrightarrow> (\<And>l. ld_convertedAt (f l) \<noteq> None) \<Longrightarrow>
    (uniqueBy ld_id (crm_leads c) \<Longrightarrow>
      \<not> existsRow (\<lambda>l. ld_id l = k \<and> ld_convertedAt l \<noteq> None) (crm_leads c)) \<Longrightarrow> crm_change c c'"

definition conversions :: "crm_db \<Rightarrow> (string \<times> string option \<times> int option \<times> string option) set" where
  "conversions c = conversion ` {l \<in> set (crm_leads c). ld_convertedAt l \<noteq> None}"

lemma conversion_same_time: "conversion l' = conversion l \<Longrightarrow> ld_convertedAt l' = ld_convertedAt l"
  by (simp add: conversion_def)

lemma change_conversions:
  assumes "crm_change c c'" and "uniqueBy ld_id (crm_leads c)"
  shows "conversions c \<subseteq> conversions c'"
  using assms(1)
proof (cases rule: crm_change.cases)
  case (Change_leads p f)
  show ?thesis
  proof
    fix v
    assume "v \<in> conversions c"
    then obtain l where l: "l \<in> set (crm_leads c)" "ld_convertedAt l \<noteq> None" "v = conversion l"
      by (auto simp: conversions_def)
    define l' where "l' = (if p l then f l else l)"
    have "l' \<in> set (crm_leads c')" using l(1) by (auto simp: Change_leads(1) set_updateRows l'_def)
    moreover have same: "conversion l' = conversion l" using Change_leads(2) by (simp add: l'_def)
    moreover have "ld_convertedAt l' \<noteq> None" using conversion_same_time [OF same] l(2) by simp
    ultimately show "v \<in> conversions c'" using l(3) unfolding conversions_def
      by (metis (mono_tags, lifting) image_eqI mem_Collect_eq)
  qed
next
  case (Convert_lead k f)
  then have "\<not> existsRow (\<lambda>l. ld_id l = k \<and> ld_convertedAt l \<noteq> None) (crm_leads c)"
    using assms(2) by blast
  with Convert_lead(1) have "l \<in> set (crm_leads c')" if "l \<in> set (crm_leads c)" "ld_convertedAt l \<noteq> None" for l
    using that by (auto simp: set_updateRows existsRow_iff intro!: image_eqI [where x = l])
  then show ?thesis by (auto simp: conversions_def)
qed (auto simp: conversions_def)

lemma change_lead_ids:
  assumes "crm_change c c'" and "uniqueBy ld_id (crm_leads c)"
  shows "uniqueBy ld_id (crm_leads c')"
  using assms(1)
proof (cases rule: crm_change.cases)
  case (New_lead l)
  with assms(2) show ?thesis
    by (simp add: uniqueBy_insert_free [where clash = lead_clash] lead_clash_def)
next
  case (Change_leads p f)
  then have "ld_id (f l) = ld_id l" for l by (simp add: conversion_def)
  with assms(2) Change_leads(1) show ?thesis by (simp add: uniqueBy_updateRows)
next
  case (Convert_lead k f)
  with assms(2) show ?thesis by (simp add: uniqueBy_updateRows)
qed (use assms(2) in simp)

end
