(* ===== verification/Tenant_Schema.thy ===== *)
theory Tenant_Schema
  imports Crm_Schema
begin

text \<open>
  The rows of a tenant's own schema, \<^verbatim>\<open>prisma/tenant-template/schema.prisma\<close>: branches and the
  role-based access control (roles, permissions and the assignments of a role to a user, at a
  branch or, with a null branch, for the whole tenant). A \<open>tenant_db\<close> holds the tables of one
  schema, those of the CRM modules in a part of their own.
\<close>

datatype RoleScopeType = Scope_tenant | Scope_branch

record branch =
  b_id :: string
  b_name :: string
  b_code :: string
  b_address :: "string option"
  b_city :: "string option"
  b_state :: "string option"
  b_country :: "string option"
  b_postalCode :: "string option"
  b_phone :: "string option"
  b_email :: "string option"
  b_timezone :: string
  b_parentBranchId :: "string option"
  b_isHeadOffice :: bool
  b_isActive :: bool
  b_deletedAt :: "int option"
  b_createdAt :: int

record role =
  r_id :: string
  r_slug :: string
  r_name :: string
  r_description :: "string option"
  r_scopeType :: RoleScopeType
  r_isSystem :: bool
  r_verticalSlug :: "string option"
  r_createdAt :: int

record permission =
  pm_id :: string
  pm_slug :: string
  pm_scope :: string
  pm_resource :: string
  pm_action :: string
  pm_description :: string
  pm_isSystem :: bool
  pm_createdAt :: int

record role_permission =
  rp_roleId :: string
  rp_permissionId :: string
  rp_createdAt :: int

record user_branch_membership =
  ubm_id :: string
  ubm_userId :: string
  ubm_branchId :: "string option"
  ubm_roleId :: string
  ubm_assignedByUserId :: "string option"
  ubm_assignedAt :: int
  ubm_revokedAt :: "int option"
  ubm_revokedReason :: "string option"
  ubm_roundRobinAvailable :: bool
  ubm_createdAt :: int

record tenant_db =
  db_branches :: "branch list"
  db_roles :: "role list"
  db_permissions :: "permission list"
  db_rolePermissions :: "role_permission list"
  db_memberships :: "user_branch_membership list"
  db_crm :: crm_db

definition empty_db :: tenant_db where
  "empty_db =
     \<lparr>db_branches = [], db_roles = [], db_permissions = [], db_rolePermissions = [],
      db_memberships = [], db_crm = empty_crm\<rparr>"

text \<open>
  The unique constraints of the tables. In PostgreSQL a null never equals a null in a unique
  index, so an assignment without a branch never clashes on \<^verbatim>\<open>(userId, branchId, roleId)\<close>.
\<close>

definition branch_clash :: "branch \<Rightarrow> branch \<Rightarrow> bool" where
  "branch_clash b b' \<longleftrightarrow> b_id b' = b_id b \<or> b_code b' = b_code b"

definition role_clash :: "role \<Rightarrow> role \<Rightarrow> bool" where
  "role_clash r r' \<longleftrightarrow> r_id r' = r_id r \<or> r_slug r' = r_slug r"

definition permission_clash :: "permission \<Rightarrow> permission \<Rightarrow> bool" where
  "permission_clash p p' \<longleftrightarrow>
     pm_id p' = pm_id p \<or> pm_slug p' = pm_slug p \<or>
     (pm_scope p' = pm_scope p \<and> pm_resource p' = pm_resource p \<and> pm_action p' = pm_action p)"

definition role_permission_clash :: "role_permission \<Rightarrow> role_permission \<Rightarrow> bool" where
  "role_permission_clash a a' \<longleftrightarrow>
     rp_roleId a' = rp_roleId a \<and> rp_permissionId a' = rp_permissionId a"

definition membership_clash :: "user_branch_membership \<Rightarrow> user_branch_membership \<Rightarrow> bool" where
  "membership_clash m m' \<longleftrightarrow>
     ubm_id m' = ubm_id m \<or>
     (ubm_userId m' = ubm_userId m \<and> ubm_roleId m' = ubm_roleId m \<and>
      ubm_branchId m' = ubm_branchId m \<and> ubm_branchId m \<noteq> None)"

end
