(* ===== verification/Prisma.thy ===== *)
theory Prisma
  imports Errors
begin

text \<open>
  The query forms of the database client that the sources use. A table is given by how its rows are
  read from a state (\<open>None\<close> when the relation does not exist, as in a tenant schema that was never
  provisioned) and by how they are replaced. The locale \<open>stored_table\<close> states what the sources rely
  on when they write and read again; every table of the model is an instance of it.
\<close>

record ('w, 'r) tbl =
  rows :: "'w \<Rightarrow> 'r list option"
  on_rows :: "('r list \<Rightarrow> 'r list) \<Rightarrow> 'w \<Rightarrow> 'w"

definition query :: "('w, 'r) tbl \<Rightarrow> ('r list \<Rightarrow> 'a) \<Rightarrow> ('w, 'a) handler" where
  "query T f = (\<lambda>w. case rows T w of None \<Rightarrow> (Inl (Prisma P2021), w) | Some t \<Rightarrow> (Inr (f t), w))"

definition mutate :: "('w, 'r) tbl \<Rightarrow> ('r list \<Rightarrow> 'r list) \<Rightarrow> ('w, unit) handler" where
  "mutate T f = writes (on_rows T f)"

text \<open>\<^verbatim>\<open>findUnique\<close>, \<^verbatim>\<open>findFirst\<close>, \<^verbatim>\<open>findMany\<close>, \<^verbatim>\<open>count\<close>.\<close>

definition findUnique :: "('w, 'r) tbl \<Rightarrow> ('r \<Rightarrow> 'k) \<Rightarrow> 'k \<Rightarrow> ('w, 'r option) handler" where
  "findUnique T key k = query T (lookupBy key k)"

definition findFirst :: "('w, 'r) tbl \<Rightarrow> ('r \<Rightarrow> bool) \<Rightarrow> ('w, 'r option) handler" where
  "findFirst T p = query T (findRow p)"

definition findMany :: "('w, 'r) tbl \<Rightarrow> ('r \<Rightarrow> bool) \<Rightarrow> ('w, 'r list) handler" where
  "findMany T p = query T (filter p)"

definition count :: "('w, 'r) tbl \<Rightarrow> ('r \<Rightarrow> bool) \<Rightarrow> ('w, nat) handler" where
  "count T p = query T (countRows p)"

text \<open>
  \<^verbatim>\<open>create\<close>: \<open>clash r r'\<close> says that the stored row \<open>r'\<close> and the new row \<open>r\<close> violate a unique
  constraint of the table, \<open>refs r w\<close> that the rows which the foreign keys of \<open>r\<close> name exist.
\<close>

definition create ::
    "('w, 'r) tbl \<Rightarrow> ('r \<Rightarrow> 'r \<Rightarrow> bool) \<Rightarrow> ('r \<Rightarrow> 'w \<Rightarrow> bool) \<Rightarrow> 'r \<Rightarrow> ('w, 'r) handler" where
  "create T clash refs r =
     await (query T (existsRow (clash r))) (\<lambda>taken.
     await (throwIf taken (Prisma P2002)) (\<lambda>_.
     await (reads (refs r)) (\<lambda>ok.
     await (throwIf (\<not> ok) (Prisma P2003)) (\<lambda>_.
     await (mutate T (insertRow r)) (\<lambda>_.
     ret r)))))"

definition no_refs :: "'r \<Rightarrow> 'w \<Rightarrow> bool" where
  "no_refs r w = True"

lemma no_refs [simp]: "no_refs r w"
  by (simp add: no_refs_def)

text \<open>\<^verbatim>\<open>update\<close> and \<^verbatim>\<open>delete\<close> of the row with a unique key; \<^verbatim>\<open>updateMany\<close> and \<^verbatim>\<open>deleteMany\<close>.\<close>

definition update :: "('w, 'r) tbl \<Rightarrow> ('r \<Rightarrow> 'k) \<Rightarrow> 'k \<Rightarrow> ('r \<Rightarrow> 'r) \<Rightarrow> ('w, 'r) handler" where
  "update T key k f =
     await (findUnique T key k) (\<lambda>found.
     case found of
       None \<Rightarrow> throw (Prisma P2025)
     | Some r \<Rightarrow> await (mutate T (updateBy key k f)) (\<lambda>_. ret (f r)))"

definition updateMany :: "('w, 'r) tbl \<Rightarrow> ('r \<Rightarrow> bool) \<Rightarrow> ('r \<Rightarrow> 'r) \<Rightarrow> ('w, nat) handler" where
  "updateMany T p f =
     await (count T p) (\<lambda>n.
     await (mutate T (updateRows p f)) (\<lambda>_. ret n))"

definition delete :: "('w, 'r) tbl \<Rightarrow> ('r \<Rightarrow> 'k) \<Rightarrow> 'k \<Rightarrow> ('w, unit) handler" where
  "delete T key k =
     await (findUnique T key k) (\<lambda>found.
     await (throwIf (found = None) (Prisma P2025)) (\<lambda>_.
     mutate T (deleteRows (\<lambda>r. key r = k))))"

definition deleteMany :: "('w, 'r) tbl \<Rightarrow> ('r \<Rightarrow> bool) \<Rightarrow> ('w, nat) handler" where
  "deleteMany T p =
     await (count T p) (\<lambda>n.
     await (mutate T (deleteRows p)) (\<lambda>_. ret n))"

lemma query_run [act]:
  "query T f w = (case rows T w of None \<Rightarrow> (Inl (Prisma P2021), w) | Some t \<Rightarrow> (Inr (f t), w))"
  by (simp add: query_def)

lemma mutate_run [act, simp]: "mutate T f w = (Inr (), on_rows T f w)"
  by (simp add: mutate_def)

lemma findUnique_run [act]: "rows T w = Some t \<Longrightarrow> findUnique T key k w = (Inr (lookupBy key k t), w)"
  by (simp add: findUnique_def query_run)

lemma findFirst_run [act]: "rows T w = Some t \<Longrightarrow> findFirst T p w = (Inr (findRow p t), w)"
  by (simp add: findFirst_def query_run)

lemma findMany_run [act]: "rows T w = Some t \<Longrightarrow> findMany T p w = (Inr (filter p t), w)"
  by (simp add: findMany_def query_run)

lemma count_run [act]: "rows T w = Some t \<Longrightarrow> count T p w = (Inr (countRows p t), w)"
  by (simp add: count_def query_run)

lemma create_run [act]:
  "rows T w = Some t \<Longrightarrow>
     create T clash refs r w =
       (if existsRow (clash r) t then (Inl (Prisma P2002), w)
        else if \<not> refs r w then (Inl (Prisma P2003), w)
        else (Inr r, on_rows T (insertRow r) w))"
  by (simp add: create_def query_run await_run throwIf_run)

lemma update_run [act]:
  "rows T w = Some t \<Longrightarrow>
     update T key k f w =
       (case lookupBy key k t of
          None \<Rightarrow> (Inl (Prisma P2025), w)
        | Some r \<Rightarrow> (Inr (f r), on_rows T (updateBy key k f) w))"
  by (simp add: update_def findUnique_run await_run split: option.splits)

lemma updateMany_run [act]:
  "rows T w = Some t \<Longrightarrow>
     updateMany T p f w = (Inr (countRows p t), on_rows T (updateRows p f) w)"
  by (simp add: updateMany_def count_run await_run)

lemma delete_run [act]:
  "rows T w = Some t \<Longrightarrow>
     delete T key k w =
       (if lookupBy key k t = None then (Inl (Prisma P2025), w)
        else (Inr (), on_rows T (deleteRows (\<lambda>r. key r = k)) w))"
  by (simp add: delete_def findUnique_run await_run throwIf_run)

lemma deleteMany_run [act]:
  "rows T w = Some t \<Longrightarrow>
     deleteMany T p w = (Inr (countRows p t), on_rows T (deleteRows p) w)"
  by (simp add: deleteMany_def count_run await_run)

lemma reading_query: "reading (query T f) w"
  by (simp add: reading_def query_run split: option.split)

lemma reading_finds:
  "reading (findUnique T key k) w" "reading (findFirst T p) w" "reading (findMany T p) w"
  "reading (count T p) w"
  by (simp_all add: findUnique_def findFirst_def findMany_def count_def reading_query)

text \<open>A table reads back what was written to it.\<close>

locale stored_table =
  fixes T :: "('w, 'r) tbl"
  assumes rows_on_rows: "rows T (on_rows T f w) = map_option f (rows T w)"
begin

lemma found_after_create:
  assumes "create T clash refs r w = (Inr q, w')" and "\<And>r'. key r' = key r \<Longrightarrow> clash r r'"
  shows "findUnique T key (key r) w' = (Inr (Some r), w')"
proof -
  obtain t where t: "rows T w = Some t"
    using assms(1) by (auto simp: create_def await_run query_run split: option.splits)
  with assms(1) have free: "\<not> existsRow (clash r) t" and w': "w' = on_rows T (insertRow r) w"
    by (auto simp: create_run split: if_splits)
  from free assms(2) have "lookupBy key (key r) t = None"
    by (auto simp: lookupBy_None_iff existsRow_iff)
  then have "lookupBy key (key r) (insertRow r t) = Some r" by (rule rows.lookup_inserted)
  with t w' show ?thesis by (simp add: findUnique_run rows_on_rows)
qed

lemma found_after_update:
  assumes "update T key k f w = (Inr q, w')" and "\<And>r. key (f r) = key r"
  shows "findUnique T key k w' = (Inr (Some q), w')"
proof -
  obtain t where t: "rows T w = Some t"
    using assms(1)
    by (auto simp: update_def findUnique_def await_run query_run split: option.splits)
  with assms show ?thesis
    by (auto simp: update_run findUnique_run rows_on_rows lookupBy_updateBy split: option.splits)
qed

end

text \<open>Frame rules: a query changes nothing, a write changes one table.\<close>

context effect
begin

lemma effect_query: "has_effect R (query T f)"
  by (simp add: has_effect_def after_def query_run refl split: option.splits)

lemma effect_findUnique: "has_effect R (findUnique T key k)"
  unfolding findUnique_def by (rule effect_query)

lemma effect_findFirst: "has_effect R (findFirst T p)"
  unfolding findFirst_def by (rule effect_query)

lemma effect_findMany: "has_effect R (findMany T p)"
  unfolding findMany_def by (rule effect_query)

lemma effect_count: "has_effect R (count T p)"
  unfolding count_def by (rule effect_query)

lemma effect_mutate: "(\<And>w. R w (on_rows T f w)) \<Longrightarrow> has_effect R (mutate T f)"
  by (simp add: has_effect_def after_def)

lemma effect_writes: "(\<And>w. R w (f w)) \<Longrightarrow> has_effect R (writes f)"
  by (simp add: has_effect_def after_def)

lemma effect_create: "(\<And>w. R w (on_rows T (insertRow r) w)) \<Longrightarrow> has_effect R (create T clash refs r)"
  unfolding create_def
  by (intro effect_await effect_query effect_throwIf effect_reads effect_mutate effect_ret)

lemma effect_update: "(\<And>w. R w (on_rows T (updateBy key k f) w)) \<Longrightarrow> has_effect R (update T key k f)"
  unfolding update_def
  by (intro effect_await effect_findUnique effect_option effect_throw effect_mutate effect_ret)

lemma effect_updateMany: "(\<And>w. R w (on_rows T (updateRows p f) w)) \<Longrightarrow> has_effect R (updateMany T p f)"
  unfolding updateMany_def by (intro effect_await effect_count effect_mutate effect_ret)

lemma effect_delete:
  "(\<And>w. R w (on_rows T (deleteRows (\<lambda>r. key r = k)) w)) \<Longrightarrow> has_effect R (delete T key k)"
  unfolding delete_def by (intro effect_await effect_findUnique effect_throwIf effect_mutate)

lemma effect_deleteMany: "(\<And>w. R w (on_rows T (deleteRows p) w)) \<Longrightarrow> has_effect R (deleteMany T p)"
  unfolding deleteMany_def by (intro effect_await effect_count effect_mutate effect_ret)

lemmas table_rules =
  effect_findUnique effect_findFirst effect_findMany effect_count effect_query
  effect_writes effect_create effect_update effect_updateMany effect_delete effect_deleteMany

end

end
