(* ===== verification/World.thy ===== *)
theory World
  imports Core_Schema Tenant_Schema Prisma
begin

text \<open>
  The state of the platform and the services outside the repository.
  \<^item> \<open>world\<close>: the clock, the supply of random values, the tables of the core database, the tenant
    schemas, the key-value store and the jobs of the queues. A handler reads one instant of the
    clock; between two handlers the clock may move.
  \<^item> \<open>env\<close>: the functions of the packages that the sources call (hashing, password hashing,
    token signing, one-time passwords), the sort key that the database's
    collation gives a text, its case-insensitive search for a part of a text, what it takes as an
    identifier, the short text of a date, the effect of a DDL statement on the tables of a schema
    (\<open>None\<close> when the database rejects it), the text of the template script and the configuration
    values. They are parameters: a theorem that needs a law of one of them has it as a hypothesis.
\<close>

subsection \<open>Tokens\<close>

text \<open>The payload of a signed token, \<^verbatim>\<open>BosJwtClaims\<close>: absent claims are \<open>None\<close> or empty.\<close>

record jwt_claims =
  c_sub :: string
  c_scope :: string
  c_sessionId :: string
  c_tenantId :: "string option"
  c_activeBranchId :: "string option"
  c_accessibleBranchIds :: "string list"
  c_hasTenantWideAccess :: bool
  c_roles :: "string list"
  c_platformRoles :: "string list"
  c_impersonatedByUserId :: string
  c_impersonationReason :: string
  c_type :: string
  c_iss :: string
  c_aud :: string
  c_jti :: string
  c_iat :: int
  c_exp :: int
  c_v :: int

text \<open>
  How the token library answers: the claims, or one of the two errors that the sources tell
  apart. \<^verbatim>\<open>e_jwtSign\<close> takes the claims; \<^verbatim>\<open>e_jwtVerify\<close> takes the token and the time.
\<close>

datatype jwt_result = Verified jwt_claims | JwtExpired | JwtInvalid string

record env =
  e_uuid :: "nat \<Rightarrow> string"
  e_randomHex :: "nat \<Rightarrow> nat \<Rightarrow> string"
  e_sha256 :: "string \<Rightarrow> string"
  e_argonHash :: "string \<Rightarrow> nat \<Rightarrow> string"
  e_argonVerify :: "string \<Rightarrow> string \<Rightarrow> bool option"
  e_argonNeedsRehash :: "string \<Rightarrow> bool option"
  e_jwtSign :: "jwt_claims \<Rightarrow> string"
  e_jwtVerify :: "string \<Rightarrow> int \<Rightarrow> jwt_result"
  e_totpSecret :: "nat \<Rightarrow> string"
  e_totpUri :: "string \<Rightarrow> string \<Rightarrow> string"
  e_totpValidate :: "string \<Rightarrow> string \<Rightarrow> int \<Rightarrow> int option option"
  e_maxAttempts :: nat
  e_lockoutSeconds :: int
  e_accessTtl :: int
  e_platformAccessTtl :: int
  e_refreshTtl :: int
  e_twoFactorTempTtl :: int
  e_emailVerifyTtl :: int
  e_passwordResetTtl :: int
  e_inviteTtl :: int
  e_frontendUrl :: string
  e_collate :: "string \<Rightarrow> string"
  e_contains :: "string \<Rightarrow> string \<Rightarrow> bool"
  e_isUuid :: "string \<Rightarrow> bool"
  e_dateText :: "int \<Rightarrow> string"
  e_templateSql :: string
  e_ddl :: "string \<Rightarrow> tenant_db \<Rightarrow> tenant_db option"

subsection \<open>The key-value store\<close>

text \<open>
  A key holds a value and may expire at an instant; a key whose instant has passed is absent. A
  value is a counter (made by \<^verbatim>\<open>INCR\<close>) or a text. The same store models the in-process cache of
  permissions.
\<close>

datatype redis_value = Counter nat | Text string

type_synonym 'v kv = "string \<Rightarrow> ('v \<times> int option) option"

type_synonym redis = "redis_value kv"

definition kv_get :: "int \<Rightarrow> 'v kv \<Rightarrow> string \<Rightarrow> 'v option" where
  "kv_get t r k =
     (case r k of
        None \<Rightarrow> None
      | Some (v, None) \<Rightarrow> Some v
      | Some (v, Some e) \<Rightarrow> if t < e then Some v else None)"

definition kv_set :: "string \<Rightarrow> 'v \<Rightarrow> int option \<Rightarrow> 'v kv \<Rightarrow> 'v kv" where
  "kv_set k v e r = r(k \<mapsto> (v, e))"

definition kv_del :: "string \<Rightarrow> 'v kv \<Rightarrow> 'v kv" where
  "kv_del k r = r(k := None)"

definition kv_expire :: "string \<Rightarrow> int \<Rightarrow> 'v kv \<Rightarrow> 'v kv" where
  "kv_expire k e r = (case r k of None \<Rightarrow> r | Some (v, _) \<Rightarrow> r(k \<mapsto> (v, Some e)))"

subsection \<open>The state\<close>

record world =
  w_now :: int
  w_rnd :: nat
  w_plans :: "tenant_plan list"
  w_tenants :: "tenant list"
  w_users :: "user list"
  w_tenantMemberships :: "tenant_membership list"
  w_sessions :: "session list"
  w_refreshTokens :: "refresh_token list"
  w_invites :: "user_invite list"
  w_passwordResets :: "password_reset list"
  w_emailVerifications :: "email_verification list"
  w_schemas :: "string \<Rightarrow> tenant_db option"
  w_redis :: redis
  w_permCache :: "string list kv"
  w_mail :: "SendEmailJobPayload list"
  w_workflow :: "workflow_job list"
  w_tenantModules :: "tenant_module list"
  w_modulePresets :: "module_preset list"
  w_terminology :: "vertical_terminology list"
  w_outbound :: "outbound_message list"

definition empty_world :: world where
  "empty_world =
     \<lparr>w_now = 0, w_rnd = 0, w_plans = [], w_tenants = [], w_users = [],
      w_tenantMemberships = [], w_sessions = [], w_refreshTokens = [], w_invites = [],
      w_passwordResets = [], w_emailVerifications = [], w_schemas = (\<lambda>_. None),
      w_redis = (\<lambda>_. None), w_permCache = (\<lambda>_. None), w_mail = [],
      w_workflow = [], w_tenantModules = [], w_modulePresets = [], w_terminology = [],
      w_outbound = []\<rparr>"

subsection \<open>The tables\<close>

text \<open>The tables of the core database, and those of the tenant schema with a given name.\<close>

definition core_table ::
    "(world \<Rightarrow> 'r list) \<Rightarrow> (('r list \<Rightarrow> 'r list) \<Rightarrow> world \<Rightarrow> world) \<Rightarrow> (world, 'r) tbl" where
  "core_table get upd = \<lparr>rows = (\<lambda>w. Some (get w)), on_rows = upd\<rparr>"

definition on_schema :: "string \<Rightarrow> (tenant_db \<Rightarrow> tenant_db) \<Rightarrow> world \<Rightarrow> world" where
  "on_schema s f w = w\<lparr>w_schemas := (w_schemas w)(s := map_option f (w_schemas w s))\<rparr>"

definition tenant_table ::
    "string \<Rightarrow> (tenant_db \<Rightarrow> 'r list) \<Rightarrow> (('r list \<Rightarrow> 'r list) \<Rightarrow> tenant_db \<Rightarrow> tenant_db) \<Rightarrow>
       (world, 'r) tbl" where
  "tenant_table s get upd =
     \<lparr>rows = (\<lambda>w. map_option get (w_schemas w s)), on_rows = (\<lambda>f. on_schema s (upd f))\<rparr>"

definition plans :: "(world, tenant_plan) tbl" where
  "plans = core_table w_plans w_plans_update"

definition tenants :: "(world, tenant) tbl" where
  "tenants = core_table w_tenants w_tenants_update"

definition users :: "(world, user) tbl" where
  "users = core_table w_users w_users_update"

definition tenantMemberships :: "(world, tenant_membership) tbl" where
  "tenantMemberships = core_table w_tenantMemberships w_tenantMemberships_update"

definition sessions :: "(world, session) tbl" where
  "sessions = core_table w_sessions w_sessions_update"

definition refreshTokens :: "(world, refresh_token) tbl" where
  "refreshTokens = core_table w_refreshTokens w_refreshTokens_update"

definition invites :: "(world, user_invite) tbl" where
  "invites = core_table w_invites w_invites_update"

definition passwordResets :: "(world, password_reset) tbl" where
  "passwordResets = core_table w_passwordResets w_passwordResets_update"

definition emailVerifications :: "(world, email_verification) tbl" where
  "emailVerifications = core_table w_emailVerifications w_emailVerifications_update"

definition tenantModules :: "(world, tenant_module) tbl" where
  "tenantModules = core_table w_tenantModules w_tenantModules_update"

definition modulePresets :: "(world, module_preset) tbl" where
  "modulePresets = core_table w_modulePresets w_modulePresets_update"

definition verticalTerminology :: "(world, vertical_terminology) tbl" where
  "verticalTerminology = core_table w_terminology w_terminology_update"

text \<open>A table of the second database, which only the mail worker writes to.\<close>

definition outboundMessages :: "(world, outbound_message) tbl" where
  "outboundMessages = core_table w_outbound w_outbound_update"

definition branches :: "string \<Rightarrow> (world, branch) tbl" where
  "branches s = tenant_table s db_branches db_branches_update"

definition roles :: "string \<Rightarrow> (world, role) tbl" where
  "roles s = tenant_table s db_roles db_roles_update"

definition permissions :: "string \<Rightarrow> (world, permission) tbl" where
  "permissions s = tenant_table s db_permissions db_permissions_update"

definition rolePermissions :: "string \<Rightarrow> (world, role_permission) tbl" where
  "rolePermissions s = tenant_table s db_rolePermissions db_rolePermissions_update"

definition memberships :: "string \<Rightarrow> (world, user_branch_membership) tbl" where
  "memberships s = tenant_table s db_memberships db_memberships_update"

lemmas core_table_defs =
  plans_def tenants_def users_def tenantMemberships_def sessions_def refreshTokens_def invites_def passwordResets_def emailVerifications_def tenantModules_def modulePresets_def verticalTerminology_def outboundMessages_def

lemmas tenant_table_defs =
  branches_def roles_def permissions_def rolePermissions_def memberships_def

text \<open>What each table reads and writes, for symbolic runs.\<close>

lemma core_rows [act, simp]:
  "rows plans w = Some (w_plans w)"
  "rows tenants w = Some (w_tenants w)"
  "rows users w = Some (w_users w)"
  "rows tenantMemberships w = Some (w_tenantMemberships w)"
  "rows sessions w = Some (w_sessions w)"
  "rows refreshTokens w = Some (w_refreshTokens w)"
  "rows invites w = Some (w_invites w)"
  "rows passwordResets w = Some (w_passwordResets w)"
  "rows emailVerifications w = Some (w_emailVerifications w)"
  "rows tenantModules w = Some (w_tenantModules w)"
  "rows modulePresets w = Some (w_modulePresets w)"
  "rows verticalTerminology w = Some (w_terminology w)"
  "rows outboundMessages w = Some (w_outbound w)"
  by (simp_all add: core_table_defs core_table_def)

lemma core_on_rows [act, simp]:
  "on_rows plans g1 w = w_plans_update g1 w"
  "on_rows tenants g2 w = w_tenants_update g2 w"
  "on_rows users g3 w = w_users_update g3 w"
  "on_rows tenantMemberships g4 w = w_tenantMemberships_update g4 w"
  "on_rows sessions g5 w = w_sessions_update g5 w"
  "on_rows refreshTokens g6 w = w_refreshTokens_update g6 w"
  "on_rows invites g7 w = w_invites_update g7 w"
  "on_rows passwordResets g8 w = w_passwordResets_update g8 w"
  "on_rows emailVerifications g9 w = w_emailVerifications_update g9 w"
  "on_rows tenantModules g15 w = w_tenantModules_update g15 w"
  "on_rows modulePresets g16 w = w_modulePresets_update g16 w"
  "on_rows verticalTerminology g17 w = w_terminology_update g17 w"
  "on_rows outboundMessages g18 w = w_outbound_update g18 w"
  by (simp_all add: core_table_defs core_table_def)

lemma tenant_rows [act, simp]:
  "rows (branches s) w = map_option db_branches (w_schemas w s)"
  "rows (roles s) w = map_option db_roles (w_schemas w s)"
  "rows (permissions s) w = map_option db_permissions (w_schemas w s)"
  "rows (rolePermissions s) w = map_option db_rolePermissions (w_schemas w s)"
  "rows (memberships s) w = map_option db_memberships (w_schemas w s)"
  by (simp_all add: tenant_table_defs tenant_table_def)

lemma tenant_on_rows [act, simp]:
  "on_rows (branches s) g10 w = on_schema s (db_branches_update g10) w"
  "on_rows (roles s) g11 w = on_schema s (db_roles_update g11) w"
  "on_rows (permissions s) g12 w = on_schema s (db_permissions_update g12) w"
  "on_rows (rolePermissions s) g13 w = on_schema s (db_rolePermissions_update g13) w"
  "on_rows (memberships s) g14 w = on_schema s (db_memberships_update g14) w"
  by (simp_all add: tenant_table_defs tenant_table_def)

lemma on_schema_same [simp]:
  "w_schemas (on_schema s f w) s = map_option f (w_schemas w s)"
  by (simp add: on_schema_def)

lemma on_schema_other [simp]: "s' \<noteq> s \<Longrightarrow> w_schemas (on_schema s f w) s' = w_schemas w s'"
  by (simp add: on_schema_def)

lemma on_schema_core [simp]:
  "w_now (on_schema s f w) = w_now w"
  "w_rnd (on_schema s f w) = w_rnd w"
  "w_plans (on_schema s f w) = w_plans w"
  "w_tenants (on_schema s f w) = w_tenants w"
  "w_users (on_schema s f w) = w_users w"
  "w_tenantMemberships (on_schema s f w) = w_tenantMemberships w"
  "w_sessions (on_schema s f w) = w_sessions w"
  "w_refreshTokens (on_schema s f w) = w_refreshTokens w"
  "w_invites (on_schema s f w) = w_invites w"
  "w_passwordResets (on_schema s f w) = w_passwordResets w"
  "w_emailVerifications (on_schema s f w) = w_emailVerifications w"
  "w_redis (on_schema s f w) = w_redis w"
  "w_permCache (on_schema s f w) = w_permCache w"
  "w_mail (on_schema s f w) = w_mail w"
  "w_workflow (on_schema s f w) = w_workflow w"
  "w_tenantModules (on_schema s f w) = w_tenantModules w"
  "w_modulePresets (on_schema s f w) = w_modulePresets w"
  "w_terminology (on_schema s f w) = w_terminology w"
  "w_outbound (on_schema s f w) = w_outbound w"
  by (simp_all add: on_schema_def)

interpretation plans_t: stored_table plans
  by unfold_locales simp

interpretation tenants_t: stored_table tenants
  by unfold_locales simp

interpretation users_t: stored_table users
  by unfold_locales simp

interpretation tenantMemberships_t: stored_table tenantMemberships
  by unfold_locales simp

interpretation sessions_t: stored_table sessions
  by unfold_locales simp

interpretation refreshTokens_t: stored_table refreshTokens
  by unfold_locales simp

interpretation invites_t: stored_table invites
  by unfold_locales simp

interpretation passwordResets_t: stored_table passwordResets
  by unfold_locales simp

interpretation emailVerifications_t: stored_table emailVerifications
  by unfold_locales simp

interpretation tenantModules_t: stored_table tenantModules
  by unfold_locales simp

interpretation modulePresets_t: stored_table modulePresets
  by unfold_locales simp

interpretation verticalTerminology_t: stored_table verticalTerminology
  by unfold_locales simp

interpretation outboundMessages_t: stored_table outboundMessages
  by unfold_locales simp

interpretation branches_t: stored_table "branches s" for s
  by unfold_locales (simp add: option.map_comp comp_def)

interpretation roles_t: stored_table "roles s" for s
  by unfold_locales (simp add: option.map_comp comp_def)

interpretation permissions_t: stored_table "permissions s" for s
  by unfold_locales (simp add: option.map_comp comp_def)

interpretation rolePermissions_t: stored_table "rolePermissions s" for s
  by unfold_locales (simp add: option.map_comp comp_def)

interpretation memberships_t: stored_table "memberships s" for s
  by unfold_locales (simp add: option.map_comp comp_def)

subsection \<open>Clock and random values\<close>

definition date_now :: "(world, int) handler" where
  "date_now = reads w_now"

text \<open>Each draw of a random value takes the next element of the supply.\<close>

definition draw :: "(nat \<Rightarrow> 'a) \<Rightarrow> (world, 'a) handler" where
  "draw f = (\<lambda>w. (Inr (f (w_rnd w)), w\<lparr>w_rnd := Suc (w_rnd w)\<rparr>))"

definition randomUUID :: "env \<Rightarrow> (world, string) handler" where
  "randomUUID E = draw (e_uuid E)"

definition randomBytesHex :: "env \<Rightarrow> nat \<Rightarrow> (world, string) handler" where
  "randomBytesHex E n = draw (e_randomHex E n)"

lemma date_now_run [act, simp]: "date_now w = (Inr (w_now w), w)"
  by (simp add: date_now_def)

lemma draw_run [act, simp]: "draw f w = (Inr (f (w_rnd w)), w\<lparr>w_rnd := Suc (w_rnd w)\<rparr>)"
  by (simp add: draw_def)

lemma randomUUID_run [act, simp]:
  "randomUUID E w = (Inr (e_uuid E (w_rnd w)), w\<lparr>w_rnd := Suc (w_rnd w)\<rparr>)"
  by (simp add: randomUUID_def)

lemma randomBytesHex_run [act, simp]:
  "randomBytesHex E n w = (Inr (e_randomHex E n (w_rnd w)), w\<lparr>w_rnd := Suc (w_rnd w)\<rparr>)"
  by (simp add: randomBytesHex_def)

text \<open>\<^verbatim>\<open>uuid.replace(/-/g, '')\<close>.\<close>

definition strip_dashes :: "string \<Rightarrow> string" where
  "strip_dashes s = filter (\<lambda>c. c \<noteq> CHR ''-'') s"

subsection \<open>Key-value commands and queues\<close>

definition redis_get :: "string \<Rightarrow> (world, redis_value option) handler" where
  "redis_get k = reads (\<lambda>w. kv_get (w_now w) (w_redis w) k)"

definition redis_exists :: "string \<Rightarrow> (world, bool) handler" where
  "redis_exists k = reads (\<lambda>w. kv_get (w_now w) (w_redis w) k \<noteq> None)"

definition redis_set :: "string \<Rightarrow> string \<Rightarrow> (world, unit) handler" where
  "redis_set k v = writes (\<lambda>w. w\<lparr>w_redis := kv_set k (Text v) None (w_redis w)\<rparr>)"

definition redis_setEx :: "string \<Rightarrow> string \<Rightarrow> int \<Rightarrow> (world, unit) handler" where
  "redis_setEx k v secs =
     writes (\<lambda>w. w\<lparr>w_redis := kv_set k (Text v) (Some (w_now w + secs * 1000)) (w_redis w)\<rparr>)"

definition redis_del :: "string \<Rightarrow> (world, unit) handler" where
  "redis_del k = writes (\<lambda>w. w\<lparr>w_redis := kv_del k (w_redis w)\<rparr>)"

definition redis_expire :: "string \<Rightarrow> int \<Rightarrow> (world, unit) handler" where
  "redis_expire k secs =
     writes (\<lambda>w. w\<lparr>w_redis := kv_expire k (w_now w + secs * 1000) (w_redis w)\<rparr>)"

definition redis_incr :: "string \<Rightarrow> (world, nat) handler" where
  "redis_incr k = (\<lambda>w.
     case kv_get (w_now w) (w_redis w) k of
       None \<Rightarrow> (Inr 1, w\<lparr>w_redis := kv_set k (Counter 1) None (w_redis w)\<rparr>)
     | Some (Counter n) \<Rightarrow>
         (Inr (Suc n), w\<lparr>w_redis := kv_set k (Counter (Suc n)) (snd (the (w_redis w k))) (w_redis w)\<rparr>)
     | Some (Text v) \<Rightarrow> (Inl (PlainError ''ERR value is not an integer or out of range''), w))"

definition mailQueue_add :: "SendEmailJobPayload \<Rightarrow> (world, unit) handler" where
  "mailQueue_add job = writes (\<lambda>w. w\<lparr>w_mail := w_mail w @ [job]\<rparr>)"

definition workflowQueue_add :: "workflow_job \<Rightarrow> (world, unit) handler" where
  "workflowQueue_add job = writes (\<lambda>w. w\<lparr>w_workflow := w_workflow w @ [job]\<rparr>)"

lemma workflowQueue_add_run [act, simp]:
  "workflowQueue_add job w = (Inr (), w\<lparr>w_workflow := w_workflow w @ [job]\<rparr>)"
  by (simp add: workflowQueue_add_def)

lemma redis_run [act, simp]:
  "redis_get k w = (Inr (kv_get (w_now w) (w_redis w) k), w)"
  "redis_exists k w = (Inr (kv_get (w_now w) (w_redis w) k \<noteq> None), w)"
  "redis_set k v w = (Inr (), w\<lparr>w_redis := kv_set k (Text v) None (w_redis w)\<rparr>)"
  "redis_setEx k v secs w =
     (Inr (), w\<lparr>w_redis := kv_set k (Text v) (Some (w_now w + secs * 1000)) (w_redis w)\<rparr>)"
  "redis_del k w = (Inr (), w\<lparr>w_redis := kv_del k (w_redis w)\<rparr>)"
  "redis_expire k secs w =
     (Inr (), w\<lparr>w_redis := kv_expire k (w_now w + secs * 1000) (w_redis w)\<rparr>)"
  "mailQueue_add job w = (Inr (), w\<lparr>w_mail := w_mail w @ [job]\<rparr>)"
  by (simp_all add: redis_get_def redis_exists_def redis_set_def redis_setEx_def redis_del_def
    redis_expire_def mailQueue_add_def)

text \<open>What the sources rely on of the store.\<close>

locale kv_store =
  fixes get :: "int \<Rightarrow> 'm \<Rightarrow> 'k \<Rightarrow> 'v option"
    and put :: "'k \<Rightarrow> 'v \<Rightarrow> int option \<Rightarrow> 'm \<Rightarrow> 'm"
    and remove :: "'k \<Rightarrow> 'm \<Rightarrow> 'm"
  assumes get_put:
      "get t (put k v e m) k' =
         (if k' = k then (if (\<forall>x. e = Some x \<longrightarrow> t < x) then Some v else None) else get t m k')"
    and get_remove: "get t (remove k m) k' = (if k' = k then None else get t m k')"
    and get_earlier: "t \<le> t' \<Longrightarrow> get t' m k = Some v \<Longrightarrow> get t m k = Some v"
begin

lemma put_until: "t < e \<Longrightarrow> get t (put k v (Some e) m) k = Some v"
  by (simp add: get_put)

lemma put_gone: "e \<le> t \<Longrightarrow> get t (put k v (Some e) m) k = None"
  by (auto simp: get_put)

lemma put_frame: "k' \<noteq> k \<Longrightarrow> get t (put k v e m) k' = get t m k'"
  by (simp add: get_put)

lemma stays_gone: "t \<le> t' \<Longrightarrow> get t m k = None \<Longrightarrow> get t' m k = None"
  by (metis get_earlier not_None_eq)

end

interpretation redis: kv_store kv_get kv_set kv_del
proof
  show "kv_get t (kv_set k v e m) k' =
      (if k' = k then (if (\<forall>x. e = Some x \<longrightarrow> t < x) then Some v else None) else kv_get t m k')"
    for t k v e m k'
    by (simp add: kv_get_def kv_set_def split: option.split)
  show "kv_get t (kv_del k m) k' = (if k' = k then None else kv_get t m k')" for t k m k'
    by (simp add: kv_get_def kv_del_def)
  show "t \<le> t' \<Longrightarrow> kv_get t' m k = Some v \<Longrightarrow> kv_get t m k = Some v" for t t' m k v
    by (auto simp: kv_get_def split: option.splits if_splits)
qed

lemma kv_get_expire:
  "kv_get t (kv_expire k e r) k' =
     (if k' = k then (case r k of None \<Rightarrow> None | Some (v, _) \<Rightarrow> if t < e then Some v else None)
      else kv_get t r k')"
  by (auto simp: kv_get_def kv_expire_def split: option.splits)

text \<open>The frame rules for these commands.\<close>

lemma effect_draw: "(\<And>w. R w (w\<lparr>w_rnd := Suc (w_rnd w)\<rparr>)) \<Longrightarrow> has_effect R (draw f)"
  by (simp add: has_effect_def after_def)

lemma effect_randomUUID:
  "(\<And>w. R w (w\<lparr>w_rnd := Suc (w_rnd w)\<rparr>)) \<Longrightarrow> has_effect R (randomUUID E)"
  by (simp add: has_effect_def after_def)

lemma effect_randomBytesHex:
  "(\<And>w. R w (w\<lparr>w_rnd := Suc (w_rnd w)\<rparr>)) \<Longrightarrow> has_effect R (randomBytesHex E n)"
  by (simp add: has_effect_def after_def)

lemma effect_mailQueue_add:
  "(\<And>w. R w (w\<lparr>w_mail := w_mail w @ [job]\<rparr>)) \<Longrightarrow> has_effect R (mailQueue_add job)"
  by (simp add: has_effect_def after_def)

lemma effect_redis:
  assumes "\<And>w r. R w (w\<lparr>w_redis := r\<rparr>)" and "\<And>w. R w w"
  shows "has_effect R (redis_get k)" "has_effect R (redis_exists k)" "has_effect R (redis_set k v)"
    "has_effect R (redis_setEx k v secs)" "has_effect R (redis_del k)"
    "has_effect R (redis_expire k secs)" "has_effect R (redis_incr k)"
  using assms
  by (auto simp: has_effect_def after_def redis_incr_def split: option.split redis_value.split)

end
