(* ===== verification/Users.thy ===== *)
theory Users
  imports World
begin

text \<open>
  \<^verbatim>\<open>apps/auth-service/src/modules/users\<close>: the repository of \<^verbatim>\<open>public.users\<close> and the service over it.
  The e-mail column is case-insensitive (\<^verbatim>\<open>citext\<close>), so the unique index and the lookups compare the
  lower-cased text.
\<close>

subsection \<open>Repository\<close>

definition normalizeEmail :: "string \<Rightarrow> string" where
  "normalizeEmail email = toLowerCase (trim email)"

definition email_key :: "user \<Rightarrow> string" where
  "email_key u = toLowerCase (u_email u)"

definition user_clash :: "user \<Rightarrow> user \<Rightarrow> bool" where
  "user_clash u u' \<longleftrightarrow> u_id u' = u_id u \<or> email_key u' = email_key u"

text \<open>\<^verbatim>\<open>Prisma.UserCreateInput\<close> with the columns that the callers set; the schema's defaults fill the rest.\<close>

record UserCreateInput =
  uc_email :: string
  uc_passwordHash :: "string option"
  uc_firstName :: "string option"
  uc_lastName :: "string option"
  uc_locale :: "string option"
  uc_timezone :: "string option"
  uc_status :: UserStatus

definition new_user :: "string \<Rightarrow> int \<Rightarrow> UserCreateInput \<Rightarrow> user" where
  "new_user i t d =
     \<lparr>u_id = i, u_email = uc_email d, u_emailVerified = False, u_passwordHash = uc_passwordHash d,
      u_firstName = uc_firstName d, u_lastName = uc_lastName d, u_avatarUrl = None, u_phone = None,
      u_locale = uc_locale d, u_timezone = uc_timezone d, u_status = uc_status d,
      u_twoFactorEnabled = False, u_twoFactorSecret = None, u_twoFactorBackupCodes = [],
      u_lockedUntil = None, u_lastLoginAt = None, u_lastLoginIp = None, u_deletedAt = None,
      u_createdAt = t\<rparr>"

definition user_create :: "env \<Rightarrow> UserCreateInput \<Rightarrow> (world, user) handler" where
  "user_create E d =
     await (randomUUID E) (\<lambda>i.
     await date_now (\<lambda>t.
     create users user_clash no_refs (new_user i t d)))"

definition repo_findByEmail :: "string \<Rightarrow> (world, user option) handler" where
  "repo_findByEmail email = findUnique users email_key (normalizeEmail email)"

definition repo_findById :: "string \<Rightarrow> (world, user option) handler" where
  "repo_findById i = findUnique users u_id i"

definition repo_emailExists :: "string \<Rightarrow> (world, bool) handler" where
  "repo_emailExists email =
     await (findUnique users email_key (normalizeEmail email)) (\<lambda>row. ret (row \<noteq> None))"

definition repo_create :: "env \<Rightarrow> UserCreateInput \<Rightarrow> (world, user) handler" where
  "repo_create E d = user_create E (d\<lparr>uc_email := normalizeEmail (uc_email d)\<rparr>)"

definition repo_update :: "string \<Rightarrow> (user \<Rightarrow> user) \<Rightarrow> (world, unit) handler" where
  "repo_update i f = await (update users u_id i f) (\<lambda>_. ret ())"

definition repo_setPasswordHash :: "string \<Rightarrow> string \<Rightarrow> (world, unit) handler" where
  "repo_setPasswordHash i h = repo_update i (\<lambda>u. u\<lparr>u_passwordHash := Some h\<rparr>)"

definition repo_markEmailVerified :: "string \<Rightarrow> (world, unit) handler" where
  "repo_markEmailVerified i = repo_update i (\<lambda>u. u\<lparr>u_emailVerified := True\<rparr>)"

text \<open>
  \<^verbatim>\<open>extras\<close>: the outer option says whether the property is present, the inner is its nullable
  value.
\<close>

definition repo_updateStatus ::
    "string \<Rightarrow> UserStatus \<Rightarrow> int option option \<Rightarrow> int option option \<Rightarrow> (world, unit) handler" where
  "repo_updateStatus i st lockedUntil deletedAt =
     repo_update i (\<lambda>u. u\<lparr>u_status := st,
       u_lockedUntil := orElse lockedUntil (u_lockedUntil u),
       u_deletedAt := orElse deletedAt (u_deletedAt u)\<rparr>)"

definition repo_set2FA ::
    "string \<Rightarrow> bool \<Rightarrow> string option \<Rightarrow> string list \<Rightarrow> (world, unit) handler" where
  "repo_set2FA i enabled secret backupCodes =
     repo_update i (\<lambda>u. u\<lparr>u_twoFactorEnabled := enabled, u_twoFactorSecret := secret,
       u_twoFactorBackupCodes := backupCodes\<rparr>)"

definition repo_recordLogin :: "string \<Rightarrow> string option \<Rightarrow> (world, unit) handler" where
  "repo_recordLogin i ip =
     await date_now (\<lambda>t. repo_update i (\<lambda>u. u\<lparr>u_lastLoginAt := Some t, u_lastLoginIp := ip\<rparr>))"

subsection \<open>Service\<close>

definition findByEmail :: "string \<Rightarrow> (world, user option) handler" where
  "findByEmail email = repo_findByEmail email"

definition findByEmailOrThrow :: "string \<Rightarrow> (world, user) handler" where
  "findByEmailOrThrow email =
     await (repo_findByEmail email) (\<lambda>u.
     case u of None \<Rightarrow> throw (User UserNotFoundException) | Some u \<Rightarrow> ret u)"

definition findById :: "string \<Rightarrow> (world, user option) handler" where
  "findById i = repo_findById i"

definition findByIdOrThrow :: "string \<Rightarrow> (world, user) handler" where
  "findByIdOrThrow i =
     await (repo_findById i) (\<lambda>u.
     case u of None \<Rightarrow> throw (User UserNotFoundException) | Some u \<Rightarrow> ret u)"

definition users_create :: "env \<Rightarrow> UserCreateInput \<Rightarrow> (world, user) handler" where
  "users_create E d =
     await (repo_emailExists (uc_email d)) (\<lambda>taken.
     await (throwIf taken (User UserAlreadyExistsException)) (\<lambda>_.
     repo_create E d))"

definition setPasswordHash :: "string \<Rightarrow> string \<Rightarrow> (world, unit) handler" where
  "setPasswordHash i h = await (findByIdOrThrow i) (\<lambda>_. repo_setPasswordHash i h)"

definition markEmailVerified :: "string \<Rightarrow> (world, unit) handler" where
  "markEmailVerified i = await (findByIdOrThrow i) (\<lambda>_. repo_markEmailVerified i)"

definition activate :: "string \<Rightarrow> (world, unit) handler" where
  "activate i =
     await (findByIdOrThrow i) (\<lambda>_. repo_updateStatus i UserStatus.ACTIVE (Some None) None)"

definition lock :: "string \<Rightarrow> int \<Rightarrow> (world, unit) handler" where
  "lock i until =
     await (findByIdOrThrow i) (\<lambda>_.
     repo_updateStatus i UserStatus.LOCKED (Some (Some until)) None)"

definition unlock :: "string \<Rightarrow> (world, unit) handler" where
  "unlock i =
     await (findByIdOrThrow i) (\<lambda>_. repo_updateStatus i UserStatus.ACTIVE (Some None) None)"

definition suspend :: "string \<Rightarrow> (world, unit) handler" where
  "suspend i =
     await (findByIdOrThrow i) (\<lambda>_. repo_updateStatus i UserStatus.SUSPENDED None None)"

definition softDelete :: "string \<Rightarrow> (world, unit) handler" where
  "softDelete i =
     await (findByIdOrThrow i) (\<lambda>_.
     await date_now (\<lambda>t.
     repo_updateStatus i UserStatus.DELETED None (Some (Some t))))"

definition set2FA :: "string \<Rightarrow> bool \<Rightarrow> string option \<Rightarrow> string list \<Rightarrow> (world, unit) handler" where
  "set2FA i enabled secret backupCodes =
     await (findByIdOrThrow i) (\<lambda>_. repo_set2FA i enabled secret backupCodes)"

definition recordLogin :: "string \<Rightarrow> string option \<Rightarrow> (world, unit) handler" where
  "recordLogin i ip = repo_recordLogin i ip"

end
