(* ===== verification/Tokens.thy ===== *)
theory Tokens
  imports Users
begin

text \<open>
  The repositories of sessions and refresh tokens, the token issuer
  (\<^verbatim>\<open>apps/auth-service/src/modules/auth\<close>) and the revocation list of access tokens
  (\<^verbatim>\<open>libs/auth-client/src/services/token-revocation.service.ts\<close>).
\<close>

subsection \<open>Refresh-token repository\<close>

definition refresh_clash :: "refresh_token \<Rightarrow> refresh_token \<Rightarrow> bool" where
  "refresh_clash r r' \<longleftrightarrow> rt_id r' = rt_id r \<or> rt_tokenHash r' = rt_tokenHash r"

definition refresh_refs :: "refresh_token \<Rightarrow> world \<Rightarrow> bool" where
  "refresh_refs r w \<longleftrightarrow>
     existsRow (\<lambda>u. u_id u = rt_userId r) (w_users w) \<and>
     existsRow (\<lambda>s. s_id s = rt_sessionId r) (w_sessions w)"

definition refreshTokens_create :: "refresh_token \<Rightarrow> (world, refresh_token) handler" where
  "refreshTokens_create r = create refreshTokens refresh_clash refresh_refs r"

definition findByHash :: "string \<Rightarrow> (world, refresh_token option) handler" where
  "findByHash hash = findUnique refreshTokens rt_tokenHash hash"

definition markUsed :: "string \<Rightarrow> (world, unit) handler" where
  "markUsed i =
     await date_now (\<lambda>t.
     await (update refreshTokens rt_id i (\<lambda>r. r\<lparr>rt_usedAt := Some t\<rparr>)) (\<lambda>_. ret ()))"

definition revoke_row :: "int \<Rightarrow> string \<Rightarrow> refresh_token \<Rightarrow> refresh_token" where
  "revoke_row t reason r = r\<lparr>rt_revokedAt := Some t, rt_revokedReason := Some reason\<rparr>"

definition refreshTokens_revoke :: "string \<Rightarrow> string \<Rightarrow> (world, unit) handler" where
  "refreshTokens_revoke i reason =
     await date_now (\<lambda>t.
     await (update refreshTokens rt_id i (revoke_row t reason)) (\<lambda>_. ret ()))"

definition revokeFamily :: "string \<Rightarrow> string \<Rightarrow> (world, unit) handler" where
  "revokeFamily familyId reason =
     await date_now (\<lambda>t.
     await (updateMany refreshTokens (\<lambda>r. rt_familyId r = familyId \<and> rt_revokedAt r = None)
       (revoke_row t reason)) (\<lambda>_. ret ()))"

definition revokeAllForUser :: "string \<Rightarrow> string \<Rightarrow> (world, unit) handler" where
  "revokeAllForUser userId reason =
     await date_now (\<lambda>t.
     await (updateMany refreshTokens (\<lambda>r. rt_userId r = userId \<and> rt_revokedAt r = None)
       (revoke_row t reason)) (\<lambda>_. ret ()))"

subsection \<open>Session repository\<close>

definition session_clash :: "session \<Rightarrow> session \<Rightarrow> bool" where
  "session_clash s s' \<longleftrightarrow> s_id s' = s_id s"

text \<open>
  \<^verbatim>\<open>create\<close> connects the session to a user and a tenant that must exist; the other columns take
  the schema's defaults.
\<close>

definition sessions_create ::
    "env \<Rightarrow> string \<Rightarrow> string \<Rightarrow> SessionScope \<Rightarrow> string option \<Rightarrow> string option \<Rightarrow>
       (world, session) handler" where
  "sessions_create E userId tenantId scope ipAddress userAgent =
     await (findUnique users u_id userId) (\<lambda>u.
     await (throwIf (u = None) (Prisma P2025)) (\<lambda>_.
     await (findUnique tenants t_id tenantId) (\<lambda>t.
     await (throwIf (t = None) (Prisma P2025)) (\<lambda>_.
     await (randomUUID E) (\<lambda>i.
     await date_now (\<lambda>now.
     create sessions session_clash no_refs
       \<lparr>s_id = i, s_userId = userId, s_scope = scope, s_tenantId = Some tenantId,
        s_activeBranchId = None, s_ipAddress = ipAddress, s_userAgent = userAgent,
        s_createdAt = now, s_lastActiveAt = now, s_endedAt = None, s_endReason = None\<rparr>))))))"

definition sessions_findById :: "string \<Rightarrow> (world, session option) handler" where
  "sessions_findById i = findUnique sessions s_id i"

definition touch :: "string \<Rightarrow> (world, unit) handler" where
  "touch i =
     await date_now (\<lambda>t.
     await (update sessions s_id i (\<lambda>s. s\<lparr>s_lastActiveAt := t\<rparr>)) (\<lambda>_. ret ()))"

definition end_row :: "int \<Rightarrow> SessionEndReason \<Rightarrow> session \<Rightarrow> session" where
  "end_row t reason s = s\<lparr>s_endedAt := Some t, s_endReason := Some reason\<rparr>"

definition sessions_end :: "string \<Rightarrow> SessionEndReason \<Rightarrow> (world, unit) handler" where
  "sessions_end i reason =
     await date_now (\<lambda>t.
     await (update sessions s_id i (end_row t reason)) (\<lambda>_. ret ()))"

definition endAllForUser :: "string \<Rightarrow> SessionEndReason \<Rightarrow> (world, unit) handler" where
  "endAllForUser userId reason =
     await date_now (\<lambda>t.
     await (updateMany sessions (\<lambda>s. s_userId s = userId \<and> s_endedAt s = None)
       (end_row t reason)) (\<lambda>_. ret ()))"

subsection \<open>Token issuer\<close>

text \<open>\<^verbatim>\<open>AccessTokenPayload\<close>: the claims that a caller passes; the issuer adds the rest.\<close>

record AccessTokenPayload =
  a_sub :: string
  a_scope :: string
  a_sessionId :: string
  a_tenantId :: "string option"
  a_activeBranchId :: "string option"
  a_accessibleBranchIds :: "string list"
  a_hasTenantWideAccess :: bool
  a_roles :: "string list"

text \<open>The payload that every caller of the sources builds.\<close>

definition tenant_payload ::
    "string \<Rightarrow> string \<Rightarrow> string option \<Rightarrow> string option \<Rightarrow> AccessTokenPayload" where
  "tenant_payload sub sessionId tenantId activeBranchId =
     \<lparr>a_sub = sub, a_scope = ''tenant'', a_sessionId = sessionId, a_tenantId = tenantId,
      a_activeBranchId = activeBranchId, a_accessibleBranchIds = [],
      a_hasTenantWideAccess = False, a_roles = []\<rparr>"

record IssuedAccessToken =
  ia_token :: string
  ia_jti :: string
  ia_expiresAt :: int

record IssuedRefreshToken =
  ir_raw :: string
  ir_hash :: string
  ir_id :: string
  ir_expiresAt :: int

definition claims_of :: "AccessTokenPayload \<Rightarrow> string \<Rightarrow> string \<Rightarrow> int \<Rightarrow> int \<Rightarrow> jwt_claims" where
  "claims_of p ty jti iat exp =
     \<lparr>c_sub = a_sub p, c_scope = a_scope p, c_sessionId = a_sessionId p, c_tenantId = a_tenantId p,
      c_activeBranchId = a_activeBranchId p, c_accessibleBranchIds = a_accessibleBranchIds p,
      c_hasTenantWideAccess = a_hasTenantWideAccess p, c_roles = a_roles p, c_platformRoles = [],
      c_impersonatedByUserId = [], c_impersonationReason = [], c_type = ty, c_iss = ''bos-auth'',
      c_aud = ''bos-platform'', c_jti = jti, c_iat = iat, c_exp = exp, c_v = 1\<rparr>"

definition access_ttl :: "env \<Rightarrow> string \<Rightarrow> int" where
  "access_ttl E scope = (if scope = ''platform'' then e_platformAccessTtl E else e_accessTtl E)"

definition issueAccessToken :: "env \<Rightarrow> AccessTokenPayload \<Rightarrow> (world, IssuedAccessToken) handler" where
  "issueAccessToken E payload =
     await (randomUUID E) (\<lambda>jti.
     await date_now (\<lambda>ms.
     let now = ms div 1000; exp = now + access_ttl E (a_scope payload) in
     ret \<lparr>ia_token = e_jwtSign E (claims_of payload ''access'' jti now exp),
          ia_jti = jti, ia_expiresAt = exp * 1000\<rparr>))"

definition pending_payload :: "string \<Rightarrow> string \<Rightarrow> AccessTokenPayload" where
  "pending_payload userId sessionId =
     \<lparr>a_sub = userId, a_scope = ''two_factor_pending'', a_sessionId = sessionId, a_tenantId = None,
      a_activeBranchId = None, a_accessibleBranchIds = [], a_hasTenantWideAccess = False,
      a_roles = []\<rparr>"

definition issueTwoFactorPendingToken ::
    "env \<Rightarrow> string \<Rightarrow> string \<Rightarrow> (world, IssuedAccessToken) handler" where
  "issueTwoFactorPendingToken E userId sessionId =
     await (randomUUID E) (\<lambda>jti.
     await date_now (\<lambda>ms.
     let now = ms div 1000; exp = now + e_twoFactorTempTtl E in
     ret \<lparr>ia_token = e_jwtSign E (claims_of (pending_payload userId sessionId) ''2fa_pending'' jti now exp),
          ia_jti = jti, ia_expiresAt = exp * 1000\<rparr>))"

definition hashRefreshToken :: "env \<Rightarrow> string \<Rightarrow> string" where
  "hashRefreshToken E raw = e_sha256 E raw"

definition generateRefreshToken :: "env \<Rightarrow> (world, IssuedRefreshToken) handler" where
  "generateRefreshToken E =
     await (randomUUID E) (\<lambda>a.
     await (randomUUID E) (\<lambda>b.
     let raw = strip_dashes (a @ ''.'' @ b) in
     await date_now (\<lambda>now.
     await (randomUUID E) (\<lambda>i.
     ret \<lparr>ir_raw = raw, ir_hash = hashRefreshToken E raw, ir_id = i,
          ir_expiresAt = now + e_refreshTtl E * 1000\<rparr>))))"

text \<open>The row that a caller stores for a new token; the parent is absent for the first of a family.\<close>

definition refresh_row ::
    "int \<Rightarrow> IssuedRefreshToken \<Rightarrow> string \<Rightarrow> string \<Rightarrow> string \<Rightarrow> string option \<Rightarrow> refresh_token" where
  "refresh_row now t userId sessionId familyId parentId =
     \<lparr>rt_id = ir_id t, rt_tokenHash = ir_hash t, rt_userId = userId, rt_sessionId = sessionId,
      rt_familyId = familyId, rt_parentId = parentId, rt_expiresAt = ir_expiresAt t,
      rt_usedAt = None, rt_revokedAt = None, rt_revokedReason = None, rt_createdAt = now\<rparr>"

subsection \<open>Revocation list of access tokens\<close>

definition REVOKED_JTI :: string where "REVOKED_JTI = ''revoked:jti:''"

definition LOCKOUT :: string where "LOCKOUT = ''lockout:''"

definition revoke :: "string \<Rightarrow> int \<Rightarrow> (world, unit) handler" where
  "revoke jti ttlSeconds = redis_setEx (REVOKED_JTI @ jti) ''1'' (max 1 ttlSeconds)"

definition isRevoked :: "string \<Rightarrow> (world, bool) handler" where
  "isRevoked jti = redis_exists (REVOKED_JTI @ jti)"

definition revokeMany :: "string list \<Rightarrow> int \<Rightarrow> (world, unit) handler" where
  "revokeMany jtis ttlSeconds =
     (if length jtis = 0 then ret ()
      else forEach jtis (\<lambda>jti. redis_setEx (REVOKED_JTI @ jti) ''1'' (max 1 ttlSeconds)))"

end
