(* ===== verification/Refresh.thy ===== *)
theory Refresh
  imports Tokens
begin

text \<open>
  \<^verbatim>\<open>refresh.service.ts\<close> and \<^verbatim>\<open>logout.service.ts\<close>: rotation of refresh tokens with reuse detection,
  and the two forms of logout.
\<close>

subsection \<open>Refresh\<close>

record RefreshResult =
  rr_accessToken :: string
  rr_accessTokenExpiresAt :: int
  rr_accessTokenExpiresIn :: int
  rr_refreshTokenRaw :: string
  rr_refreshTokenExpiresAt :: int

text \<open>The branch for a token that was used before.\<close>

definition reuse_detected :: "refresh_token \<Rightarrow> (world, 'a) handler" where
  "reuse_detected existing =
     await (revokeFamily (rt_familyId existing) ''reuse_detected'') (\<lambda>_.
     await (sessions_end (rt_sessionId existing) SessionEndReason.TOKEN_REUSE_DETECTED) (\<lambda>_.
     throw (Auth TokenReuseDetectedException)))"

text \<open>The checks, up to the write that burns the old token.\<close>

definition check_refresh :: "env \<Rightarrow> string \<Rightarrow> (world, refresh_token) handler" where
  "check_refresh E rawRefreshToken =
     await (findByHash (hashRefreshToken E rawRefreshToken)) (\<lambda>found.
     case found of
       None \<Rightarrow> throw (Auth RefreshTokenInvalidException)
     | Some existing \<Rightarrow>
         await (throwIf (rt_revokedAt existing \<noteq> None) (Auth RefreshTokenInvalidException)) (\<lambda>_.
         if rt_usedAt existing \<noteq> None then reuse_detected existing
         else
           await date_now (\<lambda>now.
           await (throwIf (rt_expiresAt existing \<le> now) (Auth RefreshTokenInvalidException)) (\<lambda>_.
           ret existing))))"

text \<open>The session check and the new pair of tokens.\<close>

definition issue_refresh :: "env \<Rightarrow> refresh_token \<Rightarrow> (world, RefreshResult) handler" where
  "issue_refresh E existing =
     await (sessions_findById (rt_sessionId existing)) (\<lambda>session.
     case session of
       None \<Rightarrow> throw (Auth RefreshTokenInvalidException)
     | Some s \<Rightarrow>
         await (throwIf (s_endedAt s \<noteq> None) (Auth RefreshTokenInvalidException)) (\<lambda>_.
         await (issueAccessToken E (tenant_payload (rt_userId existing) (rt_sessionId existing)
           (s_tenantId s) (s_activeBranchId s))) (\<lambda>access.
         await (generateRefreshToken E) (\<lambda>newRefresh.
         await date_now (\<lambda>now.
         await (refreshTokens_create
           (refresh_row now newRefresh (rt_userId existing) (rt_sessionId existing)
             (rt_familyId existing) (Some (rt_id existing)))) (\<lambda>_.
         await (touch (rt_sessionId existing)) (\<lambda>_.
         ret \<lparr>rr_accessToken = ia_token access, rr_accessTokenExpiresAt = ia_expiresAt access,
              rr_accessTokenExpiresIn = e_accessTtl E, rr_refreshTokenRaw = ir_raw newRefresh,
              rr_refreshTokenExpiresAt = ir_expiresAt newRefresh\<rparr>)))))))"

definition refresh :: "env \<Rightarrow> string \<Rightarrow> (world, RefreshResult) handler" where
  "refresh E rawRefreshToken =
     await (check_refresh E rawRefreshToken) (\<lambda>existing.
     await (markUsed (rt_id existing)) (\<lambda>_.
     issue_refresh E existing))"

text \<open>The controller reads the token from a cookie; an absent or empty cookie is rejected.\<close>

definition refreshHandler :: "env \<Rightarrow> string option \<Rightarrow> (world, RefreshResult) handler" where
  "refreshHandler E cookie =
     (if truthy cookie then refresh E (the cookie)
      else throw (Nest (UnauthorizedException ''Missing refresh token'')))"

subsection \<open>Logout\<close>

definition logoutCurrent :: "env \<Rightarrow> string \<Rightarrow> string \<Rightarrow> string option \<Rightarrow> (world, unit) handler" where
  "logoutCurrent E sessionId accessJti rawRefreshToken =
     await (revoke accessJti (e_accessTtl E)) (\<lambda>_.
     await
       (if truthy rawRefreshToken
        then await (findByHash (hashRefreshToken E (the rawRefreshToken))) (\<lambda>found.
             case found of
               None \<Rightarrow> ret ()
             | Some existing \<Rightarrow>
                 if rt_revokedAt existing = None then refreshTokens_revoke (rt_id existing) ''logout''
                 else ret ())
        else ret ()) (\<lambda>_.
     sessions_end sessionId SessionEndReason.LOGOUT))"

definition logoutAll :: "string \<Rightarrow> (world, unit) handler" where
  "logoutAll userId =
     await (revokeAllForUser userId ''logout_all'') (\<lambda>_.
     endAllForUser userId SessionEndReason.LOGOUT)"

end
