(* ===== verification/Passwords.thy ===== *)
theory Passwords
  imports World
begin

text \<open>
  \<^verbatim>\<open>libs/security/src/crypto\<close>: the password policy and the password hasher. The policy check
  returns the list of violated rules; the hasher calls the argon2 package, which may throw.
\<close>

record PasswordPolicy =
  minLength :: nat
  maxLength :: nat
  requireUppercase :: bool
  requireLowercase :: bool
  requireDigit :: bool
  requireSpecialChar :: bool

record PasswordPolicyViolation =
  v_code :: string
  v_message :: string

definition DEFAULT_PASSWORD_POLICY :: PasswordPolicy where
  "DEFAULT_PASSWORD_POLICY =
     \<lparr>minLength = 10, maxLength = 128, requireUppercase = True, requireLowercase = True,
      requireDigit = True, requireSpecialChar = False\<rparr>"

definition violation :: "string \<Rightarrow> string \<Rightarrow> PasswordPolicyViolation" where
  "violation c m = \<lparr>v_code = c, v_message = m\<rparr>"

definition is_alnum :: "char \<Rightarrow> bool" where
  "is_alnum c \<longleftrightarrow> is_upper c \<or> is_lower c \<or> is_digit c"

definition checkPasswordPolicy :: "string \<Rightarrow> PasswordPolicy \<Rightarrow> PasswordPolicyViolation list" where
  "checkPasswordPolicy plaintext policy =
     (if length plaintext < minLength policy
      then [violation ''min_length''
              (''Password must be at least '' @ nat_text (minLength policy) @ '' characters long'')]
      else []) @
     (if maxLength policy < length plaintext
      then [violation ''max_length''
              (''Password must not exceed '' @ nat_text (maxLength policy) @ '' characters'')]
      else []) @
     (if requireUppercase policy \<and> \<not> list_ex is_upper plaintext
      then [violation ''require_uppercase'' ''Password must contain at least one uppercase letter'']
      else []) @
     (if requireLowercase policy \<and> \<not> list_ex is_lower plaintext
      then [violation ''require_lowercase'' ''Password must contain at least one lowercase letter'']
      else []) @
     (if requireDigit policy \<and> \<not> list_ex is_digit plaintext
      then [violation ''require_digit'' ''Password must contain at least one digit'']
      else []) @
     (if requireSpecialChar policy \<and> \<not> list_ex (\<lambda>c. \<not> is_alnum c) plaintext
      then [violation ''require_special'' ''Password must contain at least one special character'']
      else [])"

text \<open>What a caller that throws on violations enforces; the default argument is the default policy.\<close>

definition policy_violations :: "string \<Rightarrow> PasswordPolicyViolation list" where
  "policy_violations p = checkPasswordPolicy p DEFAULT_PASSWORD_POLICY"

definition require_policy :: "string \<Rightarrow> (world, unit) handler" where
  "require_policy p =
     throwIf (policy_violations p \<noteq> [])
       (Account (PasswordTooWeakException (Some (map v_message (policy_violations p)))))"

text \<open>\<^verbatim>\<open>PasswordHasherService\<close>: each hash draws a fresh salt.\<close>

definition hasher_hash :: "env \<Rightarrow> string \<Rightarrow> (world, string) handler" where
  "hasher_hash E plaintext = draw (e_argonHash E plaintext)"

definition hasher_verify :: "env \<Rightarrow> string \<Rightarrow> string \<Rightarrow> bool" where
  "hasher_verify E hash plaintext =
     (case e_argonVerify E hash plaintext of None \<Rightarrow> False | Some ok \<Rightarrow> ok)"

definition needsRehash :: "env \<Rightarrow> string \<Rightarrow> bool" where
  "needsRehash E hash = (case e_argonNeedsRehash E hash of None \<Rightarrow> True | Some b \<Rightarrow> b)"

lemma hasher_hash_run [act, simp]:
  "hasher_hash E p w = (Inr (e_argonHash E p (w_rnd w)), w\<lparr>w_rnd := Suc (w_rnd w)\<rparr>)"
  by (simp add: hasher_hash_def)

lemma policy_empty_iff:
  "checkPasswordPolicy p P = [] \<longleftrightarrow>
     minLength P \<le> length p \<and> length p \<le> maxLength P \<and>
     (requireUppercase P \<longrightarrow> (\<exists>c \<in> set p. is_upper c)) \<and>
     (requireLowercase P \<longrightarrow> (\<exists>c \<in> set p. is_lower c)) \<and>
     (requireDigit P \<longrightarrow> (\<exists>c \<in> set p. is_digit c)) \<and>
     (requireSpecialChar P \<longrightarrow> (\<exists>c \<in> set p. \<not> is_alnum c))"
  by (simp add: checkPasswordPolicy_def list_ex_iff linorder_not_less)

lemma require_policy_run [act]:
  "require_policy p w =
     (if policy_violations p = [] then (Inr (), w)
      else (Inl (Account (PasswordTooWeakException (Some (map v_message (policy_violations p))))), w))"
  by (simp add: require_policy_def throwIf_run)

end
