(* ===== verification/Login.thy ===== *)
theory Login
  imports Tokens Passwords
begin

text \<open>
  \<^verbatim>\<open>login.service.ts\<close>: password login with the lockout counter, and the controller's handler for it.
  A login with a second factor ends with a pending token and no refresh token.
\<close>

record LoginRequestContext =
  lc_email :: string
  lc_password :: string
  lc_ipAddress :: "string option"
  lc_userAgent :: "string option"

record LoginSuccessResult =
  l_user :: user
  l_accessToken :: string
  l_accessTokenExpiresAt :: int
  l_accessTokenExpiresIn :: int
  l_refreshTokenRaw :: string
  l_refreshTokenExpiresAt :: int

datatype LoginResult = LoginSuccess LoginSuccessResult | TwoFactorPending string int

definition assertUserCanLogIn :: "user \<Rightarrow> (world, unit) handler" where
  "assertUserCanLogIn user =
     (case u_status user of
        UserStatus.ACTIVE \<Rightarrow> ret ()
      | UserStatus.PENDING_VERIFICATION \<Rightarrow> throw (Auth EmailNotVerifiedException)
      | UserStatus.LOCKED \<Rightarrow> throw (Auth (AccountLockedException (u_lockedUntil user)))
      | UserStatus.SUSPENDED \<Rightarrow> throw (User UserSuspendedException)
      | UserStatus.INVITED \<Rightarrow> throw (User UserInactiveException)
      | UserStatus.DELETED \<Rightarrow> throw (User UserInactiveException))"

text \<open>\<^verbatim>\<open>failureCount && Number(failureCount) >= this.maxAttempts\<close>: an empty text is falsy, and a text
  that is no number compares false.\<close>

definition lockout_reached :: "env \<Rightarrow> redis_value option \<Rightarrow> bool" where
  "lockout_reached E v = (case v of Some (Counter n) \<Rightarrow> e_maxAttempts E \<le> n | _ \<Rightarrow> False)"

definition check_lockout :: "env \<Rightarrow> user \<Rightarrow> (world, unit) handler" where
  "check_lockout E user =
     await (redis_get (LOCKOUT @ u_id user)) (\<lambda>failureCount.
     if lockout_reached E failureCount
     then await date_now (\<lambda>now.
          await (lock (u_id user) (now + e_lockoutSeconds E * 1000)) (\<lambda>_.
          throw (Auth (AccountLockedException (Some (now + e_lockoutSeconds E * 1000))))))
     else ret ())"

definition password_ok :: "env \<Rightarrow> user \<Rightarrow> string \<Rightarrow> bool" where
  "password_ok E user password =
     (if truthy (u_passwordHash user) then hasher_verify E (the (u_passwordHash user)) password
      else False)"

definition password_failed :: "env \<Rightarrow> user \<Rightarrow> (world, 'a) handler" where
  "password_failed E user =
     await (redis_incr (LOCKOUT @ u_id user)) (\<lambda>newCount.
     await (if newCount = 1 then redis_expire (LOCKOUT @ u_id user) (e_lockoutSeconds E) else ret ()) (\<lambda>_.
     await (if e_maxAttempts E \<le> newCount
            then await date_now (\<lambda>now. lock (u_id user) (now + e_lockoutSeconds E * 1000))
            else ret ()) (\<lambda>_.
     throw (Auth InvalidCredentialsException))))"

text \<open>The last part of a login: tokens for a session.\<close>

definition issue_login ::
    "env \<Rightarrow> user \<Rightarrow> string \<Rightarrow> session \<Rightarrow> string option \<Rightarrow> (world, LoginResult) handler" where
  "issue_login E user tenantId session ip =
     (if u_twoFactorEnabled user
      then await (issueTwoFactorPendingToken E (u_id user) (s_id session)) (\<lambda>temp.
           ret (TwoFactorPending (ia_token temp) (ia_expiresAt temp)))
      else await (issueAccessToken E (tenant_payload (u_id user) (s_id session) (Some tenantId) None)) (\<lambda>access.
           await (generateRefreshToken E) (\<lambda>refresh.
           await date_now (\<lambda>now.
           await (refreshTokens_create
             (refresh_row now refresh (u_id user) (s_id session) (ir_id refresh) None)) (\<lambda>_.
           await (recordLogin (u_id user) ip) (\<lambda>_.
           ret (LoginSuccess
             \<lparr>l_user = user, l_accessToken = ia_token access,
              l_accessTokenExpiresAt = ia_expiresAt access, l_accessTokenExpiresIn = e_accessTtl E,
              l_refreshTokenRaw = ir_raw refresh, l_refreshTokenExpiresAt = ir_expiresAt refresh\<rparr>)))))))"

definition active_membership :: "string \<Rightarrow> tenant_membership \<Rightarrow> bool" where
  "active_membership userId m \<longleftrightarrow> tm_userId m = userId \<and> tm_status m = TenantMembershipStatus.ACTIVE"

definition login :: "env \<Rightarrow> LoginRequestContext \<Rightarrow> (world, LoginResult) handler" where
  "login E ctx =
     await (findByEmail (lc_email ctx)) (\<lambda>found.
     case found of
       None \<Rightarrow> throw (Auth InvalidCredentialsException)
     | Some user \<Rightarrow>
         await (assertUserCanLogIn user) (\<lambda>_.
         await (check_lockout E user) (\<lambda>_.
         if \<not> password_ok E user (lc_password ctx) then password_failed E user
         else
           await (redis_del (LOCKOUT @ u_id user)) (\<lambda>_.
           await (findFirst tenantMemberships (active_membership (u_id user))) (\<lambda>membership.
           case membership of
             None \<Rightarrow> throw (User UserInactiveException)
           | Some m \<Rightarrow>
               await (sessions_create E (u_id user) (tm_tenantId m) SessionScope.TENANT
                 (lc_ipAddress ctx) (lc_userAgent ctx)) (\<lambda>session.
               issue_login E user (tm_tenantId m) session (lc_ipAddress ctx)))))))"

subsection \<open>Controller\<close>

text \<open>\<^verbatim>\<open>UserResponseDto.fromEntity\<close>: the columns that a response may show.\<close>

record UserResponseDto =
  dto_id :: string
  dto_email :: string
  dto_emailVerified :: bool
  dto_firstName :: "string option"
  dto_lastName :: "string option"
  dto_avatarUrl :: "string option"
  dto_status :: UserStatus
  dto_twoFactorEnabled :: bool
  dto_lastLoginAt :: "int option"
  dto_createdAt :: int

definition fromEntity :: "user \<Rightarrow> UserResponseDto" where
  "fromEntity u =
     \<lparr>dto_id = u_id u, dto_email = u_email u, dto_emailVerified = u_emailVerified u,
      dto_firstName = u_firstName u, dto_lastName = u_lastName u, dto_avatarUrl = u_avatarUrl u,
      dto_status = u_status u, dto_twoFactorEnabled = u_twoFactorEnabled u,
      dto_lastLoginAt = u_lastLoginAt u, dto_createdAt = u_createdAt u\<rparr>"

text \<open>A response with the cookie that the handler sets: its value and expiry.\<close>

record LoginResponse =
  lr_accessToken :: string
  lr_accessTokenExpiresIn :: int
  lr_accessTokenExpiresAt :: int
  lr_requires2FA :: bool
  lr_user :: UserResponseDto
  lr_refreshCookie :: "(string \<times> int) option"

definition loginHandler :: "env \<Rightarrow> LoginRequestContext \<Rightarrow> (world, LoginResponse) handler" where
  "loginHandler E ctx =
     await (login E ctx) (\<lambda>result.
     case result of
       TwoFactorPending tempToken expiresAt \<Rightarrow>
         await date_now (\<lambda>now.
         await (findByEmailOrThrow (lc_email ctx)) (\<lambda>user.
         ret \<lparr>lr_accessToken = tempToken,
              lr_accessTokenExpiresIn = max 0 ((expiresAt - now) div 1000),
              lr_accessTokenExpiresAt = expiresAt, lr_requires2FA = True,
              lr_user = fromEntity user, lr_refreshCookie = None\<rparr>))
     | LoginSuccess r \<Rightarrow>
         ret \<lparr>lr_accessToken = l_accessToken r, lr_accessTokenExpiresIn = l_accessTokenExpiresIn r,
              lr_accessTokenExpiresAt = l_accessTokenExpiresAt r, lr_requires2FA = False,
              lr_user = fromEntity (l_user r),
              lr_refreshCookie = Some (l_refreshTokenRaw r, l_refreshTokenExpiresAt r)\<rparr>)"

end
