(* ===== verification/Two_Factor.thy ===== *)
theory Two_Factor
  imports Login
begin

text \<open>
  \<^verbatim>\<open>two-factor.service.ts\<close>: enrolment with a one-time-password secret and ten backup codes,
  completion of a login, disabling, and new backup codes. The one-time-password package is the
  parameter \<open>e_totpValidate\<close>: \<open>None\<close> when it throws, \<open>Some None\<close> when the code does not match.
\<close>

record TwoFactorSetupResult =
  tf_secret :: string
  tf_otpauthUrl :: string
  tf_backupCodes :: "string list"

record TwoFactorVerifyResult =
  tv_accessToken :: string
  tv_accessTokenExpiresAt :: int
  tv_accessTokenExpiresIn :: int
  tv_refreshTokenRaw :: string
  tv_refreshTokenExpiresAt :: int

definition BACKUP_CODE_COUNT :: nat where "BACKUP_CODE_COUNT = 10"

definition hashBackupCode :: "env \<Rightarrow> string \<Rightarrow> string" where
  "hashBackupCode E code = e_sha256 E (toUpperCase code)"

definition verifyTotp :: "env \<Rightarrow> string \<Rightarrow> string \<Rightarrow> (world, bool) handler" where
  "verifyTotp E token secretBase32 =
     reads (\<lambda>w. case e_totpValidate E token secretBase32 (w_now w) of
                  None \<Rightarrow> False
                | Some delta \<Rightarrow> delta \<noteq> None)"

definition isBackupCode :: "env \<Rightarrow> string \<Rightarrow> string list \<Rightarrow> bool" where
  "isBackupCode E code backupHashes \<longleftrightarrow> hashBackupCode E code \<in> set backupHashes"

definition verifyCodeOrBackup ::
    "env \<Rightarrow> string \<Rightarrow> string \<Rightarrow> string list \<Rightarrow> (world, bool) handler" where
  "verifyCodeOrBackup E code secretBase32 backupHashes =
     await (verifyTotp E code secretBase32) (\<lambda>ok.
     ret (ok \<or> isBackupCode E code backupHashes))"

definition generateBackupCodes :: "env \<Rightarrow> (world, string list) handler" where
  "generateBackupCodes E =
     timesM BACKUP_CODE_COUNT (await (randomBytesHex E 4) (\<lambda>h. ret (toUpperCase h)))"

definition beginSetup :: "env \<Rightarrow> string \<Rightarrow> (world, TwoFactorSetupResult) handler" where
  "beginSetup E userId =
     await (findByIdOrThrow userId) (\<lambda>user.
     await (throwIf (u_twoFactorEnabled user) (Account TwoFactorAlreadyEnabledException)) (\<lambda>_.
     await (draw (e_totpSecret E)) (\<lambda>secretBase32.
     await (generateBackupCodes E) (\<lambda>backupCodes.
     await (set2FA userId False (Some secretBase32) (map (hashBackupCode E) backupCodes)) (\<lambda>_.
     ret \<lparr>tf_secret = secretBase32, tf_otpauthUrl = e_totpUri E (u_email user) secretBase32,
          tf_backupCodes = backupCodes\<rparr>)))))"

definition confirmSetup :: "env \<Rightarrow> string \<Rightarrow> string \<Rightarrow> (world, unit) handler" where
  "confirmSetup E userId totpCode =
     await (findByIdOrThrow userId) (\<lambda>user.
     await (throwIf (u_twoFactorEnabled user) (Account TwoFactorAlreadyEnabledException)) (\<lambda>_.
     await (throwIf (\<not> truthy (u_twoFactorSecret user))
       (Auth (InvalidTokenException (Some ''2FA setup not started. Call /auth/2fa/setup first.'')))) (\<lambda>_.
     await (verifyTotp E totpCode (the (u_twoFactorSecret user))) (\<lambda>ok.
     await (throwIf (\<not> ok) (Auth (InvalidTokenException (Some ''Invalid TOTP code'')))) (\<lambda>_.
     set2FA userId True (u_twoFactorSecret user) (u_twoFactorBackupCodes user))))))"

text \<open>
  \<^verbatim>\<open>disable\<close> passes \<^verbatim>\<open>user.twoFactorSecret!\<close> on: with a null secret the package throws, which
  \<^verbatim>\<open>verifyTotp\<close> catches, and only the backup codes are left.
\<close>

definition disable :: "env \<Rightarrow> string \<Rightarrow> string \<Rightarrow> (world, unit) handler" where
  "disable E userId totpOrBackupCode =
     await (findByIdOrThrow userId) (\<lambda>user.
     await (throwIf (\<not> u_twoFactorEnabled user) (Account TwoFactorNotEnabledException)) (\<lambda>_.
     await (case u_twoFactorSecret user of
              None \<Rightarrow> ret (isBackupCode E totpOrBackupCode (u_twoFactorBackupCodes user))
            | Some secret \<Rightarrow>
                verifyCodeOrBackup E totpOrBackupCode secret (u_twoFactorBackupCodes user)) (\<lambda>valid.
     await (throwIf (\<not> valid) (Auth (InvalidTokenException (Some ''Invalid TOTP or backup code'')))) (\<lambda>_.
     set2FA userId False None []))))"

definition second_factor_ready :: "user \<Rightarrow> bool" where
  "second_factor_ready user \<longleftrightarrow> u_twoFactorEnabled user \<and> truthy (u_twoFactorSecret user)"

definition consume_backup_code :: "env \<Rightarrow> string \<Rightarrow> user \<Rightarrow> string \<Rightarrow> (world, unit) handler" where
  "consume_backup_code E userId user code =
     set2FA userId True (u_twoFactorSecret user)
       (filter (\<lambda>h. h \<noteq> hashBackupCode E code) (u_twoFactorBackupCodes user))"

definition verifyLogin ::
    "env \<Rightarrow> string \<Rightarrow> string \<Rightarrow> string \<Rightarrow> string option \<Rightarrow> (world, TwoFactorVerifyResult) handler" where
  "verifyLogin E userId sessionId totpOrBackupCode ipAddress =
     await (findByIdOrThrow userId) (\<lambda>user.
     await (throwIf (\<not> second_factor_ready user) (Account TwoFactorNotEnabledException)) (\<lambda>_.
     let backup = isBackupCode E totpOrBackupCode (u_twoFactorBackupCodes user) in
     await (if backup then ret True
            else verifyTotp E totpOrBackupCode (the (u_twoFactorSecret user))) (\<lambda>valid.
     await (throwIf (\<not> valid) (Auth (InvalidTokenException (Some ''Invalid TOTP or backup code'')))) (\<lambda>_.
     await (if backup then consume_backup_code E userId user totpOrBackupCode else ret ()) (\<lambda>_.
     await (issueAccessToken E (tenant_payload userId sessionId None None)) (\<lambda>access.
     await (generateRefreshToken E) (\<lambda>refresh.
     await date_now (\<lambda>now.
     await (refreshTokens_create (refresh_row now refresh userId sessionId (ir_id refresh) None)) (\<lambda>_.
     await (recordLogin userId ipAddress) (\<lambda>_.
     ret \<lparr>tv_accessToken = ia_token access, tv_accessTokenExpiresAt = ia_expiresAt access,
          tv_accessTokenExpiresIn = e_accessTtl E, tv_refreshTokenRaw = ir_raw refresh,
          tv_refreshTokenExpiresAt = ir_expiresAt refresh\<rparr>))))))))))"

definition regenerateBackupCodes :: "env \<Rightarrow> string \<Rightarrow> string \<Rightarrow> (world, string list) handler" where
  "regenerateBackupCodes E userId totpCode =
     await (findByIdOrThrow userId) (\<lambda>user.
     await (throwIf (\<not> second_factor_ready user) (Account TwoFactorNotEnabledException)) (\<lambda>_.
     await (verifyTotp E totpCode (the (u_twoFactorSecret user))) (\<lambda>ok.
     await (throwIf (\<not> ok) (Auth (InvalidTokenException (Some ''Invalid TOTP code'')))) (\<lambda>_.
     await (generateBackupCodes E) (\<lambda>backupCodes.
     await (set2FA userId True (u_twoFactorSecret user) (map (hashBackupCode E) backupCodes)) (\<lambda>_.
     ret backupCodes))))))"

end
