(* ===== verification/Sql_Text.thy ===== *)
theory Sql_Text
  imports Prelude "HOL-Library.While_Combinator"
begin

text \<open>
  The text side of \<^verbatim>\<open>tenant-schema-manager.service.ts\<close>: the pattern of tenant schema names, the
  escaping of values in string literals, and the splitting of a script into statements. Beside
  each stands what it promises: a reader of SQL string literals, and the separators that count,
  those outside comment lines and dollar-quoted blocks.
\<close>

subsection \<open>Schema names\<close>

definition is_hex_lower :: "char \<Rightarrow> bool" where
  "is_hex_lower c \<longleftrightarrow> is_digit c \<or> between 97 102 c"

text \<open>\<^verbatim>\<open>/^tenant_[a-f0-9]{16,}$/\<close>.\<close>

definition valid_schema_name :: "string \<Rightarrow> bool" where
  "valid_schema_name s \<longleftrightarrow>
     take 7 s = ''tenant_'' \<and> 16 \<le> length (drop 7 s) \<and> list_all is_hex_lower (drop 7 s)"

text \<open>\<^verbatim>\<open>buildSchemaName\<close> of \<^verbatim>\<open>signup.service.ts\<close>.\<close>

definition buildSchemaName :: "string \<Rightarrow> string" where
  "buildSchemaName tenantId = ''tenant_'' @ take 16 (filter (\<lambda>c. c \<noteq> CHR ''-'') tenantId)"

text \<open>The textual form of a UUID: hexadecimal digits and dashes, at least sixteen of the digits.\<close>

definition uuid_text :: "string \<Rightarrow> bool" where
  "uuid_text u \<longleftrightarrow>
     list_all (\<lambda>c. c = CHR ''-'' \<or> is_hex_lower c) u \<and>
     16 \<le> length (filter (\<lambda>c. c \<noteq> CHR ''-'') u)"

lemma buildSchemaName_valid:
  assumes "uuid_text u"
  shows "valid_schema_name (buildSchemaName u)"
proof -
  define h where "h = filter (\<lambda>c. c \<noteq> CHR ''-'') u"
  from assms have hex: "list_all is_hex_lower h" and len: "16 \<le> length h"
    by (auto simp: uuid_text_def list_all_iff h_def)
  have parts: "take 7 (buildSchemaName u) = ''tenant_''" "drop 7 (buildSchemaName u) = take 16 h"
    by (simp_all add: buildSchemaName_def h_def)
  from hex have "list_all is_hex_lower (take 16 h)"
    by (auto simp: list_all_iff dest: in_set_takeD)
  with len show ?thesis by (simp add: valid_schema_name_def parts)
qed

subsection \<open>Escaping\<close>

text \<open>\<^verbatim>\<open>value.replace(/'/g, "''")\<close>; \<open>CHR 0x27\<close> is the single quote.\<close>

fun esc :: "string \<Rightarrow> string" where
  "esc [] = []"
| "esc (c # s) = (if c = CHR 0x27 then CHR 0x27 # CHR 0x27 # esc s else c # esc s)"

text \<open>
  How the database reads a string literal whose opening quote is consumed: a doubled quote is one
  quote of the value, a single quote ends the literal. The result is the value and the text after
  the literal.
\<close>

fun read_literal :: "string \<Rightarrow> (string \<times> string) option" where
  "read_literal [] = None"
| "read_literal (c # s) =
     (if c = CHR 0x27
      then (case s of
              d # s' \<Rightarrow>
                if d = CHR 0x27 then map_option (\<lambda>(v, r). (CHR 0x27 # v, r)) (read_literal s')
                else Some ([], s)
            | [] \<Rightarrow> Some ([], []))
      else map_option (\<lambda>(v, r). (c # v, r)) (read_literal s))"

lemma read_literal_esc:
  "rest = [] \<or> hd rest \<noteq> CHR 0x27 \<Longrightarrow> read_literal (esc v @ CHR 0x27 # rest) = Some (v, rest)"
  by (induction v) (auto split: list.split)

subsection \<open>Statements\<close>

fun split_on :: "char \<Rightarrow> string \<Rightarrow> string list" where
  "split_on d [] = [[]]"
| "split_on d (c # s) =
     (if c = d then [] # split_on d s
      else (case split_on d s of [] \<Rightarrow> [[c]] | l # ls \<Rightarrow> (c # l) # ls))"

fun join_with :: "string \<Rightarrow> string list \<Rightarrow> string" where
  "join_with sep [] = []"
| "join_with sep [l] = l"
| "join_with sep (l # k # ls) = l @ sep @ join_with sep (k # ls)"

definition is_comment_line :: "string \<Rightarrow> bool" where
  "is_comment_line line \<longleftrightarrow> take 2 (trim line) = ''--''"

definition strip_comments :: "string \<Rightarrow> string" where
  "strip_comments sql =
     join_with [CHR 0x0A] (filter (\<lambda>line. \<not> is_comment_line line) (split_on (CHR 0x0A) sql))"

text \<open>The scan: the rest of the text, the current statement, and whether a dollar quote is open.\<close>

definition flush :: "string \<Rightarrow> string list" where
  "flush current = (if trim current = [] then [] else [trim current])"

definition at_dollars :: "char \<Rightarrow> string \<Rightarrow> bool" where
  "at_dollars c s \<longleftrightarrow> c = CHR ''$'' \<and> s \<noteq> [] \<and> hd s = CHR ''$''"

fun scan :: "string \<Rightarrow> string \<Rightarrow> bool \<Rightarrow> string list" where
  "scan [] current inDollarQuote = flush current"
| "scan (c # s) current inDollarQuote =
     (if at_dollars c s then scan (tl s) (current @ ''$$'') (\<not> inDollarQuote)
      else if c = CHR '';'' \<and> \<not> inDollarQuote then flush current @ scan s [] inDollarQuote
      else scan s (current @ [c]) inDollarQuote)"

definition splitSqlStatements :: "string \<Rightarrow> string list" where
  "splitSqlStatements sql = scan (strip_comments sql) [] False"

text \<open>
  The promise, in terms that do not mention the scan: \<open>quote_after q s\<close> is whether a dollar quote is
  open after \<open>s\<close>, and \<open>separators q s\<close> how many semicolons of \<open>s\<close> stand outside dollar quotes, when \<open>s\<close>
  starts in the mode \<open>q\<close>. A list of pieces is the division of a text into statements when the text
  is the pieces with semicolons between them, no piece has a separator of its own, and every
  semicolon between two pieces is one.
\<close>

fun quote_after :: "bool \<Rightarrow> string \<Rightarrow> bool" where
  "quote_after q [] = q"
| "quote_after q (c # s) =
     (if at_dollars c s then quote_after (\<not> q) (tl s) else quote_after q s)"

fun separators :: "bool \<Rightarrow> string \<Rightarrow> nat" where
  "separators q [] = 0"
| "separators q (c # s) =
     (if at_dollars c s then separators (\<not> q) (tl s)
      else (if c = CHR '';'' \<and> \<not> q then 1 else 0) + separators q s)"

definition divides :: "string list \<Rightarrow> string \<Rightarrow> bool" where
  "divides pieces s \<longleftrightarrow>
     join_with '';'' pieces = s \<and> length pieces = Suc (separators False s) \<and>
     list_all (\<lambda>p. separators False p = 0) pieces \<and>
     list_all (\<lambda>p. \<not> quote_after False p) (butlast pieces)"

text \<open>The text up to the first separator that counts, and the text after it.\<close>

fun first_statement :: "bool \<Rightarrow> string \<Rightarrow> string" where
  "first_statement q [] = []"
| "first_statement q (c # s) =
     (if at_dollars c s then CHR ''$'' # CHR ''$'' # first_statement (\<not> q) (tl s)
      else if c = CHR '';'' \<and> \<not> q then []
      else c # first_statement q s)"

fun later_text :: "bool \<Rightarrow> string \<Rightarrow> string option" where
  "later_text q [] = None"
| "later_text q (c # s) =
     (if at_dollars c s then later_text (\<not> q) (tl s)
      else if c = CHR '';'' \<and> \<not> q then Some s
      else later_text q s)"

lemma scan_by_statement:
  "scan s cur q =
     flush (cur @ first_statement q s) @
     (case later_text q s of None \<Rightarrow> [] | Some s' \<Rightarrow> scan s' [] False)"
  by (induction s cur q rule: scan.induct) auto

lemma later_text_shorter: "later_text q s = Some s' \<Longrightarrow> length s' < length s"
  by (induction q s rule: later_text.induct) (auto split: if_splits)

lemma at_dollars_first_statement: "at_dollars c (first_statement q s) = at_dollars c s"
  by (cases s) (auto simp: at_dollars_def)

lemma dollars [simp]: "at_dollars (CHR ''$'') (CHR ''$'' # s)"
  by (simp add: at_dollars_def)

lemma at_dollars_Cons: "at_dollars c s \<Longrightarrow> c = CHR ''$'' \<and> s = CHR ''$'' # tl s"
  by (cases s) (auto simp: at_dollars_def)

lemma first_statement_no_separator: "separators q (first_statement q s) = 0"
  by (induction q s rule: first_statement.induct) (auto simp: at_dollars_first_statement)

lemma whole_first_statement:
  "later_text q s = None \<Longrightarrow> first_statement q s = s \<and> separators q s = 0"
  by (induction q s rule: first_statement.induct) (auto dest: at_dollars_Cons split: if_splits)

lemma first_statement_closed:
  "later_text q s = Some s' \<Longrightarrow>
     s = first_statement q s @ CHR '';'' # s' \<and> \<not> quote_after q (first_statement q s) \<and>
     separators q s = Suc (separators False s')"
  by (induction q s rule: first_statement.induct)
     (auto simp: at_dollars_first_statement dest: at_dollars_Cons split: if_splits)

lemma scan_divides:
  "\<exists>pieces. divides pieces s \<and> scan s [] False = filter (\<lambda>p. p \<noteq> []) (map trim pieces)"
proof (induction "length s" arbitrary: s rule: less_induct)
  case less
  let ?p = "first_statement False s"
  have p: "separators False ?p = 0" by (rule first_statement_no_separator)
  have flush: "flush ?p = filter (\<lambda>p. p \<noteq> []) [trim ?p]" by (simp add: flush_def)
  show ?case
  proof (cases "later_text False s")
    case None
    from whole_first_statement [OF this] have "divides [?p] s" by (simp add: divides_def)
    moreover have "scan s [] False = filter (\<lambda>p. p \<noteq> []) (map trim [?p])"
      using scan_by_statement [of s "[]" False] None flush by simp
    ultimately show ?thesis by blast
  next
    case (Some s')
    from less.hyps [OF later_text_shorter [OF Some]] obtain ps where
      ps: "divides ps s'" "scan s' [] False = filter (\<lambda>p. p \<noteq> []) (map trim ps)" by blast
    from ps(1) obtain r rs where rs: "ps = r # rs" by (cases ps) (auto simp: divides_def)
    from ps(1) p first_statement_closed [OF Some] have "divides (?p # ps) s"
      by (auto simp: divides_def rs)
    moreover have "scan s [] False = filter (\<lambda>p. p \<noteq> []) (map trim (?p # ps))"
      using scan_by_statement [of s "[]" False] Some flush ps(2) by simp
    ultimately show ?thesis by blast
  qed
qed

text \<open>A text has one division only: a piece ends at the first separator.\<close>

lemma later_text_append:
  "separators q p = 0 \<Longrightarrow> \<not> quote_after q p \<Longrightarrow>
     later_text q (p @ CHR '';'' # s) = Some s \<and> first_statement q (p @ CHR '';'' # s) = p"
proof (induction q p rule: separators.induct)
  case (2 q c p)
  show ?case
  proof (cases "at_dollars c p")
    case True
    with 2 show ?thesis by (cases p) (auto simp: at_dollars_def)
  next
    case False
    then have "\<not> at_dollars c (p @ CHR '';'' # s)" by (cases p) (auto simp: at_dollars_def)
    with 2 False show ?thesis by (auto split: if_splits)
  qed
qed (simp add: at_dollars_def)

lemma later_text_None: "separators q p = 0 \<Longrightarrow> later_text q p = None \<and> first_statement q p = p"
  by (induction q p rule: separators.induct) (auto dest: at_dollars_Cons split: if_splits)

lemma divides_unique: "divides ps s \<Longrightarrow> divides qs s \<Longrightarrow> ps = qs"
proof (induction ps arbitrary: qs s)
  case (Cons p ps)
  from Cons.prems obtain q qs' where qs: "qs = q # qs'" by (cases qs) (auto simp: divides_def)
  have len: "length ps = length qs'" using Cons.prems by (simp add: divides_def qs)
  show ?case
  proof (cases ps)
    case Nil
    with len Cons.prems show ?thesis by (simp add: divides_def qs)
  next
    case (Cons p' ps')
    with len obtain q' qs'' where qs': "qs' = q' # qs''" by (cases qs') auto
    let ?t = "join_with '';'' ps" and ?u = "join_with '';'' qs'"
    from Cons.prems(1) have s: "s = p @ CHR '';'' # ?t" and p: "separators False p = 0" "\<not> quote_after False p"
      by (auto simp: divides_def Cons)
    from Cons.prems(2) have u: "s = q @ CHR '';'' # ?u" and q: "separators False q = 0" "\<not> quote_after False q"
      by (auto simp: divides_def qs qs')
    from later_text_append [OF p, of ?t] later_text_append [OF q, of ?u] s u
    have same: "p = q" "?t = ?u" by simp_all
    have "separators False s = Suc (separators False ?t)"
      using first_statement_closed [of False s ?t] later_text_append [OF p, of ?t] s by simp
    with Cons.prems same have "divides ps ?t" "divides qs' ?t"
      by (auto simp: divides_def Cons qs qs')
    from Cons.IH [OF this] same(1) qs show ?thesis by simp
  qed
qed (simp add: divides_def)

subsection \<open>The loop of the splitter\<close>

text \<open>
  The loop of \<^verbatim>\<open>splitSqlStatements\<close> as the source has it: an index that runs over the text, by one or by
  two, with the current statement and the mode beside it. It ends on every text, after at most as
  many rounds as the text is long, with the statements that \<open>splitSqlStatements\<close> of \<open>Sql_Text\<close> gives.
\<close>

record split_state =
  sp_i :: nat
  sp_current :: string
  sp_inDollarQuote :: bool
  sp_statements :: "string list"

text \<open>\<^verbatim>\<open>stripped[i]\<close>, which is undefined beyond the end.\<close>

definition char_at :: "string \<Rightarrow> nat \<Rightarrow> char option" where
  "char_at s i = (if i < length s then Some (s ! i) else None)"

definition split_step :: "string \<Rightarrow> split_state \<Rightarrow> split_state" where
  "split_step stripped st =
     (if char_at stripped (sp_i st) = Some (CHR ''$'') \<and> char_at stripped (sp_i st + 1) = Some (CHR ''$'')
      then st\<lparr>sp_inDollarQuote := \<not> sp_inDollarQuote st, sp_current := sp_current st @ ''$$'',
              sp_i := sp_i st + 2\<rparr>
      else if char_at stripped (sp_i st) = Some (CHR '';'') \<and> \<not> sp_inDollarQuote st
      then st\<lparr>sp_statements := sp_statements st @ flush (sp_current st), sp_current := [],
              sp_i := sp_i st + 1\<rparr>
      else st\<lparr>sp_current := sp_current st @ [stripped ! sp_i st], sp_i := sp_i st + 1\<rparr>)"

definition split_more :: "string \<Rightarrow> split_state \<Rightarrow> bool" where
  "split_more stripped st \<longleftrightarrow> sp_i st < length stripped"

definition split_start :: split_state where
  "split_start = \<lparr>sp_i = 0, sp_current = [], sp_inDollarQuote = False, sp_statements = []\<rparr>"

definition split_loop :: "string \<Rightarrow> string list option" where
  "split_loop sql =
     (let stripped = strip_comments sql in
      map_option (\<lambda>st. sp_statements st @ flush (sp_current st))
        (while_option (split_more stripped) (split_step stripped) split_start))"

subsubsection \<open>The invariant\<close>

text \<open>What is collected so far and what the rest of the text gives make up the result.\<close>

definition split_inv :: "string \<Rightarrow> split_state \<Rightarrow> bool" where
  "split_inv s st \<longleftrightarrow>
     sp_statements st @ scan (drop (sp_i st) s) (sp_current st) (sp_inDollarQuote st) = scan s [] False"

lemma at_dollars_char_at:
  assumes "i < length s"
  shows "at_dollars (s ! i) (drop (Suc i) s) \<longleftrightarrow>
    char_at s i = Some (CHR ''$'') \<and> char_at s (Suc i) = Some (CHR ''$'')"
  using assms by (cases "Suc i < length s") (auto simp: at_dollars_def char_at_def hd_drop_conv_nth)

lemma split_step_keeps:
  assumes "split_inv s st" and "split_more s st"
  shows "split_inv s (split_step s st)"
proof -
  let ?i = "sp_i st"
  from assms(2) have i: "?i < length s" by (simp add: split_more_def)
  then have rest: "drop ?i s = s ! ?i # drop (Suc ?i) s" by (rule Cons_nth_drop_Suc [symmetric])
  have "tl (drop (Suc ?i) s) = drop (?i + 2) s" by (simp add: drop_Suc tl_drop)
  with assms(1) show ?thesis
    using i by (auto simp: split_inv_def split_step_def rest at_dollars_char_at char_at_def)
qed

lemma split_step_advances: "sp_i st < sp_i (split_step s st)"
  by (simp add: split_step_def)

lemma split_terminates: "\<exists>st. while_option (split_more s) (split_step s) split_start = Some st"
proof (rule measure_while_option_Some [where P = "\<lambda>_. True" and f = "\<lambda>st. length s - sp_i st"])
  fix st
  assume "split_more s st"
  then show "True \<and> length s - sp_i (split_step s st) < length s - sp_i st"
    using split_step_advances [of st s] by (simp add: split_more_def)
qed simp

lemma split_rounds: "k \<le> sp_i ((split_step s ^^ k) st)"
proof (induction k)
  case (Suc k)
  with split_step_advances [of "(split_step s ^^ k) st" s] show ?case by simp
qed simp

text \<open>The loop stops at the first round at which it may.\<close>

lemma while_option_first:
  assumes "while_option b c s = Some t"
  shows "\<exists>k. t = (c ^^ k) s \<and> \<not> b t \<and> (\<forall>j < k. b ((c ^^ j) s))"
proof -
  let ?k = "LEAST k. \<not> b ((c ^^ k) s)"
  from assms have ex: "\<exists>k. \<not> b ((c ^^ k) s)" and t: "t = (c ^^ ?k) s"
    by (auto simp: while_option_def split: if_splits)
  from ex have "\<not> b ((c ^^ ?k) s)" by (rule LeastI_ex)
  moreover have "\<forall>j < ?k. b ((c ^^ j) s)" using not_less_Least by blast
  ultimately show ?thesis using t by blast
qed

lemma split_bound:
  assumes "\<forall>j < k. split_more s ((split_step s ^^ j) split_start)"
  shows "k \<le> length s"
proof (cases k)
  case (Suc m)
  with assms have "sp_i ((split_step s ^^ m) split_start) < length s" by (simp add: split_more_def)
  with split_rounds [of m s split_start] Suc show ?thesis by simp
qed simp

text \<open>C24: the loop of the splitter ends on every script, after at most one round for every character of the script
  without its comment lines, and gives the statements of the recursive definition.\<close>

theorem split_loop_terminates:
  "split_loop sql = Some (splitSqlStatements sql) \<and>
   (\<exists>k \<le> length (strip_comments sql).
      \<not> split_more (strip_comments sql) ((split_step (strip_comments sql) ^^ k) split_start))"
proof -
  let ?s = "strip_comments sql"
  obtain st where run: "while_option (split_more ?s) (split_step ?s) split_start = Some st"
    using split_terminates by blast
  have "split_inv ?s st"
    by (rule while_option_rule [where P = "split_inv ?s", OF _ run])
      (erule (1) split_step_keeps, simp add: split_inv_def split_start_def)
  moreover have "length ?s \<le> sp_i st"
    using while_option_stop [OF run] by (simp add: split_more_def)
  ultimately have "sp_statements st @ flush (sp_current st) = splitSqlStatements sql"
    by (simp add: split_inv_def splitSqlStatements_def)
  moreover obtain k where "st = (split_step ?s ^^ k) split_start" "\<not> split_more ?s st"
    "\<forall>j < k. split_more ?s ((split_step ?s ^^ j) split_start)"
    using while_option_first [OF run] by blast
  ultimately show ?thesis using split_bound [of k ?s] by (auto simp: split_loop_def run)
qed

end
