(* ===== verification/Tenant_Defaults.thy ===== *)
theory Tenant_Defaults
  imports Tenant_Schema
begin

text \<open>
  \<^verbatim>\<open>libs/database/src/seeds/tenant-defaults.ts\<close>: the roles and permissions that are written into a
  new tenant schema, for every tenant and per vertical, as the tables of the source give them.
\<close>

datatype permission_slugs = All | Only "string list"

record TenantRoleSeed =
  rs_slug :: string
  rs_name :: string
  rs_scopeType :: RoleScopeType
  rs_description :: string
  rs_permissionSlugs :: permission_slugs

record TenantPermissionSeed =
  ps_slug :: string
  ps_resource :: string
  ps_action :: string
  ps_description :: string

definition role_seed ::
    "string \<Rightarrow> string \<Rightarrow> RoleScopeType \<Rightarrow> string \<Rightarrow> permission_slugs \<Rightarrow> TenantRoleSeed" where
  "role_seed s n t d p =
     \<lparr>rs_slug = s, rs_name = n, rs_scopeType = t, rs_description = d, rs_permissionSlugs = p\<rparr>"

definition permission_seed :: "string \<Rightarrow> string \<Rightarrow> string \<Rightarrow> string \<Rightarrow> TenantPermissionSeed" where
  "permission_seed s r a d =
     \<lparr>ps_slug = s, ps_resource = r, ps_action = a, ps_description = d\<rparr>"

lemma seed_simps [simp]:
  "rs_slug (role_seed s n t d p) = s"
  "rs_name (role_seed s n t d p) = n"
  "rs_scopeType (role_seed s n t d p) = t"
  "rs_description (role_seed s n t d p) = d"
  "rs_permissionSlugs (role_seed s n t d p) = p"
  "ps_slug (permission_seed s r a d) = s"
  "ps_resource (permission_seed s r a d) = r"
  "ps_action (permission_seed s r a d) = a"
  "ps_description (permission_seed s r a d) = d"
  by (simp_all add: role_seed_def permission_seed_def)

subsection \<open>Every tenant\<close>

definition CORE_TENANT_ROLES :: "TenantRoleSeed list" where
  "CORE_TENANT_ROLES = [
     role_seed ''owner'' ''Owner'' Scope_tenant
       ''Full control including deletion and ownership transfer'' All,
     role_seed ''admin'' ''Administrator'' Scope_tenant
       ''Full organizational access except tenant deletion'' All,
     role_seed ''manager'' ''Manager'' Scope_branch
       ''Full CRM/scheduling/billing management within assigned branch''
       (Only [
         ''tenant:contacts:view_branch'',
         ''tenant:contacts:create'',
         ''tenant:contacts:update'',
         ''tenant:contacts:delete'',
         ''tenant:leads:view_branch'',
         ''tenant:leads:create'',
         ''tenant:leads:update'',
         ''tenant:leads:delete'',
         ''tenant:leads:convert'',
         ''tenant:leads:configure'',
         ''tenant:tags:manage'',
         ''tenant:contact_lists:manage'',
         ''tenant:sources:manage'',
         ''tenant:staff:round_robin'',
         ''tenant:deals:view_branch'',
         ''tenant:deals:create'',
         ''tenant:deals:update'',
         ''tenant:appointments:view_branch'',
         ''tenant:appointments:create'',
         ''tenant:appointments:update'',
         ''tenant:appointments:cancel'',
         ''tenant:invoices:view_branch'',
         ''tenant:invoices:create'',
         ''tenant:invoices:send'',
         ''tenant:payments:record'']),
     role_seed ''staff'' ''Staff'' Scope_branch
       ''Create and view within assigned branch; no delete''
       (Only [
         ''tenant:contacts:view_branch'',
         ''tenant:contacts:create'',
         ''tenant:contacts:update'',
         ''tenant:leads:view_branch'',
         ''tenant:leads:create'',
         ''tenant:leads:update'',
         ''tenant:appointments:view_branch'',
         ''tenant:appointments:create'',
         ''tenant:appointments:update'']),
     role_seed ''viewer'' ''Viewer'' Scope_branch
       ''Read-only access within assigned branch''
       (Only [
         ''tenant:contacts:view_branch'',
         ''tenant:leads:view_branch'',
         ''tenant:deals:view_branch'',
         ''tenant:appointments:view_branch'',
         ''tenant:invoices:view_branch''])]"

definition CORE_TENANT_PERMISSIONS :: "TenantPermissionSeed list" where
  "CORE_TENANT_PERMISSIONS = [
     permission_seed ''tenant:contacts:view_own'' ''contacts'' ''view_own''
       ''View contacts assigned to me'',
     permission_seed ''tenant:contacts:view_branch'' ''contacts'' ''view_branch''
       ''View all contacts in my branch'',
     permission_seed ''tenant:contacts:view_all'' ''contacts'' ''view_all''
       ''View all contacts in tenant'',
     permission_seed ''tenant:contacts:create'' ''contacts'' ''create''
       ''Create new contacts'',
     permission_seed ''tenant:contacts:update'' ''contacts'' ''update''
       ''Update contact records'',
     permission_seed ''tenant:contacts:delete'' ''contacts'' ''delete''
       ''Delete contacts'',
     permission_seed ''tenant:contacts:export'' ''contacts'' ''export''
       ''Export contacts to CSV/Excel'',
     permission_seed ''tenant:contacts:view_pii'' ''contacts'' ''view_pii''
       ''View sensitive PII fields'',
     permission_seed ''tenant:leads:view_branch'' ''leads'' ''view_branch''
       ''View leads in branch'',
     permission_seed ''tenant:leads:create'' ''leads'' ''create''
       ''Create leads'',
     permission_seed ''tenant:leads:update'' ''leads'' ''update''
       ''Update leads'',
     permission_seed ''tenant:deals:view_branch'' ''deals'' ''view_branch''
       ''View deals in branch'',
     permission_seed ''tenant:deals:create'' ''deals'' ''create''
       ''Create deals'',
     permission_seed ''tenant:deals:update'' ''deals'' ''update''
       ''Update deals'',
     permission_seed ''tenant:appointments:view_branch'' ''appointments'' ''view_branch''
       ''View appointments in branch'',
     permission_seed ''tenant:appointments:create'' ''appointments'' ''create''
       ''Book appointments'',
     permission_seed ''tenant:appointments:update'' ''appointments'' ''update''
       ''Reschedule appointments'',
     permission_seed ''tenant:appointments:cancel'' ''appointments'' ''cancel''
       ''Cancel appointments'',
     permission_seed ''tenant:invoices:view_branch'' ''invoices'' ''view_branch''
       ''View invoices in branch'',
     permission_seed ''tenant:invoices:create'' ''invoices'' ''create''
       ''Create invoices'',
     permission_seed ''tenant:invoices:send'' ''invoices'' ''send''
       ''Send invoices to customers'',
     permission_seed ''tenant:invoices:void'' ''invoices'' ''void''
       ''Void invoices'',
     permission_seed ''tenant:payments:record'' ''payments'' ''record''
       ''Record payments'',
     permission_seed ''tenant:employees:view'' ''employees'' ''view''
       ''View employees'',
     permission_seed ''tenant:employees:create'' ''employees'' ''create''
       ''Add employees'',
     permission_seed ''tenant:employees:view_salary'' ''employees'' ''view_salary''
       ''View salary information'',
     permission_seed ''tenant:payroll:run'' ''payroll'' ''run''
       ''Process payroll'',
     permission_seed ''tenant:leaves:approve'' ''leaves'' ''approve''
       ''Approve leave requests'',
     permission_seed ''tenant:users:invite'' ''users'' ''invite''
       ''Invite team members'',
     permission_seed ''tenant:users:manage_roles'' ''users'' ''manage_roles''
       ''Assign and revoke roles'',
     permission_seed ''tenant:settings:manage'' ''settings'' ''manage''
       ''Manage organization settings'',
     permission_seed ''tenant:branches:manage'' ''branches'' ''manage''
       ''Create and manage branches'',
     permission_seed ''tenant:audit_logs:view'' ''audit_logs'' ''view''
       ''View tenant audit logs'',
     permission_seed ''tenant:custom_fields:manage'' ''custom_fields'' ''manage''
       ''Create and manage custom field definitions'',
     permission_seed ''tenant:tags:manage'' ''tags'' ''manage''
       ''Create, update, and delete tags'',
     permission_seed ''tenant:contact_lists:manage'' ''contact_lists'' ''manage''
       ''Create and manage contact lists'',
     permission_seed ''tenant:sources:manage'' ''sources'' ''manage''
       ''Create and manage contact sources and lead statuses'',
     permission_seed ''tenant:leads:delete'' ''leads'' ''delete''
       ''Delete leads'',
     permission_seed ''tenant:leads:view_all'' ''leads'' ''view_all''
       ''View all leads across tenant'',
     permission_seed ''tenant:leads:view_own'' ''leads'' ''view_own''
       ''View leads assigned to me'',
     permission_seed ''tenant:leads:convert'' ''leads'' ''convert''
       ''Convert a lead to a contact'',
     permission_seed ''tenant:contacts:delete'' ''contacts'' ''delete''
       ''Delete contacts'',
     permission_seed ''tenant:leads:configure'' ''leads'' ''configure''
       ''Configure lead assignment rules and webhooks'',
     permission_seed ''tenant:staff:round_robin'' ''staff'' ''round_robin''
       ''Toggle staff round-robin availability'']"

subsection \<open>Per vertical\<close>

definition medical_roles :: "TenantRoleSeed list" where
  "medical_roles = [
     role_seed ''doctor'' ''Doctor'' Scope_branch
       ''Clinician with full patient and prescription access''
       (Only [
         ''tenant:contacts:view_branch'',
         ''tenant:contacts:view_pii'',
         ''tenant:appointments:view_branch'',
         ''medical:patients:view_branch'',
         ''medical:prescriptions:sign'',
         ''medical:lab_orders:create'',
         ''medical:emr:view'']),
     role_seed ''nurse'' ''Nurse'' Scope_branch
       ''Patient care support -- vitals, limited EMR''
       (Only [
         ''tenant:contacts:view_branch'',
         ''tenant:appointments:view_branch'',
         ''medical:patients:view_branch'',
         ''medical:vitals:record'']),
     role_seed ''receptionist'' ''Receptionist'' Scope_branch
       ''Front desk -- appointments and basic billing''
       (Only [
         ''tenant:contacts:view_branch'',
         ''tenant:contacts:create'',
         ''tenant:appointments:view_branch'',
         ''tenant:appointments:create'',
         ''tenant:appointments:update'',
         ''tenant:invoices:create''])]"

definition law_roles :: "TenantRoleSeed list" where
  "law_roles = [
     role_seed ''partner'' ''Partner'' Scope_branch
       ''Senior lawyer with full case access''
       (Only [
         ''tenant:contacts:view_branch'',
         ''law:cases:view_branch'',
         ''law:cases:view_confidential'',
         ''law:billable_hours:edit'',
         ''law:retainer:withdraw'']),
     role_seed ''associate'' ''Associate'' Scope_branch
       ''Practicing lawyer -- case work and billing''
       (Only [
         ''tenant:contacts:view_branch'',
         ''law:cases:view_branch'',
         ''law:billable_hours:edit'']),
     role_seed ''paralegal'' ''Paralegal'' Scope_branch
       ''Legal support staff''
       (Only [
         ''tenant:contacts:view_branch'',
         ''law:cases:view_branch''])]"

definition restaurant_roles :: "TenantRoleSeed list" where
  "restaurant_roles = [
     role_seed ''restaurant_manager'' ''Restaurant Manager'' Scope_branch
       ''Branch-level management''
       (Only [
         ''tenant:contacts:view_branch'',
         ''restaurant:pos:operate'',
         ''restaurant:menu:edit'',
         ''restaurant:cash:close_shift'']),
     role_seed ''waiter'' ''Waiter'' Scope_branch
       ''Order taking and table service''
       (Only [
         ''restaurant:pos:operate'']),
     role_seed ''chef'' ''Chef'' Scope_branch
       ''Kitchen display and menu items''
       (Only [
         ''restaurant:kitchen:view''])]"

definition school_roles :: "TenantRoleSeed list" where
  "school_roles = [
     role_seed ''principal'' ''Principal'' Scope_branch
       ''School leadership -- full access''
       (Only [
         ''school:grades:enter'',
         ''school:grades:finalize'',
         ''school:fees:waive'',
         ''school:discipline:record'']),
     role_seed ''teacher'' ''Teacher'' Scope_branch
       ''Classroom teacher -- grades and attendance''
       (Only [
         ''school:grades:enter''])]"

definition gym_roles :: "TenantRoleSeed list" where
  "gym_roles = [
     role_seed ''trainer'' ''Trainer'' Scope_branch
       ''Personal trainer -- sessions and members''
       (Only [
         ''tenant:contacts:view_branch'',
         ''gym:trainers:schedule'']),
     role_seed ''gym_receptionist'' ''Gym Receptionist'' Scope_branch
       ''Check-ins and membership management''
       (Only [
         ''tenant:contacts:view_branch'',
         ''gym:checkin:record'',
         ''gym:memberships:create''])]"

definition medical_permissions :: "TenantPermissionSeed list" where
  "medical_permissions = [
     permission_seed ''medical:patients:view_branch'' ''patients'' ''view_branch''
       ''View patient records in branch'',
     permission_seed ''medical:prescriptions:sign'' ''prescriptions'' ''sign''
       ''Sign prescriptions (doctors only)'',
     permission_seed ''medical:lab_orders:create'' ''lab_orders'' ''create''
       ''Order lab tests'',
     permission_seed ''medical:emr:view'' ''emr'' ''view''
       ''View electronic medical records'',
     permission_seed ''medical:vitals:record'' ''vitals'' ''record''
       ''Record patient vitals'']"

definition law_permissions :: "TenantPermissionSeed list" where
  "law_permissions = [
     permission_seed ''law:cases:view_branch'' ''cases'' ''view_branch''
       ''View cases in branch'',
     permission_seed ''law:cases:view_confidential'' ''cases'' ''view_confidential''
       ''View confidential case details'',
     permission_seed ''law:billable_hours:edit'' ''billable_hours'' ''edit''
       ''Record billable hours'',
     permission_seed ''law:retainer:withdraw'' ''retainer'' ''withdraw''
       ''Withdraw from client retainer'']"

definition restaurant_permissions :: "TenantPermissionSeed list" where
  "restaurant_permissions = [
     permission_seed ''restaurant:pos:operate'' ''pos'' ''operate''
       ''Operate point of sale'',
     permission_seed ''restaurant:menu:edit'' ''menu'' ''edit''
       ''Edit menu items and pricing'',
     permission_seed ''restaurant:kitchen:view'' ''kitchen'' ''view''
       ''View kitchen display system'',
     permission_seed ''restaurant:cash:close_shift'' ''cash'' ''close_shift''
       ''Close register shift'']"

definition school_permissions :: "TenantPermissionSeed list" where
  "school_permissions = [
     permission_seed ''school:grades:enter'' ''grades'' ''enter''
       ''Enter student grades'',
     permission_seed ''school:grades:finalize'' ''grades'' ''finalize''
       ''Finalize grade sheets'',
     permission_seed ''school:fees:waive'' ''fees'' ''waive''
       ''Waive student fees'',
     permission_seed ''school:discipline:record'' ''discipline'' ''record''
       ''Record disciplinary actions'']"

definition gym_permissions :: "TenantPermissionSeed list" where
  "gym_permissions = [
     permission_seed ''gym:checkin:record'' ''checkin'' ''record''
       ''Record member check-ins'',
     permission_seed ''gym:memberships:create'' ''memberships'' ''create''
       ''Create memberships'',
     permission_seed ''gym:trainers:schedule'' ''trainers'' ''schedule''
       ''Schedule trainer sessions'']"

text \<open>Indexing the tables: an unknown vertical gives the empty list (\<^verbatim>\<open>?? []\<close>).\<close>

definition VERTICAL_ROLES :: "string \<Rightarrow> TenantRoleSeed list" where
  "VERTICAL_ROLES vertical =
     (if vertical = ''medical'' then medical_roles
      else if vertical = ''law'' then law_roles
      else if vertical = ''restaurant'' then restaurant_roles
      else if vertical = ''school'' then school_roles
      else if vertical = ''gym'' then gym_roles
      else [])"

definition VERTICAL_TENANT_PERMISSIONS :: "string \<Rightarrow> TenantPermissionSeed list" where
  "VERTICAL_TENANT_PERMISSIONS vertical =
     (if vertical = ''medical'' then medical_permissions
      else if vertical = ''law'' then law_permissions
      else if vertical = ''restaurant'' then restaurant_permissions
      else if vertical = ''school'' then school_permissions
      else if vertical = ''gym'' then gym_permissions
      else [])"

definition DEFAULT_BRANCH_NAME :: string where "DEFAULT_BRANCH_NAME = ''Main''"

definition DEFAULT_BRANCH_CODE :: string where "DEFAULT_BRANCH_CODE = ''MAIN-01''"

end
