(* ===== verification/Schema_Manager.thy ===== *)
theory Schema_Manager
  imports World Sql_Text Tenant_Defaults
begin

text \<open>
  \<^verbatim>\<open>tenant-schema-manager.service.ts\<close> and the entry of \<^verbatim>\<open>tenant-prisma.service.ts\<close>: the life cycle of
  the schema of a tenant. Values that the source interpolates into \<^verbatim>\<open>INSERT\<close> statements reach the
  tables as they are, which is what the escaping of \<open>Sql_Text\<close> is for.
\<close>

definition invalid_schema_message :: "string \<Rightarrow> string" where
  "invalid_schema_message s =
     ''Invalid tenant schema name: '' @ [CHR 0x22] @ s @ [CHR 0x22] @
     ''. Must match: tenant_[hex16+]''"

definition assertValidSchemaName :: "string \<Rightarrow> (world, unit) handler" where
  "assertValidSchemaName s =
     throwIf (\<not> valid_schema_name s) (PlainError (invalid_schema_message s))"

text \<open>
  \<^verbatim>\<open>TenantPrismaService.forSchema\<close>: the name is checked and the client is bound to the schema; the
  tables \<open>roles s\<close>, \<open>branches s\<close> and so on are what the client reaches. Which clients are cached
  does not show.
\<close>

definition forSchema :: "string \<Rightarrow> (world, string) handler" where
  "forSchema s =
     await (throwIf (\<not> valid_schema_name s)
       (PlainError (''Invalid tenant schema name: '' @ s))) (\<lambda>_. ret s)"

subsection \<open>Schemas\<close>

definition schemaExists :: "string \<Rightarrow> (world, bool) handler" where
  "schemaExists s =
     await (assertValidSchemaName s) (\<lambda>_. reads (\<lambda>w. w_schemas w s \<noteq> None))"

text \<open>\<^verbatim>\<open>CREATE SCHEMA IF NOT EXISTS\<close>, one DDL statement of a script, \<^verbatim>\<open>DROP SCHEMA IF EXISTS\<close>.\<close>

definition create_schema :: "string \<Rightarrow> (world, unit) handler" where
  "create_schema s =
     writes (\<lambda>w. if w_schemas w s = None
                 then w\<lparr>w_schemas := (w_schemas w)(s \<mapsto> empty_db)\<rparr> else w)"

definition ddl_error :: bos_error where
  "ddl_error = PlainError ''Raw query failed''"

definition execute_ddl :: "env \<Rightarrow> string \<Rightarrow> string \<Rightarrow> (world, unit) handler" where
  "execute_ddl E s stmt = (\<lambda>w.
     case w_schemas w s of
       None \<Rightarrow> (Inl ddl_error, w)
     | Some db \<Rightarrow>
         (case e_ddl E stmt db of
            None \<Rightarrow> (Inl ddl_error, w)
          | Some db' \<Rightarrow> (Inr (), w\<lparr>w_schemas := (w_schemas w)(s \<mapsto> db')\<rparr>)))"

definition dropSchema :: "string \<Rightarrow> (world, unit) handler" where
  "dropSchema s =
     await (assertValidSchemaName s) (\<lambda>_.
     writes (\<lambda>w. w\<lparr>w_schemas := (w_schemas w)(s := None)\<rparr>))"

subsection \<open>Seeds\<close>

text \<open>
  \<^verbatim>\<open>INSERT ... ON CONFLICT (key) DO NOTHING\<close>: a row with the same key is left alone; any other unique
  constraint still fails.
\<close>

definition insert_unless ::
    "(world, 'r) tbl \<Rightarrow> ('r \<Rightarrow> 'r \<Rightarrow> bool) \<Rightarrow> ('r \<Rightarrow> 'r \<Rightarrow> bool) \<Rightarrow> 'r \<Rightarrow> (world, unit) handler" where
  "insert_unless T target clash r =
     await (query T (existsRow (target r))) (\<lambda>there.
     if there then ret () else await (create T clash no_refs r) (\<lambda>_. ret ()))"

definition same_permission_slug :: "permission \<Rightarrow> permission \<Rightarrow> bool" where
  "same_permission_slug p p' \<longleftrightarrow> pm_slug p' = pm_slug p"

definition same_role_slug :: "role \<Rightarrow> role \<Rightarrow> bool" where
  "same_role_slug r r' \<longleftrightarrow> r_slug r' = r_slug r"

definition seed_permission :: "env \<Rightarrow> string \<Rightarrow> TenantPermissionSeed \<Rightarrow> (world, unit) handler" where
  "seed_permission E s perm =
     await (randomUUID E) (\<lambda>i.
     await date_now (\<lambda>t.
     insert_unless (permissions s) same_permission_slug permission_clash
       \<lparr>pm_id = i, pm_slug = ps_slug perm, pm_scope = ''tenant'', pm_resource = ps_resource perm,
        pm_action = ps_action perm, pm_description = ps_description perm, pm_isSystem = True,
        pm_createdAt = t\<rparr>))"

definition seed_role ::
    "env \<Rightarrow> string \<Rightarrow> string option \<Rightarrow> TenantRoleSeed \<times> RoleScopeType \<Rightarrow> (world, unit) handler" where
  "seed_role E s vertical = (\<lambda>(role, scopeType).
     await (randomUUID E) (\<lambda>i.
     await date_now (\<lambda>t.
     insert_unless (roles s) same_role_slug role_clash
       \<lparr>r_id = i, r_slug = rs_slug role, r_name = rs_name role,
        r_description = Some (rs_description role), r_scopeType = scopeType, r_isSystem = True,
        r_verticalSlug = (if truthy vertical then vertical else None), r_createdAt = t\<rparr>)))"

text \<open>
  \<^verbatim>\<open>INSERT INTO "RolePermission" SELECT r.id, p.id ... ON CONFLICT DO NOTHING\<close>: one row per pair of
  a role and a permission with the slugs.
\<close>

definition seed_assignment :: "string \<Rightarrow> string \<Rightarrow> string \<Rightarrow> (world, unit) handler" where
  "seed_assignment s roleSlug permSlug =
     await (findMany (roles s) (\<lambda>r. r_slug r = roleSlug)) (\<lambda>rs.
     await (findMany (permissions s) (\<lambda>p. pm_slug p = permSlug)) (\<lambda>ps.
     await date_now (\<lambda>t.
     forEach (List.product rs ps) (\<lambda>(r, p).
       insert_unless (rolePermissions s) role_permission_clash role_permission_clash
         \<lparr>rp_roleId = r_id r, rp_permissionId = pm_id p, rp_createdAt = t\<rparr>))))"

definition vertical_roles :: "string option \<Rightarrow> TenantRoleSeed list" where
  "vertical_roles vertical = (if truthy vertical then VERTICAL_ROLES (the vertical) else [])"

definition vertical_permissions :: "string option \<Rightarrow> TenantPermissionSeed list" where
  "vertical_permissions vertical =
     (if truthy vertical then VERTICAL_TENANT_PERMISSIONS (the vertical) else [])"

definition all_permissions :: "string option \<Rightarrow> TenantPermissionSeed list" where
  "all_permissions vertical = CORE_TENANT_PERMISSIONS @ vertical_permissions vertical"

definition all_roles :: "string option \<Rightarrow> (TenantRoleSeed \<times> RoleScopeType) list" where
  "all_roles vertical =
     map (\<lambda>r. (r, rs_scopeType r)) CORE_TENANT_ROLES @
     map (\<lambda>r. (r, Scope_branch)) (vertical_roles vertical)"

definition granted_slugs :: "TenantPermissionSeed list \<Rightarrow> TenantRoleSeed \<Rightarrow> string list" where
  "granted_slugs perms role =
     (case rs_permissionSlugs role of All \<Rightarrow> map ps_slug perms | Only slugs \<Rightarrow> slugs)"

text \<open>The pairs of slugs that are assigned, in the order of the loops.\<close>

definition assignments :: "string option \<Rightarrow> (string \<times> string) list" where
  "assignments vertical =
     concat (map (\<lambda>r. map (Pair (rs_slug r)) (granted_slugs (all_permissions vertical) r))
       (CORE_TENANT_ROLES @ vertical_roles vertical))"

definition seedTenantDefaults :: "env \<Rightarrow> string \<Rightarrow> string option \<Rightarrow> (world, unit) handler" where
  "seedTenantDefaults E s vertical =
     await (forEach (all_permissions vertical) (seed_permission E s)) (\<lambda>_.
     await (forEach (all_roles vertical) (seed_role E s vertical)) (\<lambda>_.
     forEach (assignments vertical) (\<lambda>(r, p). seed_assignment s r p)))"

subsection \<open>Provisioning\<close>

definition owner_membership :: "string \<Rightarrow> string \<Rightarrow> user_branch_membership \<Rightarrow> bool" where
  "owner_membership userId roleId m \<longleftrightarrow>
     ubm_userId m = userId \<and> ubm_roleId m = roleId \<and> ubm_branchId m = None"

definition assign_owner :: "env \<Rightarrow> string \<Rightarrow> string \<Rightarrow> role \<Rightarrow> (world, unit) handler" where
  "assign_owner E s userId r =
     await (randomUUID E) (\<lambda>i.
     await date_now (\<lambda>t.
     await (create (memberships s) membership_clash no_refs
       \<lparr>ubm_id = i, ubm_userId = userId, ubm_branchId = None, ubm_roleId = r_id r,
        ubm_assignedByUserId = Some userId, ubm_assignedAt = t, ubm_revokedAt = None,
        ubm_revokedReason = None, ubm_roundRobinAvailable = True, ubm_createdAt = t\<rparr>) (\<lambda>_.
     ret ())))"

definition assignOwnerRole :: "env \<Rightarrow> string \<Rightarrow> string \<Rightarrow> (world, unit) handler" where
  "assignOwnerRole E s userId =
     await (assertValidSchemaName s) (\<lambda>_.
     await (findMany (roles s) (\<lambda>r. r_slug r = ''owner'')) (\<lambda>owners.
     await (findMany (memberships s) (\<lambda>m. True)) (\<lambda>ms.
     forEach (filter (\<lambda>r. \<not> existsRow (owner_membership userId (r_id r)) ms) owners)
       (assign_owner E s userId))))"

definition provisionSchema ::
    "env \<Rightarrow> string \<Rightarrow> string option \<Rightarrow> bool \<Rightarrow> string option \<Rightarrow> (world, unit) handler" where
  "provisionSchema E schemaName vertical ifNotExists ownerUserId =
     await (assertValidSchemaName schemaName) (\<lambda>_.
     await (schemaExists schemaName) (\<lambda>there.
     if there then
       (if ifNotExists then ret ()
        else throw (PlainError (''Schema '' @ schemaName @ '' already exists'')))
     else
       await (create_schema schemaName) (\<lambda>_.
       await (forEach (splitSqlStatements (e_templateSql E)) (execute_ddl E schemaName)) (\<lambda>_.
       await (seedTenantDefaults E schemaName vertical) (\<lambda>_.
       if truthy ownerUserId then assignOwnerRole E schemaName (the ownerUserId) else ret ())))))"

text \<open>
  \<^verbatim>\<open>applyMigrationToAllTenants\<close>: a failing schema is recorded and the next one is tried; an invalid
  schema name stops the run.
\<close>

record migration_result =
  mr_succeeded :: "string list"
  mr_failed :: "string list"

definition migrate_schema :: "env \<Rightarrow> string \<Rightarrow> string \<Rightarrow> (world, bool) handler" where
  "migrate_schema E sql s =
     await (assertValidSchemaName s) (\<lambda>_.
     tryCatch
       (await (forEach (splitSqlStatements sql) (execute_ddl E s)) (\<lambda>_. ret True))
       (\<lambda>_. ret False))"

definition applyMigrationToAllTenants :: "env \<Rightarrow> string \<Rightarrow> (world, migration_result) handler" where
  "applyMigrationToAllTenants E sql =
     await (findMany tenants (\<lambda>t. True)) (\<lambda>ts.
     await (mapM (\<lambda>t. await (migrate_schema E sql (t_schemaName t)) (\<lambda>ok. ret (t_schemaName t, ok))) ts) (\<lambda>rs.
     ret \<lparr>mr_succeeded = map fst (filter snd rs), mr_failed = map fst (filter (\<lambda>r. \<not> snd r) rs)\<rparr>))"

end
