(* ===== verification/Accounts.thy ===== *)
theory Accounts
  imports Users Passwords Schema_Manager
begin

text \<open>
  What the flows of sign-up, e-mail verification, password reset and invites share: the unique
  constraints and foreign keys of their tables, the one-time tokens that they send by mail, and the
  interface \<open>one_time_token\<close>: a table of hashed tokens with an expiry and a stamp of use.
\<close>

subsection \<open>Constraints\<close>

definition tenant_clash :: "tenant \<Rightarrow> tenant \<Rightarrow> bool" where
  "tenant_clash t t' \<longleftrightarrow>
     t_id t' = t_id t \<or> t_slug t' = t_slug t \<or> t_schemaName t' = t_schemaName t"

definition tenant_refs :: "tenant \<Rightarrow> world \<Rightarrow> bool" where
  "tenant_refs t w \<longleftrightarrow> existsRow (\<lambda>p. p_id p = t_planId t) (w_plans w)"

definition tenant_membership_clash :: "tenant_membership \<Rightarrow> tenant_membership \<Rightarrow> bool" where
  "tenant_membership_clash m m' \<longleftrightarrow>
     tm_id m' = tm_id m \<or> (tm_userId m' = tm_userId m \<and> tm_tenantId m' = tm_tenantId m)"

definition tenant_membership_refs :: "tenant_membership \<Rightarrow> world \<Rightarrow> bool" where
  "tenant_membership_refs m w \<longleftrightarrow>
     existsRow (\<lambda>u. u_id u = tm_userId m) (w_users w) \<and>
     existsRow (\<lambda>t. t_id t = tm_tenantId m) (w_tenants w)"

definition email_verification_clash :: "email_verification \<Rightarrow> email_verification \<Rightarrow> bool" where
  "email_verification_clash e e' \<longleftrightarrow> ev_id e' = ev_id e \<or> ev_tokenHash e' = ev_tokenHash e"

definition email_verification_refs :: "email_verification \<Rightarrow> world \<Rightarrow> bool" where
  "email_verification_refs e w \<longleftrightarrow> existsRow (\<lambda>u. u_id u = ev_userId e) (w_users w)"

definition password_reset_clash :: "password_reset \<Rightarrow> password_reset \<Rightarrow> bool" where
  "password_reset_clash p p' \<longleftrightarrow> pr_id p' = pr_id p \<or> pr_tokenHash p' = pr_tokenHash p"

definition password_reset_refs :: "password_reset \<Rightarrow> world \<Rightarrow> bool" where
  "password_reset_refs p w \<longleftrightarrow> existsRow (\<lambda>u. u_id u = pr_userId p) (w_users w)"

subsection \<open>Tokens sent by mail\<close>

text \<open>Two random identifiers without their dashes; the database holds the hash.\<close>

definition mail_token :: "env \<Rightarrow> (world, string) handler" where
  "mail_token E =
     await (randomUUID E) (\<lambda>a. await (randomUUID E) (\<lambda>b. ret (strip_dashes a @ strip_dashes b)))"

lemma mail_token_run [act, simp]:
  "mail_token E w =
     (Inr (strip_dashes (e_uuid E (w_rnd w)) @ strip_dashes (e_uuid E (Suc (w_rnd w)))),
      w\<lparr>w_rnd := Suc (Suc (w_rnd w))\<rparr>)"
  by (simp add: mail_token_def await_run)

text \<open>\<^verbatim>\<open>Math.round(ttl / 3600)\<close> for a whole number of seconds.\<close>

definition expires_hours :: "int \<Rightarrow> int" where
  "expires_hours ttl = (2 * ttl + 3600) div 7200"

text \<open>\<^verbatim>\<open>user.firstName ?? user.email.split('@')[0]\<close>.\<close>

definition greeting_name :: "string option \<Rightarrow> string \<Rightarrow> string" where
  "greeting_name firstName email = orElse firstName (takeWhile (\<lambda>c. c \<noteq> CHR ''@'') email)"

definition verify_email_job ::
    "env \<Rightarrow> string option \<Rightarrow> string \<Rightarrow> string \<Rightarrow> string \<Rightarrow> SendEmailJobPayload" where
  "verify_email_job E tenantId email name token =
     \<lparr>m_tenantId = tenantId, m_recipientEmail = email,
      m_subject = ''Verify your email address '' @ em_dash @ '' BOS Platform'', m_templateId = VERIFY_EMAIL,
      m_templateData =
        [(''firstName'', JStr name),
         (''verifyUrl'', JStr (e_frontendUrl E @ ''/verify-email?token='' @ token)),
         (''expiresHours'', JNum (expires_hours (e_emailVerifyTtl E)))],
      m_triggeredByUserId = None, m_correlationId = None\<rparr>"

subsection \<open>One-time tokens\<close>

text \<open>
  A table of tokens is looked up by hash; a row can be spent when it is not stamped and has not
  expired. \<open>spend\<close> stamps the row of a hash. What the flows rely on: the lookup sees the stamp,
  other rows are as they were.
\<close>

locale one_time_token =
  fixes find :: "string \<Rightarrow> 't \<Rightarrow> 'r option"
    and spend :: "string \<Rightarrow> int \<Rightarrow> 't \<Rightarrow> 't"
    and stamp :: "'r \<Rightarrow> int option"
    and expiry :: "'r \<Rightarrow> int"
  assumes spend_stamps: "find h (spend h t T) = Some r \<Longrightarrow> stamp r = Some t"
    and spend_frame: "h' \<noteq> h \<Longrightarrow> find h' (spend h t T) = find h' T"
    and spend_there: "(find h (spend h t T) = None) = (find h T = None)"
begin

definition spendable :: "int \<Rightarrow> string \<Rightarrow> 't \<Rightarrow> bool" where
  "spendable now h T \<longleftrightarrow> (\<exists>r. find h T = Some r \<and> stamp r = None \<and> now < expiry r)"

lemma spent_once: "\<not> spendable now h (spend h t T)"
  by (auto simp: spendable_def dest: spend_stamps)

lemma others_unaffected: "h' \<noteq> h \<Longrightarrow> spendable now h' (spend h t T) = spendable now h' T"
  by (simp add: spendable_def spend_frame)

lemma expired_stays: "\<not> spendable now h T \<Longrightarrow> now \<le> now' \<Longrightarrow> \<not> spendable now' h T"
  by (auto simp: spendable_def)

end

text \<open>The three tables of the core database that hold such tokens.\<close>

definition spend_verification :: "string \<Rightarrow> int \<Rightarrow> email_verification list \<Rightarrow> email_verification list" where
  "spend_verification h t = updateBy ev_tokenHash h (\<lambda>e. e\<lparr>ev_verifiedAt := Some t\<rparr>)"

definition spend_reset :: "string \<Rightarrow> int \<Rightarrow> password_reset list \<Rightarrow> password_reset list" where
  "spend_reset h t = updateBy pr_tokenHash h (\<lambda>p. p\<lparr>pr_usedAt := Some t\<rparr>)"

definition spend_invite :: "string \<Rightarrow> int \<Rightarrow> user_invite list \<Rightarrow> user_invite list" where
  "spend_invite h t = updateBy ui_tokenHash h (\<lambda>i. i\<lparr>ui_acceptedAt := Some t\<rparr>)"

interpretation verification_token:
  one_time_token "lookupBy ev_tokenHash" spend_verification ev_verifiedAt ev_expiresAt
  by unfold_locales (auto simp: spend_verification_def lookupBy_updateBy)

interpretation reset_token:
  one_time_token "lookupBy pr_tokenHash" spend_reset pr_usedAt pr_expiresAt
  by unfold_locales (auto simp: spend_reset_def lookupBy_updateBy)

interpretation invite_token:
  one_time_token "lookupBy ui_tokenHash" spend_invite ui_acceptedAt ui_expiresAt
  by unfold_locales (auto simp: spend_invite_def lookupBy_updateBy)

subsection \<open>Spent links\<close>

text \<open>
  \<open>stays_spent\<close>: a row that was stamped is still found by its hash and still stamped. Every write of
  the sources to the three tables has this form.
\<close>

definition stays_spent ::
    "('r \<Rightarrow> string) \<Rightarrow> ('r \<Rightarrow> int option) \<Rightarrow> 'r list \<Rightarrow> 'r list \<Rightarrow> bool" where
  "stays_spent key stamp T T' \<longleftrightarrow>
     (\<forall>h r. lookupBy key h T = Some r \<longrightarrow> stamp r \<noteq> None \<longrightarrow>
        (\<exists>r'. lookupBy key h T' = Some r' \<and> stamp r' \<noteq> None))"

lemma stays_spentE:
  assumes "stays_spent key stamp T T'" and "lookupBy key h T = Some r" and "stamp r \<noteq> None"
  obtains r' where "lookupBy key h T' = Some r'" and "stamp r' \<noteq> None"
  using assms unfolding stays_spent_def by blast

lemma stays_spent_refl [simp]: "stays_spent key stamp T T"
  by (simp add: stays_spent_def)

lemma stays_spent_trans:
  "stays_spent key stamp T U \<Longrightarrow> stays_spent key stamp U V \<Longrightarrow> stays_spent key stamp T V"
  unfolding stays_spent_def by blast

lemma stays_spent_insert [simp]: "stays_spent key stamp T (insertRow r T)"
  by (simp add: stays_spent_def insertRow_def lookupBy_append)

lemma stays_spent_updateRows [simp]:
  assumes "\<And>r. key (f r) = key r" and "\<And>r. stamp r \<noteq> None \<Longrightarrow> stamp (f r) \<noteq> None"
  shows "stays_spent key stamp T (updateRows p f T)"
  using assms by (auto simp: stays_spent_def lookupBy_updateRows)

lemma stays_spent_updateBy [simp]:
  assumes "\<And>r. key (f r) = key r" and "\<And>r. stamp r \<noteq> None \<Longrightarrow> stamp (f r) \<noteq> None"
  shows "stays_spent key stamp T (updateBy k v f T)"
  unfolding updateBy_def using assms by (rule stays_spent_updateRows)

end
