(* ===== verification/Signup.thy ===== *)
theory Signup
  imports Accounts Login
begin

text \<open>
  \<^verbatim>\<open>signup.service.ts\<close>: self-service sign-up of an owner. The user, the tenant, the membership and
  the verification token are created in one transaction; the mail is queued after it.
\<close>

record SignupDto =
  sd_email :: string
  sd_password :: string
  sd_firstName :: string
  sd_lastName :: "string option"
  sd_orgName :: string
  sd_orgSlug :: string
  sd_vertical :: VerticalType
  sd_locale :: "string option"
  sd_timezone :: "string option"

record SignupResult =
  su_userId :: string
  su_tenantId :: string
  su_tenantSlug :: string

definition missing_plan :: bos_error where
  "missing_plan = PlainError (''Seeded `free` tenant plan is missing '' @ em_dash @ '' run pnpm db:seed:core'')"

definition signup_user :: "SignupDto \<Rightarrow> string \<Rightarrow> UserCreateInput" where
  "signup_user dto passwordHash =
     \<lparr>uc_email = toLowerCase (trim (sd_email dto)), uc_passwordHash = Some passwordHash,
      uc_firstName = Some (sd_firstName dto), uc_lastName = sd_lastName dto,
      uc_locale = Some (orElse (sd_locale dto) ''en-US''),
      uc_timezone = Some (orElse (sd_timezone dto) ''UTC''),
      uc_status = UserStatus.PENDING_VERIFICATION\<rparr>"

definition signup_tenant ::
    "SignupDto \<Rightarrow> string \<Rightarrow> string \<Rightarrow> tenant_plan \<Rightarrow> user \<Rightarrow> tenant" where
  "signup_tenant dto tenantId schemaName plan user =
     \<lparr>t_id = tenantId, t_name = sd_orgName dto, t_slug = sd_orgSlug dto,
      t_vertical = Some (sd_vertical dto), t_status = TenantStatus.PROVISIONING,
      t_schemaName = schemaName, t_planId = p_id plan, t_ownerUserId = u_id user,
      t_locale = orElse (sd_locale dto) ''en-US'', t_timezone = orElse (sd_timezone dto) ''UTC'',
      t_onboardingCompleted = False, t_goals = [], t_businessPhone = None, t_businessCity = None,
      t_websiteUrl = None, t_logoUrl = None\<rparr>"

definition signup_transaction ::
    "env \<Rightarrow> SignupDto \<Rightarrow> string \<Rightarrow> string \<Rightarrow> string \<Rightarrow> string \<Rightarrow> tenant_plan \<Rightarrow>
       (world, SignupResult) handler" where
  "signup_transaction E dto passwordHash tenantId schemaName verificationHash plan =
     transaction
       (await (user_create E (signup_user dto passwordHash)) (\<lambda>user.
        await (create tenants tenant_clash tenant_refs
          (signup_tenant dto tenantId schemaName plan user)) (\<lambda>tenant.
        await (randomUUID E) (\<lambda>mid.
        await date_now (\<lambda>now.
        await (create tenantMemberships tenant_membership_clash tenant_membership_refs
          \<lparr>tm_id = mid, tm_userId = u_id user, tm_tenantId = t_id tenant,
           tm_status = TenantMembershipStatus.INVITED, tm_joinedAt = None, tm_leftAt = None,
           tm_leftReason = None, tm_createdAt = now\<rparr>) (\<lambda>_.
        await (randomUUID E) (\<lambda>eid.
        await (create emailVerifications email_verification_clash email_verification_refs
          \<lparr>ev_id = eid, ev_tokenHash = verificationHash, ev_userId = u_id user,
           ev_email = u_email user, ev_expiresAt = now + e_emailVerifyTtl E * 1000,
           ev_verifiedAt = None, ev_createdAt = now\<rparr>) (\<lambda>_.
        ret \<lparr>su_userId = u_id user, su_tenantId = t_id tenant, su_tenantSlug = t_slug tenant\<rparr>))))))))"

definition signup :: "env \<Rightarrow> SignupDto \<Rightarrow> (world, SignupResult) handler" where
  "signup E dto =
     await (require_policy (sd_password dto)) (\<lambda>_.
     await (findByEmail (sd_email dto)) (\<lambda>taken.
     await (throwIf (taken \<noteq> None) (User UserAlreadyExistsException)) (\<lambda>_.
     await (findUnique tenants t_slug (sd_orgSlug dto)) (\<lambda>existingSlug.
     await (throwIf (existingSlug \<noteq> None) (Tenant TenantSlugTakenException)) (\<lambda>_.
     await (hasher_hash E (sd_password dto)) (\<lambda>passwordHash.
     await (randomUUID E) (\<lambda>tenantId.
     await (mail_token E) (\<lambda>verificationToken.
     await (findUnique plans p_slug ''free'') (\<lambda>plan.
     case plan of
       None \<Rightarrow> throw missing_plan
     | Some plan \<Rightarrow>
         await (signup_transaction E dto passwordHash tenantId (buildSchemaName tenantId)
           (e_sha256 E verificationToken) plan) (\<lambda>result.
         await (mailQueue_add (verify_email_job E (Some (su_tenantId result))
           (toLowerCase (trim (sd_email dto))) (sd_firstName dto) verificationToken)) (\<lambda>_.
         ret result)))))))))))"

text \<open>The controller reads the created user back.\<close>

definition signupHandler :: "env \<Rightarrow> SignupDto \<Rightarrow> (world, UserResponseDto \<times> SignupResult) handler" where
  "signupHandler E dto =
     await (signup E dto) (\<lambda>result.
     await (findByIdOrThrow (su_userId result)) (\<lambda>user.
     ret (fromEntity user, result)))"

end
