(* ===== verification/Email_Verify.thy ===== *)
theory Email_Verify
  imports Accounts
begin

text \<open>
  \<^verbatim>\<open>email-verify.service.ts\<close>: verification with the mailed token, the development shortcut and the
  resending of a token. Verification activates the user and the membership in one transaction and
  then provisions the tenant schema; a failure there suspends the tenant and is passed on.
\<close>

record VerifyEmailResult =
  ve_userId :: string
  ve_tenantId :: string

definition invalid_token :: "string \<Rightarrow> bos_error" where
  "invalid_token m = Auth (InvalidTokenException (Some m))"

text \<open>\<^verbatim>\<open>findFirst({ where: { userId }, include: { tenant: true } })\<close>.\<close>

definition membership_with_tenant :: "string \<Rightarrow> (world, tenant_membership \<times> tenant) handler" where
  "membership_with_tenant userId =
     await (findFirst tenantMemberships (\<lambda>m. tm_userId m = userId)) (\<lambda>membership.
     case membership of
       None \<Rightarrow> throw (invalid_token ''No tenant membership found for this user'')
     | Some m \<Rightarrow>
         await (findUnique tenants t_id (tm_tenantId m)) (\<lambda>tenant.
         case tenant of
           None \<Rightarrow> throw (PlainError ''Inconsistent query result'')
         | Some t \<Rightarrow> ret (m, t)))"

definition already_verified :: "user \<Rightarrow> bool" where
  "already_verified user \<longleftrightarrow> u_emailVerified user \<and> u_status user = UserStatus.ACTIVE"

text \<open>The transaction; \<open>mark\<close> stamps the token or tokens.\<close>

definition activate_account ::
    "(world, unit) handler \<Rightarrow> user \<Rightarrow> tenant_membership \<Rightarrow> (world, unit) handler" where
  "activate_account mark user membership =
     transaction
       (await mark (\<lambda>_.
        await (update users u_id (u_id user)
          (\<lambda>u. u\<lparr>u_emailVerified := True, u_status := UserStatus.ACTIVE\<rparr>)) (\<lambda>_.
        await (update tenantMemberships tm_id (tm_id membership)
          (\<lambda>m. m\<lparr>tm_status := TenantMembershipStatus.ACTIVE\<rparr>)) (\<lambda>_.
        ret ()))))"

definition set_tenant_status :: "string \<Rightarrow> TenantStatus \<Rightarrow> (world, unit) handler" where
  "set_tenant_status i st =
     await (update tenants t_id i (\<lambda>t. t\<lparr>t_status := st\<rparr>)) (\<lambda>_. ret ())"

definition provision_tenant :: "env \<Rightarrow> user \<Rightarrow> tenant \<Rightarrow> (world, unit) handler" where
  "provision_tenant E user tenant =
     tryCatch
       (await (provisionSchema E (t_schemaName tenant) (map_option vertical_text (t_vertical tenant))
          False (Some (u_id user))) (\<lambda>_.
        set_tenant_status (t_id tenant) TenantStatus.ACTIVE))
       (\<lambda>err.
        await (set_tenant_status (t_id tenant) TenantStatus.SUSPENDED) (\<lambda>_. throw err))"

definition mark_verified :: "string \<Rightarrow> (world, unit) handler" where
  "mark_verified tokenHash =
     await date_now (\<lambda>now.
     await (update emailVerifications ev_tokenHash tokenHash (\<lambda>e. e\<lparr>ev_verifiedAt := Some now\<rparr>)) (\<lambda>_.
     ret ()))"

definition check_verification :: "env \<Rightarrow> string \<Rightarrow> (world, email_verification) handler" where
  "check_verification E rawToken =
     await (findUnique emailVerifications ev_tokenHash (e_sha256 E rawToken)) (\<lambda>found.
     case found of
       None \<Rightarrow> throw (invalid_token ''Email verification token is invalid'')
     | Some record \<Rightarrow>
         await (throwIf (ev_verifiedAt record \<noteq> None)
           (invalid_token ''Email verification token has already been used'')) (\<lambda>_.
         await date_now (\<lambda>now.
         await (throwIf (ev_expiresAt record \<le> now) (Auth TokenExpiredException)) (\<lambda>_.
         ret record))))"

definition verifyEmail :: "env \<Rightarrow> string \<Rightarrow> (world, VerifyEmailResult) handler" where
  "verifyEmail E rawToken =
     await (check_verification E rawToken) (\<lambda>record.
     await (findUnique users u_id (ev_userId record)) (\<lambda>found.
     case found of
       None \<Rightarrow> throw (invalid_token ''User not found for this token'')
     | Some user \<Rightarrow>
         await (throwIf (already_verified user) (Account UserAlreadyVerifiedException)) (\<lambda>_.
         await (membership_with_tenant (u_id user)) (\<lambda>(membership, tenant).
         await (activate_account (mark_verified (e_sha256 E rawToken)) user membership) (\<lambda>_.
         await (provision_tenant E user tenant) (\<lambda>_.
         ret \<lparr>ve_userId = u_id user, ve_tenantId = t_id tenant\<rparr>))))))"

text \<open>\<^verbatim>\<open>bypassVerify\<close>: every pending token of the user is stamped.\<close>

definition mark_all_verified :: "string \<Rightarrow> (world, unit) handler" where
  "mark_all_verified userId =
     await date_now (\<lambda>now.
     await (updateMany emailVerifications (\<lambda>e. ev_userId e = userId \<and> ev_verifiedAt e = None)
       (\<lambda>e. e\<lparr>ev_verifiedAt := Some now\<rparr>)) (\<lambda>_.
     ret ()))"

definition bypassVerify :: "env \<Rightarrow> string \<Rightarrow> (world, VerifyEmailResult) handler" where
  "bypassVerify E email =
     await (findUnique users email_key (toLowerCase (trim email))) (\<lambda>found.
     case found of
       None \<Rightarrow> throw (invalid_token ''No user found with that email'')
     | Some user \<Rightarrow>
         await (throwIf (already_verified user) (Account UserAlreadyVerifiedException)) (\<lambda>_.
         await (membership_with_tenant (u_id user)) (\<lambda>(membership, tenant).
         await (activate_account (mark_all_verified (u_id user)) user membership) (\<lambda>_.
         await (provision_tenant E user tenant) (\<lambda>_.
         ret \<lparr>ve_userId = u_id user, ve_tenantId = t_id tenant\<rparr>)))))"

text \<open>\<^verbatim>\<open>resend\<close>: the pending tokens expire and a new one is created and mailed.\<close>

definition reissue_verification :: "env \<Rightarrow> user \<Rightarrow> string \<Rightarrow> (world, unit) handler" where
  "reissue_verification E user tokenHash =
     transaction
       (await date_now (\<lambda>now.
        await (updateMany emailVerifications (\<lambda>e. ev_userId e = u_id user \<and> ev_verifiedAt e = None)
          (\<lambda>e. e\<lparr>ev_expiresAt := now\<rparr>)) (\<lambda>_.
        await (randomUUID E) (\<lambda>i.
        await (create emailVerifications email_verification_clash email_verification_refs
          \<lparr>ev_id = i, ev_tokenHash = tokenHash, ev_userId = u_id user, ev_email = u_email user,
           ev_expiresAt = now + e_emailVerifyTtl E * 1000, ev_verifiedAt = None,
           ev_createdAt = now\<rparr>) (\<lambda>_.
        ret ())))))"

definition resend :: "env \<Rightarrow> string \<Rightarrow> (world, unit) handler" where
  "resend E email =
     await (findUnique users email_key (toLowerCase (trim email))) (\<lambda>found.
     case found of
       None \<Rightarrow> ret ()
     | Some user \<Rightarrow>
         await (throwIf (u_emailVerified user) (Account UserAlreadyVerifiedException)) (\<lambda>_.
         await (mail_token E) (\<lambda>rawToken.
         await (reissue_verification E user (e_sha256 E rawToken)) (\<lambda>_.
         mailQueue_add (verify_email_job E None (u_email user)
           (greeting_name (u_firstName user) (u_email user)) rawToken)))))"

text \<open>The controller swallows every error of \<^verbatim>\<open>resend\<close> and answers the same text.\<close>

definition resendVerifyEmailHandler :: "env \<Rightarrow> string \<Rightarrow> (world, string) handler" where
  "resendVerifyEmailHandler E email =
     await (tryCatch (resend E email) (\<lambda>_. ret ())) (\<lambda>_.
     ret ''If the address is registered and unverified, a new verification email has been sent.'')"

definition verifyEmailHandler :: "env \<Rightarrow> string \<Rightarrow> (world, string) handler" where
  "verifyEmailHandler E token =
     await (verifyEmail E token) (\<lambda>_.
     ret ''Email verified successfully. You may now log in.'')"

end
