(* ===== verification/Password_Reset.thy ===== *)
theory Password_Reset
  imports Accounts Tokens
begin

text \<open>
  \<^verbatim>\<open>password-reset.service.ts\<close>: a reset token is mailed on request; with it and an acceptable
  password, one transaction spends the token, sets the password, ends the user's sessions and
  revokes the user's refresh tokens.
\<close>

definition reset_job :: "env \<Rightarrow> user \<Rightarrow> string \<Rightarrow> SendEmailJobPayload" where
  "reset_job E user rawToken =
     \<lparr>m_tenantId = None, m_recipientEmail = u_email user,
      m_subject = ''Reset your password '' @ em_dash @ '' BOS Platform'',
      m_templateId = EmailTemplateId.PASSWORD_RESET,
      m_templateData =
        [(''firstName'', JStr (greeting_name (u_firstName user) (u_email user))),
         (''resetUrl'', JStr (e_frontendUrl E @ ''/reset-password?token='' @ rawToken)),
         (''expiresHours'', JNum (expires_hours (e_passwordResetTtl E)))],
      m_triggeredByUserId = None, m_correlationId = None\<rparr>"

definition reissue_reset :: "env \<Rightarrow> user \<Rightarrow> string \<Rightarrow> (world, unit) handler" where
  "reissue_reset E user tokenHash =
     transaction
       (await date_now (\<lambda>now.
        await (updateMany passwordResets (\<lambda>p. pr_userId p = u_id user \<and> pr_usedAt p = None)
          (\<lambda>p. p\<lparr>pr_expiresAt := now\<rparr>)) (\<lambda>_.
        await (randomUUID E) (\<lambda>i.
        await (create passwordResets password_reset_clash password_reset_refs
          \<lparr>pr_id = i, pr_tokenHash = tokenHash, pr_userId = u_id user,
           pr_expiresAt = now + e_passwordResetTtl E * 1000, pr_usedAt = None,
           pr_createdAt = now\<rparr>) (\<lambda>_.
        ret ())))))"

definition requestReset :: "env \<Rightarrow> string \<Rightarrow> (world, string) handler" where
  "requestReset E email =
     await (findUnique users email_key (toLowerCase (trim email))) (\<lambda>found.
     case found of
       None \<Rightarrow> ret []
     | Some user \<Rightarrow>
         await (mail_token E) (\<lambda>rawToken.
         await (reissue_reset E user (e_sha256 E rawToken)) (\<lambda>_.
         await (mailQueue_add (reset_job E user rawToken)) (\<lambda>_.
         ret rawToken))))"

definition check_reset :: "env \<Rightarrow> string \<Rightarrow> (world, password_reset) handler" where
  "check_reset E rawToken =
     await (findUnique passwordResets pr_tokenHash (e_sha256 E rawToken)) (\<lambda>found.
     case found of
       None \<Rightarrow> throw (Auth (InvalidTokenException (Some ''Password reset token is invalid'')))
     | Some record \<Rightarrow>
         await (throwIf (pr_usedAt record \<noteq> None)
           (Auth (InvalidTokenException (Some ''Password reset token has already been used'')))) (\<lambda>_.
         await date_now (\<lambda>now.
         await (throwIf (pr_expiresAt record \<le> now) (Auth TokenExpiredException)) (\<lambda>_.
         ret record))))"

definition reset_transaction :: "string \<Rightarrow> string \<Rightarrow> string \<Rightarrow> (world, unit) handler" where
  "reset_transaction tokenHash userId passwordHash =
     transaction
       (await date_now (\<lambda>now.
        await (update passwordResets pr_tokenHash tokenHash (\<lambda>p. p\<lparr>pr_usedAt := Some now\<rparr>)) (\<lambda>_.
        await (update users u_id userId (\<lambda>u. u\<lparr>u_passwordHash := Some passwordHash\<rparr>)) (\<lambda>_.
        await (updateMany sessions (\<lambda>s. s_userId s = userId \<and> s_endedAt s = None)
          (end_row now SessionEndReason.PASSWORD_CHANGED)) (\<lambda>_.
        await (updateMany refreshTokens (\<lambda>r. rt_userId r = userId \<and> rt_revokedAt r = None)
          (revoke_row now ''password_reset'')) (\<lambda>_.
        ret ()))))))"

definition resetPassword :: "env \<Rightarrow> string \<Rightarrow> string \<Rightarrow> (world, unit) handler" where
  "resetPassword E rawToken newPassword =
     await (require_policy newPassword) (\<lambda>_.
     await (check_reset E rawToken) (\<lambda>record.
     await (hasher_hash E newPassword) (\<lambda>passwordHash.
     reset_transaction (e_sha256 E rawToken) (pr_userId record) passwordHash)))"

definition forgotPasswordHandler :: "env \<Rightarrow> string \<Rightarrow> (world, string) handler" where
  "forgotPasswordHandler E email =
     await (requestReset E email) (\<lambda>_.
     ret ''If that email is registered, a password reset link has been sent.'')"

definition resetPasswordHandler :: "env \<Rightarrow> string \<Rightarrow> string \<Rightarrow> (world, string) handler" where
  "resetPasswordHandler E token newPassword =
     await (resetPassword E token newPassword) (\<lambda>_.
     ret ''Password updated. Please log in with your new password.'')"

end
