(* ===== verification/Invite_Accept.thy ===== *)
theory Invite_Accept
  imports Accounts Login
begin

text \<open>
  \<^verbatim>\<open>invite-accept.service.ts\<close>: acceptance of a staff invite. The core rows change in one
  transaction, then the role assignment is created in the tenant schema, then the user is logged
  in.
\<close>

record InviteAcceptContext =
  ic_rawToken :: string
  ic_password :: string
  ic_ipAddress :: "string option"
  ic_userAgent :: "string option"

definition check_invite :: "env \<Rightarrow> string \<Rightarrow> (world, user_invite \<times> tenant) handler" where
  "check_invite E rawToken =
     await (findUnique invites ui_tokenHash (e_sha256 E rawToken)) (\<lambda>found.
     case found of
       None \<Rightarrow> throw (Auth InvalidInviteException)
     | Some invite \<Rightarrow>
         await (findUnique tenants t_id (ui_tenantId invite)) (\<lambda>tenant.
         case tenant of
           None \<Rightarrow> throw (PlainError ''Inconsistent query result'')
         | Some t \<Rightarrow>
             await (throwIf (ui_revokedAt invite \<noteq> None) (Auth InvalidInviteException)) (\<lambda>_.
             await (throwIf (ui_acceptedAt invite \<noteq> None) (Auth InviteAlreadyUsedException)) (\<lambda>_.
             await date_now (\<lambda>now.
             await (throwIf (ui_expiresAt invite \<le> now) (Auth InviteExpiredException)) (\<lambda>_.
             ret (invite, t)))))))"

definition membership_key :: "tenant_membership \<Rightarrow> string \<times> string" where
  "membership_key m = (tm_userId m, tm_tenantId m)"

definition accept_transaction :: "string \<Rightarrow> user_invite \<Rightarrow> string \<Rightarrow> (world, unit) handler" where
  "accept_transaction tokenHash invite passwordHash =
     transaction
       (await date_now (\<lambda>now.
        await (update users u_id (ui_userId invite)
          (\<lambda>u. u\<lparr>u_passwordHash := Some passwordHash, u_emailVerified := True,
                  u_status := UserStatus.ACTIVE\<rparr>)) (\<lambda>_.
        await (update tenantMemberships membership_key (ui_userId invite, ui_tenantId invite)
          (\<lambda>m. m\<lparr>tm_status := TenantMembershipStatus.ACTIVE, tm_joinedAt := Some now\<rparr>)) (\<lambda>_.
        await (update invites ui_tokenHash tokenHash (\<lambda>i. i\<lparr>ui_acceptedAt := Some now\<rparr>)) (\<lambda>_.
        ret ())))))"

text \<open>The foreign keys of an assignment inside its schema.\<close>

definition assignment_refs :: "string \<Rightarrow> user_branch_membership \<Rightarrow> world \<Rightarrow> bool" where
  "assignment_refs s m w \<longleftrightarrow>
     (case w_schemas w s of
        None \<Rightarrow> False
      | Some db \<Rightarrow>
          existsRow (\<lambda>r. r_id r = ubm_roleId m) (db_roles db) \<and>
          (case ubm_branchId m of
             None \<Rightarrow> True
           | Some b \<Rightarrow> existsRow (\<lambda>x. b_id x = b) (db_branches db)))"

definition create_assignment :: "env \<Rightarrow> string \<Rightarrow> user_invite \<Rightarrow> (world, unit) handler" where
  "create_assignment E schemaName invite =
     await (forSchema schemaName) (\<lambda>s.
     await (randomUUID E) (\<lambda>i.
     await date_now (\<lambda>now.
     await (create (memberships s) membership_clash (assignment_refs s)
       \<lparr>ubm_id = i, ubm_userId = ui_userId invite, ubm_branchId = ui_branchId invite,
        ubm_roleId = ui_roleId invite, ubm_assignedByUserId = Some (ui_invitedByUserId invite),
        ubm_assignedAt = now, ubm_revokedAt = None, ubm_revokedReason = None,
        ubm_roundRobinAvailable = True, ubm_createdAt = now\<rparr>) (\<lambda>_.
     ret ()))))"

text \<open>The session and the tokens of the accepted user; the second factor is not asked for.\<close>

definition invite_login ::
    "env \<Rightarrow> InviteAcceptContext \<Rightarrow> user_invite \<Rightarrow> (world, LoginSuccessResult) handler" where
  "invite_login E ctx invite =
     await (findUnique users u_id (ui_userId invite)) (\<lambda>found.
     case found of
       None \<Rightarrow> throw (Prisma P2025)
     | Some user \<Rightarrow>
         await (sessions_create E (ui_userId invite) (ui_tenantId invite) SessionScope.TENANT
           (ic_ipAddress ctx) (ic_userAgent ctx)) (\<lambda>session.
         await (issueAccessToken E (tenant_payload (ui_userId invite) (s_id session)
           (Some (ui_tenantId invite)) None)) (\<lambda>access.
         await (generateRefreshToken E) (\<lambda>refresh.
         await date_now (\<lambda>now.
         await (refreshTokens_create
           (refresh_row now refresh (ui_userId invite) (s_id session) (ir_id refresh) None)) (\<lambda>_.
         ret \<lparr>l_user = user, l_accessToken = ia_token access,
              l_accessTokenExpiresAt = ia_expiresAt access, l_accessTokenExpiresIn = e_accessTtl E,
              l_refreshTokenRaw = ir_raw refresh,
              l_refreshTokenExpiresAt = ir_expiresAt refresh\<rparr>))))))"

definition inviteAccept :: "env \<Rightarrow> InviteAcceptContext \<Rightarrow> (world, LoginSuccessResult) handler" where
  "inviteAccept E ctx =
     await (check_invite E (ic_rawToken ctx)) (\<lambda>(invite, tenant).
     await (require_policy (ic_password ctx)) (\<lambda>_.
     await (hasher_hash E (ic_password ctx)) (\<lambda>passwordHash.
     await (accept_transaction (e_sha256 E (ic_rawToken ctx)) invite passwordHash) (\<lambda>_.
     await (create_assignment E (t_schemaName tenant) invite) (\<lambda>_.
     invite_login E ctx invite)))))"

end
