(* ===== verification/Guards.thy ===== *)
theory Guards
  imports Tokens
begin

text \<open>
  \<^verbatim>\<open>libs/auth-client\<close>: the verifier of access tokens, the three guards that run before a handler
  (authentication, permissions, tenant scope) and the parameter decorators. The routing metadata
  that a decorator attached (\<^verbatim>\<open>@Public\<close>, \<^verbatim>\<open>@PlatformOnly\<close>, \<^verbatim>\<open>@RequirePermission\<close>) is an argument. The
  permission resolver is an interface of the source; it is the locale \<open>permission_resolver\<close> here.
\<close>

subsection \<open>The principal of a request\<close>

record AuthenticatedUser =
  au_scope :: SessionScope
  au_userId :: string
  au_sessionId :: string
  au_jti :: string
  au_permissions :: "string list"
  au_tenantId :: "string option"
  au_activeBranchId :: "string option"
  au_accessibleBranchIds :: "string list"
  au_hasTenantWideAccess :: bool
  au_roles :: "string list"
  au_platformRoles :: "string list"
  au_impersonatedByUserId :: string
  au_impersonationReason :: string

definition base_user :: "SessionScope \<Rightarrow> jwt_claims \<Rightarrow> AuthenticatedUser" where
  "base_user scope c =
     \<lparr>au_scope = scope, au_userId = c_sub c, au_sessionId = c_sessionId c, au_jti = c_jti c,
      au_permissions = [], au_tenantId = None, au_activeBranchId = None,
      au_accessibleBranchIds = [], au_hasTenantWideAccess = False, au_roles = [],
      au_platformRoles = [], au_impersonatedByUserId = [], au_impersonationReason = []\<rparr>"

definition tenant_user :: "SessionScope \<Rightarrow> jwt_claims \<Rightarrow> AuthenticatedUser" where
  "tenant_user scope c =
     (base_user scope c)
       \<lparr>au_tenantId := c_tenantId c, au_activeBranchId := c_activeBranchId c,
        au_accessibleBranchIds := c_accessibleBranchIds c,
        au_hasTenantWideAccess := c_hasTenantWideAccess c, au_roles := c_roles c\<rparr>"

definition toAuthenticatedUser :: "jwt_claims \<Rightarrow> bos_error + AuthenticatedUser" where
  "toAuthenticatedUser c =
     (if c_scope c = ''tenant'' then Inr (tenant_user TENANT c)
      else if c_scope c = ''platform''
        then Inr ((base_user PLATFORM c)\<lparr>au_platformRoles := c_platformRoles c\<rparr>)
      else if c_scope c = ''impersonation''
        then Inr ((tenant_user IMPERSONATION c)
          \<lparr>au_impersonatedByUserId := c_impersonatedByUserId c,
           au_impersonationReason := c_impersonationReason c\<rparr>)
      else Inl (Auth (InvalidTokenException (Some ''Unsupported scope in JWT''))))"

subsection \<open>Authentication\<close>

definition jwt_verify :: "env \<Rightarrow> string \<Rightarrow> (world, jwt_claims) handler" where
  "jwt_verify E token =
     await date_now (\<lambda>now.
     case e_jwtVerify E token now of
       Verified c \<Rightarrow> ret c
     | JwtExpired \<Rightarrow> throw (Auth TokenExpiredException)
     | JwtInvalid m \<Rightarrow> throw (Auth (InvalidTokenException (Some m))))"

definition BEARER_PREFIX :: string where "BEARER_PREFIX = ''Bearer ''"

definition extractBearerToken :: "string option \<Rightarrow> string option" where
  "extractBearerToken header =
     (case header of
        None \<Rightarrow> None
      | Some h \<Rightarrow>
          if take 7 h \<noteq> BEARER_PREFIX then None
          else (let token = trim (drop 7 h) in if token = [] then None else Some token))"

definition lift_result :: "bos_error + 'a \<Rightarrow> (world, 'a) handler" where
  "lift_result r = (case r of Inl e \<Rightarrow> throw e | Inr x \<Rightarrow> ret x)"

text \<open>The result is the principal that the guard attaches; a public route gets none.\<close>

definition jwtAuthGuard ::
    "env \<Rightarrow> bool \<Rightarrow> string option \<Rightarrow> (world, AuthenticatedUser option) handler" where
  "jwtAuthGuard E isPublic header =
     (if isPublic then ret None
      else
        case extractBearerToken header of
          None \<Rightarrow> throw (Auth (InvalidTokenException (Some ''Missing bearer token'')))
        | Some token \<Rightarrow>
            await (jwt_verify E token) (\<lambda>claims.
            await (isRevoked (c_jti claims)) (\<lambda>revoked.
            await (throwIf revoked (Auth TokenRevokedException)) (\<lambda>_.
            await (lift_result (toAuthenticatedUser claims)) (\<lambda>u. ret (Some u))))))"

subsection \<open>Permissions\<close>

type_synonym resolver = "string \<Rightarrow> string option \<Rightarrow> (world, string list) handler"

definition tenant_scoped :: "AuthenticatedUser \<Rightarrow> bool" where
  "tenant_scoped u \<longleftrightarrow> au_scope u = TENANT \<or> au_scope u = IMPERSONATION"

definition load_permissions ::
    "resolver option \<Rightarrow> AuthenticatedUser \<Rightarrow> (world, AuthenticatedUser) handler" where
  "load_permissions res user =
     (if au_permissions user = [] \<and> tenant_scoped user
      then (case res of
              None \<Rightarrow> ret user
            | Some resolve \<Rightarrow>
                await (resolve (au_userId user) (au_tenantId user)) (\<lambda>resolved.
                ret (user\<lparr>au_permissions := resolved\<rparr>)))
      else ret user)"

text \<open>The result is the principal as later handlers see it.\<close>

definition permissionsGuard ::
    "resolver option \<Rightarrow> string list option \<Rightarrow> bool \<Rightarrow> AuthenticatedUser option \<Rightarrow>
       (world, AuthenticatedUser option) handler" where
  "permissionsGuard res required platformOnly user =
     (let slugs = orElse required [] in
      if slugs = [] \<and> \<not> platformOnly then ret user
      else
        case user of
          None \<Rightarrow> throw (Permission (InsufficientPermissionsException required))
        | Some u \<Rightarrow>
            await (throwIf (platformOnly \<and> au_scope u \<noteq> PLATFORM)
              (Permission (InsufficientPermissionsException None))) (\<lambda>_.
            if slugs = [] then ret user
            else
              await (load_permissions res u) (\<lambda>u'.
              let missing = filter (\<lambda>p. p \<notin> set (au_permissions u')) slugs in
              await (throwIf (missing \<noteq> [])
                (Permission (InsufficientPermissionsException (Some missing)))) (\<lambda>_.
              ret (Some u')))))"

subsection \<open>Tenant scope and decorators\<close>

definition tenantScopeGuard :: "bool \<Rightarrow> AuthenticatedUser option \<Rightarrow> (world, unit) handler" where
  "tenantScopeGuard isPublic user =
     (if isPublic then ret ()
      else
        case user of
          None \<Rightarrow> throw (Permission (InsufficientPermissionsException None))
        | Some u \<Rightarrow>
            throwIf (\<not> tenant_scoped u) (Permission (InsufficientPermissionsException None)))"

definition Tenant_decorator :: "AuthenticatedUser option \<Rightarrow> string option" where
  "Tenant_decorator user =
     (case user of
        None \<Rightarrow> None
      | Some u \<Rightarrow> if au_scope u = PLATFORM then None else au_tenantId u)"

definition ActiveBranch :: "AuthenticatedUser option \<Rightarrow> string option" where
  "ActiveBranch user =
     (case user of
        None \<Rightarrow> None
      | Some u \<Rightarrow> if au_scope u = PLATFORM then None else au_activeBranchId u)"

subsection \<open>The resolver interface\<close>

text \<open>
  What the permission guard relies on: a successful answer is the set that the provider holds for
  the user in the tenant, and asking does not change what the provider holds at that instant.
\<close>

locale permission_resolver =
  fixes resolve :: resolver
    and held :: "world \<Rightarrow> string \<Rightarrow> string option \<Rightarrow> string set"
  assumes resolve_held: "resolve u t w = (Inr ps, w') \<Longrightarrow> set ps = held w u t"
    and held_stable: "resolve u t w = (r, w') \<Longrightarrow> held w' u t = held w u t"
begin

text \<open>A principal whose permissions are not loaded passes exactly when the resolver holds them all.\<close>

lemma guard_passes_iff:
  assumes "tenant_scoped u" and "au_permissions u = []" and "slugs \<noteq> []"
    and "resolve (au_userId u) (au_tenantId u) w = (Inr ps, w')"
  shows "returns (permissionsGuard (Some resolve) (Some slugs) False (Some u)) w \<longleftrightarrow>
    set slugs \<subseteq> held w (au_userId u) (au_tenantId u)"
proof -
  have held: "set ps = held w (au_userId u) (au_tenantId u)"
    using assms(4) by (rule resolve_held)
  show ?thesis
    using assms
    by (auto simp: permissionsGuard_def load_permissions_def returns_def await_run throwIf_run Let_def
        filter_empty_conv held [symmetric] split: sum.split)
qed

lemma guard_error_names_missing:
  assumes "tenant_scoped u" and "au_permissions u = []"
    and "resolve (au_userId u) (au_tenantId u) w = (Inr ps, w')"
    and "\<not> set slugs \<subseteq> held w (au_userId u) (au_tenantId u)"
  shows "outcome (permissionsGuard (Some resolve) (Some slugs) False (Some u)) w =
    Inl (Permission (InsufficientPermissionsException
      (Some (filter (\<lambda>p. p \<notin> held w (au_userId u) (au_tenantId u)) slugs))))"
proof -
  have held: "set ps = held w (au_userId u) (au_tenantId u)"
    using assms(3) by (rule resolve_held)
  have "slugs \<noteq> []" using assms(4) by auto
  moreover have "filter (\<lambda>p. p \<notin> set ps) slugs \<noteq> []"
    using assms(4) by (auto simp: held filter_empty_conv)
  ultimately show ?thesis
    using assms(1-3)
    by (simp add: permissionsGuard_def load_permissions_def outcome_def await_run throwIf_run Let_def
        held [symmetric])
qed

end

lemma jwt_verify_run [act]:
  "jwt_verify E token w =
     (case e_jwtVerify E token (w_now w) of
        Verified c \<Rightarrow> (Inr c, w)
      | JwtExpired \<Rightarrow> (Inl (Auth TokenExpiredException), w)
      | JwtInvalid m \<Rightarrow> (Inl (Auth (InvalidTokenException (Some m))), w))"
  by (simp add: jwt_verify_def await_run split: jwt_result.split)

lemma lift_result_run [act, simp]: "lift_result r w = (r, w)"
  by (cases r) (simp_all add: lift_result_def)

end
