(* ===== verification/Permission_Resolver.thy ===== *)
theory Permission_Resolver
  imports Guards Schema_Manager
begin

text \<open>
  \<^verbatim>\<open>apps/crm-core/src/common/services/permission-resolver.service.ts\<close>: the permissions of a user in
  a tenant, read from the tenant schema and cached for sixty seconds. What the database grants is
  stated as the set \<open>granted\<close>; the service is an instance of the interface \<open>permission_resolver\<close>
  with the cached set as long as it lives and the granted set otherwise. The cache of the process, a
  package with a bound on the number of its entries, is a store of entries with an end: an entry that is
  dropped early is not modelled, and neither that the package counts the instant of the end as
  still alive.
\<close>

definition CACHE_TTL :: int where "CACHE_TTL = 60000"

definition cache_key :: "string \<Rightarrow> string option \<Rightarrow> string" where
  "cache_key userId tenantId = userId @ '':'' @ orElse tenantId ''null''"

definition active_assignment :: "string \<Rightarrow> user_branch_membership \<Rightarrow> bool" where
  "active_assignment userId m \<longleftrightarrow> ubm_userId m = userId \<and> ubm_revokedAt m = None"

text \<open>\<^verbatim>\<open>include: { permission }\<close>: a foreign key, so the permission of an assignment exists.\<close>

definition permission_slugs_of :: "tenant_db \<Rightarrow> string list \<Rightarrow> string list" where
  "permission_slugs_of db roleIds =
     remdups (concat (map
       (\<lambda>rp. case lookupBy pm_id (rp_permissionId rp) (db_permissions db) of
               None \<Rightarrow> []
             | Some p \<Rightarrow> [pm_slug p])
       (filter (\<lambda>rp. rp_roleId rp \<in> set roleIds) (db_rolePermissions db))))"

definition loadFromDb :: "string \<Rightarrow> string option \<Rightarrow> (world, string list) handler" where
  "loadFromDb userId tenantId =
     (case tenantId of
        None \<Rightarrow> throw (Prisma PrismaValidation)
      | Some i \<Rightarrow>
          await (findUnique tenants t_id i) (\<lambda>tenant.
          case tenant of
            None \<Rightarrow> ret []
          | Some t \<Rightarrow>
              await (forSchema (t_schemaName t)) (\<lambda>s.
              await (findMany (memberships s) (active_assignment userId)) (\<lambda>ms.
              if ms = [] then ret []
              else
                await (query (rolePermissions s) (\<lambda>t. ())) (\<lambda>_.
                await (query (permissions s) (\<lambda>t. ())) (\<lambda>_.
                reads (\<lambda>w. permission_slugs_of (the (w_schemas w s)) (map ubm_roleId ms))))))))"

definition resolve :: resolver where
  "resolve userId tenantId =
     await (reads (\<lambda>w. kv_get (w_now w) (w_permCache w) (cache_key userId tenantId))) (\<lambda>cached.
     case cached of
       Some perms \<Rightarrow> ret perms
     | None \<Rightarrow>
         await (loadFromDb userId tenantId) (\<lambda>perms.
         await (writes (\<lambda>w. w\<lparr>w_permCache :=
           kv_set (cache_key userId tenantId) perms (Some (w_now w + CACHE_TTL)) (w_permCache w)\<rparr>)) (\<lambda>_.
         ret perms)))"

subsection \<open>What the database grants\<close>

definition granted :: "tenant_db \<Rightarrow> string \<Rightarrow> string set" where
  "granted db userId =
     {pm_slug p | p rp m. m \<in> set (db_memberships db) \<and> active_assignment userId m \<and>
        rp \<in> set (db_rolePermissions db) \<and> rp_roleId rp = ubm_roleId m \<and>
        lookupBy pm_id (rp_permissionId rp) (db_permissions db) = Some p}"

definition held_permissions :: "world \<Rightarrow> string \<Rightarrow> string option \<Rightarrow> string set" where
  "held_permissions w userId tenantId =
     (case kv_get (w_now w) (w_permCache w) (cache_key userId tenantId) of
        Some ps \<Rightarrow> set ps
      | None \<Rightarrow>
          (case lookupBy t_id (the tenantId) (w_tenants w) of
             None \<Rightarrow> {}
           | Some t \<Rightarrow>
               (case w_schemas w (t_schemaName t) of None \<Rightarrow> {} | Some db \<Rightarrow> granted db userId)))"

lemma set_permission_slugs_of:
  "set (permission_slugs_of db (map ubm_roleId (filter (active_assignment userId) (db_memberships db)))) =
     granted db userId"
  by (auto simp: permission_slugs_of_def granted_def split: option.splits) metis+

lemma forSchema_run [act]:
  "forSchema s w =
     (if valid_schema_name s then (Inr s, w)
      else (Inl (PlainError (''Invalid tenant schema name: '' @ s)), w))"
  by (simp add: forSchema_def await_run throwIf_run)

lemma loadFromDb_state: "loadFromDb u t w = (r, w') \<Longrightarrow> w' = w"
  by (auto simp: loadFromDb_def await_run findUnique_def findMany_def query_run forSchema_run
      split: option.splits if_splits sum.splits prod.splits)

lemma loadFromDb_granted:
  assumes "loadFromDb u (Some i) w = (Inr ps, w')"
  shows "set ps = (case lookupBy t_id i (w_tenants w) of
     None \<Rightarrow> {}
   | Some t \<Rightarrow> (case w_schemas w (t_schemaName t) of None \<Rightarrow> {} | Some db \<Rightarrow> granted db u))"
proof (cases "lookupBy t_id i (w_tenants w)")
  case None
  with assms show ?thesis by (simp add: loadFromDb_def await_run findUnique_run)
next
  case (Some t)
  show ?thesis
  proof (cases "w_schemas w (t_schemaName t)")
    case None
    with assms Some show ?thesis
      by (auto simp: loadFromDb_def await_run findUnique_run forSchema_run findMany_def query_run
          split: if_splits)
  next
    case db: (Some db)
    show ?thesis
    proof (cases "filter (active_assignment u) (db_memberships db) = []")
      case True
      then have "granted db u = {}" by (auto simp: granted_def filter_empty_conv)
      with assms Some db True show ?thesis
        by (auto simp: loadFromDb_def await_run findUnique_run forSchema_run findMany_run split: if_splits)
    next
      case False
      with assms Some db show ?thesis
        by (auto simp: loadFromDb_def await_run findUnique_run forSchema_run findMany_run query_run
            set_permission_slugs_of split: if_splits)
    qed
  qed
qed

lemma resolve_answers:
  assumes "resolve u t w = (Inr ps, w')"
  shows "set ps = held_permissions w u t"
proof (cases "kv_get (w_now w) (w_permCache w) (cache_key u t)")
  case (Some qs)
  with assms show ?thesis by (auto simp: resolve_def await_run held_permissions_def)
next
  case None
  with assms obtain w1 where load: "loadFromDb u t w = (Inr ps, w1)"
    by (auto simp: resolve_def await_run split: sum.splits prod.splits)
  then obtain i where "t = Some i"
    by (cases t) (auto simp: loadFromDb_def)
  with load None show ?thesis
    by (simp add: held_permissions_def loadFromDb_granted)
qed

lemma resolve_stable:
  assumes "resolve u t w = (r, w')"
  shows "held_permissions w' u t = held_permissions w u t"
proof (cases "kv_get (w_now w) (w_permCache w) (cache_key u t)")
  case (Some qs)
  with assms show ?thesis by (auto simp: resolve_def await_run)
next
  case None
  obtain l w1 where load: "loadFromDb u t w = (l, w1)" by fastforce
  then have w1: "w1 = w" by (rule loadFromDb_state)
  show ?thesis
  proof (cases l)
    case (Inl e)
    with assms None load w1 show ?thesis by (auto simp: resolve_def await_run)
  next
    case (Inr ps)
    with assms None load w1 have w': "w' = w\<lparr>w_permCache :=
        kv_set (cache_key u t) ps (Some (w_now w + CACHE_TTL)) (w_permCache w)\<rparr>" and "r = Inr ps"
      by (auto simp: resolve_def await_run)
    then have "held_permissions w' u t = set ps"
      by (simp add: held_permissions_def redis.put_until CACHE_TTL_def)
    with assms \<open>r = Inr ps\<close> show ?thesis by (auto dest: resolve_answers)
  qed
qed

text \<open>A lookup of a user whose permissions are not cached returns what the database grants.\<close>

lemma resolve_cold:
  assumes "kv_get (w_now w) (w_permCache w) (cache_key u (Some T)) = None"
    and "lookupBy t_id T (w_tenants w) = Some t" and "valid_schema_name (t_schemaName t)"
    and "w_schemas w (t_schemaName t) = Some db"
  shows "\<exists>ps w'. resolve u (Some T) w = (Inr ps, w') \<and> set ps = granted db u"
proof -
  have "\<exists>ps. loadFromDb u (Some T) w = (Inr ps, w)"
    using assms(2-4) by (simp add: loadFromDb_def await_run findUnique_run forSchema_run findMany_run query_run)
  then obtain ps where load: "loadFromDb u (Some T) w = (Inr ps, w)" by blast
  then have "\<exists>w'. resolve u (Some T) w = (Inr ps, w')" using assms(1) by (simp add: resolve_def await_run)
  with loadFromDb_granted [OF load] assms(2,4) show ?thesis by auto
qed

interpretation resolver: permission_resolver resolve held_permissions
  by unfold_locales (rule resolve_answers, assumption, rule resolve_stable, assumption)

end
