(* ===== verification/Token_Effects.thy ===== *)
theory Token_Effects
  imports Token_Families Permission_Resolver
begin

text \<open>
  The contract \<open>token_effect\<close> between the flows of the auth service and the table of refresh
  tokens: a relation that ignores the rest of the state, holds of every update that burns tokens,
  of the start of a family, and of the rotation of a live token. Each flow is shown to be such a
  write, once.
\<close>

subsection \<open>What stays spent and revoked\<close>

text \<open>
  \<open>revoked_until E jti x w\<close>: the identifier \<open>jti\<close> is on the revocation list for at least as long as \<open>x\<close>, which
  is not beyond what a revocation now would give. No request of the service shortens that.
\<close>

definition revoked_until :: "env \<Rightarrow> string \<Rightarrow> int \<Rightarrow> world \<Rightarrow> bool" where
  "revoked_until E jti x w \<longleftrightarrow>
     x \<le> w_now w + max 1 (e_accessTtl E) * 1000 \<and>
     (\<exists>v y. w_redis w (REVOKED_JTI @ jti) = Some (v, Some y) \<and> x \<le> y)"

definition revocations_kept :: "env \<Rightarrow> world \<Rightarrow> world \<Rightarrow> bool" where
  "revocations_kept E w w' \<longleftrightarrow> (\<forall>jti x. revoked_until E jti x w \<longrightarrow> revoked_until E jti x w')"

lemma revocations_kept_same [simp]:
  "w_redis w' = w_redis w \<Longrightarrow> w_now w \<le> w_now w' \<Longrightarrow> revocations_kept E w w'"
  by (auto simp: revocations_kept_def revoked_until_def)

lemma revocations_kept_trans:
  "revocations_kept E w w' \<Longrightarrow> revocations_kept E w' w'' \<Longrightarrow> revocations_kept E w w''"
  unfolding revocations_kept_def by blast

lemma revocations_kept_other_key:
  "(\<And>jti. r (REVOKED_JTI @ jti) = w_redis w (REVOKED_JTI @ jti)) \<Longrightarrow> revocations_kept E w (w\<lparr>w_redis := r\<rparr>)"
  by (simp add: revocations_kept_def revoked_until_def)

lemma revocations_kept_revoke:
  "revocations_kept E w (w\<lparr>w_redis := kv_set (REVOKED_JTI @ jti) v
     (Some (w_now w + max 1 (e_accessTtl E) * 1000)) (w_redis w)\<rparr>)"
  by (auto simp: revocations_kept_def revoked_until_def kv_set_def)

lemma lockout_key: "LOCKOUT @ i \<noteq> REVOKED_JTI @ jti"
  by (simp add: LOCKOUT_def REVOKED_JTI_def)

lemma revoked_until_exists: "revoked_until E jti x w \<Longrightarrow> w_now w < x \<Longrightarrow> fst (isRevoked jti w) = Inr True"
  by (auto simp: revoked_until_def isRevoked_def kv_get_def)

definition links_kept :: "env \<Rightarrow> world \<Rightarrow> world \<Rightarrow> bool" where
  "links_kept E w w' \<longleftrightarrow>
     stays_spent pr_tokenHash pr_usedAt (w_passwordResets w) (w_passwordResets w') \<and>
     stays_spent ev_tokenHash ev_verifiedAt (w_emailVerifications w) (w_emailVerifications w') \<and>
     stays_spent ui_tokenHash ui_acceptedAt (w_invites w) (w_invites w') \<and>
     revocations_kept E w w'"

interpretation links_kept: effect "links_kept E" for E
  by unfold_locales (auto simp: links_kept_def intro: stays_spent_trans revocations_kept_trans)

subsection \<open>The contract\<close>

lemma issue_refresh_links: "has_effect (links_kept E) (issue_refresh E r)"
  unfolding issue_refresh_def sessions_findById_def issueAccessToken_def generateRefreshToken_def
    refreshTokens_create_def touch_def randomUUID_def date_now_def Let_def
  by (intro links_kept.effect_rules links_kept.table_rules effect_draw; simp add: links_kept_def)

locale token_effect = effect R for R :: "world \<Rightarrow> world \<Rightarrow> bool" +
  fixes E :: env
  assumes neutral: "w_refreshTokens w' = w_refreshTokens w \<Longrightarrow> links_kept E w w' \<Longrightarrow> R w w'"
    and burn: "burns f \<Longrightarrow> links_kept E w w' \<Longrightarrow> w_refreshTokens w' = updateRows p f (w_refreshTokens w) \<Longrightarrow> R w w'"
    and start: "\<not> existsRow (refresh_clash r) (w_refreshTokens w) \<Longrightarrow> rt_familyId r = rt_id r \<Longrightarrow>
      links_kept E w w' \<Longrightarrow> w_refreshTokens w' = insertRow r (w_refreshTokens w) \<Longrightarrow> R w w'"
    and rotate: "r \<in> set (w_refreshTokens w) \<Longrightarrow> live r \<Longrightarrow>
      \<not> existsRow (refresh_clash q) (updateBy rt_id (rt_id r) (use_row t) (w_refreshTokens w)) \<Longrightarrow>
      rt_familyId q = rt_familyId r \<Longrightarrow> links_kept E w w' \<Longrightarrow>
      w_refreshTokens w' = insertRow q (updateBy rt_id (rt_id r) (use_row t) (w_refreshTokens w)) \<Longrightarrow>
      R w w'"
begin

lemmas [simp] = links_kept_def

lemma effect_date_now: "has_effect R date_now"
  unfolding date_now_def by (rule effect_reads)

lemma redis_neutral:
  "(\<And>jti. r (REVOKED_JTI @ jti) = w_redis w (REVOKED_JTI @ jti)) \<Longrightarrow> R w (w\<lparr>w_redis := r\<rparr>)"
  by (intro neutral) (simp_all add: revocations_kept_other_key)

lemma redis_quiet:
  "has_effect R (redis_get k)" "has_effect R (redis_exists k)" "has_effect R (redis_del (LOCKOUT @ i))"
  "has_effect R (redis_expire (LOCKOUT @ i) secs)" "has_effect R (redis_incr (LOCKOUT @ i))"
  "has_effect R (revoke jti (e_accessTtl E))"
proof -
  note other = lockout_key [of i, symmetric]
  have same: "R w w" for w by (rule neutral) simp_all
  show "has_effect R (redis_get k)" "has_effect R (redis_exists k)"
    unfolding redis_get_def redis_exists_def by (intro effect_rules)+
  show "has_effect R (redis_del (LOCKOUT @ i))" "has_effect R (redis_expire (LOCKOUT @ i) secs)"
    by (auto simp: has_effect_def after_def kv_del_def kv_expire_def other intro!: redis_neutral same
        split: option.split)
  show "has_effect R (redis_incr (LOCKOUT @ i))"
    by (auto simp: has_effect_def after_def redis_incr_def kv_set_def other intro!: redis_neutral same
        split: option.split redis_value.split)
  show "has_effect R (revoke jti (e_accessTtl E))"
    by (auto simp: has_effect_def after_def revoke_def intro!: neutral revocations_kept_revoke)
qed

lemmas quiet_rules =
  effect_rules table_rules effect_date_now effect_draw effect_randomUUID effect_randomBytesHex
  effect_mailQueue_add redis_quiet

subsection \<open>Flows that leave the table alone\<close>

lemmas users_defs =
  findByEmail_def findByEmailOrThrow_def findById_def findByIdOrThrow_def repo_findByEmail_def
  repo_findById_def repo_updateStatus_def repo_update_def repo_set2FA_def repo_recordLogin_def
  repo_setPasswordHash_def repo_markEmailVerified_def repo_emailExists_def repo_create_def
  users_create_def user_create_def setPasswordHash_def markEmailVerified_def activate_def
  lock_def unlock_def suspend_def softDelete_def set2FA_def recordLogin_def

lemma users_quiet:
  "has_effect R (findByEmail email)" "has_effect R (findByIdOrThrow i)"
  "has_effect R (findByEmailOrThrow email)" "has_effect R (lock i until)"
  "has_effect R (set2FA i b x c)" "has_effect R (recordLogin i ip)" "has_effect R (user_create E d)"
  "has_effect R (unlock i)" "has_effect R (suspend i)" "has_effect R (softDelete i)"
  unfolding users_defs by (intro quiet_rules neutral; simp)+

lemma passwords_quiet: "has_effect R (require_policy p)" "has_effect R (hasher_hash E p)"
  unfolding require_policy_def hasher_hash_def by (intro quiet_rules neutral; simp)+

lemma issuer_quiet:
  "has_effect R (issueAccessToken E payload)" "has_effect R (issueTwoFactorPendingToken E u s)"
  "has_effect R (generateRefreshToken E)"
  unfolding issueAccessToken_def issueTwoFactorPendingToken_def generateRefreshToken_def Let_def
  by (intro quiet_rules neutral; simp)+

lemma sessions_quiet:
  "has_effect R (sessions_create E u t sc ip ua)" "has_effect R (sessions_end i reason)"
  "has_effect R (touch i)" "has_effect R (endAllForUser u reason)"
  "has_effect R (sessions_findById i)"
  unfolding sessions_create_def sessions_end_def touch_def endAllForUser_def sessions_findById_def
  by (intro quiet_rules neutral; simp)+

lemma revocation_quiet: "has_effect R (revoke jti (e_accessTtl E))" "has_effect R (isRevoked jti)"
  unfolding isRevoked_def by (intro redis_quiet)+

lemma mail_token_quiet: "has_effect R (mail_token E)"
  unfolding mail_token_def by (intro quiet_rules neutral; simp)

lemma assert_quiet: "has_effect R (assertUserCanLogIn user)"
  unfolding assertUserCanLogIn_def
  by (cases "u_status user") (simp_all add: effect_ret effect_throw)

lemma lockout_quiet: "has_effect R (check_lockout E user)" "has_effect R (password_failed E user)"
  unfolding check_lockout_def password_failed_def
  by (intro quiet_rules users_quiet)+

lemma execute_ddl_quiet: "has_effect R (execute_ddl E s stmt)"
  by (auto simp: has_effect_def after_def execute_ddl_def intro!: neutral split: option.split)

lemma schema_quiet:
  "has_effect R (assertValidSchemaName s)" "has_effect R (schemaExists s)"
  "has_effect R (create_schema s)" "has_effect R (forSchema s)" "has_effect R (dropSchema s)"
  unfolding assertValidSchemaName_def schemaExists_def create_schema_def forSchema_def dropSchema_def
  by (intro quiet_rules neutral; simp)+

lemma seeds_quiet:
  "has_effect R (seed_permission E s perm)" "has_effect R (seed_role E s v rt)"
  "has_effect R (seed_assignment s a b)" "has_effect R (assign_owner E s u r)"
  unfolding seed_permission_def seed_role_def seed_assignment_def insert_unless_def assign_owner_def
  by (intro quiet_rules neutral; simp)+

lemma provision_quiet:
  "has_effect R (seedTenantDefaults E s v)" "has_effect R (assignOwnerRole E s u)"
  "has_effect R (provisionSchema E s v b ou)"
proof -
  show seed: "has_effect R (seedTenantDefaults E s v)"
    unfolding seedTenantDefaults_def by (intro quiet_rules seeds_quiet)
  show owner: "has_effect R (assignOwnerRole E s u)" for u
    unfolding assignOwnerRole_def by (intro quiet_rules seeds_quiet schema_quiet)
  show "has_effect R (provisionSchema E s v b ou)"
    unfolding provisionSchema_def by (intro quiet_rules schema_quiet execute_ddl_quiet seed owner)
qed

lemma set_tenant_status_quiet: "has_effect R (set_tenant_status i st)"
  unfolding set_tenant_status_def by (intro quiet_rules neutral; simp)

lemma verify_quiet:
  "has_effect R (membership_with_tenant u)" "has_effect R (check_verification E tok)"
  "has_effect R (mark_verified h)" "has_effect R (mark_all_verified u)"
  "has_effect R (provision_tenant E user tenant)" "has_effect R (reissue_verification E user h)"
  unfolding membership_with_tenant_def check_verification_def mark_verified_def
    mark_all_verified_def provision_tenant_def reissue_verification_def
  by (intro quiet_rules provision_quiet set_tenant_status_quiet neutral; simp)+

lemma activate_account_quiet: "has_effect R mark \<Longrightarrow> has_effect R (activate_account mark user m)"
  unfolding activate_account_def by (intro quiet_rules neutral; simp)

subsection \<open>Writes to the table\<close>

lemma start_family:
  assumes "rt_familyId r = rt_id r"
  shows "has_effect R (refreshTokens_create r)"
proof (rule has_effectI)
  fix w
  show "R w (after (refreshTokens_create r) w)"
  proof (cases "existsRow (refresh_clash r) (w_refreshTokens w) \<or> \<not> refresh_refs r w")
    case True
    then show ?thesis
      by (intro neutral) (auto simp: after_def refreshTokens_create_def create_run)
  next
    case False
    then show ?thesis
      by (intro start [of r]) (simp_all add: after_def refreshTokens_create_def create_run assms)
  qed
qed

lemma burn_many: "burns f \<Longrightarrow> has_effect R (updateMany refreshTokens p f)"
  by (auto simp: has_effect_def after_def updateMany_run intro!: burn)

lemma burn_one:
  assumes "burns f"
  shows "has_effect R (update refreshTokens key k f)"
proof (rule effect_update)
  fix w
  show "R w (on_rows refreshTokens (updateBy key k f) w)"
    by (rule burn [OF assms, where p = "\<lambda>r. key r = k"]) (simp_all add: updateBy_def)
qed

lemma revocations:
  "has_effect R (refreshTokens_revoke i reason)" "has_effect R (revokeFamily fam reason)"
  "has_effect R (revokeAllForUser u reason)"
  unfolding refreshTokens_revoke_def revokeFamily_def revokeAllForUser_def
  by (intro quiet_rules burn_one burn_many burns_revoke_row)+

lemma findByHash_quiet: "has_effect R (findByHash h)"
  unfolding findByHash_def by (rule effect_findUnique)

subsection \<open>The flows\<close>

lemma issue_login_effect: "has_effect R (issue_login E user t session ip)"
  unfolding issue_login_def
  by (intro quiet_rules issuer_quiet users_quiet start_family) (simp add: refresh_row_def)

lemma login_effect: "has_effect R (login E ctx)"
  unfolding login_def
  by (intro quiet_rules users_quiet assert_quiet lockout_quiet sessions_quiet issue_login_effect)

lemma logout_effects:
  "has_effect R (logoutCurrent E sid jti raw)" "has_effect R (logoutAll u)"
  unfolding logoutCurrent_def logoutAll_def
  by (intro quiet_rules revocation_quiet findByHash_quiet revocations sessions_quiet)+

lemma totp_quiet:
  "has_effect R (verifyTotp E c s)" "has_effect R (generateBackupCodes E)"
  unfolding verifyTotp_def generateBackupCodes_def
  by (intro quiet_rules neutral; simp)+

lemma two_factor_effects:
  "has_effect R (beginSetup E u)" "has_effect R (confirmSetup E u c)"
  "has_effect R (disable E u c)" "has_effect R (regenerateBackupCodes E u c)"
  "has_effect R (verifyLogin E u sid c ip)"
  unfolding beginSetup_def confirmSetup_def disable_def regenerateBackupCodes_def verifyLogin_def
    verifyCodeOrBackup_def consume_backup_code_def Let_def
  by (intro quiet_rules users_quiet totp_quiet issuer_quiet start_family neutral;
      simp add: refresh_row_def)+

lemma signup_effect: "has_effect R (signup E dto)"
  unfolding signup_def signup_transaction_def
  by (intro quiet_rules passwords_quiet users_quiet mail_token_quiet neutral; simp)

lemma verification_effects:
  "has_effect R (verifyEmail E tok)" "has_effect R (bypassVerify E email)" "has_effect R (resend E email)"
  unfolding verifyEmail_def bypassVerify_def resend_def
  by (intro quiet_rules verify_quiet activate_account_quiet mail_token_quiet neutral; simp)+

lemma password_reset_effects:
  "has_effect R (requestReset E email)" "has_effect R (resetPassword E tok p)"
  unfolding requestReset_def resetPassword_def reissue_reset_def check_reset_def reset_transaction_def
  by (intro quiet_rules passwords_quiet mail_token_quiet burn_many burns_revoke_row neutral; simp)+

lemma invite_accept_effect: "has_effect R (inviteAccept E ctx)"
  unfolding inviteAccept_def check_invite_def accept_transaction_def create_assignment_def
    invite_login_def
  by (intro quiet_rules passwords_quiet schema_quiet sessions_quiet issuer_quiet start_family neutral;
      simp add: refresh_row_def)

subsection \<open>Rotation\<close>

lemma check_refresh_effect: "has_effect R (check_refresh E raw)"
  unfolding check_refresh_def reuse_detected_def
  by (intro quiet_rules findByHash_quiet revocations sessions_quiet)

lemma refresh_effect: "has_effect R (refresh E raw)"
proof (rule has_effectI)
  fix w
  obtain c w1 where c: "check_refresh E raw w = (c, w1)" by fastforce
  show "R w (after (refresh E raw) w)"
  proof (cases c)
    case (Inl e)
    with c have "after (refresh E raw) w = w1" by (simp add: refresh_def after_def await_run)
    with c check_refresh_effect show ?thesis by (auto dest: has_effectD)
  next
    case (Inr r)
    with c have w1: "w1 = w" and r: "r \<in> set (w_refreshTokens w)" "live r"
      by (auto dest: check_refresh_ok)
    define w2 where "w2 = w_refreshTokens_update (updateBy rt_id (rt_id r) (use_row (w_now w))) w"
    have used: "markUsed (rt_id r) w = (Inr (), w2)"
      using r(1) by (simp add: markUsed_run w2_def)
    have after: "after (refresh E raw) w = after (issue_refresh E r) w2"
      using c Inr w1 used by (simp add: refresh_def after_def await_run)
    have ts: "w_refreshTokens w2 = updateBy rt_id (rt_id r) (use_row (w_now w)) (w_refreshTokens w)"
      by (simp add: w2_def)
    have "links_kept E w w2" by (simp add: w2_def)
    then have links: "links_kept E w (after (refresh E raw) w)"
      unfolding after
      by (rule links_kept.trans) (use issue_refresh_links [of E r] in \<open>simp add: has_effect_def del: links_kept_def\<close>)
    from issue_refresh_tokens [of E r w2] show ?thesis
    proof
      assume "w_refreshTokens (after (issue_refresh E r) w2) = w_refreshTokens w2"
      with after ts links show ?thesis
        by (intro burn [where f = "use_row (w_now w)" and p = "\<lambda>q. rt_id q = rt_id r"])
           (simp_all add: updateBy_def)
    next
      assume "\<exists>q. \<not> existsRow (refresh_clash q) (w_refreshTokens w2) \<and> rt_familyId q = rt_familyId r \<and>
        w_refreshTokens (after (issue_refresh E r) w2) = insertRow q (w_refreshTokens w2)"
      then obtain q where "\<not> existsRow (refresh_clash q) (w_refreshTokens w2)"
        "rt_familyId q = rt_familyId r"
        "w_refreshTokens (after (issue_refresh E r) w2) = insertRow q (w_refreshTokens w2)"
        by blast
      with after ts links r show ?thesis
        by (intro rotate [where r = r and q = q and t = "w_now w"]) simp_all
    qed
  qed
qed

end

end
