(* ===== verification/Auth_System.thy ===== *)
theory Auth_System
  imports Token_Effects
begin

text \<open>
  The auth service as a transition system: one request at a time, in any order, with any arguments,
  and the clock moving forward between them. Two instances of \<open>token_effect\<close> give what holds over
  every run: a family of refresh tokens never has two live tokens, and a token that was used or
  revoked is never accepted again.
\<close>

subsection \<open>Requests\<close>

datatype auth_request =
    Signup_request SignupDto
  | Login_request LoginRequestContext
  | Refresh_request "string option"
  | Logout_request string string "string option"
  | Logout_all_request string
  | Verify_email_request string
  | Bypass_verify_request string
  | Resend_request string
  | Forgot_password_request string
  | Reset_password_request string string
  | Accept_invite_request InviteAcceptContext
  | Setup_2fa_request string
  | Confirm_2fa_request string string
  | Disable_2fa_request string string
  | Verify_2fa_request string string string "string option"
  | Backup_codes_request string string

primrec serve :: "env \<Rightarrow> auth_request \<Rightarrow> world \<Rightarrow> world" where
  "serve E (Signup_request dto) = after (signupHandler E dto)"
| "serve E (Login_request ctx) = after (loginHandler E ctx)"
| "serve E (Refresh_request cookie) = after (refreshHandler E cookie)"
| "serve E (Logout_request sid jti raw) = after (logoutCurrent E sid jti raw)"
| "serve E (Logout_all_request u) = after (logoutAll u)"
| "serve E (Verify_email_request tok) = after (verifyEmailHandler E tok)"
| "serve E (Bypass_verify_request email) = after (bypassVerify E email)"
| "serve E (Resend_request email) = after (resendVerifyEmailHandler E email)"
| "serve E (Forgot_password_request email) = after (forgotPasswordHandler E email)"
| "serve E (Reset_password_request tok p) = after (resetPasswordHandler E tok p)"
| "serve E (Accept_invite_request ctx) = after (inviteAccept E ctx)"
| "serve E (Setup_2fa_request u) = after (beginSetup E u)"
| "serve E (Confirm_2fa_request u c) = after (confirmSetup E u c)"
| "serve E (Disable_2fa_request u c) = after (disable E u c)"
| "serve E (Verify_2fa_request u sid c ip) = after (verifyLogin E u sid c ip)"
| "serve E (Backup_codes_request u c) = after (regenerateBackupCodes E u c)"

inductive auth_step :: "env \<Rightarrow> world \<Rightarrow> world \<Rightarrow> bool" for E where
  Request: "auth_step E w (serve E rq w)"
| Tick: "w_now w \<le> t \<Longrightarrow> auth_step E w (w\<lparr>w_now := t\<rparr>)"

inductive_cases auth_stepE: "auth_step E w w'"

inductive auth_run :: "env \<Rightarrow> world \<Rightarrow> world \<Rightarrow> bool" for E where
  Start: "auth_run E w w"
| Step: "auth_run E w w' \<Longrightarrow> auth_step E w' w'' \<Longrightarrow> auth_run E w w''"

text \<open>Every request is a write of the contract.\<close>

context token_effect
begin

lemma after_effect: "has_effect R m \<Longrightarrow> R w (after m w)"
  by (simp add: has_effect_def)

lemma handler_effects:
  "has_effect R (signupHandler E dto)" "has_effect R (loginHandler E ctx)"
  "has_effect R (refreshHandler E cookie)" "has_effect R (verifyEmailHandler E tok)"
  "has_effect R (resendVerifyEmailHandler E email)" "has_effect R (forgotPasswordHandler E email)"
  "has_effect R (resetPasswordHandler E tok p)"
proof -
  show "has_effect R (signupHandler E dto)"
    unfolding signupHandler_def by (intro quiet_rules signup_effect users_quiet)
  show "has_effect R (loginHandler E ctx)"
    unfolding loginHandler_def
  proof (rule effect_await [OF login_effect])
    fix result
    show "has_effect R (case result of
        TwoFactorPending tempToken expiresAt \<Rightarrow>
          await date_now (\<lambda>now.
          await (findByEmailOrThrow (lc_email ctx)) (\<lambda>user.
          ret \<lparr>lr_accessToken = tempToken,
               lr_accessTokenExpiresIn = max 0 ((expiresAt - now) div 1000),
               lr_accessTokenExpiresAt = expiresAt, lr_requires2FA = True,
               lr_user = fromEntity user, lr_refreshCookie = None\<rparr>))
      | LoginSuccess r \<Rightarrow>
          ret \<lparr>lr_accessToken = l_accessToken r, lr_accessTokenExpiresIn = l_accessTokenExpiresIn r,
               lr_accessTokenExpiresAt = l_accessTokenExpiresAt r, lr_requires2FA = False,
               lr_user = fromEntity (l_user r),
               lr_refreshCookie = Some (l_refreshTokenRaw r, l_refreshTokenExpiresAt r)\<rparr>)"
      by (cases result) (simp_all, (intro quiet_rules users_quiet)+)
  qed
  show "has_effect R (refreshHandler E cookie)"
    unfolding refreshHandler_def by (intro quiet_rules refresh_effect)
  show "has_effect R (verifyEmailHandler E tok)"
    unfolding verifyEmailHandler_def by (intro quiet_rules verification_effects)
  show "has_effect R (resendVerifyEmailHandler E email)"
    unfolding resendVerifyEmailHandler_def by (intro quiet_rules verification_effects)
  show "has_effect R (forgotPasswordHandler E email)"
    unfolding forgotPasswordHandler_def by (intro quiet_rules password_reset_effects)
  show "has_effect R (resetPasswordHandler E tok p)"
    unfolding resetPasswordHandler_def by (intro quiet_rules password_reset_effects)
qed

lemma serve_effect: "R w (serve E rq w)"
  by (cases rq)
     (simp_all add: after_effect handler_effects logout_effects verification_effects
        invite_accept_effect two_factor_effects)

lemma step_effect: "auth_step E w w' \<Longrightarrow> R w w'"
  by (erule auth_stepE) (simp_all add: serve_effect neutral)

lemma run_effect: "auth_run E w w' \<Longrightarrow> R w w'"
  by (induction rule: auth_run.induct) (auto intro: refl trans step_effect)

end

subsection \<open>The two instances\<close>

definition families_kept :: "world \<Rightarrow> bool" where
  "families_kept w \<longleftrightarrow> families_ok (w_refreshTokens w)"

interpretation families: token_effect "keeps families_kept" E for E
proof
  fix w w' :: world
  show "w_refreshTokens w' = w_refreshTokens w \<Longrightarrow> links_kept E w w' \<Longrightarrow> keeps families_kept w w'"
    by (simp add: keeps_def families_kept_def)
  show "burns f \<Longrightarrow> links_kept E w w' \<Longrightarrow> w_refreshTokens w' = updateRows p f (w_refreshTokens w) \<Longrightarrow>
      keeps families_kept w w'" for f p
    by (simp add: keeps_def families_kept_def families_burn)
  show "\<not> existsRow (refresh_clash r) (w_refreshTokens w) \<Longrightarrow> rt_familyId r = rt_id r \<Longrightarrow>
      links_kept E w w' \<Longrightarrow> w_refreshTokens w' = insertRow r (w_refreshTokens w) \<Longrightarrow> keeps families_kept w w'" for r
    by (simp add: keeps_def families_kept_def families_start)
  show "r \<in> set (w_refreshTokens w) \<Longrightarrow> live r \<Longrightarrow>
      \<not> existsRow (refresh_clash q) (updateBy rt_id (rt_id r) (use_row t) (w_refreshTokens w)) \<Longrightarrow>
      rt_familyId q = rt_familyId r \<Longrightarrow> links_kept E w w' \<Longrightarrow>
      w_refreshTokens w' = insertRow q (updateBy rt_id (rt_id r) (use_row t) (w_refreshTokens w)) \<Longrightarrow>
      keeps families_kept w w'" for r q t
    by (simp add: keeps_def families_kept_def families_rotate)
qed

lemma families_kept_run:
  assumes "w_refreshTokens w0 = []" and "auth_run E w0 w"
  shows "families_kept w"
proof -
  have "families_kept w0"
    by (simp add: families_kept_def families_ok_def tokens_wf_def one_live_def uniqueBy_def assms(1))
  with families.run_effect [OF assms(2)] show ?thesis by (simp add: keeps_def)
qed

lemma families_kept_later: "families_kept w \<Longrightarrow> auth_run E w w' \<Longrightarrow> families_kept w'"
  using families.run_effect by (simp add: keeps_def)

text \<open>\<open>spent_hashes w\<close>: the hashes of the tokens that are used or revoked.\<close>

definition spent_hashes :: "world \<Rightarrow> string set" where
  "spent_hashes w = {rt_tokenHash r | r. r \<in> set (w_refreshTokens w) \<and> \<not> live r}"

lemma spent_hashesI:
  "r \<in> set (w_refreshTokens w) \<Longrightarrow> \<not> live r \<Longrightarrow> rt_tokenHash r = h \<Longrightarrow> h \<in> spent_hashes w"
  by (auto simp: spent_hashes_def)

lemma spent_update:
  assumes "burns f"
  shows "{rt_tokenHash r | r. r \<in> set ts \<and> \<not> live r} \<subseteq>
    {rt_tokenHash r | r. r \<in> set (updateRows p f ts) \<and> \<not> live r}"
proof
  fix h
  assume "h \<in> {rt_tokenHash r | r. r \<in> set ts \<and> \<not> live r}"
  then obtain r where r: "r \<in> set ts" "\<not> live r" "h = rt_tokenHash r" by blast
  let ?q = "if p r then f r else r"
  have "?q \<in> set (updateRows p f ts)" using r(1) by (auto simp: set_updateRows)
  moreover have "\<not> live ?q" "rt_tokenHash ?q = h" using assms r by (auto simp: burns_def)
  ultimately show "h \<in> {rt_tokenHash r | r. r \<in> set (updateRows p f ts) \<and> \<not> live r}" by blast
qed

interpretation spent: token_effect "grows spent_hashes" E for E
proof
  fix w w' :: world
  show "w_refreshTokens w' = w_refreshTokens w \<Longrightarrow> links_kept E w w' \<Longrightarrow> grows spent_hashes w w'"
    by (simp add: grows_def spent_hashes_def)
  show "burns f \<Longrightarrow> links_kept E w w' \<Longrightarrow> w_refreshTokens w' = updateRows p f (w_refreshTokens w) \<Longrightarrow>
      grows spent_hashes w w'" for f p
    unfolding grows_def spent_hashes_def by (simp add: spent_update)
  show "\<not> existsRow (refresh_clash r) (w_refreshTokens w) \<Longrightarrow> rt_familyId r = rt_id r \<Longrightarrow>
      links_kept E w w' \<Longrightarrow> w_refreshTokens w' = insertRow r (w_refreshTokens w) \<Longrightarrow> grows spent_hashes w w'" for r
    by (auto simp: grows_def spent_hashes_def)
  show "r \<in> set (w_refreshTokens w) \<Longrightarrow> live r \<Longrightarrow>
      \<not> existsRow (refresh_clash q) (updateBy rt_id (rt_id r) (use_row t) (w_refreshTokens w)) \<Longrightarrow>
      rt_familyId q = rt_familyId r \<Longrightarrow> links_kept E w w' \<Longrightarrow>
      w_refreshTokens w' = insertRow q (updateBy rt_id (rt_id r) (use_row t) (w_refreshTokens w)) \<Longrightarrow>
      grows spent_hashes w w'" for r q t
    using spent_update [OF burns_use_row, where p = "\<lambda>x. rt_id x = rt_id r" and
        ts = "w_refreshTokens w"]
    by (auto simp: grows_def spent_hashes_def updateBy_def)
qed

lemma spent_refused:
  assumes ok: "families_kept w" and spent: "e_sha256 E raw \<in> spent_hashes w"
  shows "\<exists>e. outcome (refresh E raw) w = Inl e"
proof (cases "outcome (refresh E raw) w")
  case (Inr x)
  then obtain r w1 where c: "check_refresh E raw w = (Inr r, w1)"
    by (cases "check_refresh E raw w") (auto simp: refresh_def outcome_def await_run split: sum.splits)
  obtain q where q: "q \<in> set (w_refreshTokens w)" "\<not> live q" "rt_tokenHash q = e_sha256 E raw"
    using spent by (auto simp: spent_hashes_def)
  have "uniqueBy rt_tokenHash (w_refreshTokens w)"
    using ok by (simp add: families_kept_def families_ok_def tokens_wf_def)
  with check_refresh_ok [OF c] q have "lookupBy rt_tokenHash (e_sha256 E raw) (w_refreshTokens w) = Some r"
    "lookupBy rt_tokenHash (e_sha256 E raw) (w_refreshTokens w) = Some q"
    by (metis lookupBy_unique)+
  with check_refresh_ok(3) [OF c] q(2) show ?thesis by simp
qed auto

text \<open>A link from a mail that was used stays used.\<close>

interpretation links: token_effect "links_kept E" E for E
  by unfold_locales

lemma spent_forever:
  "h \<in> spent_hashes w \<Longrightarrow> auth_run E w w' \<Longrightarrow> h \<in> spent_hashes w'"
  using spent.run_effect by (auto simp: grows_def)

end
