(* ===== verification/Login_Facts.thy ===== *)
theory Login_Facts
  imports Auth_System
begin

text \<open>Symbolic runs of the users service and of a login, shared by the properties.\<close>

subsection \<open>The users service\<close>

lemma lookup_existsRow: "lookupBy key k t = Some r \<Longrightarrow> existsRow (\<lambda>x. key x = k) t"
  by (auto simp: existsRow_iff dest: lookupBy_in)

lemma findByIdOrThrow_run [act]:
  "findByIdOrThrow i w =
     (case lookupBy u_id i (w_users w) of
        None \<Rightarrow> (Inl (User UserNotFoundException), w)
      | Some u \<Rightarrow> (Inr u, w))"
  by (simp add: findByIdOrThrow_def repo_findById_def findUnique_run await_run split: option.split)

lemma findByEmail_run [act]:
  "findByEmail e w = (Inr (lookupBy email_key (normalizeEmail e) (w_users w)), w)"
  by (simp add: findByEmail_def repo_findByEmail_def findUnique_run)

lemma repo_update_run [act]:
  "repo_update i f w =
     (if lookupBy u_id i (w_users w) = None then (Inl (Prisma P2025), w)
      else (Inr (), w_users_update (updateBy u_id i f) w))"
  by (auto simp: repo_update_def update_run await_run split: option.split)

lemma repo_updateStatus_run [act]:
  "repo_updateStatus i st l d w =
     (if lookupBy u_id i (w_users w) = None then (Inl (Prisma P2025), w)
      else (Inr (), w_users_update (updateBy u_id i
        (\<lambda>u. u\<lparr>u_status := st, u_lockedUntil := orElse l (u_lockedUntil u),
                u_deletedAt := orElse d (u_deletedAt u)\<rparr>)) w))"
  by (simp add: repo_updateStatus_def repo_update_run)

lemma lock_run [act]:
  "lookupBy u_id i (w_users w) = Some u \<Longrightarrow>
     lock i until w =
       (Inr (), w_users_update (updateBy u_id i
         (\<lambda>u. u\<lparr>u_status := UserStatus.LOCKED, u_lockedUntil := Some until,
                 u_deletedAt := u_deletedAt u\<rparr>)) w)"
  by (simp add: lock_def findByIdOrThrow_run repo_updateStatus_run await_run)

lemma set2FA_run [act]:
  "set2FA i b x c w =
     (if lookupBy u_id i (w_users w) = None then (Inl (User UserNotFoundException), w)
      else (Inr (), w_users_update (updateBy u_id i
        (\<lambda>u. u\<lparr>u_twoFactorEnabled := b, u_twoFactorSecret := x, u_twoFactorBackupCodes := c\<rparr>)) w))"
  by (auto simp: set2FA_def repo_set2FA_def findByIdOrThrow_run repo_update_run await_run
      split: option.split)

lemma recordLogin_run [act]:
  "recordLogin i ip w =
     (if lookupBy u_id i (w_users w) = None then (Inl (Prisma P2025), w)
      else (Inr (), w_users_update (updateBy u_id i
        (\<lambda>u. u\<lparr>u_lastLoginAt := Some (w_now w), u_lastLoginIp := ip\<rparr>)) w))"
  by (simp add: recordLogin_def repo_recordLogin_def repo_update_run await_run)

subsection \<open>Login\<close>

text \<open>The account that a login names, and the checks before the password.\<close>

definition login_user :: "LoginRequestContext \<Rightarrow> world \<Rightarrow> user option" where
  "login_user ctx w = lookupBy email_key (normalizeEmail (lc_email ctx)) (w_users w)"

definition failures :: "world \<Rightarrow> user \<Rightarrow> redis_value option" where
  "failures w u = kv_get (w_now w) (w_redis w) (LOCKOUT @ u_id u)"

lemma login_unknown:
  "login_user ctx w = None \<Longrightarrow> login E ctx w = (Inl (Auth InvalidCredentialsException), w)"
  by (simp add: login_def login_user_def findByEmail_run await_run)

lemma login_not_active:
  "login_user ctx w = Some u \<Longrightarrow> assertUserCanLogIn u w = (Inl e, w) \<Longrightarrow>
     login E ctx w = (Inl e, w)"
  by (simp add: login_def login_user_def findByEmail_run await_run)

lemma status_refused:
  "u_status u \<noteq> UserStatus.ACTIVE \<Longrightarrow> \<exists>e. assertUserCanLogIn u w = (Inl e, w)"
  by (cases "u_status u") (simp_all add: assertUserCanLogIn_def)

lemma login_active:
  assumes "login_user ctx w = Some u" and "u_status u = UserStatus.ACTIVE"
    and "\<not> lockout_reached E (failures w u)"
  shows "login E ctx w =
    (if \<not> password_ok E u (lc_password ctx) then password_failed E u w
     else
       await (findFirst tenantMemberships (active_membership (u_id u))) (\<lambda>membership.
         case membership of
           None \<Rightarrow> throw (User UserInactiveException)
         | Some m \<Rightarrow>
             await (sessions_create E (u_id u) (tm_tenantId m) SessionScope.TENANT
               (lc_ipAddress ctx) (lc_userAgent ctx)) (\<lambda>session.
             issue_login E u (tm_tenantId m) session (lc_ipAddress ctx)))
         (w\<lparr>w_redis := kv_del (LOCKOUT @ u_id u) (w_redis w)\<rparr>))"
  using assms
  by (simp add: login_def login_user_def findByEmail_run await_run assertUserCanLogIn_def
      check_lockout_def failures_def)

text \<open>The rows that a login writes, from the supply of random values.\<close>

definition login_session :: "env \<Rightarrow> LoginRequestContext \<Rightarrow> world \<Rightarrow> user \<Rightarrow> string \<Rightarrow> session" where
  "login_session E ctx w u tenantId =
     \<lparr>s_id = e_uuid E (w_rnd w), s_userId = u_id u, s_scope = TENANT, s_tenantId = Some tenantId,
      s_activeBranchId = None, s_ipAddress = lc_ipAddress ctx, s_userAgent = lc_userAgent ctx,
      s_createdAt = w_now w, s_lastActiveAt = w_now w, s_endedAt = None, s_endReason = None\<rparr>"

definition login_raw :: "env \<Rightarrow> nat \<Rightarrow> string" where
  "login_raw E n = strip_dashes (e_uuid E n @ ''.'' @ e_uuid E (Suc n))"

definition login_token :: "env \<Rightarrow> world \<Rightarrow> user \<Rightarrow> refresh_token" where
  "login_token E w u =
     \<lparr>rt_id = e_uuid E (w_rnd w + 4), rt_tokenHash = e_sha256 E (login_raw E (w_rnd w + 2)),
      rt_userId = u_id u, rt_sessionId = e_uuid E (w_rnd w), rt_familyId = e_uuid E (w_rnd w + 4),
      rt_parentId = None, rt_expiresAt = w_now w + e_refreshTtl E * 1000, rt_usedAt = None,
      rt_revokedAt = None, rt_revokedReason = None, rt_createdAt = w_now w\<rparr>"

definition login_claims :: "env \<Rightarrow> world \<Rightarrow> user \<Rightarrow> string \<Rightarrow> jwt_claims" where
  "login_claims E w u tenantId =
     claims_of (tenant_payload (u_id u) (e_uuid E (w_rnd w)) (Some tenantId) None) ''access''
       (e_uuid E (w_rnd w + 1)) (w_now w div 1000) (w_now w div 1000 + e_accessTtl E)"

definition login_result :: "env \<Rightarrow> world \<Rightarrow> user \<Rightarrow> string \<Rightarrow> LoginSuccessResult" where
  "login_result E w u tenantId =
     \<lparr>l_user = u, l_accessToken = e_jwtSign E (login_claims E w u tenantId),
      l_accessTokenExpiresAt = (w_now w div 1000 + e_accessTtl E) * 1000,
      l_accessTokenExpiresIn = e_accessTtl E, l_refreshTokenRaw = login_raw E (w_rnd w + 2),
      l_refreshTokenExpiresAt = w_now w + e_refreshTtl E * 1000\<rparr>"

definition after_login :: "env \<Rightarrow> LoginRequestContext \<Rightarrow> world \<Rightarrow> user \<Rightarrow> string \<Rightarrow> world" where
  "after_login E ctx w u tenantId =
     w\<lparr>w_redis := kv_del (LOCKOUT @ u_id u) (w_redis w),
       w_rnd := w_rnd w + 5,
       w_sessions := insertRow (login_session E ctx w u tenantId) (w_sessions w),
       w_refreshTokens := insertRow (login_token E w u) (w_refreshTokens w),
       w_users := updateBy u_id (u_id u)
         (\<lambda>x. x\<lparr>u_lastLoginAt := Some (w_now w), u_lastLoginIp := lc_ipAddress ctx\<rparr>) (w_users w)\<rparr>"

text \<open>What a successful login needs: the account, the password, a membership and fresh draws.\<close>

definition can_login :: "env \<Rightarrow> LoginRequestContext \<Rightarrow> world \<Rightarrow> user \<Rightarrow> tenant_membership \<Rightarrow> bool" where
  "can_login E ctx w u m \<longleftrightarrow>
     login_user ctx w = Some u \<and> u_status u = UserStatus.ACTIVE \<and>
     \<not> lockout_reached E (failures w u) \<and> password_ok E u (lc_password ctx) \<and>
     findRow (active_membership (u_id u)) (w_tenantMemberships w) = Some m \<and>
     lookupBy t_id (tm_tenantId m) (w_tenants w) \<noteq> None"

definition fresh_draws :: "env \<Rightarrow> world \<Rightarrow> user \<Rightarrow> bool" where
  "fresh_draws E w u \<longleftrightarrow>
     lookupBy s_id (e_uuid E (w_rnd w)) (w_sessions w) = None \<and>
     \<not> existsRow (refresh_clash (login_token E w u)) (w_refreshTokens w)"

lemma login_user_known:
  "login_user ctx w = Some u \<Longrightarrow> lookupBy u_id (u_id u) (w_users w) \<noteq> None"
  by (auto simp: login_user_def lookupBy_None_iff dest: lookupBy_in)

lemma login_run:
  assumes ok: "can_login E ctx w u m" and fresh: "fresh_draws E w u" and no2fa: "\<not> u_twoFactorEnabled u"
  shows "login E ctx w =
    (Inr (LoginSuccess (login_result E w u (tm_tenantId m))), after_login E ctx w u (tm_tenantId m))"
proof -
  from ok obtain t where t: "lookupBy t_id (tm_tenantId m) (w_tenants w) = Some t"
    by (auto simp: can_login_def)
  from ok have "login_user ctx w = Some u" by (simp add: can_login_def)
  then obtain u' where u': "lookupBy u_id (u_id u) (w_users w) = Some u'"
    using login_user_known by fastforce
  have session: "\<not> existsRow (session_clash (login_session E ctx w u (tm_tenantId m))) (w_sessions w)"
    using fresh
    by (auto simp: fresh_draws_def existsRow_iff session_clash_def login_session_def lookupBy_None_iff)
  have token: "\<not> existsRow (refresh_clash (login_token E w u)) (w_refreshTokens w)"
    using fresh by (simp add: fresh_draws_def)
  have refs: "existsRow (\<lambda>x. u_id x = u_id u) (w_users w)"
    using u' by (rule lookup_existsRow)
  show ?thesis
    using ok no2fa t u' session token refs
    by (simp add: login_active can_login_def await_run findFirst_run sessions_create_def
        findUnique_run throwIf_run create_run issue_login_def issueAccessToken_run
        generateRefreshToken_run refreshTokens_create_def refresh_refs_def recordLogin_run
        after_login_def login_result_def login_session_def login_token_def login_claims_def
        login_raw_def refresh_row_def access_ttl_def tenant_payload_def Let_def existsRow_iff
        numeral_eq_Suc)
qed

end
