(* ===== verification/Example.thy ===== *)
theory Example
  imports Login_Facts
begin

text \<open>
  A concrete platform for the witnesses: simple functions in the place of the packages (a prefix as
  hash, the number of the draw as random value, the first access token of the owner as the only one that
  verifies), one tenant with its plan, and one active owner
  who can log in.
\<close>

definition demo_claims :: jwt_claims where
  "demo_claims =
     claims_of (tenant_payload ''owner'' ''u0'' (Some ''t1'') None) ''access'' ''u1'' 1000 1900"

definition demo_verify :: "string \<Rightarrow> int \<Rightarrow> jwt_result" where
  "demo_verify token t =
     (if token \<noteq> ''ju1'' then JwtInvalid ''jwt malformed''
      else if t < 1900000 then Verified demo_claims
      else JwtExpired)"

definition demo_env :: env where
  "demo_env =
     \<lparr>e_uuid = (\<lambda>n. ''u'' @ nat_text n), e_randomHex = (\<lambda>k n. nat_text n),
      e_sha256 = (\<lambda>s. CHR ''h'' # s), e_argonHash = (\<lambda>p n. CHR ''a'' # p),
      e_argonVerify = (\<lambda>h p. Some (h = CHR ''a'' # p)), e_argonNeedsRehash = (\<lambda>h. Some False),
      e_jwtSign = (\<lambda>c. CHR ''j'' # c_jti c), e_jwtVerify = demo_verify,
      e_totpSecret = (\<lambda>n. ''SECRET''), e_totpUri = (\<lambda>l s. ''otpauth://'' @ l),
      e_totpValidate = (\<lambda>c s now. Some (if c = ''123456'' then Some 0 else None)),
      e_maxAttempts = 3, e_lockoutSeconds = 1800, e_accessTtl = 900, e_platformAccessTtl = 300,
      e_refreshTtl = 2592000, e_twoFactorTempTtl = 300, e_emailVerifyTtl = 86400,
      e_passwordResetTtl = 3600, e_inviteTtl = 172800, e_frontendUrl = ''http://localhost:3000'', e_collate = (\<lambda>s. s),
      e_contains = (\<lambda>s t. toLowerCase s = toLowerCase t), e_isUuid = (\<lambda>s. s \<noteq> ''webhook''),
      e_dateText = nat_text \<circ> nat,
      e_templateSql = ''CREATE TABLE t (); CREATE INDEX i'', e_ddl = (\<lambda>stmt db. Some db)\<rparr>"

lemma demo_env_simps [simp]:
  "e_uuid demo_env n = CHR ''u'' # nat_text n" "e_randomHex demo_env k n = nat_text n"
  "e_sha256 demo_env s = CHR ''h'' # s" "e_argonHash demo_env p n = CHR ''a'' # p"
  "e_argonVerify demo_env h p = Some (h = CHR ''a'' # p)"
  "e_jwtSign demo_env c = CHR ''j'' # c_jti c" "e_jwtVerify demo_env tok t = demo_verify tok t"
  "e_totpSecret demo_env n = ''SECRET''" "e_maxAttempts demo_env = 3"
  "e_totpValidate demo_env code x t = Some (if code = ''123456'' then Some 0 else None)"
  "e_lockoutSeconds demo_env = 1800" "e_accessTtl demo_env = 900"
  "e_refreshTtl demo_env = 2592000" "e_twoFactorTempTtl demo_env = 300"
  "e_emailVerifyTtl demo_env = 86400" "e_passwordResetTtl demo_env = 3600"
  "e_inviteTtl demo_env = 172800" "e_ddl demo_env stmt db = Some db"
  "e_templateSql demo_env = ''CREATE TABLE t (); CREATE INDEX i''"
  by (simp_all add: demo_env_def)

definition demo_user :: user where
  "demo_user =
     \<lparr>u_id = ''owner'', u_email = ''jane@example.com'', u_emailVerified = True,
      u_passwordHash = Some ''aSecret12345'', u_firstName = Some ''Jane'', u_lastName = None,
      u_avatarUrl = None, u_phone = None, u_locale = None, u_timezone = None,
      u_status = UserStatus.ACTIVE, u_twoFactorEnabled = False, u_twoFactorSecret = None,
      u_twoFactorBackupCodes = [], u_lockedUntil = None, u_lastLoginAt = None,
      u_lastLoginIp = None, u_deletedAt = None, u_createdAt = 0\<rparr>"

definition demo_tenant :: tenant where
  "demo_tenant =
     \<lparr>t_id = ''t1'', t_name = ''Acme'', t_slug = ''acme'', t_vertical = Some GYM,
      t_status = TenantStatus.ACTIVE, t_schemaName = ''tenant_0123456789abcdef'',
      t_planId = ''p1'', t_ownerUserId = ''owner'', t_locale = ''en-US'', t_timezone = ''UTC'',
      t_onboardingCompleted = False, t_goals = [], t_businessPhone = None, t_businessCity = None,
      t_websiteUrl = None, t_logoUrl = None\<rparr>"

definition demo_membership :: tenant_membership where
  "demo_membership =
     \<lparr>tm_id = ''m1'', tm_userId = ''owner'', tm_tenantId = ''t1'',
      tm_status = TenantMembershipStatus.ACTIVE, tm_joinedAt = None, tm_leftAt = None,
      tm_leftReason = None, tm_createdAt = 0\<rparr>"

definition demo_world :: world where
  "demo_world = empty_world
     \<lparr>w_now := 1000000,
      w_plans := [\<lparr>p_id = ''p1'', p_slug = ''free'', p_name = ''Free'', p_isActive = True\<rparr>],
      w_tenants := [demo_tenant], w_users := [demo_user],
      w_tenantMemberships := [demo_membership]\<rparr>"

definition demo_login :: LoginRequestContext where
  "demo_login =
     \<lparr>lc_email = '' Jane@Example.com'', lc_password = ''Secret12345'', lc_ipAddress = None,
      lc_userAgent = None\<rparr>"

text \<open>The demo platform after the owner's login, and the raw refresh token that it gave out.\<close>

definition demo_after_login :: world where
  "demo_after_login = serve demo_env (Login_request demo_login) demo_world"

definition demo_session :: session where
  "demo_session =
     \<lparr>s_id = ''u0'', s_userId = ''owner'', s_scope = TENANT, s_tenantId = Some ''t1'',
      s_activeBranchId = None, s_ipAddress = None, s_userAgent = None, s_createdAt = 1000000,
      s_lastActiveAt = 1000000, s_endedAt = None, s_endReason = None\<rparr>"

definition demo_token :: refresh_token where
  "demo_token =
     \<lparr>rt_id = ''u4'', rt_tokenHash = ''hu2.u3'', rt_userId = ''owner'', rt_sessionId = ''u0'',
      rt_familyId = ''u4'', rt_parentId = None, rt_expiresAt = 1000000 + 2592000 * 1000,
      rt_usedAt = None, rt_revokedAt = None, rt_revokedReason = None, rt_createdAt = 1000000\<rparr>"

lemma demo_login_user: "login_user demo_login demo_world = Some demo_user"
  by code_simp

lemma demo_can_login: "can_login demo_env demo_login demo_world demo_user demo_membership"
  unfolding can_login_def using demo_login_user
  by (simp add: demo_user_def demo_login_def demo_world_def empty_world_def demo_membership_def
      demo_tenant_def demo_env_def failures_def kv_get_def lockout_reached_def password_ok_def
      hasher_verify_def findRow_def active_membership_def)

lemma nat_text_digits [simp]:
  "nat_text 0 = ''0''"
  "nat_text (Suc 0) = ''1''"
  "nat_text 2 = ''2''"
  "nat_text 3 = ''3''"
  "nat_text 4 = ''4''"
  "nat_text 5 = ''5''"
  "nat_text 6 = ''6''"
  "nat_text 7 = ''7''"
  "nat_text 8 = ''8''"
  "nat_text 9 = ''9''"
  by code_simp+

lemmas nat_text_Suc [simp] =
  nat_text_digits(3-10) [unfolded numeral_eq_Suc pred_numeral_simps arith_simps BitM.simps One_nat_def]

lemma demo_fresh: "fresh_draws demo_env demo_world demo_user"
  by (simp add: fresh_draws_def demo_world_def empty_world_def existsRow_def)

lemma demo_after: "demo_after_login = after_login demo_env demo_login demo_world demo_user ''t1''"
proof -
  have "\<not> u_twoFactorEnabled demo_user" by (simp add: demo_user_def)
  with login_run [OF demo_can_login demo_fresh] show ?thesis
    by (simp add: demo_after_login_def loginHandler_def after_def await_run demo_membership_def)
qed

lemma demo_login_result:
  "w_refreshTokens demo_after_login = [demo_token]"
  "w_sessions demo_after_login = [demo_session]"
  "w_now demo_after_login = 1000000" "w_rnd demo_after_login = 5"
  "w_users demo_after_login = [demo_user\<lparr>u_lastLoginAt := Some 1000000\<rparr>]"
  by (simp_all add: demo_after after_login_def demo_world_def empty_world_def insertRow_def
      login_token_def login_session_def login_raw_def demo_token_def demo_session_def demo_env_def
      demo_user_def demo_login_def strip_dashes_def updateBy_def updateRows_def)

lemma demo_world_tokens [simp]: "w_refreshTokens demo_world = []"
  by (simp add: demo_world_def empty_world_def)

lemma demo_run: "auth_run demo_env demo_world demo_after_login"
  unfolding demo_after_login_def by (rule auth_run.Step [OF auth_run.Start]) (rule auth_step.Request)

lemma demo_bearer [simp]: "extractBearerToken (Some ''Bearer ju1'') = Some ''ju1''"
  by code_simp

end
