(* ===== verification/Refresh_Properties.thy ===== *)
theory Refresh_Properties
  imports Example
begin

text \<open>
  Properties of the refresh-token life cycle: the invariant of families and the permanence of spent
  tokens over every run of requests that are served one after another, the exact effect of one
  refresh, the response to reuse, and logout.
\<close>

text \<open>C1: while the auth service answers its requests one after another, each finished before the next
  begins, a rotation family has at most one token that is neither used nor revoked, in every state
  that is reached from one without refresh tokens, by any requests in any order. Two refreshes that
  overlap can break this; \<open>Refresh_Race\<close> shows how.\<close>

theorem one_live_token_per_family:
  assumes "w_refreshTokens w0 = []" and "auth_run E w0 w"
    and "r \<in> set (w_refreshTokens w)" and "q \<in> set (w_refreshTokens w)"
    and "live r" and "live q" and "rt_familyId r = rt_familyId q"
  shows "r = q"
proof -
  have "families_ok (w_refreshTokens w)"
    using families_kept_run [OF assms(1,2)] by (simp add: families_kept_def)
  then have one: "rt_id r = rt_id q" and uniq: "uniqueBy rt_id (w_refreshTokens w)"
    using assms(3-) unfolding families_ok_def one_live_def tokens_wf_def by blast+
  with assms(3,4) show ?thesis by (metis lookupBy_unique option.inject)
qed

lemma one_live_token_per_family_witness:
  "{q \<in> set (w_refreshTokens demo_after_login). live q \<and> rt_familyId q = ''u4''} = {demo_token}"
proof -
  have token: "demo_token \<in> set (w_refreshTokens demo_after_login)" "live demo_token"
      "rt_familyId demo_token = ''u4''"
    by (simp_all add: demo_login_result live_def demo_token_def)
  have "q = demo_token"
    if "q \<in> set (w_refreshTokens demo_after_login)" "live q" "rt_familyId q = ''u4''" for q
    by (rule one_live_token_per_family
        [OF demo_world_tokens demo_run that(1) token(1) that(2) token(2)]) (simp add: that(3) token(3))
  with token show ?thesis by blast
qed

text \<open>C2: once a refresh token is used or revoked, presenting it is refused in every later state,
  whatever requests are served in between, one after another, and however much time passes.\<close>

theorem spent_token_refused_forever:
  assumes "w_refreshTokens w0 = []" and "auth_run E w0 w"
    and "r \<in> set (w_refreshTokens w)" and "\<not> live r" and "rt_tokenHash r = e_sha256 E raw"
    and "auth_run E w w'"
  shows "\<exists>e. outcome (refresh E raw) w' = Inl e"
proof (rule spent_refused)
  show "families_kept w'" by (rule families_kept_later [OF families_kept_run [OF assms(1,2)] assms(6)])
  show "e_sha256 E raw \<in> spent_hashes w'"
    by (rule spent_forever [OF spent_hashesI [OF assms(3-5)] assms(6)])
qed

subsection \<open>One refresh\<close>

definition next_token :: "env \<Rightarrow> world \<Rightarrow> refresh_token \<Rightarrow> refresh_token" where
  "next_token E w r =
     \<lparr>rt_id = e_uuid E (w_rnd w + 3), rt_tokenHash = e_sha256 E (login_raw E (w_rnd w + 1)),
      rt_userId = rt_userId r, rt_sessionId = rt_sessionId r, rt_familyId = rt_familyId r,
      rt_parentId = Some (rt_id r), rt_expiresAt = w_now w + e_refreshTtl E * 1000,
      rt_usedAt = None, rt_revokedAt = None, rt_revokedReason = None, rt_createdAt = w_now w\<rparr>"

definition refreshed_claims :: "env \<Rightarrow> world \<Rightarrow> refresh_token \<Rightarrow> session \<Rightarrow> jwt_claims" where
  "refreshed_claims E w r s =
     claims_of (tenant_payload (rt_userId r) (rt_sessionId r) (s_tenantId s) (s_activeBranchId s))
       ''access'' (e_uuid E (w_rnd w)) (w_now w div 1000) (w_now w div 1000 + e_accessTtl E)"

definition burned_table :: "world \<Rightarrow> refresh_token \<Rightarrow> refresh_token list" where
  "burned_table w r = updateBy rt_id (rt_id r) (use_row (w_now w)) (w_refreshTokens w)"

text \<open>A token that can be rotated: stored, live, not expired, with its user and its open session.\<close>

definition can_refresh :: "env \<Rightarrow> world \<Rightarrow> string \<Rightarrow> refresh_token \<Rightarrow> session \<Rightarrow> bool" where
  "can_refresh E w raw r s \<longleftrightarrow>
     lookupBy rt_tokenHash (e_sha256 E raw) (w_refreshTokens w) = Some r \<and> live r \<and>
     w_now w < rt_expiresAt r \<and> lookupBy s_id (rt_sessionId r) (w_sessions w) = Some s \<and>
     s_endedAt s = None \<and> existsRow (\<lambda>u. u_id u = rt_userId r) (w_users w) \<and>
     \<not> existsRow (refresh_clash (next_token E w r)) (burned_table w r)"

lemma refresh_run:
  assumes "can_refresh E w raw r s"
  shows "refresh E raw w =
    (Inr \<lparr>rr_accessToken = e_jwtSign E (refreshed_claims E w r s),
          rr_accessTokenExpiresAt = (w_now w div 1000 + e_accessTtl E) * 1000,
          rr_accessTokenExpiresIn = e_accessTtl E,
          rr_refreshTokenRaw = login_raw E (w_rnd w + 1),
          rr_refreshTokenExpiresAt = w_now w + e_refreshTtl E * 1000\<rparr>,
     w\<lparr>w_rnd := w_rnd w + 4,
       w_refreshTokens := insertRow (next_token E w r) (burned_table w r),
       w_sessions := updateBy s_id (rt_sessionId r) (\<lambda>s. s\<lparr>s_lastActiveAt := w_now w\<rparr>) (w_sessions w)\<rparr>)"
proof -
  have r: "r \<in> set (w_refreshTokens w)" using assms by (auto simp: can_refresh_def dest: lookupBy_in)
  have check: "check_refresh E raw w = (Inr r, w)"
    using assms by (simp add: can_refresh_def check_refresh_run live_def)
  have s: "existsRow (\<lambda>x. s_id x = rt_sessionId r) (w_sessions w)"
    using assms by (auto simp: can_refresh_def intro: lookup_existsRow)
  show ?thesis
    using assms s
    by (simp add: refresh_def await_run check markUsed_run [OF r] issue_refresh_def can_refresh_def
        sessions_findById_def findUnique_run throwIf_run issueAccessToken_run generateRefreshToken_run
        refreshTokens_create_def create_run refresh_refs_def touch_def update_run burned_table_def
        next_token_def refreshed_claims_def refresh_row_def login_raw_def access_ttl_def
        tenant_payload_def Let_def numeral_eq_Suc)
qed

text \<open>C9: a refresh with a live, unexpired token of an open session burns that token, adds exactly
  one token to its family with the user and session of the old one and a full lifetime, moves the
  session's last activity to now, changes nothing else, and returns an access token for the
  session's tenant and branch.\<close>

theorem refresh_rotates:
  assumes "can_refresh E w raw r s"
  shows "outcome (refresh E raw) w =
      Inr \<lparr>rr_accessToken = e_jwtSign E (refreshed_claims E w r s),
           rr_accessTokenExpiresAt = (w_now w div 1000 + e_accessTtl E) * 1000,
           rr_accessTokenExpiresIn = e_accessTtl E,
           rr_refreshTokenRaw = login_raw E (w_rnd w + 1),
           rr_refreshTokenExpiresAt = w_now w + e_refreshTtl E * 1000\<rparr> \<and>
    after (refresh E raw) w =
      w\<lparr>w_rnd := w_rnd w + 4,
        w_refreshTokens := insertRow (next_token E w r) (burned_table w r),
        w_sessions := updateBy s_id (rt_sessionId r)
          (\<lambda>s. s\<lparr>s_lastActiveAt := w_now w\<rparr>) (w_sessions w)\<rparr>"
  using refresh_run [OF assms] by (simp_all add: outcome_def after_def)

lemma demo_can_refresh: "can_refresh demo_env demo_after_login ''u2.u3'' demo_token demo_session"
  by (simp add: can_refresh_def demo_login_result demo_token_def demo_session_def
      live_def existsRow_def burned_table_def next_token_def updateBy_def updateRows_def use_row_def
      refresh_clash_def demo_user_def login_raw_def strip_dashes_def)

lemma refresh_rotates_witness:
  "map rt_id (filter live (w_refreshTokens (after (refresh demo_env ''u2.u3'') demo_after_login))) =
    [''u8'']"
  unfolding conjunct2 [OF refresh_rotates [OF demo_can_refresh]]
  by (simp add: demo_login_result burned_table_def next_token_def insertRow_def updateBy_def
      updateRows_def use_row_def live_def demo_token_def)

lemma demo_refreshed:
  "auth_run demo_env demo_world (after (refresh demo_env ''u2.u3'') demo_after_login)"
  "demo_token\<lparr>rt_usedAt := Some 1000000\<rparr>
     \<in> set (w_refreshTokens (after (refresh demo_env ''u2.u3'') demo_after_login))"
proof -
  have "after (refresh demo_env ''u2.u3'') demo_after_login =
      serve demo_env (Refresh_request (Some ''u2.u3'')) demo_after_login"
    by (simp add: refreshHandler_def)
  then show "auth_run demo_env demo_world (after (refresh demo_env ''u2.u3'') demo_after_login)"
    by (metis auth_run.Step auth_step.Request demo_run)
  obtain r where "refresh demo_env ''u2.u3'' demo_after_login =
      (r, demo_after_login\<lparr>w_rnd := w_rnd demo_after_login + 4,
        w_refreshTokens := insertRow (next_token demo_env demo_after_login demo_token)
          (burned_table demo_after_login demo_token),
        w_sessions := updateBy s_id (rt_sessionId demo_token)
          (\<lambda>s. s\<lparr>s_lastActiveAt := w_now demo_after_login\<rparr>) (w_sessions demo_after_login)\<rparr>)"
    using refresh_run [OF demo_can_refresh] by blast
  then show "demo_token\<lparr>rt_usedAt := Some 1000000\<rparr>
      \<in> set (w_refreshTokens (after (refresh demo_env ''u2.u3'') demo_after_login))"
    by (simp add: after_def burned_table_def demo_login_result updateBy_def updateRows_def use_row_def)
qed

lemma spent_token_refused_forever_witness:
  "\<exists>e. outcome (refresh demo_env ''u2.u3'') (after (refresh demo_env ''u2.u3'') demo_after_login) = Inl e"
  by (rule spent_token_refused_forever
      [OF demo_world_tokens demo_refreshed(1) demo_refreshed(2) _ _ auth_run.Start])
     (simp_all add: live_def demo_token_def)

subsection \<open>Reuse\<close>

lemma reuse_run:
  assumes "lookupBy rt_tokenHash (e_sha256 E raw) (w_refreshTokens w) = Some r"
    and "rt_usedAt r \<noteq> None" and "rt_revokedAt r = None"
    and "lookupBy s_id (rt_sessionId r) (w_sessions w) = Some s"
  shows "refresh E raw w =
    (Inl (Auth TokenReuseDetectedException),
     w\<lparr>w_refreshTokens :=
         updateRows (\<lambda>q. rt_familyId q = rt_familyId r \<and> rt_revokedAt q = None)
           (revoke_row (w_now w) ''reuse_detected'') (w_refreshTokens w),
       w_sessions := updateBy s_id (rt_sessionId r)
         (end_row (w_now w) SessionEndReason.TOKEN_REUSE_DETECTED) (w_sessions w)\<rparr>)"
  using assms
  by (auto simp: refresh_def await_run check_refresh_run reuse_detected_def revokeFamily_def
      updateMany_run sessions_end_def update_run)

text \<open>C3: presenting a refresh token a second time is answered with the reuse error, ends the
  session of the token with that reason, and no token of the same family that exists at that
  moment, the newest included, is accepted in any later state, while requests are served one after
  another.\<close>

theorem reuse_cuts_off_family:
  assumes "w_refreshTokens w0 = []" and "auth_run E w0 w"
    and "lookupBy rt_tokenHash (e_sha256 E raw) (w_refreshTokens w) = Some r"
    and "rt_usedAt r \<noteq> None" and "rt_revokedAt r = None"
    and "lookupBy s_id (rt_sessionId r) (w_sessions w) = Some s"
    and "q \<in> set (w_refreshTokens w)" and "rt_familyId q = rt_familyId r"
    and "rt_tokenHash q = e_sha256 E raw'" and "auth_run E (after (refresh E raw) w) w'"
  shows "outcome (refresh E raw) w = Inl (Auth TokenReuseDetectedException) \<and>
    map_option s_endReason (lookupBy s_id (rt_sessionId r) (w_sessions (after (refresh E raw) w))) =
      Some (Some SessionEndReason.TOKEN_REUSE_DETECTED) \<and>
    (\<exists>e. outcome (refresh E raw') w' = Inl e)"
proof (intro conjI)
  note run = reuse_run [OF assms(3-6)]
  show "outcome (refresh E raw) w = Inl (Auth TokenReuseDetectedException)"
    by (simp add: outcome_def run)
  show "map_option s_endReason (lookupBy s_id (rt_sessionId r) (w_sessions (after (refresh E raw) w))) =
      Some (Some SessionEndReason.TOKEN_REUSE_DETECTED)"
    using assms(6) by (simp add: after_def run lookupBy_updateBy end_row_def)
  have "families_kept (after (refresh E raw) w)"
    using families_kept_run [OF assms(1,2)] families.after_effect [OF families.refresh_effect]
    by (simp add: keeps_def)
  then have ok: "families_kept w'" by (rule families_kept_later [OF _ assms(10)])
  let ?q = "if rt_familyId q = rt_familyId r \<and> rt_revokedAt q = None
    then revoke_row (w_now w) ''reuse_detected'' q else q"
  have "e_sha256 E raw' \<in> spent_hashes (after (refresh E raw) w)"
  proof (rule spent_hashesI [of ?q])
    show "?q \<in> set (w_refreshTokens (after (refresh E raw) w))"
      using assms(7) by (auto simp: after_def run set_updateRows)
  qed (use assms(8,9) in \<open>auto simp: live_def revoke_row_def\<close>)
  then have "e_sha256 E raw' \<in> spent_hashes w'" by (rule spent_forever [OF _ assms(10)])
  then show "\<exists>e. outcome (refresh E raw') w' = Inl e" by (rule spent_refused [OF ok])
qed

lemma demo_refreshed_state:
  "after (refresh demo_env ''u2.u3'') demo_after_login =
     demo_after_login\<lparr>w_rnd := 9,
       w_refreshTokens := [demo_token\<lparr>rt_usedAt := Some 1000000\<rparr>,
         next_token demo_env demo_after_login demo_token],
       w_sessions := [demo_session]\<rparr>"
  using refresh_run [OF demo_can_refresh]
  by (simp add: after_def burned_table_def demo_login_result updateBy_def updateRows_def use_row_def
      insertRow_def demo_token_def demo_session_def)

lemma reuse_cuts_off_family_witness:
  "\<exists>e. outcome (refresh demo_env ''u6.u7'')
     (after (refresh demo_env ''u2.u3'') (after (refresh demo_env ''u2.u3'') demo_after_login)) = Inl e"
proof -
  let ?w = "after (refresh demo_env ''u2.u3'') demo_after_login"
  let ?q = "next_token demo_env demo_after_login demo_token"
  have "lookupBy rt_tokenHash (e_sha256 demo_env ''u2.u3'') (w_refreshTokens ?w) =
      Some (demo_token\<lparr>rt_usedAt := Some 1000000\<rparr>)"
    by (simp add: demo_refreshed_state demo_token_def)
  moreover have "lookupBy s_id (rt_sessionId (demo_token\<lparr>rt_usedAt := Some 1000000\<rparr>))
      (w_sessions ?w) = Some demo_session"
    by (simp add: demo_refreshed_state demo_token_def demo_session_def)
  moreover have "?q \<in> set (w_refreshTokens ?w)" by (simp add: demo_refreshed_state)
  moreover have "rt_tokenHash ?q = e_sha256 demo_env ''u6.u7''"
    by (simp add: next_token_def demo_login_result login_raw_def strip_dashes_def)
  ultimately show ?thesis
    using reuse_cuts_off_family [OF demo_world_tokens demo_refreshed(1), of "''u2.u3''"
        "demo_token\<lparr>rt_usedAt := Some 1000000\<rparr>" demo_session ?q "''u6.u7''"]
    by (simp add: demo_token_def next_token_def auth_run.Start)
qed

subsection \<open>Logout\<close>

text \<open>
  What a logout leaves, whether it returns or fails at a session that is not there: the identifier of
  the access token is on the revocation list, and the token of the cookie is revoked.
\<close>

lemma sessions_end_frame:
  "w_now (after (sessions_end sid reason) w) = w_now w \<and> w_redis (after (sessions_end sid reason) w) = w_redis w \<and>
   w_refreshTokens (after (sessions_end sid reason) w) = w_refreshTokens w"
  by (simp add: after_def sessions_end_def await_run update_run split: option.split)

lemma logout_run:
  "\<exists>v. after (logoutCurrent E sid jti cookie) w = after (sessions_end sid SessionEndReason.LOGOUT) v \<and>
    w_now v = w_now w \<and>
    w_redis v = kv_set (REVOKED_JTI @ jti) (Text ''1'') (Some (w_now w + max 1 (e_accessTtl E) * 1000)) (w_redis w) \<and>
    w_refreshTokens v =
      (case if truthy cookie then lookupBy rt_tokenHash (e_sha256 E (the cookie)) (w_refreshTokens w) else None of
         Some r \<Rightarrow> if rt_revokedAt r = None
           then updateBy rt_id (rt_id r) (revoke_row (w_now w) ''logout'') (w_refreshTokens w) else w_refreshTokens w
       | None \<Rightarrow> w_refreshTokens w)"
proof -
  have found: "\<exists>q. lookupBy rt_id (rt_id r) (w_refreshTokens w) = Some q"
    if "lookupBy rt_tokenHash h (w_refreshTokens w) = Some r" for h r
    using lookupBy_in [OF that] by (cases "lookupBy rt_id (rt_id r) (w_refreshTokens w)") (auto simp: lookupBy_None_iff)
  let ?w1 = "w\<lparr>w_redis := kv_set (REVOKED_JTI @ jti) (Text ''1'')
    (Some (w_now w + max 1 (e_accessTtl E) * 1000)) (w_redis w)\<rparr>"
  show ?thesis
  proof (cases "if truthy cookie then lookupBy rt_tokenHash (e_sha256 E (the cookie)) (w_refreshTokens w) else None")
    case None
    then show ?thesis
      by (intro exI [of _ ?w1])
         (auto simp: logoutCurrent_def revoke_def after_def await_run findByHash_def findUnique_run
            hashRefreshToken_def split: if_splits)
  next
    case (Some r)
    then have row: "truthy cookie" "lookupBy rt_tokenHash (e_sha256 E (the cookie)) (w_refreshTokens w) = Some r"
      by (auto split: if_splits)
    from found [OF row(2)] obtain q where q: "lookupBy rt_id (rt_id r) (w_refreshTokens w) = Some q" by blast
    show ?thesis
    proof (cases "rt_revokedAt r = None")
      case True
      show ?thesis
        using row q True
        by (intro exI [of _ "w_refreshTokens_update (updateBy rt_id (rt_id r) (revoke_row (w_now w) ''logout'')) ?w1"])
           (simp add: logoutCurrent_def revoke_def after_def await_run findByHash_def findUnique_run
              hashRefreshToken_def refreshTokens_revoke_def update_run revoke_row_def [abs_def])
    next
      case False
      then show ?thesis
        using row
        by (intro exI [of _ ?w1])
           (auto simp: logoutCurrent_def revoke_def after_def await_run findByHash_def findUnique_run
              hashRefreshToken_def)
    qed
  qed
qed

lemma logout_leaves:
  "revoked_until E jti (w_now w + max 1 (e_accessTtl E) * 1000) (after (logoutCurrent E sid jti cookie) w)"
  "cookie = Some raw \<Longrightarrow> raw \<noteq> [] \<Longrightarrow>
     lookupBy rt_tokenHash (e_sha256 E raw) (w_refreshTokens w) = Some r \<Longrightarrow>
     e_sha256 E raw \<in> spent_hashes (after (logoutCurrent E sid jti cookie) w)"
proof -
  obtain v where v: "after (logoutCurrent E sid jti cookie) w = after (sessions_end sid SessionEndReason.LOGOUT) v"
    "w_now v = w_now w"
    "w_redis v = kv_set (REVOKED_JTI @ jti) (Text ''1'') (Some (w_now w + max 1 (e_accessTtl E) * 1000)) (w_redis w)"
    "w_refreshTokens v =
      (case if truthy cookie then lookupBy rt_tokenHash (e_sha256 E (the cookie)) (w_refreshTokens w) else None of
         Some r \<Rightarrow> if rt_revokedAt r = None
           then updateBy rt_id (rt_id r) (revoke_row (w_now w) ''logout'') (w_refreshTokens w) else w_refreshTokens w
       | None \<Rightarrow> w_refreshTokens w)"
    using logout_run [of E sid jti cookie w] by blast
  note frame = sessions_end_frame [of sid SessionEndReason.LOGOUT v]
  show "revoked_until E jti (w_now w + max 1 (e_accessTtl E) * 1000) (after (logoutCurrent E sid jti cookie) w)"
    using frame by (simp add: v(1-3) revoked_until_def kv_set_def)
  assume "cookie = Some raw" "raw \<noteq> []"
    and row: "lookupBy rt_tokenHash (e_sha256 E raw) (w_refreshTokens w) = Some r"
  with v(4) have tokens: "w_refreshTokens v = (if rt_revokedAt r = None
      then updateBy rt_id (rt_id r) (revoke_row (w_now w) ''logout'') (w_refreshTokens w) else w_refreshTokens w)"
    by (simp add: truthy_def)
  have r: "r \<in> set (w_refreshTokens w)" "rt_tokenHash r = e_sha256 E raw" using lookupBy_in [OF row] by simp_all
  let ?q = "if rt_revokedAt r = None then revoke_row (w_now w) ''logout'' r else r"
  have "?q \<in> set (w_refreshTokens v)" using r(1) by (auto simp: tokens updateBy_def set_updateRows)
  then show "e_sha256 E raw \<in> spent_hashes (after (logoutCurrent E sid jti cookie) w)"
    using frame r(2) unfolding v(1) by (intro spent_hashesI [of ?q]) (auto simp: live_def revoke_row_def)
qed

text \<open>C13: a logout is final for the tokens of the request. Whatever other requests are served after it
  and however much time passes, the access token is refused by the authentication guard, until the
  end of its lifetime because its identifier is on the revocation list, and then because it has
  expired; and the refresh token of the cookie, when there is one, is refused as well.\<close>

theorem logout_revokes_access_token:
  assumes "w_refreshTokens w0 = []" and "auth_run E w0 w"
    and "auth_run E (after (logoutCurrent E sid jti cookie) w) w'"
    and "\<And>token c. extractBearerToken (Some h) = Some token \<Longrightarrow> e_jwtVerify E token (w_now w') = Verified c \<Longrightarrow>
      c_jti c = jti \<and> w_now w' < c_exp c * 1000 \<and> c_exp c * 1000 \<le> w_now w + e_accessTtl E * 1000"
  shows "(\<exists>e. outcome (jwtAuthGuard E False (Some h)) w' = Inl e) \<and>
    (\<forall>raw r. cookie = Some raw \<and> raw \<noteq> [] \<and>
       lookupBy rt_tokenHash (e_sha256 E raw) (w_refreshTokens w) = Some r \<longrightarrow>
       (\<exists>e. outcome (refresh E raw) w' = Inl e))"
proof (intro conjI allI impI)
  let ?until = "w_now w + max 1 (e_accessTtl E) * 1000"
  have "revocations_kept E (after (logoutCurrent E sid jti cookie) w) w'"
    using links.run_effect [OF assms(3)] by (simp add: links_kept_def)
  then have listed: "revoked_until E jti ?until w'" using logout_leaves(1) by (simp add: revocations_kept_def)
  show "\<exists>e. outcome (jwtAuthGuard E False (Some h)) w' = Inl e"
  proof (cases "extractBearerToken (Some h)")
    case None
    then show ?thesis by (simp add: jwtAuthGuard_def outcome_def)
  next
    case (Some token)
    show ?thesis
    proof (cases "e_jwtVerify E token (w_now w')")
      case (Verified c)
      with assms(4) [OF Some] have c: "c_jti c = jti" and "w_now w' < ?until" by fastforce+
      then have "kv_get (w_now w') (w_redis w') (REVOKED_JTI @ c_jti c) \<noteq> None"
        using listed unfolding c by (auto simp: revoked_until_def kv_get_def)
      with Some Verified show ?thesis
        by (simp add: jwtAuthGuard_def outcome_def await_run jwt_verify_run isRevoked_def throwIf_run)
    qed (use Some in \<open>simp_all add: jwtAuthGuard_def outcome_def await_run jwt_verify_run\<close>)
  qed
  fix raw r
  assume "cookie = Some raw \<and> raw \<noteq> [] \<and> lookupBy rt_tokenHash (e_sha256 E raw) (w_refreshTokens w) = Some r"
  then have spent: "e_sha256 E raw \<in> spent_hashes w'"
    using spent_forever [OF logout_leaves(2) assms(3)] by blast
  have "auth_step E w (after (logoutCurrent E sid jti cookie) w)"
    using auth_step.Request [of E w "Logout_request sid jti cookie"] by simp
  from families_kept_later [OF families_kept_run [OF assms(1) auth_run.Step [OF assms(2) this]] assms(3)]
  show "\<exists>e. outcome (refresh E raw) w' = Inl e" using spent by (rule spent_refused)
qed

text \<open>After the logout another login is served, and half of the lifetime passes.\<close>

definition demo_later :: world where
  "demo_later = (serve demo_env (Login_request demo_login)
     (after (logoutCurrent demo_env ''u0'' ''u1'' (Some ''u2.u3'')) demo_after_login))\<lparr>w_now := 1500000\<rparr>"

lemma logout_revokes_access_token_witness:
  "(\<exists>u. outcome (jwtAuthGuard demo_env False (Some ''Bearer ju1''))
      (demo_after_login\<lparr>w_now := 1500000\<rparr>) = Inr (Some u)) \<and>
   (\<exists>e. outcome (jwtAuthGuard demo_env False (Some ''Bearer ju1'')) demo_later = Inl e) \<and>
   (\<exists>e. outcome (refresh demo_env ''u2.u3'') demo_later = Inl e)"
proof (rule conjI)
  have "w_redis demo_after_login k = None" for k
    by (simp add: demo_after after_login_def demo_world_def empty_world_def kv_del_def)
  then show "\<exists>u. outcome (jwtAuthGuard demo_env False (Some ''Bearer ju1''))
      (demo_after_login\<lparr>w_now := 1500000\<rparr>) = Inr (Some u)"
    by (simp add: jwtAuthGuard_def outcome_def await_run
        jwt_verify_run isRevoked_def throwIf_run demo_verify_def kv_get_def lift_result_def
        toAuthenticatedUser_def demo_claims_def claims_of_def tenant_payload_def)
  let ?out = "after (logoutCurrent demo_env ''u0'' ''u1'' (Some ''u2.u3'')) demo_after_login"
  let ?in = "serve demo_env (Login_request demo_login) ?out"
  have now: "w_now ?in \<le> 1500000" by code_simp
  have "auth_run demo_env ?out ?in" by (rule auth_run.Step [OF auth_run.Start auth_step.Request])
  then have run: "auth_run demo_env ?out demo_later"
    unfolding demo_later_def using now by (rule auth_run.Step [OF _ auth_step.Tick])
  have token: "lookupBy rt_tokenHash (e_sha256 demo_env ''u2.u3'') (w_refreshTokens demo_after_login) = Some demo_token"
    by (simp add: demo_login_result demo_token_def)
  have claims: "c_jti c = ''u1'' \<and> w_now demo_later < c_exp c * 1000 \<and>
      c_exp c * 1000 \<le> w_now demo_after_login + e_accessTtl demo_env * 1000"
    if "extractBearerToken (Some ''Bearer ju1'') = Some tok" "e_jwtVerify demo_env tok (w_now demo_later) = Verified c"
    for tok c
    using that
    by (auto simp: demo_login_result demo_later_def BEARER_PREFIX_def demo_verify_def demo_claims_def claims_of_def)
  have "(\<exists>e. outcome (jwtAuthGuard demo_env False (Some ''Bearer ju1'')) demo_later = Inl e) \<and>
      (\<forall>raw r. Some ''u2.u3'' = Some raw \<and> raw \<noteq> [] \<and>
         lookupBy rt_tokenHash (e_sha256 demo_env raw) (w_refreshTokens demo_after_login) = Some r \<longrightarrow>
         (\<exists>e. outcome (refresh demo_env raw) demo_later = Inl e))"
    by (rule logout_revokes_access_token [OF demo_world_tokens demo_run run]) (rule claims; assumption)
  with token show "(\<exists>e. outcome (jwtAuthGuard demo_env False (Some ''Bearer ju1'')) demo_later = Inl e) \<and>
      (\<exists>e. outcome (refresh demo_env ''u2.u3'') demo_later = Inl e)"
    by blast
qed

end
