(* ===== verification/Refresh_Race.thy ===== *)
theory Refresh_Race
  imports Refresh_Properties
begin

text \<open>
  Two refreshes with the same token that overlap. A handler of \<^verbatim>\<open>refresh.service.ts\<close> gives up control at
  every \<^verbatim>\<open>await\<close>; here it is cut where that matters: the lookup with its checks, the update that
  marks the token as used, and the rest. \<open>race_step\<close> lets either of the two requests take its next
  part. The states of the one-request-at-a-time system never show two live tokens of a family; this
  system reaches such a state.
\<close>

datatype progress =
    Waiting
  | Checked refresh_token
  | Marked refresh_token
  | Answered "bos_error + RefreshResult"

text \<open>One part of a refresh: the three statements of \<open>refresh\<close>, one after the other.\<close>

definition refresh_part :: "env \<Rightarrow> string \<Rightarrow> progress \<Rightarrow> world \<Rightarrow> progress \<times> world" where
  "refresh_part E raw p w =
     (case p of
        Waiting \<Rightarrow>
          (case check_refresh E raw w of (Inl e, w') \<Rightarrow> (Answered (Inl e), w') | (Inr r, w') \<Rightarrow> (Checked r, w'))
      | Checked r \<Rightarrow>
          (case markUsed (rt_id r) w of (Inl e, w') \<Rightarrow> (Answered (Inl e), w') | (Inr _, w') \<Rightarrow> (Marked r, w'))
      | Marked r \<Rightarrow> (case issue_refresh E r w of (x, w') \<Rightarrow> (Answered x, w'))
      | Answered x \<Rightarrow> (Answered x, w))"

text \<open>A request that is never interrupted is \<open>refresh\<close>.\<close>

lemma refresh_parts:
  "(case refresh_part E raw Waiting w of (p, w1) \<Rightarrow>
      case refresh_part E raw p w1 of (q, w2) \<Rightarrow> refresh_part E raw q w2) =
   (case refresh E raw w of (x, w') \<Rightarrow> (Answered x, w'))"
proof -
  obtain c w1 where check: "check_refresh E raw w = (c, w1)" by fastforce
  show ?thesis
  proof (cases c)
    case (Inl e)
    with check show ?thesis by (simp add: refresh_part_def refresh_def await_run)
  next
    case (Inr r)
    obtain m w2 where "markUsed (rt_id r) w1 = (m, w2)" by fastforce
    with check Inr show ?thesis
      by (cases m) (simp_all add: refresh_part_def refresh_def await_run split: prod.split)
  qed
qed

inductive race_step ::
    "env \<Rightarrow> string \<Rightarrow> progress \<times> progress \<times> world \<Rightarrow> progress \<times> progress \<times> world \<Rightarrow> bool"
  for E raw where
  First: "refresh_part E raw p w = (p', w') \<Longrightarrow> race_step E raw (p, q, w) (p', q, w')"
| Second: "refresh_part E raw q w = (q', w') \<Longrightarrow> race_step E raw (p, q, w) (p, q', w')"

inductive_simps race_step_simps: "race_step E raw (p, q, w) (p', q', w')"

definition races :: "env \<Rightarrow> string \<Rightarrow> progress \<times> progress \<times> world \<Rightarrow> progress \<times> progress \<times> world \<Rightarrow> bool" where
  "races E raw = (race_step E raw)\<^sup>*\<^sup>*"

text \<open>The last part on its own.\<close>

lemma issue_run:
  assumes "lookupBy s_id (rt_sessionId r) (w_sessions w) = Some s" and "s_endedAt s = None"
    and "existsRow (\<lambda>u. u_id u = rt_userId r) (w_users w)"
    and "\<not> existsRow (refresh_clash (next_token E w r)) (w_refreshTokens w)"
  shows "\<exists>x. issue_refresh E r w =
    (Inr x, w\<lparr>w_rnd := w_rnd w + 4,
       w_refreshTokens := insertRow (next_token E w r) (w_refreshTokens w),
       w_sessions := updateBy s_id (rt_sessionId r) (\<lambda>s. s\<lparr>s_lastActiveAt := w_now w\<rparr>) (w_sessions w)\<rparr>)"
proof -
  have "existsRow (\<lambda>x. s_id x = rt_sessionId r) (w_sessions w)"
    using assms(1) by (rule lookup_existsRow)
  with assms show ?thesis
    by (simp add: issue_refresh_def await_run sessions_findById_def findUnique_run throwIf_run
        issueAccessToken_run generateRefreshToken_run refreshTokens_create_def create_run
        refresh_refs_def touch_def update_run next_token_def refresh_row_def login_raw_def
        tenant_payload_def Let_def numeral_eq_Suc)
qed

text \<open>C14: two overlapping refreshes with the same token can both succeed, and then its family has two
  tokens that are neither used nor revoked: the check and the marking are two statements.\<close>

theorem overlapping_refreshes_both_succeed:
  assumes "can_refresh E w raw r s"
    and "\<not> existsRow (refresh_clash (next_token E (w\<lparr>w_rnd := w_rnd w + 4\<rparr>) r))
      (insertRow (next_token E w r) (burned_table w r))"
  shows "\<exists>x y w'. races E raw (Waiting, Waiting, w) (Answered (Inr x), Answered (Inr y), w') \<and>
    (\<exists>p q. p \<in> set (w_refreshTokens w') \<and> q \<in> set (w_refreshTokens w') \<and> p \<noteq> q \<and>
      live p \<and> live q \<and> rt_familyId p = rt_familyId r \<and> rt_familyId q = rt_familyId r)"
proof -
  let ?p = "next_token E w r"
  let ?q = "next_token E (w\<lparr>w_rnd := w_rnd w + 4\<rparr>) r"
  let ?touch = "updateBy s_id (rt_sessionId r) (\<lambda>s. s\<lparr>s_lastActiveAt := w_now w\<rparr>)"
  let ?b = "w\<lparr>w_refreshTokens := burned_table w r\<rparr>"
  let ?w1 = "w\<lparr>w_rnd := w_rnd w + 4, w_refreshTokens := insertRow ?p (burned_table w r),
    w_sessions := ?touch (w_sessions w)\<rparr>"
  let ?w2 = "w\<lparr>w_rnd := w_rnd w + 8, w_refreshTokens := insertRow ?q (insertRow ?p (burned_table w r)),
    w_sessions := ?touch (?touch (w_sessions w))\<rparr>"
  have r: "r \<in> set (w_refreshTokens w)" using assms(1) by (auto simp: can_refresh_def dest: lookupBy_in)
  then have rb: "\<exists>q. q \<in> set (burned_table w r) \<and> rt_id q = rt_id r"
    by (auto simp: burned_table_def updateBy_def set_updateRows use_row_def)
  have check: "check_refresh E raw w = (Inr r, w)"
    using assms(1) by (simp add: can_refresh_def check_refresh_run live_def)
  have mark: "markUsed (rt_id r) w = (Inr (), ?b)"
    by (simp add: markUsed_run [OF r] burned_table_def)
  have again: "markUsed (rt_id r) ?b = (Inr (), ?b)"
  proof -
    have "updateBy rt_id (rt_id r) (use_row (w_now w)) (burned_table w r) = burned_table w r"
      by (simp add: burned_table_def updateBy_def updateRows_def use_row_def)
    moreover obtain q where "lookupBy rt_id (rt_id r) (burned_table w r) = Some q"
      using rb by (cases "lookupBy rt_id (rt_id r) (burned_table w r)") (auto simp: lookupBy_None_iff)
    ultimately show ?thesis
      by (simp add: markUsed_def await_run update_run use_row_def [abs_def])
  qed
  obtain x where x: "issue_refresh E r ?b = (Inr x, ?w1)"
    using issue_run [where w = ?b and r = r and E = E and s = s] assms(1)
    by (auto simp: can_refresh_def next_token_def)
  have "lookupBy s_id (rt_sessionId r) (w_sessions ?w1) = Some (s\<lparr>s_lastActiveAt := w_now w\<rparr>)"
    using assms(1) by (simp add: can_refresh_def lookupBy_updateBy)
  then obtain y where y: "issue_refresh E r ?w1 = (Inr y, ?w2)"
    using issue_run [where w = ?w1 and r = r and E = E] assms
    by (fastforce simp: can_refresh_def next_token_def)
  have "races E raw (Waiting, Waiting, w) (Answered (Inr x), Answered (Inr y), ?w2)"
  proof -
    have "race_step E raw (Waiting, Waiting, w) (Checked r, Waiting, w)"
      "race_step E raw (Checked r, Waiting, w) (Checked r, Checked r, w)"
      "race_step E raw (Checked r, Checked r, w) (Marked r, Checked r, ?b)"
      "race_step E raw (Marked r, Checked r, ?b) (Marked r, Marked r, ?b)"
      "race_step E raw (Marked r, Marked r, ?b) (Answered (Inr x), Marked r, ?w1)"
      "race_step E raw (Answered (Inr x), Marked r, ?w1) (Answered (Inr x), Answered (Inr y), ?w2)"
      by (simp_all add: race_step_simps refresh_part_def check mark again x y)
    then show ?thesis unfolding races_def by (meson converse_rtranclp_into_rtranclp rtranclp.rtrancl_refl)
  qed
  moreover have "?p \<noteq> ?q"
    using assms(2) by (auto simp: existsRow_iff refresh_clash_def)
  moreover have "live ?p" "live ?q" "rt_familyId ?p = rt_familyId r" "rt_familyId ?q = rt_familyId r"
    by (simp_all add: live_def next_token_def)
  moreover have "?p \<in> set (w_refreshTokens ?w2)" "?q \<in> set (w_refreshTokens ?w2)" by simp_all
  ultimately show ?thesis by blast
qed

lemma overlapping_refreshes_both_succeed_witness:
  "\<exists>x y w'. races demo_env ''u2.u3'' (Waiting, Waiting, demo_after_login)
     (Answered (Inr x), Answered (Inr y), w')"
proof -
  have "\<not> existsRow (refresh_clash (next_token demo_env (demo_after_login\<lparr>w_rnd := w_rnd demo_after_login + 4\<rparr>) demo_token))
      (insertRow (next_token demo_env demo_after_login demo_token) (burned_table demo_after_login demo_token))"
  proof -
    have "nat_text 10 = ''10''" "nat_text 11 = ''11''" "nat_text 12 = ''12''" by code_simp+
    then show ?thesis
      by (simp add: demo_login_result demo_token_def existsRow_def burned_table_def next_token_def
          updateBy_def updateRows_def use_row_def refresh_clash_def login_raw_def strip_dashes_def insertRow_def)
  qed
  from overlapping_refreshes_both_succeed [OF demo_can_refresh this] show ?thesis by blast
qed

end
