(* ===== verification/Login_Properties.thy ===== *)
theory Login_Properties
  imports Example
begin

text \<open>
  Properties of login: what a success needs and what it writes, that the answer does not tell an
  unknown address from a wrong password, and the lockout after repeated failures.
\<close>

subsection \<open>Success\<close>

text \<open>The requests that a login with these checks answers with an error, and why.\<close>

lemma login_needs:
  assumes "login E ctx w = (Inr r, w')"
  obtains u m where "login_user ctx w = Some u" "u_status u = UserStatus.ACTIVE"
    "\<not> lockout_reached E (failures w u)" "password_ok E u (lc_password ctx)"
    "findRow (active_membership (u_id u)) (w_tenantMemberships w) = Some m"
proof -
  obtain u where u: "login_user ctx w = Some u"
    using assms login_unknown [of ctx w E] by (cases "login_user ctx w") auto
  have active: "u_status u = UserStatus.ACTIVE"
  proof (rule ccontr)
    assume "u_status u \<noteq> UserStatus.ACTIVE"
    with status_refused obtain e where "assertUserCanLogIn u w = (Inl e, w)" by blast
    with login_not_active [OF u] assms show False by auto
  qed
  have lock: "\<not> lockout_reached E (failures w u)"
  proof
    assume "lockout_reached E (failures w u)"
    with u active login_user_known [OF u] assms show False
      by (auto simp: login_def login_user_def findByEmail_run await_run assertUserCanLogIn_def
          check_lockout_def failures_def lock_run)
  qed
  note run = login_active [OF u active lock]
  have pw: "password_ok E u (lc_password ctx)"
    using assms
    by (auto simp: run password_failed_def await_run split: if_splits sum.splits prod.splits)
  with assms obtain m where "findRow (active_membership (u_id u)) (w_tenantMemberships w) = Some m"
    by (cases "findRow (active_membership (u_id u)) (w_tenantMemberships w)")
       (auto simp: run await_run findFirst_run)
  with u active lock pw show ?thesis by (rule that)
qed

text \<open>C6: a login that succeeds names a stored account by its normalized e-mail address; that
  account is active, is below the failure limit, has a password that the hasher accepts for the
  one presented, and has an active membership.\<close>

theorem login_success_sound:
  assumes "login E ctx w = (Inr r, w')"
  shows "\<exists>u m. u \<in> set (w_users w) \<and> email_key u = normalizeEmail (lc_email ctx) \<and>
    u_status u = UserStatus.ACTIVE \<and> \<not> lockout_reached E (failures w u) \<and>
    (\<exists>h. u_passwordHash u = Some h \<and> h \<noteq> [] \<and> e_argonVerify E h (lc_password ctx) = Some True) \<and>
    m \<in> set (w_tenantMemberships w) \<and> active_membership (u_id u) m"
proof -
  from assms obtain u m where *: "login_user ctx w = Some u" "u_status u = UserStatus.ACTIVE"
    "\<not> lockout_reached E (failures w u)" "password_ok E u (lc_password ctx)"
    "findRow (active_membership (u_id u)) (w_tenantMemberships w) = Some m"
    by (rule login_needs)
  from *(4) obtain h where "u_passwordHash u = Some h" "h \<noteq> []"
      "e_argonVerify E h (lc_password ctx) = Some True"
    by (auto simp: password_ok_def truthy_def hasher_verify_def split: if_splits option.splits)
  moreover have "u \<in> set (w_users w)" "email_key u = normalizeEmail (lc_email ctx)"
    using lookupBy_in [OF *(1) [unfolded login_user_def]] by simp_all
  ultimately show ?thesis using *(2,3) findRow_Some [OF *(5)] by blast
qed

lemma login_success_sound_witness:
  "\<exists>u m. u \<in> set (w_users demo_world) \<and> email_key u = normalizeEmail (lc_email demo_login) \<and>
    u_status u = UserStatus.ACTIVE \<and> \<not> lockout_reached demo_env (failures demo_world u) \<and>
    (\<exists>h. u_passwordHash u = Some h \<and> h \<noteq> [] \<and>
       e_argonVerify demo_env h (lc_password demo_login) = Some True) \<and>
    m \<in> set (w_tenantMemberships demo_world) \<and> active_membership (u_id u) m"
proof -
  have "\<not> u_twoFactorEnabled demo_user" by (simp add: demo_user_def)
  from login_success_sound [OF login_run [OF demo_can_login demo_fresh this]] show ?thesis .
qed

text \<open>A login with a known active account, the right password, an active membership and no
  second factor succeeds; it clears the failure counter, opens one session for the membership's
  tenant, stores the first token of a new family, stamps the user's last login, and writes nothing
  else.\<close>

theorem login_succeeds:
  assumes "can_login E ctx w u m" and "fresh_draws E w u" and "\<not> u_twoFactorEnabled u"
  shows "outcome (login E ctx) w = Inr (LoginSuccess (login_result E w u (tm_tenantId m))) \<and>
    after (login E ctx) w =
      w\<lparr>w_redis := kv_del (LOCKOUT @ u_id u) (w_redis w),
        w_rnd := w_rnd w + 5,
        w_sessions := insertRow (login_session E ctx w u (tm_tenantId m)) (w_sessions w),
        w_refreshTokens := insertRow (login_token E w u) (w_refreshTokens w),
        w_users := updateBy u_id (u_id u)
          (\<lambda>x. x\<lparr>u_lastLoginAt := Some (w_now w), u_lastLoginIp := lc_ipAddress ctx\<rparr>) (w_users w)\<rparr>"
  using login_run [OF assms] by (simp add: outcome_def after_def after_login_def)

lemma login_succeeds_witness:
  "length (w_sessions (after (login demo_env demo_login) demo_world)) = 1"
proof -
  have "\<not> u_twoFactorEnabled demo_user" by (simp add: demo_user_def)
  from conjunct2 [OF login_succeeds [OF demo_can_login demo_fresh this]] show ?thesis
    by (simp add: insertRow_def demo_world_def empty_world_def)
qed

subsection \<open>Failure\<close>

lemma failed_run:
  assumes "login_user ctx w = Some u" and "u_status u = UserStatus.ACTIVE"
    and "\<not> lockout_reached E (failures w u)" and "\<not> password_ok E u (lc_password ctx)"
  shows "login E ctx w = password_failed E u w"
  using login_active [OF assms(1-3)] assms(4) by simp

text \<open>\<open>failed_before\<close>: the counter of an account stands at \<open>c\<close> and is kept until \<open>x\<close>; with no
  failure recorded, the next one starts a new window.\<close>

definition failed_before :: "env \<Rightarrow> world \<Rightarrow> user \<Rightarrow> nat \<Rightarrow> int \<Rightarrow> bool" where
  "failed_before E w u c x \<longleftrightarrow>
     (if c = 0 then failures w u = None \<and> x = w_now w + e_lockoutSeconds E * 1000
      else w_redis w (LOCKOUT @ u_id u) = Some (Counter c, Some x) \<and> w_now w < x)"

definition locked_row :: "int \<Rightarrow> user \<Rightarrow> user" where
  "locked_row until u = u\<lparr>u_status := UserStatus.LOCKED, u_lockedUntil := Some until\<rparr>"

lemma failures_before: "failed_before E w u c x \<Longrightarrow> failures w u = (if c = 0 then None else Some (Counter c))"
  by (auto simp: failed_before_def failures_def kv_get_def split: if_splits)

lemma password_failed_run:
  assumes before: "failed_before E w u c x" and u: "lookupBy u_id (u_id u) (w_users w) = Some u'"
  shows "password_failed E u w =
    (Inl (Auth InvalidCredentialsException),
     w\<lparr>w_redis := kv_set (LOCKOUT @ u_id u) (Counter (Suc c)) (Some x) (w_redis w),
       w_users := (if e_maxAttempts E \<le> Suc c
         then updateBy u_id (u_id u) (locked_row (w_now w + e_lockoutSeconds E * 1000)) (w_users w)
         else w_users w)\<rparr>)"
proof -
  have lock: "lock (u_id u) until v =
      (Inr (), w_users_update (updateBy u_id (u_id u) (locked_row until)) v)"
    if "w_users v = w_users w" for v until
    using u that by (simp add: lock_run locked_row_def [abs_def])
  show ?thesis
  proof (cases "c = 0")
    case True
    with before show ?thesis
      by (simp add: failed_before_def failures_def password_failed_def await_run redis_incr_def lock
          kv_set_def kv_expire_def)
  next
    case False
    with before have "kv_get (w_now w) (w_redis w) (LOCKOUT @ u_id u) = Some (Counter c)"
      by (simp add: failed_before_def kv_get_def)
    with False before show ?thesis
      by (simp add: failed_before_def password_failed_def await_run redis_incr_def lock)
  qed
qed

text \<open>A login with an unknown e-mail address and one with a wrong password for an active account
  get the same error, and neither opens a session nor stores a token.\<close>

theorem login_hides_accounts:
  assumes "login_user ctx w = None"
    and "login_user ctx' w = Some u" and "u_status u = UserStatus.ACTIVE"
    and "failed_before E w u c x" and "c < e_maxAttempts E"
    and "\<not> password_ok E u (lc_password ctx')"
  shows "outcome (login E ctx) w = outcome (login E ctx') w \<and> after (login E ctx) w = w \<and>
    w_sessions (after (login E ctx') w) = w_sessions w \<and>
    w_refreshTokens (after (login E ctx') w) = w_refreshTokens w"
proof -
  obtain u' where u': "lookupBy u_id (u_id u) (w_users w) = Some u'"
    using login_user_known [OF assms(2)] by fastforce
  have "\<not> lockout_reached E (failures w u)"
    using assms(5) by (simp add: failures_before [OF assms(4)] lockout_reached_def)
  from failed_run [OF assms(2,3) this assms(6)] show ?thesis
    using login_unknown [OF assms(1)]
    by (simp add: outcome_def after_def password_failed_run [OF assms(4) u'])
qed

definition demo_wrong :: LoginRequestContext where
  "demo_wrong = demo_login\<lparr>lc_password := ''guess''\<rparr>"

lemma demo_wrong:
  "login_user demo_wrong demo_world = Some demo_user" "u_status demo_user = UserStatus.ACTIVE"
  "\<not> password_ok demo_env demo_user (lc_password demo_wrong)" "lc_email demo_wrong = lc_email demo_login"
  using demo_login_user
  by (simp_all add: demo_wrong_def login_user_def demo_user_def password_ok_def hasher_verify_def)

lemma login_hides_accounts_witness:
  "outcome (login demo_env (demo_login\<lparr>lc_email := ''nobody@example.com''\<rparr>)) demo_world =
     outcome (login demo_env demo_wrong) demo_world"
proof -
  have unknown: "login_user (demo_login\<lparr>lc_email := ''nobody@example.com''\<rparr>) demo_world = None"
    by code_simp
  have "failed_before demo_env demo_world demo_user 0 (w_now demo_world + 1800 * 1000)"
    by (simp add: failed_before_def failures_def demo_world_def empty_world_def kv_get_def)
  from conjunct1 [OF login_hides_accounts [OF unknown demo_wrong(1,2) this _ demo_wrong(3)]]
  show ?thesis by simp
qed

subsection \<open>Lockout\<close>

text \<open>A sequence of login requests, each with the instant at which it comes and its own content.\<close>

definition attempts :: "env \<Rightarrow> (int \<times> LoginRequestContext) list \<Rightarrow> world \<Rightarrow> world" where
  "attempts E rqs w = fold (\<lambda>(t, ctx) w. after (login E ctx) (w\<lparr>w_now := t\<rparr>)) rqs w"

lemma attempts_simps [simp]:
  "attempts E [] w = w"
  "attempts E ((t, ctx) # rqs) w = attempts E rqs (after (login E ctx) (w\<lparr>w_now := t\<rparr>))"
  by (simp_all add: attempts_def)

text \<open>A request that names the account \<open>u\<close> and does not have its password.\<close>

definition wrong_guess :: "env \<Rightarrow> world \<Rightarrow> user \<Rightarrow> LoginRequestContext \<Rightarrow> bool" where
  "wrong_guess E w u ctx \<longleftrightarrow> login_user ctx w = Some u \<and> \<not> password_ok E u (lc_password ctx)"

lemma attempt_step:
  assumes "login_user ctx w = Some u" and "u_status u = UserStatus.ACTIVE"
    and "\<not> password_ok E u (lc_password ctx)" and "failed_before E w u c x" and "c < e_maxAttempts E"
  shows "after (login E ctx) w =
    w\<lparr>w_redis := kv_set (LOCKOUT @ u_id u) (Counter (Suc c)) (Some x) (w_redis w),
      w_users := (if e_maxAttempts E \<le> Suc c
        then updateBy u_id (u_id u) (locked_row (w_now w + e_lockoutSeconds E * 1000)) (w_users w)
        else w_users w)\<rparr>"
proof -
  obtain u' where u': "lookupBy u_id (u_id u) (w_users w) = Some u'"
    using login_user_known [OF assms(1)] by fastforce
  have "\<not> lockout_reached E (failures w u)"
    using assms(5) by (simp add: failures_before [OF assms(4)] lockout_reached_def)
  from failed_run [OF assms(1,2) this assms(3)] show ?thesis
    by (simp add: after_def password_failed_run [OF assms(4) u'])
qed

lemma attempts_lock:
  assumes "\<And>t ctx. (t, ctx) \<in> set rqs \<Longrightarrow> t < x \<and> wrong_guess E w u ctx" and "rqs \<noteq> []"
    and "c + length rqs = e_maxAttempts E" and "u_status u = UserStatus.ACTIVE"
    and "failed_before E (w\<lparr>w_now := fst (hd rqs)\<rparr>) u c x"
  shows "w_users (attempts E rqs w) =
    updateBy u_id (u_id u) (locked_row (fst (last rqs) + e_lockoutSeconds E * 1000)) (w_users w)"
  using assms
proof (induction rqs arbitrary: c w)
  case (Cons rq rqs)
  obtain t ctx where rq: "rq = (t, ctx)" by fastforce
  let ?w = "w\<lparr>w_now := t\<rparr>"
  have guess: "login_user ctx ?w = Some u" "\<not> password_ok E u (lc_password ctx)"
    using Cons.prems(1) [of t ctx] by (simp_all add: rq wrong_guess_def login_user_def)
  have before: "failed_before E ?w u c x" using Cons.prems(5) by (simp add: rq)
  have "c < e_maxAttempts E" using Cons.prems(3) by simp
  note step = attempt_step [OF guess(1) Cons.prems(4) guess(2) before this]
  show ?case
  proof (cases "rqs = []")
    case True
    with step Cons.prems(3) show ?thesis by (simp add: rq)
  next
    case False
    then have more: "\<not> e_maxAttempts E \<le> Suc c" using Cons.prems(3) by (cases rqs) auto
    have next_time: "fst (hd rqs) < x"
      using Cons.prems(1) [of "fst (hd rqs)" "snd (hd rqs)"] False by simp
    have "failed_before E (after (login E ctx) ?w\<lparr>w_now := fst (hd rqs)\<rparr>) u (Suc c) x"
      using next_time by (simp add: step more failed_before_def kv_set_def)
    moreover have "t' < x \<and> wrong_guess E (after (login E ctx) ?w) u ctx'" if "(t', ctx') \<in> set rqs" for t' ctx'
      using Cons.prems(1) [of t' ctx'] that by (simp add: step more wrong_guess_def login_user_def)
    ultimately show ?thesis
      using Cons.IH [of "after (login E ctx) ?w" "Suc c"] Cons.prems(3,4) False
      by (simp add: rq step more)
  qed
qed simp

lemma lookup_locked:
  assumes "login_user ctx w = Some u" and "w_users w' = updateBy u_id (u_id u) (locked_row until) (w_users w)"
  shows "login_user ctx w' = Some (locked_row until u)"
proof -
  have "\<And>r. email_key (locked_row until r) = email_key r" by (simp add: email_key_def locked_row_def)
  with assms show ?thesis
    unfolding login_user_def updateBy_def by (simp add: lookupBy_updateRows)
qed

lemma locked_refused:
  assumes "login_user ctx w = Some u" and "u_status u = UserStatus.LOCKED"
  shows "login E ctx w = (Inl (Auth (AccountLockedException (u_lockedUntil u))), w)"
  using login_not_active [OF assms(1)] assms(2) by (simp add: assertUserCanLogIn_def)

text \<open>C5: the configured number of failed logins for one account, whatever wrong passwords they
  present, from whatever addresses they come, and none of them later than the lockout time after the
  first, locks the account; then every login for that account is refused, with the right password
  as well.\<close>

theorem lockout_after_failures:
  assumes "u_status u = UserStatus.ACTIVE"
    and "\<And>t ctx. (t, ctx) \<in> set rqs \<Longrightarrow>
      wrong_guess E w u ctx \<and> t < fst (hd rqs) + e_lockoutSeconds E * 1000"
    and "kv_get (fst (hd rqs)) (w_redis w) (LOCKOUT @ u_id u) = None"
    and "length rqs = e_maxAttempts E" and "rqs \<noteq> []"
    and "login_user ctx' w = Some u"
  shows "login_user ctx' (attempts E rqs w) =
      Some (locked_row (fst (last rqs) + e_lockoutSeconds E * 1000) u) \<and>
    outcome (login E ctx') (attempts E rqs w) =
      Inl (Auth (AccountLockedException (Some (fst (last rqs) + e_lockoutSeconds E * 1000))))"
proof -
  have before: "failed_before E (w\<lparr>w_now := fst (hd rqs)\<rparr>) u 0 (fst (hd rqs) + e_lockoutSeconds E * 1000)"
    using assms(3) by (simp add: failed_before_def failures_def)
  have "t < fst (hd rqs) + e_lockoutSeconds E * 1000 \<and> wrong_guess E w u ctx" if "(t, ctx) \<in> set rqs" for t ctx
    using assms(2) [OF that] by simp
  from attempts_lock [OF this assms(5) _ assms(1) before] assms(4)
  have "w_users (attempts E rqs w) =
      updateBy u_id (u_id u) (locked_row (fst (last rqs) + e_lockoutSeconds E * 1000)) (w_users w)" by simp
  then have locked: "login_user ctx' (attempts E rqs w) =
      Some (locked_row (fst (last rqs) + e_lockoutSeconds E * 1000) u)"
    by (rule lookup_locked [OF assms(6)])
  from locked locked_refused [OF this] show ?thesis by (simp add: outcome_def locked_row_def)
qed

text \<open>Three different guesses, the last from another address.\<close>

definition demo_guesses :: "(int \<times> LoginRequestContext) list" where
  "demo_guesses =
     [(1000000, demo_login\<lparr>lc_password := ''guess''\<rparr>), (1001000, demo_login\<lparr>lc_password := ''letmein''\<rparr>),
      (1002000, demo_login\<lparr>lc_password := ''hunter2'', lc_ipAddress := Some ''203.0.113.9''\<rparr>)]"

lemma lockout_after_failures_witness:
  "outcome (login demo_env demo_login) (attempts demo_env demo_guesses demo_world) =
   Inl (Auth (AccountLockedException (Some 2802000)))"
proof -
  have "u_status demo_user = UserStatus.ACTIVE" by (simp add: demo_user_def)
  moreover have "wrong_guess demo_env demo_world demo_user ctx \<and>
      t < fst (hd demo_guesses) + e_lockoutSeconds demo_env * 1000" if "(t, ctx) \<in> set demo_guesses" for t ctx
    using that demo_login_user
    by (auto simp: demo_guesses_def wrong_guess_def login_user_def demo_user_def password_ok_def hasher_verify_def)
  moreover have "kv_get (fst (hd demo_guesses)) (w_redis demo_world) (LOCKOUT @ u_id demo_user) = None"
    by (simp add: demo_world_def empty_world_def kv_get_def)
  moreover have "length demo_guesses = e_maxAttempts demo_env" "demo_guesses \<noteq> []"
    by (simp_all add: demo_guesses_def)
  ultimately have "outcome (login demo_env demo_login) (attempts demo_env demo_guesses demo_world) =
      Inl (Auth (AccountLockedException (Some (fst (last demo_guesses) + e_lockoutSeconds demo_env * 1000))))"
    using demo_login_user by (intro conjunct2 [OF lockout_after_failures])
  moreover have "fst (last demo_guesses) + e_lockoutSeconds demo_env * 1000 = 2802000"
    by (simp add: demo_guesses_def)
  ultimately show ?thesis by (simp only:)
qed

text \<open>C17: a locked account is refused at every later time, also after the instant that is stored
  as the end of the lock, and no login attempt changes that.\<close>

theorem locked_account_never_unlocks:
  assumes "login_user ctx w = Some u" and "u_status u = UserStatus.LOCKED"
  shows "outcome (login E ctx) (w\<lparr>w_now := t\<rparr>) = Inl (Auth (AccountLockedException (u_lockedUntil u))) \<and>
    after (login E ctx) (w\<lparr>w_now := t\<rparr>) = w\<lparr>w_now := t\<rparr>"
proof -
  have "login_user ctx (w\<lparr>w_now := t\<rparr>) = Some u" using assms(1) by (simp add: login_user_def)
  from locked_refused [OF this assms(2)] show ?thesis by (simp add: outcome_def after_def)
qed

lemma locked_account_never_unlocks_witness:
  "outcome (login demo_env demo_login)
     (demo_world\<lparr>w_users := [locked_row 2802000 demo_user], w_now := 1000000000000\<rparr>) =
   Inl (Auth (AccountLockedException (Some 2802000)))"
proof -
  let ?w = "demo_world\<lparr>w_users := [locked_row 2802000 demo_user]\<rparr>"
  have "w_users ?w = updateBy u_id (u_id demo_user) (locked_row 2802000) (w_users demo_world)"
    by (simp add: demo_world_def updateBy_def updateRows_def)
  then have "login_user demo_login ?w = Some (locked_row 2802000 demo_user)"
    by (rule lookup_locked [OF demo_login_user])
  from conjunct1 [OF locked_account_never_unlocks [OF this, where t = 1000000000000]]
  show ?thesis by (simp add: locked_row_def)
qed

end
