(* ===== verification/Account_Properties.thy ===== *)
theory Account_Properties
  imports Example
begin

text \<open>
  Properties of the account flows: password reset, e-mail verification, invites and the second
  factor.
\<close>

subsection \<open>Password reset\<close>

text \<open>A link that can be used: stored, unused, not expired, for a stored user.\<close>

definition can_reset :: "env \<Rightarrow> world \<Rightarrow> string \<Rightarrow> string \<Rightarrow> password_reset \<Rightarrow> bool" where
  "can_reset E w raw p r \<longleftrightarrow>
     policy_violations p = [] \<and>
     lookupBy pr_tokenHash (e_sha256 E raw) (w_passwordResets w) = Some r \<and>
     pr_usedAt r = None \<and> w_now w < pr_expiresAt r \<and>
     existsRow (\<lambda>u. u_id u = pr_userId r) (w_users w)"

definition after_reset :: "env \<Rightarrow> world \<Rightarrow> string \<Rightarrow> string \<Rightarrow> password_reset \<Rightarrow> world" where
  "after_reset E w raw p r =
     w\<lparr>w_rnd := Suc (w_rnd w),
       w_passwordResets := updateBy pr_tokenHash (e_sha256 E raw)
         (\<lambda>q. q\<lparr>pr_usedAt := Some (w_now w)\<rparr>) (w_passwordResets w),
       w_users := updateBy u_id (pr_userId r)
         (\<lambda>u. u\<lparr>u_passwordHash := Some (e_argonHash E p (w_rnd w))\<rparr>) (w_users w),
       w_sessions := updateRows (\<lambda>s. s_userId s = pr_userId r \<and> s_endedAt s = None)
         (end_row (w_now w) SessionEndReason.PASSWORD_CHANGED) (w_sessions w),
       w_refreshTokens := updateRows (\<lambda>t. rt_userId t = pr_userId r \<and> rt_revokedAt t = None)
         (revoke_row (w_now w) ''password_reset'') (w_refreshTokens w)\<rparr>"

lemma existsRow_lookup: "existsRow (\<lambda>x. key x = k) t \<longleftrightarrow> lookupBy key k t \<noteq> None"
  by (auto simp: existsRow_iff lookupBy_None_iff)

lemma check_reset_run:
  "check_reset E raw w =
     (case lookupBy pr_tokenHash (e_sha256 E raw) (w_passwordResets w) of
        None \<Rightarrow> (Inl (Auth (InvalidTokenException (Some ''Password reset token is invalid''))), w)
      | Some r \<Rightarrow>
          if pr_usedAt r \<noteq> None
          then (Inl (Auth (InvalidTokenException (Some ''Password reset token has already been used''))), w)
          else if pr_expiresAt r \<le> w_now w then (Inl (Auth TokenExpiredException), w)
          else (Inr r, w))"
  by (simp add: check_reset_def await_run findUnique_run throwIf_run split: option.split)

lemma reset_run:
  assumes "can_reset E w raw p r"
  shows "resetPassword E raw p w = (Inr (), after_reset E w raw p r)"
proof -
  from assms obtain u where "lookupBy u_id (pr_userId r) (w_users w) = Some u"
    by (auto simp: can_reset_def existsRow_lookup)
  with assms show ?thesis
    by (simp add: can_reset_def resetPassword_def require_policy_run await_run check_reset_run
        reset_transaction_def transaction_run update_run updateMany_run after_reset_def)
qed

lemma reset_needs:
  assumes "resetPassword E raw p w = (Inr x, w')"
  obtains r where "can_reset E w raw p r" and "w' = after_reset E w raw p r"
proof -
  from assms obtain r where r: "lookupBy pr_tokenHash (e_sha256 E raw) (w_passwordResets w) = Some r"
    "pr_usedAt r = None" "w_now w < pr_expiresAt r" "policy_violations p = []"
    by (auto simp: resetPassword_def require_policy_run await_run check_reset_run
        split: if_splits option.splits)
  have "existsRow (\<lambda>u. u_id u = pr_userId r) (w_users w)"
  proof (rule ccontr)
    assume "\<not> ?thesis"
    then have "lookupBy u_id (pr_userId r) (w_users w) = None" by (simp add: existsRow_lookup)
    with r assms show False
      by (simp add: resetPassword_def require_policy_run await_run check_reset_run
          reset_transaction_def transaction_run update_run)
  qed
  with r have "can_reset E w raw p r" by (simp add: can_reset_def)
  with reset_run [OF this] assms that show ?thesis by auto
qed

text \<open>C7: a password reset succeeds exactly when the new password obeys the policy and the link is
  stored, unused, not expired and for a stored user; it then stamps the link, sets the hash of the
  new password, ends the user's open sessions, revokes the user's unrevoked refresh tokens, and
  writes nothing else.\<close>

theorem password_reset_exact:
  "resetPassword E raw p w = (Inr (), w') \<longleftrightarrow>
     (\<exists>r. can_reset E w raw p r \<and> w' = after_reset E w raw p r)"
  using reset_run by (auto elim: reset_needs)

lemma links_spent:
  assumes "auth_run E w w'"
  shows "links_kept E w w'"
  using assms by (rule links.run_effect)

lemma spent_link_refused:
  assumes "stays_spent pr_tokenHash pr_usedAt (w_passwordResets w) (w_passwordResets w')"
    and "lookupBy pr_tokenHash (e_sha256 E raw) (w_passwordResets w) = Some r" and "pr_usedAt r \<noteq> None"
  shows "\<exists>e. outcome (resetPassword E raw p) w' = Inl e"
proof -
  obtain r' where "lookupBy pr_tokenHash (e_sha256 E raw) (w_passwordResets w') = Some r'"
      "pr_usedAt r' \<noteq> None"
    using assms by (rule stays_spentE)
  then show ?thesis
    by (auto simp: resetPassword_def outcome_def await_run require_policy_run check_reset_run)
qed

text \<open>C8: after a successful password reset every session of the user is ended, every refresh token
  that the user had is refused in all later states, and so is the link itself, while requests are
  served one after another.\<close>

theorem password_reset_cuts_off_sessions:
  assumes "w_refreshTokens w0 = []" and "auth_run E w0 w" and "can_reset E w raw p r"
    and "t \<in> set (w_refreshTokens w)" and "rt_userId t = pr_userId r"
    and "rt_tokenHash t = e_sha256 E old" and "auth_run E (after (resetPassword E raw p) w) w'"
  shows "(\<nexists>s. s \<in> set (w_sessions (after (resetPassword E raw p) w)) \<and>
      s_userId s = pr_userId r \<and> s_endedAt s = None) \<and>
    (\<exists>e. outcome (refresh E old) w' = Inl e) \<and> (\<exists>e. outcome (resetPassword E raw p') w' = Inl e)"
proof (intro conjI)
  have after: "after (resetPassword E raw p) w = after_reset E w raw p r"
    using reset_run [OF assms(3)] by (simp add: after_def)
  show "\<nexists>s. s \<in> set (w_sessions (after (resetPassword E raw p) w)) \<and>
      s_userId s = pr_userId r \<and> s_endedAt s = None"
    by (auto simp: after after_reset_def set_updateRows end_row_def split: if_splits)
  let ?q = "if rt_userId t = pr_userId r \<and> rt_revokedAt t = None
    then revoke_row (w_now w) ''password_reset'' t else t"
  have "e_sha256 E old \<in> spent_hashes (after (resetPassword E raw p) w)"
  proof (rule spent_hashesI [of ?q])
    show "?q \<in> set (w_refreshTokens (after (resetPassword E raw p) w))"
      unfolding after after_reset_def using assms(4) by (auto simp: set_updateRows)
  qed (use assms(5,6) in \<open>auto simp: live_def revoke_row_def\<close>)
  then have spent: "e_sha256 E old \<in> spent_hashes w'" by (rule spent_forever [OF _ assms(7)])
  have "families_kept (after (resetPassword E raw p) w)"
    using families_kept_run [OF assms(1,2)]
      families.after_effect [OF families.password_reset_effects(2)]
    by (simp add: keeps_def)
  then have "families_kept w'" by (rule families_kept_later [OF _ assms(7)])
  then show "\<exists>e. outcome (refresh E old) w' = Inl e" using spent by (rule spent_refused)
  show "\<exists>e. outcome (resetPassword E raw p') w' = Inl e"
  proof (rule spent_link_refused)
    show "stays_spent pr_tokenHash pr_usedAt (w_passwordResets (after_reset E w raw p r)) (w_passwordResets w')"
      using links_spent [OF assms(7)] by (simp add: after)
    show "lookupBy pr_tokenHash (e_sha256 E raw) (w_passwordResets (after_reset E w raw p r)) =
        Some (r\<lparr>pr_usedAt := Some (w_now w)\<rparr>)"
      using assms(3) by (simp add: can_reset_def after_reset_def lookupBy_updateBy)
  qed simp
qed

subsection \<open>Requesting a reset\<close>

definition mailed_token :: "env \<Rightarrow> nat \<Rightarrow> string" where
  "mailed_token E n = strip_dashes (e_uuid E n) @ strip_dashes (e_uuid E (Suc n))"

definition new_reset :: "env \<Rightarrow> world \<Rightarrow> user \<Rightarrow> password_reset" where
  "new_reset E w u =
     \<lparr>pr_id = e_uuid E (w_rnd w + 2), pr_tokenHash = e_sha256 E (mailed_token E (w_rnd w)),
      pr_userId = u_id u, pr_expiresAt = w_now w + e_passwordResetTtl E * 1000, pr_usedAt = None,
      pr_createdAt = w_now w\<rparr>"

definition expired_resets :: "world \<Rightarrow> user \<Rightarrow> password_reset list" where
  "expired_resets w u =
     updateRows (\<lambda>p. pr_userId p = u_id u \<and> pr_usedAt p = None)
       (\<lambda>p. p\<lparr>pr_expiresAt := w_now w\<rparr>) (w_passwordResets w)"

lemma request_run:
  assumes "lookupBy email_key (toLowerCase (trim email)) (w_users w) = Some u"
  shows "requestReset E email w =
    (if existsRow (password_reset_clash (new_reset E w u)) (expired_resets w u)
     then (Inl (Prisma P2002), w\<lparr>w_rnd := w_rnd w + 2\<rparr>)
     else (Inr (mailed_token E (w_rnd w)),
       w\<lparr>w_rnd := w_rnd w + 3,
         w_passwordResets := insertRow (new_reset E w u) (expired_resets w u),
         w_mail := w_mail w @ [reset_job E u (mailed_token E (w_rnd w))]\<rparr>))"
proof -
  have "u \<in> set (w_users w)" using lookupBy_in [OF assms] by simp
  then have refs: "existsRow (\<lambda>x. u_id x = u_id u) (w_users w)" by (auto simp: existsRow_iff)
  show ?thesis
    using assms refs
    by (simp add: requestReset_def await_run findUnique_run reissue_reset_def transaction_run
        updateMany_run create_run password_reset_refs_def new_reset_def mailed_token_def
        expired_resets_def eval_nat_numeral)
qed


subsection \<open>The demo owner asks for a reset, twice\<close>

definition demo_requested :: world where
  "demo_requested = after (requestReset demo_env ''jane@example.com'') demo_after_login"

definition demo_requested_again :: world where
  "demo_requested_again = after (requestReset demo_env ''jane@example.com'') demo_requested"

definition demo_stamped :: user where
  "demo_stamped = demo_user\<lparr>u_lastLoginAt := Some 1000000\<rparr>"

lemma demo_jane: "lookupBy email_key (toLowerCase (trim ''jane@example.com'')) [demo_stamped] = Some demo_stamped"
  by code_simp

lemma demo_password: "policy_violations ''NewSecret99'' = []"
  by code_simp

lemma demo_texts [simp]: "nat_text 10 = ''10''" "nat_text 11 = ''11''"
  by code_simp+

definition demo_link :: "nat \<Rightarrow> password_reset" where
  "demo_link n =
     \<lparr>pr_id = CHR ''u'' # nat_text (n + 2), pr_tokenHash = CHR ''h'' # CHR ''u'' # nat_text n @ CHR ''u'' # nat_text (Suc n),
      pr_userId = ''owner'', pr_expiresAt = 4600000, pr_usedAt = None, pr_createdAt = 1000000\<rparr>"

lemma demo_stripped [simp]:
  "strip_dashes (CHR ''u'' # ''5'') = ''u5''" "strip_dashes (CHR ''u'' # ''6'') = ''u6''"
  "strip_dashes (CHR ''u'' # ''8'') = ''u8''" "strip_dashes (CHR ''u'' # ''9'') = ''u9''"
  by (simp_all add: strip_dashes_def)

lemma demo_request:
  "requestReset demo_env ''jane@example.com'' demo_after_login = (Inr ''u5u6'', demo_requested)"
  "w_passwordResets demo_requested = [demo_link 5]" "w_rnd demo_requested = 8"
  "w_now demo_requested = 1000000" "w_users demo_requested = [demo_stamped]"
  "w_refreshTokens demo_requested = [demo_token]"
proof -
  have resets: "w_passwordResets demo_after_login = []" "w_users demo_after_login = [demo_stamped]"
    by (simp_all add: demo_after after_login_def demo_world_def empty_world_def demo_login_result
        [unfolded demo_after after_login_def, simplified] demo_stamped_def updateBy_def updateRows_def
        demo_user_def demo_login_def)
  note run = request_run [where email = "''jane@example.com''" and w = demo_after_login and E = demo_env and u = demo_stamped, unfolded resets, OF demo_jane]
  have *: "requestReset demo_env ''jane@example.com'' demo_after_login = (Inr ''u5u6'',
      demo_after_login\<lparr>w_rnd := 8, w_passwordResets := [demo_link 5],
        w_mail := w_mail demo_after_login @ [reset_job demo_env demo_stamped ''u5u6'']\<rparr>)"
    by (simp add: run expired_resets_def resets updateRows_def existsRow_def insertRow_def
        demo_login_result mailed_token_def new_reset_def demo_link_def demo_stamped_def demo_user_def)
  from * show "requestReset demo_env ''jane@example.com'' demo_after_login = (Inr ''u5u6'', demo_requested)"
    by (simp add: demo_requested_def after_def)
  from * show "w_passwordResets demo_requested = [demo_link 5]" "w_rnd demo_requested = 8"
    "w_now demo_requested = 1000000" "w_users demo_requested = [demo_stamped]"
    "w_refreshTokens demo_requested = [demo_token]"
    by (simp_all add: demo_requested_def after_def demo_login_result resets demo_stamped_def)
qed



lemma demo_can_reset: "can_reset demo_env demo_requested ''u5u6'' ''NewSecret99'' (demo_link 5)"
  by (simp add: can_reset_def demo_password demo_request demo_link_def existsRow_def demo_stamped_def
      demo_user_def)

lemma demo_requested_run: "auth_run demo_env demo_world demo_requested"
proof (rule auth_run.Step [OF demo_run])
  have "demo_requested = serve demo_env (Forgot_password_request ''jane@example.com'') demo_after_login"
    using demo_request(1) by (simp add: forgotPasswordHandler_def after_def await_run)
  then show "auth_step demo_env demo_after_login demo_requested" by (metis auth_step.Request)
qed

lemma password_reset_cuts_off_sessions_witness:
  "\<exists>e. outcome (refresh demo_env ''u2.u3'')
     (after (resetPassword demo_env ''u5u6'' ''NewSecret99'') demo_requested) = Inl e"
proof -
  have "demo_token \<in> set (w_refreshTokens demo_requested)" "rt_userId demo_token = pr_userId (demo_link 5)"
      "rt_tokenHash demo_token = e_sha256 demo_env ''u2.u3''"
    by (simp_all add: demo_request demo_token_def demo_link_def)
  from password_reset_cuts_off_sessions
      [OF demo_world_tokens demo_requested_run demo_can_reset this auth_run.Start]
  show ?thesis by blast
qed

end
