(* ===== verification/Auth_Controller.thy ===== *)
theory Auth_Controller
  imports Two_Factor Invite_Accept Refresh Guards
begin

text \<open>
  \<^verbatim>\<open>auth.controller.ts\<close>: the handlers that the flow theories do not hold: invite acceptance, logout,
  the second factor and the profile. The cookie that a handler clears or sets is part of its result.
\<close>

definition inviteAcceptHandler :: "env \<Rightarrow> InviteAcceptContext \<Rightarrow> (world, LoginResponse) handler" where
  "inviteAcceptHandler E ctx =
     await (inviteAccept E ctx) (\<lambda>result.
     ret \<lparr>lr_accessToken = l_accessToken result,
          lr_accessTokenExpiresIn = l_accessTokenExpiresIn result,
          lr_accessTokenExpiresAt = l_accessTokenExpiresAt result, lr_requires2FA = False,
          lr_user = fromEntity (l_user result),
          lr_refreshCookie = Some (l_refreshTokenRaw result, l_refreshTokenExpiresAt result)\<rparr>)"

definition logoutHandler :: "env \<Rightarrow> AuthenticatedUser \<Rightarrow> string option \<Rightarrow> (world, unit) handler" where
  "logoutHandler E user cookie = logoutCurrent E (au_sessionId user) (au_jti user) cookie"

definition logoutAllHandler :: "AuthenticatedUser \<Rightarrow> (world, unit) handler" where
  "logoutAllHandler user = logoutAll (au_userId user)"

definition twoFactorSetupHandler ::
    "env \<Rightarrow> AuthenticatedUser \<Rightarrow> (world, TwoFactorSetupResult) handler" where
  "twoFactorSetupHandler E user = beginSetup E (au_userId user)"

definition twoFactorConfirmHandler :: "env \<Rightarrow> AuthenticatedUser \<Rightarrow> string \<Rightarrow> (world, unit) handler" where
  "twoFactorConfirmHandler E user code = confirmSetup E (au_userId user) code"

definition twoFactorDisableHandler :: "env \<Rightarrow> AuthenticatedUser \<Rightarrow> string \<Rightarrow> (world, unit) handler" where
  "twoFactorDisableHandler E user code = disable E (au_userId user) code"

definition unauthorized :: "string \<Rightarrow> bos_error" where
  "unauthorized m = Nest (UnauthorizedException m)"

text \<open>
  The route is public, so the guard attaches no principal: the handler verifies the pending token of
  the header itself. The raw token is not trimmed here.
\<close>

definition pending_claims :: "env \<Rightarrow> string option \<Rightarrow> (world, jwt_claims) handler" where
  "pending_claims E header =
     (case header of
        None \<Rightarrow> throw (unauthorized ''Missing bearer token'')
      | Some h \<Rightarrow>
          if take 7 h \<noteq> BEARER_PREFIX then throw (unauthorized ''Missing bearer token'')
          else
            await (tryCatch (jwt_verify E (drop 7 h))
              (\<lambda>_. throw (unauthorized ''Missing or invalid 2fa_pending token''))) (\<lambda>claims.
            await (throwIf (c_scope claims \<noteq> ''two_factor_pending'')
              (unauthorized ''Missing or invalid 2fa_pending token'')) (\<lambda>_.
            ret claims)))"

definition twoFactorVerifyHandler ::
    "env \<Rightarrow> string option \<Rightarrow> string \<Rightarrow> string option \<Rightarrow> (world, LoginResponse) handler" where
  "twoFactorVerifyHandler E header code ip =
     await (pending_claims E header) (\<lambda>claims.
     await (verifyLogin E (c_sub claims) (c_sessionId claims) code ip) (\<lambda>result.
     await (findByIdOrThrow (c_sub claims)) (\<lambda>user.
     ret \<lparr>lr_accessToken = tv_accessToken result,
          lr_accessTokenExpiresIn = tv_accessTokenExpiresIn result,
          lr_accessTokenExpiresAt = tv_accessTokenExpiresAt result, lr_requires2FA = False,
          lr_user = fromEntity user,
          lr_refreshCookie = Some (tv_refreshTokenRaw result, tv_refreshTokenExpiresAt result)\<rparr>)))"

definition twoFactorRegenerateBackupCodesHandler ::
    "env \<Rightarrow> AuthenticatedUser \<Rightarrow> string \<Rightarrow> (world, string list) handler" where
  "twoFactorRegenerateBackupCodesHandler E user code = regenerateBackupCodes E (au_userId user) code"

definition meHandler :: "AuthenticatedUser \<Rightarrow> (world, UserResponseDto) handler" where
  "meHandler user =
     await (findByIdOrThrow (au_userId user)) (\<lambda>u. ret (fromEntity u))"

end
