(* ===== verification/Two_Factor_Properties.thy ===== *)
theory Two_Factor_Properties
  imports Auth_Controller Example
begin

text \<open>
  Properties of the second factor: what a pending token is good for, that a backup code works once,
  and what the token that completes a login carries.
\<close>

subsection \<open>The pending token\<close>

definition pending_jwt :: "env \<Rightarrow> world \<Rightarrow> user \<Rightarrow> jwt_claims" where
  "pending_jwt E w u =
     claims_of (pending_payload (u_id u) (e_uuid E (w_rnd w))) ''2fa_pending''
       (e_uuid E (w_rnd w + 1)) (w_now w div 1000) (w_now w div 1000 + e_twoFactorTempTtl E)"

lemma pending_run:
  assumes ok: "can_login E ctx w u m" and fresh: "fresh_draws E w u" and twofa: "u_twoFactorEnabled u"
  shows "login E ctx w =
    (Inr (TwoFactorPending (e_jwtSign E (pending_jwt E w u))
       ((w_now w div 1000 + e_twoFactorTempTtl E) * 1000)),
     w\<lparr>w_redis := kv_del (LOCKOUT @ u_id u) (w_redis w),
       w_rnd := w_rnd w + 2,
       w_sessions := insertRow (login_session E ctx w u (tm_tenantId m)) (w_sessions w)\<rparr>)"
proof -
  from ok obtain t where t: "lookupBy t_id (tm_tenantId m) (w_tenants w) = Some t"
    by (auto simp: can_login_def)
  from ok obtain u' where u': "lookupBy u_id (u_id u) (w_users w) = Some u'"
    using login_user_known by (fastforce simp: can_login_def)
  have session: "\<not> existsRow (session_clash (login_session E ctx w u (tm_tenantId m))) (w_sessions w)"
    using fresh
    by (auto simp: fresh_draws_def existsRow_iff session_clash_def login_session_def lookupBy_None_iff)
  show ?thesis
    using ok twofa t u' session
    by (simp add: login_active can_login_def await_run findFirst_run sessions_create_def
        findUnique_run throwIf_run create_run issue_login_def issueTwoFactorPendingToken_def
        login_session_def pending_jwt_def Let_def numeral_eq_Suc)
qed

text \<open>For an account with the second factor switched on, the password alone gives a pending
  token and stores no refresh token, and the authentication guard refuses a request with a verified
  pending token.\<close>

theorem password_alone_is_not_enough:
  assumes "can_login E ctx w u m" and "fresh_draws E w u" and "u_twoFactorEnabled u"
    and "extractBearerToken header = Some token"
    and "e_jwtVerify E token (w_now v) = Verified (pending_jwt E w u)"
  shows "outcome (login E ctx) w =
      Inr (TwoFactorPending (e_jwtSign E (pending_jwt E w u))
        ((w_now w div 1000 + e_twoFactorTempTtl E) * 1000)) \<and>
    w_refreshTokens (after (login E ctx) w) = w_refreshTokens w \<and>
    (\<exists>e. outcome (jwtAuthGuard E False header) v = Inl e)"
proof (intro conjI)
  have "toAuthenticatedUser (pending_jwt E w u) =
      Inl (Auth (InvalidTokenException (Some ''Unsupported scope in JWT'')))"
    by (simp add: toAuthenticatedUser_def pending_jwt_def claims_of_def pending_payload_def)
  then show "\<exists>e. outcome (jwtAuthGuard E False header) v = Inl e"
    using assms(4,5)
    by (simp add: jwtAuthGuard_def outcome_def await_run jwt_verify_run isRevoked_def throwIf_run)
qed (use pending_run [OF assms(1-3)] in \<open>simp_all add: outcome_def after_def\<close>)

subsection \<open>Completion\<close>

definition completion_claims :: "env \<Rightarrow> world \<Rightarrow> string \<Rightarrow> string \<Rightarrow> jwt_claims" where
  "completion_claims E w userId sessionId =
     claims_of (tenant_payload userId sessionId None None) ''access'' (e_uuid E (w_rnd w))
       (w_now w div 1000) (w_now w div 1000 + e_accessTtl E)"

definition completion_token :: "env \<Rightarrow> world \<Rightarrow> string \<Rightarrow> string \<Rightarrow> refresh_token" where
  "completion_token E w userId sessionId =
     \<lparr>rt_id = e_uuid E (w_rnd w + 3), rt_tokenHash = e_sha256 E (login_raw E (w_rnd w + 1)),
      rt_userId = userId, rt_sessionId = sessionId, rt_familyId = e_uuid E (w_rnd w + 3),
      rt_parentId = None, rt_expiresAt = w_now w + e_refreshTtl E * 1000, rt_usedAt = None,
      rt_revokedAt = None, rt_revokedReason = None, rt_createdAt = w_now w\<rparr>"

definition can_complete :: "env \<Rightarrow> world \<Rightarrow> string \<Rightarrow> string \<Rightarrow> user \<Rightarrow> bool" where
  "can_complete E w userId sessionId u \<longleftrightarrow>
     lookupBy u_id userId (w_users w) = Some u \<and> second_factor_ready u \<and>
     existsRow (\<lambda>s. s_id s = sessionId) (w_sessions w) \<and>
     \<not> existsRow (refresh_clash (completion_token E w userId sessionId)) (w_refreshTokens w)"

definition code_matches :: "env \<Rightarrow> world \<Rightarrow> user \<Rightarrow> string \<Rightarrow> bool" where
  "code_matches E w u code \<longleftrightarrow>
     (\<exists>d. e_totpValidate E code (the (u_twoFactorSecret u)) (w_now w) = Some (Some d))"

definition completed_row :: "env \<Rightarrow> world \<Rightarrow> user \<Rightarrow> string \<Rightarrow> string option \<Rightarrow> user \<Rightarrow> user" where
  "completed_row E w u code ip x =
     (if isBackupCode E code (u_twoFactorBackupCodes u)
      then x\<lparr>u_twoFactorEnabled := True, u_twoFactorSecret := u_twoFactorSecret u,
             u_twoFactorBackupCodes := filter (\<lambda>h. h \<noteq> hashBackupCode E code) (u_twoFactorBackupCodes u)\<rparr>
      else x)\<lparr>u_lastLoginAt := Some (w_now w), u_lastLoginIp := ip\<rparr>"

lemma updateBy_comp:
  "(\<And>r. key (f r) = key r) \<Longrightarrow>
     updateBy key k g \<circ> updateBy key k f = updateBy key k (\<lambda>r. g (f r))"
  by (rule ext) (simp add: updateBy_def updateRows_def)

lemma completion_run:
  assumes ok: "can_complete E w userId sessionId u"
    and code: "isBackupCode E code (u_twoFactorBackupCodes u) \<or> code_matches E w u code"
  shows "verifyLogin E userId sessionId code ip w =
    (Inr \<lparr>tv_accessToken = e_jwtSign E (completion_claims E w userId sessionId),
          tv_accessTokenExpiresAt = (w_now w div 1000 + e_accessTtl E) * 1000,
          tv_accessTokenExpiresIn = e_accessTtl E,
          tv_refreshTokenRaw = login_raw E (w_rnd w + 1),
          tv_refreshTokenExpiresAt = w_now w + e_refreshTtl E * 1000\<rparr>,
     w\<lparr>w_rnd := w_rnd w + 4,
       w_refreshTokens := insertRow (completion_token E w userId sessionId) (w_refreshTokens w),
       w_users := updateBy u_id userId (completed_row E w u code ip) (w_users w)\<rparr>)"
proof -
  have u: "lookupBy u_id userId (w_users w) = Some u" and ready: "second_factor_ready u"
    and session: "existsRow (\<lambda>s. s_id s = sessionId) (w_sessions w)"
    and fresh: "\<not> existsRow (refresh_clash (completion_token E w userId sessionId)) (w_refreshTokens w)"
    using ok by (simp_all add: can_complete_def)
  have user: "existsRow (\<lambda>x. u_id x = userId) (w_users w)" using u by (rule lookup_existsRow)
  show ?thesis
  proof (cases "isBackupCode E code (u_twoFactorBackupCodes u)")
    case True
    have refs: "existsRow (\<lambda>x. u_id x = userId)
        (updateBy u_id userId (\<lambda>u'. u'\<lparr>u_twoFactorEnabled := True, u_twoFactorSecret := u_twoFactorSecret u,
           u_twoFactorBackupCodes := filter (\<lambda>h. h \<noteq> hashBackupCode E code) (u_twoFactorBackupCodes u)\<rparr>) (w_users w))"
      using u by (intro lookup_existsRow) (simp add: lookupBy_updateBy)
    show ?thesis
      using u ready session fresh True refs
      by (simp add: verifyLogin_def await_run findByIdOrThrow_run throwIf_run consume_backup_code_def
          set2FA_run issueAccessToken_run generateRefreshToken_run refreshTokens_create_def create_run
          refresh_refs_def recordLogin_run lookupBy_updateBy updateBy_comp completion_claims_def
          completion_token_def completed_row_def [abs_def] login_raw_def refresh_row_def access_ttl_def
          tenant_payload_def Let_def numeral_eq_Suc)
  next
    case False
    with code obtain d where "e_totpValidate E code (the (u_twoFactorSecret u)) (w_now w) = Some (Some d)"
      by (auto simp: code_matches_def)
    with False show ?thesis
      using u ready session fresh user
      by (simp add: verifyLogin_def await_run findByIdOrThrow_run throwIf_run verifyTotp_def
          issueAccessToken_run generateRefreshToken_run refreshTokens_create_def create_run
          refresh_refs_def recordLogin_run completion_claims_def completion_token_def
          completed_row_def [abs_def] login_raw_def refresh_row_def access_ttl_def tenant_payload_def Let_def
          numeral_eq_Suc)
  qed
qed

lemma completion_refused:
  assumes "lookupBy u_id userId (w_users w) = Some u" and "second_factor_ready u"
    and "\<not> isBackupCode E code (u_twoFactorBackupCodes u)" and "\<not> code_matches E w u code"
  shows "verifyLogin E userId sessionId code ip w =
    (Inl (Auth (InvalidTokenException (Some ''Invalid TOTP or backup code''))), w)"
  using assms
  by (auto simp: verifyLogin_def await_run findByIdOrThrow_run throwIf_run verifyTotp_def
      code_matches_def Let_def split: option.split)

text \<open>C12: a login completed with a backup code removes exactly that code from the account, so the same
  code is refused from then on (unless it happens to be the one-time password of the moment).\<close>

theorem backup_code_works_once:
  assumes "can_complete E w userId sessionId u" and "isBackupCode E code (u_twoFactorBackupCodes u)"
    and "\<not> code_matches E (w\<lparr>w_now := t\<rparr>) u code"
  shows "returns (verifyLogin E userId sessionId code ip) w \<and>
    map_option u_twoFactorBackupCodes
        (lookupBy u_id userId (w_users (after (verifyLogin E userId sessionId code ip) w))) =
      Some (filter (\<lambda>h. h \<noteq> hashBackupCode E code) (u_twoFactorBackupCodes u)) \<and>
    outcome (verifyLogin E userId sessionId' code ip')
        ((after (verifyLogin E userId sessionId code ip) w)\<lparr>w_now := t\<rparr>) =
      Inl (Auth (InvalidTokenException (Some ''Invalid TOTP or backup code'')))"
proof -
  let ?w = "after (verifyLogin E userId sessionId code ip) w"
  note run = completion_run [OF assms(1) disjI1 [OF assms(2)]]
  have row: "lookupBy u_id userId (w_users ?w) = Some (completed_row E w u code ip u)"
    using assms(1)
    by (simp add: after_def run can_complete_def completed_row_def [abs_def] lookupBy_updateBy)
  have "second_factor_ready (completed_row E w u code ip u)"
    using assms(1) by (simp add: can_complete_def second_factor_ready_def completed_row_def)
  moreover have "\<not> isBackupCode E code (u_twoFactorBackupCodes (completed_row E w u code ip u))"
    using assms(2) by (simp add: completed_row_def isBackupCode_def)
  moreover have "\<not> code_matches E (?w\<lparr>w_now := t\<rparr>) (completed_row E w u code ip u) code"
    using assms(3) by (simp add: code_matches_def completed_row_def)
  ultimately have "outcome (verifyLogin E userId sessionId' code ip') (?w\<lparr>w_now := t\<rparr>) =
      Inl (Auth (InvalidTokenException (Some ''Invalid TOTP or backup code'')))"
    using completion_refused [of userId "?w\<lparr>w_now := t\<rparr>"] row by (simp add: outcome_def)
  with row assms(2) show ?thesis
    by (simp add: returns_def run completed_row_def)
qed

text \<open>C16: the access token that completes a two-factor login carries no tenant although its session
  has one, so that, with nothing cached for the user, every route that asks for a tenant
  permission fails with a database validation error until the token is refreshed.\<close>

theorem completion_token_has_no_tenant:
  assumes "can_complete E w userId sessionId u"
    and "isBackupCode E code (u_twoFactorBackupCodes u) \<or> code_matches E w u code"
    and "toAuthenticatedUser (completion_claims E w userId sessionId) = Inr p"
    and "slugs \<noteq> []" and "kv_get (w_now v) (w_permCache v) (cache_key userId None) = None"
  shows "(\<exists>r. outcome (verifyLogin E userId sessionId code ip) w = Inr r \<and>
      tv_accessToken r = e_jwtSign E (completion_claims E w userId sessionId)) \<and>
    au_tenantId p = None \<and>
    outcome (permissionsGuard (Some resolve) (Some slugs) False (Some p)) v =
      Inl (Prisma PrismaValidation)"
proof -
  have p: "p = tenant_user TENANT (completion_claims E w userId sessionId)"
    using assms(3)
    by (simp add: toAuthenticatedUser_def completion_claims_def claims_of_def tenant_payload_def)
  then have "au_tenantId p = None" "au_userId p = userId" "tenant_scoped p" "au_permissions p = []"
    by (simp_all add: tenant_user_def base_user_def completion_claims_def claims_of_def
        tenant_payload_def tenant_scoped_def)
  then show ?thesis
    using assms(4,5) completion_run [OF assms(1,2)]
    by (simp add: outcome_def permissionsGuard_def load_permissions_def resolve_def loadFromDb_def
        await_run throwIf_run Let_def)
qed

subsection \<open>The demo owner with a second factor\<close>

definition demo_2fa_user :: user where
  "demo_2fa_user =
     demo_user\<lparr>u_twoFactorEnabled := True, u_twoFactorSecret := Some ''SECRET'',
       u_twoFactorBackupCodes := [''hABCD'', ''hEFGH'']\<rparr>"

definition demo_2fa_world :: world where
  "demo_2fa_world = demo_world\<lparr>w_users := [demo_2fa_user], w_sessions := [demo_session]\<rparr>"

definition demo_2fa_env :: env where
  "demo_2fa_env =
     demo_env\<lparr>e_jwtVerify := (\<lambda>token t.
       if token = ''ju1'' \<and> t < 1300000
       then Verified (pending_jwt demo_env (demo_2fa_world\<lparr>w_sessions := []\<rparr>) demo_2fa_user)
       else JwtExpired)\<rparr>"

lemma demo_2fa_login: "login_user demo_login (demo_2fa_world\<lparr>w_sessions := []\<rparr>) = Some demo_2fa_user"
  by code_simp

lemma password_alone_is_not_enough_witness:
  "\<exists>e. outcome (jwtAuthGuard demo_2fa_env False (Some ''Bearer ju1'')) (demo_2fa_world\<lparr>w_now := 1000500\<rparr>) = Inl e"
proof -
  let ?w = "demo_2fa_world\<lparr>w_sessions := []\<rparr>"
  have can: "can_login demo_2fa_env demo_login ?w demo_2fa_user demo_membership"
    unfolding can_login_def using demo_2fa_login
    by (simp add: demo_2fa_env_def demo_2fa_world_def demo_2fa_user_def demo_user_def demo_login_def
        demo_world_def empty_world_def demo_membership_def demo_tenant_def failures_def kv_get_def
        lockout_reached_def password_ok_def hasher_verify_def findRow_def active_membership_def)
  have fresh: "fresh_draws demo_2fa_env ?w demo_2fa_user"
    by (simp add: fresh_draws_def demo_2fa_world_def demo_world_def empty_world_def existsRow_def)
  have enabled: "u_twoFactorEnabled demo_2fa_user" by (simp add: demo_2fa_user_def)
  have "pending_jwt demo_2fa_env ?w demo_2fa_user = pending_jwt demo_env ?w demo_2fa_user"
    by (simp add: pending_jwt_def demo_2fa_env_def)
  then have "e_jwtVerify demo_2fa_env ''ju1'' (w_now (demo_2fa_world\<lparr>w_now := 1000500\<rparr>)) =
      Verified (pending_jwt demo_2fa_env ?w demo_2fa_user)"
    by (simp add: demo_2fa_env_def)
  from password_alone_is_not_enough [OF can fresh enabled demo_bearer this] show ?thesis by blast
qed

lemma demo_can_complete: "can_complete demo_env demo_2fa_world ''owner'' ''u0'' demo_2fa_user"
  by (simp add: can_complete_def demo_2fa_world_def demo_2fa_user_def demo_user_def demo_world_def
      empty_world_def second_factor_ready_def existsRow_def demo_session_def)

lemma demo_backup: "isBackupCode demo_env ''abcd'' (u_twoFactorBackupCodes demo_2fa_user)"
proof -
  have "toUpperCase ''abcd'' = ''ABCD''" by code_simp
  then show ?thesis by (simp add: isBackupCode_def hashBackupCode_def demo_2fa_user_def)
qed

lemma backup_code_works_once_witness:
  "outcome (verifyLogin demo_env ''owner'' ''u0'' ''abcd'' None)
     ((after (verifyLogin demo_env ''owner'' ''u0'' ''abcd'' None) demo_2fa_world)\<lparr>w_now := 2000000\<rparr>) =
   Inl (Auth (InvalidTokenException (Some ''Invalid TOTP or backup code'')))"
proof -
  have "\<not> code_matches demo_env (demo_2fa_world\<lparr>w_now := 2000000\<rparr>) demo_2fa_user ''abcd''"
    by (simp add: code_matches_def)
  from backup_code_works_once [OF demo_can_complete demo_backup this] show ?thesis by blast
qed

lemma completion_token_has_no_tenant_witness:
  "outcome (permissionsGuard (Some resolve) (Some [''tenant:contacts:create'']) False
     (Some (tenant_user TENANT (completion_claims demo_env demo_2fa_world ''owner'' ''u0''))))
     demo_2fa_world = Inl (Prisma PrismaValidation)"
proof -
  let ?c = "completion_claims demo_env demo_2fa_world ''owner'' ''u0''"
  have "toAuthenticatedUser ?c = Inr (tenant_user TENANT ?c)"
    by (simp add: toAuthenticatedUser_def completion_claims_def claims_of_def tenant_payload_def)
  moreover have "kv_get (w_now demo_2fa_world) (w_permCache demo_2fa_world) (cache_key ''owner'' None) = None"
    by (simp add: demo_2fa_world_def demo_world_def empty_world_def kv_get_def)
  ultimately show ?thesis
    using completion_token_has_no_tenant [OF demo_can_complete disjI1 [OF demo_backup]] by blast
qed

end
