(* ===== verification/Provisioning.thy ===== *)
theory Provisioning
  imports Permission_Resolver
begin

text \<open>
  Provisioning of a tenant schema, from the empty schema to the owner's permissions. Each loop of
  \<^verbatim>\<open>seedTenantDefaults\<close> keeps an invariant that is indexed by the set of seeds written so far; the
  composition is total: with fresh identifiers and a script that runs, provisioning succeeds.
\<close>

subsection \<open>The seeds have no conflicts\<close>

text \<open>
  A slug spells out a prefix, the resource and the action, so two seeds of one table with the same
  resource and action have the same slug; a vertical has no pair in common with the core table.
\<close>

definition seed_key :: "TenantPermissionSeed \<Rightarrow> string \<times> string" where
  "seed_key p = (ps_resource p, ps_action p)"

definition spelled :: "string \<Rightarrow> TenantPermissionSeed \<Rightarrow> bool" where
  "spelled prefix p \<longleftrightarrow> ps_slug p = prefix @ '':'' @ ps_resource p @ '':'' @ ps_action p"

definition separate :: "TenantPermissionSeed list \<Rightarrow> bool" where
  "separate ps \<longleftrightarrow>
     list_all (\<lambda>p. list_all (\<lambda>q. seed_key p \<noteq> seed_key q) CORE_TENANT_PERMISSIONS) ps"

lemma core_spelled: "list_all (spelled ''tenant'') CORE_TENANT_PERMISSIONS"
  by code_simp

lemma verticals_spelled:
  "list_all (spelled ''medical'') medical_permissions" "list_all (spelled ''law'') law_permissions"
  "list_all (spelled ''restaurant'') restaurant_permissions"
  "list_all (spelled ''school'') school_permissions" "list_all (spelled ''gym'') gym_permissions"
  by code_simp+

lemma verticals_separate:
  "separate medical_permissions" "separate law_permissions" "separate restaurant_permissions"
  "separate school_permissions" "separate gym_permissions"
  by code_simp+

lemma vertical_facts: "list_all (spelled v) (VERTICAL_TENANT_PERMISSIONS v)" "separate (VERTICAL_TENANT_PERMISSIONS v)"
  using verticals_spelled verticals_separate
  by (auto simp: VERTICAL_TENANT_PERMISSIONS_def separate_def)

lemma keys_slugs:
  assumes "p \<in> set (all_permissions v)" and "q \<in> set (all_permissions v)" and "seed_key p = seed_key q"
  shows "ps_slug p = ps_slug q"
proof -
  have core: "spelled ''tenant'' x" if "x \<in> set CORE_TENANT_PERMISSIONS" for x
    using core_spelled that by (simp add: list_all_iff)
  have vert: "spelled (the v) x" "x' \<in> set CORE_TENANT_PERMISSIONS \<Longrightarrow> seed_key x \<noteq> seed_key x'"
    if "x \<in> set (vertical_permissions v)" for x x'
    using vertical_facts [of "the v"] that
    by (auto simp: vertical_permissions_def list_all_iff separate_def split: if_splits)
  from assms core vert show ?thesis
    by (fastforce simp: all_permissions_def seed_key_def spelled_def)
qed

subsection \<open>Steps\<close>

lemma insert_unless_run:
  "rows T w = Some t \<Longrightarrow> (existsRow (target r) t \<or> \<not> existsRow (clash r) t) \<Longrightarrow>
     insert_unless T target clash r w =
       (Inr (), if existsRow (target r) t then w else on_rows T (insertRow r) w)"
  by (auto simp: insert_unless_def await_run query_run create_run)

text \<open>The schema \<open>s\<close> holds a database with \<open>P\<close>, and every identifier in it was drawn.\<close>

definition drawn :: "env \<Rightarrow> nat \<Rightarrow> string set" where
  "drawn E n = e_uuid E ` {..<n}"

definition schema_has :: "env \<Rightarrow> string \<Rightarrow> (tenant_db \<Rightarrow> bool) \<Rightarrow> world \<Rightarrow> bool" where
  "schema_has E s P w \<longleftrightarrow>
     (\<exists>db. w_schemas w s = Some db \<and> P db \<and>
        pm_id ` set (db_permissions db) \<subseteq> drawn E (w_rnd w) \<and> r_id ` set (db_roles db) \<subseteq> drawn E (w_rnd w))"

lemma drawn_Suc [simp]: "drawn E (Suc n) = insert (e_uuid E n) (drawn E n)"
  by (simp add: drawn_def lessThan_Suc)

lemma fresh_drawn: "inj (e_uuid E) \<Longrightarrow> e_uuid E n \<notin> drawn E n"
  by (auto simp: drawn_def dest: injD)

text \<open>The permissions seeded so far: their slugs, one row per slug, and each from a seed.\<close>

definition permission_of :: "TenantPermissionSeed \<Rightarrow> permission \<Rightarrow> bool" where
  "permission_of p row \<longleftrightarrow>
     pm_slug row = ps_slug p \<and> pm_scope row = ''tenant'' \<and> pm_resource row = ps_resource p \<and>
     pm_action row = ps_action p"

definition permissions_seeded :: "string option \<Rightarrow> string set \<Rightarrow> tenant_db \<Rightarrow> bool" where
  "permissions_seeded v S db \<longleftrightarrow>
     pm_slug ` set (db_permissions db) = S \<and> uniqueBy pm_id (db_permissions db) \<and>
     (\<forall>row \<in> set (db_permissions db). \<exists>p \<in> set (all_permissions v). permission_of p row) \<and>
     db_roles db = [] \<and> db_rolePermissions db = [] \<and> db_memberships db = []"

lemma seed_permission_achieves:
  assumes inj: "inj (e_uuid E)" and p: "p \<in> set (all_permissions v)"
  shows "achieves (schema_has E s (permissions_seeded v S)) (seed_permission E s p)
    (\<lambda>_. schema_has E s (permissions_seeded v (insert (ps_slug p) S)))"
proof (rule achievesI)
  fix w
  assume "schema_has E s (permissions_seeded v S) w"
  then obtain db where db: "w_schemas w s = Some db" "permissions_seeded v S db"
      "pm_id ` set (db_permissions db) \<subseteq> drawn E (w_rnd w)" "r_id ` set (db_roles db) \<subseteq> drawn E (w_rnd w)"
    by (auto simp: schema_has_def)
  define row where "row = \<lparr>pm_id = e_uuid E (w_rnd w), pm_slug = ps_slug p, pm_scope = ''tenant'',
    pm_resource = ps_resource p, pm_action = ps_action p, pm_description = ps_description p,
    pm_isSystem = True, pm_createdAt = w_now w\<rparr>"
  have new_id: "pm_id q \<noteq> pm_id row" if "q \<in> set (db_permissions db)" for q
    using db(3) that fresh_drawn [OF inj, of "w_rnd w"] by (auto simp: row_def)
  show "\<exists>x w'. seed_permission E s p w = (Inr x, w') \<and>
      schema_has E s (permissions_seeded v (insert (ps_slug p) S)) w'"
  proof (cases "existsRow (same_permission_slug row) (db_permissions db)")
    case True
    then obtain q where "q \<in> set (db_permissions db)" "ps_slug p = pm_slug q"
      by (auto simp: existsRow_iff same_permission_slug_def row_def)
    then have "ps_slug p \<in> S"
      using db(2) by (auto simp: permissions_seeded_def)
    then have S: "insert (ps_slug p) S = S" by blast
    from True db(1) have "seed_permission E s p w = (Inr (), w\<lparr>w_rnd := Suc (w_rnd w)\<rparr>)"
      by (simp add: seed_permission_def await_run insert_unless_run row_def)
    moreover have "schema_has E s (permissions_seeded v S) (w\<lparr>w_rnd := Suc (w_rnd w)\<rparr>)"
      unfolding schema_has_def using db by auto
    ultimately show ?thesis by (simp add: S)
  next
    case False
    have free: "\<not> existsRow (permission_clash row) (db_permissions db)"
    proof
      assume "existsRow (permission_clash row) (db_permissions db)"
      then obtain q where q: "q \<in> set (db_permissions db)" "permission_clash row q"
        by (auto simp: existsRow_iff)
      with db(2) obtain p' where p': "p' \<in> set (all_permissions v)" "permission_of p' q"
        by (auto simp: permissions_seeded_def)
      have "pm_slug q \<noteq> pm_slug row" using False q(1) by (auto simp: existsRow_iff same_permission_slug_def)
      with q new_id have "seed_key p' = seed_key p"
        using p'(2) by (auto simp: permission_clash_def permission_of_def seed_key_def row_def)
      from keys_slugs [OF p'(1) p this] p'(2) \<open>pm_slug q \<noteq> pm_slug row\<close> show False
        by (simp add: permission_of_def row_def)
    qed
    let ?w = "on_schema s (db_permissions_update (insertRow row)) (w\<lparr>w_rnd := Suc (w_rnd w)\<rparr>)"
    have "seed_permission E s p w = (Inr (), ?w)"
      using db(1) False free
      by (simp add: seed_permission_def await_run insert_unless_run row_def)
    moreover have "schema_has E s (permissions_seeded v (insert (ps_slug p) S)) ?w"
    proof -
      have "permissions_seeded v (insert (ps_slug p) S) (db_permissions_update (insertRow row) db)"
        using db(2) p new_id
        by (auto simp: permissions_seeded_def uniqueBy_insertRow lookupBy_None_iff permission_of_def
            row_def)
      then show ?thesis
        unfolding schema_has_def using db(1,3,4)
        by (auto simp: row_def)
    qed
    ultimately show ?thesis by blast
  qed
qed

text \<open>The roles seeded so far, over the finished permissions.\<close>

definition roles_seeded :: "string set \<Rightarrow> string set \<Rightarrow> tenant_db \<Rightarrow> bool" where
  "roles_seeded P S db \<longleftrightarrow>
     pm_slug ` set (db_permissions db) = P \<and> uniqueBy pm_id (db_permissions db) \<and>
     r_slug ` set (db_roles db) = S \<and> uniqueBy r_id (db_roles db) \<and>
     uniqueBy r_slug (db_roles db) \<and>
     db_rolePermissions db = [] \<and> db_memberships db = []"

lemma seed_role_achieves:
  assumes inj: "inj (e_uuid E)"
  shows "achieves (schema_has E s (roles_seeded P S)) (seed_role E s v r)
    (\<lambda>_. schema_has E s (roles_seeded P (insert (rs_slug (fst r)) S)))"
proof (rule achievesI)
  fix w
  assume "schema_has E s (roles_seeded P S) w"
  then obtain db where db: "w_schemas w s = Some db" "roles_seeded P S db"
      "pm_id ` set (db_permissions db) \<subseteq> drawn E (w_rnd w)" "r_id ` set (db_roles db) \<subseteq> drawn E (w_rnd w)"
    by (auto simp: schema_has_def)
  define row where "row = \<lparr>r_id = e_uuid E (w_rnd w), r_slug = rs_slug (fst r),
    r_name = rs_name (fst r), r_description = Some (rs_description (fst r)),
    r_scopeType = snd r, r_isSystem = True,
    r_verticalSlug = (if truthy v then v else None), r_createdAt = w_now w\<rparr>"
  have new_id: "r_id q \<noteq> r_id row" if "q \<in> set (db_roles db)" for q
    using db(4) that fresh_drawn [OF inj, of "w_rnd w"] by (auto simp: row_def)
  show "\<exists>x w'. seed_role E s v r w = (Inr x, w') \<and>
      schema_has E s (roles_seeded P (insert (rs_slug (fst r)) S)) w'"
  proof (cases "existsRow (same_role_slug row) (db_roles db)")
    case True
    then obtain q where "q \<in> set (db_roles db)" "rs_slug (fst r) = r_slug q"
      by (auto simp: existsRow_iff same_role_slug_def row_def)
    then have "rs_slug (fst r) \<in> S" using db(2) by (auto simp: roles_seeded_def)
    then have S: "insert (rs_slug (fst r)) S = S" by blast
    from True db(1) have "seed_role E s v r w = (Inr (), w\<lparr>w_rnd := Suc (w_rnd w)\<rparr>)"
      by (simp add: seed_role_def split_beta await_run insert_unless_run row_def)
    moreover have "schema_has E s (roles_seeded P S) (w\<lparr>w_rnd := Suc (w_rnd w)\<rparr>)"
      unfolding schema_has_def using db by auto
    ultimately show ?thesis by (simp add: S)
  next
    case False
    then have free: "\<not> existsRow (role_clash row) (db_roles db)"
      using new_id by (auto simp: existsRow_iff role_clash_def same_role_slug_def)
    let ?w = "on_schema s (db_roles_update (insertRow row)) (w\<lparr>w_rnd := Suc (w_rnd w)\<rparr>)"
    have "seed_role E s v r w = (Inr (), ?w)"
      using db(1) False free by (simp add: seed_role_def split_beta await_run insert_unless_run row_def)
    moreover have "schema_has E s (roles_seeded P (insert (rs_slug (fst r)) S)) ?w"
    proof -
      have "roles_seeded P (insert (rs_slug (fst r)) S) (db_roles_update (insertRow row) db)"
        using db(2) new_id False
        by (auto simp: roles_seeded_def uniqueBy_insertRow lookupBy_None_iff existsRow_iff
            same_role_slug_def row_def)
      then show ?thesis
        unfolding schema_has_def using db(1,3,4)
        by (auto simp: row_def)
    qed
    ultimately show ?thesis by blast
  qed
qed

text \<open>The assignments written so far, as pairs of slugs.\<close>

definition pairs_of :: "tenant_db \<Rightarrow> (string \<times> string) set" where
  "pairs_of db = (\<lambda>rp. (rp_roleId rp, rp_permissionId rp)) ` set (db_rolePermissions db)"

definition ids_of :: "tenant_db \<Rightarrow> (string \<times> string) set \<Rightarrow> (string \<times> string) set" where
  "ids_of db A =
     {(r_id r, pm_id p) | r p. r \<in> set (db_roles db) \<and> p \<in> set (db_permissions db) \<and>
        (r_slug r, pm_slug p) \<in> A}"

definition assigned :: "string set \<Rightarrow> string set \<Rightarrow> (string \<times> string) set \<Rightarrow> tenant_db \<Rightarrow> bool" where
  "assigned P R A db \<longleftrightarrow>
     pm_slug ` set (db_permissions db) = P \<and> uniqueBy pm_id (db_permissions db) \<and>
     r_slug ` set (db_roles db) = R \<and> uniqueBy r_id (db_roles db) \<and>
     uniqueBy r_slug (db_roles db) \<and>
     pairs_of db = ids_of db A \<and> db_memberships db = []"

definition with_pairs :: "tenant_db \<Rightarrow> (string \<times> string) set \<Rightarrow> tenant_db \<Rightarrow> bool" where
  "with_pairs db0 S db \<longleftrightarrow>
     db_permissions db = db_permissions db0 \<and> db_roles db = db_roles db0 \<and>
     db_memberships db = db_memberships db0 \<and> pairs_of db = S"

lemma insert_pair_achieves:
  "achieves (schema_has E s (with_pairs db0 S))
     (insert_unless (rolePermissions s) role_permission_clash role_permission_clash
        \<lparr>rp_roleId = i, rp_permissionId = j, rp_createdAt = t\<rparr>)
     (\<lambda>_. schema_has E s (with_pairs db0 (insert (i, j) S)))"
proof (rule achievesI)
  fix w
  assume "schema_has E s (with_pairs db0 S) w"
  then obtain db where db: "w_schemas w s = Some db" "with_pairs db0 S db"
      "pm_id ` set (db_permissions db) \<subseteq> drawn E (w_rnd w)" "r_id ` set (db_roles db) \<subseteq> drawn E (w_rnd w)"
    by (auto simp: schema_has_def)
  let ?row = "\<lparr>rp_roleId = i, rp_permissionId = j, rp_createdAt = t\<rparr>"
  let ?m = "insert_unless (rolePermissions s) role_permission_clash role_permission_clash ?row"
  have there: "existsRow (role_permission_clash ?row) (db_rolePermissions db) \<longleftrightarrow> (i, j) \<in> S"
    using db(2) by (auto simp: existsRow_iff role_permission_clash_def with_pairs_def pairs_of_def)
  show "\<exists>x w'. ?m w = (Inr x, w') \<and> schema_has E s (with_pairs db0 (insert (i, j) S)) w'"
  proof (cases "(i, j) \<in> S")
    case True
    with there db(1) have "?m w = (Inr (), w)" by (simp add: insert_unless_run)
    with True db show ?thesis by (auto simp: schema_has_def insert_absorb)
  next
    case False
    let ?w = "on_schema s (db_rolePermissions_update (insertRow ?row)) w"
    from False there db(1) have "?m w = (Inr (), ?w)" by (simp add: insert_unless_run)
    moreover have "with_pairs db0 (insert (i, j) S) (db_rolePermissions_update (insertRow ?row) db)"
      using db(2) by (auto simp: with_pairs_def pairs_of_def)
    then have "schema_has E s (with_pairs db0 (insert (i, j) S)) ?w"
      unfolding schema_has_def using db(1,3,4) by auto
    ultimately show ?thesis by blast
  qed
qed

lemma seed_assignment_achieves:
  "achieves (schema_has E s (assigned P R A)) (seed_assignment s r p)
     (\<lambda>_. schema_has E s (assigned P R (insert (r, p) A)))"
proof (rule achievesI)
  fix w
  assume "schema_has E s (assigned P R A) w"
  then obtain db where db: "w_schemas w s = Some db" "assigned P R A db"
      "pm_id ` set (db_permissions db) \<subseteq> drawn E (w_rnd w)" "r_id ` set (db_roles db) \<subseteq> drawn E (w_rnd w)"
    by (auto simp: schema_has_def)
  let ?rs = "filter (\<lambda>x. r_slug x = r) (db_roles db)"
  let ?ps = "filter (\<lambda>x. pm_slug x = p) (db_permissions db)"
  let ?g = "\<lambda>(x, y). (r_id x, pm_id y)"
  let ?loop = "forEach (List.product ?rs ?ps) (\<lambda>(r, p).
    insert_unless (rolePermissions s) role_permission_clash role_permission_clash
      \<lparr>rp_roleId = r_id r, rp_permissionId = pm_id p, rp_createdAt = w_now w\<rparr>)"
  have run: "seed_assignment s r p w = ?loop w"
    using db(1) by (simp add: seed_assignment_def await_run findMany_run)
  have "achieves (schema_has E s (with_pairs db (pairs_of db))) ?loop
      (\<lambda>_. schema_has E s (with_pairs db (pairs_of db \<union> ?g ` set (List.product ?rs ?ps))))"
    by (rule achieves_forEach) (auto simp: split_beta intro: insert_pair_achieves)
  moreover have "schema_has E s (with_pairs db (pairs_of db)) w"
    unfolding schema_has_def using db by (auto simp: with_pairs_def)
  ultimately obtain x w' where w': "?loop w = (Inr x, w')"
      "schema_has E s (with_pairs db (pairs_of db \<union> ?g ` set (List.product ?rs ?ps))) w'"
    by (auto dest: achievesD)
  have "pairs_of db \<union> ?g ` set (List.product ?rs ?ps) = ids_of db (insert (r, p) A)"
    using db(2) by (auto simp: assigned_def ids_of_def)
  with w'(2) have "schema_has E s (with_pairs db (ids_of db (insert (r, p) A))) w'" by simp
  then have "schema_has E s (assigned P R (insert (r, p) A)) w'"
    using db(2) by (auto simp: schema_has_def assigned_def with_pairs_def ids_of_def)
  with run w'(1) show "\<exists>x w'. seed_assignment s r p w = (Inr x, w') \<and>
      schema_has E s (assigned P R (insert (r, p) A)) w'"
    by simp
qed

subsection \<open>The loops together\<close>

lemma achieves_pre: "achieves P m Q \<Longrightarrow> (\<And>s. P' s \<Longrightarrow> P s) \<Longrightarrow> achieves P' m Q"
  by (simp add: achieves_def)

lemma schema_has_mono: "schema_has E s P w \<Longrightarrow> (\<And>db. P db \<Longrightarrow> Q db) \<Longrightarrow> schema_has E s Q w"
  by (auto simp: schema_has_def)

definition seeded_slugs :: "string option \<Rightarrow> string set" where
  "seeded_slugs v = ps_slug ` set (all_permissions v)"

definition seeded_roles :: "string option \<Rightarrow> string set" where
  "seeded_roles v = (\<lambda>r. rs_slug (fst r)) ` set (all_roles v)"

lemma seedTenantDefaults_achieves:
  assumes inj: "inj (e_uuid E)"
  shows "achieves (schema_has E s (\<lambda>db. db = empty_db)) (seedTenantDefaults E s v)
    (\<lambda>_. schema_has E s (assigned (seeded_slugs v) (seeded_roles v) (set (assignments v))))"
  unfolding seedTenantDefaults_def
proof (rule achieves_await [OF achieves_pre], rule achieves_forEach)
  show "achieves (schema_has E s (permissions_seeded v S)) (seed_permission E s p)
      (\<lambda>_. schema_has E s (permissions_seeded v (insert (ps_slug p) S)))"
    if "p \<in> set (all_permissions v)" for p S
    using inj that by (rule seed_permission_achieves)
  show "schema_has E s (permissions_seeded v {}) w" if "schema_has E s (\<lambda>db. db = empty_db) w" for w
    using that by (rule schema_has_mono) (simp add: permissions_seeded_def empty_db_def uniqueBy_def)
  show "achieves (schema_has E s (permissions_seeded v ({} \<union> ps_slug ` set (all_permissions v))))
      (await (forEach (all_roles v) (seed_role E s v)) (\<lambda>_. forEach (assignments v) (\<lambda>(r, p). seed_assignment s r p)))
      (\<lambda>_. schema_has E s (assigned (seeded_slugs v) (seeded_roles v) (set (assignments v))))"
  proof (rule achieves_await [OF achieves_pre], rule achieves_forEach)
    show "achieves (schema_has E s (roles_seeded (seeded_slugs v) S)) (seed_role E s v r)
        (\<lambda>_. schema_has E s (roles_seeded (seeded_slugs v) (insert (rs_slug (fst r)) S)))" for r S
      using inj by (rule seed_role_achieves)
    show "schema_has E s (roles_seeded (seeded_slugs v) {}) w"
      if "schema_has E s (permissions_seeded v ({} \<union> ps_slug ` set (all_permissions v))) w" for w
      using that
      by (rule schema_has_mono) (auto simp: permissions_seeded_def roles_seeded_def seeded_slugs_def uniqueBy_def)
    have "achieves (schema_has E s (assigned (seeded_slugs v) (seeded_roles v) {}))
        (forEach (assignments v) (\<lambda>(r, p). seed_assignment s r p))
        (\<lambda>_. schema_has E s (assigned (seeded_slugs v) (seeded_roles v) ({} \<union> (\<lambda>a. a) ` set (assignments v))))"
      by (rule achieves_forEach) (auto intro: seed_assignment_achieves)
    then show "achieves
        (schema_has E s (roles_seeded (seeded_slugs v) ({} \<union> (\<lambda>r. rs_slug (fst r)) ` set (all_roles v))))
        (forEach (assignments v) (\<lambda>(r, p). seed_assignment s r p))
        (\<lambda>_. schema_has E s (assigned (seeded_slugs v) (seeded_roles v) (set (assignments v))))"
      unfolding image_ident Un_empty_left
      by (rule achieves_pre)
         (auto elim!: schema_has_mono simp: roles_seeded_def assigned_def seeded_roles_def pairs_of_def ids_of_def)
  qed
qed

subsection \<open>The owner\<close>

definition owned :: "string set \<Rightarrow> string set \<Rightarrow> (string \<times> string) set \<Rightarrow> string \<Rightarrow> tenant_db \<Rightarrow> bool" where
  "owned P R A userId db \<longleftrightarrow>
     assigned P R A (db\<lparr>db_memberships := []\<rparr>) \<and>
     (\<exists>m r. db_memberships db = [m] \<and> r \<in> set (db_roles db) \<and> r_slug r = ''owner'' \<and>
        ubm_userId m = userId \<and> ubm_roleId m = r_id r \<and> ubm_branchId m = None \<and> ubm_revokedAt m = None)"

lemma unique_filter:
  assumes "uniqueBy key t" and "r \<in> set t"
  shows "filter (\<lambda>x. key x = key r) t = [r]"
  using assms by (induction t) (auto simp: uniqueBy_def filter_empty_conv image_iff)

lemma assignOwnerRole_achieves:
  assumes valid: "valid_schema_name s" and owner: "''owner'' \<in> R"
  shows "achieves (schema_has E s (assigned P R A)) (assignOwnerRole E s u)
    (\<lambda>_. schema_has E s (owned P R A u))"
proof (rule achievesI)
  fix w
  assume "schema_has E s (assigned P R A) w"
  then obtain db where db: "w_schemas w s = Some db" "assigned P R A db"
      "pm_id ` set (db_permissions db) \<subseteq> drawn E (w_rnd w)" "r_id ` set (db_roles db) \<subseteq> drawn E (w_rnd w)"
    by (auto simp: schema_has_def)
  with owner obtain r where r: "r \<in> set (db_roles db)" "r_slug r = ''owner''"
    by (auto simp: assigned_def)
  have owners: "filter (\<lambda>r. r_slug r = ''owner'') (db_roles db) = [r]"
    using unique_filter [of r_slug "db_roles db" r] db(2) r by (simp add: assigned_def)
  let ?m = "\<lparr>ubm_id = e_uuid E (w_rnd w), ubm_userId = u, ubm_branchId = None, ubm_roleId = r_id r,
    ubm_assignedByUserId = Some u, ubm_assignedAt = w_now w, ubm_revokedAt = None,
    ubm_revokedReason = None, ubm_roundRobinAvailable = True, ubm_createdAt = w_now w\<rparr>"
  let ?w = "on_schema s (db_memberships_update (insertRow ?m)) (w\<lparr>w_rnd := Suc (w_rnd w)\<rparr>)"
  have none: "db_memberships db = []" using db(2) by (simp add: assigned_def)
  have "assignOwnerRole E s u w = (Inr (), ?w)"
    using db(1) valid owners none
    by (simp add: assignOwnerRole_def assertValidSchemaName_def await_run findMany_run throwIf_run
        existsRow_def assign_owner_def create_run)
  moreover have "owned P R A u (db_memberships_update (insertRow ?m) db)"
    unfolding owned_def using db(2) r none
    by (auto simp: insertRow_def assigned_def pairs_of_def ids_of_def)
  then have "schema_has E s (owned P R A u) ?w"
    unfolding schema_has_def using db(1,3,4) by auto
  ultimately show "\<exists>x w'. assignOwnerRole E s u w = (Inr x, w') \<and> schema_has E s (owned P R A u) w'"
    by blast
qed

subsection \<open>Provisioning\<close>

text \<open>
  What provisioning relies on: the script's statements run and create no rows in the tables of the
  model, and random identifiers do not repeat.
\<close>

definition script_runs :: "env \<Rightarrow> bool" where
  "script_runs E \<longleftrightarrow>
     (\<forall>stmt \<in> set (splitSqlStatements (e_templateSql E)). e_ddl E stmt empty_db = Some empty_db)"

lemma script_achieves:
  assumes "script_runs E"
  shows "achieves (schema_has E s (\<lambda>db. db = empty_db))
    (forEach (splitSqlStatements (e_templateSql E)) (execute_ddl E s))
    (\<lambda>_. schema_has E s (\<lambda>db. db = empty_db))"
proof (rule achieves_forEach [where I = "\<lambda>_. schema_has E s (\<lambda>db. db = empty_db)"])
  fix stmt
  assume "stmt \<in> set (splitSqlStatements (e_templateSql E))"
  with assms have "e_ddl E stmt empty_db = Some empty_db" by (simp add: script_runs_def)
  then show "achieves (schema_has E s (\<lambda>db. db = empty_db)) (execute_ddl E s stmt)
      (\<lambda>_. schema_has E s (\<lambda>db. db = empty_db))"
    by (auto simp: achieves_def execute_ddl_def schema_has_def empty_db_def)
qed

lemma owner_seeded: "''owner'' \<in> seeded_roles v"
  by (simp add: seeded_roles_def all_roles_def CORE_TENANT_ROLES_def)

lemma provision_achieves:
  assumes inj: "inj (e_uuid E)" and script: "script_runs E" and valid: "valid_schema_name s"
    and new: "w_schemas w s = None" and user: "u \<noteq> []"
  shows "\<exists>w' db. provisionSchema E s v b (Some u) w = (Inr (), w') \<and> w_schemas w' s = Some db \<and>
    owned (seeded_slugs v) (seeded_roles v) (set (assignments v)) u db"
proof -
  let ?w = "w\<lparr>w_schemas := (w_schemas w)(s \<mapsto> empty_db)\<rparr>"
  let ?seeded = "schema_has E s (assigned (seeded_slugs v) (seeded_roles v) (set (assignments v)))"
  let ?rest = "await (forEach (splitSqlStatements (e_templateSql E)) (execute_ddl E s)) (\<lambda>_.
    await (seedTenantDefaults E s v) (\<lambda>_. assignOwnerRole E s u))"
  have run: "provisionSchema E s v b (Some u) w = ?rest ?w"
    using valid new user
    by (simp add: provisionSchema_def assertValidSchemaName_def schemaExists_def create_schema_def
        await_run throwIf_run)
  have total: "achieves (schema_has E s (\<lambda>db. db = empty_db)) ?rest
      (\<lambda>_. schema_has E s (owned (seeded_slugs v) (seeded_roles v) (set (assignments v)) u))"
    by (intro achieves_await [OF script_achieves [OF script]] achieves_await
        [OF seedTenantDefaults_achieves [OF inj]] assignOwnerRole_achieves valid owner_seeded)
  have "schema_has E s (\<lambda>db. db = empty_db) ?w"
    by (simp add: schema_has_def empty_db_def)
  from achievesD [OF total this] show ?thesis by (auto simp: run schema_has_def)
qed

subsection \<open>What a provisioned schema grants\<close>

definition role_slugs :: "tenant_db \<Rightarrow> string \<Rightarrow> string set" where
  "role_slugs db role =
     {pm_slug p | r rp p. r \<in> set (db_roles db) \<and> r_slug r = role \<and>
        rp \<in> set (db_rolePermissions db) \<and> rp_roleId rp = r_id r \<and>
        lookupBy pm_id (rp_permissionId rp) (db_permissions db) = Some p}"

lemma assigned_pairs:
  assumes "assigned P R A (db\<lparr>db_memberships := []\<rparr>)" and "r \<in> set (db_roles db)"
  shows "{pm_slug p | rp p. rp \<in> set (db_rolePermissions db) \<and> rp_roleId rp = r_id r \<and>
      lookupBy pm_id (rp_permissionId rp) (db_permissions db) = Some p} =
    {x \<in> P. (r_slug r, x) \<in> A}" (is "?L = ?R")
proof
  have pairs: "pairs_of db = ids_of db A"
    using assms(1) by (simp add: assigned_def pairs_of_def ids_of_def)
  have roles: "r' = r" if "r' \<in> set (db_roles db)" "r_id r' = r_id r" for r'
  proof -
    have unique: "uniqueBy r_id (db_roles db)" using assms(1) by (simp add: assigned_def)
    from lookupBy_unique [OF unique assms(2)] lookupBy_unique [OF unique that(1)] that(2)
    show ?thesis by simp
  qed
  have perms: "lookupBy pm_id (pm_id p) (db_permissions db) = Some p" if "p \<in> set (db_permissions db)" for p
    using assms(1) that by (intro lookupBy_unique) (simp_all add: assigned_def)
  show "?L \<subseteq> ?R"
  proof
    fix x
    assume "x \<in> ?L"
    then obtain rp p where rp: "rp \<in> set (db_rolePermissions db)" "rp_roleId rp = r_id r"
        "lookupBy pm_id (rp_permissionId rp) (db_permissions db) = Some p" "x = pm_slug p" by blast
    then have "(r_id r, rp_permissionId rp) \<in> ids_of db A"
      unfolding pairs [symmetric] pairs_of_def by force
    then obtain r' p' where "r' \<in> set (db_roles db)" "p' \<in> set (db_permissions db)"
        "r_id r' = r_id r" "rp_permissionId rp = pm_id p'" "(r_slug r', pm_slug p') \<in> A"
      by (auto simp: ids_of_def)
    with roles perms rp assms(1) show "x \<in> ?R" by (auto simp: assigned_def)
  qed
  show "?R \<subseteq> ?L"
  proof
    fix x
    assume "x \<in> ?R"
    then obtain p where p: "p \<in> set (db_permissions db)" "x = pm_slug p" "(r_slug r, x) \<in> A"
      using assms(1) by (auto simp: assigned_def)
    with assms(2) have "(r_id r, pm_id p) \<in> pairs_of db" unfolding pairs ids_of_def by blast
    then obtain rp where "rp \<in> set (db_rolePermissions db)" "rp_roleId rp = r_id r"
        "rp_permissionId rp = pm_id p"
      by (auto simp: pairs_of_def)
    with p perms show "x \<in> ?L" by force
  qed
qed

lemma owned_role_slugs:
  assumes "owned P R A u db"
  shows "role_slugs db role = {x \<in> P. role \<in> R \<and> (role, x) \<in> A}"
proof -
  have a: "assigned P R A (db\<lparr>db_memberships := []\<rparr>)" using assms by (simp add: owned_def)
  then have R: "R = r_slug ` set (db_roles db)" by (simp add: assigned_def)
  have "role_slugs db role = (\<Union>r \<in> {r \<in> set (db_roles db). r_slug r = role}.
      {pm_slug p | rp p. rp \<in> set (db_rolePermissions db) \<and> rp_roleId rp = r_id r \<and>
         lookupBy pm_id (rp_permissionId rp) (db_permissions db) = Some p})"
    unfolding role_slugs_def by blast
  also have "\<dots> = (\<Union>r \<in> {r \<in> set (db_roles db). r_slug r = role}. {x \<in> P. (r_slug r, x) \<in> A})"
    using assigned_pairs [OF a] by (intro SUP_cong) simp_all
  also have "\<dots> = {x \<in> P. role \<in> R \<and> (role, x) \<in> A}" unfolding R by auto
  finally show ?thesis .
qed

lemma owned_granted:
  assumes "owned P R A u db"
  shows "granted db u' = (if u' = u then {x \<in> P. (''owner'', x) \<in> A} else {})"
proof -
  obtain m r where m: "db_memberships db = [m]" "r \<in> set (db_roles db)" "r_slug r = ''owner''"
      "ubm_userId m = u" "ubm_roleId m = r_id r" "ubm_revokedAt m = None"
    using assms by (auto simp: owned_def)
  have a: "assigned P R A (db\<lparr>db_memberships := []\<rparr>)" using assms by (simp add: owned_def)
  have "granted db u' = (if u' = u then {pm_slug p | rp p. rp \<in> set (db_rolePermissions db) \<and>
      rp_roleId rp = r_id r \<and> lookupBy pm_id (rp_permissionId rp) (db_permissions db) = Some p} else {})"
    using m by (auto simp: granted_def active_assignment_def)
  then show ?thesis using assigned_pairs [OF a m(2)] m(3) by simp
qed

lemma owner_assigned: "x \<in> seeded_slugs v \<Longrightarrow> (''owner'', x) \<in> set (assignments v)"
  by (auto simp: seeded_slugs_def assignments_def CORE_TENANT_ROLES_def granted_slugs_def)

end
