(* ===== verification/Provisioning_Properties.thy ===== *)
theory Provisioning_Properties
  imports Provisioning Example
begin

text \<open>
  Properties of provisioning and of e-mail verification, which starts it: what a new tenant schema
  grants, what the owner can do after verification, and what is left when provisioning fails.
\<close>

subsection \<open>A new schema\<close>

text \<open>With a valid new schema name, a script that runs and identifiers that do not repeat,
  provisioning succeeds; the schema then has exactly the seeded permissions, every role is granted
  exactly the seeded permissions that the seed table assigns to it, the owner holds all of them and
  nobody else holds any.\<close>

theorem provisioning_grants_seeds:
  assumes "inj (e_uuid E)" and "script_runs E" and "valid_schema_name s" and "w_schemas w s = None"
    and "u \<noteq> []"
  shows "\<exists>w' db. provisionSchema E s v b (Some u) w = (Inr (), w') \<and> w_schemas w' s = Some db \<and>
    pm_slug ` set (db_permissions db) = ps_slug ` set (all_permissions v) \<and>
    role_slugs db = (\<lambda>role. {x \<in> ps_slug ` set (all_permissions v).
      role \<in> seeded_roles v \<and> (role, x) \<in> set (assignments v)}) \<and>
    granted db = (\<lambda>u'. if u' = u then ps_slug ` set (all_permissions v) else {})"
proof -
  obtain w' db where w': "provisionSchema E s v b (Some u) w = (Inr (), w')" "w_schemas w' s = Some db"
      and db: "owned (seeded_slugs v) (seeded_roles v) (set (assignments v)) u db"
    using provision_achieves [OF assms] by blast
  have "pm_slug ` set (db_permissions db) = seeded_slugs v"
    using db by (simp add: owned_def assigned_def)
  moreover have "granted db = (\<lambda>u'. if u' = u then seeded_slugs v else {})"
    by (rule ext) (auto simp: owned_granted [OF db] owner_assigned)
  moreover have "role_slugs db = (\<lambda>role. {x \<in> seeded_slugs v. role \<in> seeded_roles v \<and>
      (role, x) \<in> set (assignments v)})"
    by (rule ext) (rule owned_role_slugs [OF db])
  ultimately show ?thesis using w' unfolding seeded_slugs_def by blast
qed

lemma demo_inj: "inj (e_uuid demo_env)"
  using inj_nat_text by (auto simp: inj_def)

lemma demo_script: "script_runs demo_env"
  by (simp add: script_runs_def)

lemma demo_schema: "valid_schema_name ''tenant_0123456789abcdef''"
  by code_simp

lemma provisioning_grants_seeds_witness:
  "\<exists>w' db. provisionSchema demo_env ''tenant_0123456789abcdef'' (Some ''gym'') False (Some ''owner'') demo_world =
      (Inr (), w') \<and> w_schemas w' ''tenant_0123456789abcdef'' = Some db \<and>
    granted db ''owner'' = ps_slug ` set (all_permissions (Some ''gym''))"
proof -
  have "w_schemas demo_world ''tenant_0123456789abcdef'' = None"
    by (simp add: demo_world_def empty_world_def)
  from provisioning_grants_seeds [OF demo_inj demo_script demo_schema this, of "''owner''" "Some ''gym''" False]
  show ?thesis by fastforce
qed

subsection \<open>Verification\<close>

definition can_verify ::
    "env \<Rightarrow> world \<Rightarrow> string \<Rightarrow> email_verification \<Rightarrow> user \<Rightarrow> tenant_membership \<Rightarrow> tenant \<Rightarrow> bool" where
  "can_verify E w raw r u m t \<longleftrightarrow>
     lookupBy ev_tokenHash (e_sha256 E raw) (w_emailVerifications w) = Some r \<and>
     ev_verifiedAt r = None \<and> w_now w < ev_expiresAt r \<and>
     lookupBy u_id (ev_userId r) (w_users w) = Some u \<and> \<not> already_verified u \<and>
     findRow (\<lambda>m. tm_userId m = u_id u) (w_tenantMemberships w) = Some m \<and>
     lookupBy t_id (tm_tenantId m) (w_tenants w) = Some t"

definition verified_user :: "user \<Rightarrow> user" where
  "verified_user u = u\<lparr>u_emailVerified := True, u_status := UserStatus.ACTIVE\<rparr>"

definition verified_state :: "env \<Rightarrow> world \<Rightarrow> string \<Rightarrow> user \<Rightarrow> tenant_membership \<Rightarrow> world" where
  "verified_state E w raw u m =
     w_tenantMemberships_update (updateBy tm_id (tm_id m) (\<lambda>m. m\<lparr>tm_status := TenantMembershipStatus.ACTIVE\<rparr>))
       (w_users_update (updateBy u_id (u_id u) verified_user)
         (w_emailVerifications_update
           (updateBy ev_tokenHash (e_sha256 E raw) (\<lambda>e. e\<lparr>ev_verifiedAt := Some (w_now w)\<rparr>)) w))"

lemma verify_run:
  assumes "can_verify E w raw r u m t"
  shows "verifyEmail E raw w =
    await (provision_tenant E u t) (\<lambda>_. ret \<lparr>ve_userId = u_id u, ve_tenantId = t_id t\<rparr>)
      (verified_state E w raw u m)"
proof -
  have "m \<in> set (w_tenantMemberships w)"
    using assms by (auto simp: can_verify_def dest: findRow_Some)
  then obtain m' where m: "lookupBy tm_id (tm_id m) (w_tenantMemberships w) = Some m'"
    by (cases "lookupBy tm_id (tm_id m) (w_tenantMemberships w)") (auto simp: lookupBy_None_iff)
  have u: "u_id u = ev_userId r" using assms by (auto simp: can_verify_def dest: lookupBy_in)
  show ?thesis
    using assms m
    by (simp add: verifyEmail_def check_verification_def can_verify_def await_run findUnique_run
        throwIf_run membership_with_tenant_def findFirst_run activate_account_def transaction_run
        mark_verified_def update_run u verified_state_def verified_user_def [abs_def])
qed

text \<open>Provisioning writes to tenant schemas only.\<close>

definition core :: "world \<Rightarrow> world" where
  "core w = w\<lparr>w_schemas := (\<lambda>_. None), w_rnd := 0\<rparr>"

lemmas core_rules =
  same.effect_rules same.table_rules effect_draw effect_randomUUID

lemma core_on_schema [simp]: "core (on_schema s f w) = core w"
  by (simp add: core_def on_schema_def)

lemma seeds_core:
  "has_effect (same core) (seed_permission E s perm)" "has_effect (same core) (seed_role E s v rt)"
  "has_effect (same core) (seed_assignment s a b)" "has_effect (same core) (assign_owner E s u r)"
  unfolding seed_permission_def seed_role_def seed_assignment_def insert_unless_def assign_owner_def
    date_now_def
  by (intro core_rules; simp add: same_def core_def; simp add: on_schema_def)+

lemma schema_core:
  "has_effect (same core) (create_schema s)" "has_effect (same core) (execute_ddl E s stmt)"
  "has_effect (same core) (assertValidSchemaName s)" "has_effect (same core) (schemaExists s)"
proof -
  show "has_effect (same core) (create_schema s)" "has_effect (same core) (execute_ddl E s stmt)"
    by (auto simp: has_effect_def after_def create_schema_def execute_ddl_def same_def core_def
        split: option.split)
  show valid: "has_effect (same core) (assertValidSchemaName s)"
    unfolding assertValidSchemaName_def by (intro core_rules)
  show "has_effect (same core) (schemaExists s)"
    unfolding schemaExists_def by (intro core_rules valid)
qed

lemma provision_core: "has_effect (same core) (provisionSchema E s v b ou)"
proof -
  have "has_effect (same core) (seedTenantDefaults E s v)"
    unfolding seedTenantDefaults_def by (intro core_rules seeds_core)
  moreover have "has_effect (same core) (assignOwnerRole E s u)" for u
    unfolding assignOwnerRole_def by (intro core_rules seeds_core schema_core)
  ultimately show ?thesis
    unfolding provisionSchema_def by (intro core_rules schema_core)
qed

lemma core_same:
  assumes "core w' = core w"
  shows "w_users w' = w_users w" "w_tenants w' = w_tenants w" "w_now w' = w_now w"
    "w_tenantMemberships w' = w_tenantMemberships w" "w_permCache w' = w_permCache w"
    "w_emailVerifications w' = w_emailVerifications w"
  using assms by (auto simp: core_def dest: arg_cong [where f = w_users] arg_cong [where f = w_tenants]
    arg_cong [where f = w_now] arg_cong [where f = w_tenantMemberships]
    arg_cong [where f = w_permCache] arg_cong [where f = w_emailVerifications])

lemma verified_lookups:
  assumes "can_verify E w raw r u m t"
  shows "lookupBy u_id (u_id u) (w_users (verified_state E w raw u m)) = Some (verified_user u)"
    and "lookupBy t_id (t_id t) (w_tenants (verified_state E w raw u m)) = Some t"
proof -
  have "u_id u = ev_userId r" "t_id t = tm_tenantId m"
    using assms by (auto simp: can_verify_def dest: lookupBy_in)
  with assms show "lookupBy u_id (u_id u) (w_users (verified_state E w raw u m)) = Some (verified_user u)"
    and "lookupBy t_id (t_id t) (w_tenants (verified_state E w raw u m)) = Some t"
    by (simp_all add: can_verify_def verified_state_def lookupBy_updateBy verified_user_def)
qed

lemma provision_tenant_run:
  assumes "provisionSchema E (t_schemaName t) (map_option vertical_text (t_vertical t)) False
      (Some (u_id u)) w = (r, v)"
    and "lookupBy t_id (t_id t) (w_tenants w) = Some t"
  shows "provision_tenant E u t w =
    (r, w_tenants_update (updateBy t_id (t_id t)
      (\<lambda>t. t\<lparr>t_status := (case r of Inr _ \<Rightarrow> TenantStatus.ACTIVE | Inl _ \<Rightarrow> TenantStatus.SUSPENDED)\<rparr>)) v)"
proof -
  have same: "core v = core w"
    using has_effectD [OF provision_core assms(1)] by (simp add: same_def)
  from assms(2) have "lookupBy t_id (t_id t) (w_tenants v) = Some t"
    by (simp add: core_same [OF same])
  with assms(1) show ?thesis
    by (cases r) (simp_all add: provision_tenant_def await_run tryCatch_run set_tenant_status_def update_run)
qed

text \<open>C4: with a valid new schema name, a script that runs and identifiers that do not repeat, following
  the mailed link activates the owner's account, creates the schema, sets the tenant to active,
  and leaves the owner with exactly the seeded permissions of the tenant's vertical.\<close>

theorem verified_owner_holds_seeds:
  assumes "can_verify E w raw r u m t" and "inj (e_uuid E)" and "script_runs E"
    and "valid_schema_name (t_schemaName t)" and "w_schemas w (t_schemaName t) = None" and "u_id u \<noteq> []"
    and "kv_get (w_now w) (w_permCache w) (cache_key (u_id u) (Some (t_id t))) = None"
  shows "\<exists>w'. verifyEmail E raw w = (Inr \<lparr>ve_userId = u_id u, ve_tenantId = t_id t\<rparr>, w') \<and>
    map_option u_status (lookupBy u_id (u_id u) (w_users w')) = Some UserStatus.ACTIVE \<and>
    map_option t_status (lookupBy t_id (t_id t) (w_tenants w')) = Some TenantStatus.ACTIVE \<and>
    held_permissions w' (u_id u) (Some (t_id t)) =
      ps_slug ` set (all_permissions (map_option vertical_text (t_vertical t)))"
proof -
  let ?v = "verified_state E w raw u m"
  let ?vertical = "map_option vertical_text (t_vertical t)"
  have "w_schemas ?v (t_schemaName t) = None" using assms(5) by (simp add: verified_state_def)
  then obtain v db where v: "provisionSchema E (t_schemaName t) ?vertical False (Some (u_id u)) ?v = (Inr (), v)"
      "w_schemas v (t_schemaName t) = Some db"
      and db: "owned (seeded_slugs ?vertical) (seeded_roles ?vertical) (set (assignments ?vertical)) (u_id u) db"
    using provision_achieves [OF assms(2-4) _ assms(6)] by blast
  have same: "core v = core ?v" using has_effectD [OF provision_core v(1)] by (simp add: same_def)
  let ?w = "w_tenants_update (updateBy t_id (t_id t) (\<lambda>t. t\<lparr>t_status := TenantStatus.ACTIVE\<rparr>)) v"
  have run: "verifyEmail E raw w = (Inr \<lparr>ve_userId = u_id u, ve_tenantId = t_id t\<rparr>, ?w)"
    using provision_tenant_run [OF v(1) verified_lookups(2) [OF assms(1)]]
    by (simp add: verify_run [OF assms(1)] await_run)
  have user: "lookupBy u_id (u_id u) (w_users ?w) = Some (verified_user u)"
    using verified_lookups(1) [OF assms(1)] by (simp add: core_same [OF same])
  have tenant: "lookupBy t_id (t_id t) (w_tenants ?w) = Some (t\<lparr>t_status := TenantStatus.ACTIVE\<rparr>)"
    using verified_lookups(2) [OF assms(1)] by (simp add: core_same [OF same] lookupBy_updateBy)
  have "granted db (u_id u) = seeded_slugs ?vertical"
    by (auto simp: owned_granted [OF db] owner_assigned)
  moreover have "kv_get (w_now ?w) (w_permCache ?w) (cache_key (u_id u) (Some (t_id t))) = None"
    using assms(7) by (simp add: core_same [OF same] verified_state_def)
  ultimately have "held_permissions ?w (u_id u) (Some (t_id t)) = seeded_slugs ?vertical"
    using tenant v(2) by (simp add: held_permissions_def)
  with run user tenant show ?thesis by (auto simp: verified_user_def seeded_slugs_def)
qed

subsection \<open>The demo owner verifies\<close>

definition demo_unverified :: user where
  "demo_unverified = demo_user\<lparr>u_emailVerified := False, u_status := UserStatus.PENDING_VERIFICATION\<rparr>"

definition demo_mail :: email_verification where
  "demo_mail =
     \<lparr>ev_id = ''e1'', ev_tokenHash = ''hlink'', ev_userId = ''owner'', ev_email = ''jane@example.com'',
      ev_expiresAt = 2000000, ev_verifiedAt = None, ev_createdAt = 0\<rparr>"

definition demo_signed_up :: world where
  "demo_signed_up = demo_world\<lparr>w_users := [demo_unverified], w_emailVerifications := [demo_mail]\<rparr>"

lemma demo_can_verify:
  "e_sha256 E ''link'' = ''hlink'' \<Longrightarrow>
     can_verify E demo_signed_up ''link'' demo_mail demo_unverified demo_membership demo_tenant"
  by (simp add: can_verify_def demo_signed_up_def demo_mail_def demo_unverified_def demo_user_def
      demo_world_def already_verified_def findRow_def demo_membership_def demo_tenant_def)

lemma verified_owner_holds_seeds_witness:
  "\<exists>w'. verifyEmail demo_env ''link'' demo_signed_up = (Inr \<lparr>ve_userId = ''owner'', ve_tenantId = ''t1''\<rparr>, w') \<and>
     held_permissions w' ''owner'' (Some ''t1'') = ps_slug ` set (all_permissions (Some ''gym''))"
proof -
  have can: "can_verify demo_env demo_signed_up ''link'' demo_mail demo_unverified demo_membership demo_tenant"
    by (rule demo_can_verify) simp
  have schema: "valid_schema_name (t_schemaName demo_tenant)"
    using demo_schema by (simp add: demo_tenant_def)
  have new: "w_schemas demo_signed_up (t_schemaName demo_tenant) = None" "u_id demo_unverified \<noteq> []"
      "kv_get (w_now demo_signed_up) (w_permCache demo_signed_up)
         (cache_key (u_id demo_unverified) (Some (t_id demo_tenant))) = None"
    by (simp_all add: demo_signed_up_def demo_world_def empty_world_def demo_unverified_def demo_user_def
        kv_get_def)
  have ids: "u_id demo_unverified = ''owner''" "t_id demo_tenant = ''t1''"
      "map_option vertical_text (t_vertical demo_tenant) = Some ''gym''"
    by (simp_all add: demo_unverified_def demo_user_def demo_tenant_def)
  from verified_owner_holds_seeds [OF can demo_inj demo_script schema new] show ?thesis
    unfolding ids by blast
qed

subsection \<open>When provisioning fails\<close>

text \<open>C15: when provisioning fails after the account was activated, the error is passed on, the tenant is
  suspended and the account stays active and verified; the link counts as used, so that following
  it again is refused in every later state and provisioning is never tried again, while requests are
  served one after another.\<close>

theorem failed_provisioning_strands_tenant:
  assumes "can_verify E w raw r u m t"
    and "provisionSchema E (t_schemaName t) (map_option vertical_text (t_vertical t)) False
      (Some (u_id u)) (verified_state E w raw u m) = (Inl e, v)"
    and "auth_run E (after (verifyEmail E raw) w) w'"
  shows "outcome (verifyEmail E raw) w = Inl e \<and>
    lookupBy u_id (u_id u) (w_users (after (verifyEmail E raw) w)) = Some (verified_user u) \<and>
    map_option t_status (lookupBy t_id (t_id t) (w_tenants (after (verifyEmail E raw) w))) =
      Some TenantStatus.SUSPENDED \<and>
    (\<exists>e. outcome (verifyEmail E raw) w' = Inl e)"
proof -
  have same: "core v = core (verified_state E w raw u m)"
    using has_effectD [OF provision_core assms(2)] by (simp add: same_def)
  let ?w = "w_tenants_update (updateBy t_id (t_id t) (\<lambda>t. t\<lparr>t_status := TenantStatus.SUSPENDED\<rparr>)) v"
  have run: "verifyEmail E raw w = (Inl e, ?w)"
    using provision_tenant_run [OF assms(2) verified_lookups(2) [OF assms(1)]]
    by (simp add: verify_run [OF assms(1)] await_run)
  have user: "lookupBy u_id (u_id u) (w_users ?w) = Some (verified_user u)"
    using verified_lookups(1) [OF assms(1)] by (simp add: core_same [OF same])
  have tenant: "lookupBy t_id (t_id t) (w_tenants ?w) = Some (t\<lparr>t_status := TenantStatus.SUSPENDED\<rparr>)"
    using verified_lookups(2) [OF assms(1)] by (simp add: core_same [OF same] lookupBy_updateBy)
  have spent: "lookupBy ev_tokenHash (e_sha256 E raw) (w_emailVerifications ?w) =
      Some (r\<lparr>ev_verifiedAt := Some (w_now w)\<rparr>)"
    using assms(1) by (simp add: core_same [OF same] can_verify_def verified_state_def lookupBy_updateBy)
  have "stays_spent ev_tokenHash ev_verifiedAt (w_emailVerifications ?w) (w_emailVerifications w')"
    using links.run_effect [OF assms(3)] by (simp add: after_def run)
  then obtain r' where "lookupBy ev_tokenHash (e_sha256 E raw) (w_emailVerifications w') = Some r'"
      "ev_verifiedAt r' \<noteq> None"
    using spent by (rule stays_spentE) simp
  then have "\<exists>e. outcome (verifyEmail E raw) w' = Inl e"
    by (auto simp: verifyEmail_def check_verification_def outcome_def await_run findUnique_run throwIf_run)
  with user tenant show ?thesis by (simp add: outcome_def after_def run)
qed

lemma demo_statements:
  "splitSqlStatements ''CREATE TABLE t (); CREATE INDEX i'' = [''CREATE TABLE t ()'', ''CREATE INDEX i'']"
  by code_simp

lemma failed_provisioning_strands_tenant_witness:
  "\<exists>e. outcome (verifyEmail (demo_env\<lparr>e_ddl := \<lambda>_ _. None\<rparr>) ''link'')
     (after (verifyEmail (demo_env\<lparr>e_ddl := \<lambda>_ _. None\<rparr>) ''link'') demo_signed_up) = Inl e"
proof -
  let ?E = "demo_env\<lparr>e_ddl := \<lambda>_ _. None\<rparr>"
  have can: "can_verify ?E demo_signed_up ''link'' demo_mail demo_unverified demo_membership demo_tenant"
    by (rule demo_can_verify) simp
  have "\<exists>v. provisionSchema ?E (t_schemaName demo_tenant) (map_option vertical_text (t_vertical demo_tenant))
      False (Some (u_id demo_unverified)) (verified_state ?E demo_signed_up ''link'' demo_unverified demo_membership) =
      (Inl ddl_error, v)"
    using demo_schema demo_statements
    by (simp add: provisionSchema_def assertValidSchemaName_def schemaExists_def create_schema_def
        await_run throwIf_run demo_tenant_def execute_ddl_def verified_state_def demo_signed_up_def
        demo_world_def empty_world_def)
  then obtain v where "provisionSchema ?E (t_schemaName demo_tenant)
      (map_option vertical_text (t_vertical demo_tenant)) False (Some (u_id demo_unverified))
      (verified_state ?E demo_signed_up ''link'' demo_unverified demo_membership) = (Inl ddl_error, v)"
    by blast
  from failed_provisioning_strands_tenant [OF can this auth_run.Start] show ?thesis by blast
qed

end
