(* ===== verification/Tenant_Api.thy ===== *)
theory Tenant_Api
  imports Schema_Manager "HOL-Library.List_Lexorder" "HOL-Library.Product_Lexorder"
    "HOL-Library.Char_ord"
begin

text \<open>
  What the tenant modules of \<^verbatim>\<open>apps/crm-core\<close> share: the lookup of a tenant's schema, ordered and
  paginated queries, foreign keys between the tables of a tenant schema, and the invariant that the
  database keeps on them. The locale \<open>tenant_writes\<close> is the interface between the modules and that
  invariant: a relation between states that every single write of the modules satisfies holds of
  whole handlers.
\<close>

subsection \<open>Order\<close>

text \<open>An enum column is ordered as the enum is declared.\<close>

instantiation RoleScopeType :: linorder
begin

definition less_RoleScopeType :: "RoleScopeType \<Rightarrow> RoleScopeType \<Rightarrow> bool" where
  "less_RoleScopeType x y \<longleftrightarrow> x = Scope_tenant \<and> y = Scope_branch"

definition less_eq_RoleScopeType :: "RoleScopeType \<Rightarrow> RoleScopeType \<Rightarrow> bool" where
  "less_eq_RoleScopeType x y \<longleftrightarrow> x = y \<or> (x = Scope_tenant \<and> y = Scope_branch)"

instance
proof
  show "x \<le> y \<or> y \<le> x" for x y :: RoleScopeType
    by (cases x; cases y) (simp_all add: less_eq_RoleScopeType_def)
qed (auto simp: less_RoleScopeType_def less_eq_RoleScopeType_def)

end

text \<open>
  \<^verbatim>\<open>orderBy\<close>: rows with equal keys come in the order of the table, one of the orders that the
  database may take, so a property that needs another says that the keys differ. And \<^verbatim>\<open>skip\<close> with \<^verbatim>\<open>take\<close> for a page that is numbered from one. The
  client refuses a negative \<^verbatim>\<open>skip\<close> and reads a negative \<^verbatim>\<open>take\<close> from the end of the order.
\<close>

definition page_of :: "int \<Rightarrow> int \<Rightarrow> 'a list \<Rightarrow> 'a list" where
  "page_of page limit xs =
     (let skip = nat ((page - 1) * limit) in
      if 0 \<le> limit then take (nat limit) (drop skip xs)
      else rev (take (nat (- limit)) (drop skip (rev xs))))"

definition findOrdered ::
    "('w, 'r) tbl \<Rightarrow> ('r \<Rightarrow> bool) \<Rightarrow> ('r \<Rightarrow> 'k::linorder) \<Rightarrow> ('w, 'r list) handler" where
  "findOrdered T p key = await (findMany T p) (\<lambda>rs. ret (sort_key key rs))"

definition findPage ::
    "('w, 'r) tbl \<Rightarrow> ('r \<Rightarrow> bool) \<Rightarrow> ('r \<Rightarrow> 'k::linorder) \<Rightarrow> int \<Rightarrow> int \<Rightarrow> ('w, 'r list) handler" where
  "findPage T p key page limit =
     await (throwIf ((page - 1) * limit < 0) (Prisma PrismaValidation)) (\<lambda>_.
     await (findOrdered T p key) (\<lambda>rs. ret (page_of page limit rs)))"

text \<open>A value between single quotes in a message.\<close>

definition quoted :: "string \<Rightarrow> string" where
  "quoted v = [CHR 0x27] @ v @ [CHR 0x27]"

subsection \<open>The schema of a tenant\<close>

text \<open>\<^verbatim>\<open>getSchemaName\<close>, the same in every service of the modules.\<close>

definition getSchemaName :: "string \<Rightarrow> (world, string) handler" where
  "getSchemaName tenantId =
     await (findUnique tenants t_id tenantId) (\<lambda>tenant.
     case tenant of
       None \<Rightarrow> throw (Prisma P2025)
     | Some t \<Rightarrow> ret (t_schemaName t))"

lemma getSchemaName_run [act]:
  "getSchemaName i w =
     (case lookupBy t_id i (w_tenants w) of
        None \<Rightarrow> (Inl (Prisma P2025), w)
      | Some t \<Rightarrow> (Inr (t_schemaName t), w))"
  by (simp add: getSchemaName_def await_run findUnique_run split: option.split)

text \<open>Reading the database of a schema for a mapper (after a query has shown that it is there).\<close>

definition read_db :: "string \<Rightarrow> (tenant_db \<Rightarrow> 'a) \<Rightarrow> (world, 'a) handler" where
  "read_db s f =
     (\<lambda>w. case w_schemas w s of None \<Rightarrow> (Inl (Prisma P2021), w) | Some db \<Rightarrow> (Inr (f db), w))"

lemma read_db_run [act]: "w_schemas w s = Some db \<Longrightarrow> read_db s f w = (Inr (f db), w)"
  by (simp add: read_db_def)

lemma reading_getSchemaName: "reading (getSchemaName i) w"
  by (simp add: reading_def getSchemaName_run split: option.split)

lemma reading_forSchema: "reading (forSchema s) w"
  by (simp add: reading_def forSchema_def await_run throwIf_run)

lemma reading_read_db: "reading (read_db s f) w"
  by (simp add: reading_def read_db_def split: option.split)

lemmas tenant_readings =
  reading_rules reading_query reading_finds reading_getSchemaName reading_forSchema reading_read_db

subsection \<open>Foreign keys\<close>

definition in_schema :: "string \<Rightarrow> (tenant_db \<Rightarrow> bool) \<Rightarrow> world \<Rightarrow> bool" where
  "in_schema s p w = (case w_schemas w s of None \<Rightarrow> False | Some db \<Rightarrow> p db)"

definition role_permission_refs :: "string \<Rightarrow> role_permission \<Rightarrow> world \<Rightarrow> bool" where
  "role_permission_refs s rp =
     in_schema s (\<lambda>db. existsRow (\<lambda>r. r_id r = rp_roleId rp) (db_roles db) \<and>
       existsRow (\<lambda>p. pm_id p = rp_permissionId rp) (db_permissions db))"

definition branch_refs :: "string \<Rightarrow> branch \<Rightarrow> world \<Rightarrow> bool" where
  "branch_refs s b =
     in_schema s (\<lambda>db. case b_parentBranchId b of
       None \<Rightarrow> True
     | Some p \<Rightarrow> existsRow (\<lambda>x. b_id x = p) (db_branches db))"

text \<open>
  The integrity of the tables that carry the rights of a tenant (roles, permissions, their
  assignments, branches and memberships): their unique columns have no duplicates and the foreign
  keys between them point to rows that exist.
\<close>

definition unique_rows :: "tenant_db \<Rightarrow> bool" where
  "unique_rows db \<longleftrightarrow>
     uniqueBy r_id (db_roles db) \<and> uniqueBy r_slug (db_roles db) \<and>
     uniqueBy pm_id (db_permissions db) \<and> uniqueBy b_id (db_branches db) \<and>
     uniqueBy b_code (db_branches db) \<and> uniqueBy ubm_id (db_memberships db) \<and>
     uniqueBy (\<lambda>a. (rp_roleId a, rp_permissionId a)) (db_rolePermissions db)"

definition roles_of :: "tenant_db \<Rightarrow> string set" where
  "roles_of db = r_id ` set (db_roles db)"

definition branches_of :: "tenant_db \<Rightarrow> string set" where
  "branches_of db = b_id ` set (db_branches db)"

definition references_ok :: "tenant_db \<Rightarrow> bool" where
  "references_ok db \<longleftrightarrow>
     rp_roleId ` set (db_rolePermissions db) \<subseteq> roles_of db \<and>
     rp_permissionId ` set (db_rolePermissions db) \<subseteq> pm_id ` set (db_permissions db) \<and>
     ubm_roleId ` set (db_memberships db) \<subseteq> roles_of db \<and>
     (\<Union>m \<in> set (db_memberships db). set_option (ubm_branchId m)) \<subseteq> branches_of db \<and>
     (\<Union>b \<in> set (db_branches db). set_option (b_parentBranchId b)) \<subseteq> branches_of db"

definition db_ok :: "tenant_db \<Rightarrow> bool" where
  "db_ok db \<longleftrightarrow> unique_rows db \<and> references_ok db"

definition tenants_ok :: "world \<Rightarrow> bool" where
  "tenants_ok w \<longleftrightarrow> (\<forall>s db. w_schemas w s = Some db \<longrightarrow> db_ok db)"

subsection \<open>Changes of a tenant database\<close>

text \<open>The changes that the modules make to a tenant database, one write at a time.\<close>

inductive db_change :: "tenant_db \<Rightarrow> tenant_db \<Rightarrow> bool" for db where
  New_role: "\<not> existsRow (role_clash r) (db_roles db) \<Longrightarrow> db_change db (db_roles_update (insertRow r) db)"
| Drop_role: "\<not> existsRow (\<lambda>m. ubm_roleId m = i) (db_memberships db) \<Longrightarrow>
    db_change db (db_roles_update (deleteRows (\<lambda>r. r_id r = i))
      (db_rolePermissions_update (deleteRows (\<lambda>rp. rp_roleId rp = i)) db))"
| Grant: "\<not> existsRow (role_permission_clash rp) (db_rolePermissions db) \<Longrightarrow> rp_roleId rp \<in> roles_of db \<Longrightarrow>
    rp_permissionId rp \<in> pm_id ` set (db_permissions db) \<Longrightarrow>
    db_change db (db_rolePermissions_update (insertRow rp) db)"
| Ungrant: "db_change db (db_rolePermissions_update (deleteRows p) db)"
| New_branch: "\<not> existsRow (branch_clash b) (db_branches db) \<Longrightarrow>
    set_option (b_parentBranchId b) \<subseteq> branches_of db \<Longrightarrow>
    db_change db (db_branches_update (insertRow b) db)"
| Change_branch: "(\<And>b. b_id (f b) = b_id b \<and> b_code (f b) = b_code b \<and>
      set_option (b_parentBranchId (f b)) \<subseteq> set_option (b_parentBranchId b) \<union> branches_of db) \<Longrightarrow>
    db_change db (db_branches_update (updateRows q f) db)"
| New_membership: "\<not> existsRow (membership_clash m) (db_memberships db) \<Longrightarrow> ubm_roleId m \<in> roles_of db \<Longrightarrow>
    set_option (ubm_branchId m) \<subseteq> branches_of db \<Longrightarrow>
    db_change db (db_memberships_update (insertRow m) db)"
| Change_membership: "(\<And>m. ubm_id (g m) = ubm_id m \<and> ubm_userId (g m) = ubm_userId m \<and>
      ubm_roleId (g m) = ubm_roleId m \<and> ubm_branchId (g m) = ubm_branchId m \<and>
      (ubm_revokedAt m \<noteq> None \<longrightarrow> ubm_revokedAt (g m) \<noteq> None)) \<Longrightarrow>
    db_change db (db_memberships_update (updateRows q' g) db)"
| Crm: "crm_change (db_crm db) (h (db_crm db)) \<Longrightarrow> db_change db (db_crm_update h db)"

inductive_cases db_changeE: "db_change db db'"

lemmas clash_defs = role_clash_def role_permission_clash_def branch_clash_def membership_clash_def

lemma change_unique:
  assumes "db_change db db'" and "unique_rows db"
  shows "unique_rows db'"
  using assms(1)
proof (cases rule: db_change.cases)
  case (New_role r)
  with assms(2) show ?thesis
    by (simp add: unique_rows_def uniqueBy_insert_free [where clash = role_clash] clash_defs)
next
  case (Grant rp)
  with assms(2) have "uniqueBy (\<lambda>a. (rp_roleId a, rp_permissionId a)) (db_rolePermissions db')"
    by (auto intro!: uniqueBy_insert_free [where clash = role_permission_clash]
        simp: unique_rows_def clash_defs)
  with assms(2) Grant show ?thesis by (simp add: unique_rows_def)
next
  case (New_branch b)
  with assms(2) show ?thesis
    by (simp add: unique_rows_def uniqueBy_insert_free [where clash = branch_clash] clash_defs)
next
  case (New_membership m)
  with assms(2) show ?thesis
    by (simp add: unique_rows_def uniqueBy_insert_free [where clash = membership_clash] clash_defs)
next
  case (Drop_role i)
  with assms(2) show ?thesis by (simp add: unique_rows_def uniqueBy_deleteRows)
next
  case (Ungrant p)
  with assms(2) show ?thesis by (simp add: unique_rows_def uniqueBy_deleteRows)
next
  case (Change_branch f q)
  with assms(2) show ?thesis by (simp add: unique_rows_def uniqueBy_updateRows)
next
  case (Change_membership g q')
  with assms(2) show ?thesis by (simp add: unique_rows_def uniqueBy_updateRows)
next
  case (Crm h)
  with assms(2) show ?thesis by (simp add: unique_rows_def)
qed

lemma change_references:
  assumes "db_change db db'" and "references_ok db"
  shows "references_ok db'"
  using assms(1)
proof (cases rule: db_change.cases)
  case (Change_branch f q)
  then have same: "branches_of db' = branches_of db"
    by (simp add: branches_of_def image_updateRows)
  have old: "set_option (b_parentBranchId b) \<subseteq> branches_of db" if "b \<in> set (db_branches db)" for b
    using assms(2) that by (simp add: references_ok_def UN_subset_iff)
  then have "set_option (b_parentBranchId (f b)) \<subseteq> branches_of db" if "b \<in> set (db_branches db)" for b
    using Change_branch(2) [of b] that by blast
  with old have "(\<Union>b \<in> set (db_branches db'). set_option (b_parentBranchId b)) \<subseteq> branches_of db"
    by (simp add: Change_branch(1) set_updateRows UN_subset_iff)
  with assms(2) Change_branch same show ?thesis by (simp add: references_ok_def roles_of_def)
next
  case (Change_membership g q')
  then have "ubm_roleId ` set (db_memberships db') = ubm_roleId ` set (db_memberships db)"
    "(\<Union>m \<in> set (db_memberships db'). set_option (ubm_branchId m)) =
      (\<Union>m \<in> set (db_memberships db). set_option (ubm_branchId m))"
    by (simp_all add: image_updateRows image_keep_updateRows)
  with assms(2) Change_membership show ?thesis
    by (simp add: references_ok_def roles_of_def branches_of_def)
next
  case (New_role r)
  with assms(2) show ?thesis by (auto simp: references_ok_def roles_of_def branches_of_def)
next
  case (Grant rp)
  with assms(2) show ?thesis by (auto simp: references_ok_def roles_of_def branches_of_def)
next
  case (New_branch b)
  with assms(2) show ?thesis by (auto simp: references_ok_def roles_of_def branches_of_def)
next
  case (New_membership m)
  with assms(2) show ?thesis by (auto simp: references_ok_def roles_of_def branches_of_def)
next
  case (Drop_role i)
  then have "roles_of db' = roles_of db - {i}" by (auto simp: roles_of_def)
  moreover have "i \<notin> ubm_roleId ` set (db_memberships db)"
    using Drop_role(2) by (auto simp: existsRow_iff)
  ultimately show ?thesis
    using assms(2) unfolding Drop_role(1) references_ok_def branches_of_def by auto
next
  case (Ungrant p)
  with assms(2) show ?thesis by (auto simp: references_ok_def roles_of_def branches_of_def)
next
  case (Crm h)
  with assms(2) show ?thesis by (simp add: references_ok_def roles_of_def branches_of_def)
qed

lemma change_ok: "db_change db db' \<Longrightarrow> db_ok db \<Longrightarrow> db_ok db'"
  by (simp add: db_ok_def change_unique change_references)


subsection \<open>The interface of the modules\<close>

text \<open>
  A relation between states that ignores everything outside the tenant schemas and holds of one
  change of one tenant database. Every operation of the tenant modules is made of such writes.
\<close>

locale tenant_writes = effect R for R :: "world \<Rightarrow> world \<Rightarrow> bool" +
  assumes outside: "w_schemas w' = w_schemas w \<Longrightarrow> R w w'"
    and change: "w_schemas w s = Some db \<Longrightarrow> db_change db db' \<Longrightarrow>
      w_schemas w' = (w_schemas w)(s \<mapsto> db') \<Longrightarrow> R w w'"
begin

lemma change_on_schema:
  assumes "\<And>db. w_schemas w s = Some db \<Longrightarrow> db_change db (f db)"
  shows "R w (on_schema s f w)"
proof (cases "w_schemas w s")
  case None
  then show ?thesis by (intro outside) (simp add: on_schema_def fun_upd_idem)
next
  case (Some db)
  with assms show ?thesis by (intro change [of w s db "f db"]) (simp_all add: on_schema_def)
qed

lemma effect_date_now: "has_effect R date_now"
  unfolding date_now_def by (rule effect_reads)

lemma randomUUID_effect: "has_effect R (randomUUID E)"
  by (intro effect_randomUUID outside) simp

lemma effect_getSchemaName: "has_effect R (getSchemaName i)"
  unfolding getSchemaName_def by (intro effect_rules table_rules)

lemma effect_forSchema: "has_effect R (forSchema s)"
  unfolding forSchema_def by (intro effect_rules)

lemma effect_read_db: "has_effect R (read_db s f)"
  by (simp add: has_effect_def after_def read_db_def refl split: option.split)

lemma effect_findOrdered: "has_effect R (findOrdered T p key)"
  unfolding findOrdered_def by (intro effect_rules table_rules)

lemma effect_tenant_create:
  assumes "\<And>w db. w_schemas w s = Some db \<Longrightarrow> \<not> existsRow (clash r) (get db) \<Longrightarrow> refs r w \<Longrightarrow>
      db_change db (upd (insertRow r) db)"
  shows "has_effect R (create (tenant_table s get upd) clash refs r)"
proof (rule has_effectI)
  fix w
  show "R w (after (create (tenant_table s get upd) clash refs r) w)"
  proof (cases "w_schemas w s")
    case None
    then show ?thesis
      by (simp add: after_def create_def await_run query_run tenant_table_def refl)
  next
    case (Some db)
    then have "rows (tenant_table s get upd) w = Some (get db)" by (simp add: tenant_table_def)
    from create_run [OF this, of clash refs r]
    show ?thesis
      using assms [OF Some]
      by (auto simp: after_def tenant_table_def refl Some intro!: change_on_schema)
  qed
qed

lemma effect_tenant_updateMany:
  assumes "\<And>db. db_change db (upd (updateRows p f) db)"
  shows "has_effect R (updateMany (tenant_table s get upd) p f)"
  unfolding updateMany_def tenant_table_def
  by (intro effect_rules table_rules effect_mutate) (simp add: change_on_schema assms)

lemma effect_tenant_update:
  assumes "\<And>db. db_change db (upd (updateBy key k f) db)"
  shows "has_effect R (update (tenant_table s get upd) key k f)"
  unfolding update_def tenant_table_def
  by (intro effect_rules table_rules effect_mutate)
     (simp add: change_on_schema assms)

lemma effect_tenant_deleteMany:
  assumes "\<And>db. db_change db (upd (deleteRows p) db)"
  shows "has_effect R (deleteMany (tenant_table s get upd) p)"
  unfolding deleteMany_def tenant_table_def
  by (intro effect_rules table_rules effect_mutate) (simp add: change_on_schema assms)

lemma effect_findPage: "has_effect R (findPage T p key page limit)"
  unfolding findPage_def by (intro effect_rules effect_findOrdered)

lemmas tenant_rules =
  effect_rules table_rules effect_date_now effect_getSchemaName effect_forSchema effect_read_db
  effect_findOrdered effect_findPage

end

text \<open>The integrity of all tenant databases is kept by such writes.\<close>

interpretation integrity: tenant_writes "keeps tenants_ok"
proof
  show "w_schemas w' = w_schemas w \<Longrightarrow> keeps tenants_ok w w'" for w w' :: world
    by (simp add: keeps_def tenants_ok_def)
  show "w_schemas w s = Some db \<Longrightarrow> db_change db db' \<Longrightarrow> w_schemas w' = (w_schemas w)(s \<mapsto> db') \<Longrightarrow>
      keeps tenants_ok w w'" for w w' :: world and s db db'
    by (auto simp: keeps_def tenants_ok_def intro: change_ok)
qed

text \<open>So is the fact that an assignment was revoked.\<close>

definition revoked_ids :: "string \<Rightarrow> world \<Rightarrow> string set" where
  "revoked_ids s w =
     (case w_schemas w s of
        None \<Rightarrow> {}
      | Some db \<Rightarrow> ubm_id ` {m \<in> set (db_memberships db). ubm_revokedAt m \<noteq> None})"

lemma change_revoked:
  assumes "db_change db db'"
  shows "ubm_id ` {m \<in> set (db_memberships db). ubm_revokedAt m \<noteq> None} \<subseteq>
    ubm_id ` {m \<in> set (db_memberships db'). ubm_revokedAt m \<noteq> None}"
  using assms
proof (cases rule: db_change.cases)
  case (Change_membership g q')
  show ?thesis
  proof
    fix i
    assume "i \<in> ubm_id ` {m \<in> set (db_memberships db). ubm_revokedAt m \<noteq> None}"
    then obtain m where m: "m \<in> set (db_memberships db)" "ubm_revokedAt m \<noteq> None" "ubm_id m = i"
      by blast
    define m' where "m' = (if q' m then g m else m)"
    have "m' \<in> set (db_memberships db')"
      using m(1) by (auto simp: Change_membership(1) set_updateRows m'_def)
    moreover have "ubm_revokedAt m' \<noteq> None" "ubm_id m' = i"
      using m Change_membership(2) [of m] by (auto simp: m'_def)
    ultimately show "i \<in> ubm_id ` {m \<in> set (db_memberships db'). ubm_revokedAt m \<noteq> None}"
      by blast
  qed
qed auto

interpretation revocations: tenant_writes "grows (revoked_ids s)" for s
proof
  show "w_schemas w' = w_schemas w \<Longrightarrow> grows (revoked_ids s) w w'" for w w' :: world
    by (simp add: grows_def revoked_ids_def)
  show "w_schemas w s' = Some db \<Longrightarrow> db_change db db' \<Longrightarrow> w_schemas w' = (w_schemas w)(s' \<mapsto> db') \<Longrightarrow>
      grows (revoked_ids s) w w'" for w w' :: world and s' db db'
    using change_revoked [of db db'] by (simp add: grows_def revoked_ids_def)
qed


subsection \<open>Handlers that have returned\<close>

text \<open>
  What is known when a handler has returned: for each statement the equivalence that reads its
  conditions, its result and its state off a run that ended without an error.
\<close>

lemma transaction_Inr_iff: "transaction m w = (Inr x, w') \<longleftrightarrow> m w = (Inr x, w')"
  by (auto simp: transaction_run split: prod.splits sum.splits)

lemma throwIf_Inr_iff: "throwIf b e w = (Inr u, w') \<longleftrightarrow> \<not> b \<and> w' = w"
  by (auto simp: throwIf_run)

lemma forSchema_Inr_iff: "forSchema n w = (Inr s, w') \<longleftrightarrow> valid_schema_name n \<and> s = n \<and> w' = w"
  by (auto simp: forSchema_def await_run throwIf_run)

lemma findUnique_Inr_iff:
  "findUnique T key k w = (Inr x, w') \<longleftrightarrow> (\<exists>t. rows T w = Some t \<and> x = lookupBy key k t \<and> w' = w)"
  by (auto simp: findUnique_def query_run split: option.split)

lemma query_Inr_iff: "query T f w = (Inr x, w') \<longleftrightarrow> (\<exists>t. rows T w = Some t \<and> x = f t \<and> w' = w)"
  by (auto simp: query_run split: option.split)

lemma deleteMany_Inr_iff:
  "deleteMany T p w = (Inr n, w') \<longleftrightarrow>
     (\<exists>t. rows T w = Some t \<and> n = countRows p t \<and> w' = on_rows T (deleteRows p) w)"
  by (auto simp: deleteMany_def count_def query_run await_run split: option.split)

lemma create_Inr_iff:
  "create T clash refs r w = (Inr x, w') \<longleftrightarrow>
     (\<exists>t. rows T w = Some t \<and> \<not> existsRow (clash r) t \<and> refs r w \<and> x = r \<and>
        w' = on_rows T (insertRow r) w)"
  by (auto simp: create_def query_run await_run throwIf_run split: option.split)

lemma read_db_Inr_iff:
  "read_db s f w = (Inr x, w') \<longleftrightarrow> (\<exists>db. w_schemas w s = Some db \<and> x = f db \<and> w' = w)"
  by (auto simp: read_db_def split: option.split)

lemmas Inr_iffs = await_Inr_iff transaction_Inr_iff throwIf_Inr_iff forSchema_Inr_iff
  findUnique_Inr_iff query_Inr_iff deleteMany_Inr_iff create_Inr_iff read_db_Inr_iff

end
