(* ===== verification/Crm_Tables.thy ===== *)
theory Crm_Tables
  imports Tenant_Api
begin

text \<open>
  The tables of the CRM modules in the schema of a tenant, with the forms of write that these
  modules use beside those of the roles and branches: an update that the database checks against its
  unique columns and foreign keys, and the identifiers that the client checks before it writes.
\<close>

subsection \<open>Tables\<close>

definition crm_table ::
    "string \<Rightarrow> (crm_db \<Rightarrow> 'r list) \<Rightarrow> (('r list \<Rightarrow> 'r list) \<Rightarrow> crm_db \<Rightarrow> crm_db) \<Rightarrow> (world, 'r) tbl" where
  "crm_table s get upd = tenant_table s (\<lambda>db. get (db_crm db)) (\<lambda>f. db_crm_update (upd f))"

definition customFields :: "string \<Rightarrow> (world, custom_field) tbl" where
  "customFields s = crm_table s crm_customFields crm_customFields_update"

definition tags :: "string \<Rightarrow> (world, tag) tbl" where
  "tags s = crm_table s crm_tags crm_tags_update"

definition entityTags :: "string \<Rightarrow> (world, entity_tag) tbl" where
  "entityTags s = crm_table s crm_entityTags crm_entityTags_update"

definition contactSources :: "string \<Rightarrow> (world, contact_source) tbl" where
  "contactSources s = crm_table s crm_sources crm_sources_update"

definition leadStatuses :: "string \<Rightarrow> (world, lead_status) tbl" where
  "leadStatuses s = crm_table s crm_leadStatuses crm_leadStatuses_update"

definition contacts :: "string \<Rightarrow> (world, contact) tbl" where
  "contacts s = crm_table s crm_contacts crm_contacts_update"

definition leads :: "string \<Rightarrow> (world, lead) tbl" where
  "leads s = crm_table s crm_leads crm_leads_update"

definition leadActivities :: "string \<Rightarrow> (world, lead_activity) tbl" where
  "leadActivities s = crm_table s crm_activities crm_activities_update"

definition contactLists :: "string \<Rightarrow> (world, contact_list) tbl" where
  "contactLists s = crm_table s crm_lists crm_lists_update"

definition contactListMembers :: "string \<Rightarrow> (world, contact_list_member) tbl" where
  "contactListMembers s = crm_table s crm_listMembers crm_listMembers_update"

definition assignmentConfigs :: "string \<Rightarrow> (world, assignment_config) tbl" where
  "assignmentConfigs s = crm_table s crm_configs crm_configs_update"

definition leadWebhooks :: "string \<Rightarrow> (world, lead_webhook) tbl" where
  "leadWebhooks s = crm_table s crm_webhooks crm_webhooks_update"

definition tasks :: "string \<Rightarrow> (world, task) tbl" where
  "tasks s = crm_table s crm_tasks crm_tasks_update"

definition taskAssignees :: "string \<Rightarrow> (world, task_assignee) tbl" where
  "taskAssignees s = crm_table s crm_assignees crm_assignees_update"

definition taskChecklists :: "string \<Rightarrow> (world, task_checklist) tbl" where
  "taskChecklists s = crm_table s crm_checklists crm_checklists_update"

definition checklistItems :: "string \<Rightarrow> (world, checklist_item) tbl" where
  "checklistItems s = crm_table s crm_items crm_items_update"

lemmas crm_table_defs =
  customFields_def tags_def entityTags_def contactSources_def leadStatuses_def
  contacts_def leads_def leadActivities_def contactLists_def contactListMembers_def
  assignmentConfigs_def leadWebhooks_def tasks_def taskAssignees_def taskChecklists_def
  checklistItems_def

lemma crm_rows [act, simp]:
  "rows (customFields s) w = map_option (\<lambda>db. crm_customFields (db_crm db)) (w_schemas w s)"
  "rows (tags s) w = map_option (\<lambda>db. crm_tags (db_crm db)) (w_schemas w s)"
  "rows (entityTags s) w = map_option (\<lambda>db. crm_entityTags (db_crm db)) (w_schemas w s)"
  "rows (contactSources s) w = map_option (\<lambda>db. crm_sources (db_crm db)) (w_schemas w s)"
  "rows (leadStatuses s) w = map_option (\<lambda>db. crm_leadStatuses (db_crm db)) (w_schemas w s)"
  "rows (contacts s) w = map_option (\<lambda>db. crm_contacts (db_crm db)) (w_schemas w s)"
  "rows (leads s) w = map_option (\<lambda>db. crm_leads (db_crm db)) (w_schemas w s)"
  "rows (leadActivities s) w = map_option (\<lambda>db. crm_activities (db_crm db)) (w_schemas w s)"
  "rows (contactLists s) w = map_option (\<lambda>db. crm_lists (db_crm db)) (w_schemas w s)"
  "rows (contactListMembers s) w = map_option (\<lambda>db. crm_listMembers (db_crm db)) (w_schemas w s)"
  "rows (assignmentConfigs s) w = map_option (\<lambda>db. crm_configs (db_crm db)) (w_schemas w s)"
  "rows (leadWebhooks s) w = map_option (\<lambda>db. crm_webhooks (db_crm db)) (w_schemas w s)"
  "rows (tasks s) w = map_option (\<lambda>db. crm_tasks (db_crm db)) (w_schemas w s)"
  "rows (taskAssignees s) w = map_option (\<lambda>db. crm_assignees (db_crm db)) (w_schemas w s)"
  "rows (taskChecklists s) w = map_option (\<lambda>db. crm_checklists (db_crm db)) (w_schemas w s)"
  "rows (checklistItems s) w = map_option (\<lambda>db. crm_items (db_crm db)) (w_schemas w s)"
  by (simp_all add: crm_table_defs crm_table_def tenant_table_def)

lemma crm_on_rows [act, simp]:
  "on_rows (customFields s) g0 w = on_schema s (db_crm_update (crm_customFields_update g0)) w"
  "on_rows (tags s) g1 w = on_schema s (db_crm_update (crm_tags_update g1)) w"
  "on_rows (entityTags s) g2 w = on_schema s (db_crm_update (crm_entityTags_update g2)) w"
  "on_rows (contactSources s) g3 w = on_schema s (db_crm_update (crm_sources_update g3)) w"
  "on_rows (leadStatuses s) g4 w = on_schema s (db_crm_update (crm_leadStatuses_update g4)) w"
  "on_rows (contacts s) g5 w = on_schema s (db_crm_update (crm_contacts_update g5)) w"
  "on_rows (leads s) g6 w = on_schema s (db_crm_update (crm_leads_update g6)) w"
  "on_rows (leadActivities s) g7 w = on_schema s (db_crm_update (crm_activities_update g7)) w"
  "on_rows (contactLists s) g8 w = on_schema s (db_crm_update (crm_lists_update g8)) w"
  "on_rows (contactListMembers s) g9 w = on_schema s (db_crm_update (crm_listMembers_update g9)) w"
  "on_rows (assignmentConfigs s) g10 w = on_schema s (db_crm_update (crm_configs_update g10)) w"
  "on_rows (leadWebhooks s) g11 w = on_schema s (db_crm_update (crm_webhooks_update g11)) w"
  "on_rows (tasks s) g12 w = on_schema s (db_crm_update (crm_tasks_update g12)) w"
  "on_rows (taskAssignees s) g13 w = on_schema s (db_crm_update (crm_assignees_update g13)) w"
  "on_rows (taskChecklists s) g14 w = on_schema s (db_crm_update (crm_checklists_update g14)) w"
  "on_rows (checklistItems s) g15 w = on_schema s (db_crm_update (crm_items_update g15)) w"
  by (simp_all add: crm_table_defs crm_table_def tenant_table_def)

interpretation customFields_t: stored_table "customFields s" for s
  by unfold_locales (simp add: option.map_comp comp_def)

interpretation tags_t: stored_table "tags s" for s
  by unfold_locales (simp add: option.map_comp comp_def)

interpretation entityTags_t: stored_table "entityTags s" for s
  by unfold_locales (simp add: option.map_comp comp_def)

interpretation contactSources_t: stored_table "contactSources s" for s
  by unfold_locales (simp add: option.map_comp comp_def)

interpretation leadStatuses_t: stored_table "leadStatuses s" for s
  by unfold_locales (simp add: option.map_comp comp_def)

interpretation contacts_t: stored_table "contacts s" for s
  by unfold_locales (simp add: option.map_comp comp_def)

interpretation leads_t: stored_table "leads s" for s
  by unfold_locales (simp add: option.map_comp comp_def)

interpretation leadActivities_t: stored_table "leadActivities s" for s
  by unfold_locales (simp add: option.map_comp comp_def)

interpretation contactLists_t: stored_table "contactLists s" for s
  by unfold_locales (simp add: option.map_comp comp_def)

interpretation contactListMembers_t: stored_table "contactListMembers s" for s
  by unfold_locales (simp add: option.map_comp comp_def)

interpretation assignmentConfigs_t: stored_table "assignmentConfigs s" for s
  by unfold_locales (simp add: option.map_comp comp_def)

interpretation leadWebhooks_t: stored_table "leadWebhooks s" for s
  by unfold_locales (simp add: option.map_comp comp_def)

interpretation tasks_t: stored_table "tasks s" for s
  by unfold_locales (simp add: option.map_comp comp_def)

interpretation taskAssignees_t: stored_table "taskAssignees s" for s
  by unfold_locales (simp add: option.map_comp comp_def)

interpretation taskChecklists_t: stored_table "taskChecklists s" for s
  by unfold_locales (simp add: option.map_comp comp_def)

interpretation checklistItems_t: stored_table "checklistItems s" for s
  by unfold_locales (simp add: option.map_comp comp_def)

subsection \<open>Checked writes\<close>

text \<open>
  \<^verbatim>\<open>update\<close> of the row with a unique key: the database refuses a row that then has a unique column
  in common with another row, or names a row that does not exist.
\<close>

definition updateChecked ::
    "('w, 'r) tbl \<Rightarrow> ('r \<Rightarrow> 'k) \<Rightarrow> 'k \<Rightarrow> ('r \<Rightarrow> 'r \<Rightarrow> bool) \<Rightarrow> ('r \<Rightarrow> 'w \<Rightarrow> bool) \<Rightarrow> ('r \<Rightarrow> 'r) \<Rightarrow>
       ('w, 'r) handler" where
  "updateChecked T key k clash refs f =
     await (findUnique T key k) (\<lambda>found.
     case found of
       None \<Rightarrow> throw (Prisma P2025)
     | Some r \<Rightarrow>
         await (query T (existsRow (\<lambda>r'. key r' \<noteq> k \<and> clash (f r) r'))) (\<lambda>taken.
         await (throwIf taken (Prisma P2002)) (\<lambda>_.
         await (reads (refs (f r))) (\<lambda>ok.
         await (throwIf (\<not> ok) (Prisma P2003)) (\<lambda>_.
         await (mutate T (updateBy key k f)) (\<lambda>_.
         ret (f r)))))))"

lemma updateChecked_run [act]:
  "rows T w = Some t \<Longrightarrow>
     updateChecked T key k clash refs f w =
       (case lookupBy key k t of
          None \<Rightarrow> (Inl (Prisma P2025), w)
        | Some r \<Rightarrow>
            if existsRow (\<lambda>r'. key r' \<noteq> k \<and> clash (f r) r') t then (Inl (Prisma P2002), w)
            else if \<not> refs (f r) w then (Inl (Prisma P2003), w)
            else (Inr (f r), on_rows T (updateBy key k f) w))"
  by (simp add: updateChecked_def findUnique_run await_run query_run throwIf_run split: option.splits)

text \<open>The client refuses a text for an identifier column that is no identifier.\<close>

definition check_uuids :: "env \<Rightarrow> string option list \<Rightarrow> ('w, unit) handler" where
  "check_uuids E ids =
     throwIf (\<not> list_all (\<lambda>i. case i of None \<Rightarrow> True | Some u \<Rightarrow> e_isUuid E u) ids) (Prisma P2023)"

lemma check_uuids_run [act]:
  "check_uuids E ids w =
     (if list_all (\<lambda>i. case i of None \<Rightarrow> True | Some u \<Rightarrow> e_isUuid E u) ids then (Inr (), w)
      else (Inl (Prisma P2023), w))"
  by (simp add: check_uuids_def throwIf_run)

text \<open>
  Two requests to the database under \<^verbatim>\<open>Promise.all\<close>: both are sent, whatever the other answers, and
  the first error is the answer of the pair.
\<close>

definition both :: "('w, 'a) handler \<Rightarrow> ('w, 'b) handler \<Rightarrow> ('w, 'a \<times> 'b) handler" where
  "both m n = (\<lambda>w.
     case m w of
       (Inl e, w') \<Rightarrow> (Inl e, snd (n w'))
     | (Inr x, w') \<Rightarrow> (case n w' of (Inl e, w'') \<Rightarrow> (Inl e, w'') | (Inr y, w'') \<Rightarrow> (Inr (x, y), w'')))"

lemma both_run [act]:
  "both m n w =
     (case m w of
        (Inl e, w') \<Rightarrow> (Inl e, snd (n w'))
      | (Inr x, w') \<Rightarrow> (case n w' of (Inl e, w'') \<Rightarrow> (Inl e, w'') | (Inr y, w'') \<Rightarrow> (Inr (x, y), w'')))"
  by (simp add: both_def)

text \<open>
  What a request may send for a column: nothing, which leaves it as it is, or a value; for a column
  that takes null the value may be null.
\<close>

definition patched :: "'a option \<Rightarrow> 'a \<Rightarrow> 'a" where
  "patched p v = orElse p v"

lemma patched_simps [simp]: "patched None v = v" "patched (Some x) v = x"
  by (simp_all add: patched_def)

text \<open>A column that takes no null: the client refuses one.\<close>

definition no_null :: "'a option option \<Rightarrow> bool" where
  "no_null p \<longleftrightarrow> p \<noteq> Some None"

definition patched_value :: "'a option option \<Rightarrow> 'a \<Rightarrow> 'a" where
  "patched_value p v = orElse (orElse p None) v"

lemma patched_value_simps [simp]:
  "patched_value None v = v" "patched_value (Some None) v = v" "patched_value (Some (Some x)) v = x"
  by (simp_all add: patched_value_def)

subsection \<open>References\<close>

definition in_crm :: "string \<Rightarrow> (crm_db \<Rightarrow> bool) \<Rightarrow> world \<Rightarrow> bool" where
  "in_crm s p = in_schema s (\<lambda>db. p (db_crm db))"

definition branch_there :: "string \<Rightarrow> string \<Rightarrow> world \<Rightarrow> bool" where
  "branch_there s i = in_schema s (\<lambda>db. existsRow (\<lambda>b. b_id b = i) (db_branches db))"

definition optional_ref :: "('r \<Rightarrow> string) \<Rightarrow> string option \<Rightarrow> 'r list \<Rightarrow> bool" where
  "optional_ref key i t = (case i of None \<Rightarrow> True | Some k \<Rightarrow> existsRow (\<lambda>r. key r = k) t)"

subsection \<open>Effects\<close>

context effect
begin

lemma effect_updateChecked:
  "(\<And>w. R w (on_rows T (updateBy key k f) w)) \<Longrightarrow> has_effect R (updateChecked T key k clash refs f)"
  unfolding updateChecked_def by (intro effect_rules table_rules effect_mutate)

lemma effect_check_uuids: "has_effect R (check_uuids E ids)"
  unfolding check_uuids_def by (rule effect_throwIf)

lemma effect_both:
  assumes "has_effect R m" and "has_effect R n"
  shows "has_effect R (both m n)"
proof (rule has_effectI)
  fix w
  obtain x w' where m: "m w = (x, w')" by (cases "m w")
  obtain y w'' where n: "n w' = (y, w'')" by (cases "n w'")
  have "R w w''" using has_effectD [OF assms(1) m] has_effectD [OF assms(2) n] by (rule trans)
  then show "R w (after (both m n) w)"
    by (simp add: after_def both_def m n split: sum.split)
qed

end

context tenant_writes
begin

lemma crm_write:
  "(\<And>c. crm_change c (h c)) \<Longrightarrow> R w (on_schema s (db_crm_update h) w)"
  by (intro change_on_schema Crm)

lemma crm_write_beside: "(\<And>c. crm_leads (h c) = crm_leads c) \<Longrightarrow> R w (on_schema s (db_crm_update h) w)"
  by (intro crm_write Same_leads)

lemma lead_write:
  assumes "\<And>l. conversion (f l) = conversion l"
  shows "R w (on_rows (leads s) (updateBy key k f) w)"
  using assms by (simp add: updateBy_eta crm_write crm_change.Change_leads)

lemma effect_lead_create: "has_effect R (create (leads s) lead_clash refs l)"
  unfolding leads_def crm_table_def
  by (intro effect_tenant_create Crm New_lead [where l = l]) simp_all

lemma table_writes:
  "R w (on_rows (customFields s) f1 w)"
  "R w (on_rows (tags s) f2 w)"
  "R w (on_rows (entityTags s) f3 w)"
  "R w (on_rows (contactSources s) f4 w)"
  "R w (on_rows (leadStatuses s) f5 w)"
  "R w (on_rows (contacts s) f6 w)"
  "R w (on_rows (leadActivities s) f7 w)"
  "R w (on_rows (contactLists s) f8 w)"
  "R w (on_rows (contactListMembers s) f9 w)"
  "R w (on_rows (assignmentConfigs s) f10 w)"
  "R w (on_rows (leadWebhooks s) f11 w)"
  "R w (on_rows (tasks s) f12 w)"
  "R w (on_rows (taskAssignees s) f13 w)"
  "R w (on_rows (taskChecklists s) f14 w)"
  "R w (on_rows (checklistItems s) f15 w)"
  by (simp_all add: crm_write_beside)

lemma effect_workflowQueue_add: "has_effect R (workflowQueue_add job)"
  unfolding workflowQueue_add_def by (intro effect_writes outside) simp

lemma effect_tenant_redis:
  "has_effect R (redis_get k)" "has_effect R (redis_set k v)" "has_effect R (redis_del k)"
  "has_effect R (redis_incr k)"
  by (intro effect_redis outside; simp add: refl)+

lemma effect_tenant_mail: "has_effect R (mailQueue_add job)"
  by (intro effect_mailQueue_add outside) simp

lemmas crm_rules =
  effect_rules effect_findUnique effect_findFirst effect_findMany effect_count effect_query
  effect_date_now effect_getSchemaName effect_forSchema effect_read_db effect_findOrdered
  effect_findPage randomUUID_effect effect_check_uuids effect_both effect_workflowQueue_add
  effect_tenant_redis effect_tenant_mail table_writes effect_lead_create
  effect_create effect_update effect_updateMany effect_delete effect_deleteMany effect_updateChecked
  effect_writes

end

end
