(* ===== verification/Tags.thy ===== *)
theory Tags
  imports Crm_Tables
begin

text \<open>
  \<^verbatim>\<open>modules/tags\<close> and \<^verbatim>\<open>modules/custom-fields\<close> of \<^verbatim>\<open>crm-core\<close>: the tags of a tenant and the
  definitions of its custom fields. The mappers of both modules pass every column of the row on, so
  the rows stand for the responses. The column \<^verbatim>\<open>updatedAt\<close> is not modelled.
\<close>

subsection \<open>Tags\<close>

record CreateTagDto =
  ctd_name :: string
  ctd_color :: "string option"

record UpdateTagDto =
  utd_name :: "string option option"
  utd_color :: "string option option"

definition tags_findAll :: "env \<Rightarrow> string \<Rightarrow> string option \<Rightarrow> (world, tag list) handler" where
  "tags_findAll E schemaName search =
     await (forSchema schemaName) (\<lambda>s.
     findOrdered (tags s)
       (\<lambda>t. truthy search \<longrightarrow> e_contains E (tg_name t) (the search))
       (\<lambda>t. e_collate E (tg_name t)))"

definition tags_findById :: "string \<Rightarrow> string \<Rightarrow> (world, tag option) handler" where
  "tags_findById schemaName i = await (forSchema schemaName) (\<lambda>s. findUnique (tags s) tg_id i)"

definition findByName :: "string \<Rightarrow> string \<Rightarrow> (world, tag option) handler" where
  "findByName schemaName name = await (forSchema schemaName) (\<lambda>s. findUnique (tags s) tg_name name)"

definition tags_create :: "env \<Rightarrow> string \<Rightarrow> CreateTagDto \<Rightarrow> (world, tag) handler" where
  "tags_create E schemaName dto =
     await (forSchema schemaName) (\<lambda>s.
     await (randomUUID E) (\<lambda>i.
     await date_now (\<lambda>now.
     create (tags s) tag_clash no_refs
       \<lparr>tg_id = i, tg_name = ctd_name dto, tg_color = ctd_color dto, tg_isSystem = False,
        tg_createdAt = now\<rparr>)))"

definition patch_tag :: "UpdateTagDto \<Rightarrow> tag \<Rightarrow> tag" where
  "patch_tag dto t =
     t\<lparr>tg_name := patched_value (utd_name dto) (tg_name t),
       tg_color := patched (utd_color dto) (tg_color t)\<rparr>"

definition tags_update :: "string \<Rightarrow> string \<Rightarrow> UpdateTagDto \<Rightarrow> (world, tag) handler" where
  "tags_update schemaName i dto =
     await (forSchema schemaName) (\<lambda>s.
     await (throwIf (\<not> no_null (utd_name dto)) (Prisma PrismaValidation)) (\<lambda>_.
     updateChecked (tags s) tg_id i tag_clash no_refs (patch_tag dto)))"

text \<open>\<^verbatim>\<open>EntityTag.tag\<close>: the uses of a tag are deleted with it.\<close>

definition drop_tag :: "string \<Rightarrow> crm_db \<Rightarrow> crm_db" where
  "drop_tag i c =
     crm_tags_update (deleteRows (\<lambda>t. tg_id t = i))
       (crm_entityTags_update (deleteRows (\<lambda>e. et_tagId e = i)) c)"

definition tags_delete :: "string \<Rightarrow> string \<Rightarrow> (world, unit) handler" where
  "tags_delete schemaName i =
     await (forSchema schemaName) (\<lambda>s.
     await (findUnique (tags s) tg_id i) (\<lambda>found.
     await (throwIf (found = None) (Prisma P2025)) (\<lambda>_.
     writes (on_schema s (db_crm_update (drop_tag i))))))"

definition isTagInUse :: "string \<Rightarrow> string \<Rightarrow> (world, bool) handler" where
  "isTagInUse schemaName tagId =
     await (forSchema schemaName) (\<lambda>s.
     await (count (entityTags s) (\<lambda>e. et_tagId e = tagId)) (\<lambda>n. ret (0 < n)))"

definition listTags :: "env \<Rightarrow> string \<Rightarrow> string option \<Rightarrow> (world, tag list \<times> nat) handler" where
  "listTags E tenantId search =
     await (getSchemaName tenantId) (\<lambda>schemaName.
     await (tags_findAll E schemaName search) (\<lambda>data. ret (data, length data)))"

definition createTag :: "env \<Rightarrow> string \<Rightarrow> CreateTagDto \<Rightarrow> (world, tag) handler" where
  "createTag E tenantId dto =
     await (getSchemaName tenantId) (\<lambda>schemaName.
     await (findByName schemaName (ctd_name dto)) (\<lambda>existing.
     await (throwIf (existing \<noteq> None) (Crm (TagNameConflictException (ctd_name dto)))) (\<lambda>_.
     tags_create E schemaName dto)))"

text \<open>A new name that is null is looked up first, which the client refuses.\<close>

definition updateTag :: "string \<Rightarrow> string \<Rightarrow> UpdateTagDto \<Rightarrow> (world, tag) handler" where
  "updateTag tenantId i dto =
     await (getSchemaName tenantId) (\<lambda>schemaName.
     await (tags_findById schemaName i) (\<lambda>existing.
     case existing of
       None \<Rightarrow> throw (Crm TagNotFoundException)
     | Some t \<Rightarrow>
         await
           (case utd_name dto of
              None \<Rightarrow> ret ()
            | Some None \<Rightarrow> throw (Prisma PrismaValidation)
            | Some (Some name) \<Rightarrow>
                if name = tg_name t then ret ()
                else
                  await (findByName schemaName name) (\<lambda>nameConflict.
                  throwIf (nameConflict \<noteq> None) (Crm (TagNameConflictException name)))) (\<lambda>_.
         tags_update schemaName i dto)))"

definition deleteTag :: "string \<Rightarrow> string \<Rightarrow> (world, unit) handler" where
  "deleteTag tenantId i =
     await (getSchemaName tenantId) (\<lambda>schemaName.
     await (tags_findById schemaName i) (\<lambda>existing.
     await (throwIf (existing = None) (Crm TagNotFoundException)) (\<lambda>_.
     tags_delete schemaName i)))"

subsection \<open>Custom fields\<close>

instantiation CustomFieldEntityType :: linorder
begin

primrec rank_CustomFieldEntityType :: "CustomFieldEntityType \<Rightarrow> nat" where
  "rank_CustomFieldEntityType CustomFieldEntityType.CONTACT = 0"
| "rank_CustomFieldEntityType CustomFieldEntityType.DEAL = 1"
| "rank_CustomFieldEntityType CustomFieldEntityType.LEAD = 2"

definition less_CustomFieldEntityType :: "CustomFieldEntityType \<Rightarrow> CustomFieldEntityType \<Rightarrow> bool" where
  "less_CustomFieldEntityType x y \<longleftrightarrow> rank_CustomFieldEntityType x < rank_CustomFieldEntityType y"

definition less_eq_CustomFieldEntityType :: "CustomFieldEntityType \<Rightarrow> CustomFieldEntityType \<Rightarrow> bool" where
  "less_eq_CustomFieldEntityType x y \<longleftrightarrow> rank_CustomFieldEntityType x \<le> rank_CustomFieldEntityType y"

instance
proof
  show "x \<le> y \<Longrightarrow> y \<le> x \<Longrightarrow> x = y" for x y :: CustomFieldEntityType
    by (cases x; cases y) (simp_all add: less_eq_CustomFieldEntityType_def)
qed (auto simp: less_CustomFieldEntityType_def less_eq_CustomFieldEntityType_def)

end

primrec entity_type_text :: "CustomFieldEntityType \<Rightarrow> string" where
  "entity_type_text CustomFieldEntityType.CONTACT = ''CONTACT''"
| "entity_type_text CustomFieldEntityType.DEAL = ''DEAL''"
| "entity_type_text CustomFieldEntityType.LEAD = ''LEAD''"

primrec field_type_text :: "CustomFieldType \<Rightarrow> string" where
  "field_type_text CustomFieldType.TEXT = ''TEXT''"
| "field_type_text CustomFieldType.TEXTAREA = ''TEXTAREA''"
| "field_type_text CustomFieldType.NUMBER = ''NUMBER''"
| "field_type_text CustomFieldType.BOOLEAN = ''BOOLEAN''"
| "field_type_text CustomFieldType.DATE = ''DATE''"
| "field_type_text CustomFieldType.DATETIME = ''DATETIME''"
| "field_type_text CustomFieldType.SELECT = ''SELECT''"
| "field_type_text CustomFieldType.MULTI_SELECT = ''MULTI_SELECT''"
| "field_type_text CustomFieldType.URL = ''URL''"
| "field_type_text CustomFieldType.EMAIL = ''EMAIL''"
| "field_type_text CustomFieldType.PHONE = ''PHONE''"

record CreateCustomFieldDto =
  ccf_entityType :: CustomFieldEntityType
  ccf_label :: string
  ccf_key :: string
  ccf_fieldType :: CustomFieldType
  ccf_isRequired :: "bool option"
  ccf_options :: "(string \<times> string) list option"
  ccf_defaultValue :: "string option"
  ccf_placeholder :: "string option"
  ccf_displayOrder :: "int option"

record UpdateCustomFieldDto =
  ucf_label :: "string option option"
  ucf_isRequired :: "bool option option"
  ucf_options :: "(string \<times> string) list option option"
  ucf_placeholder :: "string option option"

record FieldOrderItemDto =
  fo_id :: string
  fo_displayOrder :: int

definition fields_findAll ::
    "string \<Rightarrow> CustomFieldEntityType option \<Rightarrow> (world, custom_field list) handler" where
  "fields_findAll schemaName entityType =
     await (forSchema schemaName) (\<lambda>s.
     findOrdered (customFields s)
       (\<lambda>f. cf_isActive f \<and> (entityType = None \<or> entityType = Some (cf_entityType f)))
       (\<lambda>f. (cf_entityType f, cf_displayOrder f, cf_createdAt f)))"

definition fields_findById :: "string \<Rightarrow> string \<Rightarrow> (world, custom_field option) handler" where
  "fields_findById schemaName i =
     await (forSchema schemaName) (\<lambda>s. findUnique (customFields s) cf_id i)"

definition findByEntityTypeAndKey ::
    "string \<Rightarrow> CustomFieldEntityType \<Rightarrow> string \<Rightarrow> (world, custom_field option) handler" where
  "findByEntityTypeAndKey schemaName entityType key =
     await (forSchema schemaName) (\<lambda>s.
     findUnique (customFields s) (\<lambda>f. (cf_entityType f, cf_key f)) (entityType, key))"

definition fields_create :: "env \<Rightarrow> string \<Rightarrow> CreateCustomFieldDto \<Rightarrow> (world, custom_field) handler" where
  "fields_create E schemaName dto =
     await (forSchema schemaName) (\<lambda>s.
     await (randomUUID E) (\<lambda>i.
     await date_now (\<lambda>now.
     create (customFields s) custom_field_clash no_refs
       \<lparr>cf_id = i, cf_entityType = ccf_entityType dto, cf_label = ccf_label dto,
        cf_key = ccf_key dto, cf_fieldType = ccf_fieldType dto,
        cf_isRequired = orElse (ccf_isRequired dto) False,
        cf_options = orElse (ccf_options dto) [], cf_defaultValue = ccf_defaultValue dto,
        cf_placeholder = ccf_placeholder dto, cf_displayOrder = orElse (ccf_displayOrder dto) 0,
        cf_isActive = True, cf_createdAt = now\<rparr>)))"

definition patch_field :: "UpdateCustomFieldDto \<Rightarrow> custom_field \<Rightarrow> custom_field" where
  "patch_field dto f =
     f\<lparr>cf_label := patched_value (ucf_label dto) (cf_label f),
       cf_isRequired := patched_value (ucf_isRequired dto) (cf_isRequired f),
       cf_options := patched_value (ucf_options dto) (cf_options f),
       cf_placeholder := patched (ucf_placeholder dto) (cf_placeholder f)\<rparr>"

definition fields_update :: "string \<Rightarrow> string \<Rightarrow> UpdateCustomFieldDto \<Rightarrow> (world, custom_field) handler" where
  "fields_update schemaName i dto =
     await (forSchema schemaName) (\<lambda>s.
     await (throwIf (\<not> no_null (ucf_label dto) \<or> \<not> no_null (ucf_isRequired dto) \<or>
         \<not> no_null (ucf_options dto))
       (Prisma PrismaValidation)) (\<lambda>_.
     update (customFields s) cf_id i (patch_field dto)))"

definition fields_deactivate :: "string \<Rightarrow> string \<Rightarrow> (world, unit) handler" where
  "fields_deactivate schemaName i =
     await (forSchema schemaName) (\<lambda>s.
     await (update (customFields s) cf_id i (\<lambda>f. f\<lparr>cf_isActive := False\<rparr>)) (\<lambda>_. ret ()))"

definition reorder :: "string \<Rightarrow> FieldOrderItemDto list \<Rightarrow> (world, unit) handler" where
  "reorder schemaName items =
     await (forSchema schemaName) (\<lambda>s.
     transaction
       (forEach items (\<lambda>item.
          await (update (customFields s) cf_id (fo_id item)
            (\<lambda>f. f\<lparr>cf_displayOrder := fo_displayOrder item\<rparr>)) (\<lambda>_. ret ()))))"

definition SELECT_TYPES :: "CustomFieldType set" where
  "SELECT_TYPES = {CustomFieldType.SELECT, CustomFieldType.MULTI_SELECT}"

definition listDefinitions ::
    "string \<Rightarrow> CustomFieldEntityType option \<Rightarrow> (world, custom_field list \<times> nat) handler" where
  "listDefinitions tenantId entityType =
     await (getSchemaName tenantId) (\<lambda>schemaName.
     await (fields_findAll schemaName entityType) (\<lambda>data. ret (data, length data)))"

definition createDefinition :: "env \<Rightarrow> string \<Rightarrow> CreateCustomFieldDto \<Rightarrow> (world, custom_field) handler" where
  "createDefinition E tenantId dto =
     await (getSchemaName tenantId) (\<lambda>schemaName.
     await (findByEntityTypeAndKey schemaName (ccf_entityType dto) (ccf_key dto)) (\<lambda>existing.
     await (throwIf (existing \<noteq> None)
       (CustomField (CustomFieldKeyConflictException (entity_type_text (ccf_entityType dto))
         (ccf_key dto)))) (\<lambda>_.
     await (throwIf (ccf_fieldType dto \<in> SELECT_TYPES \<and> orElse (ccf_options dto) [] = [])
       (Nest (BadRequestException
         (''fieldType '' @ quoted (field_type_text (ccf_fieldType dto)) @
          '' requires at least one option'')))) (\<lambda>_.
     fields_create E schemaName dto))))"

definition updateDefinition ::
    "string \<Rightarrow> string \<Rightarrow> UpdateCustomFieldDto \<Rightarrow> (world, custom_field) handler" where
  "updateDefinition tenantId i dto =
     await (getSchemaName tenantId) (\<lambda>schemaName.
     await (fields_findById schemaName i) (\<lambda>existing.
     case existing of
       None \<Rightarrow> throw (CustomField CustomFieldNotFoundException)
     | Some f \<Rightarrow>
         await (throwIf (ucf_options dto = Some None \<and> cf_fieldType f \<in> SELECT_TYPES)
           (PlainError (''Cannot read properties of null (reading '' @ quoted ''length'' @ '')''))) (\<lambda>_.
         await (throwIf (ucf_options dto = Some (Some []) \<and> cf_fieldType f \<in> SELECT_TYPES)
           (Nest (BadRequestException
             (''Cannot remove all options from a '' @ quoted (field_type_text (cf_fieldType f)) @
              '' field'')))) (\<lambda>_.
         fields_update schemaName i dto))))"

definition deactivateDefinition :: "string \<Rightarrow> string \<Rightarrow> (world, unit) handler" where
  "deactivateDefinition tenantId i =
     await (getSchemaName tenantId) (\<lambda>schemaName.
     await (fields_findById schemaName i) (\<lambda>existing.
     await (throwIf (existing = None) (CustomField CustomFieldNotFoundException)) (\<lambda>_.
     fields_deactivate schemaName i)))"

definition field_not_found :: "string \<Rightarrow> bos_error" where
  "field_not_found i = Nest (UnprocessableEntityException
     (''Custom field '' @ quoted i @ '' not found '' @ em_dash @ '' reorder aborted''))"

definition reorderDefinitions :: "string \<Rightarrow> FieldOrderItemDto list \<Rightarrow> (world, unit) handler" where
  "reorderDefinitions tenantId items =
     await (getSchemaName tenantId) (\<lambda>schemaName.
     await (forEach items (\<lambda>item.
       await (fields_findById schemaName (fo_id item)) (\<lambda>field.
       throwIf (field = None) (field_not_found (fo_id item))))) (\<lambda>_.
     reorder schemaName items))"

subsection \<open>Effects\<close>

context tenant_writes
begin

lemma tag_effects:
  "has_effect R (tags_findById n i)" "has_effect R (listTags E t search)"
  "has_effect R (createTag E t dto)" "has_effect R (updateTag t i dto')" "has_effect R (deleteTag t i)"
proof -
  have "R w (on_schema s (db_crm_update (drop_tag i)) w)" for s i w
    by (intro crm_write_beside) (simp add: drop_tag_def)
  note this [intro!]
  show "has_effect R (tags_findById n i)"
    unfolding tags_findById_def by (intro crm_rules)
  show "has_effect R (listTags E t search)"
    unfolding listTags_def tags_findAll_def by (intro crm_rules)
  show "has_effect R (createTag E t dto)"
    unfolding createTag_def findByName_def tags_create_def by (intro crm_rules)
  show "has_effect R (updateTag t i dto')"
    unfolding updateTag_def tags_findById_def findByName_def tags_update_def by (intro crm_rules)
  show "has_effect R (deleteTag t i)"
    unfolding deleteTag_def tags_findById_def tags_delete_def by (intro crm_rules) auto
qed

lemma field_effects:
  "has_effect R (listDefinitions t et)" "has_effect R (createDefinition E t dto)"
  "has_effect R (updateDefinition t i dto')" "has_effect R (deactivateDefinition t i)"
  "has_effect R (reorderDefinitions t items)"
  unfolding listDefinitions_def createDefinition_def updateDefinition_def deactivateDefinition_def
    reorderDefinitions_def fields_findAll_def fields_findById_def findByEntityTypeAndKey_def
    fields_create_def fields_update_def fields_deactivate_def reorder_def
  by (intro crm_rules)+

end

end
