(* ===== verification/Contacts.thy ===== *)
theory Contacts
  imports Tags
begin

text \<open>
  \<^verbatim>\<open>modules/contacts\<close> of \<^verbatim>\<open>crm-core\<close>: contacts with their tags, the sources that contacts and leads
  come from, and contact lists. A contact is deleted by its column \<^verbatim>\<open>deletedAt\<close>; a source or a list
  is deleted for good. The mappers pass the columns of a row on, so the row stands for the response;
  the columns \<^verbatim>\<open>metadata\<close>, \<^verbatim>\<open>listType\<close> (always \<^verbatim>\<open>STATIC\<close>) and \<^verbatim>\<open>updatedAt\<close> are not modelled.
\<close>

subsection \<open>Contacts: requests\<close>

record CreateContactDto =
  cco_branchId :: string
  cco_firstName :: string
  cco_lastName :: "string option"
  cco_email :: "string option"
  cco_phone :: "string option"
  cco_company :: "string option"
  cco_jobTitle :: "string option"
  cco_address :: "string option"
  cco_city :: "string option"
  cco_state :: "string option"
  cco_country :: "string option"
  cco_postalCode :: "string option"
  cco_sourceId :: "string option"
  cco_status :: "ContactStatus option"
  cco_ownedByUserId :: "string option"
  cco_notes :: "string option"

record UpdateContactDto =
  uco_firstName :: "string option option"
  uco_lastName :: "string option option"
  uco_email :: "string option option"
  uco_phone :: "string option option"
  uco_company :: "string option option"
  uco_jobTitle :: "string option option"
  uco_address :: "string option option"
  uco_city :: "string option option"
  uco_state :: "string option option"
  uco_country :: "string option option"
  uco_postalCode :: "string option option"
  uco_sourceId :: "string option option"
  uco_status :: "ContactStatus option option"
  uco_ownedByUserId :: "string option option"
  uco_notes :: "string option option"

record ContactFilterDto =
  cfl_branchId :: "string option"
  cfl_status :: "ContactStatus option"
  cfl_sourceId :: "string option"
  cfl_search :: "string option"
  cfl_page :: "int option"
  cfl_limit :: "int option"

subsection \<open>Contacts: repository\<close>

definition text_contains :: "env \<Rightarrow> string option \<Rightarrow> string \<Rightarrow> bool" where
  "text_contains E column term = (case column of None \<Rightarrow> False | Some t \<Rightarrow> e_contains E t term)"

definition contact_where :: "env \<Rightarrow> ContactFilterDto \<Rightarrow> contact \<Rightarrow> bool" where
  "contact_where E flt c \<longleftrightarrow>
     ct_deletedAt c = None \<and>
     (truthy (cfl_branchId flt) \<longrightarrow> Some (ct_branchId c) = cfl_branchId flt) \<and>
     (cfl_status flt \<noteq> None \<longrightarrow> Some (ct_status c) = cfl_status flt) \<and>
     (truthy (cfl_sourceId flt) \<longrightarrow> ct_sourceId c = cfl_sourceId flt) \<and>
     (truthy (cfl_search flt) \<longrightarrow>
        list_ex (\<lambda>column. text_contains E column (the (cfl_search flt)))
          [Some (ct_firstName c), ct_lastName c, ct_email c, ct_phone c])"

text \<open>The newest first.\<close>

definition contacts_findMany ::
    "env \<Rightarrow> string \<Rightarrow> ContactFilterDto \<Rightarrow> (world, contact list \<times> nat) handler" where
  "contacts_findMany E schemaName flt =
     await (forSchema schemaName) (\<lambda>s.
     await (findPage (contacts s) (contact_where E flt) (\<lambda>c. - ct_createdAt c)
       (orElse (cfl_page flt) 1) (orElse (cfl_limit flt) 20)) (\<lambda>records.
     await (count (contacts s) (contact_where E flt)) (\<lambda>total.
     ret (records, total))))"

definition contacts_findById :: "string \<Rightarrow> string \<Rightarrow> (world, contact option) handler" where
  "contacts_findById schemaName i =
     await (forSchema schemaName) (\<lambda>s.
     findFirst (contacts s) (\<lambda>c. ct_id c = i \<and> ct_deletedAt c = None))"

definition contacts_findByEmail :: "string \<Rightarrow> string \<Rightarrow> (world, contact option) handler" where
  "contacts_findByEmail schemaName email =
     await (forSchema schemaName) (\<lambda>s.
     findFirst (contacts s) (\<lambda>c. ct_email c = Some email \<and> ct_deletedAt c = None))"

definition contact_refs :: "string \<Rightarrow> contact \<Rightarrow> world \<Rightarrow> bool" where
  "contact_refs s c w \<longleftrightarrow>
     branch_there s (ct_branchId c) w \<and>
     in_crm s (\<lambda>d. optional_ref cs_id (ct_sourceId c) (crm_sources d)) w"

definition setOriginLeadId :: "string \<Rightarrow> string \<Rightarrow> string \<Rightarrow> (world, unit) handler" where
  "setOriginLeadId schemaName contactId leadId =
     await (forSchema schemaName) (\<lambda>s.
     await (update (contacts s) ct_id contactId (\<lambda>c. c\<lparr>ct_originLeadId := Some leadId\<rparr>)) (\<lambda>_.
     ret ()))"

definition contacts_create ::
    "env \<Rightarrow> string \<Rightarrow> CreateContactDto \<Rightarrow> string option \<Rightarrow> string option \<Rightarrow> (world, contact) handler" where
  "contacts_create E schemaName dto createdByUserId originLeadId =
     await (forSchema schemaName) (\<lambda>s.
     await (check_uuids E [Some (cco_branchId dto), cco_sourceId dto, originLeadId,
       cco_ownedByUserId dto, createdByUserId]) (\<lambda>_.
     await (randomUUID E) (\<lambda>i.
     await date_now (\<lambda>now.
     create (contacts s) contact_clash (contact_refs s)
       \<lparr>ct_id = i, ct_branchId = cco_branchId dto, ct_firstName = cco_firstName dto,
        ct_lastName = cco_lastName dto, ct_email = cco_email dto, ct_phone = cco_phone dto,
        ct_company = cco_company dto, ct_jobTitle = cco_jobTitle dto,
        ct_address = cco_address dto, ct_city = cco_city dto, ct_state = cco_state dto,
        ct_country = cco_country dto, ct_postalCode = cco_postalCode dto,
        ct_sourceId = cco_sourceId dto, ct_originLeadId = originLeadId,
        ct_status = orElse (cco_status dto) ContactStatus.ACTIVE,
        ct_ownedByUserId = cco_ownedByUserId dto, ct_notes = cco_notes dto,
        ct_createdByUserId = createdByUserId, ct_deletedAt = None, ct_createdAt = now\<rparr>))))"

definition patch_contact :: "UpdateContactDto \<Rightarrow> contact \<Rightarrow> contact" where
  "patch_contact dto c =
     c\<lparr>ct_firstName := patched_value (uco_firstName dto) (ct_firstName c),
       ct_lastName := patched (uco_lastName dto) (ct_lastName c),
       ct_email := patched (uco_email dto) (ct_email c),
       ct_phone := patched (uco_phone dto) (ct_phone c),
       ct_company := patched (uco_company dto) (ct_company c),
       ct_jobTitle := patched (uco_jobTitle dto) (ct_jobTitle c),
       ct_address := patched (uco_address dto) (ct_address c),
       ct_city := patched (uco_city dto) (ct_city c),
       ct_state := patched (uco_state dto) (ct_state c),
       ct_country := patched (uco_country dto) (ct_country c),
       ct_postalCode := patched (uco_postalCode dto) (ct_postalCode c),
       ct_sourceId := patched (uco_sourceId dto) (ct_sourceId c),
       ct_status := patched_value (uco_status dto) (ct_status c),
       ct_ownedByUserId := patched (uco_ownedByUserId dto) (ct_ownedByUserId c),
       ct_notes := patched (uco_notes dto) (ct_notes c)\<rparr>"

definition contacts_update :: "string \<Rightarrow> string \<Rightarrow> UpdateContactDto \<Rightarrow> (world, contact) handler" where
  "contacts_update schemaName i dto =
     await (forSchema schemaName) (\<lambda>s.
     await (throwIf (\<not> no_null (uco_firstName dto) \<or> \<not> no_null (uco_status dto))
       (Prisma PrismaValidation)) (\<lambda>_.
     updateChecked (contacts s) ct_id i contact_clash (contact_refs s) (patch_contact dto)))"

definition contacts_softDelete :: "string \<Rightarrow> string \<Rightarrow> (world, unit) handler" where
  "contacts_softDelete schemaName i =
     await (forSchema schemaName) (\<lambda>s.
     await date_now (\<lambda>now.
     await (update (contacts s) ct_id i (\<lambda>c. c\<lparr>ct_deletedAt := Some now\<rparr>)) (\<lambda>_. ret ())))"

text \<open>The tags of a contact; those of a lead are stored in the same table.\<close>

definition tag_refs :: "string \<Rightarrow> entity_tag \<Rightarrow> world \<Rightarrow> bool" where
  "tag_refs s e = in_crm s (\<lambda>d. existsRow (\<lambda>t. tg_id t = et_tagId e) (crm_tags d))"

definition entity_addTag :: "TagEntityType \<Rightarrow> string \<Rightarrow> string \<Rightarrow> string \<Rightarrow> (world, unit) handler" where
  "entity_addTag et schemaName entityId tagId =
     await (forSchema schemaName) (\<lambda>s.
     await date_now (\<lambda>now.
     await (create (entityTags s) entity_tag_clash (tag_refs s)
       \<lparr>et_tagId = tagId, et_entityType = et, et_entityId = entityId, et_createdAt = now\<rparr>) (\<lambda>_.
     ret ())))"

definition entity_removeTag :: "TagEntityType \<Rightarrow> string \<Rightarrow> string \<Rightarrow> string \<Rightarrow> (world, unit) handler" where
  "entity_removeTag et schemaName entityId tagId =
     await (forSchema schemaName) (\<lambda>s.
     await (deleteMany (entityTags s) (\<lambda>e. entity_tag_key e = (tagId, et, entityId))) (\<lambda>_. ret ()))"

record TagRef =
  tr_id :: string
  tr_name :: string
  tr_color :: "string option"

definition tags_of :: "crm_db \<Rightarrow> entity_tag list \<Rightarrow> TagRef list" where
  "tags_of d es =
     concat (map
       (\<lambda>e. case lookupBy tg_id (et_tagId e) (crm_tags d) of
              None \<Rightarrow> []
            | Some t \<Rightarrow> [\<lparr>tr_id = tg_id t, tr_name = tg_name t, tr_color = tg_color t\<rparr>])
       es)"

definition entity_findTags :: "TagEntityType \<Rightarrow> string \<Rightarrow> string \<Rightarrow> (world, TagRef list) handler" where
  "entity_findTags et schemaName entityId =
     await (forSchema schemaName) (\<lambda>s.
     await (findMany (entityTags s) (\<lambda>e. et_entityType e = et \<and> et_entityId e = entityId)) (\<lambda>es.
     read_db s (\<lambda>db. tags_of (db_crm db) es)))"

definition contact_addTag :: "string \<Rightarrow> string \<Rightarrow> string \<Rightarrow> (world, unit) handler" where
  "contact_addTag = entity_addTag TagEntityType.CONTACT"

definition contact_removeTag :: "string \<Rightarrow> string \<Rightarrow> string \<Rightarrow> (world, unit) handler" where
  "contact_removeTag = entity_removeTag TagEntityType.CONTACT"

definition contact_findTags :: "string \<Rightarrow> string \<Rightarrow> (world, TagRef list) handler" where
  "contact_findTags = entity_findTags TagEntityType.CONTACT"

subsection \<open>Contacts: service\<close>

record 'a page =
  pg_data :: "'a list"
  pg_total :: nat
  pg_page :: int
  pg_limit :: int

definition listContacts :: "env \<Rightarrow> string \<Rightarrow> ContactFilterDto \<Rightarrow> (world, contact page) handler" where
  "listContacts E tenantId flt =
     await (getSchemaName tenantId) (\<lambda>schemaName.
     await (contacts_findMany E schemaName flt) (\<lambda>(data, total).
     ret \<lparr>pg_data = data, pg_total = total, pg_page = orElse (cfl_page flt) 1,
          pg_limit = orElse (cfl_limit flt) 20\<rparr>))"

definition existing_contact :: "string \<Rightarrow> string \<Rightarrow> (world, contact) handler" where
  "existing_contact schemaName i =
     await (contacts_findById schemaName i) (\<lambda>contact.
     case contact of None \<Rightarrow> throw (Crm ContactNotFoundException) | Some c \<Rightarrow> ret c)"

definition getContact :: "string \<Rightarrow> string \<Rightarrow> (world, contact) handler" where
  "getContact tenantId i =
     await (getSchemaName tenantId) (\<lambda>schemaName. existing_contact schemaName i)"

definition createContact ::
    "env \<Rightarrow> string \<Rightarrow> CreateContactDto \<Rightarrow> string \<Rightarrow> string option \<Rightarrow> (world, contact) handler" where
  "createContact E tenantId dto createdByUserId originLeadId =
     await (getSchemaName tenantId) (\<lambda>schemaName.
     contacts_create E schemaName dto (Some createdByUserId) originLeadId)"

definition updateContact :: "string \<Rightarrow> string \<Rightarrow> UpdateContactDto \<Rightarrow> (world, contact) handler" where
  "updateContact tenantId i dto =
     await (getSchemaName tenantId) (\<lambda>schemaName.
     await (existing_contact schemaName i) (\<lambda>_.
     contacts_update schemaName i dto))"

definition deleteContact :: "string \<Rightarrow> string \<Rightarrow> (world, unit) handler" where
  "deleteContact tenantId i =
     await (getSchemaName tenantId) (\<lambda>schemaName.
     await (existing_contact schemaName i) (\<lambda>_.
     contacts_softDelete schemaName i))"

definition getContactTags :: "string \<Rightarrow> string \<Rightarrow> (world, TagRef list) handler" where
  "getContactTags tenantId contactId =
     await (getSchemaName tenantId) (\<lambda>schemaName.
     await (existing_contact schemaName contactId) (\<lambda>_.
     contact_findTags schemaName contactId))"

definition addContactTag :: "string \<Rightarrow> string \<Rightarrow> string \<Rightarrow> (world, unit) handler" where
  "addContactTag tenantId contactId tagId =
     await (getSchemaName tenantId) (\<lambda>schemaName.
     await (both (contacts_findById schemaName contactId) (tags_findById schemaName tagId)) (\<lambda>(contact, tag).
     await (throwIf (contact = None) (Crm ContactNotFoundException)) (\<lambda>_.
     await (throwIf (tag = None) (Crm TagNotFoundException)) (\<lambda>_.
     contact_addTag schemaName contactId tagId))))"

definition removeContactTag :: "string \<Rightarrow> string \<Rightarrow> string \<Rightarrow> (world, unit) handler" where
  "removeContactTag tenantId contactId tagId =
     await (getSchemaName tenantId) (\<lambda>schemaName.
     await (existing_contact schemaName contactId) (\<lambda>_.
     contact_removeTag schemaName contactId tagId))"

end
