(* ===== verification/Contact_Lists.thy ===== *)
theory Contact_Lists
  imports Contacts
begin

text \<open>
  The sources and the lists of \<^verbatim>\<open>modules/contacts\<close>, and what all operations of the module do to the
  state.
\<close>

subsection \<open>Sources\<close>

record CreateContactSourceDto =
  ccs_branchId :: string
  ccs_name :: string

record UpdateContactSourceDto =
  ucs_name :: "string option option"
  ucs_isActive :: "bool option option"

definition sources_findAll :: "env \<Rightarrow> string \<Rightarrow> string option \<Rightarrow> (world, contact_source list) handler" where
  "sources_findAll E schemaName branchId =
     await (forSchema schemaName) (\<lambda>s.
     findOrdered (contactSources s)
       (\<lambda>x. cs_isActive x \<and> (truthy branchId \<longrightarrow> Some (cs_branchId x) = branchId))
       (\<lambda>x. e_collate E (cs_name x)))"

definition sources_findById :: "string \<Rightarrow> string \<Rightarrow> (world, contact_source option) handler" where
  "sources_findById schemaName i =
     await (forSchema schemaName) (\<lambda>s. findUnique (contactSources s) cs_id i)"

definition sources_findByBranchAndName ::
    "string \<Rightarrow> string \<Rightarrow> string \<Rightarrow> (world, contact_source option) handler" where
  "sources_findByBranchAndName schemaName branchId name =
     await (forSchema schemaName) (\<lambda>s.
     findUnique (contactSources s) (\<lambda>x. (cs_branchId x, cs_name x)) (branchId, name))"

definition sources_create :: "env \<Rightarrow> string \<Rightarrow> CreateContactSourceDto \<Rightarrow> (world, contact_source) handler" where
  "sources_create E schemaName dto =
     await (forSchema schemaName) (\<lambda>s.
     await (randomUUID E) (\<lambda>i.
     await date_now (\<lambda>now.
     create (contactSources s) source_clash (\<lambda>x. branch_there s (cs_branchId x))
       \<lparr>cs_id = i, cs_branchId = ccs_branchId dto, cs_name = ccs_name dto, cs_isSystem = False,
        cs_isActive = True, cs_createdAt = now\<rparr>)))"

definition patch_source :: "UpdateContactSourceDto \<Rightarrow> contact_source \<Rightarrow> contact_source" where
  "patch_source dto x =
     x\<lparr>cs_name := patched_value (ucs_name dto) (cs_name x),
       cs_isActive := patched_value (ucs_isActive dto) (cs_isActive x)\<rparr>"

definition sources_update ::
    "string \<Rightarrow> string \<Rightarrow> UpdateContactSourceDto \<Rightarrow> (world, contact_source) handler" where
  "sources_update schemaName i dto =
     await (forSchema schemaName) (\<lambda>s.
     await (throwIf (\<not> no_null (ucs_name dto) \<or> \<not> no_null (ucs_isActive dto))
       (Prisma PrismaValidation)) (\<lambda>_.
     updateChecked (contactSources s) cs_id i source_clash no_refs (patch_source dto)))"

text \<open>The foreign keys of contacts and leads are set to null.\<close>

definition unlink_source :: "string \<Rightarrow> string option \<Rightarrow> string option" where
  "unlink_source i v = (if v = Some i then None else v)"

definition drop_source :: "string \<Rightarrow> crm_db \<Rightarrow> crm_db" where
  "drop_source i c =
     crm_sources_update (deleteRows (\<lambda>x. cs_id x = i))
       (crm_contacts_update (map (\<lambda>x. x\<lparr>ct_sourceId := unlink_source i (ct_sourceId x)\<rparr>))
         (crm_leads_update
           (updateRows (\<lambda>l. ld_sourceId l = Some i) (\<lambda>l. l\<lparr>ld_sourceId := None\<rparr>)) c))"

definition sources_delete :: "string \<Rightarrow> string \<Rightarrow> (world, unit) handler" where
  "sources_delete schemaName i =
     await (forSchema schemaName) (\<lambda>s.
     await (findUnique (contactSources s) cs_id i) (\<lambda>found.
     await (throwIf (found = None) (Prisma P2025)) (\<lambda>_.
     writes (on_schema s (db_crm_update (drop_source i))))))"

definition listSources :: "env \<Rightarrow> string \<Rightarrow> string option \<Rightarrow> (world, contact_source list \<times> nat) handler" where
  "listSources E tenantId branchId =
     await (getSchemaName tenantId) (\<lambda>schemaName.
     await (sources_findAll E schemaName branchId) (\<lambda>data. ret (data, length data)))"

definition createSource :: "env \<Rightarrow> string \<Rightarrow> CreateContactSourceDto \<Rightarrow> (world, contact_source) handler" where
  "createSource E tenantId dto =
     await (getSchemaName tenantId) (\<lambda>schemaName.
     await (sources_findByBranchAndName schemaName (ccs_branchId dto) (ccs_name dto)) (\<lambda>existing.
     await (throwIf (existing \<noteq> None) (Crm (ContactSourceNameConflictException (ccs_name dto)))) (\<lambda>_.
     sources_create E schemaName dto)))"

text \<open>
  The check of a new name, the same for sources, lead statuses and contact lists: it is looked up
  when it differs from the old one.
\<close>

definition check_new_name ::
    "string option option \<Rightarrow> string \<Rightarrow> (string \<Rightarrow> (world, 'r option) handler) \<Rightarrow>
       (string \<Rightarrow> bos_error) \<Rightarrow> (world, unit) handler" where
  "check_new_name new old look conflict =
     (case new of
        None \<Rightarrow> ret ()
      | Some None \<Rightarrow> throw (Prisma PrismaValidation)
      | Some (Some name) \<Rightarrow>
          if name = old then ret ()
          else await (look name) (\<lambda>found. throwIf (\<not> Option.is_none found) (conflict name)))"

definition updateSource ::
    "string \<Rightarrow> string \<Rightarrow> UpdateContactSourceDto \<Rightarrow> (world, contact_source) handler" where
  "updateSource tenantId i dto =
     await (getSchemaName tenantId) (\<lambda>schemaName.
     await (sources_findById schemaName i) (\<lambda>existing.
     case existing of
       None \<Rightarrow> throw (Crm ContactSourceNotFoundException)
     | Some x \<Rightarrow>
         await (check_new_name (ucs_name dto) (cs_name x)
           (sources_findByBranchAndName schemaName (cs_branchId x))
           (\<lambda>n. Crm (ContactSourceNameConflictException n))) (\<lambda>_.
         sources_update schemaName i dto)))"

definition deleteSource :: "string \<Rightarrow> string \<Rightarrow> (world, unit) handler" where
  "deleteSource tenantId i =
     await (getSchemaName tenantId) (\<lambda>schemaName.
     await (sources_findById schemaName i) (\<lambda>existing.
     case existing of
       None \<Rightarrow> throw (Crm ContactSourceNotFoundException)
     | Some x \<Rightarrow>
         await (throwIf (cs_isSystem x) (Crm ContactSourceNotFoundException)) (\<lambda>_.
         sources_delete schemaName i)))"

subsection \<open>Lists\<close>

record CreateContactListDto =
  ccl_branchId :: string
  ccl_name :: string
  ccl_description :: "string option"

record UpdateContactListDto =
  ucl_name :: "string option option"
  ucl_description :: "string option option"
  ucl_isActive :: "bool option option"

record ContactListDto =
  cld_list :: contact_list
  cld_memberCount :: nat

definition list_toDto :: "crm_db \<Rightarrow> contact_list \<Rightarrow> ContactListDto" where
  "list_toDto c l =
     \<lparr>cld_list = l, cld_memberCount = countRows (\<lambda>m. cm_listId m = cl_id l) (crm_listMembers c)\<rparr>"

definition with_count :: "string \<Rightarrow> contact_list option \<Rightarrow> (world, ContactListDto option) handler" where
  "with_count s found =
     (case found of None \<Rightarrow> ret None | Some l \<Rightarrow> read_db s (\<lambda>db. Some (list_toDto (db_crm db) l)))"

definition lists_findAll :: "string \<Rightarrow> string option \<Rightarrow> (world, ContactListDto list) handler" where
  "lists_findAll schemaName branchId =
     await (forSchema schemaName) (\<lambda>s.
     await (findOrdered (contactLists s)
       (\<lambda>l. cl_isActive l \<and> (truthy branchId \<longrightarrow> Some (cl_branchId l) = branchId))
       (\<lambda>l. - cl_createdAt l)) (\<lambda>records.
     read_db s (\<lambda>db. map (list_toDto (db_crm db)) records)))"

definition lists_findById :: "string \<Rightarrow> string \<Rightarrow> (world, ContactListDto option) handler" where
  "lists_findById schemaName i =
     await (forSchema schemaName) (\<lambda>s.
     await (findUnique (contactLists s) cl_id i) (with_count s))"

definition lists_findByBranchAndName ::
    "string \<Rightarrow> string \<Rightarrow> string \<Rightarrow> (world, ContactListDto option) handler" where
  "lists_findByBranchAndName schemaName branchId name =
     await (forSchema schemaName) (\<lambda>s.
     await (findUnique (contactLists s) (\<lambda>l. (cl_branchId l, cl_name l)) (branchId, name)) (with_count s))"

definition lists_create ::
    "env \<Rightarrow> string \<Rightarrow> CreateContactListDto \<Rightarrow> string option \<Rightarrow> (world, ContactListDto) handler" where
  "lists_create E schemaName dto createdByUserId =
     await (forSchema schemaName) (\<lambda>s.
     await (randomUUID E) (\<lambda>i.
     await date_now (\<lambda>now.
     await (create (contactLists s) contact_list_clash (\<lambda>l. branch_there s (cl_branchId l))
       \<lparr>cl_id = i, cl_branchId = ccl_branchId dto, cl_name = ccl_name dto,
        cl_description = ccl_description dto, cl_createdByUserId = createdByUserId,
        cl_isActive = True, cl_createdAt = now\<rparr>) (\<lambda>l.
     read_db s (\<lambda>db. list_toDto (db_crm db) l)))))"

definition patch_list :: "UpdateContactListDto \<Rightarrow> contact_list \<Rightarrow> contact_list" where
  "patch_list dto l =
     l\<lparr>cl_name := patched_value (ucl_name dto) (cl_name l),
       cl_description := patched (ucl_description dto) (cl_description l),
       cl_isActive := patched_value (ucl_isActive dto) (cl_isActive l)\<rparr>"

definition lists_update :: "string \<Rightarrow> string \<Rightarrow> UpdateContactListDto \<Rightarrow> (world, ContactListDto) handler" where
  "lists_update schemaName i dto =
     await (forSchema schemaName) (\<lambda>s.
     await (throwIf (\<not> no_null (ucl_name dto) \<or> \<not> no_null (ucl_isActive dto))
       (Prisma PrismaValidation)) (\<lambda>_.
     await (updateChecked (contactLists s) cl_id i contact_list_clash no_refs (patch_list dto)) (\<lambda>l.
     read_db s (\<lambda>db. list_toDto (db_crm db) l))))"

text \<open>The members of a list are deleted with it.\<close>

definition drop_list :: "string \<Rightarrow> crm_db \<Rightarrow> crm_db" where
  "drop_list i c =
     crm_lists_update (deleteRows (\<lambda>l. cl_id l = i))
       (crm_listMembers_update (deleteRows (\<lambda>m. cm_listId m = i)) c)"

definition lists_delete :: "string \<Rightarrow> string \<Rightarrow> (world, unit) handler" where
  "lists_delete schemaName i =
     await (forSchema schemaName) (\<lambda>s.
     await (findUnique (contactLists s) cl_id i) (\<lambda>found.
     await (throwIf (found = None) (Prisma P2025)) (\<lambda>_.
     writes (on_schema s (db_crm_update (drop_list i))))))"

definition lists_isMember :: "string \<Rightarrow> string \<Rightarrow> string \<Rightarrow> (world, bool) handler" where
  "lists_isMember schemaName listId contactId =
     await (forSchema schemaName) (\<lambda>s.
     await (findUnique (contactListMembers s) member_key (listId, contactId)) (\<lambda>row.
     ret (row \<noteq> None)))"

definition member_refs :: "string \<Rightarrow> contact_list_member \<Rightarrow> world \<Rightarrow> bool" where
  "member_refs s m =
     in_crm s (\<lambda>c. existsRow (\<lambda>l. cl_id l = cm_listId m) (crm_lists c) \<and>
       existsRow (\<lambda>x. ct_id x = cm_contactId m) (crm_contacts c))"

definition lists_addMember ::
    "string \<Rightarrow> string \<Rightarrow> string \<Rightarrow> string option \<Rightarrow> (world, unit) handler" where
  "lists_addMember schemaName listId contactId addedByUserId =
     await (forSchema schemaName) (\<lambda>s.
     await date_now (\<lambda>now.
     await (create (contactListMembers s) member_clash (member_refs s)
       \<lparr>cm_listId = listId, cm_contactId = contactId, cm_addedByUserId = addedByUserId,
        cm_addedAt = now\<rparr>) (\<lambda>_. ret ())))"

definition lists_removeMember :: "string \<Rightarrow> string \<Rightarrow> string \<Rightarrow> (world, unit) handler" where
  "lists_removeMember schemaName listId contactId =
     await (forSchema schemaName) (\<lambda>s.
     delete (contactListMembers s) member_key (listId, contactId))"

text \<open>The contacts of the members on a page, the last added first; deleted ones are still there.\<close>

definition contacts_of :: "crm_db \<Rightarrow> contact_list_member list \<Rightarrow> contact list" where
  "contacts_of c ms =
     concat (map
       (\<lambda>m. case lookupBy ct_id (cm_contactId m) (crm_contacts c) of None \<Rightarrow> [] | Some x \<Rightarrow> [x]) ms)"

definition lists_listMembers ::
    "string \<Rightarrow> string \<Rightarrow> int \<Rightarrow> int \<Rightarrow> (world, contact list \<times> nat) handler" where
  "lists_listMembers schemaName listId page limit =
     await (forSchema schemaName) (\<lambda>s.
     await (findPage (contactListMembers s) (\<lambda>m. cm_listId m = listId) (\<lambda>m. - cm_addedAt m)
       page limit) (\<lambda>members.
     await (count (contactListMembers s) (\<lambda>m. cm_listId m = listId)) (\<lambda>total.
     read_db s (\<lambda>db. (contacts_of (db_crm db) members, total)))))"

definition listContactLists :: "string \<Rightarrow> string option \<Rightarrow> (world, ContactListDto list \<times> nat) handler" where
  "listContactLists tenantId branchId =
     await (getSchemaName tenantId) (\<lambda>schemaName.
     await (lists_findAll schemaName branchId) (\<lambda>data. ret (data, length data)))"

definition createList ::
    "env \<Rightarrow> string \<Rightarrow> CreateContactListDto \<Rightarrow> string \<Rightarrow> (world, ContactListDto) handler" where
  "createList E tenantId dto userId =
     await (getSchemaName tenantId) (\<lambda>schemaName.
     await (lists_findByBranchAndName schemaName (ccl_branchId dto) (ccl_name dto)) (\<lambda>existing.
     await (throwIf (existing \<noteq> None) (Crm (ContactListNameConflictException (ccl_name dto)))) (\<lambda>_.
     lists_create E schemaName dto (Some userId))))"

definition updateList :: "string \<Rightarrow> string \<Rightarrow> UpdateContactListDto \<Rightarrow> (world, ContactListDto) handler" where
  "updateList tenantId i dto =
     await (getSchemaName tenantId) (\<lambda>schemaName.
     await (lists_findById schemaName i) (\<lambda>existing.
     case existing of
       None \<Rightarrow> throw (Crm ContactListNotFoundException)
     | Some l \<Rightarrow>
         await (check_new_name (ucl_name dto) (cl_name (cld_list l))
           (lists_findByBranchAndName schemaName (cl_branchId (cld_list l)))
           (\<lambda>n. Crm (ContactListNameConflictException n))) (\<lambda>_.
         lists_update schemaName i dto)))"

definition deleteList :: "string \<Rightarrow> string \<Rightarrow> (world, unit) handler" where
  "deleteList tenantId i =
     await (getSchemaName tenantId) (\<lambda>schemaName.
     await (lists_findById schemaName i) (\<lambda>existing.
     await (throwIf (existing = None) (Crm ContactListNotFoundException)) (\<lambda>_.
     lists_delete schemaName i)))"

definition addMember :: "string \<Rightarrow> string \<Rightarrow> string \<Rightarrow> string \<Rightarrow> (world, unit) handler" where
  "addMember tenantId listId contactId userId =
     await (getSchemaName tenantId) (\<lambda>schemaName.
     await (both (lists_findById schemaName listId) (contacts_findById schemaName contactId)) (\<lambda>(l, c).
     await (throwIf (l = None) (Crm ContactListNotFoundException)) (\<lambda>_.
     await (throwIf (c = None) (Crm ContactNotFoundException)) (\<lambda>_.
     await (lists_isMember schemaName listId contactId) (\<lambda>alreadyMember.
     await (throwIf alreadyMember (Crm ContactAlreadyInListException)) (\<lambda>_.
     lists_addMember schemaName listId contactId (Some userId)))))))"

definition removeMember :: "string \<Rightarrow> string \<Rightarrow> string \<Rightarrow> (world, unit) handler" where
  "removeMember tenantId listId contactId =
     await (getSchemaName tenantId) (\<lambda>schemaName.
     await (lists_findById schemaName listId) (\<lambda>l.
     await (throwIf (l = None) (Crm ContactListNotFoundException)) (\<lambda>_.
     await (lists_isMember schemaName listId contactId) (\<lambda>isMember.
     await (throwIf (\<not> isMember) (Crm ContactNotInListException)) (\<lambda>_.
     lists_removeMember schemaName listId contactId)))))"

definition listMembers :: "string \<Rightarrow> string \<Rightarrow> int \<Rightarrow> int \<Rightarrow> (world, contact list \<times> nat) handler" where
  "listMembers tenantId listId page limit =
     await (getSchemaName tenantId) (\<lambda>schemaName.
     await (lists_findById schemaName listId) (\<lambda>l.
     await (throwIf (l = None) (Crm ContactListNotFoundException)) (\<lambda>_.
     lists_listMembers schemaName listId page limit)))"

subsection \<open>Effects\<close>

context tenant_writes
begin

lemma contact_repo_effects:
  "has_effect R (contacts_findById n i)" "has_effect R (contacts_findByEmail n e)"
  "has_effect R (setOriginLeadId n c l)" "has_effect R (contacts_create E n dto u og)"
  "has_effect R (entity_addTag et n c tg)" "has_effect R (entity_removeTag et n c tg)"
  "has_effect R (entity_findTags et n c)"
  unfolding contacts_findById_def contacts_findByEmail_def setOriginLeadId_def contacts_create_def
    entity_addTag_def entity_removeTag_def entity_findTags_def
  by (intro crm_rules)+

lemma contact_effects:
  "has_effect R (listContacts E t flt)" "has_effect R (getContact t i)"
  "has_effect R (createContact E t dto u og)" "has_effect R (updateContact t i dto')"
  "has_effect R (deleteContact t i)" "has_effect R (getContactTags t i)"
  "has_effect R (addContactTag t i g)" "has_effect R (removeContactTag t i g)"
  unfolding listContacts_def contacts_findMany_def getContact_def existing_contact_def
    createContact_def updateContact_def contacts_update_def deleteContact_def contacts_softDelete_def
    getContactTags_def addContactTag_def removeContactTag_def contact_findTags_def
    contact_addTag_def contact_removeTag_def
  by (intro crm_rules contact_repo_effects tag_effects)+

lemma effect_check_new_name:
  "(\<And>n. has_effect R (look n)) \<Longrightarrow> has_effect R (check_new_name new old look conflict)"
  unfolding check_new_name_def by (intro crm_rules)

lemma drop_source_effect: "R w (on_schema s (db_crm_update (drop_source i)) w)"
  by (intro crm_write crm_change.Change_leads [where f = "\<lambda>l. l\<lparr>ld_sourceId := None\<rparr>"])
     (simp_all add: drop_source_def conversion_def)

lemma source_effects:
  "has_effect R (listSources E t b)" "has_effect R (createSource E t dto)"
  "has_effect R (updateSource t i dto')" "has_effect R (deleteSource t i)"
  unfolding listSources_def createSource_def updateSource_def deleteSource_def sources_findAll_def
    sources_findById_def sources_findByBranchAndName_def sources_create_def sources_update_def
    sources_delete_def
  by (intro crm_rules effect_check_new_name drop_source_effect)+

lemma drop_list_effect: "R w (on_schema s (db_crm_update (drop_list i)) w)"
  by (intro crm_write_beside) (simp add: drop_list_def)

lemma list_effects:
  "has_effect R (listContactLists t b)" "has_effect R (createList E t dto u)"
  "has_effect R (updateList t i dto')" "has_effect R (deleteList t i)"
  "has_effect R (addMember t i c u)" "has_effect R (removeMember t i c)"
  "has_effect R (listMembers t i p l)"
  unfolding listContactLists_def createList_def updateList_def deleteList_def addMember_def
    removeMember_def listMembers_def lists_findAll_def lists_findById_def
    lists_findByBranchAndName_def lists_create_def lists_update_def lists_delete_def
    lists_isMember_def lists_addMember_def lists_removeMember_def lists_listMembers_def with_count_def
  by (intro crm_rules effect_check_new_name drop_list_effect contact_repo_effects)+

end

end
