(* ===== verification/Leads.thy ===== *)
theory Leads
  imports Contact_Lists
begin

text \<open>
  \<^verbatim>\<open>modules/leads\<close> and \<^verbatim>\<open>modules/lead-assignment\<close> of \<^verbatim>\<open>crm-core\<close>: leads, which always come with a
  contact, their statuses, and the worker that hands new leads to the agents of a branch in turn. A
  response is made of columns of its row, so the row stands for it; the columns \<^verbatim>\<open>metadata\<close> and
  \<^verbatim>\<open>updatedAt\<close> are not modelled.
\<close>

subsection \<open>Leads: requests\<close>

record CreateLeadDto =
  cle_branchId :: string
  cle_firstName :: string
  cle_lastName :: "string option"
  cle_email :: "string option"
  cle_phone :: "string option"
  cle_company :: "string option"
  cle_sourceId :: "string option"
  cle_statusId :: "string option"
  cle_priority :: "LeadPriority option"
  cle_estimatedValue :: "string option"
  cle_ownedByUserId :: "string option"
  cle_notes :: "string option"

record UpdateLeadDto =
  ule_firstName :: "string option option"
  ule_lastName :: "string option option"
  ule_email :: "string option option"
  ule_phone :: "string option option"
  ule_company :: "string option option"
  ule_sourceId :: "string option option"
  ule_statusId :: "string option option"
  ule_priority :: "LeadPriority option option"
  ule_estimatedValue :: "string option option"
  ule_ownedByUserId :: "string option option"
  ule_notes :: "string option option"

record LeadFilterDto =
  lfl_branchId :: "string option"
  lfl_statusId :: "string option"
  lfl_sourceId :: "string option"
  lfl_priority :: "LeadPriority option"
  lfl_converted :: "bool option"
  lfl_search :: "string option"
  lfl_page :: "int option"
  lfl_limit :: "int option"

subsection \<open>Leads: repository\<close>

definition lead_where :: "env \<Rightarrow> LeadFilterDto \<Rightarrow> lead \<Rightarrow> bool" where
  "lead_where E flt l \<longleftrightarrow>
     ld_deletedAt l = None \<and>
     (truthy (lfl_branchId flt) \<longrightarrow> Some (ld_branchId l) = lfl_branchId flt) \<and>
     (truthy (lfl_statusId flt) \<longrightarrow> ld_statusId l = lfl_statusId flt) \<and>
     (truthy (lfl_sourceId flt) \<longrightarrow> ld_sourceId l = lfl_sourceId flt) \<and>
     (lfl_priority flt \<noteq> None \<longrightarrow> Some (ld_priority l) = lfl_priority flt) \<and>
     (lfl_converted flt = Some True \<longrightarrow> ld_convertedAt l \<noteq> None) \<and>
     (lfl_converted flt = Some False \<longrightarrow> ld_convertedAt l = None) \<and>
     (truthy (lfl_search flt) \<longrightarrow>
        list_ex (\<lambda>column. text_contains E column (the (lfl_search flt)))
          [Some (ld_firstName l), ld_lastName l, ld_email l, ld_phone l])"

definition leads_findMany ::
    "env \<Rightarrow> string \<Rightarrow> LeadFilterDto \<Rightarrow> (world, lead list \<times> nat) handler" where
  "leads_findMany E schemaName flt =
     await (forSchema schemaName) (\<lambda>s.
     await (findPage (leads s) (lead_where E flt) (\<lambda>l. - ld_createdAt l)
       (orElse (lfl_page flt) 1) (orElse (lfl_limit flt) 20)) (\<lambda>records.
     await (count (leads s) (lead_where E flt)) (\<lambda>total.
     ret (records, total))))"

definition leads_findById :: "string \<Rightarrow> string \<Rightarrow> (world, lead option) handler" where
  "leads_findById schemaName i =
     await (forSchema schemaName) (\<lambda>s.
     findFirst (leads s) (\<lambda>l. ld_id l = i \<and> ld_deletedAt l = None))"

definition lead_refs :: "string \<Rightarrow> lead \<Rightarrow> world \<Rightarrow> bool" where
  "lead_refs s l w \<longleftrightarrow>
     branch_there s (ld_branchId l) w \<and>
     in_crm s (\<lambda>c. optional_ref ct_id (ld_contactId l) (crm_contacts c) \<and>
       optional_ref cs_id (ld_sourceId l) (crm_sources c) \<and>
       optional_ref ls_id (ld_statusId l) (crm_leadStatuses c)) w"

definition leads_create ::
    "env \<Rightarrow> string \<Rightarrow> CreateLeadDto \<Rightarrow> string option \<Rightarrow> string option \<Rightarrow> (world, lead) handler" where
  "leads_create E schemaName dto createdByUserId contactId =
     await (forSchema schemaName) (\<lambda>s.
     await (check_uuids E [Some (cle_branchId dto), cle_sourceId dto, cle_statusId dto,
       cle_ownedByUserId dto, createdByUserId, contactId]) (\<lambda>_.
     await (randomUUID E) (\<lambda>i.
     await date_now (\<lambda>now.
     create (leads s) lead_clash (lead_refs s)
       \<lparr>ld_id = i, ld_branchId = cle_branchId dto, ld_contactId = contactId,
        ld_firstName = cle_firstName dto, ld_lastName = cle_lastName dto,
        ld_email = cle_email dto, ld_phone = cle_phone dto, ld_company = cle_company dto,
        ld_sourceId = cle_sourceId dto, ld_statusId = cle_statusId dto,
        ld_priority = orElse (cle_priority dto) LeadPriority.MEDIUM,
        ld_estimatedValue = cle_estimatedValue dto, ld_ownedByUserId = cle_ownedByUserId dto,
        ld_notes = cle_notes dto, ld_convertedAt = None, ld_convertedByUserId = None,
        ld_lastActivityAt = None, ld_nextFollowUpAt = None, ld_touchpointCount = 0,
        ld_createdByUserId = createdByUserId, ld_deletedAt = None, ld_createdAt = now\<rparr>))))"

definition patch_lead :: "UpdateLeadDto \<Rightarrow> lead \<Rightarrow> lead" where
  "patch_lead dto l =
     l\<lparr>ld_firstName := patched_value (ule_firstName dto) (ld_firstName l),
       ld_lastName := patched (ule_lastName dto) (ld_lastName l),
       ld_email := patched (ule_email dto) (ld_email l),
       ld_phone := patched (ule_phone dto) (ld_phone l),
       ld_company := patched (ule_company dto) (ld_company l),
       ld_sourceId := patched (ule_sourceId dto) (ld_sourceId l),
       ld_statusId := patched (ule_statusId dto) (ld_statusId l),
       ld_priority := patched_value (ule_priority dto) (ld_priority l),
       ld_estimatedValue := patched (ule_estimatedValue dto) (ld_estimatedValue l),
       ld_ownedByUserId := patched (ule_ownedByUserId dto) (ld_ownedByUserId l),
       ld_notes := patched (ule_notes dto) (ld_notes l)\<rparr>"

definition leads_update :: "string \<Rightarrow> string \<Rightarrow> UpdateLeadDto \<Rightarrow> (world, lead) handler" where
  "leads_update schemaName i dto =
     await (forSchema schemaName) (\<lambda>s.
     await (throwIf (\<not> no_null (ule_firstName dto) \<or> \<not> no_null (ule_priority dto))
       (Prisma PrismaValidation)) (\<lambda>_.
     updateChecked (leads s) ld_id i lead_clash (lead_refs s) (patch_lead dto)))"

definition converted :: "string \<Rightarrow> int \<Rightarrow> string \<Rightarrow> lead \<Rightarrow> lead" where
  "converted contactId now userId l =
     l\<lparr>ld_contactId := Some contactId, ld_convertedAt := Some now, ld_convertedByUserId := Some userId\<rparr>"

definition leads_convertLead :: "string \<Rightarrow> string \<Rightarrow> string \<Rightarrow> string \<Rightarrow> (world, lead) handler" where
  "leads_convertLead schemaName i contactId convertedByUserId =
     await (forSchema schemaName) (\<lambda>s.
     await date_now (\<lambda>now.
     updateChecked (leads s) ld_id i lead_clash (lead_refs s)
       (converted contactId now convertedByUserId)))"

definition leads_softDelete :: "string \<Rightarrow> string \<Rightarrow> (world, unit) handler" where
  "leads_softDelete schemaName i =
     await (forSchema schemaName) (\<lambda>s.
     await date_now (\<lambda>now.
     await (update (leads s) ld_id i (\<lambda>l. l\<lparr>ld_deletedAt := Some now\<rparr>)) (\<lambda>_. ret ())))"

definition lead_addTag :: "string \<Rightarrow> string \<Rightarrow> string \<Rightarrow> (world, unit) handler" where
  "lead_addTag = entity_addTag TagEntityType.LEAD"

definition lead_removeTag :: "string \<Rightarrow> string \<Rightarrow> string \<Rightarrow> (world, unit) handler" where
  "lead_removeTag = entity_removeTag TagEntityType.LEAD"

definition lead_findTags :: "string \<Rightarrow> string \<Rightarrow> (world, TagRef list) handler" where
  "lead_findTags = entity_findTags TagEntityType.LEAD"

subsection \<open>Leads: service\<close>

definition listLeads :: "env \<Rightarrow> string \<Rightarrow> LeadFilterDto \<Rightarrow> (world, lead page) handler" where
  "listLeads E tenantId flt =
     await (getSchemaName tenantId) (\<lambda>schemaName.
     await (leads_findMany E schemaName flt) (\<lambda>(data, total).
     ret \<lparr>pg_data = data, pg_total = total, pg_page = orElse (lfl_page flt) 1,
          pg_limit = orElse (lfl_limit flt) 20\<rparr>))"

definition existing_lead :: "string \<Rightarrow> string \<Rightarrow> (world, lead) handler" where
  "existing_lead schemaName i =
     await (leads_findById schemaName i) (\<lambda>l.
     case l of None \<Rightarrow> throw (Crm LeadNotFoundException) | Some l \<Rightarrow> ret l)"

definition getLead :: "string \<Rightarrow> string \<Rightarrow> (world, lead) handler" where
  "getLead tenantId i = await (getSchemaName tenantId) (\<lambda>schemaName. existing_lead schemaName i)"

text \<open>
  The contact of a new lead: the one with the lead's e-mail address, or a new one. The flag says
  that it is new.
\<close>

definition contact_of_lead :: "CreateLeadDto \<Rightarrow> CreateContactDto" where
  "contact_of_lead dto =
     \<lparr>cco_branchId = cle_branchId dto, cco_firstName = cle_firstName dto,
      cco_lastName = cle_lastName dto,
      cco_email = (if truthy (cle_email dto) then cle_email dto else None),
      cco_phone = cle_phone dto, cco_company = cle_company dto, cco_jobTitle = None,
      cco_address = None, cco_city = None, cco_state = None, cco_country = None,
      cco_postalCode = None, cco_sourceId = cle_sourceId dto, cco_status = None,
      cco_ownedByUserId = cle_ownedByUserId dto, cco_notes = None\<rparr>"

definition upsert_contact ::
    "env \<Rightarrow> string \<Rightarrow> CreateLeadDto \<Rightarrow> string \<Rightarrow> (world, string \<times> bool) handler" where
  "upsert_contact E schemaName dto userId =
     await
       (if truthy (cle_email dto) then contacts_findByEmail schemaName (the (cle_email dto))
        else ret None) (\<lambda>existing.
     case existing of
       Some c \<Rightarrow> ret (ct_id c, False)
     | None \<Rightarrow>
         await (contacts_create E schemaName (contact_of_lead dto) (Some userId) None) (\<lambda>newContact.
         ret (ct_id newContact, True)))"

definition createLead :: "env \<Rightarrow> string \<Rightarrow> CreateLeadDto \<Rightarrow> string \<Rightarrow> (world, lead) handler" where
  "createLead E tenantId dto userId =
     await (getSchemaName tenantId) (\<lambda>schemaName.
     await (upsert_contact E schemaName dto userId) (\<lambda>(contactId, isNewContact).
     await (leads_create E schemaName dto (Some userId) (Some contactId)) (\<lambda>l.
     await (if isNewContact then setOriginLeadId schemaName contactId (ld_id l) else ret ()) (\<lambda>_.
     await (workflowQueue_add (LEAD_CREATED
       \<lparr>lj_tenantId = tenantId, lj_schemaName = schemaName, lj_leadId = ld_id l,
        lj_contactId = contactId, lj_branchId = ld_branchId l,
        lj_createdByUserId = Some userId\<rparr>)) (\<lambda>_.
     ret l)))))"

definition updateLead ::
    "string \<Rightarrow> string \<Rightarrow> UpdateLeadDto \<Rightarrow> string \<Rightarrow> (world, lead) handler" where
  "updateLead tenantId i dto userId =
     await (getSchemaName tenantId) (\<lambda>schemaName.
     await (existing_lead schemaName i) (\<lambda>existing.
     await (leads_update schemaName i dto) (\<lambda>updated.
     await
       (case ule_statusId dto of
          None \<Rightarrow> ret ()
        | Some newStatusId \<Rightarrow>
            if newStatusId = ld_statusId existing then ret ()
            else
              workflowQueue_add (LEAD_STATUS_CHANGED
                \<lparr>lsj_tenantId = tenantId, lsj_schemaName = schemaName, lsj_leadId = i,
                 lsj_contactId = ld_contactId existing, lsj_branchId = ld_branchId existing,
                 lsj_oldStatusId = ld_statusId existing, lsj_newStatusId = newStatusId,
                 lsj_changedByUserId = Some userId\<rparr>)) (\<lambda>_.
     ret updated))))"

definition deleteLead :: "string \<Rightarrow> string \<Rightarrow> (world, unit) handler" where
  "deleteLead tenantId i =
     await (getSchemaName tenantId) (\<lambda>schemaName.
     await (existing_lead schemaName i) (\<lambda>_.
     leads_softDelete schemaName i))"

definition contact_from_lead :: "lead \<Rightarrow> CreateContactDto" where
  "contact_from_lead l =
     \<lparr>cco_branchId = ld_branchId l, cco_firstName = ld_firstName l, cco_lastName = ld_lastName l,
      cco_email = ld_email l, cco_phone = ld_phone l, cco_company = ld_company l,
      cco_jobTitle = None, cco_address = None, cco_city = None, cco_state = None,
      cco_country = None, cco_postalCode = None, cco_sourceId = ld_sourceId l, cco_status = None,
      cco_ownedByUserId = ld_ownedByUserId l, cco_notes = None\<rparr>"

definition contact_to_link ::
    "env \<Rightarrow> string \<Rightarrow> lead \<Rightarrow> string option \<Rightarrow> string \<Rightarrow> (world, string) handler" where
  "contact_to_link E schemaName l dto_contactId userId =
     (if truthy dto_contactId then
        await (contacts_findById schemaName (the dto_contactId)) (\<lambda>existingContact.
        await (throwIf (existingContact = None) (Crm ContactNotFoundException)) (\<lambda>_.
        ret (the dto_contactId)))
      else if truthy (ld_contactId l) then ret (the (ld_contactId l))
      else
        await (contacts_create E schemaName (contact_from_lead l) (Some userId) (Some (ld_id l))) (\<lambda>newContact.
        ret (ct_id newContact)))"

definition convertLead ::
    "env \<Rightarrow> string \<Rightarrow> string \<Rightarrow> string option \<Rightarrow> string \<Rightarrow> (world, lead) handler" where
  "convertLead E tenantId leadId dto_contactId userId =
     await (getSchemaName tenantId) (\<lambda>schemaName.
     await (existing_lead schemaName leadId) (\<lambda>l.
     await (throwIf (ld_convertedAt l \<noteq> None) (Crm LeadAlreadyConvertedException)) (\<lambda>_.
     await (contact_to_link E schemaName l dto_contactId userId) (\<lambda>contactId.
     leads_convertLead schemaName leadId contactId userId))))"

definition getLeadTags :: "string \<Rightarrow> string \<Rightarrow> (world, TagRef list) handler" where
  "getLeadTags tenantId leadId =
     await (getSchemaName tenantId) (\<lambda>schemaName.
     await (existing_lead schemaName leadId) (\<lambda>_.
     lead_findTags schemaName leadId))"

definition addLeadTag :: "string \<Rightarrow> string \<Rightarrow> string \<Rightarrow> (world, unit) handler" where
  "addLeadTag tenantId leadId tagId =
     await (getSchemaName tenantId) (\<lambda>schemaName.
     await (both (leads_findById schemaName leadId) (tags_findById schemaName tagId)) (\<lambda>(l, tag).
     await (throwIf (l = None) (Crm LeadNotFoundException)) (\<lambda>_.
     await (throwIf (tag = None) (Crm TagNotFoundException)) (\<lambda>_.
     lead_addTag schemaName leadId tagId))))"

definition removeLeadTag :: "string \<Rightarrow> string \<Rightarrow> string \<Rightarrow> (world, unit) handler" where
  "removeLeadTag tenantId leadId tagId =
     await (getSchemaName tenantId) (\<lambda>schemaName.
     await (existing_lead schemaName leadId) (\<lambda>_.
     lead_removeTag schemaName leadId tagId))"

end
