(* ===== verification/Lead_Assignment.thy ===== *)
theory Lead_Assignment
  imports Leads
begin

text \<open>
  The statuses of \<^verbatim>\<open>modules/leads\<close>, and \<^verbatim>\<open>modules/lead-assignment\<close>: the configuration of a branch and
  the worker that assigns each new lead to the next eligible agent. The last part says what all
  operations on leads do to the state.
\<close>

subsection \<open>Lead statuses\<close>

record CreateLeadStatusDto =
  cls_branchId :: string
  cls_name :: string
  cls_color :: "string option"
  cls_displayOrder :: "int option"

record UpdateLeadStatusDto =
  uls_name :: "string option option"
  uls_color :: "string option option"
  uls_displayOrder :: "int option option"
  uls_isActive :: "bool option option"

definition statuses_findAll :: "env \<Rightarrow> string \<Rightarrow> string option \<Rightarrow> (world, lead_status list) handler" where
  "statuses_findAll E schemaName branchId =
     await (forSchema schemaName) (\<lambda>s.
     findOrdered (leadStatuses s)
       (\<lambda>x. ls_isActive x \<and> (truthy branchId \<longrightarrow> Some (ls_branchId x) = branchId))
       (\<lambda>x. (ls_displayOrder x, e_collate E (ls_name x))))"

definition statuses_findById :: "string \<Rightarrow> string \<Rightarrow> (world, lead_status option) handler" where
  "statuses_findById schemaName i =
     await (forSchema schemaName) (\<lambda>s. findUnique (leadStatuses s) ls_id i)"

definition statuses_findByBranchAndName ::
    "string \<Rightarrow> string \<Rightarrow> string \<Rightarrow> (world, lead_status option) handler" where
  "statuses_findByBranchAndName schemaName branchId name =
     await (forSchema schemaName) (\<lambda>s.
     findUnique (leadStatuses s) (\<lambda>x. (ls_branchId x, ls_name x)) (branchId, name))"

definition statuses_create :: "env \<Rightarrow> string \<Rightarrow> CreateLeadStatusDto \<Rightarrow> (world, lead_status) handler" where
  "statuses_create E schemaName dto =
     await (forSchema schemaName) (\<lambda>s.
     await (randomUUID E) (\<lambda>i.
     await date_now (\<lambda>now.
     create (leadStatuses s) lead_status_clash (\<lambda>x. branch_there s (ls_branchId x))
       \<lparr>ls_id = i, ls_branchId = cls_branchId dto, ls_name = cls_name dto,
        ls_color = cls_color dto, ls_displayOrder = orElse (cls_displayOrder dto) 0,
        ls_isSystem = False, ls_isActive = True, ls_createdAt = now\<rparr>)))"

definition patch_status :: "UpdateLeadStatusDto \<Rightarrow> lead_status \<Rightarrow> lead_status" where
  "patch_status dto x =
     x\<lparr>ls_name := patched_value (uls_name dto) (ls_name x),
       ls_color := patched (uls_color dto) (ls_color x),
       ls_displayOrder := patched_value (uls_displayOrder dto) (ls_displayOrder x),
       ls_isActive := patched_value (uls_isActive dto) (ls_isActive x)\<rparr>"

definition statuses_update ::
    "string \<Rightarrow> string \<Rightarrow> UpdateLeadStatusDto \<Rightarrow> (world, lead_status) handler" where
  "statuses_update schemaName i dto =
     await (forSchema schemaName) (\<lambda>s.
     await (throwIf (\<not> no_null (uls_name dto) \<or> \<not> no_null (uls_displayOrder dto) \<or>
         \<not> no_null (uls_isActive dto))
       (Prisma PrismaValidation)) (\<lambda>_.
     updateChecked (leadStatuses s) ls_id i lead_status_clash no_refs (patch_status dto)))"

text \<open>The leads with the status lose it.\<close>

definition drop_status :: "string \<Rightarrow> crm_db \<Rightarrow> crm_db" where
  "drop_status i c =
     crm_leadStatuses_update (deleteRows (\<lambda>x. ls_id x = i))
       (crm_leads_update
         (updateRows (\<lambda>l. ld_statusId l = Some i) (\<lambda>l. l\<lparr>ld_statusId := None\<rparr>)) c)"

definition statuses_delete :: "string \<Rightarrow> string \<Rightarrow> (world, unit) handler" where
  "statuses_delete schemaName i =
     await (forSchema schemaName) (\<lambda>s.
     await (findUnique (leadStatuses s) ls_id i) (\<lambda>found.
     await (throwIf (found = None) (Prisma P2025)) (\<lambda>_.
     writes (on_schema s (db_crm_update (drop_status i))))))"

definition listStatuses :: "env \<Rightarrow> string \<Rightarrow> string option \<Rightarrow> (world, lead_status list \<times> nat) handler" where
  "listStatuses E tenantId branchId =
     await (getSchemaName tenantId) (\<lambda>schemaName.
     await (statuses_findAll E schemaName branchId) (\<lambda>data. ret (data, length data)))"

definition createStatus :: "env \<Rightarrow> string \<Rightarrow> CreateLeadStatusDto \<Rightarrow> (world, lead_status) handler" where
  "createStatus E tenantId dto =
     await (getSchemaName tenantId) (\<lambda>schemaName.
     await (statuses_findByBranchAndName schemaName (cls_branchId dto) (cls_name dto)) (\<lambda>existing.
     await (throwIf (existing \<noteq> None) (Crm (LeadStatusNameConflictException (cls_name dto)))) (\<lambda>_.
     statuses_create E schemaName dto)))"

definition updateStatus ::
    "string \<Rightarrow> string \<Rightarrow> UpdateLeadStatusDto \<Rightarrow> (world, lead_status) handler" where
  "updateStatus tenantId i dto =
     await (getSchemaName tenantId) (\<lambda>schemaName.
     await (statuses_findById schemaName i) (\<lambda>existing.
     case existing of
       None \<Rightarrow> throw (Crm LeadStatusNotFoundException)
     | Some x \<Rightarrow>
         await (check_new_name (uls_name dto) (ls_name x)
           (statuses_findByBranchAndName schemaName (ls_branchId x))
           (\<lambda>n. Crm (LeadStatusNameConflictException n))) (\<lambda>_.
         statuses_update schemaName i dto)))"

definition deleteStatus :: "string \<Rightarrow> string \<Rightarrow> (world, unit) handler" where
  "deleteStatus tenantId i =
     await (getSchemaName tenantId) (\<lambda>schemaName.
     await (statuses_findById schemaName i) (\<lambda>existing.
     case existing of
       None \<Rightarrow> throw (Crm LeadStatusNotFoundException)
     | Some x \<Rightarrow>
         await (throwIf (ls_isSystem x) (Crm LeadStatusNotFoundException)) (\<lambda>_.
         statuses_delete schemaName i)))"

subsection \<open>Configuration of the assignment\<close>

record UpsertLeadAssignmentConfigDto =
  ula_branchId :: string
  ula_assignmentMode :: "LeadAssignmentMode option"
  ula_eligibleRoleIds :: "string list option"
  ula_isActive :: "bool option"

definition configs_findByBranch :: "string \<Rightarrow> string \<Rightarrow> (world, assignment_config option) handler" where
  "configs_findByBranch schemaName branchId =
     await (forSchema schemaName) (\<lambda>s. findUnique (assignmentConfigs s) ac_branchId branchId)"

definition patch_config :: "UpsertLeadAssignmentConfigDto \<Rightarrow> assignment_config \<Rightarrow> assignment_config" where
  "patch_config dto c =
     c\<lparr>ac_assignmentMode := patched (ula_assignmentMode dto) (ac_assignmentMode c),
       ac_eligibleRoleIds := patched (ula_eligibleRoleIds dto) (ac_eligibleRoleIds c),
       ac_isActive := patched (ula_isActive dto) (ac_isActive c)\<rparr>"

definition configs_upsert ::
    "env \<Rightarrow> string \<Rightarrow> UpsertLeadAssignmentConfigDto \<Rightarrow> (world, assignment_config) handler" where
  "configs_upsert E schemaName dto =
     await (forSchema schemaName) (\<lambda>s.
     await (findUnique (assignmentConfigs s) ac_branchId (ula_branchId dto)) (\<lambda>found.
     if found \<noteq> None then
       update (assignmentConfigs s) ac_branchId (ula_branchId dto) (patch_config dto)
     else
       await (randomUUID E) (\<lambda>i.
       await date_now (\<lambda>now.
       create (assignmentConfigs s) config_clash (\<lambda>c. branch_there s (ac_branchId c))
         \<lparr>ac_id = i, ac_branchId = ula_branchId dto,
          ac_assignmentMode = orElse (ula_assignmentMode dto) ROUND_ROBIN,
          ac_eligibleRoleIds = orElse (ula_eligibleRoleIds dto) [],
          ac_isActive = orElse (ula_isActive dto) True, ac_createdAt = now\<rparr>))))"

text \<open>\<^verbatim>\<open>[...new Set(ids)]\<close> keeps the first of equal elements.\<close>

definition new_Set :: "'a list \<Rightarrow> 'a list" where
  "new_Set xs = rev (remdups (rev xs))"

definition findEligibleAgents ::
    "string \<Rightarrow> string \<Rightarrow> string list \<Rightarrow> (world, string list) handler" where
  "findEligibleAgents schemaName branchId eligibleRoleIds =
     (if length eligibleRoleIds = 0 then ret []
      else
        await (forSchema schemaName) (\<lambda>s.
        await (findOrdered (memberships s)
          (\<lambda>m. ubm_branchId m = Some branchId \<and> ubm_revokedAt m = None \<and>
            ubm_roundRobinAvailable m \<and> ubm_roleId m \<in> set eligibleRoleIds)
          ubm_userId) (\<lambda>ms.
        ret (new_Set (map ubm_userId ms)))))"

definition getConfig :: "string \<Rightarrow> string \<Rightarrow> (world, assignment_config option) handler" where
  "getConfig tenantId branchId =
     await (getSchemaName tenantId) (\<lambda>schemaName. configs_findByBranch schemaName branchId)"

definition upsertConfig ::
    "env \<Rightarrow> string \<Rightarrow> UpsertLeadAssignmentConfigDto \<Rightarrow> (world, assignment_config) handler" where
  "upsertConfig E tenantId dto =
     await (getSchemaName tenantId) (\<lambda>schemaName. configs_upsert E schemaName dto)"

subsection \<open>The worker\<close>

definition round_robin_key :: "string \<Rightarrow> string \<Rightarrow> string" where
  "round_robin_key tenantId branchId = ''bos:rr:leads:'' @ tenantId @ '':'' @ branchId"

definition handleLeadCreated :: "LeadCreatedJobPayload \<Rightarrow> (world, unit) handler" where
  "handleLeadCreated job =
     await (configs_findByBranch (lj_schemaName job) (lj_branchId job)) (\<lambda>config.
     case config of
       None \<Rightarrow> ret ()
     | Some c \<Rightarrow>
         if \<not> ac_isActive c \<or> ac_assignmentMode c \<noteq> ROUND_ROBIN then ret ()
         else
           await (findEligibleAgents (lj_schemaName job) (lj_branchId job) (ac_eligibleRoleIds c)) (\<lambda>agents.
           if length agents = 0 then ret ()
           else
             await (redis_incr (round_robin_key (lj_tenantId job) (lj_branchId job))) (\<lambda>counter.
             let assignedUserId = agents ! ((counter - 1) mod length agents) in
             await (forSchema (lj_schemaName job)) (\<lambda>s.
             await (update (leads s) ld_id (lj_leadId job)
               (\<lambda>l. l\<lparr>ld_ownedByUserId := Some assignedUserId\<rparr>)) (\<lambda>_.
             workflowQueue_add (LEAD_ASSIGNED
               \<lparr>laj_tenantId = lj_tenantId job, laj_schemaName = lj_schemaName job,
                laj_leadId = lj_leadId job, laj_contactId = Some (lj_contactId job),
                laj_branchId = lj_branchId job, laj_assignedUserId = assignedUserId\<rparr>))))))"

definition process_job :: "workflow_job \<Rightarrow> (world, unit) handler" where
  "process_job job = (case job of LEAD_CREATED p \<Rightarrow> handleLeadCreated p | _ \<Rightarrow> ret ())"

subsection \<open>Effects\<close>

definition leads_at :: "string \<Rightarrow> world \<Rightarrow> lead list" where
  "leads_at s w = (case w_schemas w s of None \<Rightarrow> [] | Some db \<Rightarrow> crm_leads (db_crm db))"

lemma existing_lead_result:
  assumes "existing_lead n i w = (r, w')"
  shows "w' = w"
    and "r = Inr l \<Longrightarrow> l \<in> set (leads_at n w) \<and> ld_id l = i \<and> ld_deletedAt l = None"
proof -
  show "w' = w"
    using assms
    by (auto simp: existing_lead_def leads_findById_def forSchema_def findFirst_def await_run query_run
        throwIf_run split: option.splits if_splits)
  show "r = Inr l \<Longrightarrow> l \<in> set (leads_at n w) \<and> ld_id l = i \<and> ld_deletedAt l = None"
    using assms
    by (auto simp: existing_lead_def leads_findById_def forSchema_def findFirst_def await_run query_run
        throwIf_run leads_at_def split: option.splits if_splits dest!: findRow_Some)
qed

text \<open>Looking for the contact of a conversion leaves the leads alone.\<close>

lemma leads_at_on_schema:
  "(\<And>c. crm_leads (h c) = crm_leads c) \<Longrightarrow>
     leads_at s' (on_schema s (db_crm_update h) w) = leads_at s' w"
  by (simp add: leads_at_def on_schema_def split: option.split)

lemma contact_to_link_leads: "has_effect (same (leads_at s)) (contact_to_link E n l dc u)"
  unfolding contact_to_link_def contacts_create_def contacts_findById_def forSchema_def randomUUID_def
    date_now_def
  by (intro same.effect_rules same.table_rules same.effect_check_uuids effect_draw)
     (simp_all add: same_def leads_at_on_schema, simp add: leads_at_def)

context tenant_writes
begin

lemma status_effects:
  "has_effect R (listStatuses E t b)" "has_effect R (createStatus E t dto)"
  "has_effect R (updateStatus t i dto')" "has_effect R (deleteStatus t i)"
proof -
  have drop: "R w (on_schema s (db_crm_update (drop_status i)) w)" for s i w
    by (intro crm_write crm_change.Change_leads [where f = "\<lambda>l. l\<lparr>ld_statusId := None\<rparr>"])
       (simp_all add: drop_status_def conversion_def)
  show "has_effect R (listStatuses E t b)" "has_effect R (createStatus E t dto)"
    "has_effect R (updateStatus t i dto')" "has_effect R (deleteStatus t i)"
    unfolding listStatuses_def createStatus_def updateStatus_def deleteStatus_def
      statuses_findAll_def statuses_findById_def statuses_findByBranchAndName_def
      statuses_create_def statuses_update_def statuses_delete_def
    by (intro crm_rules effect_check_new_name drop)+
qed

lemma config_effects:
  "has_effect R (getConfig t b)" "has_effect R (upsertConfig E t dto)"
  "has_effect R (findEligibleAgents n b ids)" "has_effect R (configs_findByBranch n b)"
  unfolding getConfig_def upsertConfig_def configs_findByBranch_def configs_upsert_def
    findEligibleAgents_def
  by (intro crm_rules)+

lemma worker_effect: "has_effect R (process_job job)"
  unfolding process_job_def handleLeadCreated_def Let_def
  by (cases job; simp only: workflow_job.case)
     (intro crm_rules config_effects lead_write; simp add: conversion_def)+

lemma lead_repo_effects:
  "has_effect R (leads_findById n i)" "has_effect R (existing_lead n i)"
  "has_effect R (leads_create E n dto u c)" "has_effect R (upsert_contact E n dto u')"
  "has_effect R (contact_to_link E n l dc u')"
  unfolding leads_findById_def existing_lead_def leads_create_def upsert_contact_def contact_to_link_def
  by (intro crm_rules contact_repo_effects)+

lemma lead_effects:
  "has_effect R (listLeads E t flt)" "has_effect R (getLead t i)" "has_effect R (createLead E t dto u)"
  "has_effect R (updateLead t i dto' u)" "has_effect R (deleteLead t i)"
  "has_effect R (getLeadTags t i)" "has_effect R (addLeadTag t i g)" "has_effect R (removeLeadTag t i g)"
proof -
  show "has_effect R (listLeads E t flt)" "has_effect R (getLead t i)" "has_effect R (createLead E t dto u)"
    "has_effect R (getLeadTags t i)" "has_effect R (addLeadTag t i g)" "has_effect R (removeLeadTag t i g)"
    unfolding listLeads_def leads_findMany_def getLead_def createLead_def getLeadTags_def addLeadTag_def
      removeLeadTag_def lead_addTag_def lead_removeTag_def lead_findTags_def
    by (intro crm_rules contact_repo_effects lead_repo_effects tag_effects)+
  show "has_effect R (updateLead t i dto' u)"
    unfolding updateLead_def leads_update_def
    by (intro crm_rules lead_repo_effects lead_write) (simp add: conversion_def patch_lead_def)
  show "has_effect R (deleteLead t i)"
    unfolding deleteLead_def leads_softDelete_def
    by (intro crm_rules lead_repo_effects lead_write) (simp add: conversion_def)
qed

lemma conversion_write:
  assumes "uniqueBy ld_id (leads_at n w) \<Longrightarrow>
      \<not> existsRow (\<lambda>l. ld_id l = i \<and> ld_convertedAt l \<noteq> None) (leads_at n w)"
  shows "R w (after (leads_convertLead n i c u) w)"
proof (cases "valid_schema_name n \<and> w_schemas w n \<noteq> None")
  case False
  then show ?thesis
    by (auto simp: leads_convertLead_def forSchema_def after_def await_run throwIf_run refl
        updateChecked_def findUnique_def query_run)
next
  case True
  then obtain db where db: "w_schemas w n = Some db" and n: "valid_schema_name n" by blast
  have "R w (on_schema n (db_crm_update (crm_leads_update (updateBy ld_id i (converted c now u)))) w)" for now
  proof (rule change_on_schema)
    fix db'
    assume "w_schemas w n = Some db'"
    then have "leads_at n w = crm_leads (db_crm db')" by (simp add: leads_at_def)
    with assms show "db_change db' (db_crm_update (crm_leads_update (updateBy ld_id i (converted c now u))) db')"
      by (intro Crm Convert_lead [where k = i and f = "converted c now u"])
         (simp_all add: updateBy_eta converted_def)
  qed
  with db n show ?thesis
    by (auto simp: leads_convertLead_def forSchema_def after_def await_run throwIf_run refl
        updateChecked_run split: option.splits)
qed

lemma convert_effect: "has_effect R (convertLead E t i dc u)"
  unfolding convertLead_def
proof (rule effect_await [OF effect_getSchemaName], rule has_effectI)
  fix n w
  let ?link = "\<lambda>l. contact_to_link E n l dc u"
  let ?rest = "\<lambda>l. await (?link l) (\<lambda>c. leads_convertLead n i c u)"
  have found: "R w (after (?rest l) w)"
    if l: "l \<in> set (leads_at n w)" "ld_id l = i" "ld_convertedAt l = None" for l
  proof -
    obtain r w' where link: "?link l w = (r, w')" by fastforce
    have "R w w'" using link by (rule has_effectD [OF lead_repo_effects(5)])
    moreover have same: "leads_at n w' = leads_at n w"
      using has_effectD [OF contact_to_link_leads link] by (simp add: same_def)
    have "\<not> existsRow (\<lambda>x. ld_id x = i \<and> ld_convertedAt x \<noteq> None) (leads_at n w')"
      if "uniqueBy ld_id (leads_at n w')"
      using that l unfolding same uniqueBy_def existsRow_iff by (metis inj_on_contraD distinct_map)
    then have "R w' (after (leads_convertLead n i c u) w')" for c by (rule conversion_write)
    ultimately show ?thesis
      using trans by (cases r) (auto simp: after_def await_run link)
  qed
  obtain r w' where ex: "existing_lead n i w = (r, w')" by fastforce
  note facts = existing_lead_result [OF ex]
  show "R w (after (await (existing_lead n i) (\<lambda>l.
      await (throwIf (ld_convertedAt l \<noteq> None) (Crm LeadAlreadyConvertedException)) (\<lambda>_. ?rest l))) w)"
  proof (cases r)
    case (Inl e)
    with ex facts(1) show ?thesis by (simp add: after_def await_run refl)
  next
    case (Inr l)
    with facts found [of l] ex show ?thesis
      by (auto simp: after_def await_run throwIf_run refl)
  qed
qed

end

end
