(* ===== verification/Lead_Activities.thy ===== *)
theory Lead_Activities
  imports Lead_Assignment
begin

text \<open>
  \<^verbatim>\<open>modules/lead-activities\<close> of \<^verbatim>\<open>crm-core\<close>: the notes, calls, meetings and tasks of a lead, and the
  three columns of the lead that summarise them. The mapper passes the columns of a row on, so the
  row stands for the response. The application and the database read the same instant in one
  request, so that \<^verbatim>\<open>createdAt\<close> of an activity, which the database fills in, is the \<^verbatim>\<open>now\<close> of
  the repository. A request field is as in the other modules.
\<close>

subsection \<open>Requests\<close>

record CreateActivityDto =
  cad_type :: LeadActivityType
  cad_direction :: "ActivityDirection option"
  cad_subject :: "string option"
  cad_body :: "string option"
  cad_outcome :: "CallOutcome option"
  cad_durationSeconds :: "int option"
  cad_recordingUrl :: "string option"
  cad_transcriptUrl :: "string option"
  cad_scheduledAt :: "int option"
  cad_completedAt :: "int option"
  cad_dueAt :: "int option"
  cad_assignedToUserId :: "string option"
  cad_metadata :: "json option"

record UpdateActivityDto =
  uad_subject :: "string option option"
  uad_body :: "string option option"
  uad_outcome :: "CallOutcome option option"
  uad_durationSeconds :: "int option option"
  uad_recordingUrl :: "string option option"
  uad_transcriptUrl :: "string option option"
  uad_scheduledAt :: "int option option"
  uad_completedAt :: "int option option"
  uad_dueAt :: "int option option"
  uad_taskStatus :: "ActivityTaskStatus option option"
  uad_assignedToUserId :: "string option option"
  uad_metadata :: "json option option"

record ActivityQueryDto =
  aq_type :: "LeadActivityType option"
  aq_page :: "int option"
  aq_limit :: "int option"

record MyTasksQueryDto =
  mq_status :: "ActivityTaskStatus option"
  mq_page :: "int option"
  mq_limit :: "int option"

subsection \<open>Repository\<close>

definition firstOrdered ::
    "('w, 'r) tbl \<Rightarrow> ('r \<Rightarrow> bool) \<Rightarrow> ('r \<Rightarrow> 'k::linorder) \<Rightarrow> ('w, 'r option) handler" where
  "firstOrdered T p key =
     await (findOrdered T p key) (\<lambda>rs. ret (case rs of [] \<Rightarrow> None | r # _ \<Rightarrow> Some r))"

definition open_task :: "string \<Rightarrow> lead_activity \<Rightarrow> bool" where
  "open_task leadId a \<longleftrightarrow>
     la_leadId a = leadId \<and> la_type a = LeadActivityType.TASK \<and>
     la_taskStatus a \<in> {Some ActivityTaskStatus.PENDING, Some ActivityTaskStatus.IN_PROGRESS} \<and>
     la_dueAt a \<noteq> None \<and> la_deletedAt a = None"

definition live_activity :: "string \<Rightarrow> lead_activity \<Rightarrow> bool" where
  "live_activity leadId a \<longleftrightarrow> la_leadId a = leadId \<and> la_deletedAt a = None"

definition recalcNextFollowUp :: "string \<Rightarrow> string \<Rightarrow> (world, unit) handler" where
  "recalcNextFollowUp schemaName leadId =
     await (forSchema schemaName) (\<lambda>s.
     await (firstOrdered (leadActivities s) (open_task leadId) (\<lambda>a. orElse (la_dueAt a) 0)) (\<lambda>earliest.
     await (update (leads s) ld_id leadId
       (\<lambda>l. l\<lparr>ld_nextFollowUpAt := Option.bind earliest la_dueAt\<rparr>)) (\<lambda>_.
     ret ())))"

definition recalcLastActivityAt :: "string \<Rightarrow> string \<Rightarrow> (world, unit) handler" where
  "recalcLastActivityAt schemaName leadId =
     await (forSchema schemaName) (\<lambda>s.
     await (firstOrdered (leadActivities s) (live_activity leadId) (\<lambda>a. - la_createdAt a)) (\<lambda>latest.
     await (update (leads s) ld_id leadId
       (\<lambda>l. l\<lparr>ld_lastActivityAt := map_option la_createdAt latest\<rparr>)) (\<lambda>_.
     ret ())))"

definition activity_refs :: "string \<Rightarrow> lead_activity \<Rightarrow> world \<Rightarrow> bool" where
  "activity_refs s a = in_crm s (\<lambda>c. existsRow (\<lambda>l. ld_id l = la_leadId a) (crm_leads c))"

definition new_activity ::
    "string \<Rightarrow> string \<Rightarrow> CreateActivityDto \<Rightarrow> string \<Rightarrow> int \<Rightarrow> lead_activity" where
  "new_activity i leadId dto createdByUserId now =
     \<lparr>la_id = i, la_leadId = leadId, la_type = cad_type dto, la_direction = cad_direction dto,
      la_subject = cad_subject dto, la_body = cad_body dto, la_outcome = cad_outcome dto,
      la_durationSeconds = cad_durationSeconds dto, la_recordingUrl = cad_recordingUrl dto,
      la_transcriptUrl = cad_transcriptUrl dto, la_scheduledAt = cad_scheduledAt dto,
      la_completedAt = cad_completedAt dto, la_dueAt = cad_dueAt dto,
      la_taskStatus =
        (if cad_type dto = LeadActivityType.TASK then Some ActivityTaskStatus.PENDING else None),
      la_createdByUserId = createdByUserId, la_assignedToUserId = cad_assignedToUserId dto,
      la_metadata = cad_metadata dto, la_deletedAt = None, la_createdAt = now\<rparr>"

definition touch_lead :: "int \<Rightarrow> lead \<Rightarrow> lead" where
  "touch_lead now l =
     l\<lparr>ld_lastActivityAt := Some now, ld_touchpointCount := ld_touchpointCount l + 1\<rparr>"

definition activities_create ::
    "env \<Rightarrow> string \<Rightarrow> string \<Rightarrow> CreateActivityDto \<Rightarrow> string \<Rightarrow> (world, lead_activity) handler" where
  "activities_create E schemaName leadId dto createdByUserId =
     await (forSchema schemaName) (\<lambda>s.
     await date_now (\<lambda>now.
     await (randomUUID E) (\<lambda>i.
     await
       (both
         (create (leadActivities s) activity_clash (activity_refs s)
           (new_activity i leadId dto createdByUserId now))
         (update (leads s) ld_id leadId (touch_lead now))) (\<lambda>(activity, _).
     await
       (if cad_type dto = LeadActivityType.TASK \<and> cad_dueAt dto \<noteq> None
        then recalcNextFollowUp schemaName leadId else ret ()) (\<lambda>_.
     ret activity)))))"

definition activity_where :: "string \<Rightarrow> ActivityQueryDto \<Rightarrow> lead_activity \<Rightarrow> bool" where
  "activity_where leadId q a \<longleftrightarrow>
     live_activity leadId a \<and> (aq_type q \<noteq> None \<longrightarrow> Some (la_type a) = aq_type q)"

definition activities_findMany ::
    "string \<Rightarrow> string \<Rightarrow> ActivityQueryDto \<Rightarrow> (world, lead_activity list \<times> nat) handler" where
  "activities_findMany schemaName leadId q =
     await (forSchema schemaName) (\<lambda>s.
     await (findPage (leadActivities s) (activity_where leadId q) (\<lambda>a. - la_createdAt a)
       (orElse (aq_page q) 1) (orElse (aq_limit q) 20)) (\<lambda>records.
     await (count (leadActivities s) (activity_where leadId q)) (\<lambda>total.
     ret (records, total))))"

definition activities_findById :: "string \<Rightarrow> string \<Rightarrow> (world, lead_activity option) handler" where
  "activities_findById schemaName activityId =
     await (forSchema schemaName) (\<lambda>s.
     findFirst (leadActivities s) (\<lambda>a. la_id a = activityId \<and> la_deletedAt a = None))"

definition patch_activity :: "UpdateActivityDto \<Rightarrow> lead_activity \<Rightarrow> lead_activity" where
  "patch_activity dto a =
     a\<lparr>la_subject := patched (uad_subject dto) (la_subject a),
       la_body := patched (uad_body dto) (la_body a),
       la_outcome := patched (uad_outcome dto) (la_outcome a),
       la_durationSeconds := patched (uad_durationSeconds dto) (la_durationSeconds a),
       la_recordingUrl := patched (uad_recordingUrl dto) (la_recordingUrl a),
       la_transcriptUrl := patched (uad_transcriptUrl dto) (la_transcriptUrl a),
       la_scheduledAt := patched (uad_scheduledAt dto) (la_scheduledAt a),
       la_completedAt := patched (uad_completedAt dto) (la_completedAt a),
       la_dueAt := patched (uad_dueAt dto) (la_dueAt a),
       la_taskStatus := patched (uad_taskStatus dto) (la_taskStatus a),
       la_assignedToUserId := patched (uad_assignedToUserId dto) (la_assignedToUserId a),
       la_metadata := patched (uad_metadata dto) (la_metadata a)\<rparr>"

text \<open>A null for the JSON column is refused by the client.\<close>

definition activities_update ::
    "string \<Rightarrow> string \<Rightarrow> UpdateActivityDto \<Rightarrow> (world, lead_activity) handler" where
  "activities_update schemaName activityId dto =
     await (forSchema schemaName) (\<lambda>s.
     await (throwIf (\<not> no_null (uad_metadata dto)) (Prisma PrismaValidation)) (\<lambda>_.
     await (update (leadActivities s) la_id activityId (patch_activity dto)) (\<lambda>activity.
     await
       (if uad_taskStatus dto \<noteq> None \<or> uad_dueAt dto \<noteq> None
        then recalcNextFollowUp schemaName (la_leadId activity) else ret ()) (\<lambda>_.
     ret activity))))"

definition activities_softDelete :: "string \<Rightarrow> string \<Rightarrow> string \<Rightarrow> (world, unit) handler" where
  "activities_softDelete schemaName activityId leadId =
     await (forSchema schemaName) (\<lambda>s.
     await date_now (\<lambda>now.
     await (update (leadActivities s) la_id activityId (\<lambda>a. a\<lparr>la_deletedAt := Some now\<rparr>)) (\<lambda>_.
     await
       (both
         (update (leads s) ld_id leadId (\<lambda>l. l\<lparr>ld_touchpointCount := ld_touchpointCount l - 1\<rparr>))
         (both (recalcLastActivityAt schemaName leadId) (recalcNextFollowUp schemaName leadId))) (\<lambda>_.
     ret ()))))"

text \<open>The types that have activities, with their number.\<close>

definition activity_types :: "LeadActivityType list" where
  "activity_types =
     [LeadActivityType.NOTE, LeadActivityType.CALL, LeadActivityType.EMAIL, LeadActivityType.SMS,
      LeadActivityType.WHATSAPP, LeadActivityType.MEETING, LeadActivityType.TASK]"

definition group_counts :: "lead_activity list \<Rightarrow> (LeadActivityType \<times> nat) list" where
  "group_counts as =
     filter (\<lambda>(t, n). 0 < n) (map (\<lambda>t. (t, countRows (\<lambda>a. la_type a = t) as)) activity_types)"

record LeadActivitySummaryDto =
  sm_counts :: "(LeadActivityType \<times> nat) list"
  sm_total :: nat
  sm_lastActivityAt :: "int option"
  sm_nextFollowUpAt :: "int option"
  sm_touchpointCount :: int

definition activities_summary :: "string \<Rightarrow> string \<Rightarrow> (world, LeadActivitySummaryDto) handler" where
  "activities_summary schemaName leadId =
     await (forSchema schemaName) (\<lambda>s.
     await (findMany (leadActivities s) (live_activity leadId)) (\<lambda>as.
     await (findFirst (leads s) (\<lambda>l. ld_id l = leadId)) (\<lambda>l.
     ret \<lparr>sm_counts = group_counts as, sm_total = sum_list (map snd (group_counts as)),
          sm_lastActivityAt = Option.bind l ld_lastActivityAt,
          sm_nextFollowUpAt = Option.bind l ld_nextFollowUpAt,
          sm_touchpointCount = (case l of None \<Rightarrow> 0 | Some l \<Rightarrow> ld_touchpointCount l)\<rparr>)))"

definition my_task :: "string \<Rightarrow> MyTasksQueryDto \<Rightarrow> lead_activity \<Rightarrow> bool" where
  "my_task userId q a \<longleftrightarrow>
     la_type a = LeadActivityType.TASK \<and> la_assignedToUserId a = Some userId \<and>
     la_deletedAt a = None \<and>
     (case mq_status q of
        Some st \<Rightarrow> la_taskStatus a = Some st
      | None \<Rightarrow>
          la_taskStatus a \<in> {Some ActivityTaskStatus.PENDING, Some ActivityTaskStatus.IN_PROGRESS})"

definition findMyTasks ::
    "string \<Rightarrow> string \<Rightarrow> MyTasksQueryDto \<Rightarrow> (world, lead_activity list \<times> nat) handler" where
  "findMyTasks schemaName userId q =
     await (forSchema schemaName) (\<lambda>s.
     await (findPage (leadActivities s) (my_task userId q)
       (\<lambda>a. (la_dueAt a = None, orElse (la_dueAt a) 0, - la_createdAt a))
       (orElse (mq_page q) 1) (orElse (mq_limit q) 20)) (\<lambda>records.
     await (count (leadActivities s) (my_task userId q)) (\<lambda>total.
     ret (records, total))))"

subsection \<open>Service\<close>

definition assertLeadExists :: "string \<Rightarrow> string \<Rightarrow> (world, unit) handler" where
  "assertLeadExists schemaName leadId =
     await (forSchema schemaName) (\<lambda>s.
     await (findFirst (leads s) (\<lambda>l. ld_id l = leadId \<and> ld_deletedAt l = None)) (\<lambda>l.
     throwIf (l = None) (Crm LeadNotFoundException)))"

definition assertActivityBelongsToLead :: "string \<Rightarrow> string \<Rightarrow> string \<Rightarrow> (world, unit) handler" where
  "assertActivityBelongsToLead schemaName activityId leadId =
     await (forSchema schemaName) (\<lambda>s.
     await (findFirst (leadActivities s) (\<lambda>a. la_id a = activityId \<and> live_activity leadId a)) (\<lambda>a.
     throwIf (a = None) (Crm LeadActivityNotFoundException)))"

definition createActivity ::
    "env \<Rightarrow> string \<Rightarrow> string \<Rightarrow> CreateActivityDto \<Rightarrow> string \<Rightarrow> (world, lead_activity) handler" where
  "createActivity E tenantId leadId dto userId =
     await (getSchemaName tenantId) (\<lambda>schemaName.
     await (assertLeadExists schemaName leadId) (\<lambda>_.
     await (throwIf (cad_type dto = LeadActivityType.TASK \<and> cad_dueAt dto = None)
       (Nest (BadRequestException ''dueAt is required for TASK activities''))) (\<lambda>_.
     activities_create E schemaName leadId dto userId)))"

definition listActivities ::
    "string \<Rightarrow> string \<Rightarrow> ActivityQueryDto \<Rightarrow> (world, lead_activity page) handler" where
  "listActivities tenantId leadId q =
     await (getSchemaName tenantId) (\<lambda>schemaName.
     await (assertLeadExists schemaName leadId) (\<lambda>_.
     await (activities_findMany schemaName leadId q) (\<lambda>(items, total).
     ret \<lparr>pg_data = items, pg_total = total, pg_page = orElse (aq_page q) 1,
          pg_limit = orElse (aq_limit q) 20\<rparr>)))"

definition getActivitySummary :: "string \<Rightarrow> string \<Rightarrow> (world, LeadActivitySummaryDto) handler" where
  "getActivitySummary tenantId leadId =
     await (getSchemaName tenantId) (\<lambda>schemaName.
     await (assertLeadExists schemaName leadId) (\<lambda>_.
     activities_summary schemaName leadId))"

definition updateActivity ::
    "string \<Rightarrow> string \<Rightarrow> string \<Rightarrow> UpdateActivityDto \<Rightarrow> (world, lead_activity) handler" where
  "updateActivity tenantId leadId activityId dto =
     await (getSchemaName tenantId) (\<lambda>schemaName.
     await (assertActivityBelongsToLead schemaName activityId leadId) (\<lambda>_.
     activities_update schemaName activityId dto))"

definition deleteActivity :: "string \<Rightarrow> string \<Rightarrow> string \<Rightarrow> (world, unit) handler" where
  "deleteActivity tenantId leadId activityId =
     await (getSchemaName tenantId) (\<lambda>schemaName.
     await (assertActivityBelongsToLead schemaName activityId leadId) (\<lambda>_.
     activities_softDelete schemaName activityId leadId))"

definition getMyTasks ::
    "string \<Rightarrow> string \<Rightarrow> MyTasksQueryDto \<Rightarrow> (world, lead_activity page) handler" where
  "getMyTasks tenantId userId q =
     await (getSchemaName tenantId) (\<lambda>schemaName.
     await (findMyTasks schemaName userId q) (\<lambda>(items, total).
     ret \<lparr>pg_data = items, pg_total = total, pg_page = orElse (mq_page q) 1,
          pg_limit = orElse (mq_limit q) 20\<rparr>))"

subsection \<open>Effects\<close>

context tenant_writes
begin

lemma recalc_effects:
  "has_effect R (recalcNextFollowUp n i)" "has_effect R (recalcLastActivityAt n i)"
  unfolding recalcNextFollowUp_def recalcLastActivityAt_def firstOrdered_def
  by (intro crm_rules lead_write; simp add: conversion_def)+

lemma activity_effects:
  "has_effect R (createActivity E t i dto u)" "has_effect R (listActivities t i q)"
  "has_effect R (getActivitySummary t i)" "has_effect R (updateActivity t i a dto')"
  "has_effect R (deleteActivity t i a)" "has_effect R (getMyTasks t u mq)"
proof -
  have count: "R w (on_rows (leads s) (updateBy ld_id i (\<lambda>l. l\<lparr>ld_touchpointCount := f l\<rparr>)) w)" for w s i f
    by (intro lead_write) (simp add: conversion_def)
  have touch: "R w (on_rows (leads s) (updateBy ld_id i (touch_lead now)) w)" for w s i now
    by (intro lead_write) (simp add: conversion_def touch_lead_def)
  show "has_effect R (createActivity E t i dto u)" "has_effect R (listActivities t i q)"
    "has_effect R (getActivitySummary t i)" "has_effect R (updateActivity t i a dto')"
    "has_effect R (deleteActivity t i a)" "has_effect R (getMyTasks t u mq)"
    unfolding createActivity_def listActivities_def getActivitySummary_def updateActivity_def
      deleteActivity_def getMyTasks_def assertLeadExists_def assertActivityBelongsToLead_def
      activities_create_def activities_findMany_def activities_update_def activities_softDelete_def
      activities_summary_def findMyTasks_def
    by (intro crm_rules recalc_effects count touch)+
qed

end

end
