(* ===== verification/Tasks.thy ===== *)
theory Tasks
  imports Lead_Activities
begin

text \<open>
  \<^verbatim>\<open>modules/tasks\<close> of \<^verbatim>\<open>crm-core\<close>: tasks with assignees, subtasks and checklists. The columns
  \<^verbatim>\<open>watchers\<close>, which nothing writes, and \<^verbatim>\<open>updatedAt\<close> are not modelled. The message to a new assignee,
  which the service does not wait for, is queued at once.
\<close>

subsection \<open>Requests and responses\<close>

record CreateTaskDto =
  ctk_title :: string
  ctk_description :: "string option"
  ctk_type :: "TaskType option"
  ctk_status :: "TaskStatus option"
  ctk_priority :: "TaskPriority option"
  ctk_startDate :: "int option"
  ctk_dueAt :: "int option"
  ctk_points :: "int option"
  ctk_timeEstimate :: "int option"
  ctk_recurrenceRule :: "string option"
  ctk_reminders :: "string list option"
  ctk_entityType :: "TaskEntityType option"
  ctk_entityId :: "string option"
  ctk_parentTaskId :: "string option"
  ctk_assigneeIds :: "string list option"
  ctk_metadata :: "json option"

record UpdateTaskDto =
  utk_title :: "string option option"
  utk_description :: "string option option"
  utk_type :: "TaskType option option"
  utk_status :: "TaskStatus option option"
  utk_priority :: "TaskPriority option option"
  utk_startDate :: "int option option"
  utk_dueAt :: "int option option"
  utk_completedAt :: "int option option"
  utk_points :: "int option option"
  utk_timeEstimate :: "int option option"
  utk_recurrenceRule :: "string option option"
  utk_reminders :: "string list option option"
  utk_metadata :: "json option option"

record TaskQueryDto =
  tq_status :: "TaskStatus option"
  tq_priority :: "TaskPriority option"
  tq_type :: "TaskType option"
  tq_assigneeId :: "string option"
  tq_entityType :: "TaskEntityType option"
  tq_entityId :: "string option"
  tq_parentTaskId :: "string option"
  tq_topLevel :: "bool option"
  tq_dueFrom :: "int option"
  tq_dueTo :: "int option"
  tq_overdue :: "bool option"
  tq_page :: "int option"
  tq_limit :: "int option"

record CreateChecklistDto =
  cch_title :: string
  cch_displayOrder :: "int option"

record CreateChecklistItemDto =
  cci_title :: string
  cci_displayOrder :: "int option"

record UpdateChecklistItemDto =
  uci_title :: "string option option"
  uci_isChecked :: "bool option option"
  uci_displayOrder :: "int option option"

record TaskChecklistDto =
  tcd_checklist :: task_checklist
  tcd_items :: "checklist_item list"

record SubtaskRow =
  st_id :: string
  st_title :: string
  st_status :: TaskStatus
  st_priority :: TaskPriority
  st_dueAt :: "int option"

record TaskDto =
  td_task :: task
  td_assignees :: "task_assignee list"
  td_checklists :: "TaskChecklistDto list"
  td_subtasks :: "SubtaskRow list option"

instantiation TaskPriority :: linorder
begin

primrec rank_TaskPriority :: "TaskPriority \<Rightarrow> nat" where
  "rank_TaskPriority TaskPriority.URGENT = 0"
| "rank_TaskPriority TaskPriority.HIGH = 1"
| "rank_TaskPriority TaskPriority.NORMAL = 2"
| "rank_TaskPriority TaskPriority.LOW = 3"

definition less_TaskPriority :: "TaskPriority \<Rightarrow> TaskPriority \<Rightarrow> bool" where
  "less_TaskPriority x y \<longleftrightarrow> rank_TaskPriority x < rank_TaskPriority y"

definition less_eq_TaskPriority :: "TaskPriority \<Rightarrow> TaskPriority \<Rightarrow> bool" where
  "less_eq_TaskPriority x y \<longleftrightarrow> rank_TaskPriority x \<le> rank_TaskPriority y"

instance
proof
  show "x \<le> y \<Longrightarrow> y \<le> x \<Longrightarrow> x = y" for x y :: TaskPriority
    by (cases x; cases y) (simp_all add: less_eq_TaskPriority_def)
qed (auto simp: less_TaskPriority_def less_eq_TaskPriority_def)

end

definition checklist_toDto :: "crm_db \<Rightarrow> task_checklist \<Rightarrow> TaskChecklistDto" where
  "checklist_toDto c ch =
     \<lparr>tcd_checklist = ch,
      tcd_items = sort_key ci_displayOrder (filter (\<lambda>i. ci_checklistId i = ch_id ch) (crm_items c))\<rparr>"

definition task_toDto :: "crm_db \<Rightarrow> task \<Rightarrow> TaskDto" where
  "task_toDto c t =
     \<lparr>td_task = t, td_assignees = filter (\<lambda>a. ta_taskId a = tk_id t) (crm_assignees c),
      td_checklists = map (checklist_toDto c)
        (sort_key ch_displayOrder (filter (\<lambda>ch. ch_taskId ch = tk_id t) (crm_checklists c))),
      td_subtasks = None\<rparr>"

subsection \<open>Repository\<close>

definition task_refs :: "string \<Rightarrow> task \<Rightarrow> world \<Rightarrow> bool" where
  "task_refs s t = in_crm s (\<lambda>c. optional_ref tk_id (tk_parentTaskId t) (crm_tasks c))"

definition assignee_refs :: "string \<Rightarrow> task_assignee \<Rightarrow> world \<Rightarrow> bool" where
  "assignee_refs s a = in_crm s (\<lambda>c. existsRow (\<lambda>t. tk_id t = ta_taskId a) (crm_tasks c))"

text \<open>An assignee that is there already is skipped.\<close>

definition put_assignee :: "string \<Rightarrow> string \<Rightarrow> string \<Rightarrow> string \<Rightarrow> (world, unit) handler" where
  "put_assignee s taskId userId byUserId =
     await (findUnique (taskAssignees s) assignee_key (taskId, userId)) (\<lambda>there.
     if there \<noteq> None then ret ()
     else
       await date_now (\<lambda>now.
       await (create (taskAssignees s) assignee_clash (assignee_refs s)
         \<lparr>ta_taskId = taskId, ta_userId = userId, ta_assignedAt = now,
          ta_assignedByUserId = Some byUserId\<rparr>) (\<lambda>_. ret ())))"

definition tasks_create :: "env \<Rightarrow> string \<Rightarrow> CreateTaskDto \<Rightarrow> string \<Rightarrow> (world, TaskDto) handler" where
  "tasks_create E schemaName dto createdByUserId =
     await (forSchema schemaName) (\<lambda>s.
     await (randomUUID E) (\<lambda>i.
     await date_now (\<lambda>now.
     await
       (transaction
         (await (create (tasks s) task_clash (task_refs s)
            \<lparr>tk_id = i, tk_title = ctk_title dto, tk_description = ctk_description dto,
             tk_type = orElse (ctk_type dto) TaskType.TODO,
             tk_status = orElse (ctk_status dto) TaskStatus.TODO,
             tk_priority = orElse (ctk_priority dto) TaskPriority.NORMAL,
             tk_startDate = ctk_startDate dto, tk_dueAt = ctk_dueAt dto, tk_completedAt = None,
             tk_points = ctk_points dto, tk_timeEstimate = ctk_timeEstimate dto,
             tk_recurrenceRule = ctk_recurrenceRule dto, tk_reminders = ctk_reminders dto,
             tk_entityType = ctk_entityType dto, tk_entityId = ctk_entityId dto,
             tk_parentTaskId = ctk_parentTaskId dto, tk_createdByUserId = createdByUserId,
             tk_metadata = ctk_metadata dto, tk_deletedAt = None, tk_createdAt = now\<rparr>) (\<lambda>t.
          await (forEach (orElse (ctk_assigneeIds dto) [])
            (\<lambda>userId. put_assignee s i userId createdByUserId)) (\<lambda>_.
          ret t)))) (\<lambda>t.
     read_db s (\<lambda>db. task_toDto (db_crm db) t)))))"

text \<open>
  The filter. \<^verbatim>\<open>overdue\<close> is written over the filters on the due date and on the status.
\<close>

definition due_is :: "(int \<Rightarrow> bool) \<Rightarrow> task \<Rightarrow> bool" where
  "due_is f t = (case tk_dueAt t of None \<Rightarrow> False | Some d \<Rightarrow> f d)"

definition due_filter :: "TaskQueryDto \<Rightarrow> int \<Rightarrow> task \<Rightarrow> bool" where
  "due_filter q now t \<longleftrightarrow>
     (if tq_overdue q = Some True then due_is (\<lambda>d. d < now) t
      else
        (case tq_dueFrom q of None \<Rightarrow> True | Some b \<Rightarrow> due_is (\<lambda>d. b \<le> d) t) \<and>
        (case tq_dueTo q of None \<Rightarrow> True | Some e \<Rightarrow> due_is (\<lambda>d. d \<le> e) t))"

definition status_filter :: "TaskQueryDto \<Rightarrow> task \<Rightarrow> bool" where
  "status_filter q t \<longleftrightarrow>
     (if tq_overdue q = Some True then tk_status t \<notin> {TaskStatus.DONE, TaskStatus.CANCELLED}
      else tq_status q = None \<or> tq_status q = Some (tk_status t))"

text \<open>\<^verbatim>\<open>topLevel\<close> is written over the filter on the parent.\<close>

definition parent_filter :: "TaskQueryDto \<Rightarrow> task \<Rightarrow> bool" where
  "parent_filter q t \<longleftrightarrow>
     (case tq_topLevel q of
        Some True \<Rightarrow> tk_parentTaskId t = None
      | Some False \<Rightarrow> tk_parentTaskId t \<noteq> None
      | None \<Rightarrow> truthy (tq_parentTaskId q) \<longrightarrow> tk_parentTaskId t = tq_parentTaskId q)"

definition task_where :: "crm_db \<Rightarrow> TaskQueryDto \<Rightarrow> int \<Rightarrow> task \<Rightarrow> bool" where
  "task_where c q now t \<longleftrightarrow>
     tk_deletedAt t = None \<and> status_filter q t \<and> due_filter q now t \<and> parent_filter q t \<and>
     (tq_priority q = None \<or> tq_priority q = Some (tk_priority t)) \<and>
     (tq_type q = None \<or> tq_type q = Some (tk_type t)) \<and>
     (tq_entityType q = None \<or> tq_entityType q = tk_entityType t) \<and>
     (truthy (tq_entityId q) \<longrightarrow> tk_entityId t = tq_entityId q) \<and>
     (truthy (tq_assigneeId q) \<longrightarrow>
        existsRow (\<lambda>a. assignee_key a = (tk_id t, the (tq_assigneeId q))) (crm_assignees c))"

record TaskListResponseDto =
  tl_items :: "TaskDto list"
  tl_total :: nat
  tl_page :: int
  tl_limit :: int

definition tasks_findMany :: "string \<Rightarrow> TaskQueryDto \<Rightarrow> (world, TaskListResponseDto) handler" where
  "tasks_findMany schemaName q =
     await (forSchema schemaName) (\<lambda>s.
     await date_now (\<lambda>now.
     await (read_db s db_crm) (\<lambda>c.
     await (findPage (tasks s) (task_where c q now)
       (\<lambda>t. (tk_priority t, tk_dueAt t = None, orElse (tk_dueAt t) 0, - tk_createdAt t))
       (orElse (tq_page q) 1) (orElse (tq_limit q) 20)) (\<lambda>ts.
     await (count (tasks s) (task_where c q now)) (\<lambda>total.
     ret \<lparr>tl_items = map (task_toDto c) ts, tl_total = total, tl_page = orElse (tq_page q) 1,
          tl_limit = orElse (tq_limit q) 20\<rparr>)))))"

definition subtask_row :: "task \<Rightarrow> SubtaskRow" where
  "subtask_row t =
     \<lparr>st_id = tk_id t, st_title = tk_title t, st_status = tk_status t,
      st_priority = tk_priority t, st_dueAt = tk_dueAt t\<rparr>"

definition tasks_findById :: "string \<Rightarrow> string \<Rightarrow> (world, TaskDto option) handler" where
  "tasks_findById schemaName taskId =
     await (forSchema schemaName) (\<lambda>s.
     await (findFirst (tasks s) (\<lambda>t. tk_id t = taskId \<and> tk_deletedAt t = None)) (\<lambda>found.
     await (findOrdered (tasks s) (\<lambda>t. tk_parentTaskId t = Some taskId \<and> tk_deletedAt t = None)
       tk_createdAt) (\<lambda>subtasks.
     case found of
       None \<Rightarrow> ret None
     | Some t \<Rightarrow>
         read_db s (\<lambda>db. Some ((task_toDto (db_crm db) t)
           \<lparr>td_subtasks := Some (map subtask_row subtasks)\<rparr>)))))"

definition patch_task :: "UpdateTaskDto \<Rightarrow> int \<Rightarrow> task \<Rightarrow> task" where
  "patch_task dto now t =
     t\<lparr>tk_title := patched_value (utk_title dto) (tk_title t),
       tk_description := patched (utk_description dto) (tk_description t),
       tk_type := patched_value (utk_type dto) (tk_type t),
       tk_status := patched_value (utk_status dto) (tk_status t),
       tk_priority := patched_value (utk_priority dto) (tk_priority t),
       tk_startDate := patched (utk_startDate dto) (tk_startDate t),
       tk_dueAt := patched (utk_dueAt dto) (tk_dueAt t),
       tk_completedAt :=
         (case utk_completedAt dto of
            Some c \<Rightarrow> c
          | None \<Rightarrow> if utk_status dto = Some (Some TaskStatus.DONE) then Some now else tk_completedAt t),
       tk_points := patched (utk_points dto) (tk_points t),
       tk_timeEstimate := patched (utk_timeEstimate dto) (tk_timeEstimate t),
       tk_recurrenceRule := patched (utk_recurrenceRule dto) (tk_recurrenceRule t),
       tk_reminders := patched (utk_reminders dto) (tk_reminders t),
       tk_metadata := patched (utk_metadata dto) (tk_metadata t)\<rparr>"

definition task_patch_valid :: "UpdateTaskDto \<Rightarrow> bool" where
  "task_patch_valid dto \<longleftrightarrow>
     no_null (utk_title dto) \<and> no_null (utk_type dto) \<and> no_null (utk_status dto) \<and>
     no_null (utk_priority dto)"

definition tasks_update :: "string \<Rightarrow> string \<Rightarrow> UpdateTaskDto \<Rightarrow> (world, TaskDto) handler" where
  "tasks_update schemaName taskId dto =
     await (forSchema schemaName) (\<lambda>s.
     await date_now (\<lambda>now.
     await (throwIf (\<not> task_patch_valid dto) (Prisma PrismaValidation)) (\<lambda>_.
     await (update (tasks s) tk_id taskId (patch_task dto now)) (\<lambda>t.
     read_db s (\<lambda>db. task_toDto (db_crm db) t)))))"

definition tasks_softDelete :: "string \<Rightarrow> string \<Rightarrow> (world, unit) handler" where
  "tasks_softDelete schemaName taskId =
     await (forSchema schemaName) (\<lambda>s.
     await date_now (\<lambda>now.
     await (update (tasks s) tk_id taskId (\<lambda>t. t\<lparr>tk_deletedAt := Some now\<rparr>)) (\<lambda>_. ret ())))"

text \<open>The user of an assignee is not validated before it reaches the client.\<close>

definition tasks_addAssignee ::
    "env \<Rightarrow> string \<Rightarrow> string \<Rightarrow> string \<Rightarrow> string \<Rightarrow> (world, unit) handler" where
  "tasks_addAssignee E schemaName taskId userId assignedByUserId =
     await (forSchema schemaName) (\<lambda>s.
     await (check_uuids E [Some userId]) (\<lambda>_.
     put_assignee s taskId userId assignedByUserId))"

definition tasks_removeAssignee :: "string \<Rightarrow> string \<Rightarrow> string \<Rightarrow> (world, unit) handler" where
  "tasks_removeAssignee schemaName taskId userId =
     await (forSchema schemaName) (\<lambda>s.
     await (deleteMany (taskAssignees s) (\<lambda>a. assignee_key a = (taskId, userId))) (\<lambda>_. ret ()))"

definition checklist_refs :: "string \<Rightarrow> task_checklist \<Rightarrow> world \<Rightarrow> bool" where
  "checklist_refs s ch = in_crm s (\<lambda>c. existsRow (\<lambda>t. tk_id t = ch_taskId ch) (crm_tasks c))"

definition checklists_create ::
    "env \<Rightarrow> string \<Rightarrow> string \<Rightarrow> string \<Rightarrow> int \<Rightarrow> (world, TaskChecklistDto) handler" where
  "checklists_create E schemaName taskId title displayOrder =
     await (forSchema schemaName) (\<lambda>s.
     await (randomUUID E) (\<lambda>i.
     await date_now (\<lambda>now.
     await (create (taskChecklists s) checklist_clash (checklist_refs s)
       \<lparr>ch_id = i, ch_taskId = taskId, ch_title = title, ch_displayOrder = displayOrder,
        ch_createdAt = now\<rparr>) (\<lambda>ch.
     read_db s (\<lambda>db. checklist_toDto (db_crm db) ch)))))"

definition drop_checklist :: "string \<Rightarrow> crm_db \<Rightarrow> crm_db" where
  "drop_checklist i c =
     crm_checklists_update (deleteRows (\<lambda>ch. ch_id ch = i))
       (crm_items_update (deleteRows (\<lambda>x. ci_checklistId x = i)) c)"

definition checklists_delete :: "string \<Rightarrow> string \<Rightarrow> (world, unit) handler" where
  "checklists_delete schemaName checklistId =
     await (forSchema schemaName) (\<lambda>s.
     await (findUnique (taskChecklists s) ch_id checklistId) (\<lambda>found.
     await (throwIf (found = None) (Prisma P2025)) (\<lambda>_.
     writes (on_schema s (db_crm_update (drop_checklist checklistId))))))"

definition findChecklist :: "string \<Rightarrow> string \<Rightarrow> string \<Rightarrow> (world, task_checklist option) handler" where
  "findChecklist schemaName checklistId taskId =
     await (forSchema schemaName) (\<lambda>s.
     findFirst (taskChecklists s) (\<lambda>ch. ch_id ch = checklistId \<and> ch_taskId ch = taskId))"

definition item_refs :: "string \<Rightarrow> checklist_item \<Rightarrow> world \<Rightarrow> bool" where
  "item_refs s x = in_crm s (\<lambda>c. existsRow (\<lambda>ch. ch_id ch = ci_checklistId x) (crm_checklists c))"

definition items_create ::
    "env \<Rightarrow> string \<Rightarrow> string \<Rightarrow> string \<Rightarrow> int \<Rightarrow> (world, checklist_item) handler" where
  "items_create E schemaName checklistId title displayOrder =
     await (forSchema schemaName) (\<lambda>s.
     await (randomUUID E) (\<lambda>i.
     await date_now (\<lambda>now.
     create (checklistItems s) item_clash (item_refs s)
       \<lparr>ci_id = i, ci_checklistId = checklistId, ci_title = title, ci_isChecked = False,
        ci_checkedAt = None, ci_checkedByUserId = None, ci_displayOrder = displayOrder,
        ci_createdAt = now\<rparr>)))"

text \<open>A null for \<^verbatim>\<open>isChecked\<close> is refused by the client, like one for the other two columns.\<close>

definition patch_item :: "UpdateChecklistItemDto \<Rightarrow> string \<Rightarrow> int \<Rightarrow> checklist_item \<Rightarrow> checklist_item" where
  "patch_item dto userId now x =
     (case uci_isChecked dto of
        Some (Some b) \<Rightarrow>
          x\<lparr>ci_isChecked := b, ci_checkedAt := (if b then Some now else None),
            ci_checkedByUserId := (if b then Some userId else None)\<rparr>
      | _ \<Rightarrow> x)
     \<lparr>ci_title := patched_value (uci_title dto) (ci_title x),
      ci_displayOrder := patched_value (uci_displayOrder dto) (ci_displayOrder x)\<rparr>"

definition items_update ::
    "string \<Rightarrow> string \<Rightarrow> UpdateChecklistItemDto \<Rightarrow> string \<Rightarrow> (world, checklist_item) handler" where
  "items_update schemaName itemId dto userId =
     await (forSchema schemaName) (\<lambda>s.
     await date_now (\<lambda>now.
     await (throwIf (\<not> no_null (uci_title dto) \<or> \<not> no_null (uci_isChecked dto) \<or>
         \<not> no_null (uci_displayOrder dto))
       (Prisma PrismaValidation)) (\<lambda>_.
     update (checklistItems s) ci_id itemId (patch_item dto userId now))))"

definition items_delete :: "string \<Rightarrow> string \<Rightarrow> (world, unit) handler" where
  "items_delete schemaName itemId =
     await (forSchema schemaName) (\<lambda>s. delete (checklistItems s) ci_id itemId)"

definition findChecklistItem :: "string \<Rightarrow> string \<Rightarrow> string \<Rightarrow> (world, checklist_item option) handler" where
  "findChecklistItem schemaName itemId checklistId =
     await (forSchema schemaName) (\<lambda>s.
     findFirst (checklistItems s) (\<lambda>x. ci_id x = itemId \<and> ci_checklistId x = checklistId))"

subsection \<open>Service\<close>

definition assertTaskExists :: "string \<Rightarrow> string \<Rightarrow> (world, unit) handler" where
  "assertTaskExists schemaName taskId =
     await (forSchema schemaName) (\<lambda>s.
     await (findFirst (tasks s) (\<lambda>t. tk_id t = taskId \<and> tk_deletedAt t = None)) (\<lambda>t.
     throwIf (t = None) (Crm TaskNotFoundException)))"

definition assertChecklistBelongsToTask :: "string \<Rightarrow> string \<Rightarrow> string \<Rightarrow> (world, unit) handler" where
  "assertChecklistBelongsToTask schemaName checklistId taskId =
     await (findChecklist schemaName checklistId taskId) (\<lambda>row.
     throwIf (row = None) (Crm TaskChecklistNotFoundException))"

definition assertItemBelongsToChecklist :: "string \<Rightarrow> string \<Rightarrow> string \<Rightarrow> (world, unit) handler" where
  "assertItemBelongsToChecklist schemaName itemId checklistId =
     await (findChecklistItem schemaName itemId checklistId) (\<lambda>row.
     throwIf (row = None) (Crm TaskChecklistItemNotFoundException))"

definition createTask :: "env \<Rightarrow> string \<Rightarrow> CreateTaskDto \<Rightarrow> string \<Rightarrow> (world, TaskDto) handler" where
  "createTask E tenantId dto userId =
     await (getSchemaName tenantId) (\<lambda>schema. tasks_create E schema dto userId)"

definition listTasks :: "string \<Rightarrow> TaskQueryDto \<Rightarrow> (world, TaskListResponseDto) handler" where
  "listTasks tenantId q = await (getSchemaName tenantId) (\<lambda>schema. tasks_findMany schema q)"

definition getTask :: "string \<Rightarrow> string \<Rightarrow> (world, TaskDto) handler" where
  "getTask tenantId taskId =
     await (getSchemaName tenantId) (\<lambda>schema.
     await (tasks_findById schema taskId) (\<lambda>t.
     case t of None \<Rightarrow> throw (Crm TaskNotFoundException) | Some d \<Rightarrow> ret d))"

definition updateTask :: "string \<Rightarrow> string \<Rightarrow> UpdateTaskDto \<Rightarrow> (world, TaskDto) handler" where
  "updateTask tenantId taskId dto =
     await (getSchemaName tenantId) (\<lambda>schema.
     await (assertTaskExists schema taskId) (\<lambda>_.
     tasks_update schema taskId dto))"

definition deleteTask :: "string \<Rightarrow> string \<Rightarrow> (world, unit) handler" where
  "deleteTask tenantId taskId =
     await (getSchemaName tenantId) (\<lambda>schema.
     await (assertTaskExists schema taskId) (\<lambda>_.
     tasks_softDelete schema taskId))"

definition assigner_name :: "user option \<Rightarrow> string" where
  "assigner_name assigner =
     (case assigner of
        None \<Rightarrow> ''A team member''
      | Some u \<Rightarrow> trim (orElse (u_firstName u) ''null'' @ '' '' @ orElse (u_lastName u) []))"

definition task_assigned_job ::
    "env \<Rightarrow> string \<Rightarrow> task \<Rightarrow> user \<Rightarrow> user option \<Rightarrow> string \<Rightarrow> SendEmailJobPayload" where
  "task_assigned_job E tenantId t assignee assigner byUserId =
     \<lparr>m_tenantId = Some tenantId, m_recipientEmail = u_email assignee,
      m_subject = ''You'' @ [CHR 0x27] @ ''ve been assigned a task: '' @ tk_title t,
      m_templateId = TASK_ASSIGNED,
      m_templateData =
        [(''assigneeName'', case u_firstName assignee of None \<Rightarrow> JNull | Some n \<Rightarrow> JStr n),
         (''assignerName'', JStr (assigner_name assigner)),
         (''taskTitle'', JStr (tk_title t)),
         (''taskDueAt'', case tk_dueAt t of None \<Rightarrow> JNull | Some d \<Rightarrow> JStr (e_dateText E d)),
         (''taskUrl'', JStr (e_frontendUrl E @ ''/tasks/'' @ tk_id t))],
      m_triggeredByUserId = Some byUserId, m_correlationId = None\<rparr>"

definition notifyTaskAssigned ::
    "env \<Rightarrow> string \<Rightarrow> string \<Rightarrow> string \<Rightarrow> string \<Rightarrow> string \<Rightarrow> (world, unit) handler" where
  "notifyTaskAssigned E tenantId schema taskId userId byUserId =
     tryCatch
       (await (forSchema schema) (\<lambda>s.
        await (findFirst (tasks s) (\<lambda>t. tk_id t = taskId \<and> tk_deletedAt t = None)) (\<lambda>t.
        await (findUnique users u_id userId) (\<lambda>assignee.
        await (findUnique users u_id byUserId) (\<lambda>assigner.
        case t of
          None \<Rightarrow> ret ()
        | Some t \<Rightarrow>
            (case assignee of
               None \<Rightarrow> ret ()
             | Some a \<Rightarrow> mailQueue_add (task_assigned_job E tenantId t a assigner byUserId)))))))
       (\<lambda>_. ret ())"

definition addAssignee ::
    "env \<Rightarrow> string \<Rightarrow> string \<Rightarrow> string \<Rightarrow> string \<Rightarrow> (world, unit) handler" where
  "addAssignee E tenantId taskId userId byUserId =
     await (getSchemaName tenantId) (\<lambda>schema.
     await (assertTaskExists schema taskId) (\<lambda>_.
     await (tasks_addAssignee E schema taskId userId byUserId) (\<lambda>_.
     notifyTaskAssigned E tenantId schema taskId userId byUserId)))"

definition removeAssignee :: "string \<Rightarrow> string \<Rightarrow> string \<Rightarrow> (world, unit) handler" where
  "removeAssignee tenantId taskId userId =
     await (getSchemaName tenantId) (\<lambda>schema.
     await (assertTaskExists schema taskId) (\<lambda>_.
     tasks_removeAssignee schema taskId userId))"

definition createChecklist ::
    "env \<Rightarrow> string \<Rightarrow> string \<Rightarrow> CreateChecklistDto \<Rightarrow> (world, TaskChecklistDto) handler" where
  "createChecklist E tenantId taskId dto =
     await (getSchemaName tenantId) (\<lambda>schema.
     await (assertTaskExists schema taskId) (\<lambda>_.
     checklists_create E schema taskId (cch_title dto) (orElse (cch_displayOrder dto) 0)))"

definition deleteChecklist :: "string \<Rightarrow> string \<Rightarrow> string \<Rightarrow> (world, unit) handler" where
  "deleteChecklist tenantId taskId checklistId =
     await (getSchemaName tenantId) (\<lambda>schema.
     await (assertChecklistBelongsToTask schema checklistId taskId) (\<lambda>_.
     checklists_delete schema checklistId))"

definition createChecklistItem ::
    "env \<Rightarrow> string \<Rightarrow> string \<Rightarrow> string \<Rightarrow> CreateChecklistItemDto \<Rightarrow> (world, checklist_item) handler" where
  "createChecklistItem E tenantId taskId checklistId dto =
     await (getSchemaName tenantId) (\<lambda>schema.
     await (assertChecklistBelongsToTask schema checklistId taskId) (\<lambda>_.
     items_create E schema checklistId (cci_title dto) (orElse (cci_displayOrder dto) 0)))"

definition updateChecklistItem ::
    "string \<Rightarrow> string \<Rightarrow> string \<Rightarrow> string \<Rightarrow> UpdateChecklistItemDto \<Rightarrow> string \<Rightarrow>
       (world, checklist_item) handler" where
  "updateChecklistItem tenantId taskId checklistId itemId dto userId =
     await (getSchemaName tenantId) (\<lambda>schema.
     await (assertChecklistBelongsToTask schema checklistId taskId) (\<lambda>_.
     await (assertItemBelongsToChecklist schema itemId checklistId) (\<lambda>_.
     items_update schema itemId dto userId)))"

definition deleteChecklistItem ::
    "string \<Rightarrow> string \<Rightarrow> string \<Rightarrow> string \<Rightarrow> (world, unit) handler" where
  "deleteChecklistItem tenantId taskId checklistId itemId =
     await (getSchemaName tenantId) (\<lambda>schema.
     await (assertChecklistBelongsToTask schema checklistId taskId) (\<lambda>_.
     await (assertItemBelongsToChecklist schema itemId checklistId) (\<lambda>_.
     items_delete schema itemId)))"

subsection \<open>Effects\<close>

context tenant_writes
begin

lemma task_effects:
  "has_effect R (createTask E t cdto u)" "has_effect R (listTasks t q)" "has_effect R (getTask t i)"
  "has_effect R (updateTask t i udto)" "has_effect R (deleteTask t i)"
  "has_effect R (addAssignee E t i u b)" "has_effect R (removeAssignee t i u)"
  unfolding createTask_def listTasks_def getTask_def updateTask_def deleteTask_def addAssignee_def
    removeAssignee_def tasks_create_def tasks_findMany_def tasks_findById_def tasks_update_def
    tasks_softDelete_def tasks_addAssignee_def tasks_removeAssignee_def put_assignee_def
    notifyTaskAssigned_def assertTaskExists_def
  by (intro crm_rules)+

lemma checklist_effects:
  "has_effect R (createChecklist E t i dto)" "has_effect R (deleteChecklist t i k)"
  "has_effect R (createChecklistItem E t i k dto')" "has_effect R (updateChecklistItem t i k x udto u)"
  "has_effect R (deleteChecklistItem t i k x)"
proof -
  have drop: "R w (on_schema s (db_crm_update (drop_checklist i)) w)" for s i w
    by (intro crm_write_beside) (simp add: drop_checklist_def)
  show "has_effect R (createChecklist E t i dto)" "has_effect R (deleteChecklist t i k)"
    "has_effect R (createChecklistItem E t i k dto')" "has_effect R (updateChecklistItem t i k x udto u)"
    "has_effect R (deleteChecklistItem t i k x)"
    unfolding createChecklist_def deleteChecklist_def createChecklistItem_def updateChecklistItem_def
      deleteChecklistItem_def checklists_create_def checklists_delete_def items_create_def
      items_update_def items_delete_def assertTaskExists_def assertChecklistBelongsToTask_def
      assertItemBelongsToChecklist_def findChecklist_def findChecklistItem_def
    by (intro crm_rules drop)+
qed

end

end
