(* ===== verification/Mail.thy ===== *)
theory Mail
  imports Tasks
begin

text \<open>
  The mail worker of \<^verbatim>\<open>auth-service\<close> with the service and the templates of \<^verbatim>\<open>libs/mailer\<close>. A job comes
  from the queue as JSON, so a template reads its fields from an object in which a field can be
  missing, null or of another type than the interface says. The provider's client is a parameter.
  The queues of \<^verbatim>\<open>libs/queue\<close> stand before the worker.
\<close>

subsection \<open>Text of a JSON value\<close>

definition int_text :: "int \<Rightarrow> string" where
  "int_text n = (if n < 0 then ''-'' @ nat_text (nat (- n)) else nat_text (nat n))"

text \<open>
  \<^verbatim>\<open>String(value)\<close>, which a template literal applies, and the text of an element under \<^verbatim>\<open>join\<close>; a date
  is a string in JSON, in the format \<open>fmt\<close>.
\<close>

fun js_text :: "(int \<Rightarrow> string) \<Rightarrow> json \<Rightarrow> string" where
  "js_text fmt JNull = ''null''"
| "js_text fmt (JBool b) = (if b then ''true'' else ''false'')"
| "js_text fmt (JNum n) = int_text n"
| "js_text fmt (JStr s) = s"
| "js_text fmt (JIso t) = fmt t"
| "js_text fmt (JArr vs) =
     join_with '','' (map (\<lambda>v. if v = JNull then [] else js_text fmt v) vs)"
| "js_text fmt (JObj fs) = ''[object Object]''"

type_synonym template_data = "string \<Rightarrow> json option"

definition field_text :: "(int \<Rightarrow> string) \<Rightarrow> template_data \<Rightarrow> string \<Rightarrow> string" where
  "field_text fmt data k = (case data k of None \<Rightarrow> ''undefined'' | Some v \<Rightarrow> js_text fmt v)"

subsection \<open>Escaping\<close>

text \<open>\<^verbatim>\<open>str.replace(/c/g, r)\<close> for a character \<open>c\<close>.\<close>

definition replace_char :: "char \<Rightarrow> string \<Rightarrow> string \<Rightarrow> string" where
  "replace_char c r s = concat (map (\<lambda>x. if x = c then r else [x]) s)"

definition escapeHtml :: "string \<Rightarrow> string" where
  "escapeHtml str =
     replace_char (CHR 0x22) ''&quot;''
       (replace_char (CHR ''>'') ''&gt;''
         (replace_char (CHR ''<'') ''&lt;''
           (replace_char (CHR ''&'') ''&amp;'' str)))"

text \<open>
  \<^verbatim>\<open>escapeHtml(data.k)\<close> on a value that is no string: \<^verbatim>\<open>replace\<close> is not there to be called, and the
  engine throws.
\<close>

definition escaped :: "(int \<Rightarrow> string) \<Rightarrow> template_data \<Rightarrow> string \<Rightarrow> ('s, string) handler" where
  "escaped fmt data k =
     (case data k of
        None \<Rightarrow> throw (PlainError (''Cannot read properties of undefined (reading '' @ quoted ''replace'' @ '')''))
      | Some (JStr s) \<Rightarrow> ret (escapeHtml s)
      | Some (JIso t) \<Rightarrow> ret (escapeHtml (fmt t))
      | Some JNull \<Rightarrow> throw (PlainError (''Cannot read properties of null (reading '' @ quoted ''replace'' @ '')''))
      | Some v \<Rightarrow> throw (PlainError ''str.replace is not a function''))"

subsection \<open>Templates\<close>

definition apos :: string where "apos = [CHR 0x27]"

definition quote :: string where "quote = [CHR 0x22]"

definition unlines :: "string list \<Rightarrow> string" where
  "unlines = join_with [CHR 0x0A]"

text \<open>An attribute \<^verbatim>\<open>name="value"\<close> with the space before it.\<close>

definition attr :: "string \<Rightarrow> string \<Rightarrow> string" where
  "attr name val = '' '' @ name @ ''='' @ quote @ val @ quote"

definition styled :: "string \<Rightarrow> string \<Rightarrow> string \<Rightarrow> string" where
  "styled tag style content =
     ''<'' @ tag @ attr ''style'' style @ ''>'' @ content @ ''</'' @ tag @ ''>''"

definition baseLayout :: "string \<Rightarrow> string \<Rightarrow> string" where
  "baseLayout content previewText = unlines
     [''<!DOCTYPE html>'',
      ''<html'' @ attr ''lang'' ''en'' @ ''>'',
      ''<head>'',
      ''  <meta'' @ attr ''charset'' ''UTF-8'' @ '' />'',
      ''  <meta'' @ attr ''name'' ''viewport'' @
        attr ''content'' ''width=device-width, initial-scale=1.0'' @ '' />'',
      ''  <title>BOS Platform</title>'',
      ''</head>'',
      ''<body'' @ attr ''style''
        (''margin:0;padding:0;background:#f4f4f5;font-family:-apple-system,BlinkMacSystemFont,'' @
         apos @ ''Segoe UI'' @ apos @ '',Roboto,sans-serif;'') @ ''>'',
      ''  '' @ (if previewText = [] then [] else
        styled ''div'' ''display:none;max-height:0;overflow:hidden;'' previewText),
      ''  <table'' @ attr ''width'' ''100%'' @ attr ''cellpadding'' ''0'' @ attr ''cellspacing'' ''0'' @
        attr ''style'' ''background:#f4f4f5;padding:40px 0;'' @ ''>'',
      ''    <tr>'',
      ''      <td'' @ attr ''align'' ''center'' @ ''>'',
      ''        <table'' @ attr ''width'' ''560'' @ attr ''cellpadding'' ''0'' @ attr ''cellspacing'' ''0'' @
        attr ''style'' ''background:#ffffff;border-radius:8px;overflow:hidden;box-shadow:0 1px 3px rgba(0,0,0,0.1);'' @ ''>'',
      ''          <!-- Header -->'',
      ''          <tr>'',
      ''            <td'' @ attr ''style'' ''background:#18181b;padding:24px 40px;'' @ ''>'',
      ''              '' @ styled ''span''
        ''color:#ffffff;font-size:20px;font-weight:700;letter-spacing:-0.5px;'' ''BOS Platform'',
      ''            </td>'',
      ''          </tr>'',
      ''          <!-- Body -->'',
      ''          <tr>'',
      ''            <td'' @ attr ''style'' ''padding:40px;'' @ ''>'',
      ''              '' @ content,
      ''            </td>'',
      ''          </tr>'',
      ''          <!-- Footer -->'',
      ''          <tr>'',
      ''            <td'' @ attr ''style'' ''background:#f9fafb;padding:24px 40px;border-top:1px solid #e5e7eb;'' @ ''>'',
      ''              <p'' @ attr ''style'' ''margin:0;font-size:12px;color:#6b7280;line-height:1.5;'' @ ''>'',
      ''                This email was sent by BOS Platform. If you did not request this, you can safely ignore it.'',
      ''              </p>'',
      ''            </td>'',
      ''          </tr>'',
      ''        </table>'',
      ''      </td>'',
      ''    </tr>'',
      ''  </table>'',
      ''</body>'',
      ''</html>'']"

definition ctaButton :: "string \<Rightarrow> string \<Rightarrow> string" where
  "ctaButton label url =
     ''<a'' @ attr ''href'' url @ attr ''style''
       ''display:inline-block;background:#18181b;color:#ffffff;text-decoration:none;padding:12px 28px;border-radius:6px;font-size:15px;font-weight:600;letter-spacing:0.1px;'' @
     ''>'' @ label @ ''</a>''"

record RenderedMail =
  rm_subject :: string
  rm_html :: string
  rm_text :: string

definition renderVerifyEmail :: "(int \<Rightarrow> string) \<Rightarrow> template_data \<Rightarrow> ('s, RenderedMail) handler" where
  "renderVerifyEmail fmt data =
     await (escaped fmt data ''firstName'') (\<lambda>firstName.
     await (escaped fmt data ''verifyUrl'') (\<lambda>verifyUrl.
     let expiresHours = field_text fmt data ''expiresHours'';
         html = baseLayout (unlines
           [[],
            ''    '' @ styled ''h1'' ''margin:0 0 8px;font-size:24px;font-weight:700;color:#18181b;'' ''Verify your email'',
            ''    <p'' @ attr ''style'' ''margin:0 0 24px;font-size:15px;color:#374151;line-height:1.6;'' @ ''>'',
            ''      Hi '' @ firstName @ '', thanks for signing up.<br/>'',
            ''      Click the button below to verify your email address and activate your account.'',
            ''    </p>'',
            ''    '' @ ctaButton ''Verify Email Address'' (field_text fmt data ''verifyUrl''),
            ''    <p'' @ attr ''style'' ''margin:24px 0 0;font-size:13px;color:#6b7280;'' @ ''>'',
            ''      This link expires in '' @ expiresHours @
              '' hours. If you did not create an account, ignore this email.'',
            ''    </p>'',
            ''    <p'' @ attr ''style'' ''margin:16px 0 0;font-size:12px;color:#9ca3af;word-break:break-all;'' @ ''>'',
            ''      Or copy this link: '' @ verifyUrl,
            ''    </p>'',
            ''    ''])
           (''Verify your BOS Platform account '' @ em_dash @ '' link expires in '' @ expiresHours @ ''h'');
         text = unlines
           [''Hi '' @ field_text fmt data ''firstName'' @ '','', [],
            ''Verify your email address to activate your BOS Platform account:'', [],
            field_text fmt data ''verifyUrl'', [],
            ''This link expires in '' @ expiresHours @ '' hours.'',
            ''If you did not create an account, ignore this email.''] in
     ret \<lparr>rm_subject = ''Verify your email address '' @ em_dash @ '' BOS Platform'',
          rm_html = html, rm_text = text\<rparr>))"

definition renderPasswordReset :: "(int \<Rightarrow> string) \<Rightarrow> template_data \<Rightarrow> ('s, RenderedMail) handler" where
  "renderPasswordReset fmt data =
     await (escaped fmt data ''firstName'') (\<lambda>firstName.
     await (escaped fmt data ''resetUrl'') (\<lambda>resetUrl.
     let expiresHours = field_text fmt data ''expiresHours'';
         html = baseLayout (unlines
           [[],
            ''    '' @ styled ''h1'' ''margin:0 0 8px;font-size:24px;font-weight:700;color:#18181b;'' ''Reset your password'',
            ''    <p'' @ attr ''style'' ''margin:0 0 24px;font-size:15px;color:#374151;line-height:1.6;'' @ ''>'',
            ''      Hi '' @ firstName @ '', we received a request to reset your password.<br/>'',
            ''      Click the button below to choose a new one.'',
            ''    </p>'',
            ''    '' @ ctaButton ''Reset Password'' (field_text fmt data ''resetUrl''),
            ''    <p'' @ attr ''style'' ''margin:24px 0 0;font-size:13px;color:#6b7280;'' @ ''>'',
            ''      This link expires in '' @ expiresHours @
              '' hours. If you did not request a password reset, you can safely ignore this email '' @ em_dash @
              '' your password will not change.'',
            ''    </p>'',
            ''    <p'' @ attr ''style'' ''margin:16px 0 0;font-size:12px;color:#9ca3af;word-break:break-all;'' @ ''>'',
            ''      Or copy this link: '' @ resetUrl,
            ''    </p>'',
            ''    ''])
           (''Reset your BOS Platform password '' @ em_dash @ '' link expires in '' @ expiresHours @ ''h'');
         text = unlines
           [''Hi '' @ field_text fmt data ''firstName'' @ '','', [],
            ''Reset your BOS Platform password using the link below:'', [],
            field_text fmt data ''resetUrl'', [],
            ''This link expires in '' @ expiresHours @ '' hours.'',
            ''If you did not request a password reset, ignore this email.''] in
     ret \<lparr>rm_subject = ''Reset your password '' @ em_dash @ '' BOS Platform'',
          rm_html = html, rm_text = text\<rparr>))"

definition renderStaffInvite :: "(int \<Rightarrow> string) \<Rightarrow> template_data \<Rightarrow> ('s, RenderedMail) handler" where
  "renderStaffInvite fmt data =
     await (escaped fmt data ''orgName'') (\<lambda>orgName.
     await (escaped fmt data ''firstName'') (\<lambda>firstName.
     await (escaped fmt data ''inviterName'') (\<lambda>inviterName.
     await (escaped fmt data ''inviteUrl'') (\<lambda>inviteUrl.
     let expiresHours = field_text fmt data ''expiresHours'';
         subject = ''You'' @ apos @ ''ve been invited to join '' @ orgName @ '' on BOS'';
         html = baseLayout (unlines
           [[],
            ''    '' @ styled ''h1'' ''margin:0 0 8px;font-size:24px;font-weight:700;color:#18181b;''
              (''You'' @ apos @ ''re invited!''),
            ''    <p'' @ attr ''style'' ''margin:0 0 24px;font-size:15px;color:#374151;line-height:1.6;'' @ ''>'',
            ''      Hi '' @ firstName @ '',<br/>'',
            ''      <strong>'' @ inviterName @ ''</strong> has invited you to join'',
            ''      <strong>'' @ orgName @ ''</strong> on BOS Platform.'',
            ''      Click the button below to accept the invitation and set up your account.'',
            ''    </p>'',
            ''    '' @ ctaButton ''Accept Invitation'' (field_text fmt data ''inviteUrl''),
            ''    <p'' @ attr ''style'' ''margin:24px 0 0;font-size:13px;color:#6b7280;'' @ ''>'',
            ''      This invitation expires in '' @ expiresHours @ '' hours.'',
            ''      If you weren'' @ apos @ ''t expecting this, you can safely ignore this email.'',
            ''    </p>'',
            ''    <p'' @ attr ''style'' ''margin:16px 0 0;font-size:12px;color:#9ca3af;word-break:break-all;'' @ ''>'',
            ''      Or copy this link: '' @ inviteUrl,
            ''    </p>'',
            ''    ''])
           (''You'' @ apos @ ''ve been invited to join '' @ field_text fmt data ''orgName'' @ '' on BOS Platform '' @
            em_dash @ '' accept within '' @ expiresHours @ ''h'');
         text = unlines
           [''Hi '' @ field_text fmt data ''firstName'' @ '','', [],
            field_text fmt data ''inviterName'' @ '' has invited you to join '' @
              field_text fmt data ''orgName'' @ '' on BOS Platform.'', [],
            ''Accept the invitation here:'', [],
            field_text fmt data ''inviteUrl'', [],
            ''This invitation expires in '' @ expiresHours @ '' hours.'',
            ''If you weren'' @ apos @ ''t expecting this, you can safely ignore this email.''] in
     ret \<lparr>rm_subject = subject, rm_html = html, rm_text = text\<rparr>))))"

text \<open>\<^verbatim>\<open>data.taskDueAt ? ... : ''\<close>: a value that is missing, null, empty, zero or false is false.\<close>

fun js_truthy :: "json option \<Rightarrow> bool" where
  "js_truthy None = False"
| "js_truthy (Some JNull) = False"
| "js_truthy (Some (JBool b)) = b"
| "js_truthy (Some (JNum n)) = (n \<noteq> 0)"
| "js_truthy (Some (JStr s)) = (s \<noteq> [])"
| "js_truthy (Some v) = True"

definition renderTaskAssigned :: "(int \<Rightarrow> string) \<Rightarrow> template_data \<Rightarrow> ('s, RenderedMail) handler" where
  "renderTaskAssigned fmt data =
     await (escaped fmt data ''taskTitle'') (\<lambda>taskTitle.
     await
       (if js_truthy (data ''taskDueAt'')
        then await (escaped fmt data ''taskDueAt'') (\<lambda>due. ret (unlines
          [''<p'' @ attr ''style'' ''margin:16px 0 0;font-size:14px;color:#374151;'' @ ''>'',
           ''        <strong>Due:</strong> '' @ due,
           ''       </p>'']))
        else ret []) (\<lambda>dueLine.
     await (escaped fmt data ''assigneeName'') (\<lambda>assigneeName.
     await (escaped fmt data ''assignerName'') (\<lambda>assignerName.
     let title = field_text fmt data ''taskTitle'';
         html = baseLayout (unlines
           [[],
            ''    '' @ styled ''h1'' ''margin:0 0 8px;font-size:24px;font-weight:700;color:#18181b;'' ''New task assigned'',
            ''    <p'' @ attr ''style'' ''margin:0 0 24px;font-size:15px;color:#374151;line-height:1.6;'' @ ''>'',
            ''      Hi '' @ assigneeName @ '',<br/>'',
            ''      <strong>'' @ assignerName @ ''</strong> has assigned you a task.'',
            ''    </p>'',
            ''    <div'' @ attr ''style'' ''background:#f9fafb;border:1px solid #e5e7eb;border-radius:6px;padding:20px 24px;margin-bottom:24px;'' @ ''>'',
            ''      '' @ styled ''p'' ''margin:0;font-size:16px;font-weight:600;color:#18181b;'' taskTitle,
            ''      '' @ dueLine,
            ''    </div>'',
            ''    '' @ ctaButton ''View Task'' (field_text fmt data ''taskUrl''),
            ''    <p'' @ attr ''style'' ''margin:24px 0 0;font-size:13px;color:#6b7280;'' @ ''>'',
            ''      If you weren'' @ apos @ ''t expecting this assignment, contact your team admin.'',
            ''    </p>'',
            ''    ''])
           (field_text fmt data ''assignerName'' @ '' assigned you '' @ quote @ title @ quote);
         text = unlines
           ([''Hi '' @ field_text fmt data ''assigneeName'' @ '','', [],
             field_text fmt data ''assignerName'' @ '' has assigned you a task: '' @ quote @ title @ quote] @
            (if js_truthy (data ''taskDueAt'') then [[], ''Due: '' @ field_text fmt data ''taskDueAt''] else []) @
            [[], ''View the task here:'', [], field_text fmt data ''taskUrl'']) in
     ret \<lparr>rm_subject = ''You'' @ apos @ ''ve been assigned a task: '' @ title,
          rm_html = html, rm_text = text\<rparr>))))"

subsection \<open>Mailer service\<close>

text \<open>What the provider answers: an error, with or without a message, or data with its identifier.\<close>

datatype resend_answer = Resend_error "string option" | Resend_nothing | Resend_data string

type_synonym resend = "string \<Rightarrow> string \<Rightarrow> RenderedMail \<Rightarrow> nat \<Rightarrow> resend_answer"

definition renderTemplate :: "(int \<Rightarrow> string) \<Rightarrow> SendEmailJobPayload \<Rightarrow> ('s, RenderedMail) handler" where
  "renderTemplate fmt job =
     (case m_templateId job of
        VERIFY_EMAIL \<Rightarrow> renderVerifyEmail fmt (map_of (m_templateData job))
      | PASSWORD_RESET \<Rightarrow> renderPasswordReset fmt (map_of (m_templateData job))
      | STAFF_INVITE \<Rightarrow> renderStaffInvite fmt (map_of (m_templateData job))
      | TASK_ASSIGNED \<Rightarrow> renderTaskAssigned fmt (map_of (m_templateData job)))"

definition mailer_send ::
    "(int \<Rightarrow> string) \<Rightarrow> resend \<Rightarrow> string \<Rightarrow> string \<Rightarrow> SendEmailJobPayload \<Rightarrow> (world, string) handler" where
  "mailer_send fmt provider fromName fromAddr job =
     await (renderTemplate fmt job) (\<lambda>mail.
     await (draw (provider (fromName @ '' <'' @ fromAddr @ ''>'') (m_recipientEmail job) mail)) (\<lambda>answer.
     case answer of
       Resend_data providerId \<Rightarrow> ret providerId
     | Resend_error (Some message) \<Rightarrow> throw (PlainError (''Resend send failed: '' @ message))
     | _ \<Rightarrow> throw (PlainError ''Resend send failed: Unknown Resend error'')))"

subsection \<open>Queues\<close>

text \<open>
  \<^verbatim>\<open>queue.constants.ts\<close> and \<^verbatim>\<open>queue.module.ts\<close>: the names of the queues, the connection that each
  one is registered at and the options that its jobs start with. The configuration service is a
  parameter, \<open>getOrThrow\<close> and \<open>get\<close>; what the queue package does with the options is its own.
\<close>

datatype QueueName =
  Q_MAIL | Q_NOTIFICATION | Q_WEBHOOK | Q_AI_LEAD | Q_CAMPAIGN | Q_WORKFLOW | Q_BULK_IMPORT

fun QUEUE_NAMES :: "QueueName \<Rightarrow> string" where
  "QUEUE_NAMES Q_MAIL = ''bos.mail''"
| "QUEUE_NAMES Q_NOTIFICATION = ''bos.notification''"
| "QUEUE_NAMES Q_WEBHOOK = ''bos.webhook''"
| "QUEUE_NAMES Q_AI_LEAD = ''bos.ai-lead''"
| "QUEUE_NAMES Q_CAMPAIGN = ''bos.campaign''"
| "QUEUE_NAMES Q_WORKFLOW = ''bos.workflow''"
| "QUEUE_NAMES Q_BULK_IMPORT = ''bos.bulk-import''"

datatype QueueConfigKey = Key_transactional | Key_heavy

fun QUEUE_CONN_MAP :: "QueueName \<Rightarrow> QueueConfigKey" where
  "QUEUE_CONN_MAP Q_MAIL = Key_transactional"
| "QUEUE_CONN_MAP Q_NOTIFICATION = Key_transactional"
| "QUEUE_CONN_MAP Q_WEBHOOK = Key_transactional"
| "QUEUE_CONN_MAP Q_AI_LEAD = Key_transactional"
| "QUEUE_CONN_MAP Q_CAMPAIGN = Key_heavy"
| "QUEUE_CONN_MAP Q_WORKFLOW = Key_heavy"
| "QUEUE_CONN_MAP Q_BULK_IMPORT = Key_heavy"

text \<open>The back-off is exponential in both sets of options; its first wait is in milliseconds.\<close>

record job_defaults =
  jd_attempts :: int
  jd_backoffDelay :: int
  jd_keepCompleted :: int
  jd_keepFailed :: int

definition transactionalDefaults :: job_defaults where
  "transactionalDefaults =
     \<lparr>jd_attempts = 3, jd_backoffDelay = 2000, jd_keepCompleted = 1000, jd_keepFailed = 5000\<rparr>"

definition heavyDefaults :: job_defaults where
  "heavyDefaults =
     \<lparr>jd_attempts = 5, jd_backoffDelay = 5000, jd_keepCompleted = 100, jd_keepFailed = 10000\<rparr>"

record queue_connection =
  qc_host :: json
  qc_port :: json
  qc_password :: "json option"

definition queue_connection_of ::
    "(string \<Rightarrow> ('w, json) handler) \<Rightarrow> (string \<Rightarrow> json option) \<Rightarrow> string \<Rightarrow> ('w, queue_connection) handler" where
  "queue_connection_of getOrThrow get prefix =
     await (getOrThrow (prefix @ ''_HOST'')) (\<lambda>host.
     await (getOrThrow (prefix @ ''_PORT'')) (\<lambda>port.
     let password = get (prefix @ ''_PASSWORD'') in
     ret \<lparr>qc_host = host, qc_port = port,
          qc_password = (if js_truthy password then password else None)\<rparr>))"

definition forRoot ::
    "(string \<Rightarrow> ('w, json) handler) \<Rightarrow> (string \<Rightarrow> json option)
      \<Rightarrow> (QueueConfigKey \<times> ('w, queue_connection) handler \<times> job_defaults) list" where
  "forRoot getOrThrow get =
     [(Key_transactional,
       queue_connection_of getOrThrow get ''REDIS_QUEUE_TRANSACTIONAL'', transactionalDefaults),
      (Key_heavy, queue_connection_of getOrThrow get ''REDIS_QUEUE_HEAVY'', heavyDefaults)]"

definition forFeature :: "QueueName list \<Rightarrow> (string \<times> QueueConfigKey) list" where
  "forFeature queues = map (\<lambda>q. (QUEUE_NAMES q, QUEUE_CONN_MAP q)) queues"

text \<open>Two queues never share a name, so a worker takes the jobs of its own producers only.\<close>

lemma queue_names_differ: "QUEUE_NAMES q = QUEUE_NAMES q' \<longleftrightarrow> q = q'"
  by (cases q; cases q') simp_all

text \<open>A feature module registers its queues at connections that the root module opens.\<close>

lemma features_use_open_connections:
  "snd ` set (forFeature queues) \<subseteq> fst ` set (forRoot getOrThrow get)"
proof
  fix key
  show "key \<in> fst ` set (forRoot getOrThrow get)"
    by (cases key) (simp_all add: forRoot_def)
qed

subsection \<open>Worker\<close>

definition SEND_EMAIL :: string where "SEND_EMAIL = ''send-email''"

record mail_job =
  mj_name :: string
  mj_data :: SendEmailJobPayload
  mj_attemptsMade :: int

definition outbound_clash :: "outbound_message \<Rightarrow> outbound_message \<Rightarrow> bool" where
  "outbound_clash m m' \<longleftrightarrow> om_id m' = om_id m"

text \<open>
  \<^verbatim>\<open>err instanceof Error ? err.message : String(err)\<close>: everything that is thrown here is an error; the
  messages of the database client are a parameter.
\<close>

definition error_message :: "(prisma_error \<Rightarrow> string) \<Rightarrow> bos_error \<Rightarrow> string" where
  "error_message prisma_message e =
     (case bos_options e of
        Some options \<Rightarrow> bx_message options
      | None \<Rightarrow>
          (case e of
             Nest x \<Rightarrow> nest_message x
           | Prisma x \<Rightarrow> prisma_message x
           | PlainError m \<Rightarrow> m
           | _ \<Rightarrow> []))"

definition process_mail ::
    "env \<Rightarrow> (prisma_error \<Rightarrow> string) \<Rightarrow> (int \<Rightarrow> string) \<Rightarrow> resend \<Rightarrow> string \<Rightarrow> string \<Rightarrow> mail_job \<Rightarrow> (world, unit) handler" where
  "process_mail E prisma_message fmt provider fromName fromAddr job =
     (if mj_name job \<noteq> SEND_EMAIL then ret ()
      else
        let payload = mj_data job in
        await (randomUUID E) (\<lambda>i.
        await date_now (\<lambda>now.
        await (create outboundMessages outbound_clash no_refs
          \<lparr>om_id = i, om_tenantId = m_tenantId payload,
           om_channel = email_channel, om_messageType = transactional,
           om_recipientEmail = m_recipientEmail payload,
           om_subject = m_subject payload, om_templateId = m_templateId payload,
           om_templateData = m_templateData payload, om_status = sending, om_providerId = None,
           om_errorMessage = None, om_retryCount = mj_attemptsMade job,
           om_triggeredByUserId = m_triggeredByUserId payload,
           om_correlationId = m_correlationId payload, om_sentAt = None, om_createdAt = now\<rparr>) (\<lambda>record.
        tryCatch
          (await (mailer_send fmt provider fromName fromAddr payload) (\<lambda>providerId.
           await date_now (\<lambda>sentAt.
           await (update outboundMessages om_id (om_id record)
             (\<lambda>m. m\<lparr>om_status := sent, om_providerId := Some providerId, om_sentAt := Some sentAt\<rparr>)) (\<lambda>_.
           ret ()))))
          (\<lambda>err.
           await (update outboundMessages om_id (om_id record)
             (\<lambda>m. m\<lparr>om_status := failed, om_errorMessage := Some (error_message prisma_message err),
                 om_retryCount := mj_attemptsMade job\<rparr>)) (\<lambda>_.
           throw err))))))"

end
