(* ===== verification/Http.thy ===== *)
theory Http
  imports Mail
begin

text \<open>
  \<^verbatim>\<open>libs/security\<close>: what stands between the handlers and the network in both services. The filter
  turns whatever was thrown into a status and a body, the interceptors wrap a result and bound its
  time, the middleware names the request, and the pipe turns the failures of the validation package
  into one error. With the middleware stand the identifiers that \<^verbatim>\<open>libs/logger\<close> gives a request.
\<close>

subsection \<open>The request\<close>

text \<open>The headers by lower-case name, and the identifier that a middleware of the framework may set.\<close>

record http_request =
  hr_headers :: "string \<Rightarrow> string option"
  hr_id :: "string option"
  hr_url :: string

definition REQUEST_ID_HEADER :: string where "REQUEST_ID_HEADER = ''x-request-id''"

definition CORRELATION_ID_HEADER :: string where "CORRELATION_ID_HEADER = ''x-correlation-id''"

definition firstDefined :: "'a option \<Rightarrow> 'a option \<Rightarrow> 'a option" where
  "firstDefined v d = (case v of None \<Rightarrow> d | Some x \<Rightarrow> Some x)"

record request_ids =
  ri_correlationId :: string
  ri_requestId :: string

text \<open>The middleware; the two values are also set as headers of the response.\<close>

definition correlationIds :: "env \<Rightarrow> http_request \<Rightarrow> (world, request_ids) handler" where
  "correlationIds E req =
     await
       (case firstDefined (hr_headers req CORRELATION_ID_HEADER) (hr_headers req REQUEST_ID_HEADER) of
          Some i \<Rightarrow> ret i
        | None \<Rightarrow> randomUUID E) (\<lambda>correlationId.
     await
       (case hr_headers req REQUEST_ID_HEADER of
          Some i \<Rightarrow> ret i
        | None \<Rightarrow> randomUUID E) (\<lambda>requestId.
     ret \<lparr>ri_correlationId = correlationId, ri_requestId = requestId\<rparr>))"

subsection \<open>The identifiers of the log\<close>

text \<open>
  \<^verbatim>\<open>logger.config.ts\<close>: the logger chooses an identifier of its own, which becomes \<^verbatim>\<open>req.id\<close> and a header
  of the response, and adds a correlation identifier to its lines unless that is absent or empty.
\<close>

definition genReqId :: "env \<Rightarrow> http_request \<Rightarrow> (world, string) handler" where
  "genReqId E req =
     (case firstDefined (hr_headers req REQUEST_ID_HEADER) (hr_headers req CORRELATION_ID_HEADER) of
        Some i \<Rightarrow> ret i
      | None \<Rightarrow> randomUUID E)"

definition customProps :: "http_request \<Rightarrow> string option" where
  "customProps req =
     (case firstDefined (hr_headers req CORRELATION_ID_HEADER) (hr_id req) of
        Some i \<Rightarrow> if i = [] then None else Some i
      | None \<Rightarrow> None)"

text \<open>
  A request that names itself is logged under the identifier that the response returns. A request
  that does not is logged under one identifier and answered with another, whichever of the two
  components comes first.
\<close>

definition log_and_name :: "env \<Rightarrow> http_request \<Rightarrow> (world, string option \<times> request_ids) handler" where
  "log_and_name E req =
     await (genReqId E req) (\<lambda>i.
     await (correlationIds E req) (\<lambda>ids.
     ret (customProps (req\<lparr>hr_id := Some i\<rparr>), ids)))"

definition name_and_log :: "env \<Rightarrow> http_request \<Rightarrow> (world, string option \<times> request_ids) handler" where
  "name_and_log E req =
     await (correlationIds E req) (\<lambda>ids.
     await (genReqId E req) (\<lambda>i.
     ret (customProps (req\<lparr>hr_id := Some i\<rparr>), ids)))"

lemmas log_ids =
  log_and_name_def name_and_log_def genReqId_def correlationIds_def customProps_def firstDefined_def

lemma named_requests_are_traced:
  assumes "hr_headers req CORRELATION_ID_HEADER = Some c" "c \<noteq> []"
    and "fst (log_and_name E req w) = Inr (logged_id, ids) \<or> fst (name_and_log E req w) = Inr (logged_id, ids)"
  shows "logged_id = Some (ri_correlationId ids)"
  using assms by (auto simp: log_ids await_def ret_def split: option.splits)

lemma unnamed_requests_are_not_traced:
  assumes "inj (e_uuid E)"
    and "hr_headers req CORRELATION_ID_HEADER = None" "hr_headers req REQUEST_ID_HEADER = None"
    and "fst (log_and_name E req w) = Inr (logged_id, ids) \<or> fst (name_and_log E req w) = Inr (logged_id, ids)"
  shows "logged_id \<noteq> Some (ri_correlationId ids)"
  using assms by (auto simp: log_ids await_def ret_def inj_eq split: if_splits)

subsection \<open>Errors\<close>

text \<open>
  What can be thrown: an error of the development, or an exception of the framework with its status,
  its response, which is a text or an object, and its message.
\<close>

datatype http_payload = PayloadText string | PayloadObject "(string \<times> json) list"

record http_exception =
  hx_status :: nat
  hx_response :: http_payload
  hx_message :: string

datatype thrown = Thrown bos_error | HttpThrown http_exception

text \<open>
  The built-in exceptions, made with a text: the response is the object with that text, the name of
  the error and the status.
\<close>

primrec nest_error_name :: "nest_exception \<Rightarrow> string" where
  "nest_error_name (BadRequestException m) = ''Bad Request''"
| "nest_error_name (UnauthorizedException m) = ''Unauthorized''"
| "nest_error_name (ForbiddenException m) = ''Forbidden''"
| "nest_error_name (NotFoundException m) = ''Not Found''"
| "nest_error_name (ConflictException m) = ''Conflict''"
| "nest_error_name (UnprocessableEntityException m) = ''Unprocessable Entity''"

definition nest_http :: "nest_exception \<Rightarrow> http_exception" where
  "nest_http e =
     \<lparr>hx_status = nest_status e,
      hx_response = PayloadObject
        [(''message'', JStr (nest_message e)), (''error'', JStr (nest_error_name e)),
         (''statusCode'', JNum (int (nest_status e)))],
      hx_message = nest_message e\<rparr>"

record ErrorResponseBody =
  eb_code :: string
  eb_message :: json
  eb_details :: "(string \<times> json) list option"
  eb_requestId :: "string option"
  eb_path :: string
  eb_timestamp :: int

definition mapHttpStatusToCode :: "nat \<Rightarrow> string" where
  "mapHttpStatusToCode status =
     orElse (map_of
       [(400, ''HTTP_400_BAD_REQUEST''), (401, ''HTTP_401_UNAUTHORIZED''),
        (403, ''HTTP_403_FORBIDDEN''), (404, ''HTTP_404_NOT_FOUND''), (409, ''HTTP_409_CONFLICT''),
        (422, ''HTTP_422_UNPROCESSABLE_ENTITY''), (429, ''HTTP_429_TOO_MANY_REQUESTS'')] status)
       (''HTTP_'' @ nat_text status)"

definition request_id_of :: "http_request \<Rightarrow> string option" where
  "request_id_of req = firstDefined (hr_headers req REQUEST_ID_HEADER) (hr_id req)"

definition http_message :: "(int \<Rightarrow> string) \<Rightarrow> http_exception \<Rightarrow> json" where
  "http_message fmt e =
     (let message =
        (case hx_response e of
           PayloadText t \<Rightarrow> JStr t
         | PayloadObject fs \<Rightarrow>
             (case map_of fs ''message'' of
                None \<Rightarrow> JStr (hx_message e)
              | Some JNull \<Rightarrow> JStr (hx_message e)
              | Some v \<Rightarrow> v)) in
      case message of
        JArr vs \<Rightarrow> JStr (join_with ''; '' (map (\<lambda>v. if v = JNull then [] else js_text fmt v) vs))
      | v \<Rightarrow> v)"

definition http_body :: "(int \<Rightarrow> string) \<Rightarrow> http_request \<Rightarrow> int \<Rightarrow> http_exception \<Rightarrow> nat \<times> ErrorResponseBody" where
  "http_body fmt req now e =
     (hx_status e,
      \<lparr>eb_code = mapHttpStatusToCode (hx_status e), eb_message = http_message fmt e,
       eb_details = (case hx_response e of PayloadText t \<Rightarrow> None | PayloadObject fs \<Rightarrow> Some fs),
       eb_requestId = request_id_of req, eb_path = hr_url req, eb_timestamp = now\<rparr>)"

text \<open>
  \<^verbatim>\<open>buildErrorResponse\<close>; \<open>prisma_message\<close> stands for the texts of the database client. Every value
  that the sources throw is an error, so that the text \<^verbatim>\<open>Unknown error\<close> does not occur.
\<close>

definition buildErrorResponse ::
    "bool \<Rightarrow> (prisma_error \<Rightarrow> string) \<Rightarrow> (int \<Rightarrow> string) \<Rightarrow> http_request \<Rightarrow> int \<Rightarrow> thrown \<Rightarrow> nat \<times> ErrorResponseBody" where
  "buildErrorResponse isProd prisma_message fmt req now exn =
     (case exn of
        HttpThrown e \<Rightarrow> http_body fmt req now e
      | Thrown err \<Rightarrow>
          (case bos_options err of
             Some x \<Rightarrow>
               (BosException_status x,
                \<lparr>eb_code = code_value (bx_code x), eb_message = JStr (bx_message x),
                 eb_details = bx_details x, eb_requestId = request_id_of req, eb_path = hr_url req,
                 eb_timestamp = now\<rparr>)
           | None \<Rightarrow>
               (case err of
                  Nest e \<Rightarrow> http_body fmt req now (nest_http e)
                | _ \<Rightarrow>
                    (500,
                     \<lparr>eb_code = code_value INTERNAL_ERROR,
                      eb_message = JStr
                        (if isProd then ''Internal server error'' else error_message prisma_message err),
                      eb_details = None, eb_requestId = request_id_of req, eb_path = hr_url req,
                      eb_timestamp = now\<rparr>))))"

text \<open>The log line of the filter, which only failures of the server get.\<close>

definition logged :: "nat \<times> ErrorResponseBody \<Rightarrow> bool" where
  "logged r \<longleftrightarrow> 500 \<le> fst r"

subsection \<open>Results\<close>

datatype response_value = StreamableFile string | Value json

datatype response_body =
    Raw response_value
  | Enveloped json "string option" int

definition isAlreadyEnveloped :: "json \<Rightarrow> bool" where
  "isAlreadyEnveloped v =
     (case v of
        JObj fs \<Rightarrow> map_of fs ''success'' \<noteq> None \<and> map_of fs ''data'' \<noteq> None
      | _ \<Rightarrow> False)"

definition transform :: "http_request \<Rightarrow> string option \<Rightarrow> bool \<Rightarrow> int \<Rightarrow> response_value \<Rightarrow> response_body" where
  "transform req requestId headersSent now v =
     (case v of
        StreamableFile f \<Rightarrow> Raw v
      | Value x \<Rightarrow>
          if headersSent \<or> isAlreadyEnveloped x then Raw v
          else Enveloped x (firstDefined (hr_headers req REQUEST_ID_HEADER) requestId) now)"

text \<open>
  \<^verbatim>\<open>TimeoutInterceptor\<close>: the stream of a handler that answers after \<open>delay\<close> milliseconds, or never.
\<close>

definition timeout_exception :: "nat \<Rightarrow> http_exception" where
  "timeout_exception timeoutMs =
     (let message = ''Request exceeded timeout of '' @ nat_text timeoutMs @ ''ms'' in
      \<lparr>hx_status = 408,
       hx_response = PayloadObject [(''code'', JStr ''HTTP_408_REQUEST_TIMEOUT''), (''message'', JStr message)],
       hx_message = message\<rparr>)"

definition with_timeout :: "nat \<Rightarrow> (nat \<times> (thrown + 'a)) option \<Rightarrow> thrown + 'a" where
  "with_timeout timeoutMs answer =
     (case answer of
        None \<Rightarrow> Inl (HttpThrown (timeout_exception timeoutMs))
      | Some (delay, r) \<Rightarrow>
          if delay < timeoutMs then r else Inl (HttpThrown (timeout_exception timeoutMs)))"

subsection \<open>Validation\<close>

text \<open>An error of the validation package: a property, its violated constraints, and its children.\<close>

datatype ValidationError =
  ValidationError (ve_property: string) (ve_constraints: "(string \<times> string) list option")
    (ve_children: "ValidationError list")

type_synonym messages = "(string \<times> string list) list"

text \<open>\<^verbatim>\<open>result[key] = v\<close> and \<^verbatim>\<open>Object.assign(result, more)\<close>.\<close>

definition obj_put :: "string \<Rightarrow> string list \<Rightarrow> messages \<Rightarrow> messages" where
  "obj_put k v fs =
     (if map_of fs k = None then fs @ [(k, v)] else map (\<lambda>(k', v'). (k', if k' = k then v else v')) fs)"

definition obj_assign :: "messages \<Rightarrow> messages \<Rightarrow> messages" where
  "obj_assign fs fs' = foldl (\<lambda>acc (k, v). obj_put k v acc) fs fs'"

fun flattenInto :: "messages \<Rightarrow> string list \<Rightarrow> ValidationError list \<Rightarrow> messages" where
  "flattenInto result path [] = result"
| "flattenInto result path (ValidationError p constraints children # errors) =
     (let currentPath = path @ [p];
          own = (case constraints of
                   None \<Rightarrow> result
                 | Some cs \<Rightarrow> obj_put (join_with ''.'' currentPath) (map snd cs) result);
          nested = (if children = [] then own
                    else obj_assign own (flattenInto [] currentPath children)) in
      flattenInto nested path errors)"

definition flattenValidationErrors :: "ValidationError list \<Rightarrow> messages" where
  "flattenValidationErrors errors = flattenInto [] [] errors"

definition validation_exception :: "ValidationError list \<Rightarrow> bos_error" where
  "validation_exception errors =
     Validation (ValidationFailedException
       (JObj (map (\<lambda>(k, ms). (k, JArr (map JStr ms))) (flattenValidationErrors errors))))"

end
