(* ===== verification/Roles.thy ===== *)
theory Roles
  imports Tenant_Api Permission_Resolver
begin

text \<open>
  \<^verbatim>\<open>modules/roles\<close> of \<^verbatim>\<open>crm-core\<close>: the repository and the service that list, create, change and delete
  the roles of a tenant. The column \<^verbatim>\<open>updatedAt\<close>, which the client sets on every update, is not
  modelled.
\<close>

subsection \<open>Responses\<close>

record PermissionDto =
  pd_id :: string
  pd_slug :: string
  pd_scope :: string
  pd_resource :: string
  pd_action :: string
  pd_description :: string
  pd_isSystem :: bool

record RoleDto =
  rd_id :: string
  rd_slug :: string
  rd_name :: string
  rd_description :: "string option"
  rd_scopeType :: RoleScopeType
  rd_isSystem :: bool
  rd_verticalSlug :: "string option"
  rd_permissions :: "PermissionDto list"
  rd_createdAt :: int

definition permission_dto :: "permission \<Rightarrow> PermissionDto" where
  "permission_dto p =
     \<lparr>pd_id = pm_id p, pd_slug = pm_slug p, pd_scope = pm_scope p, pd_resource = pm_resource p,
      pd_action = pm_action p, pd_description = pm_description p, pd_isSystem = pm_isSystem p\<rparr>"

text \<open>\<^verbatim>\<open>include: { rolePermissions: { include: { permission: true } } }\<close>.\<close>

definition permissions_of_role :: "tenant_db \<Rightarrow> string \<Rightarrow> permission list" where
  "permissions_of_role db roleId =
     concat (map
       (\<lambda>rp. case lookupBy pm_id (rp_permissionId rp) (db_permissions db) of
               None \<Rightarrow> []
             | Some p \<Rightarrow> [p])
       (filter (\<lambda>rp. rp_roleId rp = roleId) (db_rolePermissions db)))"

definition role_toDto :: "tenant_db \<Rightarrow> role \<Rightarrow> RoleDto" where
  "role_toDto db r =
     \<lparr>rd_id = r_id r, rd_slug = r_slug r, rd_name = r_name r, rd_description = r_description r,
      rd_scopeType = r_scopeType r, rd_isSystem = r_isSystem r,
      rd_verticalSlug = r_verticalSlug r,
      rd_permissions = map permission_dto (permissions_of_role db (r_id r)),
      rd_createdAt = r_createdAt r\<rparr>"

definition with_permissions :: "string \<Rightarrow> role option \<Rightarrow> (world, RoleDto option) handler" where
  "with_permissions s found =
     (case found of
        None \<Rightarrow> ret None
      | Some r \<Rightarrow> read_db s (\<lambda>db. Some (role_toDto db r)))"

subsection \<open>Repository\<close>

definition roles_findAll :: "env \<Rightarrow> string \<Rightarrow> (world, RoleDto list) handler" where
  "roles_findAll E schemaName =
     await (forSchema schemaName) (\<lambda>s.
     await (findOrdered (roles s) (\<lambda>r. True)
       (\<lambda>r. (\<not> r_isSystem r, r_scopeType r, e_collate E (r_name r)))) (\<lambda>rs.
     read_db s (\<lambda>db. map (role_toDto db) rs)))"

definition findAllPermissions :: "env \<Rightarrow> string \<Rightarrow> (world, PermissionDto list) handler" where
  "findAllPermissions E schemaName =
     await (forSchema schemaName) (\<lambda>s.
     await (findOrdered (permissions s) (\<lambda>p. True)
       (\<lambda>p. (e_collate E (pm_scope p), e_collate E (pm_resource p), e_collate E (pm_action p)))) (\<lambda>ps.
     ret (map permission_dto ps)))"

definition roles_findById :: "string \<Rightarrow> string \<Rightarrow> (world, RoleDto option) handler" where
  "roles_findById schemaName roleId =
     await (forSchema schemaName) (\<lambda>s.
     await (findUnique (roles s) r_id roleId) (with_permissions s))"

definition roles_findBySlug :: "string \<Rightarrow> string \<Rightarrow> (world, RoleDto option) handler" where
  "roles_findBySlug schemaName slug =
     await (forSchema schemaName) (\<lambda>s.
     await (findUnique (roles s) r_slug slug) (with_permissions s))"

record CreateRoleDto =
  cr_slug :: string
  cr_name :: string
  cr_description :: "string option"
  cr_scopeType :: RoleScopeType
  cr_permissionIds :: "string list option"

text \<open>
  \<^verbatim>\<open>createMany\<close> with \<^verbatim>\<open>skipDuplicates\<close>: an assignment that is there already is skipped, one that
  names a role or a permission that does not exist fails.
\<close>

definition add_role_permission :: "string \<Rightarrow> string \<Rightarrow> string \<Rightarrow> (world, unit) handler" where
  "add_role_permission s roleId permId =
     await date_now (\<lambda>t.
     let rp = \<lparr>rp_roleId = roleId, rp_permissionId = permId, rp_createdAt = t\<rparr> in
     await (query (rolePermissions s) (existsRow (role_permission_clash rp))) (\<lambda>there.
     if there then ret ()
     else
       await (create (rolePermissions s) role_permission_clash (role_permission_refs s) rp) (\<lambda>_.
       ret ())))"

definition roles_create :: "env \<Rightarrow> string \<Rightarrow> CreateRoleDto \<Rightarrow> (world, RoleDto) handler" where
  "roles_create E schemaName dto =
     await (forSchema schemaName) (\<lambda>s.
     await
       (transaction
         (await (randomUUID E) (\<lambda>i.
          await date_now (\<lambda>now.
          await (create (roles s) role_clash no_refs
            \<lparr>r_id = i, r_slug = cr_slug dto, r_name = cr_name dto,
             r_description = cr_description dto, r_scopeType = cr_scopeType dto,
             r_isSystem = False, r_verticalSlug = None, r_createdAt = now\<rparr>) (\<lambda>role.
          await (forEach (orElse (cr_permissionIds dto) []) (add_role_permission s i)) (\<lambda>_.
          ret role)))))) (\<lambda>role.
     read_db s (\<lambda>db. role_toDto db role)))"

definition replacePermissions ::
    "string \<Rightarrow> string \<Rightarrow> string list \<Rightarrow> (world, RoleDto) handler" where
  "replacePermissions schemaName roleId permissionIds =
     await (forSchema schemaName) (\<lambda>s.
     transaction
       (await (deleteMany (rolePermissions s) (\<lambda>rp. rp_roleId rp = roleId)) (\<lambda>_.
        await (forEach permissionIds (add_role_permission s roleId)) (\<lambda>_.
        await (findUnique (roles s) r_id roleId) (\<lambda>found.
        case found of
          None \<Rightarrow> throw (Prisma P2025)
        | Some r \<Rightarrow> read_db s (\<lambda>db. role_toDto db r))))))"

text \<open>
  The foreign keys of the schema: an assignment of the role to a user, revoked or not, restricts
  the deletion; the permissions of the role are deleted with it.
\<close>

definition drop_role :: "string \<Rightarrow> tenant_db \<Rightarrow> tenant_db" where
  "drop_role i db =
     db_roles_update (deleteRows (\<lambda>r. r_id r = i))
       (db_rolePermissions_update (deleteRows (\<lambda>rp. rp_roleId rp = i)) db)"

definition roles_delete :: "string \<Rightarrow> string \<Rightarrow> (world, unit) handler" where
  "roles_delete schemaName roleId =
     await (forSchema schemaName) (\<lambda>s.
     await (findUnique (roles s) r_id roleId) (\<lambda>found.
     await (throwIf (found = None) (Prisma P2025)) (\<lambda>_.
     await (query (memberships s) (existsRow (\<lambda>m. ubm_roleId m = roleId))) (\<lambda>restricted.
     await (throwIf restricted (Prisma P2003)) (\<lambda>_.
     writes (on_schema s (drop_role roleId)))))))"

definition countUsersWithRole :: "string \<Rightarrow> string \<Rightarrow> (world, nat) handler" where
  "countUsersWithRole schemaName roleId =
     await (forSchema schemaName) (\<lambda>s.
     count (memberships s) (\<lambda>m. ubm_roleId m = roleId \<and> ubm_revokedAt m = None))"

definition permissionsExist :: "string \<Rightarrow> string list \<Rightarrow> (world, bool) handler" where
  "permissionsExist schemaName permissionIds =
     (if length permissionIds = 0 then ret True
      else
        await (forSchema schemaName) (\<lambda>s.
        await (count (permissions s) (\<lambda>p. pm_id p \<in> set permissionIds)) (\<lambda>n.
        ret (n = length permissionIds))))"

subsection \<open>Service\<close>

definition role_not_found :: bos_error where
  "role_not_found = Nest (NotFoundException ''Role not found'')"

definition permission_ids_not_found :: bos_error where
  "permission_ids_not_found = Nest (NotFoundException ''One or more permission IDs not found'')"

definition listRoles :: "env \<Rightarrow> string \<Rightarrow> (world, RoleDto list \<times> nat) handler" where
  "listRoles E tenantId =
     await (getSchemaName tenantId) (\<lambda>schemaName.
     await (roles_findAll E schemaName) (\<lambda>data. ret (data, length data)))"

definition listPermissions :: "env \<Rightarrow> string \<Rightarrow> (world, PermissionDto list) handler" where
  "listPermissions E tenantId = await (getSchemaName tenantId) (findAllPermissions E)"

definition getRole :: "string \<Rightarrow> string \<Rightarrow> (world, RoleDto) handler" where
  "getRole tenantId roleId =
     await (getSchemaName tenantId) (\<lambda>schemaName.
     await (roles_findById schemaName roleId) (\<lambda>role.
     case role of None \<Rightarrow> throw role_not_found | Some r \<Rightarrow> ret r))"

definition createRole :: "env \<Rightarrow> string \<Rightarrow> CreateRoleDto \<Rightarrow> (world, RoleDto) handler" where
  "createRole E tenantId dto =
     await (getSchemaName tenantId) (\<lambda>schemaName.
     await (roles_findBySlug schemaName (cr_slug dto)) (\<lambda>existing.
     await (throwIf (existing \<noteq> None)
       (Nest (ConflictException
         (''Role slug '' @ quoted (cr_slug dto) @ '' is already in use'')))) (\<lambda>_.
     await
       (if orElse (cr_permissionIds dto) [] \<noteq> []
        then await (permissionsExist schemaName (orElse (cr_permissionIds dto) [])) (\<lambda>allExist.
             throwIf (\<not> allExist) permission_ids_not_found)
        else ret ()) (\<lambda>_.
     roles_create E schemaName dto))))"

definition updateRolePermissions ::
    "string \<Rightarrow> string \<Rightarrow> string list \<Rightarrow> (world, RoleDto) handler" where
  "updateRolePermissions tenantId roleId permissionIds =
     await (getSchemaName tenantId) (\<lambda>schemaName.
     await (roles_findById schemaName roleId) (\<lambda>role.
     case role of
       None \<Rightarrow> throw role_not_found
     | Some r \<Rightarrow>
         await (throwIf (rd_isSystem r \<and> rd_slug r \<in> {''owner'', ''admin''})
           (Nest (ForbiddenException
             (''Cannot modify permissions for system role '' @ quoted (rd_slug r) @ '' '' @ em_dash @
              '' it has full access by design'')))) (\<lambda>_.
         await
           (if 0 < length permissionIds
            then await (permissionsExist schemaName permissionIds) (\<lambda>allExist.
                 throwIf (\<not> allExist) permission_ids_not_found)
            else ret ()) (\<lambda>_.
         replacePermissions schemaName roleId permissionIds))))"

definition deleteRole :: "string \<Rightarrow> string \<Rightarrow> (world, unit) handler" where
  "deleteRole tenantId roleId =
     await (getSchemaName tenantId) (\<lambda>schemaName.
     await (roles_findById schemaName roleId) (\<lambda>role.
     case role of
       None \<Rightarrow> throw role_not_found
     | Some r \<Rightarrow>
         await (throwIf (rd_isSystem r)
           (Nest (ForbiddenException
             (''System role '' @ quoted (rd_slug r) @ '' cannot be deleted'')))) (\<lambda>_.
         await (countUsersWithRole schemaName roleId) (\<lambda>userCount.
         await (throwIf (0 < userCount) (Permission (RoleInUseException userCount))) (\<lambda>_.
         roles_delete schemaName roleId)))))"

subsection \<open>Effects\<close>

context tenant_writes
begin

lemma with_permissions_effect: "has_effect R (with_permissions s found)"
  unfolding with_permissions_def by (intro tenant_rules)

lemma roles_read_effects:
  "has_effect R (roles_findAll E n)" "has_effect R (findAllPermissions E n)"
  "has_effect R (roles_findById n i)" "has_effect R (roles_findBySlug n i)"
  "has_effect R (countUsersWithRole n i)" "has_effect R (permissionsExist n ids)"
  unfolding roles_findAll_def findAllPermissions_def roles_findById_def roles_findBySlug_def
    countUsersWithRole_def permissionsExist_def
  by (intro tenant_rules with_permissions_effect)+

lemma add_role_permission_effect: "has_effect R (add_role_permission s i p)"
  unfolding add_role_permission_def Let_def rolePermissions_def
  by (intro tenant_rules effect_tenant_create)
     (auto simp: role_permission_refs_def in_schema_def existsRow_iff roles_of_def intro!: Grant)

lemma roles_write_effects:
  "has_effect R (roles_create E n dto)" "has_effect R (replacePermissions n i ids)"
  "has_effect R (roles_delete n i)"
proof -
  show "has_effect R (roles_create E n dto)"
    unfolding roles_create_def roles_def
    by (intro tenant_rules randomUUID_effect add_role_permission_effect effect_tenant_create New_role) simp
  show "has_effect R (replacePermissions n i ids)"
    unfolding replacePermissions_def rolePermissions_def
    by (intro tenant_rules add_role_permission_effect effect_tenant_deleteMany Ungrant)
  show "has_effect R (roles_delete n i)"
  proof -
    have "has_effect R (await (query (memberships s) (existsRow (\<lambda>m. ubm_roleId m = i))) (\<lambda>restricted.
       await (throwIf restricted (Prisma P2003)) (\<lambda>_. writes (on_schema s (drop_role i)))))" for s
    proof (rule has_effectI)
      fix w
      show "R w (after (await (query (memberships s) (existsRow (\<lambda>m. ubm_roleId m = i))) (\<lambda>restricted.
         await (throwIf restricted (Prisma P2003)) (\<lambda>_. writes (on_schema s (drop_role i))))) w)"
        by (auto simp: after_def await_run query_run throwIf_run refl drop_role_def
            intro!: change_on_schema Drop_role split: option.splits)
    qed
    note drop = this
    show ?thesis
      unfolding roles_delete_def
      by (rule effect_await [OF effect_forSchema], rule effect_await [OF effect_findUnique],
          rule effect_await [OF effect_throwIf], rule drop)
  qed
qed

lemma role_service_effects:
  "has_effect R (listRoles E t)" "has_effect R (listPermissions E t)" "has_effect R (getRole t i)"
  "has_effect R (createRole E t dto)" "has_effect R (updateRolePermissions t i ids)"
  "has_effect R (deleteRole t i)"
  unfolding listRoles_def listPermissions_def getRole_def createRole_def updateRolePermissions_def
    deleteRole_def
  by (intro tenant_rules roles_read_effects roles_write_effects)+

end

end
