(* ===== verification/Staff.thy ===== *)
theory Staff
  imports Roles Invite_Accept
begin

text \<open>
  \<^verbatim>\<open>modules/staff\<close> of \<^verbatim>\<open>crm-core\<close>: invitations, the list of the staff with the roles that they hold,
  changes of a role, and the end of an employment. The module writes to the core database and to
  the schema of the tenant; no foreign key connects the two.
\<close>

subsection \<open>Responses\<close>

record StaffRoleAssignmentDto =
  sa_membershipId :: string
  sa_roleId :: string
  sa_roleSlug :: string
  sa_roleName :: string
  sa_branchId :: "string option"
  sa_branchName :: "string option"
  sa_assignedAt :: int

record StaffMemberDto =
  sm_userId :: string
  sm_email :: string
  sm_firstName :: "string option"
  sm_lastName :: "string option"
  sm_avatarUrl :: "string option"
  sm_phone :: "string option"
  sm_membershipStatus :: TenantMembershipStatus
  sm_joinedAt :: "int option"
  sm_roles :: "StaffRoleAssignmentDto list"

record PendingInviteDto =
  pi_inviteId :: string
  pi_email :: string
  pi_firstName :: "string option"
  pi_lastName :: "string option"
  pi_roleId :: string
  pi_branchId :: "string option"
  pi_invitedByUserId :: string
  pi_expiresAt :: int
  pi_createdAt :: int

text \<open>The joins: a foreign key gives the role and, unless null, the branch of an assignment.\<close>

definition role_assignment_dto ::
    "tenant_db \<Rightarrow> user_branch_membership \<Rightarrow> StaffRoleAssignmentDto list" where
  "role_assignment_dto db ra =
     (let branch = Option.bind (ubm_branchId ra) (\<lambda>b. lookupBy b_id b (db_branches db)) in
      case lookupBy r_id (ubm_roleId ra) (db_roles db) of
        None \<Rightarrow> []
      | Some r \<Rightarrow>
          [\<lparr>sa_membershipId = ubm_id ra, sa_roleId = r_id r, sa_roleSlug = r_slug r,
            sa_roleName = r_name r, sa_branchId = map_option b_id branch,
            sa_branchName = map_option b_name branch, sa_assignedAt = ubm_assignedAt ra\<rparr>])"

definition active_assignments :: "tenant_db \<Rightarrow> string \<Rightarrow> StaffRoleAssignmentDto list" where
  "active_assignments db userId =
     concat (map (role_assignment_dto db) (filter (active_assignment userId) (db_memberships db)))"

definition staff_member_dto ::
    "tenant_db \<Rightarrow> user list \<Rightarrow> tenant_membership \<Rightarrow> StaffMemberDto list" where
  "staff_member_dto db us m =
     (case lookupBy u_id (tm_userId m) us of
        None \<Rightarrow> []
      | Some u \<Rightarrow>
          [\<lparr>sm_userId = u_id u, sm_email = u_email u, sm_firstName = u_firstName u,
            sm_lastName = u_lastName u, sm_avatarUrl = u_avatarUrl u, sm_phone = u_phone u,
            sm_membershipStatus = tm_status m, sm_joinedAt = tm_joinedAt m,
            sm_roles = active_assignments db (tm_userId m)\<rparr>])"

subsection \<open>Repository\<close>

definition staff_membership :: "string \<Rightarrow> tenant_membership \<Rightarrow> bool" where
  "staff_membership tenantId m \<longleftrightarrow>
     tm_tenantId m = tenantId \<and> tm_status m \<noteq> TenantMembershipStatus.LEFT"

definition staff_findAll ::
    "string \<Rightarrow> string \<Rightarrow> int \<Rightarrow> int \<Rightarrow> (world, StaffMemberDto list \<times> nat) handler" where
  "staff_findAll tenantId schemaName page limit =
     await (findPage tenantMemberships (staff_membership tenantId) tm_createdAt page limit) (\<lambda>ms.
     await (count tenantMemberships (staff_membership tenantId)) (\<lambda>total.
     if length ms = 0 then ret ([], total)
     else
       await (forSchema schemaName) (\<lambda>s.
       await (reads w_users) (\<lambda>us.
       read_db s (\<lambda>db. (concat (map (staff_member_dto db us) ms), total))))))"

definition staff_findById ::
    "string \<Rightarrow> string \<Rightarrow> string \<Rightarrow> (world, StaffMemberDto option) handler" where
  "staff_findById userId tenantId schemaName =
     await (findUnique tenantMemberships membership_key (userId, tenantId)) (\<lambda>found.
     case found of
       None \<Rightarrow> ret None
     | Some m \<Rightarrow>
         if tm_status m = TenantMembershipStatus.LEFT then ret None
         else
           await (forSchema schemaName) (\<lambda>s.
           await (reads w_users) (\<lambda>us.
           read_db s (\<lambda>db. case staff_member_dto db us m of [] \<Rightarrow> None | d # _ \<Rightarrow> Some d))))"

definition pending_invite :: "string \<Rightarrow> int \<Rightarrow> user_invite \<Rightarrow> bool" where
  "pending_invite tenantId now i \<longleftrightarrow>
     ui_tenantId i = tenantId \<and> ui_acceptedAt i = None \<and> ui_revokedAt i = None \<and> now < ui_expiresAt i"

definition pending_invite_dto :: "user list \<Rightarrow> user_invite \<Rightarrow> PendingInviteDto list" where
  "pending_invite_dto us i =
     (case lookupBy u_id (ui_userId i) us of
        None \<Rightarrow> []
      | Some u \<Rightarrow>
          [\<lparr>pi_inviteId = ui_id i, pi_email = ui_email i, pi_firstName = u_firstName u,
            pi_lastName = u_lastName u, pi_roleId = ui_roleId i, pi_branchId = ui_branchId i,
            pi_invitedByUserId = ui_invitedByUserId i, pi_expiresAt = ui_expiresAt i,
            pi_createdAt = ui_createdAt i\<rparr>])"

definition findPendingInvites :: "string \<Rightarrow> (world, PendingInviteDto list) handler" where
  "findPendingInvites tenantId =
     await date_now (\<lambda>now.
     await (findOrdered invites (pending_invite tenantId now) (\<lambda>i. - ui_createdAt i)) (\<lambda>is.
     reads (\<lambda>w. concat (map (pending_invite_dto (w_users w)) is))))"

record CreateInviteParams =
  ip_email :: string
  ip_firstName :: "string option"
  ip_lastName :: "string option"
  ip_tenantId :: string
  ip_roleId :: string
  ip_branchId :: "string option"
  ip_invitedByUserId :: string
  ip_tokenHash :: string
  ip_expiresAt :: int

definition invite_clash :: "user_invite \<Rightarrow> user_invite \<Rightarrow> bool" where
  "invite_clash i i' \<longleftrightarrow> ui_id i' = ui_id i \<or> ui_tokenHash i' = ui_tokenHash i"

definition invite_refs :: "user_invite \<Rightarrow> world \<Rightarrow> bool" where
  "invite_refs i w \<longleftrightarrow>
     existsRow (\<lambda>u. u_id u = ui_userId i) (w_users w) \<and>
     existsRow (\<lambda>u. u_id u = ui_invitedByUserId i) (w_users w) \<and>
     existsRow (\<lambda>t. t_id t = ui_tenantId i) (w_tenants w)"

text \<open>\<^verbatim>\<open>upsert\<close> with an empty \<^verbatim>\<open>update\<close>: the row with the key, or a new one.\<close>

definition upsert_user :: "env \<Rightarrow> CreateInviteParams \<Rightarrow> (world, user) handler" where
  "upsert_user E p =
     await (findUnique users email_key (toLowerCase (ip_email p))) (\<lambda>found.
     case found of
       Some u \<Rightarrow> ret u
     | None \<Rightarrow>
         user_create E
           \<lparr>uc_email = ip_email p, uc_passwordHash = None, uc_firstName = ip_firstName p,
            uc_lastName = ip_lastName p, uc_locale = None, uc_timezone = None,
            uc_status = UserStatus.INVITED\<rparr>)"

definition upsert_membership :: "env \<Rightarrow> string \<Rightarrow> string \<Rightarrow> (world, tenant_membership) handler" where
  "upsert_membership E userId tenantId =
     await (findUnique tenantMemberships membership_key (userId, tenantId)) (\<lambda>found.
     case found of
       Some m \<Rightarrow> ret m
     | None \<Rightarrow>
         await (randomUUID E) (\<lambda>i.
         await date_now (\<lambda>now.
         create tenantMemberships tenant_membership_clash tenant_membership_refs
           \<lparr>tm_id = i, tm_userId = userId, tm_tenantId = tenantId,
            tm_status = TenantMembershipStatus.INVITED, tm_joinedAt = None, tm_leftAt = None,
            tm_leftReason = None, tm_createdAt = now\<rparr>)))"

definition createInvite :: "env \<Rightarrow> CreateInviteParams \<Rightarrow> (world, string) handler" where
  "createInvite E p =
     transaction
       (await (upsert_user E p) (\<lambda>user.
        await (upsert_membership E (u_id user) (ip_tenantId p)) (\<lambda>_.
        await (randomUUID E) (\<lambda>i.
        await date_now (\<lambda>now.
        await (create invites invite_clash invite_refs
          \<lparr>ui_id = i, ui_tokenHash = ip_tokenHash p, ui_userId = u_id user,
           ui_tenantId = ip_tenantId p, ui_invitedByUserId = ip_invitedByUserId p,
           ui_roleId = ip_roleId p, ui_branchId = ip_branchId p, ui_email = ip_email p,
           ui_expiresAt = ip_expiresAt p, ui_acceptedAt = None, ui_revokedAt = None,
           ui_createdAt = now\<rparr>) (\<lambda>invite.
        ret (ui_id invite)))))))"

definition repo_revokeInvite :: "string \<Rightarrow> string \<Rightarrow> (world, bool) handler" where
  "repo_revokeInvite inviteId tenantId =
     await date_now (\<lambda>now.
     await (updateMany invites
       (\<lambda>i. ui_id i = inviteId \<and> ui_tenantId i = tenantId \<and> ui_acceptedAt i = None \<and> ui_revokedAt i = None)
       (\<lambda>i. i\<lparr>ui_revokedAt := Some now\<rparr>)) (\<lambda>n.
     ret (0 < n)))"

text \<open>A role that a user holds now at one branch, or for the whole tenant.\<close>

definition held_at :: "string \<Rightarrow> string option \<Rightarrow> user_branch_membership \<Rightarrow> bool" where
  "held_at userId branchId m \<longleftrightarrow>
     ubm_userId m = userId \<and> ubm_branchId m = branchId \<and> ubm_revokedAt m = None"

definition revoke_assignment :: "int \<Rightarrow> string \<Rightarrow> user_branch_membership \<Rightarrow> user_branch_membership" where
  "revoke_assignment now reason m = m\<lparr>ubm_revokedAt := Some now, ubm_revokedReason := Some reason\<rparr>"

definition updateRoleAssignment ::
    "env \<Rightarrow> string \<Rightarrow> string \<Rightarrow> string \<Rightarrow> string \<Rightarrow> string option \<Rightarrow> (world, unit) handler" where
  "updateRoleAssignment E userId schemaName assignedByUserId newRoleId branchId =
     await (forSchema schemaName) (\<lambda>s.
     transaction
       (await (findFirst (memberships s) (held_at userId branchId)) (\<lambda>existing.
        let available = orElse (map_option ubm_roundRobinAvailable existing) True in
        await date_now (\<lambda>now.
        await (updateMany (memberships s) (held_at userId branchId) (revoke_assignment now ''role_updated'')) (\<lambda>_.
        await (randomUUID E) (\<lambda>i.
        await (create (memberships s) membership_clash (assignment_refs s)
          \<lparr>ubm_id = i, ubm_userId = userId, ubm_branchId = branchId, ubm_roleId = newRoleId,
           ubm_assignedByUserId = Some assignedByUserId, ubm_assignedAt = now,
           ubm_revokedAt = None, ubm_revokedReason = None, ubm_roundRobinAvailable = available,
           ubm_createdAt = now\<rparr>) (\<lambda>_.
        ret ())))))))"

definition repo_setRoundRobinAvailable ::
    "string \<Rightarrow> string \<Rightarrow> string \<Rightarrow> bool \<Rightarrow> (world, unit) handler" where
  "repo_setRoundRobinAvailable userId schemaName branchId available =
     await (forSchema schemaName) (\<lambda>s.
     await (updateMany (memberships s) (held_at userId (Some branchId))
       (\<lambda>m. m\<lparr>ubm_roundRobinAvailable := available\<rparr>)) (\<lambda>_.
     ret ()))"

text \<open>
  The writes start together; each takes the rows that the module read or names, and none reads what
  another one writes, so their order does not show.
\<close>

definition session_of_tenant :: "string \<Rightarrow> string \<Rightarrow> session \<Rightarrow> bool" where
  "session_of_tenant userId tenantId s \<longleftrightarrow>
     s_userId s = userId \<and> s_tenantId s = Some tenantId \<and> s_endedAt s = None"

definition suspend_membership :: "string \<Rightarrow> string \<Rightarrow> (world, nat) handler" where
  "suspend_membership userId tenantId =
     updateMany tenantMemberships
       (\<lambda>m. tm_userId m = userId \<and> tm_tenantId m = tenantId \<and> tm_status m = TenantMembershipStatus.ACTIVE)
       (\<lambda>m. m\<lparr>tm_status := TenantMembershipStatus.SUSPENDED\<rparr>)"

definition revoke_session_tokens :: "int \<Rightarrow> string list \<Rightarrow> (world, unit) handler" where
  "revoke_session_tokens now sessionIds =
     (if 0 < length sessionIds
      then await (updateMany refreshTokens
             (\<lambda>r. rt_sessionId r \<in> set sessionIds \<and> rt_revokedAt r = None)
             (revoke_row now ''staff_deactivated'')) (\<lambda>_. ret ())
      else ret ())"

definition repo_deactivateStaff ::
    "string \<Rightarrow> string \<Rightarrow> string \<Rightarrow> string \<Rightarrow> (world, unit) handler" where
  "repo_deactivateStaff userId tenantId schemaName deactivatedByUserId =
     await (forSchema schemaName) (\<lambda>s.
     await (findMany sessions (session_of_tenant userId tenantId)) (\<lambda>activeSessions.
     let sessionIds = map s_id activeSessions in
     await date_now (\<lambda>now.
     await (suspend_membership userId tenantId) (\<lambda>_.
     await (updateMany (memberships s) (active_assignment userId)
       (revoke_assignment now (''deactivated_by:'' @ deactivatedByUserId))) (\<lambda>_.
     await (updateMany sessions (session_of_tenant userId tenantId)
       (end_row now SessionEndReason.REVOKED_BY_ADMIN)) (\<lambda>_.
     revoke_session_tokens now sessionIds))))))"

text \<open>\<^verbatim>\<open>where: { revokedAt: null, role: { slug: 'owner' } }\<close>.\<close>

definition has_role_slug :: "tenant_db \<Rightarrow> string \<Rightarrow> user_branch_membership \<Rightarrow> bool" where
  "has_role_slug db slug m \<longleftrightarrow>
     (case lookupBy r_id (ubm_roleId m) (db_roles db) of None \<Rightarrow> False | Some r \<Rightarrow> r_slug r = slug)"

definition owner_assignment :: "tenant_db \<Rightarrow> user_branch_membership \<Rightarrow> bool" where
  "owner_assignment db m \<longleftrightarrow> ubm_revokedAt m = None \<and> has_role_slug db ''owner'' m"

definition isOwner :: "string \<Rightarrow> string \<Rightarrow> (world, bool) handler" where
  "isOwner userId schemaName =
     await (forSchema schemaName) (\<lambda>s.
     read_db s (\<lambda>db. findRow (\<lambda>m. ubm_userId m = userId \<and> owner_assignment db m) (db_memberships db) \<noteq> None))"

subsection \<open>Service\<close>

definition INVITE_TTL_HOURS :: int where "INVITE_TTL_HOURS = 48"

record InviteStaffDto =
  is_email :: string
  is_firstName :: "string option"
  is_lastName :: "string option"
  is_roleId :: string
  is_branchId :: "string option"

record StaffList =
  sl_data :: "StaffMemberDto list"
  sl_total :: nat
  sl_page :: int
  sl_limit :: int

definition listStaff :: "string \<Rightarrow> int \<Rightarrow> int \<Rightarrow> (world, StaffList) handler" where
  "listStaff tenantId page limit =
     await (getSchemaName tenantId) (\<lambda>schemaName.
     await (staff_findAll tenantId schemaName page limit) (\<lambda>(data, total).
     ret \<lparr>sl_data = data, sl_total = total, sl_page = page, sl_limit = limit\<rparr>))"

definition getStaffMember :: "string \<Rightarrow> string \<Rightarrow> (world, StaffMemberDto) handler" where
  "getStaffMember userId tenantId =
     await (getSchemaName tenantId) (\<lambda>schemaName.
     await (staff_findById userId tenantId schemaName) (\<lambda>member.
     case member of
       None \<Rightarrow> throw (Nest (NotFoundException ''Staff member not found''))
     | Some m \<Rightarrow> ret m))"

text \<open>\<^verbatim>\<open>[first, last].filter(Boolean).join(' ') || email\<close>.\<close>

definition inviter_name :: "user \<Rightarrow> string" where
  "inviter_name u =
     (let name = join_with '' '' (map the (filter truthy [u_firstName u, u_lastName u])) in
      if name = [] then u_email u else name)"

definition invite_job ::
    "env \<Rightarrow> InviteStaffDto \<Rightarrow> string \<Rightarrow> string \<Rightarrow> string \<Rightarrow> tenant \<Rightarrow> user \<Rightarrow> SendEmailJobPayload" where
  "invite_job E dto tenantId invitedByUserId rawToken tenant inviter =
     \<lparr>m_tenantId = Some tenantId, m_recipientEmail = is_email dto,
      m_subject = ''You'' @ [CHR 0x27] @ ''ve been invited to join '' @ t_name tenant @ '' on BOS'',
      m_templateId = EmailTemplateId.STAFF_INVITE,
      m_templateData =
        [(''firstName'', JStr (greeting_name (is_firstName dto) (is_email dto))),
         (''inviterName'', JStr (inviter_name inviter)), (''orgName'', JStr (t_name tenant)),
         (''inviteUrl'', JStr (e_frontendUrl E @ ''/invite/accept?token='' @ rawToken)),
         (''expiresHours'', JNum INVITE_TTL_HOURS)],
      m_triggeredByUserId = Some invitedByUserId, m_correlationId = None\<rparr>"

definition require_not_active :: "InviteStaffDto \<Rightarrow> string \<Rightarrow> (world, unit) handler" where
  "require_not_active dto tenantId =
     await (findUnique users email_key (toLowerCase (is_email dto))) (\<lambda>existingUser.
     case existingUser of
       None \<Rightarrow> ret ()
     | Some u \<Rightarrow>
         await (findUnique tenantMemberships membership_key (u_id u, tenantId)) (\<lambda>existing.
         throwIf (map_option tm_status existing = Some TenantMembershipStatus.ACTIVE)
           (Nest (ConflictException (is_email dto @ '' is already an active staff member'')))))"

definition inviteStaff :: "env \<Rightarrow> string \<Rightarrow> string \<Rightarrow> InviteStaffDto \<Rightarrow> (world, unit) handler" where
  "inviteStaff E tenantId invitedByUserId dto =
     await (getSchemaName tenantId) (\<lambda>schemaName.
     await (forSchema schemaName) (\<lambda>s.
     await (findUnique (roles s) r_id (is_roleId dto)) (\<lambda>role.
     await (throwIf (role = None) (Permission RoleNotFoundException)) (\<lambda>_.
     await (require_not_active dto tenantId) (\<lambda>_.
     await (findUnique tenants t_id tenantId) (\<lambda>tenant.
     await (findUnique users u_id invitedByUserId) (\<lambda>inviter.
     case (tenant, inviter) of
       (Some t, Some u) \<Rightarrow>
         await (randomBytesHex E 32) (\<lambda>rawToken.
         await date_now (\<lambda>now.
         await (createInvite E
           \<lparr>ip_email = is_email dto, ip_firstName = is_firstName dto, ip_lastName = is_lastName dto,
            ip_tenantId = tenantId, ip_roleId = is_roleId dto, ip_branchId = is_branchId dto,
            ip_invitedByUserId = invitedByUserId, ip_tokenHash = e_sha256 E rawToken,
            ip_expiresAt = now + INVITE_TTL_HOURS * 60 * 60 * 1000\<rparr>) (\<lambda>_.
         mailQueue_add (invite_job E dto tenantId invitedByUserId rawToken t u))))
     | _ \<Rightarrow> throw (Prisma P2025))))))))"

text \<open>The guard of the last owner, the same in the two operations that take a role away.\<close>

definition guard_last_owner :: "string \<Rightarrow> string \<Rightarrow> (world, unit) handler" where
  "guard_last_owner targetUserId schemaName =
     await (isOwner targetUserId schemaName) (\<lambda>isTargetOwner.
     if isTargetOwner
     then await (forSchema schemaName) (\<lambda>s.
          await (read_db s (\<lambda>db. countRows (owner_assignment db) (db_memberships db))) (\<lambda>ownerCount.
          throwIf (ownerCount \<le> 1) (Permission CannotRemoveLastOwnerException)))
     else ret ())"

definition updateStaffRole ::
    "env \<Rightarrow> string \<Rightarrow> string \<Rightarrow> string \<Rightarrow> string \<Rightarrow> string option \<Rightarrow> (world, unit) handler" where
  "updateStaffRole E targetUserId tenantId assignedByUserId roleId branchId =
     await (getSchemaName tenantId) (\<lambda>schemaName.
     await (forSchema schemaName) (\<lambda>s.
     await (findUnique (roles s) r_id roleId) (\<lambda>role.
     await (throwIf (role = None) (Permission RoleNotFoundException)) (\<lambda>_.
     await (guard_last_owner targetUserId schemaName) (\<lambda>_.
     updateRoleAssignment E targetUserId schemaName assignedByUserId roleId branchId)))))"

definition deactivateStaff :: "string \<Rightarrow> string \<Rightarrow> string \<Rightarrow> (world, unit) handler" where
  "deactivateStaff targetUserId tenantId deactivatedByUserId =
     await (getSchemaName tenantId) (\<lambda>schemaName.
     await (guard_last_owner targetUserId schemaName) (\<lambda>_.
     repo_deactivateStaff targetUserId tenantId schemaName deactivatedByUserId))"

definition listPendingInvites :: "string \<Rightarrow> (world, PendingInviteDto list) handler" where
  "listPendingInvites tenantId = findPendingInvites tenantId"

definition revokeInvite :: "string \<Rightarrow> string \<Rightarrow> (world, unit) handler" where
  "revokeInvite inviteId tenantId =
     await (repo_revokeInvite inviteId tenantId) (\<lambda>revoked.
     throwIf (\<not> revoked)
       (Nest (NotFoundException ''Invite not found or already accepted/revoked'')))"

definition setRoundRobinAvailable ::
    "string \<Rightarrow> string \<Rightarrow> string \<Rightarrow> bool \<Rightarrow> (world, unit) handler" where
  "setRoundRobinAvailable targetUserId tenantId branchId available =
     await (getSchemaName tenantId) (\<lambda>schemaName.
     repo_setRoundRobinAvailable targetUserId schemaName branchId available)"

text \<open>The controller's \<^verbatim>\<open>GET /staff\<close> caps the page size.\<close>

definition listStaffHandler :: "string \<Rightarrow> int option \<Rightarrow> int option \<Rightarrow> (world, StaffList) handler" where
  "listStaffHandler tenantId page limit =
     listStaff tenantId (orElse page 1) (min (orElse limit 20) 100)"

subsection \<open>Effects\<close>

context tenant_writes
begin

lemma staff_read_effects:
  "has_effect R (staff_findAll t n page limit)" "has_effect R (staff_findById u t n)"
  "has_effect R (findPendingInvites t)" "has_effect R (isOwner u n)"
  "has_effect R (guard_last_owner u n)" "has_effect R (require_not_active dto t)"
  unfolding staff_findAll_def staff_findById_def findPendingInvites_def guard_last_owner_def
    isOwner_def require_not_active_def
  by (intro tenant_rules)+

lemma staff_core_effects:
  "has_effect R (upsert_user E p)" "has_effect R (upsert_membership E u t)"
  "has_effect R (repo_revokeInvite i t)"
  "has_effect R (suspend_membership u t)" "has_effect R (revoke_session_tokens now ids)"
  unfolding upsert_user_def upsert_membership_def user_create_def
    repo_revokeInvite_def suspend_membership_def revoke_session_tokens_def
  by (intro tenant_rules randomUUID_effect outside; simp)+

lemma createInvite_effect: "has_effect R (createInvite E p)"
  unfolding createInvite_def
  by (intro tenant_rules randomUUID_effect staff_core_effects outside) simp

lemma new_assignment_effect:
  "has_effect R (create (memberships s) membership_clash (assignment_refs s) m)"
  unfolding memberships_def
  by (intro effect_tenant_create New_membership)
     (auto simp: assignment_refs_def existsRow_iff roles_of_def branches_of_def image_iff eq_commute
       split: option.splits)

lemma revoke_assignments_effect:
  "has_effect R (updateMany (memberships s) q (revoke_assignment now reason))"
  unfolding memberships_def
  by (intro effect_tenant_updateMany Change_membership) (simp add: revoke_assignment_def)

lemma staff_tenant_effects:
  "has_effect R (updateRoleAssignment E u n a r b)" "has_effect R (repo_setRoundRobinAvailable u n bid av)"
  "has_effect R (repo_deactivateStaff u t n d)" "has_effect R (create_assignment E n invite)"
proof -
  show "has_effect R (updateRoleAssignment E u n a r b)"
    unfolding updateRoleAssignment_def Let_def
    by (intro effect_await effect_forSchema effect_transaction effect_findFirst effect_date_now
        revoke_assignments_effect randomUUID_effect new_assignment_effect effect_ret)
  show "has_effect R (repo_setRoundRobinAvailable u n bid av)"
    unfolding repo_setRoundRobinAvailable_def memberships_def
    by (intro effect_await effect_forSchema effect_tenant_updateMany Change_membership effect_ret) simp
  show "has_effect R (repo_deactivateStaff u t n d)"
    unfolding repo_deactivateStaff_def Let_def
    by (intro effect_await effect_forSchema effect_findMany effect_date_now staff_core_effects
        revoke_assignments_effect effect_updateMany outside) simp
  show "has_effect R (create_assignment E n invite)"
    unfolding create_assignment_def
    by (intro effect_await effect_forSchema randomUUID_effect effect_date_now new_assignment_effect effect_ret)
qed

lemma staff_service_effects:
  "has_effect R (listStaff t page limit)" "has_effect R (listStaffHandler t p l)"
  "has_effect R (getStaffMember u t)" "has_effect R (inviteStaff E t i dto)"
  "has_effect R (updateStaffRole E u t a r b)" "has_effect R (deactivateStaff u t d)"
  "has_effect R (listPendingInvites t)" "has_effect R (revokeInvite i t)"
  "has_effect R (setRoundRobinAvailable u t bid av)"
  unfolding listStaffHandler_def listStaff_def getStaffMember_def inviteStaff_def updateStaffRole_def
    deactivateStaff_def listPendingInvites_def revokeInvite_def setRoundRobinAvailable_def
  by (intro tenant_rules staff_read_effects staff_core_effects createInvite_effect staff_tenant_effects
      effect_randomBytesHex effect_mailQueue_add outside; simp)+

end

end
