(* ===== verification/Branches.thy ===== *)
theory Branches
  imports Tenant_Api Permission_Resolver
begin

text \<open>
  \<^verbatim>\<open>modules/branches\<close> of \<^verbatim>\<open>crm-core\<close>: the branches of a tenant, which are created, changed and
  switched off but never deleted. A field of a change is \<open>None\<close> when the request leaves it out and
  \<open>Some None\<close> when it sends null. The columns \<^verbatim>\<open>metadata\<close> and \<^verbatim>\<open>updatedAt\<close> are not modelled.
\<close>

subsection \<open>Requests and responses\<close>

record BranchRef =
  bf_id :: string
  bf_name :: string
  bf_code :: string

record BranchDto =
  bd_branch :: branch
  bd_children :: "BranchRef list option"

record CreateBranchDto =
  cb_name :: string
  cb_code :: string
  cb_address :: "string option"
  cb_city :: "string option"
  cb_state :: "string option"
  cb_country :: "string option"
  cb_postalCode :: "string option"
  cb_phone :: "string option"
  cb_email :: "string option"
  cb_timezone :: "string option"
  cb_parentBranchId :: "string option"
  cb_isHeadOffice :: "bool option"

record UpdateBranchDto =
  ub_name :: "string option option"
  ub_address :: "string option option"
  ub_city :: "string option option"
  ub_state :: "string option option"
  ub_country :: "string option option"
  ub_postalCode :: "string option option"
  ub_phone :: "string option option"
  ub_email :: "string option option"
  ub_timezone :: "string option option"
  ub_parentBranchId :: "string option option"
  ub_isHeadOffice :: "bool option option"

text \<open>\<^verbatim>\<open>childBranches: { where: { isActive: true, deletedAt: null } }\<close>.\<close>

definition open_branch :: "branch \<Rightarrow> bool" where
  "open_branch b \<longleftrightarrow> b_isActive b \<and> b_deletedAt b = None"

definition children_of :: "tenant_db \<Rightarrow> branch \<Rightarrow> BranchRef list" where
  "children_of db b =
     map (\<lambda>c. \<lparr>bf_id = b_id c, bf_name = b_name c, bf_code = b_code c\<rparr>)
       (filter (\<lambda>c. b_parentBranchId c = Some (b_id b) \<and> open_branch c) (db_branches db))"

text \<open>The mapper passes every column of the row on; the children are there when they were included.\<close>

definition branch_toDto :: "branch \<Rightarrow> BranchRef list option \<Rightarrow> BranchDto" where
  "branch_toDto b children = \<lparr>bd_branch = b, bd_children = children\<rparr>"

subsection \<open>Repository\<close>

record BranchListOptions =
  bo_page :: int
  bo_limit :: int
  bo_includeInactive :: bool

definition branches_findAll ::
    "env \<Rightarrow> string \<Rightarrow> BranchListOptions \<Rightarrow> (world, BranchDto list \<times> nat) handler" where
  "branches_findAll E schemaName opts =
     await (forSchema schemaName) (\<lambda>s.
     let listed = (\<lambda>b. bo_includeInactive opts \<or> open_branch b) in
     await (findPage (branches s) listed (\<lambda>b. (\<not> b_isHeadOffice b, e_collate E (b_name b)))
       (bo_page opts) (bo_limit opts)) (\<lambda>bs.
     await (count (branches s) listed) (\<lambda>total.
     read_db s (\<lambda>db. (map (\<lambda>b. branch_toDto b (Some (children_of db b))) bs, total)))))"

definition branches_findById :: "string \<Rightarrow> string \<Rightarrow> (world, BranchDto option) handler" where
  "branches_findById schemaName branchId =
     await (forSchema schemaName) (\<lambda>s.
     await (findFirst (branches s) (\<lambda>b. b_id b = branchId \<and> b_deletedAt b = None)) (\<lambda>found.
     case found of
       None \<Rightarrow> ret None
     | Some b \<Rightarrow> read_db s (\<lambda>db. Some (branch_toDto b (Some (children_of db b))))))"

definition findByCode :: "string \<Rightarrow> string \<Rightarrow> (world, BranchDto option) handler" where
  "findByCode schemaName code =
     await (forSchema schemaName) (\<lambda>s.
     await (findUnique (branches s) b_code (toUpperCase code)) (\<lambda>found.
     ret (map_option (\<lambda>b. branch_toDto b None) found)))"

definition branches_create :: "env \<Rightarrow> string \<Rightarrow> CreateBranchDto \<Rightarrow> (world, BranchDto) handler" where
  "branches_create E schemaName dto =
     await (forSchema schemaName) (\<lambda>s.
     await (randomUUID E) (\<lambda>i.
     await date_now (\<lambda>now.
     await (create (branches s) branch_clash (branch_refs s)
       \<lparr>b_id = i, b_name = cb_name dto, b_code = toUpperCase (cb_code dto),
        b_address = cb_address dto, b_city = cb_city dto, b_state = cb_state dto,
        b_country = cb_country dto, b_postalCode = cb_postalCode dto, b_phone = cb_phone dto,
        b_email = cb_email dto, b_timezone = orElse (cb_timezone dto) ''UTC'',
        b_parentBranchId = cb_parentBranchId dto,
        b_isHeadOffice = orElse (cb_isHeadOffice dto) False, b_isActive = True,
        b_deletedAt = None, b_createdAt = now\<rparr>) (\<lambda>b.
     ret (branch_toDto b None)))))"

text \<open>
  The patch that \<^verbatim>\<open>update\<close> collects: a field that the request left out is not changed. The client
  refuses a null for a column that has none.
\<close>

definition patch_valid :: "UpdateBranchDto \<Rightarrow> bool" where
  "patch_valid dto \<longleftrightarrow>
     ub_name dto \<noteq> Some None \<and> ub_timezone dto \<noteq> Some None \<and> ub_isHeadOffice dto \<noteq> Some None"

definition apply_patch :: "UpdateBranchDto \<Rightarrow> branch \<Rightarrow> branch" where
  "apply_patch dto b =
     b\<lparr>b_name := orElse (orElse (ub_name dto) None) (b_name b),
       b_address := orElse (ub_address dto) (b_address b),
       b_city := orElse (ub_city dto) (b_city b),
       b_state := orElse (ub_state dto) (b_state b),
       b_country := orElse (ub_country dto) (b_country b),
       b_postalCode := orElse (ub_postalCode dto) (b_postalCode b),
       b_phone := orElse (ub_phone dto) (b_phone b),
       b_email := orElse (ub_email dto) (b_email b),
       b_timezone := orElse (orElse (ub_timezone dto) None) (b_timezone b),
       b_parentBranchId := orElse (ub_parentBranchId dto) (b_parentBranchId b),
       b_isHeadOffice := orElse (orElse (ub_isHeadOffice dto) None) (b_isHeadOffice b)\<rparr>"

definition parent_refs :: "string \<Rightarrow> UpdateBranchDto \<Rightarrow> world \<Rightarrow> bool" where
  "parent_refs s dto =
     in_schema s (\<lambda>db. case orElse (ub_parentBranchId dto) None of
       None \<Rightarrow> True
     | Some p \<Rightarrow> existsRow (\<lambda>x. b_id x = p) (db_branches db))"

definition branches_update ::
    "string \<Rightarrow> string \<Rightarrow> UpdateBranchDto \<Rightarrow> (world, BranchDto) handler" where
  "branches_update schemaName branchId dto =
     await (forSchema schemaName) (\<lambda>s.
     await (throwIf (\<not> patch_valid dto) (Prisma PrismaValidation)) (\<lambda>_.
     await (findUnique (branches s) b_id branchId) (\<lambda>found.
     await (throwIf (found = None) (Prisma P2025)) (\<lambda>_.
     await (reads (parent_refs s dto)) (\<lambda>ok.
     await (throwIf (\<not> ok) (Prisma P2003)) (\<lambda>_.
     await (update (branches s) b_id branchId (apply_patch dto)) (\<lambda>b.
     ret (branch_toDto b None))))))))"

definition deactivate :: "string \<Rightarrow> string \<Rightarrow> (world, unit) handler" where
  "deactivate schemaName branchId =
     await (forSchema schemaName) (\<lambda>s.
     await date_now (\<lambda>now.
     await (update (branches s) b_id branchId (\<lambda>b. b\<lparr>b_isActive := False, b_deletedAt := Some now\<rparr>)) (\<lambda>_.
     ret ())))"

definition countActive :: "string \<Rightarrow> (world, nat) handler" where
  "countActive schemaName = await (forSchema schemaName) (\<lambda>s. count (branches s) open_branch)"

definition countStaffInBranch :: "string \<Rightarrow> string \<Rightarrow> (world, nat) handler" where
  "countStaffInBranch schemaName branchId =
     await (forSchema schemaName) (\<lambda>s.
     count (memberships s) (\<lambda>m. ubm_branchId m = Some branchId \<and> ubm_revokedAt m = None))"

subsection \<open>Service\<close>

definition branch_not_found :: bos_error where
  "branch_not_found = Nest (NotFoundException ''Branch not found'')"

record BranchList =
  bl_data :: "BranchDto list"
  bl_total :: nat
  bl_page :: int
  bl_limit :: int

definition listBranches :: "env \<Rightarrow> string \<Rightarrow> BranchListOptions \<Rightarrow> (world, BranchList) handler" where
  "listBranches E tenantId opts =
     await (getSchemaName tenantId) (\<lambda>schemaName.
     await (branches_findAll E schemaName opts) (\<lambda>(data, total).
     ret \<lparr>bl_data = data, bl_total = total, bl_page = bo_page opts, bl_limit = bo_limit opts\<rparr>))"

definition getBranch :: "string \<Rightarrow> string \<Rightarrow> (world, BranchDto) handler" where
  "getBranch tenantId branchId =
     await (getSchemaName tenantId) (\<lambda>schemaName.
     await (branches_findById schemaName branchId) (\<lambda>branch.
     case branch of None \<Rightarrow> throw branch_not_found | Some b \<Rightarrow> ret b))"

definition createBranch :: "env \<Rightarrow> string \<Rightarrow> CreateBranchDto \<Rightarrow> (world, BranchDto) handler" where
  "createBranch E tenantId dto =
     await (getSchemaName tenantId) (\<lambda>schemaName.
     await (findByCode schemaName (cb_code dto)) (\<lambda>existing.
     await (throwIf (existing \<noteq> None)
       (Nest (ConflictException
         (''Branch code '' @ quoted (toUpperCase (cb_code dto)) @ '' is already in use'')))) (\<lambda>_.
     branches_create E schemaName dto)))"

definition updateBranch :: "string \<Rightarrow> string \<Rightarrow> UpdateBranchDto \<Rightarrow> (world, BranchDto) handler" where
  "updateBranch tenantId branchId dto =
     await (getSchemaName tenantId) (\<lambda>schemaName.
     await (branches_findById schemaName branchId) (\<lambda>existing.
     await (throwIf (existing = None) branch_not_found) (\<lambda>_.
     branches_update schemaName branchId dto)))"

definition last_branch :: bos_error where
  "last_branch = Nest (ConflictException
     ''Cannot deactivate the only remaining branch. Create another branch first.'')"

text \<open>The count of the staff decides nothing.\<close>

definition deactivateBranch :: "string \<Rightarrow> string \<Rightarrow> (world, unit) handler" where
  "deactivateBranch tenantId branchId =
     await (getSchemaName tenantId) (\<lambda>schemaName.
     await (branches_findById schemaName branchId) (\<lambda>branch.
     case branch of
       None \<Rightarrow> throw branch_not_found
     | Some b \<Rightarrow>
         await
           (if b_isHeadOffice (bd_branch b)
            then await (countActive schemaName) (\<lambda>activeCount.
                 throwIf (activeCount \<le> 1) last_branch)
            else ret ()) (\<lambda>_.
         await (countStaffInBranch schemaName branchId) (\<lambda>_.
         deactivate schemaName branchId))))"

text \<open>The controller's \<^verbatim>\<open>GET /branches\<close> caps the page size.\<close>

definition listBranchesHandler ::
    "env \<Rightarrow> string \<Rightarrow> int option \<Rightarrow> int option \<Rightarrow> string option \<Rightarrow> (world, BranchList) handler" where
  "listBranchesHandler E tenantId page limit includeInactive =
     listBranches E tenantId
       \<lparr>bo_page = orElse page 1, bo_limit = min (orElse limit 50) 200,
        bo_includeInactive = (includeInactive = Some ''true'')\<rparr>"

subsection \<open>Effects\<close>

context tenant_writes
begin

lemma branches_read_effects:
  "has_effect R (branches_findAll E n opts)" "has_effect R (branches_findById n i)"
  "has_effect R (findByCode n c)" "has_effect R (countActive n)" "has_effect R (countStaffInBranch n i)"
  unfolding branches_findAll_def branches_findById_def findByCode_def countActive_def
    countStaffInBranch_def Let_def
  by (intro tenant_rules)+

lemma branches_create_effect: "has_effect R (branches_create E n dto)"
  unfolding branches_create_def branches_def
  by (intro tenant_rules randomUUID_effect effect_tenant_create New_branch)
     (auto simp: branch_refs_def in_schema_def existsRow_iff branches_of_def)

lemma deactivate_effect: "has_effect R (deactivate n i)"
  unfolding deactivate_def branches_def
  by (intro tenant_rules effect_tenant_update) (unfold updateBy_eta, rule Change_branch, simp)

lemma branches_update_effect: "has_effect R (branches_update n i dto)"
proof -
  have "has_effect R (await (reads (parent_refs s dto)) (\<lambda>ok.
     await (throwIf (\<not> ok) (Prisma P2003)) (\<lambda>_.
     await (update (branches s) b_id i (apply_patch dto)) (\<lambda>b. ret (branch_toDto b None)))))" for s
  proof (rule has_effectI)
    fix w
    have "R w (on_schema s (db_branches_update (updateBy b_id i (apply_patch dto))) w)"
      if ok: "parent_refs s dto w"
    proof (rule change_on_schema)
      fix db
      assume "w_schemas w s = Some db"
      with ok show "db_change db (db_branches_update (updateBy b_id i (apply_patch dto)) db)"
        unfolding updateBy_eta
        by (intro Change_branch)
           (auto simp: apply_patch_def parent_refs_def in_schema_def existsRow_iff branches_of_def
             orElse_def split: option.splits)
    qed
    then show "R w (after (await (reads (parent_refs s dto)) (\<lambda>ok.
       await (throwIf (\<not> ok) (Prisma P2003)) (\<lambda>_.
       await (update (branches s) b_id i (apply_patch dto)) (\<lambda>b. ret (branch_toDto b None))))) w)"
      by (auto simp: after_def await_run throwIf_run update_def findUnique_def query_run refl
          split: option.splits)
  qed
  note patched = this
  show ?thesis
    unfolding branches_update_def
    by (rule effect_await [OF effect_forSchema], rule effect_await [OF effect_throwIf],
        rule effect_await [OF effect_findUnique], rule effect_await [OF effect_throwIf], rule patched)
qed

lemma branch_service_effects:
  "has_effect R (listBranches E t opts)" "has_effect R (getBranch t i)" "has_effect R (createBranch E t cdto)"
  "has_effect R (updateBranch t i udto)" "has_effect R (deactivateBranch t i)"
  "has_effect R (listBranchesHandler E t page limit inactive)"
  unfolding listBranchesHandler_def listBranches_def getBranch_def createBranch_def updateBranch_def
    deactivateBranch_def
  by (intro tenant_rules branches_read_effects branches_create_effect branches_update_effect
      deactivate_effect)+

end

end
