(* ===== verification/Webhooks.thy ===== *)
theory Webhooks
  imports Tasks
begin

text \<open>
  \<^verbatim>\<open>modules/webhooks\<close> of \<^verbatim>\<open>crm-core\<close>: the tokens with which an outside form sends leads without
  logging in, and the public route that takes them in. The key-value store leads from a token to the
  tenant; the table says whether the token is still the one of an active webhook.
\<close>

record CreateLeadWebhookDto =
  cwh_branchId :: string
  cwh_sourceId :: "string option"
  cwh_name :: string

record UpdateLeadWebhookDto =
  uwh_name :: "string option option"
  uwh_sourceId :: "string option option"
  uwh_isActive :: "bool option option"

subsection \<open>Repository\<close>

definition webhooks_findAll :: "string \<Rightarrow> string option \<Rightarrow> (world, lead_webhook list) handler" where
  "webhooks_findAll schemaName branchId =
     await (forSchema schemaName) (\<lambda>s.
     findOrdered (leadWebhooks s) (\<lambda>h. truthy branchId \<longrightarrow> Some (wh_branchId h) = branchId)
       (\<lambda>h. - wh_createdAt h))"

definition webhooks_findById :: "string \<Rightarrow> string \<Rightarrow> (world, lead_webhook option) handler" where
  "webhooks_findById schemaName i =
     await (forSchema schemaName) (\<lambda>s. findUnique (leadWebhooks s) wh_id i)"

definition webhooks_findByToken :: "string \<Rightarrow> string \<Rightarrow> (world, lead_webhook option) handler" where
  "webhooks_findByToken schemaName token =
     await (forSchema schemaName) (\<lambda>s. findUnique (leadWebhooks s) wh_token token)"

definition webhooks_create ::
    "env \<Rightarrow> string \<Rightarrow> CreateLeadWebhookDto \<Rightarrow> string \<Rightarrow> (world, lead_webhook) handler" where
  "webhooks_create E schemaName dto token =
     await (forSchema schemaName) (\<lambda>s.
     await (randomUUID E) (\<lambda>i.
     await date_now (\<lambda>now.
     create (leadWebhooks s) webhook_clash (\<lambda>h. branch_there s (wh_branchId h))
       \<lparr>wh_id = i, wh_branchId = cwh_branchId dto, wh_sourceId = cwh_sourceId dto,
        wh_name = cwh_name dto, wh_token = token, wh_isActive = True, wh_createdAt = now\<rparr>)))"

definition patch_webhook :: "UpdateLeadWebhookDto \<Rightarrow> lead_webhook \<Rightarrow> lead_webhook" where
  "patch_webhook dto h =
     h\<lparr>wh_name := patched_value (uwh_name dto) (wh_name h),
       wh_sourceId := patched (uwh_sourceId dto) (wh_sourceId h),
       wh_isActive := patched_value (uwh_isActive dto) (wh_isActive h)\<rparr>"

definition webhooks_update ::
    "string \<Rightarrow> string \<Rightarrow> UpdateLeadWebhookDto \<Rightarrow> (world, lead_webhook) handler" where
  "webhooks_update schemaName i dto =
     await (forSchema schemaName) (\<lambda>s.
     await (throwIf (\<not> no_null (uwh_name dto) \<or> \<not> no_null (uwh_isActive dto))
       (Prisma PrismaValidation)) (\<lambda>_.
     update (leadWebhooks s) wh_id i (patch_webhook dto)))"

definition updateToken :: "string \<Rightarrow> string \<Rightarrow> string \<Rightarrow> (world, lead_webhook) handler" where
  "updateToken schemaName i token =
     await (forSchema schemaName) (\<lambda>s.
     updateChecked (leadWebhooks s) wh_id i webhook_clash no_refs (\<lambda>h. h\<lparr>wh_token := token\<rparr>))"

definition webhooks_delete :: "string \<Rightarrow> string \<Rightarrow> (world, unit) handler" where
  "webhooks_delete schemaName i =
     await (forSchema schemaName) (\<lambda>s. delete (leadWebhooks s) wh_id i)"

subsection \<open>Service\<close>

definition webhookRedisKey :: "string \<Rightarrow> string" where
  "webhookRedisKey token = ''bos:webhook_token:'' @ token"

definition token_context :: "string \<Rightarrow> string \<Rightarrow> string" where
  "token_context tenantId schemaName = tenantId @ ''|'' @ schemaName"

definition webhook_not_found :: bos_error where
  "webhook_not_found = Nest (NotFoundException ''Webhook not found'')"

definition listWebhooks :: "string \<Rightarrow> string option \<Rightarrow> (world, lead_webhook list) handler" where
  "listWebhooks tenantId branchId =
     await (getSchemaName tenantId) (\<lambda>schemaName. webhooks_findAll schemaName branchId)"

definition createWebhook :: "env \<Rightarrow> string \<Rightarrow> CreateLeadWebhookDto \<Rightarrow> (world, lead_webhook) handler" where
  "createWebhook E tenantId dto =
     await (getSchemaName tenantId) (\<lambda>schemaName.
     await (randomBytesHex E 32) (\<lambda>token.
     await (webhooks_create E schemaName dto token) (\<lambda>webhook.
     await (redis_set (webhookRedisKey token) (token_context tenantId schemaName)) (\<lambda>_.
     ret webhook))))"

definition existing_webhook :: "string \<Rightarrow> string \<Rightarrow> (world, lead_webhook) handler" where
  "existing_webhook schemaName i =
     await (webhooks_findById schemaName i) (\<lambda>existing.
     case existing of None \<Rightarrow> throw webhook_not_found | Some h \<Rightarrow> ret h)"

definition updateWebhook ::
    "string \<Rightarrow> string \<Rightarrow> UpdateLeadWebhookDto \<Rightarrow> (world, lead_webhook) handler" where
  "updateWebhook tenantId i dto =
     await (getSchemaName tenantId) (\<lambda>schemaName.
     await (existing_webhook schemaName i) (\<lambda>_.
     webhooks_update schemaName i dto))"

definition deleteWebhook :: "string \<Rightarrow> string \<Rightarrow> (world, unit) handler" where
  "deleteWebhook tenantId i =
     await (getSchemaName tenantId) (\<lambda>schemaName.
     await (existing_webhook schemaName i) (\<lambda>existing.
     await (webhooks_delete schemaName i) (\<lambda>_.
     redis_del (webhookRedisKey (wh_token existing)))))"

definition regenerateToken :: "env \<Rightarrow> string \<Rightarrow> string \<Rightarrow> (world, lead_webhook) handler" where
  "regenerateToken E tenantId i =
     await (getSchemaName tenantId) (\<lambda>schemaName.
     await (existing_webhook schemaName i) (\<lambda>existing.
     await (randomBytesHex E 32) (\<lambda>newToken.
     await (updateToken schemaName i newToken) (\<lambda>updated.
     await
       (both (redis_del (webhookRedisKey (wh_token existing)))
         (redis_set (webhookRedisKey newToken) (token_context tenantId schemaName))) (\<lambda>_.
     ret updated)))))"

text \<open>
  \<^verbatim>\<open>const [tenantId, schemaName] = cached.split('|')\<close>, with \<open>None\<close> where a part is missing or
  empty.
\<close>

definition split_context :: "string \<Rightarrow> (string \<times> string) option" where
  "split_context v =
     (let a = takeWhile (\<lambda>c. c \<noteq> CHR ''|'') v;
          b = takeWhile (\<lambda>c. c \<noteq> CHR ''|'') (drop (Suc (length a)) v) in
      if a = [] \<or> b = [] then None else Some (a, b))"

record TokenContext =
  tc_tenantId :: string
  tc_schemaName :: string
  tc_webhook :: lead_webhook

definition resolveToken :: "string \<Rightarrow> (world, TokenContext option) handler" where
  "resolveToken token =
     await (redis_get (webhookRedisKey token)) (\<lambda>cached.
     case cached of
       Some (Text v) \<Rightarrow>
         (case split_context v of
            None \<Rightarrow> ret None
          | Some (tenantId, schemaName) \<Rightarrow>
              await (webhooks_findByToken schemaName token) (\<lambda>webhook.
              ret (case webhook of
                     None \<Rightarrow> None
                   | Some h \<Rightarrow>
                       if wh_isActive h
                       then Some \<lparr>tc_tenantId = tenantId, tc_schemaName = schemaName, tc_webhook = h\<rparr>
                       else None)))
     | _ \<Rightarrow> ret None)"

subsection \<open>The public route\<close>

text \<open>The first of the keys with a text that is not blank.\<close>

fun pick :: "(string \<Rightarrow> json option) \<Rightarrow> string list \<Rightarrow> string option" where
  "pick payload [] = None"
| "pick payload (key # keys) =
     (case payload key of
        Some (JStr val) \<Rightarrow> if trim val \<noteq> [] then Some (trim val) else pick payload keys
      | _ \<Rightarrow> pick payload keys)"

definition lead_of_payload :: "(string \<Rightarrow> json option) \<Rightarrow> lead_webhook \<Rightarrow> CreateLeadDto" where
  "lead_of_payload payload h =
     \<lparr>cle_branchId = wh_branchId h,
      cle_firstName =
        orElse (pick payload [''firstName'', ''first_name'', ''name'', ''full_name'']) ''Unknown'',
      cle_lastName = pick payload [''lastName'', ''last_name''],
      cle_email = pick payload [''email'', ''email_address'', ''e_mail''],
      cle_phone = pick payload [''phone'', ''phone_number'', ''mobile'', ''mobile_number'', ''tel''],
      cle_company = pick payload [''company'', ''company_name'', ''organization'', ''business''],
      cle_sourceId = wh_sourceId h, cle_statusId = None, cle_priority = None,
      cle_estimatedValue = None, cle_ownedByUserId = None,
      cle_notes = pick payload [''notes'', ''message'', ''comments'', ''description'', ''note'']\<rparr>"

definition ingestLead :: "env \<Rightarrow> string \<Rightarrow> (string \<Rightarrow> json option) \<Rightarrow> (world, lead) handler" where
  "ingestLead E token payload =
     await (resolveToken token) (\<lambda>context.
     case context of
       None \<Rightarrow> throw (Nest (NotFoundException ''Webhook not found or inactive''))
     | Some c \<Rightarrow>
         createLead E (tc_tenantId c) (lead_of_payload payload (tc_webhook c)) ''webhook'')"

subsection \<open>Effects\<close>

context tenant_writes
begin

lemma effect_redis_value:
  "(\<And>n. has_effect R (f n)) \<Longrightarrow> (\<And>v. has_effect R (g v)) \<Longrightarrow>
     has_effect R (case x of Counter n \<Rightarrow> f n | Text v \<Rightarrow> g v)"
  by (cases x) simp_all

lemma webhook_effects:
  "has_effect R (listWebhooks t b)" "has_effect R (createWebhook E t dto)"
  "has_effect R (updateWebhook t i udto)" "has_effect R (deleteWebhook t i)"
  "has_effect R (regenerateToken E t i)" "has_effect R (resolveToken token)"
  "has_effect R (ingestLead E token payload)"
proof -
  have hex: "has_effect R (randomBytesHex E n)" for n
    by (intro effect_randomBytesHex outside) simp
  show "has_effect R (listWebhooks t b)" "has_effect R (createWebhook E t dto)"
    "has_effect R (updateWebhook t i udto)" "has_effect R (deleteWebhook t i)"
    "has_effect R (regenerateToken E t i)"
    unfolding listWebhooks_def createWebhook_def updateWebhook_def deleteWebhook_def
      regenerateToken_def existing_webhook_def webhooks_findAll_def webhooks_findById_def
      webhooks_create_def webhooks_update_def updateToken_def webhooks_delete_def
    by (intro crm_rules hex)+
  show resolve: "has_effect R (resolveToken token)" for token
    unfolding resolveToken_def webhooks_findByToken_def by (intro crm_rules effect_redis_value)
  show "has_effect R (ingestLead E token payload)"
    unfolding ingestLead_def by (intro crm_rules resolve lead_effects)
qed

end

end
