(* ===== verification/Tenant_Config.thy ===== *)
theory Tenant_Config
  imports Tenant_Api
begin

text \<open>
  \<^verbatim>\<open>modules/tenant\<close> of \<^verbatim>\<open>crm-core\<close>: the modules that a tenant has switched on, the suggestions and the
  vocabulary for its vertical, and its business profile. All of it is in the core database.
\<close>

definition ALWAYS_ON_MODULES :: "ModuleKey list" where
  "ALWAYS_ON_MODULES =
     [ModuleKey.CONTACTS, ModuleKey.STAFF, ModuleKey.BRANCHES, ModuleKey.ROLES_PERMISSIONS]"

text \<open>\<^verbatim>\<open>Object.values(ModuleKey)\<close>.\<close>

definition all_modules :: "ModuleKey list" where
  "all_modules =
     [ModuleKey.CONTACTS, ModuleKey.STAFF, ModuleKey.BRANCHES, ModuleKey.ROLES_PERMISSIONS,
      ModuleKey.NOTES_ACTIVITIES, ModuleKey.DOCUMENTS, ModuleKey.DEALS_PIPELINE,
      ModuleKey.APPOINTMENTS, ModuleKey.CALENDAR, ModuleKey.BILLING, ModuleKey.INVENTORY,
      ModuleKey.AI_LEADS, ModuleKey.CAMPAIGNS, ModuleKey.WORKFLOWS, ModuleKey.MEDIA_LIBRARY,
      ModuleKey.WHATSAPP]"

subsection \<open>Repository\<close>

definition module_key :: "tenant_module \<Rightarrow> string \<times> ModuleKey" where
  "module_key m = (mo_tenantId m, mo_moduleKey m)"

definition module_clash :: "tenant_module \<Rightarrow> tenant_module \<Rightarrow> bool" where
  "module_clash m m' \<longleftrightarrow> mo_id m' = mo_id m \<or> module_key m' = module_key m"

definition module_refs :: "tenant_module \<Rightarrow> world \<Rightarrow> bool" where
  "module_refs m w = existsRow (\<lambda>t. t_id t = mo_tenantId m) (w_tenants w)"

definition findAllForTenant :: "string \<Rightarrow> (world, tenant_module list) handler" where
  "findAllForTenant tenantId = findMany tenantModules (\<lambda>m. mo_tenantId m = tenantId)"

definition module_upsert :: "env \<Rightarrow> string \<Rightarrow> string option \<Rightarrow> ModuleKey \<Rightarrow> (world, unit) handler" where
  "module_upsert E tenantId enabledBy k =
     await (findUnique tenantModules module_key (tenantId, k)) (\<lambda>found.
     if found \<noteq> None then
       await (update tenantModules module_key (tenantId, k)
         (\<lambda>m. m\<lparr>mo_isEnabled := True, mo_enabledBy := enabledBy\<rparr>)) (\<lambda>_. ret ())
     else
       await (randomUUID E) (\<lambda>i.
       await date_now (\<lambda>now.
       await (create tenantModules module_clash module_refs
         \<lparr>mo_id = i, mo_tenantId = tenantId, mo_moduleKey = k, mo_isEnabled = True,
          mo_enabledAt = now, mo_enabledBy = enabledBy\<rparr>) (\<lambda>_. ret ()))))"

definition upsertMany :: "env \<Rightarrow> string \<Rightarrow> ModuleKey list \<Rightarrow> string option \<Rightarrow> (world, unit) handler" where
  "upsertMany E tenantId moduleKeys enabledBy =
     forEach moduleKeys (module_upsert E tenantId enabledBy)"

definition findEnabled :: "string \<Rightarrow> (world, ModuleKey list) handler" where
  "findEnabled tenantId =
     await (findMany tenantModules (\<lambda>m. mo_tenantId m = tenantId \<and> mo_isEnabled m)) (\<lambda>ms.
     ret (map mo_moduleKey ms))"

subsection \<open>Service\<close>

record ModuleSuggestionResponseDto =
  ms_recommended :: "ModuleKey list"
  ms_alwaysOn :: "ModuleKey list"
  ms_all :: "ModuleKey list"

record TerminologyEntry =
  te_singular :: string
  te_plural :: string
  te_icon :: "string option"

record TenantConfigResponseDto =
  tcf_tenantId :: string
  tcf_vertical :: "VerticalType option"
  tcf_onboardingCompleted :: bool
  tcf_enabledModules :: "ModuleKey list"
  tcf_terminology :: "(string \<times> TerminologyEntry) list"

record UpdateProfileDto =
  up_businessPhone :: "string option option"
  up_businessCity :: "string option option"
  up_websiteUrl :: "string option option"
  up_logoUrl :: "string option option"
  up_goals :: "string list option option"

definition tenant_or_throw :: "string \<Rightarrow> (world, tenant) handler" where
  "tenant_or_throw tenantId =
     await (findUnique tenants t_id tenantId) (\<lambda>found.
     case found of None \<Rightarrow> throw (Prisma P2025) | Some t \<Rightarrow> ret t)"

definition getModuleSuggestions :: "string \<Rightarrow> (world, ModuleSuggestionResponseDto) handler" where
  "getModuleSuggestions tenantId =
     await (tenant_or_throw tenantId) (\<lambda>tenant.
     case t_vertical tenant of
       None \<Rightarrow>
         ret \<lparr>ms_recommended = all_modules, ms_alwaysOn = ALWAYS_ON_MODULES, ms_all = all_modules\<rparr>
     | Some v \<Rightarrow>
         await (findUnique modulePresets mp_vertical v) (\<lambda>preset.
         ret \<lparr>ms_recommended = (case preset of None \<Rightarrow> all_modules | Some p \<Rightarrow> mp_modules p),
              ms_alwaysOn = ALWAYS_ON_MODULES, ms_all = all_modules\<rparr>))"

text \<open>\<^verbatim>\<open>Array.from(new Set([...]))\<close>: the first of equal elements stays.\<close>

definition merged_modules :: "ModuleKey list \<Rightarrow> ModuleKey list" where
  "merged_modules ks = rev (remdups (rev (ALWAYS_ON_MODULES @ ks)))"

definition selectModules :: "env \<Rightarrow> string \<Rightarrow> ModuleKey list \<Rightarrow> string \<Rightarrow> (world, unit) handler" where
  "selectModules E tenantId moduleKeys userId =
     await (upsertMany E tenantId (merged_modules moduleKeys) (Some userId)) (\<lambda>_.
     await (update tenants t_id tenantId (\<lambda>t. t\<lparr>t_onboardingCompleted := True\<rparr>)) (\<lambda>_.
     ret ()))"

definition terminology_entry :: "vertical_terminology \<Rightarrow> string \<times> TerminologyEntry" where
  "terminology_entry row =
     (vt_termKey row,
      \<lparr>te_singular = vt_singular row, te_plural = vt_plural row, te_icon = vt_icon row\<rparr>)"

definition getTenantConfig :: "string \<Rightarrow> (world, TenantConfigResponseDto) handler" where
  "getTenantConfig tenantId =
     await (tenant_or_throw tenantId) (\<lambda>tenant.
     await (findEnabled tenantId) (\<lambda>enabledModules.
     await
       (case t_vertical tenant of
          None \<Rightarrow> ret []
        | Some v \<Rightarrow> findMany verticalTerminology (\<lambda>r. vt_vertical r = v)) (\<lambda>terminologyRows.
     ret \<lparr>tcf_tenantId = t_id tenant, tcf_vertical = t_vertical tenant,
          tcf_onboardingCompleted = t_onboardingCompleted tenant,
          tcf_enabledModules = enabledModules,
          tcf_terminology = map terminology_entry terminologyRows\<rparr>)))"

definition patch_profile :: "UpdateProfileDto \<Rightarrow> tenant \<Rightarrow> tenant" where
  "patch_profile dto t =
     t\<lparr>t_businessPhone := orElse (up_businessPhone dto) (t_businessPhone t),
       t_businessCity := orElse (up_businessCity dto) (t_businessCity t),
       t_websiteUrl := orElse (up_websiteUrl dto) (t_websiteUrl t),
       t_logoUrl := orElse (up_logoUrl dto) (t_logoUrl t),
       t_goals := orElse (orElse (up_goals dto) None) (t_goals t)\<rparr>"

definition updateProfile :: "string \<Rightarrow> UpdateProfileDto \<Rightarrow> (world, unit) handler" where
  "updateProfile tenantId dto =
     await (throwIf (up_goals dto = Some None) (Prisma PrismaValidation)) (\<lambda>_.
     await (update tenants t_id tenantId (patch_profile dto)) (\<lambda>_. ret ()))"

subsection \<open>Effects\<close>

context tenant_writes
begin

lemma config_service_effects:
  "has_effect R (getModuleSuggestions t)" "has_effect R (selectModules E t ks u)"
  "has_effect R (getTenantConfig t)" "has_effect R (updateProfile t dto)"
proof -
  have core: "R w (on_rows tenantModules f w)" "R w (on_rows tenants g w)" for w f g
    by (intro outside; simp)+
  show "has_effect R (getModuleSuggestions t)" "has_effect R (selectModules E t ks u)"
    "has_effect R (getTenantConfig t)" "has_effect R (updateProfile t dto)"
    unfolding getModuleSuggestions_def selectModules_def getTenantConfig_def updateProfile_def
      tenant_or_throw_def findEnabled_def upsertMany_def module_upsert_def
    by (intro tenant_rules randomUUID_effect core)+
qed

end

end
