(* ===== verification/Crm_System.thy ===== *)
theory Crm_System
  imports Staff Branches Webhooks Tenant_Config
begin

text \<open>
  The tenant service as a whole: every handler of the modules of \<^verbatim>\<open>crm-core\<close> and the worker of its
  queue, and the states that any sequence of them reaches, with the clock moving between two
  of them. A relation of the interface \<open>tenant_writes\<close> holds between the two ends of such a run.
\<close>

inductive tenant_request :: "env \<Rightarrow> (world \<Rightarrow> world) \<Rightarrow> bool" for E where
  Req_listRoles: "tenant_request E (after (listRoles E t))"
| Req_listPermissions: "tenant_request E (after (listPermissions E t))"
| Req_getRole: "tenant_request E (after (getRole t i))"
| Req_createRole: "tenant_request E (after (createRole E t crdto))"
| Req_updateRolePermissions: "tenant_request E (after (updateRolePermissions t i ids))"
| Req_deleteRole: "tenant_request E (after (deleteRole t i))"
| Req_listBranchesHandler: "tenant_request E (after (listBranchesHandler E t page limit inactive))"
| Req_getBranch: "tenant_request E (after (getBranch t i))"
| Req_createBranch: "tenant_request E (after (createBranch E t cbdto))"
| Req_updateBranch: "tenant_request E (after (updateBranch t i ubdto))"
| Req_deactivateBranch: "tenant_request E (after (deactivateBranch t i))"
| Req_listStaffHandler: "tenant_request E (after (listStaffHandler t page limit))"
| Req_getStaffMember: "tenant_request E (after (getStaffMember u t))"
| Req_inviteStaff: "tenant_request E (after (inviteStaff E t i isdto))"
| Req_updateStaffRole: "tenant_request E (after (updateStaffRole E u t a r b))"
| Req_deactivateStaff: "tenant_request E (after (deactivateStaff u t a))"
| Req_listPendingInvites: "tenant_request E (after (listPendingInvites t))"
| Req_revokeInvite: "tenant_request E (after (revokeInvite i t))"
| Req_setRoundRobinAvailable: "tenant_request E (after (setRoundRobinAvailable u t b available))"
| Req_listTags: "tenant_request E (after (listTags E t search))"
| Req_createTag: "tenant_request E (after (createTag E t ctdto))"
| Req_updateTag: "tenant_request E (after (updateTag t i utdto))"
| Req_deleteTag: "tenant_request E (after (deleteTag t i))"
| Req_listDefinitions: "tenant_request E (after (listDefinitions t et))"
| Req_createDefinition: "tenant_request E (after (createDefinition E t ccfdto))"
| Req_updateDefinition: "tenant_request E (after (updateDefinition t i ucfdto))"
| Req_deactivateDefinition: "tenant_request E (after (deactivateDefinition t i))"
| Req_reorderDefinitions: "tenant_request E (after (reorderDefinitions t items))"
| Req_listContacts: "tenant_request E (after (listContacts E t cflt))"
| Req_getContact: "tenant_request E (after (getContact t i))"
| Req_createContact: "tenant_request E (after (createContact E t ccodto u origin))"
| Req_updateContact: "tenant_request E (after (updateContact t i ucodto))"
| Req_deleteContact: "tenant_request E (after (deleteContact t i))"
| Req_getContactTags: "tenant_request E (after (getContactTags t i))"
| Req_addContactTag: "tenant_request E (after (addContactTag t i g))"
| Req_removeContactTag: "tenant_request E (after (removeContactTag t i g))"
| Req_listSources: "tenant_request E (after (listSources E t search))"
| Req_createSource: "tenant_request E (after (createSource E t ccsdto))"
| Req_updateSource: "tenant_request E (after (updateSource t i ucsdto))"
| Req_deleteSource: "tenant_request E (after (deleteSource t i))"
| Req_listContactLists: "tenant_request E (after (listContactLists t search))"
| Req_createList: "tenant_request E (after (createList E t ccldto u))"
| Req_updateList: "tenant_request E (after (updateList t i ucldto))"
| Req_deleteList: "tenant_request E (after (deleteList t i))"
| Req_addMember: "tenant_request E (after (addMember t i c u))"
| Req_removeMember: "tenant_request E (after (removeMember t i c))"
| Req_listMembers: "tenant_request E (after (listMembers t i page limit))"
| Req_listLeads: "tenant_request E (after (listLeads E t lflt))"
| Req_getLead: "tenant_request E (after (getLead t i))"
| Req_createLead: "tenant_request E (after (createLead E t cledto u))"
| Req_updateLead: "tenant_request E (after (updateLead t i uledto u))"
| Req_deleteLead: "tenant_request E (after (deleteLead t i))"
| Req_getLeadTags: "tenant_request E (after (getLeadTags t i))"
| Req_addLeadTag: "tenant_request E (after (addLeadTag t i g))"
| Req_removeLeadTag: "tenant_request E (after (removeLeadTag t i g))"
| Req_convertLead: "tenant_request E (after (convertLead E t i search u))"
| Req_listStatuses: "tenant_request E (after (listStatuses E t search))"
| Req_createStatus: "tenant_request E (after (createStatus E t clsdto))"
| Req_updateStatus: "tenant_request E (after (updateStatus t i ulsdto))"
| Req_deleteStatus: "tenant_request E (after (deleteStatus t i))"
| Req_getConfig: "tenant_request E (after (getConfig t i))"
| Req_upsertConfig: "tenant_request E (after (upsertConfig E t uladto))"
| Req_process_job: "tenant_request E (after (process_job job))"
| Req_createActivity: "tenant_request E (after (createActivity E t i caddto u))"
| Req_listActivities: "tenant_request E (after (listActivities t i aqdto))"
| Req_getActivitySummary: "tenant_request E (after (getActivitySummary t i))"
| Req_updateActivity: "tenant_request E (after (updateActivity t i c uaddto))"
| Req_deleteActivity: "tenant_request E (after (deleteActivity t i c))"
| Req_getMyTasks: "tenant_request E (after (getMyTasks t u mqdto))"
| Req_createTask: "tenant_request E (after (createTask E t ctkdto u))"
| Req_listTasks: "tenant_request E (after (listTasks t tqdto))"
| Req_getTask: "tenant_request E (after (getTask t i))"
| Req_updateTask: "tenant_request E (after (updateTask t i utkdto))"
| Req_deleteTask: "tenant_request E (after (deleteTask t i))"
| Req_addAssignee: "tenant_request E (after (addAssignee E t i u a))"
| Req_removeAssignee: "tenant_request E (after (removeAssignee t i u))"
| Req_createChecklist: "tenant_request E (after (createChecklist E t i cchdto))"
| Req_deleteChecklist: "tenant_request E (after (deleteChecklist t i c))"
| Req_createChecklistItem: "tenant_request E (after (createChecklistItem E t i c ccidto))"
| Req_updateChecklistItem: "tenant_request E (after (updateChecklistItem t i c g ucidto u))"
| Req_deleteChecklistItem: "tenant_request E (after (deleteChecklistItem t i c g))"
| Req_listWebhooks: "tenant_request E (after (listWebhooks t search))"
| Req_createWebhook: "tenant_request E (after (createWebhook E t cwhdto))"
| Req_updateWebhook: "tenant_request E (after (updateWebhook t i uwhdto))"
| Req_deleteWebhook: "tenant_request E (after (deleteWebhook t i))"
| Req_regenerateToken: "tenant_request E (after (regenerateToken E t i))"
| Req_ingestLead: "tenant_request E (after (ingestLead E i payload))"
| Req_getModuleSuggestions: "tenant_request E (after (getModuleSuggestions t))"
| Req_selectModules: "tenant_request E (after (selectModules E t ks u))"
| Req_getTenantConfig: "tenant_request E (after (getTenantConfig t))"
| Req_updateProfile: "tenant_request E (after (updateProfile t updto))"

inductive tenant_run :: "env \<Rightarrow> world \<Rightarrow> world \<Rightarrow> bool" for E w0 where
  Start: "tenant_run E w0 w0"
| Request: "tenant_run E w0 w \<Longrightarrow> tenant_request E f \<Longrightarrow> tenant_run E w0 (f w)"
| Tick: "tenant_run E w0 w \<Longrightarrow> w_now w \<le> t \<Longrightarrow> tenant_run E w0 (w\<lparr>w_now := t\<rparr>)"

context tenant_writes
begin

lemmas all_effects =
  role_service_effects branch_service_effects staff_service_effects tag_effects
  field_effects contact_effects source_effects list_effects lead_effects convert_effect
  status_effects config_effects worker_effect activity_effects task_effects
  checklist_effects webhook_effects config_service_effects

lemma effect_after: "has_effect R m \<Longrightarrow> R w (after m w)"
  by (simp add: has_effect_def)

lemma request_effect: "tenant_request E f \<Longrightarrow> R w (f w)"
  by (erule tenant_request.cases; hypsubst; intro effect_after all_effects)

lemma run_effect: "tenant_run E w0 w \<Longrightarrow> R w0 w"
proof (induction rule: tenant_run.induct)
  case Start
  show ?case by (rule refl)
next
  case (Request w f)
  then show ?case by (blast intro: trans request_effect)
next
  case (Tick w t)
  have "R w (w\<lparr>w_now := t\<rparr>)" by (rule outside) simp
  with Tick show ?case by (blast intro: trans)
qed

end

subsection \<open>Conversions of leads\<close>

text \<open>The conversions in one schema stay as they are, as long as no two leads share an identifier.\<close>

definition crm_of :: "string \<Rightarrow> world \<Rightarrow> crm_db" where
  "crm_of s w = (case w_schemas w s of None \<Rightarrow> empty_crm | Some db \<Rightarrow> db_crm db)"

definition conversions_kept :: "string \<Rightarrow> world \<Rightarrow> world \<Rightarrow> bool" where
  "conversions_kept s w w' \<longleftrightarrow>
     (uniqueBy ld_id (crm_leads (crm_of s w)) \<longrightarrow>
       uniqueBy ld_id (crm_leads (crm_of s w')) \<and>
       conversions (crm_of s w) \<subseteq> conversions (crm_of s w'))"

lemma db_change_crm: "db_change db db' \<Longrightarrow> db_crm db' = db_crm db \<or> crm_change (db_crm db) (db_crm db')"
  by (erule db_change.cases) auto

interpretation conversions: tenant_writes "conversions_kept s" for s
proof
  show "conversions_kept s w w" for w by (simp add: conversions_kept_def)
  show "conversions_kept s w w' \<Longrightarrow> conversions_kept s w' w'' \<Longrightarrow> conversions_kept s w w''" for w w' w''
    by (auto simp: conversions_kept_def)
  show "w_schemas w' = w_schemas w \<Longrightarrow> conversions_kept s w w'" for w w' :: world
    by (simp add: conversions_kept_def crm_of_def)
  show "conversions_kept s w w'"
    if "w_schemas w s' = Some db" and "db_change db db'" and "w_schemas w' = (w_schemas w)(s' \<mapsto> db')"
    for w w' :: world and s' db db'
  proof (cases "s' = s")
    case True
    with that have "crm_of s w = db_crm db" "crm_of s w' = db_crm db'" by (simp_all add: crm_of_def)
    with db_change_crm [OF that(2)] show ?thesis
      by (auto simp: conversions_kept_def dest: change_lead_ids change_conversions)
  next
    case False
    with that(3) show ?thesis by (simp add: conversions_kept_def crm_of_def)
  qed
qed

end
