(* ===== verification/Crm_Properties.thy ===== *)
theory Crm_Properties
  imports Crm_System Example "HOL-Library.Multiset"
begin

text \<open>
  Properties of the tenant service: the integrity of the tenant databases, the conversion of leads,
  listing by pages, and the tokens of webhooks.
\<close>

subsection \<open>A tenant to try things on\<close>

definition demo_branch :: branch where
  "demo_branch =
     \<lparr>b_id = ''b1'', b_name = ''Main'', b_code = ''HQ'', b_address = None, b_city = None,
      b_state = None, b_country = None, b_postalCode = None, b_phone = None, b_email = None,
      b_timezone = ''UTC'', b_parentBranchId = None, b_isHeadOffice = True, b_isActive = True,
      b_deletedAt = None, b_createdAt = 0\<rparr>"

definition demo_role :: role where
  "demo_role =
     \<lparr>r_id = ''r1'', r_slug = ''owner'', r_name = ''Owner'', r_description = None,
      r_scopeType = Scope_tenant, r_isSystem = True, r_verticalSlug = None, r_createdAt = 0\<rparr>"

definition demo_assignment :: user_branch_membership where
  "demo_assignment =
     \<lparr>ubm_id = ''a1'', ubm_userId = ''owner'', ubm_branchId = Some ''b1'', ubm_roleId = ''r1'',
      ubm_assignedByUserId = None, ubm_assignedAt = 0, ubm_revokedAt = None,
      ubm_revokedReason = None, ubm_roundRobinAvailable = True, ubm_createdAt = 0\<rparr>"

definition demo_lead :: lead where
  "demo_lead =
     \<lparr>ld_id = ''l1'', ld_branchId = ''b1'', ld_contactId = Some ''c1'', ld_firstName = ''Ann'',
      ld_lastName = None, ld_email = None, ld_phone = None, ld_company = None, ld_sourceId = None,
      ld_statusId = None, ld_priority = LeadPriority.HIGH, ld_estimatedValue = None,
      ld_ownedByUserId = None, ld_notes = None, ld_convertedAt = Some 500,
      ld_convertedByUserId = Some ''owner'', ld_lastActivityAt = None, ld_nextFollowUpAt = None,
      ld_touchpointCount = 0, ld_createdByUserId = Some ''owner'', ld_deletedAt = None,
      ld_createdAt = 100\<rparr>"

definition demo_crm :: crm_db where
  "demo_crm = empty_crm\<lparr>crm_leads := [demo_lead]\<rparr>"

definition demo_db :: tenant_db where
  "demo_db =
     \<lparr>db_branches = [demo_branch], db_roles = [demo_role], db_permissions = [],
      db_rolePermissions = [], db_memberships = [demo_assignment], db_crm = demo_crm\<rparr>"

definition demo_schema :: string where
  "demo_schema = ''tenant_0123456789abcdef''"

definition demo_crm_world :: world where
  "demo_crm_world = demo_world\<lparr>w_schemas := [demo_schema \<mapsto> demo_db]\<rparr>"

lemma demo_crm_simps [simp]:
  "w_schemas demo_crm_world = [demo_schema \<mapsto> demo_db]" "w_tenants demo_crm_world = [demo_tenant]"
  "t_id demo_tenant = ''t1''" "t_schemaName demo_tenant = demo_schema" "w_rnd demo_crm_world = 0"
  "w_now demo_crm_world = 1000000" "w_redis demo_crm_world = (\<lambda>_. None)"
  "w_workflow demo_crm_world = []"
  by (simp_all add: demo_crm_world_def demo_world_def demo_tenant_def demo_schema_def empty_world_def)

lemma demo_valid [simp]: "valid_schema_name demo_schema"
  by code_simp

lemma demo_forSchema [simp]: "forSchema demo_schema w = (Inr demo_schema, w)"
  by (simp add: forSchema_def await_run throwIf_run)

lemma demo_getSchemaName [simp]:
  "w_tenants w = [demo_tenant] \<Longrightarrow> getSchemaName ''t1'' w = (Inr demo_schema, w)"
  by (simp add: getSchemaName_run)

lemma two_requests:
  "tenant_request E f \<Longrightarrow> tenant_request E g \<Longrightarrow> tenant_run E w (g (f w))"
  by (rule tenant_run.Request [OF tenant_run.Request [OF tenant_run.Start]])

subsection \<open>Integrity\<close>

text \<open>Whatever requests a tenant's users send, in any order and whether they succeed or fail,
  the tables of roles, permissions, assignments and branches of all tenants keep their unique keys,
  and no foreign key between them is left without its row.\<close>

theorem tenant_integrity:
  assumes "tenants_ok w0" and "tenant_run E w0 w"
  shows "tenants_ok w"
  using integrity.run_effect [OF assms(2)] assms(1) by (simp add: keeps_def)

definition demo_new_branch :: CreateBranchDto where
  "demo_new_branch =
     \<lparr>cb_name = ''North'', cb_code = ''north'', cb_address = None, cb_city = None, cb_state = None,
      cb_country = None, cb_postalCode = None, cb_phone = None, cb_email = None,
      cb_timezone = None, cb_parentBranchId = Some ''b1'', cb_isHeadOffice = None\<rparr>"

lemma demo_tenants_ok: "tenants_ok demo_crm_world"
  by (simp add: tenants_ok_def db_ok_def unique_rows_def references_ok_def uniqueBy_def demo_db_def
      demo_branch_def demo_role_def demo_assignment_def roles_of_def branches_of_def)

lemma tenant_integrity_witness:
  "tenants_ok
     (after (deactivateBranch ''t1'' ''u0'')
       (after (createBranch demo_env ''t1'' demo_new_branch) demo_crm_world))"
proof -
  have "tenant_request demo_env (after (createBranch demo_env ''t1'' demo_new_branch))"
    "tenant_request demo_env (after (deactivateBranch ''t1'' ''u0''))"
    by (rule tenant_request.intros)+
  from two_requests [OF this] show ?thesis by (rule tenant_integrity [OF demo_tenants_ok])
qed

subsection \<open>Conversion\<close>

text \<open>C28: the conversion of a lead is final. However the tenant goes on to work, the lead is still
  there with the contact, the instant and the author of the conversion that it had.\<close>

theorem conversion_is_final:
  assumes "tenant_run E w0 w" and "uniqueBy ld_id (crm_leads (crm_of s w0))"
    and "l \<in> set (crm_leads (crm_of s w0))" and "ld_convertedAt l \<noteq> None"
  shows "map_option conversion (lookupBy ld_id (ld_id l) (crm_leads (crm_of s w))) = Some (conversion l)"
proof -
  have "conversion l \<in> conversions (crm_of s w0)" using assms(3,4) by (simp add: conversions_def)
  with conversions.run_effect [OF assms(1), of s] assms(2)
  have uniq: "uniqueBy ld_id (crm_leads (crm_of s w))" and "conversion l \<in> conversions (crm_of s w)"
    by (auto simp: conversions_kept_def)
  then obtain l' where "l' \<in> set (crm_leads (crm_of s w))" "conversion l' = conversion l"
    by (auto simp: conversions_def)
  with uniq show ?thesis
    using lookupBy_unique [of ld_id _ l'] by (simp add: conversion_def)
qed

lemma conversion_is_final_witness:
  "map_option conversion (lookupBy ld_id ''l1'' (crm_leads (crm_of demo_schema
     (after (convertLead demo_env ''t1'' ''l1'' (Some ''c2'') ''mallory'')
       (after (deleteLead ''t1'' ''l1'') demo_crm_world))))) =
   Some (''l1'', Some ''c1'', Some 500, Some ''owner'')"
proof -
  have "tenant_request demo_env (after (deleteLead ''t1'' ''l1''))"
    "tenant_request demo_env (after (convertLead demo_env ''t1'' ''l1'' (Some ''c2'') ''mallory''))"
    by (rule tenant_request.intros)+
  from conversion_is_final [OF two_requests [OF this], where s = demo_schema and l = demo_lead] show ?thesis
    by (simp add: crm_of_def demo_db_def demo_crm_def uniqueBy_def demo_lead_def conversion_def)
qed

subsection \<open>Pages\<close>

lemma pages_of_list:
  assumes "0 < n"
  shows "concat (map (\<lambda>p. page_of (int p + 1) (int n) xs) [0..<k]) = take (k * n) xs"
proof (induction k)
  case (Suc k)
  have "page_of (int k + 1) (int n) xs = take n (drop (k * n) xs)"
    by (simp add: page_of_def nat_mult_distrib)
  with Suc show ?case using take_add [of "k * n" n xs] by (simp add: add.commute [of n])
qed simp

lemma mapM_reading:
  "(\<And>x. f x w = (Inr (g x), w)) \<Longrightarrow> mapM f xs w = (Inr (map g xs), w)"
  by (induction xs) (simp_all add: await_run)

text \<open>
  The database promises the order of \<^verbatim>\<open>createdAt\<close> and nothing more, so what a query may return is
  any arrangement of the rows that is newest first. Without two leads of one instant there is only one.
\<close>

definition newest_first :: "lead list \<Rightarrow> lead list \<Rightarrow> bool" where
  "newest_first all xs \<longleftrightarrow> mset xs = mset all \<and> sorted (map (\<lambda>l. - ld_createdAt l) xs)"

lemma newest_first_unique:
  assumes "distinct (map ld_createdAt all)"
  shows "newest_first all xs \<longleftrightarrow> xs = sort_key (\<lambda>l. - ld_createdAt l) all"
proof
  let ?key = "\<lambda>l. - ld_createdAt l"
  let ?sorted = "sort_key ?key all"
  assume "newest_first all xs"
  then have xs: "mset xs = mset all" "sorted (map ?key xs)" by (simp_all add: newest_first_def)
  have "distinct (map ?key all)" using assms by (auto simp: distinct_map inj_on_def)
  then have inj: "inj_on ?key (set all)" and dist: "distinct all" by (simp_all add: distinct_map)
  have same: "set xs = set all" using xs(1) by (rule mset_eq_setD)
  have "distinct (map ?key xs)" "distinct (map ?key ?sorted)"
    using inj dist same mset_eq_imp_distinct_iff [OF xs(1)] by (simp_all add: distinct_map)
  moreover have "sorted (map ?key ?sorted)" by simp
  ultimately have "map ?key xs = map ?key ?sorted"
    using xs(2) same by (intro sorted_distinct_set_unique) simp_all
  then show "xs = ?sorted" using inj same by (intro map_inj_on [of ?key]) simp_all
qed (simp add: newest_first_def)

text \<open>C30: listing leads page by page gives every lead that the filter asks for exactly once, the
  newest first, when nothing is written in between and no two of them were created at the same
  instant: the first \<open>k\<close> pages of \<open>n\<close> leads, put together, are the leads in the one order that
  is newest first, as soon as \<open>k * n\<close> covers their number, which is the total that every page reports.
  Leads of one instant have no order that the query asks for, so between two pages the database may
  repeat or skip them.\<close>

theorem lead_pages_complete:
  fixes flt :: LeadFilterDto
  assumes "lookupBy t_id tenantId (w_tenants w) = Some t" and "valid_schema_name (t_schemaName t)"
    and "w_schemas w (t_schemaName t) = Some db" and "0 < n"
    and "all = filter (lead_where E flt) (crm_leads (db_crm db))" and "length all \<le> k * n"
    and "distinct (map ld_createdAt all)"
  shows "\<exists>pages.
    mapM (\<lambda>p. listLeads E tenantId (flt\<lparr>lfl_page := Some (int p + 1), lfl_limit := Some (int n)\<rparr>))
      [0..<k] w = (Inr pages, w) \<and>
    (\<forall>xs. newest_first all xs \<longleftrightarrow> xs = concat (map pg_data pages)) \<and>
    map pg_total pages = replicate k (length all)"
proof -
  let ?sorted = "sort_key (\<lambda>l. - ld_createdAt l) all"
  let ?page = "\<lambda>p. \<lparr>pg_data = page_of (int p + 1) (int n) ?sorted, pg_total = length all,
     pg_page = int p + 1, pg_limit = int n\<rparr>"
  have filter_same: "lead_where E (flt\<lparr>lfl_page := p, lfl_limit := l\<rparr>) = lead_where E flt" for p l
    by (rule ext) (simp add: lead_where_def)
  have rows: "rows (leads (t_schemaName t)) w = Some (crm_leads (db_crm db))"
    using assms(3) by simp
  have "listLeads E tenantId (flt\<lparr>lfl_page := Some (int p + 1), lfl_limit := Some (int n)\<rparr>) w =
      (Inr (?page p), w)" for p
    by (simp add: listLeads_def leads_findMany_def await_run getSchemaName_run assms(1,2) forSchema_def
        throwIf_run findPage_def findOrdered_def findMany_run [OF rows] count_run [OF rows] filter_same
        assms(5) countRows_def not_less)
  then have "mapM (\<lambda>p. listLeads E tenantId (flt\<lparr>lfl_page := Some (int p + 1), lfl_limit := Some (int n)\<rparr>))
      [0..<k] w = (Inr (map ?page [0..<k]), w)"
    by (rule mapM_reading)
  moreover have "concat (map pg_data (map ?page [0..<k])) = ?sorted"
    using assms(6) by (simp add: comp_def pages_of_list [OF assms(4)])
  moreover have "map pg_total (map ?page [0..<k]) = replicate k (length all)"
    by (simp add: comp_def map_replicate_const)
  moreover have "newest_first all xs \<longleftrightarrow> xs = ?sorted" for xs by (rule newest_first_unique [OF assms(7)])
  ultimately show ?thesis by (intro exI [of _ "map ?page [0..<k]"]) simp
qed

definition demo_filter :: LeadFilterDto where
  "demo_filter =
     \<lparr>lfl_branchId = None, lfl_statusId = None, lfl_sourceId = None, lfl_priority = None,
      lfl_converted = Some True, lfl_search = None, lfl_page = None, lfl_limit = None\<rparr>"

lemma lead_pages_complete_witness:
  "\<exists>pages.
    mapM (\<lambda>p. listLeads demo_env ''t1''
        (demo_filter\<lparr>lfl_page := Some (int p + 1), lfl_limit := Some (int 1)\<rparr>))
      [0..<2] demo_crm_world = (Inr pages, demo_crm_world) \<and>
    (\<forall>xs. newest_first [demo_lead] xs \<longleftrightarrow> xs = concat (map pg_data pages)) \<and>
    map pg_total pages = replicate 2 (length [demo_lead])"
  by (rule lead_pages_complete [where t = demo_tenant and db = demo_db and flt = demo_filter])
     (simp_all add: demo_db_def demo_crm_def lead_where_def demo_filter_def demo_lead_def)

end
