(* ===== verification/Lead_Properties.thy ===== *)
theory Lead_Properties
  imports Crm_Properties
begin

text \<open>
  Properties of the life of a lead: its assignment to the agents of a branch in turn, the webhooks
  that should bring leads in from outside, and the columns that summarise its activities.
\<close>

subsection \<open>Assignment in turn\<close>

text \<open>The agents of a branch for a configuration, and how many leads were handed out so far.\<close>

definition eligible_agents :: "tenant_db \<Rightarrow> string \<Rightarrow> string list \<Rightarrow> string list" where
  "eligible_agents db b roleIds =
     new_Set (map ubm_userId (sort_key ubm_userId
       (filter (\<lambda>m. ubm_branchId m = Some b \<and> ubm_revokedAt m = None \<and>
          ubm_roundRobinAvailable m \<and> ubm_roleId m \<in> set roleIds) (db_memberships db))))"

definition handed_out :: "string \<Rightarrow> string \<Rightarrow> world \<Rightarrow> nat option" where
  "handed_out T b w =
     (case kv_get (w_now w) (w_redis w) (round_robin_key T b) of
        None \<Rightarrow> Some 0
      | Some (Counter n) \<Rightarrow> Some n
      | Some (Text v) \<Rightarrow> None)"

definition turn_taking :: "string \<Rightarrow> string \<Rightarrow> string \<Rightarrow> string list \<Rightarrow> nat \<Rightarrow> world \<Rightarrow> bool" where
  "turn_taking T s b agents k w \<longleftrightarrow>
     valid_schema_name s \<and> handed_out T b w = Some k \<and>
     in_schema s (\<lambda>db.
       case lookupBy ac_branchId b (crm_configs (db_crm db)) of
         None \<Rightarrow> False
       | Some c \<Rightarrow>
           ac_isActive c \<and> ac_assignmentMode c = ROUND_ROBIN \<and> ac_eligibleRoleIds c \<noteq> [] \<and>
           eligible_agents db b (ac_eligibleRoleIds c) = agents) w"

definition owner_of :: "string \<Rightarrow> string \<Rightarrow> world \<Rightarrow> string option" where
  "owner_of s i w = Option.bind (lookupBy ld_id i (crm_leads (crm_of s w))) ld_ownedByUserId"

definition lead_there :: "string \<Rightarrow> string \<Rightarrow> world \<Rightarrow> bool" where
  "lead_there s i w \<longleftrightarrow> lookupBy ld_id i (crm_leads (crm_of s w)) \<noteq> None"

definition job_of :: "string \<Rightarrow> string \<Rightarrow> string \<Rightarrow> LeadCreatedJobPayload \<Rightarrow> bool" where
  "job_of T s b job \<longleftrightarrow> lj_tenantId job = T \<and> lj_schemaName job = s \<and> lj_branchId job = b"

lemma redis_incr_handed_out:
  assumes "handed_out T b w = Some k"
  shows "\<exists>r. redis_incr (round_robin_key T b) w = (Inr (Suc k), w\<lparr>w_redis := r\<rparr>) \<and>
    handed_out T b (w\<lparr>w_redis := r\<rparr>) = Some (Suc k)"
proof (cases "kv_get (w_now w) (w_redis w) (round_robin_key T b)")
  case None
  with assms show ?thesis by (auto simp: redis_incr_def handed_out_def redis.get_put)
next
  case (Some v)
  then have "Some (Counter k) = Some v"
    using assms by (simp add: handed_out_def split: redis_value.splits)
  with Some have v: "kv_get (w_now w) (w_redis w) (round_robin_key T b) = Some (Counter k)" by simp
  then obtain e where e: "w_redis w (round_robin_key T b) = Some (Counter k, e)"
    "\<And>x. e = Some x \<Longrightarrow> w_now w < x"
    by (auto simp: kv_get_def split: option.splits if_splits prod.splits)
  with v show ?thesis
    by (auto simp: redis_incr_def handed_out_def redis.get_put)
qed

lemma one_turn:
  assumes ready: "turn_taking T s b agents k w" and "agents \<noteq> []" and "job_of T s b job"
    and "lead_there s (lj_leadId job) w"
  shows "\<exists>w'. handleLeadCreated job w = (Inr (), w') \<and> turn_taking T s b agents (Suc k) w' \<and>
    owner_of s (lj_leadId job) w' = Some (agents ! (k mod length agents)) \<and>
    (\<forall>i. i \<noteq> lj_leadId job \<longrightarrow> owner_of s i w' = owner_of s i w) \<and>
    (\<forall>i. lead_there s i w' = lead_there s i w)"
proof -
  let ?own = "\<lambda>l. l\<lparr>ld_ownedByUserId := Some (agents ! (k mod length agents))\<rparr>"
  obtain db c where db: "w_schemas w s = Some db"
    and c: "lookupBy ac_branchId b (crm_configs (db_crm db)) = Some c" "ac_isActive c"
      "ac_assignmentMode c = ROUND_ROBIN" "ac_eligibleRoleIds c \<noteq> []"
      "eligible_agents db b (ac_eligibleRoleIds c) = agents"
    and s: "valid_schema_name s"
    using ready by (auto simp: turn_taking_def in_schema_def split: option.splits)
  obtain r where r: "redis_incr (round_robin_key T b) w = (Inr (Suc k), w\<lparr>w_redis := r\<rparr>)"
    "handed_out T b (w\<lparr>w_redis := r\<rparr>) = Some (Suc k)"
    using redis_incr_handed_out [of T b w k] ready by (auto simp: turn_taking_def)
  obtain l where l: "lookupBy ld_id (lj_leadId job) (crm_leads (db_crm db)) = Some l"
    using assms(4) db by (auto simp: lead_there_def crm_of_def)
  let ?w1 = "on_schema s (db_crm_update (crm_leads_update (updateBy ld_id (lj_leadId job) ?own)))
    (w\<lparr>w_redis := r\<rparr>)"
  have configs: "rows (assignmentConfigs s) w = Some (crm_configs (db_crm db))"
    and members: "rows (memberships s) w = Some (db_memberships db)"
    and lead_rows: "rows (leads s) (w\<lparr>w_redis := r\<rparr>) = Some (crm_leads (db_crm db))"
    using db by simp_all
  have agents: "findEligibleAgents s b (ac_eligibleRoleIds c) w = (Inr agents, w)"
    using c(4,5) s
    by (simp add: findEligibleAgents_def await_run forSchema_def throwIf_run findOrdered_def
        findMany_run [OF members] eligible_agents_def)
  define w' where "w' = ?w1\<lparr>w_workflow := w_workflow w @ [LEAD_ASSIGNED
     \<lparr>laj_tenantId = T, laj_schemaName = s, laj_leadId = lj_leadId job,
      laj_contactId = Some (lj_contactId job), laj_branchId = b,
      laj_assignedUserId = agents ! (k mod length agents)\<rparr>]\<rparr>"
  have "handleLeadCreated job w = (Inr (), w')"
    using assms(2,3) c(2,3) s
    by (simp add: handleLeadCreated_def Let_def configs_findByBranch_def job_of_def await_run forSchema_def
        throwIf_run findUnique_run [OF configs] c(1) agents r(1) update_run [OF lead_rows] l w'_def)
  moreover have crm: "crm_of s w' = crm_leads_update (updateBy ld_id (lj_leadId job) ?own) (crm_of s w)"
    by (simp add: crm_of_def w'_def db)
  moreover have "turn_taking T s b agents (Suc k) w'"
  proof -
    have "handed_out T b w' = Some (Suc k)" using r(2) by (simp add: handed_out_def w'_def)
    then show ?thesis using s c by (simp add: turn_taking_def in_schema_def w'_def db eligible_agents_def)
  qed
  ultimately show ?thesis
    using l by (auto simp: owner_of_def lead_there_def lookupBy_updateBy crm_of_def db)
qed

lemma many_turns:
  assumes "turn_taking T s b agents k w" and "agents \<noteq> []"
    and "\<forall>job \<in> set jobs. job_of T s b job \<and> lead_there s (lj_leadId job) w"
    and "distinct (map lj_leadId jobs)"
  shows "\<exists>w'. forEach jobs handleLeadCreated w = (Inr (), w') \<and>
    (\<forall>i. i \<notin> lj_leadId ` set jobs \<longrightarrow> owner_of s i w' = owner_of s i w) \<and>
    map (\<lambda>job. owner_of s (lj_leadId job) w') jobs =
      map (\<lambda>i. Some (agents ! ((k + i) mod length agents))) [0..<length jobs]"
  using assms
proof (induction jobs arbitrary: k w)
  case (Cons job jobs)
  obtain w1 where w1: "handleLeadCreated job w = (Inr (), w1)" "turn_taking T s b agents (Suc k) w1"
    "owner_of s (lj_leadId job) w1 = Some (agents ! (k mod length agents))"
    "\<forall>i. i \<noteq> lj_leadId job \<longrightarrow> owner_of s i w1 = owner_of s i w"
    "\<forall>i. lead_there s i w1 = lead_there s i w"
    using one_turn [OF Cons.prems(1,2), of job] Cons.prems(3) by auto
  have "\<forall>j \<in> set jobs. job_of T s b j \<and> lead_there s (lj_leadId j) w1"
    using Cons.prems(3) w1(5) by simp
  then obtain w' where w': "forEach jobs handleLeadCreated w1 = (Inr (), w')"
    "\<forall>i. i \<notin> lj_leadId ` set jobs \<longrightarrow> owner_of s i w' = owner_of s i w1"
    "map (\<lambda>job. owner_of s (lj_leadId job) w') jobs =
      map (\<lambda>i. Some (agents ! ((Suc k + i) mod length agents))) [0..<length jobs]"
    using Cons.IH [OF w1(2) Cons.prems(2)] Cons.prems(4) by auto
  have first: "owner_of s (lj_leadId job) w' = Some (agents ! (k mod length agents))"
    using w'(2) w1(3) Cons.prems(4) by simp
  have "forEach (job # jobs) handleLeadCreated w = (Inr (), w')"
    using w1(1) w'(1) by (simp add: await_run)
  moreover have "map (\<lambda>job. owner_of s (lj_leadId job) w') (job # jobs) =
      map (\<lambda>i. Some (agents ! ((k + i) mod length agents))) [0..<length (job # jobs)]"
    using w'(3) first by (simp add: upt_conv_Cons map_Suc_upt [symmetric] comp_def del: upt_Suc)
  ultimately show ?case using w'(2) w1(4) by auto
qed simp

text \<open>C29: the worker treats the agents of a branch alike. While the configuration and the agents stay
  as they are, any \<open>n\<close> new leads in a row, with \<open>n\<close> the number of agents, are owned afterwards by the
  \<open>n\<close> agents, each of them by one: the owners are the list of agents, started at the place where the
  counter stood. The worker fails for none of the leads.\<close>

theorem round_robin_is_fair:
  assumes "turn_taking T s b agents k w" and "agents \<noteq> []" and "length jobs = length agents"
    and "\<forall>job \<in> set jobs. job_of T s b job \<and> lead_there s (lj_leadId job) w"
    and "distinct (map lj_leadId jobs)"
  shows "outcome (forEach jobs handleLeadCreated) w = Inr () \<and>
    map (\<lambda>job. owner_of s (lj_leadId job) (after (forEach jobs handleLeadCreated) w)) jobs =
      map Some (rotate k agents)"
proof -
  obtain w' where run: "forEach jobs handleLeadCreated w = (Inr (), w')"
    and owners: "map (\<lambda>job. owner_of s (lj_leadId job) w') jobs =
      map (\<lambda>i. Some (agents ! ((k + i) mod length agents))) [0..<length jobs]"
    using many_turns [OF assms(1,2,4,5)] by blast
  have "map (\<lambda>i. Some (agents ! ((k + i) mod length agents))) [0..<length jobs] =
      map Some (rotate k agents)"
    by (rule nth_equalityI) (simp_all add: assms(3) nth_rotate)
  with run owners show ?thesis by (simp add: outcome_def after_def)
qed

definition demo_config :: assignment_config where
  "demo_config =
     \<lparr>ac_id = ''cf1'', ac_branchId = ''b1'', ac_assignmentMode = ROUND_ROBIN,
      ac_eligibleRoleIds = [''r1''], ac_isActive = True, ac_createdAt = 0\<rparr>"

definition demo_team_db :: tenant_db where
  "demo_team_db = demo_db
     \<lparr>db_memberships :=
        [demo_assignment, demo_assignment\<lparr>ubm_id := ''a2'', ubm_userId := ''clerk''\<rparr>],
      db_crm := demo_crm
        \<lparr>crm_leads := [demo_lead, demo_lead\<lparr>ld_id := ''l2''\<rparr>], crm_configs := [demo_config]\<rparr>\<rparr>"

definition demo_team_world :: world where
  "demo_team_world = demo_crm_world
     \<lparr>w_schemas := [demo_schema \<mapsto> demo_team_db],
      w_redis := [round_robin_key ''t1'' ''b1'' \<mapsto> (Counter 3, None)]\<rparr>"

definition demo_job :: "string \<Rightarrow> LeadCreatedJobPayload" where
  "demo_job i =
     \<lparr>lj_tenantId = ''t1'', lj_schemaName = demo_schema, lj_leadId = i, lj_contactId = ''c1'',
      lj_branchId = ''b1'', lj_createdByUserId = None\<rparr>"

lemma demo_agents: "eligible_agents demo_team_db ''b1'' [''r1''] = [''clerk'', ''owner'']"
  by code_simp

lemma round_robin_is_fair_witness:
  "outcome (forEach [demo_job ''l1'', demo_job ''l2''] handleLeadCreated) demo_team_world = Inr () \<and>
   map (\<lambda>job. owner_of demo_schema (lj_leadId job)
       (after (forEach [demo_job ''l1'', demo_job ''l2''] handleLeadCreated) demo_team_world))
     [demo_job ''l1'', demo_job ''l2''] = map Some (rotate 3 [''clerk'', ''owner''])"
proof (rule round_robin_is_fair)
  show "turn_taking ''t1'' demo_schema ''b1'' [''clerk'', ''owner''] 3 demo_team_world"
    using demo_agents
    by (simp add: turn_taking_def handed_out_def demo_team_world_def kv_get_def in_schema_def
        demo_team_db_def demo_config_def)
  show "\<forall>job \<in> set [demo_job ''l1'', demo_job ''l2'']. job_of ''t1'' demo_schema ''b1'' job \<and>
      lead_there demo_schema (lj_leadId job) demo_team_world"
    by (simp add: job_of_def lead_there_def demo_job_def crm_of_def demo_team_world_def
        demo_team_db_def demo_lead_def)
qed (simp_all add: demo_job_def)

subsection \<open>Webhooks\<close>

lemma leads_create_rejected: "\<not> e_isUuid E u \<Longrightarrow> rejects (leads_create E n dto (Some u) c) w"
  unfolding leads_create_def
  by (rule rejects_await [OF reading_forSchema])
     (simp add: rejects_def await_run throwIf_run check_uuids_run)

lemma contacts_create_rejected:
  "\<not> e_isUuid E u \<Longrightarrow> rejects (contacts_create E n dto (Some u) c) w"
  unfolding contacts_create_def
  by (rule rejects_await [OF reading_forSchema])
     (simp add: rejects_def await_run throwIf_run check_uuids_run)

lemma upsert_contact_reading:
  assumes "\<not> e_isUuid E u"
  shows "reading (upsert_contact E n dto u) w"
proof -
  have "reading (contacts_create E n (contact_of_lead dto) (Some u) None) w"
    by (intro rejects_reading contacts_create_rejected assms)
  then show ?thesis
    unfolding upsert_contact_def contacts_findByEmail_def by (intro tenant_readings)
qed

lemma createLead_rejected:
  assumes "\<not> e_isUuid E u"
  shows "rejects (createLead E t dto u) w"
  unfolding createLead_def
  by (intro rejects_await [OF reading_getSchemaName] rejects_await [OF upsert_contact_reading]
      rejects_prod rejects_first leads_create_rejected assms)

lemma resolveToken_reading: "reading (resolveToken token) w"
  unfolding resolveToken_def webhooks_findByToken_def redis_get_def
  by (rule reading_await [OF reading_reads])
     (auto intro: tenant_readings split: option.split redis_value.split)

text \<open>C31: the public route for leads takes no lead in. The actor that it gives, \<^verbatim>\<open>webhook\<close>, is not an
  identifier, which the columns for the author of a contact and of a lead are; so every request to
  it, with a valid token or not and whatever it sends, ends with an error and stores nothing.\<close>

theorem ingestion_always_fails:
  assumes "\<not> e_isUuid E ''webhook''"
  shows "\<exists>e. ingestLead E token payload w = (Inl e, w)"
proof -
  have "rejects (ingestLead E token payload) w"
    unfolding ingestLead_def
    by (rule rejects_await [OF resolveToken_reading])
       (auto simp: rejects_def createLead_rejected [OF assms, unfolded rejects_def] split: option.split)
  then show ?thesis by (simp add: rejects_def)
qed

lemma ingestion_always_fails_witness:
  "\<exists>e. ingestLead demo_env ''tok'' (\<lambda>_. None) demo_crm_world = (Inl e, demo_crm_world)"
  by (rule ingestion_always_fails) (simp add: demo_env_def)

end
