(* ===== verification/Role_Properties.thy ===== *)
theory Role_Properties
  imports Lead_Properties
begin

text \<open>
  Properties of roles and staff: the roles of a tenant as a map from roles to permissions, which the
  operations of the role module update, and the guard of the last owner.
\<close>

subsection \<open>Roles as a map\<close>

definition role_grants :: "tenant_db \<Rightarrow> string \<Rightarrow> string set" where
  "role_grants db i = {rp_permissionId rp | rp. rp \<in> set (db_rolePermissions db) \<and> rp_roleId rp = i}"

definition role_store :: "tenant_db \<Rightarrow> string \<rightharpoonup> string set" where
  "role_store db = (\<lambda>i. if i \<in> roles_of db then Some (role_grants db i) else None)"

definition roles_in :: "string \<Rightarrow> world \<Rightarrow> string \<rightharpoonup> string set" where
  "roles_in s w = (case w_schemas w s of None \<Rightarrow> Map.empty | Some db \<Rightarrow> role_store db)"

lemma roles_in_on_schema:
  "w_schemas w s = Some db \<Longrightarrow> roles_in s (on_schema s f w) = role_store (f db)"
  by (simp add: roles_in_def)

lemma grants_insert:
  "role_grants (db_rolePermissions_update (insertRow rp) db) =
     (role_grants db)(rp_roleId rp := insert (rp_permissionId rp) (role_grants db (rp_roleId rp)))"
  by (rule ext) (auto simp: role_grants_def)

lemma grants_delete:
  "role_grants (db_rolePermissions_update (deleteRows (\<lambda>rp. rp_roleId rp = i)) db) =
     (role_grants db)(i := {})"
  by (rule ext) (auto simp: role_grants_def)

lemma grants_frame:
  "role_grants (db_roles_update f db) = role_grants db"
  "roles_of (db_rolePermissions_update g db) = roles_of db"
  by (auto simp: role_grants_def roles_of_def)

text \<open>Adding permissions, one after the other, adds them to the set of the role.\<close>

definition same_but_grants :: "tenant_db \<Rightarrow> tenant_db \<Rightarrow> bool" where
  "same_but_grants db db' \<longleftrightarrow> (\<exists>rps. db' = db\<lparr>db_rolePermissions := rps\<rparr>)"

lemma add_role_permission_adds:
  assumes "w_schemas w s = Some db" and "add_role_permission s i p w = (Inr u, w')"
  shows "\<exists>db'. w_schemas w' s = Some db' \<and> same_but_grants db db' \<and>
    role_grants db' = (role_grants db)(i := insert p (role_grants db i))"
proof (cases "\<exists>rp \<in> set (db_rolePermissions db). rp_roleId rp = i \<and> rp_permissionId rp = p")
  case True
  then have "p \<in> role_grants db i" by (auto simp: role_grants_def)
  then have "role_grants db = (role_grants db)(i := insert p (role_grants db i))"
    by (simp add: insert_absorb)
  moreover have "w' = w"
    using True assms
    by (auto simp: add_role_permission_def Let_def await_run query_run existsRow_iff
        role_permission_clash_def split: if_splits)
  moreover have "same_but_grants db db"
    by (simp add: same_but_grants_def exI [of _ "db_rolePermissions db"])
  ultimately show ?thesis using assms(1) by auto
next
  case False
  let ?rp = "\<lparr>rp_roleId = i, rp_permissionId = p, rp_createdAt = w_now w\<rparr>"
  have free: "\<not> existsRow (role_permission_clash ?rp) (db_rolePermissions db)"
    using False by (auto simp: existsRow_iff role_permission_clash_def)
  have rows: "rows (rolePermissions s) w = Some (db_rolePermissions db)" using assms(1) by simp
  have "w' = on_schema s (db_rolePermissions_update (insertRow ?rp)) w"
    using assms free
    by (auto simp: add_role_permission_def Let_def await_run query_run create_run [OF rows]
        split: if_splits)
  then have "w_schemas w' s = Some (db_rolePermissions_update (insertRow ?rp) db)"
    using assms(1) by simp
  moreover have "same_but_grants db (db_rolePermissions_update (insertRow ?rp) db)"
    by (simp add: same_but_grants_def exI [of _ "insertRow ?rp (db_rolePermissions db)"])
  ultimately show ?thesis using grants_insert [of ?rp db] by auto
qed

lemma add_role_permissions_add:
  assumes "w_schemas w s = Some db" and "forEach ids (add_role_permission s i) w = (Inr u, w')"
  shows "\<exists>db'. w_schemas w' s = Some db' \<and> same_but_grants db db' \<and>
    role_grants db' = (role_grants db)(i := role_grants db i \<union> set ids)"
  using assms
proof (induction ids arbitrary: w db)
  case Nil
  then show ?case by (auto simp: same_but_grants_def intro: exI [of _ "db_rolePermissions db"])
next
  case (Cons p ids)
  from Cons.prems(2) obtain v w1 where step: "add_role_permission s i p w = (Inr v, w1)"
    and rest: "forEach ids (add_role_permission s i) w1 = (Inr u, w')"
    by (auto simp: await_Inr_iff)
  obtain db1 where db1: "w_schemas w1 s = Some db1" "same_but_grants db db1"
    "role_grants db1 = (role_grants db)(i := insert p (role_grants db i))"
    using add_role_permission_adds [OF Cons.prems(1) step] by blast
  obtain db' where "w_schemas w' s = Some db'" "same_but_grants db1 db'"
    "role_grants db' = (role_grants db1)(i := role_grants db1 i \<union> set ids)"
    using Cons.IH [OF db1(1) rest] by blast
  with db1 show ?case by (auto simp: same_but_grants_def)
qed

lemma same_but_grants_roles: "same_but_grants db db' \<Longrightarrow> roles_of db' = roles_of db"
  by (auto simp: same_but_grants_def roles_of_def)

lemma store_of_grants:
  assumes "same_but_grants db db'" and "role_grants db' = (role_grants db)(i := A)" and "i \<in> roles_of db"
  shows "role_store db' = (role_store db)(i \<mapsto> A)"
  by (rule ext) (simp add: role_store_def same_but_grants_roles [OF assms(1)] assms(2,3))

lemma roles_readings:
  "reading (roles_findById n i) w" "reading (roles_findBySlug n slug) w"
  "reading (permissionsExist n ids) w" "reading (countUsersWithRole n i) w"
  unfolding roles_findById_def roles_findBySlug_def permissionsExist_def countUsersWithRole_def
    with_permissions_def
  by (intro tenant_readings)+

lemmas roles_after = roles_readings [THEN reading_after]

lemma lookup_roles_of: "lookupBy r_id i (db_roles db) = Some r \<Longrightarrow> i \<in> roles_of db"
  by (auto simp: roles_of_def lookupBy_def dest: findRow_Some)

lemma replacePermissions_runs:
  assumes "replacePermissions s i ids w = (Inr d, w')"
  shows "\<exists>u r. forEach ids (add_role_permission s i)
        (on_schema s (db_rolePermissions_update (deleteRows (\<lambda>rp. rp_roleId rp = i))) w) = (Inr u, w') \<and>
      map_option (lookupBy r_id i \<circ> db_roles) (w_schemas w' s) = Some (Some r)"
  using assms by (auto simp: replacePermissions_def Inr_iffs split: option.splits) metis

lemma updateRolePermissions_refines:
  assumes db: "w_schemas w s = Some db" and "getSchemaName T w = (Inr s, w)"
    and "updateRolePermissions T i ids w = (Inr d, w')"
  shows "i \<in> dom (roles_in s w) \<and> roles_in s w' = (roles_in s w)(i \<mapsto> set ids)"
proof -
  let ?f = "db_rolePermissions_update (deleteRows (\<lambda>rp. rp_roleId rp = i))"
  have "replacePermissions s i ids w = (Inr d, w')"
    using assms(2,3)
    by (auto simp: updateRolePermissions_def await_Inr_iff throwIf_Inr_iff
        split: option.splits if_splits dest!: roles_after)
  then obtain u r where add: "forEach ids (add_role_permission s i) (on_schema s ?f w) = (Inr u, w')"
    and r: "map_option (lookupBy r_id i \<circ> db_roles) (w_schemas w' s) = Some (Some r)"
    by (blast dest: replacePermissions_runs)
  have "w_schemas (on_schema s ?f w) s = Some (?f db)" using db by simp
  from add_role_permissions_add [OF this add] obtain db' where db': "w_schemas w' s = Some db'"
    "same_but_grants (?f db) db'" "role_grants db' = (role_grants db)(i := set ids)"
    by (auto simp: grants_delete)
  have same: "same_but_grants db db'"
    using db'(2) by (auto simp: same_but_grants_def)
  have "i \<in> roles_of db"
    using r db'(1) same_but_grants_roles [OF same] by (auto dest: lookup_roles_of)
  with store_of_grants [OF same db'(3) this] db db'(1) show ?thesis
    by (simp add: roles_in_def domIff role_store_def)
qed

lemma createRole_refines:
  assumes db: "w_schemas w s = Some db" "db_ok db" and "getSchemaName T w = (Inr s, w)"
    and "createRole E T dto w = (Inr d, w')"
  shows "rd_id d \<notin> dom (roles_in s w) \<and>
    roles_in s w' = (roles_in s w)(rd_id d \<mapsto> set (orElse (cr_permissionIds dto) []))"
proof -
  have "roles_create E s dto w = (Inr d, w')"
    using assms(3,4)
    by (auto simp: createRole_def await_Inr_iff throwIf_Inr_iff split: if_splits dest!: roles_after)
  then obtain r u where new: "\<not> existsRow (role_clash r) (db_roles db)" and id: "rd_id d = r_id r"
    and add: "forEach (orElse (cr_permissionIds dto) []) (add_role_permission s (r_id r))
      (on_schema s (db_roles_update (insertRow r)) (w\<lparr>w_rnd := Suc (w_rnd w)\<rparr>)) = (Inr u, w')"
    using db(1) by (auto simp: roles_create_def Inr_iffs role_toDto_def)
  let ?db = "db_roles_update (insertRow r) db"
  have fresh: "r_id r \<notin> roles_of db"
    using new by (auto simp: existsRow_iff role_clash_def roles_of_def)
  have none: "role_grants db (r_id r) = {}"
    using fresh db(2) by (auto simp: role_grants_def db_ok_def references_ok_def)
  have "w_schemas (on_schema s (db_roles_update (insertRow r)) (w\<lparr>w_rnd := Suc (w_rnd w)\<rparr>)) s = Some ?db"
    using db(1) by simp
  from add_role_permissions_add [OF this add] obtain db' where db': "w_schemas w' s = Some db'"
    "same_but_grants ?db db'"
    "role_grants db' = (role_grants db)(r_id r := set (orElse (cr_permissionIds dto) []))"
    by (auto simp: grants_frame none)
  have roles: "roles_of ?db = insert (r_id r) (roles_of db)" by (simp add: roles_of_def)
  have "role_store db' = (role_store ?db)(r_id r \<mapsto> set (orElse (cr_permissionIds dto) []))"
    by (rule store_of_grants [OF db'(2)]) (simp_all add: db'(3) grants_frame roles)
  moreover have "role_store ?db = (role_store db)(r_id r \<mapsto> {})"
    by (rule ext) (auto simp: role_store_def grants_frame roles none)
  ultimately show ?thesis using db db'(1) fresh by (simp add: roles_in_def id domIff role_store_def)
qed

lemma deleteRole_refines:
  assumes db: "w_schemas w s = Some db" and "getSchemaName T w = (Inr s, w)"
    and "deleteRole T i w = (Inr u, w')"
  shows "i \<in> dom (roles_in s w) \<and> roles_in s w' = (roles_in s w)(i := None)"
proof -
  have "roles_delete s i w = (Inr u, w')"
    using assms(2,3)
    by (auto simp: deleteRole_def await_Inr_iff throwIf_Inr_iff split: option.splits dest!: roles_after)
  then have there: "lookupBy r_id i (db_roles db) \<noteq> None" and w': "w' = on_schema s (drop_role i) w"
    using db by (auto simp: roles_delete_def Inr_iffs)
  have roles: "roles_of (drop_role i db) = roles_of db - {i}"
    by (auto simp: drop_role_def roles_of_def)
  have grants: "role_grants (drop_role i db) = (role_grants db)(i := {})"
    by (simp add: drop_role_def grants_frame grants_delete)
  have "role_store (drop_role i db) = (role_store db)(i := None)"
    by (rule ext) (auto simp: role_store_def roles grants)
  moreover have "i \<in> roles_of db" using there by (auto dest: lookup_roles_of)
  ultimately show ?thesis using db w' by (simp add: roles_in_def domIff role_store_def)
qed

text \<open>An operation that fails changes nothing.\<close>

lemma roles_create_clean:
  assumes db: "w_schemas w s = Some db"
  shows "clean (roles_create E s dto) w"
proof -
  have there: "w_schemas w2 s \<noteq> None"
    if "forEach ids (add_role_permission s i) (on_schema s f w1) = (Inr u, w2)"
      and "w_schemas w1 s = Some db" for ids i f u w1 w2
    using add_role_permissions_add [OF _ that(1)] that(2) by auto
  have body: "clean (await (transaction m) (\<lambda>role. read_db s (\<lambda>db. role_toDto db role))) w"
    if "\<And>role w2. m w = (Inr role, w2) \<Longrightarrow> w_schemas w2 s \<noteq> None" for m
    by (rule clean_then [OF clean_transaction])
       (auto simp: transaction_Inr_iff rejects_def reading_def read_db_run dest!: that)
  then show ?thesis
    unfolding roles_create_def using db
    by (intro clean_await [OF reading_forSchema]) (auto simp: Inr_iffs intro!: body dest!: there)
qed

lemma replacePermissions_clean: "clean (replacePermissions s i ids) w"
  unfolding replacePermissions_def by (intro clean_await reading_forSchema clean_transaction)

lemma roles_delete_clean: "clean (roles_delete s i) w"
  unfolding roles_delete_def
  by (intro clean_await tenant_readings) (simp add: clean_def)

lemmas clean_rules = clean_await clean_option reading_clean [OF reading_throw] tenant_readings roles_readings

lemma role_operations_clean:
  assumes db: "w_schemas w s = Some db" and name: "getSchemaName T w = (Inr s, w)"
  shows "clean (createRole E T dto) w" "clean (updateRolePermissions T i ids) w" "clean (deleteRole T i) w"
proof -
  show "clean (createRole E T dto) w"
    unfolding createRole_def
    by (intro clean_rules) (use name in \<open>auto intro: roles_create_clean [OF db]\<close>)
  show "clean (updateRolePermissions T i ids) w"
    unfolding updateRolePermissions_def
    by (intro clean_rules replacePermissions_clean)
  show "clean (deleteRole T i) w"
    unfolding deleteRole_def
    by (intro clean_rules roles_delete_clean)
qed

lemma clean_cases:
  assumes "clean m w" and "\<And>x w'. m w = (Inr x, w') \<Longrightarrow> P x w'"
  shows "case m w of (Inl e, w') \<Rightarrow> w' = w | (Inr x, w') \<Rightarrow> P x w'"
  using assms by (auto simp: clean_def split: prod.split sum.split)

text \<open>C32: the operations on roles implement a map from the roles of the tenant to their sets of
  permissions. Creating a role adds an entry under a new key with exactly the permissions asked for,
  replacing the permissions of a role overwrites its entry, deleting one removes the entry, and no
  other entry changes. An operation that fails, whatever the reason, leaves the whole state as it
  was.\<close>

theorem role_operations_refine:
  assumes "w_schemas w s = Some db" and "db_ok db" and "getSchemaName T w = (Inr s, w)"
  shows "(case createRole E T dto w of
        (Inl e, w') \<Rightarrow> w' = w
      | (Inr d, w') \<Rightarrow> rd_id d \<notin> dom (roles_in s w) \<and>
          roles_in s w' = (roles_in s w)(rd_id d \<mapsto> set (orElse (cr_permissionIds dto) []))) \<and>
    (case updateRolePermissions T i ids w of
        (Inl e, w') \<Rightarrow> w' = w
      | (Inr d, w') \<Rightarrow> i \<in> dom (roles_in s w) \<and> roles_in s w' = (roles_in s w)(i \<mapsto> set ids)) \<and>
    (case deleteRole T i w of
        (Inl e, w') \<Rightarrow> w' = w
      | (Inr u, w') \<Rightarrow> i \<in> dom (roles_in s w) \<and> roles_in s w' = (roles_in s w)(i := None))"
  by (intro conjI [OF clean_cases conjI [OF clean_cases clean_cases]]
      role_operations_clean [OF assms(1,3)])
    (fact createRole_refines [OF assms] updateRolePermissions_refines [OF assms(1,3)]
      deleteRole_refines [OF assms(1,3)])+

text \<open>The owner's role is refused, a new role gets its permission.\<close>

definition demo_rbac_db :: tenant_db where
  "demo_rbac_db = demo_db
     \<lparr>db_permissions := [\<lparr>pm_id = ''p1'', pm_slug = ''tenant:leads:create'', pm_scope = ''tenant'',
        pm_resource = ''leads'', pm_action = ''create'', pm_description = ''Create leads'',
        pm_isSystem = True, pm_createdAt = 0\<rparr>]\<rparr>"

definition demo_rbac_world :: world where
  "demo_rbac_world = demo_crm_world\<lparr>w_schemas := [demo_schema \<mapsto> demo_rbac_db]\<rparr>"

definition demo_new_role :: CreateRoleDto where
  "demo_new_role =
     \<lparr>cr_slug = ''clerk'', cr_name = ''Clerk'', cr_description = None, cr_scopeType = Scope_branch,
      cr_permissionIds = Some [''p1'']\<rparr>"

lemma demo_createRole: "returns (createRole demo_env ''t1'' demo_new_role) demo_rbac_world"
  by code_simp

lemma role_operations_refine_witness:
  "\<exists>d w'. createRole demo_env ''t1'' demo_new_role demo_rbac_world = (Inr d, w') \<and>
     rd_id d \<notin> dom (roles_in demo_schema demo_rbac_world) \<and>
     roles_in demo_schema w' = (roles_in demo_schema demo_rbac_world)(rd_id d \<mapsto> {''p1''})"
proof -
  have db: "w_schemas demo_rbac_world demo_schema = Some demo_rbac_db" by (simp add: demo_rbac_world_def)
  have ok: "db_ok demo_rbac_db"
    by (simp add: demo_rbac_db_def db_ok_def unique_rows_def references_ok_def uniqueBy_def
        roles_of_def branches_of_def demo_db_def demo_role_def demo_branch_def demo_assignment_def)
  have name: "getSchemaName ''t1'' demo_rbac_world = (Inr demo_schema, demo_rbac_world)"
    by (simp add: demo_rbac_world_def)
  obtain d w' where run: "createRole demo_env ''t1'' demo_new_role demo_rbac_world = (Inr d, w')"
    using demo_createRole
    by (cases "createRole demo_env ''t1'' demo_new_role demo_rbac_world")
       (auto simp: returns_def split: sum.splits)
  have "set (orElse (cr_permissionIds demo_new_role) []) = {''p1''}" by (simp add: demo_new_role_def)
  with role_operations_refine [OF db ok name, where E = demo_env and dto = demo_new_role, THEN conjunct1] run
  show ?thesis by simp
qed

end
