(* ===== verification/Access_Properties.thy ===== *)
theory Access_Properties
  imports Permission_Resolver Example
begin

text \<open>
  Properties of access control on the tenant routes: what the permission guard lets through, how old
  its answer can be, and what the escaping and the statement splitter of the schema manager
  guarantee for the text that reaches the database.
\<close>

subsection \<open>The permission guard\<close>

text \<open>C10: for a principal of tenant scope whose permissions are not loaded, the guard with the tenant
  permission resolver passes exactly when the user holds every permission that the route asks
  for, and otherwise its error names exactly the missing ones.\<close>

theorem permission_guard_exact:
  assumes "tenant_scoped u" and "au_permissions u = []" and "slugs \<noteq> []"
    and "resolve (au_userId u) (au_tenantId u) w = (Inr ps, w')"
  shows "(returns (permissionsGuard (Some resolve) (Some slugs) False (Some u)) w \<longleftrightarrow>
      set slugs \<subseteq> held_permissions w (au_userId u) (au_tenantId u)) \<and>
    (set slugs \<subseteq> held_permissions w (au_userId u) (au_tenantId u) \<or>
     outcome (permissionsGuard (Some resolve) (Some slugs) False (Some u)) w =
      Inl (Permission (InsufficientPermissionsException
        (Some (filter (\<lambda>p. p \<notin> held_permissions w (au_userId u) (au_tenantId u)) slugs)))))"
  using resolver.guard_passes_iff [OF assms] resolver.guard_error_names_missing [OF assms(1,2,4)]
  by blast

definition demo_clerk_db :: tenant_db where
  "demo_clerk_db =
     \<lparr>db_branches = [],
      db_roles = [\<lparr>r_id = ''r1'', r_slug = ''clerk'', r_name = ''Clerk'', r_description = None,
        r_scopeType = Scope_tenant, r_isSystem = False, r_verticalSlug = None, r_createdAt = 0\<rparr>],
      db_permissions = [\<lparr>pm_id = ''p1'', pm_slug = ''tenant:leads:create'', pm_scope = ''tenant'',
        pm_resource = ''leads'', pm_action = ''create'', pm_description = ''Create leads'',
        pm_isSystem = True, pm_createdAt = 0\<rparr>],
      db_rolePermissions = [\<lparr>rp_roleId = ''r1'', rp_permissionId = ''p1'', rp_createdAt = 0\<rparr>],
      db_memberships = [\<lparr>ubm_id = ''b1'', ubm_userId = ''owner'', ubm_branchId = None,
        ubm_roleId = ''r1'', ubm_assignedByUserId = None, ubm_assignedAt = 0, ubm_revokedAt = None,
        ubm_revokedReason = None, ubm_roundRobinAvailable = True, ubm_createdAt = 0\<rparr>],
      db_crm = empty_crm\<rparr>"

definition demo_clerk_world :: world where
  "demo_clerk_world = demo_world\<lparr>w_schemas := [''tenant_0123456789abcdef'' \<mapsto> demo_clerk_db]\<rparr>"

definition demo_clerk :: AuthenticatedUser where
  "demo_clerk = tenant_user TENANT demo_claims"

lemma demo_clerk_facts:
  "tenant_scoped demo_clerk" "au_permissions demo_clerk = []" "au_userId demo_clerk = ''owner''"
  "au_tenantId demo_clerk = Some ''t1''"
  by (simp_all add: demo_clerk_def tenant_user_def base_user_def tenant_scoped_def demo_claims_def
      claims_of_def tenant_payload_def)

lemma demo_schema_valid: "valid_schema_name ''tenant_0123456789abcdef''"
  by code_simp

lemma demo_load:
  "loadFromDb ''owner'' (Some ''t1'') demo_clerk_world = (Inr [''tenant:leads:create''], demo_clerk_world)"
  using demo_schema_valid
  by (simp add: loadFromDb_def await_run findUnique_run findMany_run query_run forSchema_run
      demo_clerk_world_def demo_world_def demo_tenant_def demo_clerk_db_def active_assignment_def
      permission_slugs_of_def)

lemma demo_cache: "w_permCache demo_clerk_world = (\<lambda>_. None)" "w_now demo_clerk_world = 1000000"
  by (simp_all add: demo_clerk_world_def demo_world_def empty_world_def)

lemma demo_resolve:
  "resolve ''owner'' (Some ''t1'') demo_clerk_world =
     (Inr [''tenant:leads:create''], demo_clerk_world\<lparr>w_permCache :=
       kv_set (cache_key ''owner'' (Some ''t1'')) [''tenant:leads:create''] (Some 1060000) (\<lambda>_. None)\<rparr>)"
  by (simp add: resolve_def await_run demo_cache kv_get_def demo_load CACHE_TTL_def)

lemma demo_held: "held_permissions demo_clerk_world ''owner'' (Some ''t1'') = {''tenant:leads:create''}"
  using resolve_answers [OF demo_resolve] by simp

lemma permission_guard_exact_witness:
  "returns (permissionsGuard (Some resolve) (Some [''tenant:leads:create'']) False (Some demo_clerk)) demo_clerk_world \<and>
   outcome (permissionsGuard (Some resolve) (Some [''tenant:leads:create'', ''tenant:leads:delete'']) False
       (Some demo_clerk)) demo_clerk_world =
     Inl (Permission (InsufficientPermissionsException (Some [''tenant:leads:delete''])))"
proof
  have run: "resolve (au_userId demo_clerk) (au_tenantId demo_clerk) demo_clerk_world =
      (Inr [''tenant:leads:create''], demo_clerk_world\<lparr>w_permCache :=
       kv_set (cache_key ''owner'' (Some ''t1'')) [''tenant:leads:create''] (Some 1060000) (\<lambda>_. None)\<rparr>)"
    by (simp add: demo_clerk_facts demo_resolve)
  from permission_guard_exact [OF demo_clerk_facts(1,2) _ run, of "[''tenant:leads:create'']"]
  show "returns (permissionsGuard (Some resolve) (Some [''tenant:leads:create'']) False (Some demo_clerk))
      demo_clerk_world"
    by (simp add: demo_clerk_facts demo_held)
  from permission_guard_exact [OF demo_clerk_facts(1,2) _ run, of "[''tenant:leads:create'', ''tenant:leads:delete'']"]
  show "outcome (permissionsGuard (Some resolve) (Some [''tenant:leads:create'', ''tenant:leads:delete'']) False
       (Some demo_clerk)) demo_clerk_world =
     Inl (Permission (InsufficientPermissionsException (Some [''tenant:leads:delete''])))"
    by (simp add: demo_clerk_facts demo_held)
qed

subsection \<open>The cache of permissions\<close>

text \<open>The permissions that the tenant schema grants, without the cache.\<close>

definition database_permissions :: "world \<Rightarrow> string \<Rightarrow> string \<Rightarrow> string set" where
  "database_permissions w userId tenantId =
     (case lookupBy t_id tenantId (w_tenants w) of
        None \<Rightarrow> {}
      | Some t \<Rightarrow> (case w_schemas w (t_schemaName t) of None \<Rightarrow> {} | Some db \<Rightarrow> granted db userId))"

text \<open>C11: what the guard works with after a lookup at one instant is, for sixty seconds, what the
  database granted at that instant, whatever is written to the database meanwhile; from then on it
  is what the database grants at the time of the request. The cache is taken for a store of entries
  with an end: at the very instant of the end the package still serves the entry, and when it is full
  it drops the oldest ones, which only brings the new state of the database earlier.\<close>

theorem cached_permissions_expire:
  assumes "resolve userId (Some tenantId) w = (Inr ps, w')"
    and "kv_get (w_now w) (w_permCache w) (cache_key userId (Some tenantId)) = None"
    and "w_permCache v = w_permCache w'"
  shows "held_permissions v userId (Some tenantId) =
    (if w_now v < w_now w + 60000 then database_permissions w userId tenantId
     else database_permissions v userId tenantId)"
proof -
  obtain l w1 where load: "loadFromDb userId (Some tenantId) w = (l, w1)" by fastforce
  then have w1: "w1 = w" by (rule loadFromDb_state)
  with load assms(1,2) have l: "l = Inr ps" and cache: "w_permCache w' =
      kv_set (cache_key userId (Some tenantId)) ps (Some (w_now w + CACHE_TTL)) (w_permCache w)"
    by (auto simp: resolve_def await_run split: sum.splits)
  have "set ps = database_permissions w userId tenantId"
    using loadFromDb_granted [OF load [unfolded l]] by (simp add: database_permissions_def)
  moreover have "kv_get (w_now v) (w_permCache v) (cache_key userId (Some tenantId)) =
      (if w_now v < w_now w + 60000 then Some ps else None)"
    using assms(3) cache by (auto simp: CACHE_TTL_def redis.put_until redis.put_gone)
  ultimately show ?thesis by (simp add: held_permissions_def database_permissions_def)
qed

lemma cached_permissions_expire_witness:
  "held_permissions ((after (resolve ''owner'' (Some ''t1'')) demo_clerk_world)
       \<lparr>w_schemas := (\<lambda>_. None), w_now := 1059999\<rparr>) ''owner'' (Some ''t1'') = {''tenant:leads:create''} \<and>
   held_permissions ((after (resolve ''owner'' (Some ''t1'')) demo_clerk_world)
       \<lparr>w_schemas := (\<lambda>_. None), w_now := 1060000\<rparr>) ''owner'' (Some ''t1'') = {}"
proof -
  have none: "kv_get (w_now demo_clerk_world) (w_permCache demo_clerk_world) (cache_key ''owner'' (Some ''t1'')) = None"
    by (simp add: demo_cache kv_get_def)
  have db: "database_permissions demo_clerk_world ''owner'' ''t1'' = {''tenant:leads:create''}"
    using demo_held none by (simp add: held_permissions_def database_permissions_def)
  have gone: "database_permissions (w\<lparr>w_schemas := (\<lambda>_. None), w_now := t\<rparr>) ''owner'' ''t1'' = {}" for w t
    by (simp add: database_permissions_def split: option.split)
  note expire = cached_permissions_expire [OF demo_resolve none]
  show ?thesis by (simp add: expire after_def demo_resolve demo_cache db gone)
qed

subsection \<open>What is left of revoked permissions\<close>

text \<open>
  The time after a revocation: guards look up the permissions of users, the same one or others, and
  the clock runs. The identifiers of users have no colon (they are UUIDs), so that two users never
  share a key of the cache.
\<close>

inductive lookups :: "world \<Rightarrow> world \<Rightarrow> bool" where
  Start: "lookups w w"
| Look: "lookups w v \<Longrightarrow> CHR '':'' \<notin> set userId \<Longrightarrow> resolve userId tenantId v = (r, v') \<Longrightarrow> lookups w v'"
| Tick: "lookups w v \<Longrightarrow> w_now v \<le> t \<Longrightarrow> lookups w (v\<lparr>w_now := t\<rparr>)"

text \<open>
  \<open>drained D u T w\<close>: the database grants \<open>u\<close> nothing in \<open>T\<close>, and what the cache still holds for \<open>u\<close> is
  nothing or ends at \<open>D\<close> at the latest.
\<close>

definition drained :: "int \<Rightarrow> string \<Rightarrow> string \<Rightarrow> world \<Rightarrow> bool" where
  "drained D u T w \<longleftrightarrow>
     database_permissions w u T = {} \<and>
     (\<forall>ps x. w_permCache w (cache_key u (Some T)) = Some (ps, x) \<longrightarrow> ps = [] \<or> (\<exists>y. x = Some y \<and> y \<le> D))"

lemma cache_key_user:
  assumes "CHR '':'' \<notin> set u" and "CHR '':'' \<notin> set v" and "cache_key v t = cache_key u t'"
  shows "v = u \<and> orElse t ''null'' = orElse t' ''null''"
  using assms
proof (induction v arbitrary: u)
  case Nil
  then show ?case by (cases u) (auto simp: cache_key_def)
next
  case (Cons c v)
  then obtain c' u' where "u = c' # u'" by (cases u) (auto simp: cache_key_def)
  with Cons show ?case by (auto simp: cache_key_def)
qed

lemma database_permissions_frame [simp]:
  "database_permissions (w\<lparr>w_permCache := c\<rparr>) u T = database_permissions w u T"
  "database_permissions (w\<lparr>w_now := t\<rparr>) u T = database_permissions w u T"
  by (simp_all add: database_permissions_def cong: option.case_cong)

lemma drained_lookup:
  assumes "drained D u T w" and "CHR '':'' \<notin> set u" and "CHR '':'' \<notin> set v" and "resolve v t w = (r, w')"
  shows "drained D u T w'"
proof (cases "kv_get (w_now w) (w_permCache w) (cache_key v t)")
  case (Some ps)
  with assms(1,4) show ?thesis by (auto simp: resolve_def await_run)
next
  case None
  obtain l w1 where load: "loadFromDb v t w = (l, w1)" by fastforce
  then have w1: "w1 = w" by (rule loadFromDb_state)
  show ?thesis
  proof (cases l)
    case (Inl e)
    with assms(1,4) None load w1 show ?thesis by (auto simp: resolve_def await_run)
  next
    case (Inr ps)
    with assms(4) None load w1 have w': "w' = w\<lparr>w_permCache :=
        kv_set (cache_key v t) ps (Some (w_now w + CACHE_TTL)) (w_permCache w)\<rparr>"
      by (auto simp: resolve_def await_run)
    have "ps = []" if "cache_key v t = cache_key u (Some T)"
    proof -
      from load Inr obtain i where t: "t = Some i" by (cases t) (auto simp: loadFromDb_def)
      with cache_key_user [OF assms(2,3) that] have same: "v = u" "i = T" by simp_all
      have "set ps = database_permissions w v i"
        using load by (simp only: Inr t loadFromDb_granted database_permissions_def)
      with assms(1) show ?thesis by (simp add: drained_def same)
    qed
    with assms(1) show ?thesis by (auto simp: w' drained_def kv_set_def)
  qed
qed

lemma resolve_frame: "resolve v t w = (r, w') \<Longrightarrow> w_tenants w' = w_tenants w \<and> w_schemas w' = w_schemas w"
proof -
  assume run: "resolve v t w = (r, w')"
  obtain l w1 where load: "loadFromDb v t w = (l, w1)" by fastforce
  then have "w1 = w" by (rule loadFromDb_state)
  with run load show ?thesis
    by (cases "kv_get (w_now w) (w_permCache w) (cache_key v t)"; cases l) (auto simp: resolve_def await_run)
qed

lemma lookups_keep: "lookups w v \<Longrightarrow> w_tenants v = w_tenants w \<and> w_schemas v = w_schemas w"
  by (induction rule: lookups.induct) (simp_all add: resolve_frame)

lemma drained_tick: "drained D u T (w\<lparr>w_now := t\<rparr>) = drained D u T w"
proof -
  have "w_permCache (w\<lparr>w_now := t\<rparr>) = w_permCache w" by simp
  then show ?thesis unfolding drained_def database_permissions_frame by simp
qed

lemma drained_later:
  assumes "lookups w v" and "drained D u T w" and "CHR '':'' \<notin> set u"
  shows "drained D u T v"
  using assms
proof (induction rule: lookups.induct)
  case (Look w v userId tenantId r v')
  from drained_lookup [OF Look.IH [OF Look.prems] Look.prems(2) Look.hyps(2,3)] show ?case .
next
  case (Tick w v t)
  from Tick.IH [OF Tick.prems] show ?case by (simp only: drained_tick)
qed

lemma drained_holds_nothing:
  assumes "drained D u T w" and "D \<le> w_now w"
  shows "held_permissions w u (Some T) = {}"
proof (cases "kv_get (w_now w) (w_permCache w) (cache_key u (Some T))")
  case None
  with assms(1) show ?thesis by (simp add: drained_def held_permissions_def database_permissions_def)
next
  case (Some ps)
  with assms have "ps = []" by (fastforce simp: drained_def kv_get_def split: option.splits if_splits)
  with Some show ?thesis by (simp add: held_permissions_def)
qed

end
