(* ===== verification/Staff_Properties.thy ===== *)
theory Staff_Properties
  imports Role_Properties Access_Properties
begin

text \<open>
  Properties of staff: what the end of an employment takes away, and what the guard of the last
  owner of a tenant does and does not prevent.
\<close>

definition owner_assignments :: "tenant_db \<Rightarrow> nat" where
  "owner_assignments db = countRows (owner_assignment db) (db_memberships db)"

definition holds_ownership :: "tenant_db \<Rightarrow> string \<Rightarrow> bool" where
  "holds_ownership db u \<longleftrightarrow> (\<exists>m \<in> set (db_memberships db). ubm_userId m = u \<and> owner_assignment db m)"

lemma guard_last_owner_run:
  assumes "w_schemas w s = Some db" and "valid_schema_name s"
  shows "guard_last_owner u s w =
    (if holds_ownership db u \<and> owner_assignments db \<le> 1
     then (Inl (Permission CannotRemoveLastOwnerException), w) else (Inr (), w))"
proof -
  have "findRow (\<lambda>m. ubm_userId m = u \<and> owner_assignment db m) (db_memberships db) \<noteq> None \<longleftrightarrow>
      holds_ownership db u"
    unfolding findRow_None_iff by (auto simp: holds_ownership_def)
  with assms show ?thesis
    by (simp add: guard_last_owner_def isOwner_def await_run forSchema_run read_db_run throwIf_run
        owner_assignments_def)
qed

text \<open>What a deactivation leaves behind.\<close>

definition dismissed :: "string \<Rightarrow> string \<Rightarrow> string \<Rightarrow> string \<Rightarrow> tenant_db \<Rightarrow> world \<Rightarrow> world" where
  "dismissed u T s by db w =
     (let ids = map s_id (filter (session_of_tenant u T) (w_sessions w)) in
      on_schema s (db_memberships_update (updateRows (active_assignment u)
          (revoke_assignment (w_now w) (''deactivated_by:'' @ by))))
        (w\<lparr>w_tenantMemberships := updateRows
             (\<lambda>m. tm_userId m = u \<and> tm_tenantId m = T \<and> tm_status m = TenantMembershipStatus.ACTIVE)
             (\<lambda>m. m\<lparr>tm_status := TenantMembershipStatus.SUSPENDED\<rparr>) (w_tenantMemberships w),
           w_sessions := updateRows (session_of_tenant u T)
             (end_row (w_now w) SessionEndReason.REVOKED_BY_ADMIN) (w_sessions w),
           w_refreshTokens := updateRows
             (\<lambda>r. rt_sessionId r \<in> set ids \<and> rt_revokedAt r = None)
             (revoke_row (w_now w) ''staff_deactivated'') (w_refreshTokens w)\<rparr>))"

lemma repo_deactivateStaff_run:
  assumes "w_schemas w s = Some db" and "valid_schema_name s"
  shows "repo_deactivateStaff u T s by w = (Inr (), dismissed u T s by db w)"
proof -
  note run = repo_deactivateStaff_def suspend_membership_def revoke_session_tokens_def dismissed_def
    await_run forSchema_run findMany_run updateMany_run Let_def on_schema_def
  have none: "updateRows (\<lambda>r. False) f t = t" for f and t :: "refresh_token list"
    by (simp add: updateRows_def)
  show ?thesis
  proof (cases "filter (session_of_tenant u T) (w_sessions w)")
    case Nil
    with assms show ?thesis by (simp add: run none)
  next
    case (Cons x xs)
    with assms show ?thesis by (simp add: run)
  qed
qed

lemma updateRows_done: "(\<And>r. \<not> p (f r)) \<Longrightarrow> list_all (\<lambda>r. \<not> p r) (updateRows p f t)"
  by (induction t) (simp_all add: updateRows_def)

lemma ended_not_open: "\<not> session_of_tenant u T (end_row now reason x)"
  by (simp add: session_of_tenant_def end_row_def)

lemma deactivateStaff_run:
  assumes "w_schemas w s = Some db" and "valid_schema_name s" and "getSchemaName T w = (Inr s, w)"
  shows "deactivateStaff u T by w =
    (if holds_ownership db u \<and> owner_assignments db \<le> 1
     then (Inl (Permission CannotRemoveLastOwnerException), w)
     else (Inr (), dismissed u T s by db w))"
  using assms
  by (simp add: deactivateStaff_def await_run guard_last_owner_run [OF assms(1,2)]
      repo_deactivateStaff_run [OF assms(1,2)])

lemma dismissed_schema:
  assumes "w_schemas w s = Some db"
  shows "w_schemas (dismissed u T s by db w) s =
    Some (db_memberships_update (updateRows (active_assignment u)
      (revoke_assignment (w_now w) (''deactivated_by:'' @ by))) db)"
  using assms by (simp add: dismissed_def Let_def)

definition active_roles :: "tenant_db \<Rightarrow> string \<Rightarrow> string set" where
  "active_roles db u = ubm_roleId ` {m \<in> set (db_memberships db). active_assignment u m}"

lemma granted_by_roles:
  "granted db u = {pm_slug p | p rp. rp \<in> set (db_rolePermissions db) \<and> rp_roleId rp \<in> active_roles db u \<and>
     lookupBy pm_id (rp_permissionId rp) (db_permissions db) = Some p}"
  by (auto simp: granted_def active_roles_def image_iff)

lemma active_roles_after_revocation:
  "active_roles (db_memberships_update (updateRows (active_assignment u) (revoke_assignment now reason)) db) v =
     (if v = u then {} else active_roles db v)"
proof -
  define f where "f m = (if active_assignment u m then revoke_assignment now reason m else m)" for m
  have active: "active_assignment v (f m) \<longleftrightarrow> v \<noteq> u \<and> active_assignment v m" for m
    by (auto simp: f_def active_assignment_def revoke_assignment_def)
  have role: "ubm_roleId (f m) = ubm_roleId m" for m
    by (simp add: f_def revoke_assignment_def)
  have rows: "updateRows (active_assignment u) (revoke_assignment now reason) t = map f t" for t
    by (simp add: updateRows_def f_def)
  have "{m \<in> f ` M. active_assignment v m} = f ` {m \<in> M. v \<noteq> u \<and> active_assignment v m}" for M
    by (auto simp: active)
  then show ?thesis by (simp add: active_roles_def rows image_image role)
qed

lemma granted_after_revocation:
  "granted (db_memberships_update (updateRows (active_assignment u) (revoke_assignment now reason)) db) v =
     (if v = u then {} else granted db v)"
  by (simp add: granted_by_roles active_roles_after_revocation)

text \<open>C33: the guard of the last owner. Deactivating a member of staff is refused, with nothing
  changed, exactly when the member holds the owner role and the tenant has no second assignment of
  that role; a change of role is refused in the same case, whatever role is asked for.\<close>

theorem last_owner_guard_exact:
  assumes "w_schemas w s = Some db" and "valid_schema_name s" and "getSchemaName T w = (Inr s, w)"
  shows "(deactivateStaff u T by w = (Inl (Permission CannotRemoveLastOwnerException), w) \<longleftrightarrow>
      holds_ownership db u \<and> owner_assignments db \<le> 1) \<and>
    returns (deactivateStaff u T by) w = (\<not> (holds_ownership db u \<and> owner_assignments db \<le> 1)) \<and>
    (updateStaffRole E u T by roleId branchId w = (Inl (Permission CannotRemoveLastOwnerException), w) \<longleftrightarrow>
      lookupBy r_id roleId (db_roles db) \<noteq> None \<and> holds_ownership db u \<and> owner_assignments db \<le> 1)"
proof -
  have "updateRoleAssignment E u s by roleId branchId w \<noteq> (Inl (Permission CannotRemoveLastOwnerException), w)"
    using assms
    by (auto simp: updateRoleAssignment_def await_run forSchema_run transaction_run findFirst_run
        updateMany_run create_run Let_def split: if_splits)
  with assms show ?thesis
    by (auto simp: deactivateStaff_run returns_def updateStaffRole_def await_run forSchema_run
        findUnique_run throwIf_run guard_last_owner_run split: if_splits)
qed

text \<open>
  Two tenants: one whose only owner has one assignment of the role, and one whose only owner has two,
  for the whole tenant and for a branch.
\<close>

definition demo_owned_db :: tenant_db where
  "demo_owned_db = demo_db
     \<lparr>db_memberships := [demo_assignment, demo_assignment\<lparr>ubm_id := ''a2'', ubm_branchId := None\<rparr>]\<rparr>"

definition demo_owned_world :: world where
  "demo_owned_world = demo_crm_world
     \<lparr>w_schemas := [demo_schema \<mapsto> demo_owned_db], w_sessions := [demo_session],
      w_refreshTokens := [demo_token]\<rparr>"

lemma demo_owned_simps [simp]:
  "w_schemas demo_owned_world = [demo_schema \<mapsto> demo_owned_db]"
  "w_tenants demo_owned_world = [demo_tenant]" "w_sessions demo_owned_world = [demo_session]"
  "w_refreshTokens demo_owned_world = [demo_token]"
  by (simp_all add: demo_owned_world_def)

lemmas demo_ownership = holds_ownership_def owner_assignments_def owner_assignment_def has_role_slug_def
  countRows_def demo_db_def demo_assignment_def demo_role_def

lemma demo_owned:
  "\<not> (holds_ownership demo_owned_db ''owner'' \<and> owner_assignments demo_owned_db \<le> 1)"
  "owner_assignments demo_owned_db = 2"
  by (simp_all add: demo_owned_db_def demo_ownership)

lemma last_owner_guard_exact_witness:
  "deactivateStaff ''owner'' ''t1'' ''owner'' demo_crm_world =
     (Inl (Permission CannotRemoveLastOwnerException), demo_crm_world) \<and>
   returns (deactivateStaff ''owner'' ''t1'' ''owner'') demo_owned_world"
proof
  have "holds_ownership demo_db ''owner'' \<and> owner_assignments demo_db \<le> 1"
    by (simp add: demo_ownership)
  with last_owner_guard_exact [of demo_crm_world demo_schema demo_db "''t1''" "''owner''" "''owner''"]
  show "deactivateStaff ''owner'' ''t1'' ''owner'' demo_crm_world =
     (Inl (Permission CannotRemoveLastOwnerException), demo_crm_world)" by simp
  from last_owner_guard_exact [of demo_owned_world demo_schema demo_owned_db "''t1''" "''owner''" "''owner''"]
  show "returns (deactivateStaff ''owner'' ''t1'' ''owner'') demo_owned_world"
    using demo_owned by simp
qed

text \<open>
  The cache of permissions is not told of a deactivation. Its entries end within its time to live,
  which is all that is asked of it here.
\<close>

definition cache_bounded :: "string \<Rightarrow> string \<Rightarrow> world \<Rightarrow> bool" where
  "cache_bounded u T w \<longleftrightarrow>
     (\<forall>ps x. w_permCache w (cache_key u (Some T)) = Some (ps, x) \<longrightarrow> (\<exists>y. x = Some y \<and> y \<le> w_now w + CACHE_TTL))"

lemma dismissed_database:
  assumes "w_schemas w s = Some db" and "getSchemaName T w = (Inr s, w)"
  shows "database_permissions (dismissed u T s by db w) v T = (if v = u then {} else database_permissions w v T)"
proof -
  obtain t where t: "lookupBy t_id T (w_tenants w) = Some t" "t_schemaName t = s"
    using assms(2) by (auto simp: getSchemaName_run split: option.splits)
  have "w_tenants (dismissed u T s by db w) = w_tenants w" by (simp add: dismissed_def Let_def)
  then show ?thesis
    by (simp add: database_permissions_def t(1) t(2) dismissed_schema [OF assms(1)] assms(1)
        granted_after_revocation del: on_schema_same)
qed

lemma dismissed_drains:
  assumes "w_schemas w s = Some db" and "getSchemaName T w = (Inr s, w)" and "cache_bounded u T w"
  shows "drained (w_now w + CACHE_TTL) u T (dismissed u T s by db w)"
proof -
  have "w_permCache (dismissed u T s by db w) = w_permCache w" by (simp add: dismissed_def Let_def)
  with assms(3) show ?thesis by (auto simp: drained_def dismissed_database [OF assms(1,2)] cache_bounded_def)
qed

text \<open>Whom the guard refuses: a member of the tenant whose principal carries no permissions yet.\<close>

definition member :: "string \<Rightarrow> string \<Rightarrow> AuthenticatedUser \<Rightarrow> bool" where
  "member u T p \<longleftrightarrow> tenant_scoped p \<and> au_permissions p = [] \<and> au_userId p = u \<and> au_tenantId p = Some T"

lemma drained_refused:
  assumes "drained D u T w" and "D \<le> w_now w" and "lookupBy t_id T (w_tenants w) = Some t"
    and "valid_schema_name (t_schemaName t)" and "w_schemas w (t_schemaName t) = Some db"
    and "member u T p" and "slugs \<noteq> []"
  shows "outcome (permissionsGuard (Some resolve) (Some slugs) False (Some p)) w =
    Inl (Permission (InsufficientPermissionsException (Some slugs)))"
proof -
  have empty: "held_permissions w u (Some T) = {}" by (rule drained_holds_nothing [OF assms(1,2)])
  have "\<exists>ps w'. resolve u (Some T) w = (Inr ps, w')"
  proof (cases "kv_get (w_now w) (w_permCache w) (cache_key u (Some T))")
    case None
    from resolve_cold [OF this assms(3-5)] show ?thesis by blast
  qed (simp add: resolve_def await_run)
  then obtain ps w' where run: "resolve (au_userId p) (au_tenantId p) w = (Inr ps, w')"
    using assms(6) by (auto simp: member_def)
  have p: "tenant_scoped p" "au_permissions p = []" "au_userId p = u" "au_tenantId p = Some T"
    using assms(6) by (simp_all add: member_def)
  have none: "held_permissions w (au_userId p) (au_tenantId p) = {}"
    unfolding p(3,4) by (rule empty)
  then have "\<not> set slugs \<subseteq> held_permissions w (au_userId p) (au_tenantId p)" using assms(7) by simp
  from resolver.guard_error_names_missing [OF p(1,2) run this] none show ?thesis by simp
qed

lemma dismissed_tokens:
  assumes "findByHash (hashRefreshToken E raw) w = (Inr (Some r), w)"
    and "\<exists>x \<in> set (w_sessions w). session_of_tenant u T x \<and> s_id x = rt_sessionId r"
    and "w' = dismissed u T s by db w"
  shows "refresh E raw w' = (Inl (Auth RefreshTokenInvalidException), w')"
proof -
  let ?open = "s_id ` {x \<in> set (w_sessions w). session_of_tenant u T x}"
  let ?revoke = "revoke_row (w_now w) ''staff_deactivated''"
  have tokens: "w_refreshTokens w' =
      updateRows (\<lambda>r. rt_sessionId r \<in> ?open \<and> rt_revokedAt r = None) ?revoke (w_refreshTokens w)"
    by (simp add: assms(3) dismissed_def Let_def)
  have "lookupBy rt_tokenHash (hashRefreshToken E raw) (w_refreshTokens w) = Some r"
    using assms(1) by (simp add: findByHash_def findUnique_run)
  then have "lookupBy rt_tokenHash (hashRefreshToken E raw) (w_refreshTokens w') =
      Some (if rt_sessionId r \<in> ?open \<and> rt_revokedAt r = None then ?revoke r else r)"
    by (simp add: tokens lookupBy_updateRows revoke_row_def)
  moreover have "rt_sessionId r \<in> ?open" using assms(2) by force
  ultimately obtain r' where "lookupBy rt_tokenHash (hashRefreshToken E raw) (w_refreshTokens w') = Some r'"
    and "rt_revokedAt r' \<noteq> None"
    by (simp add: revoke_row_def split: if_splits)
  then show ?thesis
    by (simp add: refresh_def check_refresh_def findByHash_def findUnique_run await_run throwIf_run)
qed

text \<open>C34: a deactivation takes effect. When it returns, the database grants the member nothing in the
  tenant and the others what it granted them before, every session that the member had with the
  tenant is ended, and a refresh token of one of the sessions that were open is refused. The cache of
  permissions is not invalidated, so the guard may still pass the member for the rest of the sixty
  seconds of an entry; later than sixty seconds after the deactivation it refuses the member every
  permission, when nothing but lookups of permissions, of this and of other users, came in between. Of
  the cache it is assumed that no entry of the member outlives its sixty seconds, which every lookup
  sees to.\<close>

theorem deactivation_is_complete:
  assumes "w_schemas w s = Some db" and "valid_schema_name s" and "getSchemaName T w = (Inr s, w)"
    and "deactivateStaff u T by w = (Inr (), w')"
    and "findByHash (hashRefreshToken E raw) w = (Inr (Some r), w)"
    and "\<exists>x \<in> set (w_sessions w). session_of_tenant u T x \<and> s_id x = rt_sessionId r"
    and "cache_bounded u T w" and "CHR '':'' \<notin> set u"
    and "lookups w' v" and "w_now w + 60000 < w_now v" and "member u T p" and "slugs \<noteq> []"
  shows "(\<forall>v. database_permissions w' v T =
      (if v = u then {} else database_permissions w v T)) \<and>
    list_all (\<lambda>x. \<not> session_of_tenant u T x) (w_sessions w') \<and>
    refresh E raw w' = (Inl (Auth RefreshTokenInvalidException), w') \<and>
    outcome (permissionsGuard (Some resolve) (Some slugs) False (Some p)) v =
      Inl (Permission (InsufficientPermissionsException (Some slugs)))"
proof (intro conjI allI)
  have w': "w' = dismissed u T s by db w"
    using assms(4) by (simp add: deactivateStaff_run [OF assms(1-3)] split: if_splits)
  show "database_permissions w' v T = (if v = u then {} else database_permissions w v T)" for v
    unfolding w' by (rule dismissed_database [OF assms(1,3)])
  show "list_all (\<lambda>x. \<not> session_of_tenant u T x) (w_sessions w')"
    by (simp add: w' dismissed_def Let_def updateRows_done ended_not_open)
  show "refresh E raw w' = (Inl (Auth RefreshTokenInvalidException), w')"
    by (rule dismissed_tokens [OF assms(5,6) w'])
  have "drained (w_now w + CACHE_TTL) u T v"
    using drained_later [OF assms(9) _ assms(8)] dismissed_drains [OF assms(1,3,7)] unfolding w' by blast
  moreover have "w_now w + CACHE_TTL \<le> w_now v" using assms(10) by (simp add: CACHE_TTL_def)
  moreover obtain t where "lookupBy t_id T (w_tenants v) = Some t" "t_schemaName t = s"
    using assms(3) lookups_keep [OF assms(9)]
    by (auto simp: getSchemaName_run w' dismissed_def Let_def split: option.splits)
  moreover have "w_schemas v s \<noteq> None"
    using lookups_keep [OF assms(9)] dismissed_schema [OF assms(1)] by (simp add: w')
  ultimately show "outcome (permissionsGuard (Some resolve) (Some slugs) False (Some p)) v =
      Inl (Permission (InsufficientPermissionsException (Some slugs)))"
    using drained_refused assms(2,11,12) by blast
qed

text \<open>A member whose permissions were looked up just before the deactivation, and again after it.\<close>

definition demo_staffed_db :: tenant_db where
  "demo_staffed_db = demo_owned_db
     \<lparr>db_permissions := db_permissions demo_clerk_db, db_rolePermissions := db_rolePermissions demo_clerk_db\<rparr>"

definition demo_cached_world :: world where
  "demo_cached_world = demo_owned_world
     \<lparr>w_schemas := [demo_schema \<mapsto> demo_staffed_db],
      w_permCache := kv_set (cache_key ''owner'' (Some ''t1'')) [''tenant:leads:create''] (Some 1060000) (\<lambda>_. None)\<rparr>"

lemma demo_cached_simps [simp]:
  "w_schemas demo_cached_world = [demo_schema \<mapsto> demo_staffed_db]"
  "w_tenants demo_cached_world = [demo_tenant]" "w_sessions demo_cached_world = [demo_session]"
  "w_refreshTokens demo_cached_world = [demo_token]" "w_now demo_cached_world = 1000000"
  "w_permCache demo_cached_world =
     kv_set (cache_key ''owner'' (Some ''t1'')) [''tenant:leads:create''] (Some 1060000) (\<lambda>_. None)"
  by (simp_all add: demo_cached_world_def demo_owned_world_def)

lemma demo_cached_lookup:
  "resolve ''owner'' (Some ''t1'') (demo_owned_world\<lparr>w_schemas := [demo_schema \<mapsto> demo_staffed_db]\<rparr>) =
     (Inr [''tenant:leads:create''], demo_cached_world)"
proof -
  let ?w = "demo_owned_world\<lparr>w_schemas := [demo_schema \<mapsto> demo_staffed_db]\<rparr>"
  have base: "w_permCache ?w = (\<lambda>_. None)" "w_now ?w = 1000000"
    by (simp_all add: demo_owned_world_def demo_crm_world_def demo_world_def empty_world_def)
  have load: "loadFromDb ''owner'' (Some ''t1'') ?w = (Inr [''tenant:leads:create''], ?w)"
    by (simp add: loadFromDb_def await_run findUnique_run findMany_run query_run forSchema_run
        demo_staffed_db_def demo_owned_db_def demo_db_def demo_assignment_def demo_clerk_db_def
        active_assignment_def permission_slugs_of_def)
  show ?thesis
    by (simp add: resolve_def await_run base kv_get_def load CACHE_TTL_def demo_cached_world_def)
qed

lemma deactivation_is_complete_witness:
  "\<exists>w'. deactivateStaff ''owner'' ''t1'' ''admin'' demo_cached_world = (Inr (), w') \<and>
     database_permissions w' ''owner'' ''t1'' = {} \<and>
     refresh demo_env ''u2.u3'' w' = (Inl (Auth RefreshTokenInvalidException), w') \<and>
     held_permissions (w'\<lparr>w_now := 1059999\<rparr>) ''owner'' (Some ''t1'') = {''tenant:leads:create''} \<and>
     outcome (permissionsGuard (Some resolve) (Some [''tenant:leads:create'']) False (Some demo_clerk))
       ((after (resolve ''owner'' (Some ''t1'')) w')\<lparr>w_now := 1060001\<rparr>) =
       Inl (Permission (InsufficientPermissionsException (Some [''tenant:leads:create''])))"
proof -
  have db: "w_schemas demo_cached_world demo_schema = Some demo_staffed_db" by simp
  have name: "getSchemaName ''t1'' demo_cached_world = (Inr demo_schema, demo_cached_world)" by simp
  let ?w = "dismissed ''owner'' ''t1'' demo_schema ''admin'' demo_staffed_db demo_cached_world"
  have "owner_assignment demo_staffed_db = owner_assignment demo_owned_db"
    by (rule ext) (simp add: demo_staffed_db_def owner_assignment_def has_role_slug_def)
  then have same: "holds_ownership demo_staffed_db u = holds_ownership demo_owned_db u"
    "owner_assignments demo_staffed_db = owner_assignments demo_owned_db" for u
    by (simp_all add: holds_ownership_def owner_assignments_def) (simp_all add: demo_staffed_db_def)
  have run: "deactivateStaff ''owner'' ''t1'' ''admin'' demo_cached_world = (Inr (), ?w)"
    unfolding deactivateStaff_run [OF db demo_valid name] same using demo_owned by simp
  have token: "findByHash (hashRefreshToken demo_env ''u2.u3'') demo_cached_world =
      (Inr (Some demo_token), demo_cached_world)"
    by (simp add: findByHash_def findUnique_run hashRefreshToken_def demo_token_def)
  have session: "\<exists>x \<in> set (w_sessions demo_cached_world).
      session_of_tenant ''owner'' ''t1'' x \<and> s_id x = rt_sessionId demo_token"
    by (simp add: demo_session_def demo_token_def session_of_tenant_def)
  have cache: "cache_bounded ''owner'' ''t1'' demo_cached_world"
    by (simp add: cache_bounded_def kv_set_def CACHE_TTL_def)
  have user: "CHR '':'' \<notin> set ''owner''" by simp
  have kept: "w_permCache ?w = w_permCache demo_cached_world" "w_now ?w = 1000000"
    by (simp_all add: dismissed_def Let_def)
  have "resolve ''owner'' (Some ''t1'') ?w = (Inr [''tenant:leads:create''], ?w)"
    by (simp add: resolve_def await_run kept redis.put_until)
  then have "lookups ?w ?w" "after (resolve ''owner'' (Some ''t1'')) ?w = ?w"
    by (auto simp: after_def intro: lookups.Look [OF lookups.Start user])
  then have later: "lookups ?w ((after (resolve ''owner'' (Some ''t1'')) ?w)\<lparr>w_now := 1060001\<rparr>)"
    by (simp add: lookups.Tick kept)
  have clerk: "member ''owner'' ''t1'' demo_clerk"
    using demo_clerk_facts by (simp add: member_def)
  have "held_permissions (?w\<lparr>w_now := 1059999\<rparr>) ''owner'' (Some ''t1'') = {''tenant:leads:create''}"
    by (simp add: held_permissions_def kept redis.put_until)
  with deactivation_is_complete [OF db demo_valid name run token session cache user later _ clerk,
      of "[''tenant:leads:create'']"] run
  show ?thesis by simp
qed

lemma owner_assignment_frame: "owner_assignment (db_memberships_update g db) m = owner_assignment db m"
  by (simp add: owner_assignment_def has_role_slug_def)

lemma no_owner_after_revocation:
  assumes "\<forall>m \<in> set (db_memberships db). owner_assignment db m \<longrightarrow> ubm_userId m = u"
  shows "owner_assignments (db_memberships_update
    (updateRows (active_assignment u) (revoke_assignment now reason)) db) = 0"
proof -
  have "\<not> owner_assignment db (if active_assignment u m then revoke_assignment now reason m else m)"
    if "m \<in> set (db_memberships db)" for m
    using assms that by (auto simp: owner_assignment_def active_assignment_def revoke_assignment_def)
  then show ?thesis
    by (simp add: owner_assignments_def countRows_def owner_assignment_frame updateRows_def filter_empty_conv)
qed

text \<open>The guard counts assignments and not people. When all the ownership of a tenant is with
  one member who holds the role twice (at two branches, say), the member can be deactivated, and the
  tenant is left without an owner.\<close>

theorem sole_owner_can_be_deactivated:
  assumes "w_schemas w s = Some db" and "valid_schema_name s" and "getSchemaName T w = (Inr s, w)"
    and "\<forall>m \<in> set (db_memberships db). owner_assignment db m \<longrightarrow> ubm_userId m = u"
    and "2 \<le> owner_assignments db"
  shows "\<exists>w'. deactivateStaff u T by w = (Inr (), w') \<and>
    map_option owner_assignments (w_schemas w' s) = Some 0"
  using assms(5)
  by (simp add: deactivateStaff_run [OF assms(1-3)] dismissed_schema [OF assms(1)]
      no_owner_after_revocation [OF assms(4)])

lemma sole_owner_can_be_deactivated_witness:
  "\<exists>w'. deactivateStaff ''owner'' ''t1'' ''owner'' demo_owned_world = (Inr (), w') \<and>
     map_option owner_assignments (w_schemas w' demo_schema) = Some 0"
  by (rule sole_owner_can_be_deactivated [where db = demo_owned_db])
     (use demo_owned(2) in \<open>simp_all add: demo_owned_db_def demo_db_def demo_assignment_def\<close>)

end
