(* ===== verification/Webhook_Properties.thy ===== *)
theory Webhook_Properties
  imports Staff_Properties
begin

text \<open>
  Properties of the tokens of webhooks: what the key-value store and the table of the tenant have to
  agree on for a token to work, and how a new token replaces the old one.
\<close>

lemma split_token_context:
  assumes "T \<noteq> ''''" and "CHR ''|'' \<notin> set T" and "valid_schema_name s"
  shows "split_context (token_context T s) = Some (T, s)"
proof -
  have "list_all is_hex_lower (drop 7 s)" and s: "s = ''tenant_'' @ drop 7 s"
    using assms(3) append_take_drop_id [of 7 s] by (simp_all add: valid_schema_name_def)
  moreover have "\<not> is_hex_lower (CHR ''|'')" by code_simp
  ultimately have "CHR ''|'' \<notin> set (drop 7 s)" by (auto simp: list_all_iff)
  then have "CHR ''|'' \<notin> set s" by (subst s) simp
  then have schema: "takeWhile (\<lambda>c. c \<noteq> CHR ''|'') s = s"
    by (subst takeWhile_eq_all_conv) auto
  have tenant: "takeWhile (\<lambda>c. c \<noteq> CHR ''|'') (T @ CHR ''|'' # s) = T"
    using assms(2) by (subst takeWhile_append2) auto
  have "s \<noteq> []" using s by auto
  with assms(1) show ?thesis
    by (simp add: split_context_def token_context_def tenant schema del: takeWhile_eq_all_conv)
qed

lemma retoken_found:
  assumes "lookupBy wh_id i t = Some h" and "uniqueBy wh_id t"
    and "\<not> existsRow (\<lambda>h'. wh_id h' \<noteq> i \<and> webhook_clash (h\<lparr>wh_token := token\<rparr>) h') t"
  shows "lookupBy wh_token token (updateBy wh_id i (\<lambda>h. h\<lparr>wh_token := token\<rparr>) t) =
    Some (h\<lparr>wh_token := token\<rparr>)"
proof -
  let ?t = "updateBy wh_id i (\<lambda>h. h\<lparr>wh_token := token\<rparr>) t"
  have h: "h \<in> set t" "wh_id h = i" using lookupBy_in [OF assms(1)] by simp_all
  then have "h\<lparr>wh_token := token\<rparr> \<in> set ?t" by (auto simp: updateBy_def set_updateRows)
  then obtain r where r: "lookupBy wh_token token ?t = Some r"
    by (cases "lookupBy wh_token token ?t") (force simp: lookupBy_None_iff)+
  then have "r \<in> set ?t" "wh_token r = token" by (auto dest: lookupBy_in)
  then obtain r0 where r0: "r0 \<in> set t" "r = (if wh_id r0 = i then r0\<lparr>wh_token := token\<rparr> else r0)"
    by (auto simp: updateBy_def set_updateRows)
  have "wh_id r0 = i"
    using assms(3) r0 \<open>wh_token r = token\<close>
    by (auto simp: existsRow_iff webhook_clash_def split: if_splits)
  moreover from this have "r0 = h"
    using assms(1) lookupBy_unique [OF assms(2) r0(1)] by simp
  ultimately show ?thesis using r r0(2) by simp
qed

lemma resolveToken_run:
  assumes "w_schemas w s = Some db" and "valid_schema_name s" and "T \<noteq> ''''" and "CHR ''|'' \<notin> set T"
    and "kv_get (w_now w) (w_redis w) (webhookRedisKey token) = Some (Text (token_context T s))"
  shows "resolveToken token w =
    (Inr (case lookupBy wh_token token (crm_webhooks (db_crm db)) of
       None \<Rightarrow> None
     | Some h \<Rightarrow>
         if wh_isActive h then Some \<lparr>tc_tenantId = T, tc_schemaName = s, tc_webhook = h\<rparr> else None), w)"
  using assms(1,2,5)
  by (simp add: resolveToken_def redis_get_def await_run split_token_context [OF assms(3,4,2)]
      webhooks_findByToken_def forSchema_run findUnique_run)

text \<open>A regenerated token replaces the old one at once. When the operation returns, the old token
  leads nowhere any more, and the new one leads to the tenant, its schema and the webhook, as long as
  the webhook is active.\<close>

theorem regenerated_token_replaces:
  assumes "w_schemas w s = Some db" and "valid_schema_name s" and "getSchemaName T w = (Inr s, w)"
    and "T \<noteq> ''''" and "CHR ''|'' \<notin> set T" and "uniqueBy wh_id (crm_webhooks (db_crm db))"
    and "lookupBy wh_id i (crm_webhooks (db_crm db)) = Some h"
    and "regenerateToken E T i w = (Inr h', w')" and "wh_token h' \<noteq> wh_token h"
  shows "outcome (resolveToken (wh_token h)) w' = Inr None \<and>
    outcome (resolveToken (wh_token h')) w' =
      Inr (if wh_isActive h then Some \<lparr>tc_tenantId = T, tc_schemaName = s, tc_webhook = h'\<rparr> else None)"
proof -
  let ?token = "e_randomHex E 32 (w_rnd w)"
  let ?f = "\<lambda>h. h\<lparr>wh_token := ?token\<rparr>"
  let ?update = "db_crm_update (crm_webhooks_update (updateBy wh_id i ?f))"
  let ?redis = "kv_set (webhookRedisKey ?token) (Text (token_context T s)) None
     (kv_del (webhookRedisKey (wh_token h)) (w_redis w))"
  have free: "\<not> existsRow (\<lambda>h''. wh_id h'' \<noteq> i \<and> webhook_clash (?f h) h'') (crm_webhooks (db_crm db))"
    and h': "h' = ?f h"
    and w': "w' = (on_schema s ?update w)\<lparr>w_rnd := Suc (w_rnd w), w_redis := ?redis\<rparr>"
    using assms(1-3,7,8)
    by (auto simp: regenerateToken_def existing_webhook_def webhooks_findById_def updateToken_def
        await_run forSchema_run findUnique_run updateChecked_run both_run redis_del_def redis_set_def
        on_schema_def split: if_splits)
  have keys: "webhookRedisKey (wh_token h) \<noteq> webhookRedisKey ?token"
    using assms(9) by (simp add: webhookRedisKey_def h')
  then have "kv_get (w_now w') (w_redis w') (webhookRedisKey (wh_token h)) = None"
    by (simp add: w' redis.get_put redis.get_remove)
  then have "outcome (resolveToken (wh_token h)) w' = Inr None"
    by (simp add: outcome_def resolveToken_def redis_get_def await_run)
  moreover have "outcome (resolveToken ?token) w' =
      Inr (if wh_isActive h then Some \<lparr>tc_tenantId = T, tc_schemaName = s, tc_webhook = h'\<rparr> else None)"
  proof -
    have db': "w_schemas w' s = Some (?update db)" by (simp add: w' assms(1))
    have key': "kv_get (w_now w') (w_redis w') (webhookRedisKey ?token) = Some (Text (token_context T s))"
      by (simp add: w' redis.get_put)
    from resolveToken_run [OF db' assms(2,4,5) key'] show ?thesis
      by (simp add: outcome_def retoken_found [OF assms(7,6) free] h')
  qed
  ultimately show ?thesis by (simp add: h')
qed

definition demo_webhook :: lead_webhook where
  "demo_webhook =
     \<lparr>wh_id = ''w1'', wh_branchId = ''b1'', wh_sourceId = None, wh_name = ''Form'',
      wh_token = ''old'', wh_isActive = True, wh_createdAt = 0\<rparr>"

definition demo_webhook_world :: world where
  "demo_webhook_world = demo_crm_world
     \<lparr>w_schemas := [demo_schema \<mapsto> demo_db\<lparr>db_crm := demo_crm\<lparr>crm_webhooks := [demo_webhook]\<rparr>\<rparr>],
      w_redis := [webhookRedisKey ''old'' \<mapsto> (Text (token_context ''t1'' demo_schema), None)]\<rparr>"

lemma regenerated_token_replaces_witness:
  "\<exists>h' w'. regenerateToken demo_env ''t1'' ''w1'' demo_webhook_world = (Inr h', w') \<and>
     outcome (resolveToken ''old'') w' = Inr None \<and>
     outcome (resolveToken (wh_token h')) w' =
       Inr (Some \<lparr>tc_tenantId = ''t1'', tc_schemaName = demo_schema, tc_webhook = h'\<rparr>)"
proof -
  let ?db = "demo_db\<lparr>db_crm := demo_crm\<lparr>crm_webhooks := [demo_webhook]\<rparr>\<rparr>"
  have db: "w_schemas demo_webhook_world demo_schema = Some ?db" by (simp add: demo_webhook_world_def)
  have name: "getSchemaName ''t1'' demo_webhook_world = (Inr demo_schema, demo_webhook_world)"
    by (simp add: demo_webhook_world_def)
  have "\<exists>w'. regenerateToken demo_env ''t1'' ''w1'' demo_webhook_world =
      (Inr (demo_webhook\<lparr>wh_token := ''0''\<rparr>), w')"
    by (simp add: regenerateToken_def existing_webhook_def webhooks_findById_def updateToken_def
        await_run findUnique_run updateChecked_run both_run demo_webhook_world_def demo_webhook_def
        existsRow_def redis_del_def redis_set_def)
  then obtain w' where run: "regenerateToken demo_env ''t1'' ''w1'' demo_webhook_world =
      (Inr (demo_webhook\<lparr>wh_token := ''0''\<rparr>), w')" ..
  have "uniqueBy wh_id (crm_webhooks (db_crm ?db))"
    and "lookupBy wh_id ''w1'' (crm_webhooks (db_crm ?db)) = Some demo_webhook"
    by (simp_all add: uniqueBy_def demo_webhook_def)
  from regenerated_token_replaces [OF db demo_valid name _ _ this run] run show ?thesis
    by (simp add: demo_webhook_def)
qed

end
