(* ===== verification/Activity_Properties.thy ===== *)
theory Activity_Properties
  imports Webhook_Properties
begin

text \<open>
  The columns of a lead that summarise its activities: how many activities it has, when the last one
  was made, and when the next of its open tasks is due. The operations on activities keep them equal
  to what a count and a search over the activities give.
\<close>

subsection \<open>What the columns mean\<close>








subsection \<open>The search for the next task\<close>








subsection \<open>One activity changes\<close>








subsection \<open>The operations\<close>




















subsection \<open>Requests that fail\<close>
















end
