(* ===== verification/Platform_Properties.thy ===== *)
theory Platform_Properties
  imports Http Activity_Properties Sql_Text Passwords
begin

text \<open>
  Properties of what surrounds the handlers: the responses to errors, the mails that the worker sends
  for the jobs of the other components, and the functions on texts.
\<close>

subsection \<open>Responses\<close>

text \<open>The failures that the platform does not speak of: those of the database client and of the
  program itself.\<close>

definition internal :: "thrown \<Rightarrow> bool" where
  "internal exn \<longleftrightarrow> (\<exists>x. exn = Thrown (Prisma x)) \<or> (\<exists>m. exn = Thrown (PlainError m))"

text \<open>The failures of the server that have an exception of their own.\<close>

definition server_failure :: "thrown \<Rightarrow> bool" where
  "server_failure exn \<longleftrightarrow>
     (case exn of
        HttpThrown e \<Rightarrow> 500 \<le> hx_status e
      | Thrown err \<Rightarrow>
          (case err of
             Tenant (TenantProvisioningFailedException reason) \<Rightarrow> True
           | Infrastructure (RateLimitExceededException n) \<Rightarrow> False
           | Infrastructure e \<Rightarrow> True
           | _ \<Rightarrow> False))"

lemma bos_status [simp]: "BosException_status (bos c m st d) = st"
  by (simp add: bos_def BosException_status_def)

lemma declared_status:
  "BosException_status (auth_options a) < 500" "BosException_status (account_options b) < 500"
  "BosException_status (user_options u) < 500" "BosException_status (permission_options p) < 500"
  "BosException_status (validation_options v) < 500" "BosException_status (custom_field_options f) < 500"
  "BosException_status (crm_options c) < 500"
proof -
  show "BosException_status (auth_options a) < 500" by (cases a) simp_all
  show "BosException_status (account_options b) < 500" by (cases b) simp_all
  show "BosException_status (user_options u) < 500" by (cases u) simp_all
  show "BosException_status (permission_options p) < 500" by (cases p) simp_all
  show "BosException_status (validation_options v) < 500" by (cases v) simp_all
  show "BosException_status (custom_field_options f) < 500" by (cases f) simp_all
  show "BosException_status (crm_options c) < 500" by (cases c) simp_all
qed

text \<open>C36: in production a response says nothing about an internal failure: whatever the database client or
  a bug of the program reports, the caller gets status 500 with the same code, text and no details,
  and every other response is independent of those texts. The filter logs exactly the internal
  failures and the declared failures of the server; every error that is the caller's is answered
  with a status below 500.\<close>

theorem responses_hide_internals:
  "buildErrorResponse True prisma_message fmt req now exn =
     (if internal exn
      then (500, \<lparr>eb_code = code_value INTERNAL_ERROR, eb_message = JStr ''Internal server error'',
        eb_details = None, eb_requestId = request_id_of req, eb_path = hr_url req, eb_timestamp = now\<rparr>)
      else buildErrorResponse False other_message fmt req now exn) \<and>
   (logged (buildErrorResponse isProd prisma_message fmt req now exn) \<longleftrightarrow>
      internal exn \<or> server_failure exn)"
proof (cases exn)
  case (HttpThrown e)
  then show ?thesis
    by (simp add: internal_def server_failure_def buildErrorResponse_def http_body_def logged_def)
next
  case (Thrown err)
  note run = internal_def server_failure_def buildErrorResponse_def logged_def Thrown
  show ?thesis
  proof (cases err)
    case (Tenant e)
    then show ?thesis by (cases e) (simp_all add: run)
  next
    case (Infrastructure e)
    then show ?thesis by (cases e) (simp_all add: run)
  next
    case (Nest e)
    then show ?thesis by (cases e) (simp_all add: run http_body_def nest_http_def)
  qed (simp_all add: run declared_status not_le)
qed

subsection \<open>Mails\<close>

definition same_outbox :: "world \<Rightarrow> world \<Rightarrow> bool" where
  "same_outbox w w' \<longleftrightarrow> w_outbound w' = w_outbound w"

interpretation outbox: effect same_outbox
  by unfold_locales (simp_all add: same_outbox_def)

lemma escaped_effect: "has_effect same_outbox (escaped fmt data k)"
  unfolding escaped_def
  by (cases "data k"; simp add: outbox.effect_throw)
     (rename_tac v, case_tac v; simp add: outbox.effect_throw outbox.effect_ret)

lemma render_effects:
  "has_effect same_outbox (renderVerifyEmail fmt data)" "has_effect same_outbox (renderPasswordReset fmt data)"
  "has_effect same_outbox (renderStaffInvite fmt data)" "has_effect same_outbox (renderTaskAssigned fmt data)"
  unfolding renderVerifyEmail_def renderPasswordReset_def renderStaffInvite_def renderTaskAssigned_def Let_def
  by (intro outbox.effect_await escaped_effect outbox.effect_ret outbox.effect_if)+

lemma mailer_effect: "has_effect same_outbox (mailer_send fmt provider fromName fromAddr job)"
proof -
  have render: "has_effect same_outbox (renderTemplate fmt job)"
    by (cases "m_templateId job") (simp_all add: renderTemplate_def render_effects)
  have draws: "has_effect same_outbox (draw f)" for f :: "nat \<Rightarrow> resend_answer"
    by (simp add: has_effect_def after_def same_outbox_def)
  have answer: "has_effect same_outbox (case a of
       Resend_data providerId \<Rightarrow> ret providerId
     | Resend_error (Some message) \<Rightarrow> throw (PlainError (''Resend send failed: '' @ message))
     | _ \<Rightarrow> throw (PlainError ''Resend send failed: Unknown Resend error''))" for a
    by (simp add: outbox.effect_throw outbox.effect_ret split: resend_answer.split option.split)
  show ?thesis unfolding mailer_send_def by (intro outbox.effect_await render draws answer)
qed

lemma outbox_update:
  assumes "w_outbound w = ms @ [m]" and "\<not> existsRow (\<lambda>m'. om_id m' = om_id m) ms"
  shows "update outboundMessages om_id (om_id m) f w = (Inr (f m), w\<lparr>w_outbound := ms @ [f m]\<rparr>)"
proof -
  have "lookupBy om_id (om_id m) (ms @ [m]) = Some m"
    using assms(2) lookupBy_None_iff [of om_id "om_id m" ms]
    by (simp add: lookupBy_append existsRow_iff)
  moreover have "updateBy om_id (om_id m) f (ms @ [m]) = ms @ [f m]"
    using assms(2) by (auto simp: updateBy_def updateRows_def existsRow_iff intro: map_idI)
  ultimately show ?thesis using assms(1) by (simp add: update_run)
qed

lemma process_mail_run:
  assumes "mj_name job = SEND_EMAIL" and "\<not> existsRow (\<lambda>m. om_id m = e_uuid E (w_rnd w)) (w_outbound w)"
  shows "(\<exists>m. om_status m = (if returns (process_mail E pm fmt provider fromName fromAddr job) w then sent else failed) \<and>
      om_recipientEmail m = m_recipientEmail (mj_data job) \<and> om_templateId m = m_templateId (mj_data job) \<and>
      (om_providerId m = None) = (om_errorMessage m \<noteq> None) \<and>
      (om_providerId m \<noteq> None) = returns (process_mail E pm fmt provider fromName fromAddr job) w \<and>
      w_outbound (after (process_mail E pm fmt provider fromName fromAddr job) w) = w_outbound w @ [m]) \<and>
    (\<exists>w1 r w2. mailer_send fmt provider fromName fromAddr (mj_data job) w1 = (r, w2) \<and>
      outcome (process_mail E pm fmt provider fromName fromAddr job) w =
        (case r of Inl e \<Rightarrow> Inl e | Inr i \<Rightarrow> Inr ()))"
proof -
  let ?data = "mj_data job"
  define m where "m = \<lparr>om_id = e_uuid E (w_rnd w), om_tenantId = m_tenantId ?data,
    om_channel = email_channel, om_messageType = transactional,
    om_recipientEmail = m_recipientEmail ?data, om_subject = m_subject ?data,
    om_templateId = m_templateId ?data, om_templateData = m_templateData ?data, om_status = sending,
    om_providerId = None, om_errorMessage = None, om_retryCount = mj_attemptsMade job,
    om_triggeredByUserId = m_triggeredByUserId ?data, om_correlationId = m_correlationId ?data,
    om_sentAt = None, om_createdAt = w_now w\<rparr>"
  define w1 where "w1 = w\<lparr>w_rnd := Suc (w_rnd w), w_outbound := w_outbound w @ [m]\<rparr>"
  obtain r w2 where send: "mailer_send fmt provider fromName fromAddr ?data w1 = (r, w2)" by fastforce
  then have "w_outbound w2 = w_outbound w @ [m]"
    using has_effectD [OF mailer_effect send] by (simp add: same_outbox_def w1_def)
  moreover have "\<not> existsRow (\<lambda>m'. om_id m' = om_id m) (w_outbound w)"
    using assms(2) by (simp add: m_def)
  ultimately have settle: "update outboundMessages om_id (om_id m) f w2 =
      (Inr (f m), w2\<lparr>w_outbound := w_outbound w @ [f m]\<rparr>)" for f
    by (rule outbox_update)
  have created: "create outboundMessages outbound_clash no_refs m (w\<lparr>w_rnd := Suc (w_rnd w)\<rparr>) = (Inr m, w1)"
    using assms(2) by (simp add: create_run outbound_clash_def [abs_def] m_def w1_def insertRow_def)
  have run: "process_mail E pm fmt provider fromName fromAddr job w =
      (case r of
         Inr providerId \<Rightarrow>
           (Inr (), w2\<lparr>w_outbound := w_outbound w @
             [m\<lparr>om_status := sent, om_providerId := Some providerId, om_sentAt := Some (w_now w2)\<rparr>]\<rparr>)
       | Inl e \<Rightarrow>
           (Inl e, w2\<lparr>w_outbound := w_outbound w @
             [m\<lparr>om_status := failed, om_errorMessage := Some (error_message pm e),
               om_retryCount := mj_attemptsMade job\<rparr>]\<rparr>))"
    using assms(1)
    by (simp add: process_mail_def Let_def await_run created tryCatch_run send settle
        flip: m_def split: sum.split)
  have "om_providerId m = None" "om_errorMessage m = None" "om_recipientEmail m = m_recipientEmail ?data"
    "om_templateId m = m_templateId ?data"
    by (simp_all add: m_def)
  moreover have "\<exists>w1 r w2. mailer_send fmt provider fromName fromAddr ?data w1 = (r, w2) \<and>
      outcome (process_mail E pm fmt provider fromName fromAddr job) w =
        (case r of Inl e \<Rightarrow> Inl e | Inr i \<Rightarrow> Inr ())"
    using send by (intro exI [of _ w1] exI [of _ r] exI [of _ w2])
      (simp add: outcome_def run split: sum.split)
  ultimately show ?thesis by (cases r) (simp_all add: run returns_def after_def)
qed

text \<open>Every mail job is accounted for. Processing a job leaves exactly one new row in the outbox, for
  the recipient and the template of the job, and the row never stays in the state \<^verbatim>\<open>sending\<close>: it is
  sent, with the provider's identifier and no error, when the worker returns, and failed, with an
  error and no identifier, when it throws so that the queue tries again.\<close>

theorem mail_job_accounted:
  assumes "mj_name job = SEND_EMAIL" and "\<not> existsRow (\<lambda>m. om_id m = e_uuid E (w_rnd w)) (w_outbound w)"
  shows "\<exists>m. om_status m = (if returns (process_mail E pm fmt provider fromName fromAddr job) w then sent else failed) \<and>
    om_recipientEmail m = m_recipientEmail (mj_data job) \<and> om_templateId m = m_templateId (mj_data job) \<and>
    (om_providerId m = None) = (om_errorMessage m \<noteq> None) \<and>
    (om_providerId m \<noteq> None) = returns (process_mail E pm fmt provider fromName fromAddr job) w \<and>
    w_outbound (after (process_mail E pm fmt provider fromName fromAddr job) w) = w_outbound w @ [m]"
  using process_mail_run [OF assms] by blast

definition demo_mail_job :: mail_job where
  "demo_mail_job =
     \<lparr>mj_name = ''send-email'',
      mj_data = \<lparr>m_tenantId = None, m_recipientEmail = ''jane@example.com'', m_subject = ''Reset'',
        m_templateId = PASSWORD_RESET,
        m_templateData = [(''firstName'', JStr ''Jane''), (''resetUrl'', JStr ''http://localhost''),
          (''expiresHours'', JNum 1)],
        m_triggeredByUserId = None, m_correlationId = None\<rparr>,
      mj_attemptsMade = 0\<rparr>"

definition demo_date :: "int \<Rightarrow> string" where
  "demo_date t = int_text t"

definition demo_provider :: resend where
  "demo_provider from to mail n = Resend_data (''msg'' @ nat_text n)"

lemma mail_job_accounted_witness:
  "\<exists>m. om_status m =
      (if returns (process_mail demo_env (\<lambda>_. ''prisma'') demo_date demo_provider ''BOS'' ''bos@example.com'' demo_mail_job) demo_world
       then sent else failed) \<and>
    om_recipientEmail m = ''jane@example.com'' \<and>
    w_outbound (after (process_mail demo_env (\<lambda>_. ''prisma'') demo_date demo_provider ''BOS'' ''bos@example.com'' demo_mail_job) demo_world) = [m]"
proof -
  have "mj_name demo_mail_job = SEND_EMAIL" by (simp add: demo_mail_job_def SEND_EMAIL_def)
  moreover have "w_outbound demo_world = []" by (simp add: demo_world_def empty_world_def)
  ultimately show ?thesis
    using mail_job_accounted [of demo_mail_job demo_env demo_world "\<lambda>_. ''prisma''" demo_date demo_provider
        "''BOS''" "''bos@example.com''"]
    by (auto simp: existsRow_def demo_mail_job_def)
qed

text \<open>The mail about a new task fails for an assignee who has no first name. The job that the task
  module queues then carries a null, the template calls a method on it, and the worker ends with that
  error: the provider is never asked, and the row in the outbox says that the mail failed.\<close>

theorem nameless_assignee_gets_no_mail:
  assumes "u_firstName assignee = None"
    and "mj_name job = SEND_EMAIL" and "mj_data job = task_assigned_job E T t assignee assigner by"
    and "\<not> existsRow (\<lambda>m. om_id m = e_uuid E (w_rnd w)) (w_outbound w)"
  shows "\<exists>e w' m. process_mail E pm fmt provider fromName fromAddr job w = (Inl e, w') \<and>
    w_outbound w' = w_outbound w @ [m] \<and> om_status m = failed \<and> om_recipientEmail m = u_email assignee \<and>
    mailer_send fmt provider' fromName fromAddr (mj_data job) w = (Inl e, w)"
proof -
  let ?run = "process_mail E pm fmt provider fromName fromAddr job"
  have fails: "mailer_send fmt p fromName fromAddr (mj_data job) v =
      (Inl (PlainError (''Cannot read properties of null (reading '' @ quoted ''replace'' @ '')'')), v)" for p v
    using assms(1)
    by (cases "tk_dueAt t")
       (simp_all add: assms(3) mailer_send_def renderTemplate_def task_assigned_job_def renderTaskAssigned_def
         escaped_def await_run)
  from process_mail_run [OF assms(2,4), of pm fmt provider fromName fromAddr] obtain m w1 r w2 where
    m: "om_status m = (if returns ?run w then sent else failed)"
      "om_recipientEmail m = m_recipientEmail (mj_data job)" "w_outbound (after ?run w) = w_outbound w @ [m]"
    and r: "mailer_send fmt provider fromName fromAddr (mj_data job) w1 = (r, w2)"
      "outcome ?run w = (case r of Inl e \<Rightarrow> Inl e | Inr i \<Rightarrow> Inr ())"
    by blast
  let ?e = "PlainError (''Cannot read properties of null (reading '' @ quoted ''replace'' @ '')'')"
  have "outcome ?run w = Inl ?e" using r fails [of provider w1] by auto
  moreover from this have "\<not> returns ?run w" by (simp add: returns_def outcome_def)
  moreover have "m_recipientEmail (mj_data job) = u_email assignee"
    by (simp add: assms(3) task_assigned_job_def)
  ultimately show ?thesis
    using m fails [of provider' w]
    by (intro exI [of _ ?e] exI [of _ "after ?run w"] exI [of _ m]) (simp add: outcome_def after_def prod_eq_iff)
qed

definition demo_task :: task where
  "demo_task =
     \<lparr>tk_id = ''k1'', tk_title = ''Call Bob'', tk_description = None, tk_type = TaskType.TODO,
      tk_status = TaskStatus.TODO, tk_priority = TaskPriority.NORMAL, tk_startDate = None, tk_dueAt = None,
      tk_completedAt = None, tk_points = None, tk_timeEstimate = None, tk_recurrenceRule = None,
      tk_reminders = None, tk_entityType = None, tk_entityId = None, tk_parentTaskId = None,
      tk_createdByUserId = ''owner'', tk_metadata = None, tk_deletedAt = None, tk_createdAt = 0\<rparr>"

definition demo_task_job :: mail_job where
  "demo_task_job =
     \<lparr>mj_name = SEND_EMAIL,
      mj_data = task_assigned_job demo_env ''t1'' demo_task (demo_user\<lparr>u_firstName := None\<rparr>) (Some demo_user) ''owner'',
      mj_attemptsMade = 0\<rparr>"

lemma nameless_assignee_gets_no_mail_witness:
  "\<exists>e w' m. process_mail demo_env (\<lambda>_. ''prisma'') demo_date demo_provider ''BOS'' ''bos@example.com'' demo_task_job demo_world = (Inl e, w') \<and>
    w_outbound w' = w_outbound demo_world @ [m] \<and> om_status m = failed \<and>
    om_recipientEmail m = u_email (demo_user\<lparr>u_firstName := None\<rparr>) \<and>
    mailer_send demo_date demo_provider ''BOS'' ''bos@example.com'' (mj_data demo_task_job) demo_world = (Inl e, demo_world)"
  by (rule nameless_assignee_gets_no_mail)
     (simp_all add: demo_task_job_def existsRow_def demo_world_def empty_world_def)

subsection \<open>Texts: the splitter of scripts, literals, schema names, the password policy\<close>

text \<open>A script with a comment line, a dollar-quoted block and a blank statement.\<close>

definition demo_script :: string where
  "demo_script =
     ''CREATE TABLE a (); DO $$ BEGIN x; END $$; ;'' @ [CHR 0x0A] @ ''-- a; comment'' @ [CHR 0x0A] @ '' SELECT 1''"

text \<open>C18: the splitter gives the statements of a script and nothing else. The text of the script
  without its comment lines has exactly one division into pieces that are separated by the semicolons
  outside dollar quotes (one piece more than there are such semicolons), and the result is these
  pieces, trimmed, in their order and without those that are blank.\<close>

theorem split_is_faithful:
  "\<exists>pieces. divides pieces (strip_comments sql) \<and> (\<forall>other. divides other (strip_comments sql) \<longrightarrow> other = pieces) \<and>
     splitSqlStatements sql = filter (\<lambda>p. p \<noteq> []) (map trim pieces)"
  using scan_divides [of "strip_comments sql"] divides_unique
  unfolding splitSqlStatements_def by blast

lemma split_is_faithful_witness:
  "splitSqlStatements demo_script =
     [''CREATE TABLE a ()'', ''DO $$ BEGIN x; END $$'', ''SELECT 1'']"
proof -
  have division: "divides [''CREATE TABLE a ()'', '' DO $$ BEGIN x; END $$'', '' '', [CHR 0x0A] @ '' SELECT 1'']
      (strip_comments demo_script)"
    by code_simp
  obtain pieces where pieces: "divides pieces (strip_comments demo_script)"
    "\<forall>other. divides other (strip_comments demo_script) \<longrightarrow> other = pieces"
    "splitSqlStatements demo_script = filter (\<lambda>p. p \<noteq> []) (map trim pieces)"
    using split_is_faithful [of demo_script] by blast
  from pieces(2) division have same: "pieces =
      [''CREATE TABLE a ()'', '' DO $$ BEGIN x; END $$'', '' '', [CHR 0x0A] @ '' SELECT 1'']" by simp
  have "filter (\<lambda>p. p \<noteq> []) (map trim
      [''CREATE TABLE a ()'', '' DO $$ BEGIN x; END $$'', '' '', [CHR 0x0A] @ '' SELECT 1'']) =
      [''CREATE TABLE a ()'', ''DO $$ BEGIN x; END $$'', ''SELECT 1'']"
    by code_simp
  with pieces(3) same show ?thesis by simp
qed

text \<open>C19: a value that is escaped and put between quotes is read back by the database as that value,
  and the text after the literal is not touched, whatever the value contains.\<close>

theorem escaped_literal_read_back:
  "read_literal (esc value @ CHR 0x27 # CHR '','' # rest) = Some (value, CHR '','' # rest)"
  by (rule read_literal_esc) simp

text \<open>The schema name that sign-up builds from a UUID passes the check of the schema manager and
  of the tenant client.\<close>

theorem built_schema_name_accepted:
  assumes "uuid_text u"
  shows "assertValidSchemaName (buildSchemaName u) w = (Inr (), w) \<and>
    forSchema (buildSchemaName u) w = (Inr (buildSchemaName u), w)"
  using buildSchemaName_valid [OF assms]
  by (simp add: assertValidSchemaName_def forSchema_def await_run throwIf_run)

lemma built_schema_name_accepted_witness:
  "assertValidSchemaName (buildSchemaName ''0f8fad5b-d9cb-469f-a165-70867728950e'') demo_world =
     (Inr (), demo_world)"
proof -
  have "uuid_text ''0f8fad5b-d9cb-469f-a165-70867728950e''" by code_simp
  from conjunct1 [OF built_schema_name_accepted [OF this]] show ?thesis .
qed

text \<open>A password is accepted exactly when it has 10 to 128 characters with an upper-case letter, a
  lower-case letter and a digit among them; it is rejected with one message per broken rule.\<close>

theorem password_policy_exact:
  "require_policy p w =
     (if 10 \<le> length p \<and> length p \<le> 128 \<and> (\<exists>c \<in> set p. is_upper c) \<and> (\<exists>c \<in> set p. is_lower c) \<and>
         (\<exists>c \<in> set p. is_digit c)
      then (Inr (), w)
      else (Inl (Account (PasswordTooWeakException (Some (map v_message (policy_violations p))))), w)) \<and>
   length (policy_violations p) =
     (if length p < 10 then 1 else 0) + (if 128 < length p then 1 else 0) +
     (if \<exists>c \<in> set p. is_upper c then 0 else 1) + (if \<exists>c \<in> set p. is_lower c then 0 else 1) +
     (if \<exists>c \<in> set p. is_digit c then 0 else 1)"
proof
  have "policy_violations p = [] \<longleftrightarrow> 10 \<le> length p \<and> length p \<le> 128 \<and> (\<exists>c \<in> set p. is_upper c) \<and>
      (\<exists>c \<in> set p. is_lower c) \<and> (\<exists>c \<in> set p. is_digit c)"
    by (simp add: policy_violations_def policy_empty_iff DEFAULT_PASSWORD_POLICY_def)
  then show "require_policy p w =
     (if 10 \<le> length p \<and> length p \<le> 128 \<and> (\<exists>c \<in> set p. is_upper c) \<and> (\<exists>c \<in> set p. is_lower c) \<and>
         (\<exists>c \<in> set p. is_digit c)
      then (Inr (), w)
      else (Inl (Account (PasswordTooWeakException (Some (map v_message (policy_violations p))))), w))"
    by (simp add: require_policy_run)
  show "length (policy_violations p) =
     (if length p < 10 then 1 else 0) + (if 128 < length p then 1 else 0) +
     (if \<exists>c \<in> set p. is_upper c then 0 else 1) + (if \<exists>c \<in> set p. is_lower c then 0 else 1) +
     (if \<exists>c \<in> set p. is_digit c then 0 else 1)"
    by (simp add: policy_violations_def checkPasswordPolicy_def DEFAULT_PASSWORD_POLICY_def list_ex_iff)
qed

end
