(* ===== verification/Routes.thy ===== *)
theory Routes
  imports Permission_Resolver Tenant_Api
begin

text \<open>
  What the decorators of a controller declare, and the way of a request to its handler: the framework
  picks the first registered route that matches, runs the guards (authentication and permissions for
  every route, the tenant scope where a controller asks for it), checks the identifiers in the path
  and calls the handler with the principal. Throttling is left out.
\<close>

subsection \<open>Routes\<close>

datatype http_method = GET | POST | PATCH | PUT | DELETE

text \<open>
  A path is the list of its segments; one that starts with a colon is a parameter. The status is
  that of a response without an error.
\<close>

record route =
  rt_method :: http_method
  rt_path :: "string list"
  rt_status :: nat
  rt_public :: bool
  rt_tenantScoped :: bool
  rt_required :: "string list option"

definition route :: "http_method \<Rightarrow> string list \<Rightarrow> nat \<Rightarrow> string list option \<Rightarrow> route" where
  "route m p s required =
     \<lparr>rt_method = m, rt_path = p, rt_status = s, rt_public = False, rt_tenantScoped = True,
      rt_required = required\<rparr>"

definition public_route :: "http_method \<Rightarrow> string list \<Rightarrow> nat \<Rightarrow> route" where
  "public_route m p s =
     \<lparr>rt_method = m, rt_path = p, rt_status = s, rt_public = True, rt_tenantScoped = False,
      rt_required = None\<rparr>"

lemma route_simps [simp]:
  "rt_method (route m p s q) = m" "rt_path (route m p s q) = p" "rt_status (route m p s q) = s"
  "\<not> rt_public (route m p s q)" "rt_tenantScoped (route m p s q)" "rt_required (route m p s q) = q"
  "rt_method (public_route m p s) = m" "rt_path (public_route m p s) = p"
  "rt_public (public_route m p s)" "rt_required (public_route m p s) = None"
  by (simp_all add: route_def public_route_def)

text \<open>\<^verbatim>\<open>BosHealthController\<close>, which both services register: its class is public, so each of its routes is.\<close>

definition health_route :: route where
  "health_route = public_route GET [''health''] 200"

definition liveness_route :: route where
  "liveness_route = public_route GET [''health'', ''live''] 200"

definition readiness_route :: route where
  "readiness_route = public_route GET [''health'', ''ready''] 200"

definition health_routes :: "route list" where
  "health_routes = [health_route, liveness_route, readiness_route]"

definition is_param :: "string \<Rightarrow> bool" where
  "is_param seg \<longleftrightarrow> take 1 seg = '':''"

definition path_matches :: "string list \<Rightarrow> string list \<Rightarrow> bool" where
  "path_matches pattern path \<longleftrightarrow> list_all2 (\<lambda>p x. if is_param p then x \<noteq> [] else x = p) pattern path"

definition dispatch :: "route list \<Rightarrow> http_method \<Rightarrow> string list \<Rightarrow> route option" where
  "dispatch rs m path = find (\<lambda>r. rt_method r = m \<and> path_matches (rt_path r) path) rs"

subsection \<open>The guards and the handler\<close>

text \<open>The principal as the handler sees it.\<close>

definition guards :: "env \<Rightarrow> route \<Rightarrow> string option \<Rightarrow> (world, AuthenticatedUser option) handler" where
  "guards E r auth =
     await (jwtAuthGuard E (rt_public r) auth) (\<lambda>user.
     await (permissionsGuard (Some resolve) (rt_required r) False user) (\<lambda>user'.
     await (if rt_tenantScoped r then tenantScopeGuard (rt_public r) user' else ret ()) (\<lambda>_.
     ret user')))"

text \<open>\<^verbatim>\<open>ParseUUIDPipe\<close> on each of the parameters that have it.\<close>

definition parse_uuids :: "env \<Rightarrow> string list \<Rightarrow> ('w, unit) handler" where
  "parse_uuids E ids =
     throwIf (\<not> list_all (e_isUuid E) ids)
       (Nest (BadRequestException ''Validation failed (uuid is expected)''))"

text \<open>
  \<^verbatim>\<open>user.tenantId\<close> and \<^verbatim>\<open>user.userId\<close>. The first query of every handler looks for the row of the tenant or
  for rows of the tenant, and the database client refuses a null there.
\<close>

definition with_principal ::
    "AuthenticatedUser option \<Rightarrow> (string \<Rightarrow> string \<Rightarrow> ('w, 'a) handler) \<Rightarrow> ('w, 'a) handler" where
  "with_principal user h =
     (case user of
        None \<Rightarrow> throw (PlainError (''Cannot read properties of undefined (reading '' @ quoted ''tenantId'' @ '')''))
      | Some u \<Rightarrow>
          (case au_tenantId u of
             None \<Rightarrow> throw (Prisma PrismaValidation)
           | Some T \<Rightarrow> h T (au_userId u)))"

definition serveRoute ::
    "env \<Rightarrow> route \<Rightarrow> string option \<Rightarrow> string list \<Rightarrow> (string \<Rightarrow> string \<Rightarrow> (world, 'a) handler) \<Rightarrow>
       (world, 'a) handler" where
  "serveRoute E r auth ids h =
     await (guards E r auth) (\<lambda>user.
     await (parse_uuids E ids) (\<lambda>_.
     with_principal user h))"

lemma parse_uuids_run [act]:
  "parse_uuids E ids w =
     (if list_all (e_isUuid E) ids then (Inr (), w)
      else (Inl (Nest (BadRequestException ''Validation failed (uuid is expected)'')), w))"
  by (simp add: parse_uuids_def throwIf_run)

subsection \<open>Shadows\<close>

text \<open>
  A path is an instance of a pattern over a set of words when its parameters are none of the words.
  A pattern captures another when it matches its instances.
\<close>

definition instance_of :: "string set \<Rightarrow> string list \<Rightarrow> string list \<Rightarrow> bool" where
  "instance_of words pattern path \<longleftrightarrow>
     list_all2 (\<lambda>p x. if is_param p then x \<noteq> [] \<and> x \<notin> words else x = p) pattern path"

fun captures :: "string list \<Rightarrow> string list \<Rightarrow> bool" where
  "captures [] [] = True"
| "captures (a # p) (b # q) = (if is_param a \<or> (\<not> is_param b \<and> a = b) then captures p q else False)"
| "captures p q = False"

definition words_of :: "route list \<Rightarrow> string set" where
  "words_of rs = (\<Union>r \<in> set rs. {x \<in> set (rt_path r). \<not> is_param x})"

text \<open>No route is captured by an earlier one of the same method.\<close>

fun catches :: "http_method \<times> string list \<Rightarrow> (http_method \<times> string list) list \<Rightarrow> bool" where
  "catches r [] = False"
| "catches r (r' # rs) =
     (if fst r = fst r' then if captures (snd r) (snd r') then True else catches r rs else catches r rs)"

fun unshadowed :: "(http_method \<times> string list) list \<Rightarrow> bool" where
  "unshadowed [] = True"
| "unshadowed (r # rs) = (if catches r rs then False else unshadowed rs)"

definition signatures :: "route list \<Rightarrow> (http_method \<times> string list) list" where
  "signatures rs = map (\<lambda>r. (rt_method r, rt_path r)) rs"

lemma catches_iff: "catches r rs \<longleftrightarrow> (\<exists>r' \<in> set rs. fst r = fst r' \<and> captures (snd r) (snd r'))"
  by (induction rs) auto

lemma instance_matches: "instance_of words p path \<Longrightarrow> path_matches p path"
  unfolding instance_of_def path_matches_def by (erule list_all2_mono) (auto split: if_splits)

lemma matching_captures:
  assumes "path_matches p path" and "instance_of words q path"
    and "\<And>x. x \<in> set p \<Longrightarrow> \<not> is_param x \<Longrightarrow> x \<in> words"
  shows "captures p q"
  using assms
proof (induction p arbitrary: path q)
  case Nil
  then show ?case by (cases q) (auto simp: path_matches_def instance_of_def)
next
  case (Cons a p)
  then obtain x path' b q' where *: "path = x # path'" "q = b # q'"
    by (auto simp: path_matches_def instance_of_def list_all2_Cons1 list_all2_Cons2)
  with Cons show ?case
    by (fastforce simp: path_matches_def instance_of_def split: if_splits)
qed

lemma dispatch_unshadowed:
  assumes "unshadowed (signatures rs)" and "r \<in> set rs" and "instance_of words (rt_path r) path"
    and "words_of rs \<subseteq> words"
  shows "dispatch rs (rt_method r) path = Some r"
  using assms
proof (induction rs)
  case (Cons r' rs)
  show ?case
  proof (cases "r' = r")
    case True
    with Cons.prems show ?thesis by (simp add: dispatch_def instance_matches)
  next
    case False
    then have later: "r \<in> set rs" using Cons.prems(2) by simp
    have "\<not> (rt_method r' = rt_method r \<and> path_matches (rt_path r') path)"
    proof
      assume m: "rt_method r' = rt_method r \<and> path_matches (rt_path r') path"
      then have "captures (rt_path r') (rt_path r)"
        using Cons.prems(3,4) by (intro matching_captures [of _ path words]) (auto simp: words_of_def)
      with m Cons.prems(1) later show False
        by (auto simp: signatures_def catches_iff split: if_splits)
    qed
    moreover have "words_of rs \<subseteq> words" using Cons.prems(4) by (auto simp: words_of_def)
    ultimately show ?thesis using Cons later
      by (auto simp: dispatch_def signatures_def split: if_splits)
  qed
qed simp

end
