(* ===== verification/Crm_Api.thy ===== *)
theory Crm_Api
  imports Routes Staff Branches Webhooks Tenant_Config
begin

text \<open>
  The controllers of \<^verbatim>\<open>crm-core\<close>: for every handler its route, as the decorators declare it, and the
  request as a client sends it, with the authorization header, the path and the body. A number or a
  truth value in a query is given as the framework's pipes deliver it, and the body as the
  validation pipe does. The principal, when a handler uses it, is \<open>u\<close>, and its tenant is \<open>T\<close>.
\<close>

subsection \<open>\<^verbatim>\<open>TenantController\<close>\<close>

definition getModuleSuggestions_route :: route where
  "getModuleSuggestions_route = route GET [''tenant'', ''module-suggestions''] 200 None"

definition getModuleSuggestions_request where
  "getModuleSuggestions_request E auth =
     serveRoute E getModuleSuggestions_route auth [] (\<lambda>T _. getModuleSuggestions T)"

definition selectModules_route :: route where
  "selectModules_route = route POST [''tenant'', ''modules''] 204 None"

definition selectModules_request where
  "selectModules_request E auth ks =
     serveRoute E selectModules_route auth [] (\<lambda>T u. selectModules E T ks u)"

definition getTenantConfig_route :: route where
  "getTenantConfig_route = route GET [''tenant'', ''config''] 200 None"

definition getTenantConfig_request where
  "getTenantConfig_request E auth =
     serveRoute E getTenantConfig_route auth [] (\<lambda>T _. getTenantConfig T)"

definition updateProfile_route :: route where
  "updateProfile_route = route PATCH [''tenant'', ''profile''] 204 None"

definition updateProfile_request where
  "updateProfile_request E auth dto =
     serveRoute E updateProfile_route auth [] (\<lambda>T _. updateProfile T dto)"

definition tenant_routes :: "route list" where
  "tenant_routes =
     [getModuleSuggestions_route, selectModules_route, getTenantConfig_route,
      updateProfile_route]"

subsection \<open>\<^verbatim>\<open>StaffController\<close>\<close>

definition listStaff_route :: route where
  "listStaff_route = route GET [''staff''] 200 None"

definition listStaff_request where
  "listStaff_request E auth page limit =
     serveRoute E listStaff_route auth [] (\<lambda>T _. listStaffHandler T page limit)"

definition listPendingInvites_route :: route where
  "listPendingInvites_route =
     route GET [''staff'', ''invites''] 200 (Some [''tenant:users:invite''])"

definition listPendingInvites_request where
  "listPendingInvites_request E auth =
     serveRoute E listPendingInvites_route auth [] (\<lambda>T _. listPendingInvites T)"

definition getStaffMember_route :: route where
  "getStaffMember_route = route GET [''staff'', '':userId''] 200 None"

definition getStaffMember_request where
  "getStaffMember_request E auth userId =
     serveRoute E getStaffMember_route auth [userId] (\<lambda>T _. getStaffMember userId T)"

definition inviteStaff_route :: route where
  "inviteStaff_route = route POST [''staff'', ''invite''] 204 (Some [''tenant:users:invite''])"

definition inviteStaff_request where
  "inviteStaff_request E auth dto =
     serveRoute E inviteStaff_route auth [] (\<lambda>T u. inviteStaff E T u dto)"

definition updateStaffRole_route :: route where
  "updateStaffRole_route =
     route PATCH [''staff'', '':userId'', ''role''] 204 (Some [''tenant:users:manage_roles''])"

definition updateStaffRole_request where
  "updateStaffRole_request E auth userId roleId branchId =
     serveRoute E updateStaffRole_route auth [userId] (\<lambda>T u. updateStaffRole E userId T u roleId branchId)"

definition deactivateStaff_route :: route where
  "deactivateStaff_route =
     route DELETE [''staff'', '':userId''] 204 (Some [''tenant:users:manage_roles''])"

definition deactivateStaff_request where
  "deactivateStaff_request E auth userId =
     serveRoute E deactivateStaff_route auth [userId] (\<lambda>T u. deactivateStaff userId T u)"

definition revokeInvite_route :: route where
  "revokeInvite_route =
     route DELETE [''staff'', ''invites'', '':inviteId''] 204 (Some [''tenant:users:invite''])"

definition revokeInvite_request where
  "revokeInvite_request E auth inviteId =
     serveRoute E revokeInvite_route auth [inviteId] (\<lambda>T _. revokeInvite inviteId T)"

definition setRoundRobin_route :: route where
  "setRoundRobin_route =
     route PATCH [''staff'', '':userId'', ''round-robin''] 204 (Some [''tenant:staff:round_robin''])"

definition setRoundRobin_request where
  "setRoundRobin_request E auth userId branchId available =
     serveRoute E setRoundRobin_route auth [userId, branchId] (\<lambda>T _. setRoundRobinAvailable userId T branchId available)"

definition staff_routes :: "route list" where
  "staff_routes =
     [listStaff_route, listPendingInvites_route, getStaffMember_route, inviteStaff_route,
      updateStaffRole_route, deactivateStaff_route, revokeInvite_route, setRoundRobin_route]"

subsection \<open>\<^verbatim>\<open>BranchesController\<close>\<close>

definition listBranches_route :: route where
  "listBranches_route = route GET [''branches''] 200 None"

definition listBranches_request where
  "listBranches_request E auth page limit includeInactive =
     serveRoute E listBranches_route auth [] (\<lambda>T _. listBranchesHandler E T page limit includeInactive)"

definition getBranch_route :: route where
  "getBranch_route = route GET [''branches'', '':branchId''] 200 None"

definition getBranch_request where
  "getBranch_request E auth branchId =
     serveRoute E getBranch_route auth [branchId] (\<lambda>T _. getBranch T branchId)"

definition createBranch_route :: route where
  "createBranch_route = route POST [''branches''] 201 (Some [''tenant:branches:manage''])"

definition createBranch_request where
  "createBranch_request E auth dto =
     serveRoute E createBranch_route auth [] (\<lambda>T _. createBranch E T dto)"

definition updateBranch_route :: route where
  "updateBranch_route =
     route PATCH [''branches'', '':branchId''] 200 (Some [''tenant:branches:manage''])"

definition updateBranch_request where
  "updateBranch_request E auth branchId dto =
     serveRoute E updateBranch_route auth [branchId] (\<lambda>T _. updateBranch T branchId dto)"

definition deactivateBranch_route :: route where
  "deactivateBranch_route =
     route DELETE [''branches'', '':branchId''] 204 (Some [''tenant:branches:manage''])"

definition deactivateBranch_request where
  "deactivateBranch_request E auth branchId =
     serveRoute E deactivateBranch_route auth [branchId] (\<lambda>T _. deactivateBranch T branchId)"

definition branches_routes :: "route list" where
  "branches_routes =
     [listBranches_route, getBranch_route, createBranch_route, updateBranch_route,
      deactivateBranch_route]"

subsection \<open>\<^verbatim>\<open>RolesController\<close>\<close>

definition listRoles_route :: route where
  "listRoles_route = route GET [''roles''] 200 None"

definition listRoles_request where
  "listRoles_request E auth = serveRoute E listRoles_route auth [] (\<lambda>T _. listRoles E T)"

definition listPermissions_route :: route where
  "listPermissions_route =
     route GET [''roles'', ''permissions''] 200 (Some [''tenant:users:manage_roles''])"

definition listPermissions_request where
  "listPermissions_request E auth =
     serveRoute E listPermissions_route auth [] (\<lambda>T _. listPermissions E T)"

definition getRole_route :: route where
  "getRole_route = route GET [''roles'', '':roleId''] 200 None"

definition getRole_request where
  "getRole_request E auth roleId =
     serveRoute E getRole_route auth [roleId] (\<lambda>T _. getRole T roleId)"

definition createRole_route :: route where
  "createRole_route = route POST [''roles''] 201 (Some [''tenant:users:manage_roles''])"

definition createRole_request where
  "createRole_request E auth dto =
     serveRoute E createRole_route auth [] (\<lambda>T _. createRole E T dto)"

definition updateRolePermissions_route :: route where
  "updateRolePermissions_route =
     route PUT [''roles'', '':roleId'', ''permissions''] 200 (Some [''tenant:users:manage_roles''])"

definition updateRolePermissions_request where
  "updateRolePermissions_request E auth roleId permissionIds =
     serveRoute E updateRolePermissions_route auth [roleId] (\<lambda>T _. updateRolePermissions T roleId permissionIds)"

definition deleteRole_route :: route where
  "deleteRole_route =
     route DELETE [''roles'', '':roleId''] 204 (Some [''tenant:users:manage_roles''])"

definition deleteRole_request where
  "deleteRole_request E auth roleId =
     serveRoute E deleteRole_route auth [roleId] (\<lambda>T _. deleteRole T roleId)"

definition roles_routes :: "route list" where
  "roles_routes =
     [listRoles_route, listPermissions_route, getRole_route, createRole_route,
      updateRolePermissions_route, deleteRole_route]"

subsection \<open>\<^verbatim>\<open>CustomFieldsController\<close>\<close>

definition listDefinitions_route :: route where
  "listDefinitions_route = route GET [''custom-fields''] 200 None"

definition listDefinitions_request where
  "listDefinitions_request E auth entityType =
     serveRoute E listDefinitions_route auth [] (\<lambda>T _. listDefinitions T entityType)"

definition createDefinition_route :: route where
  "createDefinition_route =
     route POST [''custom-fields''] 201 (Some [''tenant:custom_fields:manage''])"

definition createDefinition_request where
  "createDefinition_request E auth dto =
     serveRoute E createDefinition_route auth [] (\<lambda>T _. createDefinition E T dto)"

definition updateDefinition_route :: route where
  "updateDefinition_route =
     route PATCH [''custom-fields'', '':id''] 200 (Some [''tenant:custom_fields:manage''])"

definition updateDefinition_request where
  "updateDefinition_request E auth i dto =
     serveRoute E updateDefinition_route auth [i] (\<lambda>T _. updateDefinition T i dto)"

definition deactivateDefinition_route :: route where
  "deactivateDefinition_route =
     route DELETE [''custom-fields'', '':id''] 204 (Some [''tenant:custom_fields:manage''])"

definition deactivateDefinition_request where
  "deactivateDefinition_request E auth i =
     serveRoute E deactivateDefinition_route auth [i] (\<lambda>T _. deactivateDefinition T i)"

definition reorderDefinitions_route :: route where
  "reorderDefinitions_route =
     route PUT [''custom-fields'', ''reorder''] 204 (Some [''tenant:custom_fields:manage''])"

definition reorderDefinitions_request where
  "reorderDefinitions_request E auth items =
     serveRoute E reorderDefinitions_route auth [] (\<lambda>T _. reorderDefinitions T items)"

definition custom_fields_routes :: "route list" where
  "custom_fields_routes =
     [listDefinitions_route, createDefinition_route, updateDefinition_route,
      deactivateDefinition_route, reorderDefinitions_route]"

subsection \<open>\<^verbatim>\<open>TagsController\<close>\<close>

definition listTags_route :: route where
  "listTags_route = route GET [''tags''] 200 None"

definition listTags_request where
  "listTags_request E auth search =
     serveRoute E listTags_route auth [] (\<lambda>T _. listTags E T search)"

definition createTag_route :: route where
  "createTag_route = route POST [''tags''] 201 (Some [''tenant:tags:manage''])"

definition createTag_request where
  "createTag_request E auth dto = serveRoute E createTag_route auth [] (\<lambda>T _. createTag E T dto)"

definition updateTag_route :: route where
  "updateTag_route = route PATCH [''tags'', '':id''] 200 (Some [''tenant:tags:manage''])"

definition updateTag_request where
  "updateTag_request E auth i dto =
     serveRoute E updateTag_route auth [i] (\<lambda>T _. updateTag T i dto)"

definition deleteTag_route :: route where
  "deleteTag_route = route DELETE [''tags'', '':id''] 204 (Some [''tenant:tags:manage''])"

definition deleteTag_request where
  "deleteTag_request E auth i = serveRoute E deleteTag_route auth [i] (\<lambda>T _. deleteTag T i)"

definition tags_routes :: "route list" where
  "tags_routes = [listTags_route, createTag_route, updateTag_route, deleteTag_route]"

subsection \<open>\<^verbatim>\<open>ContactsController\<close>\<close>

definition listContacts_route :: route where
  "listContacts_route = route GET [''contacts''] 200 (Some [''tenant:contacts:view_branch''])"

definition listContacts_request where
  "listContacts_request E auth flt =
     serveRoute E listContacts_route auth [] (\<lambda>T _. listContacts E T flt)"

definition getContact_route :: route where
  "getContact_route =
     route GET [''contacts'', '':id''] 200 (Some [''tenant:contacts:view_branch''])"

definition getContact_request where
  "getContact_request E auth i = serveRoute E getContact_route auth [i] (\<lambda>T _. getContact T i)"

definition createContact_route :: route where
  "createContact_route = route POST [''contacts''] 201 (Some [''tenant:contacts:create''])"

definition createContact_request where
  "createContact_request E auth dto =
     serveRoute E createContact_route auth [] (\<lambda>T u. createContact E T dto u None)"

definition updateContact_route :: route where
  "updateContact_route =
     route PATCH [''contacts'', '':id''] 200 (Some [''tenant:contacts:update''])"

definition updateContact_request where
  "updateContact_request E auth i dto =
     serveRoute E updateContact_route auth [i] (\<lambda>T _. updateContact T i dto)"

definition deleteContact_route :: route where
  "deleteContact_route =
     route DELETE [''contacts'', '':id''] 204 (Some [''tenant:contacts:delete''])"

definition deleteContact_request where
  "deleteContact_request E auth i =
     serveRoute E deleteContact_route auth [i] (\<lambda>T _. deleteContact T i)"

definition getContactTags_route :: route where
  "getContactTags_route =
     route GET [''contacts'', '':id'', ''tags''] 200 (Some [''tenant:contacts:view_branch''])"

definition getContactTags_request where
  "getContactTags_request E auth i =
     serveRoute E getContactTags_route auth [i] (\<lambda>T _. getContactTags T i)"

definition addContactTag_route :: route where
  "addContactTag_route =
     route POST [''contacts'', '':id'', ''tags'', '':tagId''] 201 (Some [''tenant:contacts:update''])"

definition addContactTag_request where
  "addContactTag_request E auth i tagId =
     serveRoute E addContactTag_route auth [i, tagId] (\<lambda>T _. addContactTag T i tagId)"

definition removeContactTag_route :: route where
  "removeContactTag_route =
     route DELETE [''contacts'', '':id'', ''tags'', '':tagId''] 204 (Some [''tenant:contacts:update''])"

definition removeContactTag_request where
  "removeContactTag_request E auth i tagId =
     serveRoute E removeContactTag_route auth [i, tagId] (\<lambda>T _. removeContactTag T i tagId)"

definition contacts_routes :: "route list" where
  "contacts_routes =
     [listContacts_route, getContact_route, createContact_route, updateContact_route,
      deleteContact_route, getContactTags_route, addContactTag_route, removeContactTag_route]"

subsection \<open>\<^verbatim>\<open>ContactSourcesController\<close>\<close>

definition listSources_route :: route where
  "listSources_route = route GET [''contact-sources''] 200 None"

definition listSources_request where
  "listSources_request E auth branchId =
     serveRoute E listSources_route auth [] (\<lambda>T _. listSources E T branchId)"

definition createSource_route :: route where
  "createSource_route = route POST [''contact-sources''] 201 (Some [''tenant:sources:manage''])"

definition createSource_request where
  "createSource_request E auth dto =
     serveRoute E createSource_route auth [] (\<lambda>T _. createSource E T dto)"

definition updateSource_route :: route where
  "updateSource_route =
     route PATCH [''contact-sources'', '':id''] 200 (Some [''tenant:sources:manage''])"

definition updateSource_request where
  "updateSource_request E auth i dto =
     serveRoute E updateSource_route auth [i] (\<lambda>T _. updateSource T i dto)"

definition deleteSource_route :: route where
  "deleteSource_route =
     route DELETE [''contact-sources'', '':id''] 204 (Some [''tenant:sources:manage''])"

definition deleteSource_request where
  "deleteSource_request E auth i =
     serveRoute E deleteSource_route auth [i] (\<lambda>T _. deleteSource T i)"

definition sources_routes :: "route list" where
  "sources_routes =
     [listSources_route, createSource_route, updateSource_route, deleteSource_route]"

subsection \<open>\<^verbatim>\<open>ContactListsController\<close>\<close>

definition listContactLists_route :: route where
  "listContactLists_route =
     route GET [''contact-lists''] 200 (Some [''tenant:contacts:view_branch''])"

definition listContactLists_request where
  "listContactLists_request E auth branchId =
     serveRoute E listContactLists_route auth [] (\<lambda>T _. listContactLists T branchId)"

definition createList_route :: route where
  "createList_route = route POST [''contact-lists''] 201 (Some [''tenant:contact_lists:manage''])"

definition createList_request where
  "createList_request E auth dto =
     serveRoute E createList_route auth [] (\<lambda>T u. createList E T dto u)"

definition updateList_route :: route where
  "updateList_route =
     route PATCH [''contact-lists'', '':id''] 200 (Some [''tenant:contact_lists:manage''])"

definition updateList_request where
  "updateList_request E auth i dto =
     serveRoute E updateList_route auth [i] (\<lambda>T _. updateList T i dto)"

definition deleteList_route :: route where
  "deleteList_route =
     route DELETE [''contact-lists'', '':id''] 204 (Some [''tenant:contact_lists:manage''])"

definition deleteList_request where
  "deleteList_request E auth i = serveRoute E deleteList_route auth [i] (\<lambda>T _. deleteList T i)"

definition listMembers_route :: route where
  "listMembers_route =
     route GET [''contact-lists'', '':id'', ''members''] 200 (Some [''tenant:contacts:view_branch''])"

definition listMembers_request where
  "listMembers_request E auth i page limit =
     serveRoute E listMembers_route auth [i] (\<lambda>T _. listMembers T i page limit)"

definition addMember_route :: route where
  "addMember_route =
     route POST [''contact-lists'', '':id'', ''members'', '':contactId''] 201 (Some [''tenant:contact_lists:manage''])"

definition addMember_request where
  "addMember_request E auth i contactId =
     serveRoute E addMember_route auth [i, contactId] (\<lambda>T u. addMember T i contactId u)"

definition removeMember_route :: route where
  "removeMember_route =
     route DELETE [''contact-lists'', '':id'', ''members'', '':contactId''] 204 (Some [''tenant:contact_lists:manage''])"

definition removeMember_request where
  "removeMember_request E auth i contactId =
     serveRoute E removeMember_route auth [i, contactId] (\<lambda>T _. removeMember T i contactId)"

definition lists_routes :: "route list" where
  "lists_routes =
     [listContactLists_route, createList_route, updateList_route, deleteList_route,
      listMembers_route, addMember_route, removeMember_route]"

subsection \<open>\<^verbatim>\<open>LeadsController\<close>\<close>

definition listLeads_route :: route where
  "listLeads_route = route GET [''leads''] 200 (Some [''tenant:leads:view_branch''])"

definition listLeads_request where
  "listLeads_request E auth flt = serveRoute E listLeads_route auth [] (\<lambda>T _. listLeads E T flt)"

definition getLead_route :: route where
  "getLead_route = route GET [''leads'', '':id''] 200 (Some [''tenant:leads:view_branch''])"

definition getLead_request where
  "getLead_request E auth i = serveRoute E getLead_route auth [i] (\<lambda>T _. getLead T i)"

definition createLead_route :: route where
  "createLead_route = route POST [''leads''] 201 (Some [''tenant:leads:create''])"

definition createLead_request where
  "createLead_request E auth dto =
     serveRoute E createLead_route auth [] (\<lambda>T u. createLead E T dto u)"

definition updateLead_route :: route where
  "updateLead_route = route PATCH [''leads'', '':id''] 200 (Some [''tenant:leads:update''])"

definition updateLead_request where
  "updateLead_request E auth i dto =
     serveRoute E updateLead_route auth [i] (\<lambda>T u. updateLead T i dto u)"

definition deleteLead_route :: route where
  "deleteLead_route = route DELETE [''leads'', '':id''] 204 (Some [''tenant:leads:delete''])"

definition deleteLead_request where
  "deleteLead_request E auth i = serveRoute E deleteLead_route auth [i] (\<lambda>T _. deleteLead T i)"

definition convertLead_route :: route where
  "convertLead_route =
     route POST [''leads'', '':id'', ''convert''] 200 (Some [''tenant:leads:convert''])"

definition convertLead_request where
  "convertLead_request E auth i contactId =
     serveRoute E convertLead_route auth [i] (\<lambda>T u. convertLead E T i contactId u)"

definition getLeadTags_route :: route where
  "getLeadTags_route =
     route GET [''leads'', '':id'', ''tags''] 200 (Some [''tenant:leads:view_branch''])"

definition getLeadTags_request where
  "getLeadTags_request E auth i =
     serveRoute E getLeadTags_route auth [i] (\<lambda>T _. getLeadTags T i)"

definition addLeadTag_route :: route where
  "addLeadTag_route =
     route POST [''leads'', '':id'', ''tags'', '':tagId''] 201 (Some [''tenant:leads:update''])"

definition addLeadTag_request where
  "addLeadTag_request E auth i tagId =
     serveRoute E addLeadTag_route auth [i, tagId] (\<lambda>T _. addLeadTag T i tagId)"

definition removeLeadTag_route :: route where
  "removeLeadTag_route =
     route DELETE [''leads'', '':id'', ''tags'', '':tagId''] 204 (Some [''tenant:leads:update''])"

definition removeLeadTag_request where
  "removeLeadTag_request E auth i tagId =
     serveRoute E removeLeadTag_route auth [i, tagId] (\<lambda>T _. removeLeadTag T i tagId)"

definition leads_routes :: "route list" where
  "leads_routes =
     [listLeads_route, getLead_route, createLead_route, updateLead_route, deleteLead_route,
      convertLead_route, getLeadTags_route, addLeadTag_route, removeLeadTag_route]"

subsection \<open>\<^verbatim>\<open>LeadStatusesController\<close>\<close>

definition listStatuses_route :: route where
  "listStatuses_route = route GET [''lead-statuses''] 200 None"

definition listStatuses_request where
  "listStatuses_request E auth branchId =
     serveRoute E listStatuses_route auth [] (\<lambda>T _. listStatuses E T branchId)"

definition createStatus_route :: route where
  "createStatus_route = route POST [''lead-statuses''] 201 (Some [''tenant:sources:manage''])"

definition createStatus_request where
  "createStatus_request E auth dto =
     serveRoute E createStatus_route auth [] (\<lambda>T _. createStatus E T dto)"

definition updateStatus_route :: route where
  "updateStatus_route =
     route PATCH [''lead-statuses'', '':id''] 200 (Some [''tenant:sources:manage''])"

definition updateStatus_request where
  "updateStatus_request E auth i dto =
     serveRoute E updateStatus_route auth [i] (\<lambda>T _. updateStatus T i dto)"

definition deleteStatus_route :: route where
  "deleteStatus_route =
     route DELETE [''lead-statuses'', '':id''] 204 (Some [''tenant:sources:manage''])"

definition deleteStatus_request where
  "deleteStatus_request E auth i =
     serveRoute E deleteStatus_route auth [i] (\<lambda>T _. deleteStatus T i)"

definition statuses_routes :: "route list" where
  "statuses_routes =
     [listStatuses_route, createStatus_route, updateStatus_route, deleteStatus_route]"

subsection \<open>\<^verbatim>\<open>LeadAssignmentController\<close>\<close>

definition getConfig_route :: route where
  "getConfig_route = route GET [''lead-assignment-config''] 200 None"

definition getConfig_request where
  "getConfig_request E auth branchId =
     serveRoute E getConfig_route auth [branchId] (\<lambda>T _. getConfig T branchId)"

definition upsertConfig_route :: route where
  "upsertConfig_route =
     route PUT [''lead-assignment-config''] 200 (Some [''tenant:leads:configure''])"

definition upsertConfig_request where
  "upsertConfig_request E auth dto =
     serveRoute E upsertConfig_route auth [] (\<lambda>T _. upsertConfig E T dto)"

definition assignment_routes :: "route list" where
  "assignment_routes = [getConfig_route, upsertConfig_route]"

subsection \<open>\<^verbatim>\<open>LeadWebhooksController\<close>\<close>

definition listWebhooks_route :: route where
  "listWebhooks_route = route GET [''lead-webhooks''] 200 (Some [''tenant:leads:configure''])"

definition listWebhooks_request where
  "listWebhooks_request E auth branchId =
     serveRoute E listWebhooks_route auth [] (\<lambda>T _. listWebhooks T branchId)"

definition createWebhook_route :: route where
  "createWebhook_route = route POST [''lead-webhooks''] 201 (Some [''tenant:leads:configure''])"

definition createWebhook_request where
  "createWebhook_request E auth dto =
     serveRoute E createWebhook_route auth [] (\<lambda>T _. createWebhook E T dto)"

definition updateWebhook_route :: route where
  "updateWebhook_route =
     route PATCH [''lead-webhooks'', '':id''] 200 (Some [''tenant:leads:configure''])"

definition updateWebhook_request where
  "updateWebhook_request E auth i dto =
     serveRoute E updateWebhook_route auth [i] (\<lambda>T _. updateWebhook T i dto)"

definition deleteWebhook_route :: route where
  "deleteWebhook_route =
     route DELETE [''lead-webhooks'', '':id''] 204 (Some [''tenant:leads:configure''])"

definition deleteWebhook_request where
  "deleteWebhook_request E auth i =
     serveRoute E deleteWebhook_route auth [i] (\<lambda>T _. deleteWebhook T i)"

definition regenerateToken_route :: route where
  "regenerateToken_route =
     route POST [''lead-webhooks'', '':id'', ''regenerate-token''] 200 (Some [''tenant:leads:configure''])"

definition regenerateToken_request where
  "regenerateToken_request E auth i =
     serveRoute E regenerateToken_route auth [i] (\<lambda>T _. regenerateToken E T i)"

definition webhooks_routes :: "route list" where
  "webhooks_routes =
     [listWebhooks_route, createWebhook_route, updateWebhook_route, deleteWebhook_route,
      regenerateToken_route]"

subsection \<open>\<^verbatim>\<open>WebhookIngestionController\<close>\<close>

definition ingestLead_route :: route where
  "ingestLead_route = public_route POST [''webhooks'', ''leads'', '':token''] 201"

definition ingestion_routes :: "route list" where
  "ingestion_routes = [ingestLead_route]"

subsection \<open>\<^verbatim>\<open>LeadActivityController\<close>\<close>

definition createActivity_route :: route where
  "createActivity_route =
     route POST [''leads'', '':leadId'', ''activities''] 201 (Some [''tenant:leads:log_activity''])"

definition createActivity_request where
  "createActivity_request E auth leadId dto =
     serveRoute E createActivity_route auth [leadId] (\<lambda>T u. createActivity E T leadId dto u)"

definition listActivities_route :: route where
  "listActivities_route =
     route GET [''leads'', '':leadId'', ''activities''] 200 (Some [''tenant:leads:view_branch''])"

definition listActivities_request where
  "listActivities_request E auth leadId qry =
     serveRoute E listActivities_route auth [leadId] (\<lambda>T _. listActivities T leadId qry)"

definition getActivitySummary_route :: route where
  "getActivitySummary_route =
     route GET [''leads'', '':leadId'', ''activities'', ''summary''] 200 (Some [''tenant:leads:view_branch''])"

definition getActivitySummary_request where
  "getActivitySummary_request E auth leadId =
     serveRoute E getActivitySummary_route auth [leadId] (\<lambda>T _. getActivitySummary T leadId)"

definition updateActivity_route :: route where
  "updateActivity_route =
     route PATCH [''leads'', '':leadId'', ''activities'', '':activityId''] 200 (Some [''tenant:leads:log_activity''])"

definition updateActivity_request where
  "updateActivity_request E auth leadId activityId dto =
     serveRoute E updateActivity_route auth [leadId, activityId] (\<lambda>T _. updateActivity T leadId activityId dto)"

definition deleteActivity_route :: route where
  "deleteActivity_route =
     route DELETE [''leads'', '':leadId'', ''activities'', '':activityId''] 204 (Some [''tenant:leads:log_activity''])"

definition deleteActivity_request where
  "deleteActivity_request E auth leadId activityId =
     serveRoute E deleteActivity_route auth [leadId, activityId] (\<lambda>T _. deleteActivity T leadId activityId)"

definition activities_routes :: "route list" where
  "activities_routes =
     [createActivity_route, listActivities_route, getActivitySummary_route, updateActivity_route,
      deleteActivity_route]"

subsection \<open>\<^verbatim>\<open>MyTasksController\<close>\<close>

definition getMyTasks_route :: route where
  "getMyTasks_route =
     route GET [''lead-activities'', ''tasks''] 200 (Some [''tenant:leads:view_branch''])"

definition getMyTasks_request where
  "getMyTasks_request E auth qry =
     serveRoute E getMyTasks_route auth [] (\<lambda>T u. getMyTasks T u qry)"

definition my_tasks_routes :: "route list" where
  "my_tasks_routes = [getMyTasks_route]"

subsection \<open>\<^verbatim>\<open>TaskController\<close>\<close>

definition createTask_route :: route where
  "createTask_route = route POST [''tasks''] 201 (Some [''tenant:tasks:create''])"

definition createTask_request where
  "createTask_request E auth dto =
     serveRoute E createTask_route auth [] (\<lambda>T u. createTask E T dto u)"

definition listTasks_route :: route where
  "listTasks_route = route GET [''tasks''] 200 (Some [''tenant:tasks:view''])"

definition listTasks_request where
  "listTasks_request E auth qry = serveRoute E listTasks_route auth [] (\<lambda>T _. listTasks T qry)"

definition getTask_route :: route where
  "getTask_route = route GET [''tasks'', '':taskId''] 200 (Some [''tenant:tasks:view''])"

definition getTask_request where
  "getTask_request E auth taskId =
     serveRoute E getTask_route auth [taskId] (\<lambda>T _. getTask T taskId)"

definition updateTask_route :: route where
  "updateTask_route = route PATCH [''tasks'', '':taskId''] 200 (Some [''tenant:tasks:update''])"

definition updateTask_request where
  "updateTask_request E auth taskId dto =
     serveRoute E updateTask_route auth [taskId] (\<lambda>T _. updateTask T taskId dto)"

definition deleteTask_route :: route where
  "deleteTask_route = route DELETE [''tasks'', '':taskId''] 204 (Some [''tenant:tasks:delete''])"

definition deleteTask_request where
  "deleteTask_request E auth taskId =
     serveRoute E deleteTask_route auth [taskId] (\<lambda>T _. deleteTask T taskId)"

definition addAssignee_route :: route where
  "addAssignee_route =
     route POST [''tasks'', '':taskId'', ''assignees''] 204 (Some [''tenant:tasks:update''])"

definition addAssignee_request where
  "addAssignee_request E auth taskId userId =
     serveRoute E addAssignee_route auth [taskId] (\<lambda>T u. addAssignee E T taskId userId u)"

definition removeAssignee_route :: route where
  "removeAssignee_route =
     route DELETE [''tasks'', '':taskId'', ''assignees'', '':userId''] 204 (Some [''tenant:tasks:update''])"

definition removeAssignee_request where
  "removeAssignee_request E auth taskId userId =
     serveRoute E removeAssignee_route auth [taskId, userId] (\<lambda>T _. removeAssignee T taskId userId)"

definition createChecklist_route :: route where
  "createChecklist_route =
     route POST [''tasks'', '':taskId'', ''checklists''] 201 (Some [''tenant:tasks:manage_checklist''])"

definition createChecklist_request where
  "createChecklist_request E auth taskId dto =
     serveRoute E createChecklist_route auth [taskId] (\<lambda>T _. createChecklist E T taskId dto)"

definition deleteChecklist_route :: route where
  "deleteChecklist_route =
     route DELETE [''tasks'', '':taskId'', ''checklists'', '':checklistId''] 204 (Some [''tenant:tasks:manage_checklist''])"

definition deleteChecklist_request where
  "deleteChecklist_request E auth taskId checklistId =
     serveRoute E deleteChecklist_route auth [taskId, checklistId] (\<lambda>T _. deleteChecklist T taskId checklistId)"

definition createChecklistItem_route :: route where
  "createChecklistItem_route =
     route POST [''tasks'', '':taskId'', ''checklists'', '':checklistId'', ''items''] 201 (Some [''tenant:tasks:manage_checklist''])"

definition createChecklistItem_request where
  "createChecklistItem_request E auth taskId checklistId dto =
     serveRoute E createChecklistItem_route auth [taskId, checklistId] (\<lambda>T _. createChecklistItem E T taskId checklistId dto)"

definition updateChecklistItem_route :: route where
  "updateChecklistItem_route =
     route PATCH [''tasks'', '':taskId'', ''checklists'', '':checklistId'', ''items'', '':itemId''] 200 (Some [''tenant:tasks:manage_checklist''])"

definition updateChecklistItem_request where
  "updateChecklistItem_request E auth taskId checklistId itemId dto =
     serveRoute E updateChecklistItem_route auth [taskId, checklistId, itemId] (\<lambda>T u. updateChecklistItem T taskId checklistId itemId dto u)"

definition deleteChecklistItem_route :: route where
  "deleteChecklistItem_route =
     route DELETE [''tasks'', '':taskId'', ''checklists'', '':checklistId'', ''items'', '':itemId''] 204 (Some [''tenant:tasks:manage_checklist''])"

definition deleteChecklistItem_request where
  "deleteChecklistItem_request E auth taskId checklistId itemId =
     serveRoute E deleteChecklistItem_route auth [taskId, checklistId, itemId] (\<lambda>T _. deleteChecklistItem T taskId checklistId itemId)"

definition tasks_routes :: "route list" where
  "tasks_routes =
     [createTask_route, listTasks_route, getTask_route, updateTask_route, deleteTask_route,
      addAssignee_route, removeAssignee_route, createChecklist_route, deleteChecklist_route,
      createChecklistItem_route, updateChecklistItem_route, deleteChecklistItem_route]"

text \<open>The public route: no guard but the one that lets it through, and no principal.\<close>

definition ingestLead_request where
  "ingestLead_request E token payload =
     await (guards E ingestLead_route None) (\<lambda>_. ingestLead E token payload)"

subsection \<open>The service\<close>

text \<open>The modules in the order of \<^verbatim>\<open>AppModule\<close>.\<close>

definition crm_routes :: "route list" where
  "crm_routes =
     health_routes @ tenant_routes @ staff_routes @ branches_routes @ roles_routes @ custom_fields_routes @
     tags_routes @ contacts_routes @ sources_routes @ lists_routes @ leads_routes @
     statuses_routes @ assignment_routes @ webhooks_routes @ ingestion_routes @
     activities_routes @ my_tasks_routes @ tasks_routes"

end
