(* ===== verification/Auth_Api.thy ===== *)
theory Auth_Api
  imports Auth_Controller Signup Email_Verify Password_Reset Routes
begin

text \<open>
  The controllers of \<^verbatim>\<open>auth-service\<close> as routes: what the decorators of each handler declare, and the request
  as a client sends it. The service provides no resolver of permissions and asks for none, so what
  stands before a handler that is not public is the guard of tokens.
\<close>

subsection \<open>The way of a request\<close>

definition user_route :: "http_method \<Rightarrow> string list \<Rightarrow> nat \<Rightarrow> route" where
  "user_route m p s =
     \<lparr>rt_method = m, rt_path = p, rt_status = s, rt_public = False, rt_tenantScoped = False,
      rt_required = None\<rparr>"

lemma user_route_simps [simp]:
  "rt_method (user_route m p s) = m" "rt_path (user_route m p s) = p" "\<not> rt_public (user_route m p s)"
  "rt_required (user_route m p s) = None"
  by (simp_all add: user_route_def)

definition user_guards :: "env \<Rightarrow> route \<Rightarrow> string option \<Rightarrow> (world, AuthenticatedUser option) handler" where
  "user_guards E r auth =
     await (jwtAuthGuard E (rt_public r) auth) (\<lambda>user.
     permissionsGuard None (rt_required r) False user)"

definition serveUser ::
    "env \<Rightarrow> route \<Rightarrow> string option \<Rightarrow> (AuthenticatedUser option \<Rightarrow> (world, 'a) handler) \<Rightarrow> (world, 'a) handler" where
  "serveUser E r auth h = await (user_guards E r auth) h"

text \<open>The first field of the principal that a handler reads fails when there is none.\<close>

definition with_user ::
    "string \<Rightarrow> (AuthenticatedUser \<Rightarrow> ('w, 'a) handler) \<Rightarrow> AuthenticatedUser option \<Rightarrow> ('w, 'a) handler" where
  "with_user field h user =
     (case user of
        None \<Rightarrow> throw (PlainError (''Cannot read properties of undefined (reading '' @ quoted field @ '')''))
      | Some u \<Rightarrow> h u)"

subsection \<open>\<^verbatim>\<open>AuthController\<close>\<close>

definition REFRESH_TOKEN_COOKIE :: string where "REFRESH_TOKEN_COOKIE = ''refresh_token''"

text \<open>
  \<^verbatim>\<open>setRefreshCookie\<close>: how the cookie of a result (\<open>lr_refreshCookie\<close>) is written to the response; the
  flag says whether \<^verbatim>\<open>NODE_ENV\<close> is \<^verbatim>\<open>production\<close>.
\<close>

record set_cookie =
  sc_name :: string
  sc_value :: string
  sc_httpOnly :: bool
  sc_secure :: bool
  sc_sameSite :: string
  sc_path :: string
  sc_expires :: int

definition setRefreshCookie :: "bool \<Rightarrow> string \<Rightarrow> int \<Rightarrow> set_cookie" where
  "setRefreshCookie production raw expiresAt =
     \<lparr>sc_name = REFRESH_TOKEN_COOKIE, sc_value = raw, sc_httpOnly = True, sc_secure = production,
      sc_sameSite = ''strict'', sc_path = ''/'', sc_expires = expiresAt\<rparr>"

definition signup_route :: route where
  "signup_route = public_route POST [''auth'', ''signup''] 201"

definition signup_request where
  "signup_request E dto =
     serveUser E signup_route None (\<lambda>_. signupHandler E dto)"

definition inviteAccept_route :: route where
  "inviteAccept_route = public_route POST [''auth'', ''invite'', ''accept''] 200"

definition inviteAccept_request where
  "inviteAccept_request E token password ip userAgent =
     serveUser E inviteAccept_route None (\<lambda>_. inviteAcceptHandler E
       \<lparr>ic_rawToken = token, ic_password = password, ic_ipAddress = Some ip, ic_userAgent = userAgent\<rparr>)"

definition login_route :: route where
  "login_route = public_route POST [''auth'', ''login''] 200"

definition login_request where
  "login_request E email password ip userAgent =
     serveUser E login_route None (\<lambda>_. loginHandler E
       \<lparr>lc_email = email, lc_password = password, lc_ipAddress = Some ip, lc_userAgent = userAgent\<rparr>)"

definition refresh_route :: route where
  "refresh_route = public_route POST [''auth'', ''refresh''] 200"

definition refresh_request where
  "refresh_request E cookie =
     serveUser E refresh_route None (\<lambda>_. refreshHandler E cookie)"

definition logout_route :: route where
  "logout_route = user_route POST [''auth'', ''logout''] 204"

definition logout_request where
  "logout_request E auth cookie =
     serveUser E logout_route auth (with_user ''sessionId'' (\<lambda>u. logoutHandler E u cookie))"

definition logoutAll_route :: route where
  "logoutAll_route = user_route POST [''auth'', ''logout-all''] 204"

definition logoutAll_request where
  "logoutAll_request E auth =
     serveUser E logoutAll_route auth (with_user ''userId'' logoutAllHandler)"

definition verifyEmail_route :: route where
  "verifyEmail_route = public_route POST [''auth'', ''verify-email''] 200"

definition verifyEmail_request where
  "verifyEmail_request E token =
     serveUser E verifyEmail_route None (\<lambda>_. verifyEmailHandler E token)"

definition resendVerifyEmail_route :: route where
  "resendVerifyEmail_route = public_route POST [''auth'', ''resend-verify-email''] 200"

definition resendVerifyEmail_request where
  "resendVerifyEmail_request E email =
     serveUser E resendVerifyEmail_route None (\<lambda>_. resendVerifyEmailHandler E email)"

definition forgotPassword_route :: route where
  "forgotPassword_route = public_route POST [''auth'', ''forgot-password''] 200"

definition forgotPassword_request where
  "forgotPassword_request E email =
     serveUser E forgotPassword_route None (\<lambda>_. forgotPasswordHandler E email)"

definition resetPassword_route :: route where
  "resetPassword_route = public_route POST [''auth'', ''reset-password''] 200"

definition resetPassword_request where
  "resetPassword_request E token newPassword =
     serveUser E resetPassword_route None (\<lambda>_. resetPasswordHandler E token newPassword)"

definition twoFactorSetup_route :: route where
  "twoFactorSetup_route = user_route POST [''auth'', ''2fa'', ''setup''] 200"

definition twoFactorSetup_request where
  "twoFactorSetup_request E auth =
     serveUser E twoFactorSetup_route auth (with_user ''userId'' (twoFactorSetupHandler E))"

definition twoFactorConfirm_route :: route where
  "twoFactorConfirm_route = user_route POST [''auth'', ''2fa'', ''confirm''] 204"

definition twoFactorConfirm_request where
  "twoFactorConfirm_request E auth code =
     serveUser E twoFactorConfirm_route auth (with_user ''userId'' (\<lambda>u. twoFactorConfirmHandler E u code))"

definition twoFactorDisable_route :: route where
  "twoFactorDisable_route = user_route POST [''auth'', ''2fa'', ''disable''] 204"

definition twoFactorDisable_request where
  "twoFactorDisable_request E auth code =
     serveUser E twoFactorDisable_route auth (with_user ''userId'' (\<lambda>u. twoFactorDisableHandler E u code))"

definition twoFactorVerify_route :: route where
  "twoFactorVerify_route = public_route POST [''auth'', ''2fa'', ''verify''] 200"

definition twoFactorVerify_request where
  "twoFactorVerify_request E auth code ip =
     serveUser E twoFactorVerify_route auth (\<lambda>_. twoFactorVerifyHandler E auth code (Some ip))"

definition twoFactorRegenerate_route :: route where
  "twoFactorRegenerate_route = user_route POST [''auth'', ''2fa'', ''backup-codes'', ''regenerate''] 200"

definition twoFactorRegenerate_request where
  "twoFactorRegenerate_request E auth code =
     serveUser E twoFactorRegenerate_route auth (with_user ''userId'' (\<lambda>u. twoFactorRegenerateBackupCodesHandler E u code))"

definition me_route :: route where
  "me_route = user_route GET [''auth'', ''me''] 200"

definition me_request where
  "me_request E auth =
     serveUser E me_route auth (with_user ''userId'' meHandler)"

definition auth_routes :: "route list" where
  "auth_routes =
     [signup_route, inviteAccept_route, login_route, refresh_route, logout_route,
      logoutAll_route, verifyEmail_route, resendVerifyEmail_route, forgotPassword_route,
      resetPassword_route, twoFactorSetup_route, twoFactorConfirm_route, twoFactorDisable_route,
      twoFactorVerify_route, twoFactorRegenerate_route, me_route]"

subsection \<open>\<^verbatim>\<open>DevController\<close>\<close>

text \<open>
  \<^verbatim>\<open>modules/dev\<close>, which is registered outside production only: verification without a token and the
  migrations of all tenant schemas. The texts of the migrations are a parameter; a key that every
  object inherits is not among those that the controller means.
\<close>

definition MIGRATION_KEYS :: "string list" where
  "MIGRATION_KEYS = [''lead_assignment_webhook'', ''lead_activities'', ''tasks'']"

record DevVerifyResponse =
  dv_message :: string
  dv_userId :: string
  dv_tenantId :: string

definition devVerifyEmail :: "env \<Rightarrow> string \<Rightarrow> (world, DevVerifyResponse) handler" where
  "devVerifyEmail E email =
     await (bypassVerify E email) (\<lambda>result.
     ret \<lparr>dv_message = ''Email verified. You can now log in.'', dv_userId = ve_userId result,
          dv_tenantId = ve_tenantId result\<rparr>)"

definition runTenantMigration ::
    "env \<Rightarrow> (string \<Rightarrow> string) \<Rightarrow> string option \<Rightarrow> (world, migration_result) handler" where
  "runTenantMigration E migrations dto_key =
     (let key = orElse dto_key ''lead_activities'' in
      if key \<notin> set MIGRATION_KEYS \<or> migrations key = [] then
        throw (Nest (BadRequestException
          (''Unknown migration key '' @ [CHR 0x22] @ key @ [CHR 0x22] @ ''. Available: '' @
           join_with '', '' MIGRATION_KEYS)))
      else applyMigrationToAllTenants E (migrations key))"

definition devVerifyEmail_route :: route where
  "devVerifyEmail_route = public_route POST [''dev'', ''verify-email''] 200"

definition devVerifyEmail_request where
  "devVerifyEmail_request E email =
     serveUser E devVerifyEmail_route None (\<lambda>_. devVerifyEmail E email)"

definition runTenantMigration_route :: route where
  "runTenantMigration_route = public_route POST [''dev'', ''run-tenant-migration''] 200"

definition runTenantMigration_request where
  "runTenantMigration_request E migrations key =
     serveUser E runTenantMigration_route None (\<lambda>_. runTenantMigration E migrations key)"

definition dev_routes :: "route list" where
  "dev_routes = [devVerifyEmail_route, runTenantMigration_route]"

text \<open>The routes of the service in the order in which its modules register them.\<close>

definition auth_service_routes :: "bool \<Rightarrow> route list" where
  "auth_service_routes isProd = health_routes @ auth_routes @ (if isProd then [] else dev_routes)"

end
