(* ===== verification/Api_Properties.thy ===== *)
theory Api_Properties
  imports Crm_Api Auth_Api Provisioning Crm_Properties Access_Properties
begin

text \<open>
  Properties of the routes of \<^verbatim>\<open>crm-core\<close>: every route is reached, none but the public one lets a
  request through without a verified token, a tenant and the permissions that it asks for, and which
  of them ask for a permission that nobody is ever given.
\<close>

subsection \<open>The way to a handler\<close>

lemma crm_unshadowed: "unshadowed (signatures crm_routes)"
  by code_simp

text \<open>Every request reaches its route. A path that instantiates the pattern of a route, with
  parameters that are not themselves words of the routes (identifiers never are), is served by that
  route: no route that is registered earlier catches it.\<close>

theorem requests_reach_their_route:
  assumes "r \<in> set crm_routes" and "instance_of (words_of crm_routes) (rt_path r) path"
  shows "dispatch crm_routes (rt_method r) path = Some r"
  using crm_unshadowed assms by (rule dispatch_unshadowed) simp

lemma requests_reach_their_route_witness:
  "dispatch crm_routes GET [''roles'', ''permissions''] = Some listPermissions_route \<and>
   dispatch crm_routes PUT [''roles'', ''u7'', ''permissions''] = Some updateRolePermissions_route"
proof
  have r: "listPermissions_route \<in> set crm_routes" "updateRolePermissions_route \<in> set crm_routes"
    by (simp_all add: crm_routes_def roles_routes_def)
  have "list_all (\<lambda>r. ''u7'' \<notin> set (rt_path r)) crm_routes" by code_simp
  then have "''u7'' \<notin> words_of crm_routes" by (auto simp: words_of_def list_all_iff)
  then have "instance_of (words_of crm_routes) (rt_path updateRolePermissions_route) [''roles'', ''u7'', ''permissions'']"
    by (simp add: updateRolePermissions_route_def instance_of_def is_param_def)
  from requests_reach_their_route [OF r(2) this]
  show "dispatch crm_routes PUT [''roles'', ''u7'', ''permissions''] = Some updateRolePermissions_route"
    by (simp add: updateRolePermissions_route_def)
  have "instance_of (words_of crm_routes) (rt_path listPermissions_route) [''roles'', ''permissions'']"
    by (simp add: listPermissions_route_def instance_of_def is_param_def)
  from requests_reach_their_route [OF r(1) this]
  show "dispatch crm_routes GET [''roles'', ''permissions''] = Some listPermissions_route"
    by (simp add: listPermissions_route_def)
qed

subsection \<open>What a request needs\<close>

text \<open>The state of the guards is the revocation list, which they read, and the cache.\<close>

definition same_but_cache :: "world \<Rightarrow> world \<Rightarrow> bool" where
  "same_but_cache w w' \<longleftrightarrow> w' = w\<lparr>w_permCache := w_permCache w'\<rparr>"

lemma resolve_state:
  assumes "resolve u t w = (r, w')"
  shows "same_but_cache w w'"
proof (cases "kv_get (w_now w) (w_permCache w) (cache_key u t)")
  case (Some ps)
  with assms show ?thesis by (auto simp: resolve_def await_run same_but_cache_def)
next
  case None
  obtain l w1 where load: "loadFromDb u t w = (l, w1)" by fastforce
  then have "w1 = w" by (rule loadFromDb_state)
  with assms None load show ?thesis
    by (cases l) (auto simp: resolve_def await_run same_but_cache_def)
qed

lemma jwtAuthGuard_passes:
  assumes "jwtAuthGuard E False auth w = (Inr user, w')"
  shows "w' = w \<and> (\<exists>token c u. extractBearerToken auth = Some token \<and>
    e_jwtVerify E token (w_now w) = Verified c \<and> isRevoked (c_jti c) w = (Inr False, w) \<and>
    toAuthenticatedUser c = Inr u \<and> user = Some u)"
  using assms
  by (auto simp: jwtAuthGuard_def await_run jwt_verify_run isRevoked_def throwIf_run
      split: option.splits jwt_result.splits if_splits sum.splits)

lemma principal:
  assumes "toAuthenticatedUser c = Inr u"
  shows "au_userId u = c_sub c \<and> au_permissions u = [] \<and>
    (tenant_scoped u \<longrightarrow> au_tenantId u = c_tenantId c \<and> (c_scope c = ''tenant'' \<or> c_scope c = ''impersonation''))"
  using assms
  by (auto simp: toAuthenticatedUser_def base_user_def tenant_user_def tenant_scoped_def split: if_splits)

lemma permissionsGuard_passes:
  assumes "permissionsGuard (Some resolve) required False (Some u) w = (Inr user, w')"
    and "au_permissions u = []"
  shows "same_but_cache w w' \<and> (\<exists>u'. user = Some u' \<and> au_userId u' = au_userId u \<and>
    au_tenantId u' = au_tenantId u \<and> tenant_scoped u' = tenant_scoped u) \<and>
    (tenant_scoped u \<longrightarrow> set (orElse required []) \<subseteq> held_permissions w (au_userId u) (au_tenantId u))"
proof (cases "orElse required [] = []")
  case True
  with assms show ?thesis by (auto simp: permissionsGuard_def same_but_cache_def)
next
  case False
  show ?thesis
  proof (cases "tenant_scoped u")
    case True
    with assms False obtain ps where ps: "resolve (au_userId u) (au_tenantId u) w = (Inr ps, w')"
      and "user = Some (u\<lparr>au_permissions := ps\<rparr>)" "\<forall>p \<in> set (orElse required []). p \<in> set ps"
      by (auto simp: permissionsGuard_def load_permissions_def await_run throwIf_run Let_def
          filter_empty_conv subset_eq split: sum.splits prod.splits if_splits)
    with True show ?thesis
      using resolve_answers [OF ps] resolve_state [OF ps] by (auto simp: tenant_scoped_def)
  next
    case not_tenant: False
    with assms False show ?thesis
      by (auto simp: permissionsGuard_def load_permissions_def await_run throwIf_run Let_def
          same_but_cache_def split: if_splits)
  qed
qed

lemma tenant_scope_everywhere: "list_all (\<lambda>r. rt_public r \<or> rt_tenantScoped r) crm_routes"
  by code_simp

lemma public_routes: "filter rt_public crm_routes = health_routes @ [ingestLead_route]"
  by code_simp

lemma guards_pass:
  assumes "guards E r auth w = (Inr user, w')" and "\<not> rt_public r" and "rt_tenantScoped r"
  shows "same_but_cache w w' \<and> (\<exists>token c u. extractBearerToken auth = Some token \<and>
    e_jwtVerify E token (w_now w) = Verified c \<and> isRevoked (c_jti c) w = (Inr False, w) \<and>
    (c_scope c = ''tenant'' \<or> c_scope c = ''impersonation'') \<and>
    set (orElse (rt_required r) []) \<subseteq> held_permissions w (c_sub c) (c_tenantId c) \<and>
    user = Some u \<and> au_userId u = c_sub c \<and> au_tenantId u = c_tenantId c)"
proof -
  from assms obtain user1 w1 user2 where run: "jwtAuthGuard E False auth w = (Inr user1, w1)"
    "permissionsGuard (Some resolve) (rt_required r) False user1 w1 = (Inr user2, w')"
    "tenantScopeGuard False user2 w' = (Inr (), w')" "user = user2"
    by (auto simp: guards_def Inr_iffs tenantScopeGuard_def throwIf_run split: option.splits if_splits)
  from jwtAuthGuard_passes [OF run(1)] obtain token c u where
    token: "w1 = w" "extractBearerToken auth = Some token" "e_jwtVerify E token (w_now w) = Verified c"
      "isRevoked (c_jti c) w = (Inr False, w)" and u: "toAuthenticatedUser c = Inr u" "user1 = Some u"
    by blast
  from permissionsGuard_passes [of "rt_required r" u w user2 w'] run(2) token(1) u principal [OF u(1)]
  obtain u' where u': "user2 = Some u'" "same_but_cache w w'" "au_userId u' = au_userId u"
    "au_tenantId u' = au_tenantId u" "tenant_scoped u' = tenant_scoped u"
    "tenant_scoped u \<longrightarrow> set (orElse (rt_required r) []) \<subseteq> held_permissions w (au_userId u) (au_tenantId u)"
    by auto
  moreover have "tenant_scoped u" using run(3) u'(1,5) by (simp add: tenantScopeGuard_def throwIf_run split: if_splits)
  ultimately show ?thesis using token principal [OF u(1)] run(4) by auto
qed

text \<open>C37: no route of a tenant lets a request through that it should not. When a request to a route that is not
  public returns a result, its header carries a token that is verified at that instant and not
  revoked, for a user of a tenant (or one who stands in for such a user), the user holds every
  permission that the route asks for, the identifiers in the path are identifiers, and the result is
  the handler's, run for that tenant and that user in the state of the request, the cache of
  permissions apart. The public routes are the three of the health checks and that of the webhooks.\<close>

theorem tenant_routes_fail_closed:
  assumes "r \<in> set crm_routes" and "\<not> rt_public r" and "serveRoute E r auth ids h w = (Inr x, w')"
  shows "(\<exists>token c T w1. extractBearerToken auth = Some token \<and>
      e_jwtVerify E token (w_now w) = Verified c \<and> isRevoked (c_jti c) w = (Inr False, w) \<and>
      (c_scope c = ''tenant'' \<or> c_scope c = ''impersonation'') \<and> c_tenantId c = Some T \<and>
      set (orElse (rt_required r) []) \<subseteq> held_permissions w (c_sub c) (Some T) \<and>
      list_all (e_isUuid E) ids \<and> same_but_cache w w1 \<and> h T (c_sub c) w1 = (Inr x, w')) \<and>
    filter rt_public crm_routes = health_routes @ [ingestLead_route]"
proof -
  have "rt_tenantScoped r" using assms(1,2) tenant_scope_everywhere by (auto simp: list_all_iff)
  moreover from assms(3) obtain user w1 where run: "guards E r auth w = (Inr user, w1)"
    "list_all (e_isUuid E) ids" "with_principal user h w1 = (Inr x, w')"
    by (auto simp: serveRoute_def Inr_iffs parse_uuids_def)
  ultimately obtain token c u where *: "same_but_cache w w1" "extractBearerToken auth = Some token"
    "e_jwtVerify E token (w_now w) = Verified c" "isRevoked (c_jti c) w = (Inr False, w)"
    "c_scope c = ''tenant'' \<or> c_scope c = ''impersonation''"
    "set (orElse (rt_required r) []) \<subseteq> held_permissions w (c_sub c) (c_tenantId c)"
    "user = Some u" "au_userId u = c_sub c" "au_tenantId u = c_tenantId c"
    using guards_pass [OF run(1) assms(2)] by blast
  then obtain T where "c_tenantId c = Some T" "h T (c_sub c) w1 = (Inr x, w')"
    using run(3) by (auto simp: with_principal_def split: option.splits)
  then show ?thesis using * run(2) public_routes by (metis (no_types))
qed

lemma demo_token: "extractBearerToken (Some ''Bearer ju1'') = Some ''ju1''"
  by code_simp

lemma demo_guard:
  "jwtAuthGuard demo_env False (Some ''Bearer ju1'') demo_clerk_world = (Inr (Some demo_clerk), demo_clerk_world)"
  using demo_token
  by (simp add: jwtAuthGuard_def await_run jwt_verify_run isRevoked_def throwIf_run demo_verify_def
      demo_clerk_world_def demo_world_def empty_world_def kv_get_def toAuthenticatedUser_def demo_clerk_def)
    (simp add: demo_claims_def claims_of_def tenant_payload_def)

lemma demo_serve:
  "\<exists>w'. serveRoute demo_env createLead_route (Some ''Bearer ju1'') [] (\<lambda>T u. ret (T, u)) demo_clerk_world =
     (Inr (''t1'', ''owner''), w')"
  using demo_guard demo_resolve
  by (simp add: serveRoute_def guards_def createLead_route_def await_run permissionsGuard_def
      load_permissions_def demo_clerk_facts throwIf_run Let_def tenantScopeGuard_def parse_uuids_run
      with_principal_def)
    (simp add: demo_clerk_def tenant_user_def base_user_def tenant_scoped_def demo_claims_def claims_of_def
      tenant_payload_def)

lemma tenant_routes_fail_closed_witness:
  "\<exists>w'. serveRoute demo_env createLead_route (Some ''Bearer ju1'') [] (\<lambda>T u. ret (T, u)) demo_clerk_world =
     (Inr (''t1'', ''owner''), w') \<and>
   (\<exists>c. ''tenant:leads:create'' \<in> held_permissions demo_clerk_world (c_sub c) (c_tenantId c) \<and>
      e_jwtVerify demo_env ''ju1'' 1000000 = Verified c)"
proof -
  from demo_serve obtain w' where run: "serveRoute demo_env createLead_route (Some ''Bearer ju1'') []
      (\<lambda>T u. ret (T, u)) demo_clerk_world = (Inr (''t1'', ''owner''), w')" by blast
  moreover have "createLead_route \<in> set crm_routes" by (simp add: crm_routes_def leads_routes_def)
  moreover have "\<not> rt_public createLead_route" by (simp add: createLead_route_def)
  moreover have "orElse (rt_required createLead_route) [] = [''tenant:leads:create'']"
    by (simp add: createLead_route_def)
  ultimately show ?thesis
    using tenant_routes_fail_closed [OF _ _ run] demo_token by (fastforce simp: demo_cache)
qed

subsection \<open>The routes of the authentication service\<close>

lemmas auth_route_defs =
  signup_route_def inviteAccept_route_def login_route_def refresh_route_def logout_route_def logoutAll_route_def
  verifyEmail_route_def resendVerifyEmail_route_def forgotPassword_route_def resetPassword_route_def
  twoFactorSetup_route_def twoFactorConfirm_route_def twoFactorDisable_route_def twoFactorVerify_route_def
  twoFactorRegenerate_route_def me_route_def devVerifyEmail_route_def runTenantMigration_route_def
  health_routes_def health_route_def liveness_route_def readiness_route_def

lemma auth_public_routes:
  "filter rt_public (auth_service_routes True) =
     health_routes @ [signup_route, inviteAccept_route, login_route, refresh_route, verifyEmail_route,
      resendVerifyEmail_route, forgotPassword_route, resetPassword_route, twoFactorVerify_route]"
  by code_simp

text \<open>Every path of the service is served by its own route.\<close>

lemma auth_requests_reach_their_route:
  assumes "r \<in> set (auth_service_routes isProd)"
    and "instance_of (words_of (auth_service_routes isProd)) (rt_path r) path"
  shows "dispatch (auth_service_routes isProd) (rt_method r) path = Some r"
proof -
  have "unshadowed (signatures (auth_service_routes True))" "unshadowed (signatures (auth_service_routes False))"
    by code_simp+
  then have "unshadowed (signatures (auth_service_routes isProd))" by (cases isProd) simp_all
  from dispatch_unshadowed [OF this assms] show ?thesis by simp
qed

text \<open>C25: no route of the authentication service lets a request through that it should not. When a request to a
  route that is not public returns a result, its header carries a token that is verified at that instant
  and not revoked, of a full session (the token of a login that still waits for its second factor opens
  none of them), and the result is the handler's for the user of that token, run in the state of the
  request. The public routes are the three of the health checks and nine that prove the user by other
  means; outside production, and only there, the two shortcuts for developers come to them.\<close>

theorem auth_routes_fail_closed:
  assumes "r \<in> set (auth_service_routes isProd)" and "\<not> rt_public r"
    and "serveUser E r auth (with_user field h) w = (Inr x, w')"
  shows "(\<exists>token c u. extractBearerToken auth = Some token \<and> e_jwtVerify E token (w_now w) = Verified c \<and>
      isRevoked (c_jti c) w = (Inr False, w) \<and> c_scope c \<noteq> ''two_factor_pending'' \<and>
      toAuthenticatedUser c = Inr u \<and> au_userId u = c_sub c \<and> h u w = (Inr x, w')) \<and>
    filter rt_public (auth_service_routes True) =
      health_routes @ [signup_route, inviteAccept_route, login_route, refresh_route, verifyEmail_route,
        resendVerifyEmail_route, forgotPassword_route, resetPassword_route, twoFactorVerify_route] \<and>
    auth_service_routes False = auth_service_routes True @ [devVerifyEmail_route, runTenantMigration_route]"
proof -
  have open_routes: "rt_required r = None"
    using assms(1) by (auto simp: auth_service_routes_def auth_routes_def dev_routes_def auth_route_defs split: if_splits)
  with assms(2,3) obtain user where run: "jwtAuthGuard E False auth w = (Inr user, w)"
      "with_user field h user w = (Inr x, w')"
    by (auto simp: serveUser_def user_guards_def await_Inr_iff permissionsGuard_def dest: jwtAuthGuard_passes)
  from jwtAuthGuard_passes [OF run(1)] obtain token c u where
    "extractBearerToken auth = Some token" "e_jwtVerify E token (w_now w) = Verified c"
      "isRevoked (c_jti c) w = (Inr False, w)" and u: "toAuthenticatedUser c = Inr u" "user = Some u"
    by blast
  moreover have "c_scope c \<noteq> ''two_factor_pending''" using u(1) by (auto simp: toAuthenticatedUser_def)
  moreover have "au_userId u = c_sub c" using principal [OF u(1)] by simp
  moreover have "h u w = (Inr x, w')" using run(2) u(2) by (simp add: with_user_def)
  ultimately show ?thesis using auth_public_routes by (auto simp: auth_service_routes_def dev_routes_def)
qed

theorem auth_routes_fail_closed_witness:
  "serveUser demo_env me_route (Some ''Bearer ju1'') (with_user ''userId'' (\<lambda>u. ret (au_userId u))) demo_clerk_world =
     (Inr ''owner'', demo_clerk_world) \<and>
   (\<exists>c. e_jwtVerify demo_env ''ju1'' 1000000 = Verified c \<and> c_sub c = ''owner'')"
proof -
  have run: "serveUser demo_env me_route (Some ''Bearer ju1'') (with_user ''userId'' (\<lambda>u. ret (au_userId u)))
      demo_clerk_world = (Inr ''owner'', demo_clerk_world)"
    using demo_guard
    by (simp add: serveUser_def user_guards_def me_route_def await_run permissionsGuard_def with_user_def
        demo_clerk_def tenant_user_def base_user_def demo_claims_def claims_of_def tenant_payload_def)
  have route: "me_route \<in> set (auth_service_routes True)" "\<not> rt_public me_route"
    by (simp_all add: auth_service_routes_def auth_routes_def me_route_def)
  show ?thesis
    using auth_routes_fail_closed [OF route run] run demo_token by (fastforce simp: demo_cache)
qed

subsection \<open>Permissions that nobody has\<close>

text \<open>A route that asks for a permission that the seeds of a tenant do not contain.\<close>

definition unseeded :: "string option \<Rightarrow> route \<Rightarrow> bool" where
  "unseeded v r \<longleftrightarrow> \<not> set (orElse (rt_required r) []) \<subseteq> seeded_slugs v"

definition tenant_slugs :: "TenantPermissionSeed list \<Rightarrow> string list" where
  "tenant_slugs ps = filter (\<lambda>s. take 7 s = ''tenant:'') (map ps_slug ps)"

lemma vertical_slugs:
  "tenant_slugs medical_permissions = []" "tenant_slugs law_permissions = []"
  "tenant_slugs restaurant_permissions = []" "tenant_slugs school_permissions = []"
  "tenant_slugs gym_permissions = []"
  by code_simp+

lemma tenant_slug_seeded:
  assumes "take 7 s = ''tenant:''"
  shows "s \<in> seeded_slugs v \<longleftrightarrow> s \<in> set (map ps_slug CORE_TENANT_PERMISSIONS)"
proof -
  have "tenant_slugs (vertical_permissions v) = []"
    using vertical_slugs
    by (simp add: vertical_permissions_def VERTICAL_TENANT_PERMISSIONS_def tenant_slugs_def)
  then have "s \<notin> ps_slug ` set (vertical_permissions v)"
    using assms by (auto simp: tenant_slugs_def filter_empty_conv)
  then show ?thesis by (auto simp: seeded_slugs_def all_permissions_def)
qed

lemma required_are_tenant_slugs:
  "list_all (\<lambda>r. list_all (\<lambda>s. take 7 s = ''tenant:'') (orElse (rt_required r) [])) crm_routes"
  by code_simp

lemma unseeded_core:
  "filter (\<lambda>r. \<not> list_all (\<lambda>s. s \<in> set (map ps_slug CORE_TENANT_PERMISSIONS)) (orElse (rt_required r) [])) crm_routes =
     [createActivity_route, updateActivity_route, deleteActivity_route] @ tasks_routes"
  by code_simp

lemma unseeded_routes:
  "filter (unseeded v) crm_routes =
     [createActivity_route, updateActivity_route, deleteActivity_route] @ tasks_routes"
proof -
  have "unseeded v r \<longleftrightarrow>
      \<not> list_all (\<lambda>s. s \<in> set (map ps_slug CORE_TENANT_PERMISSIONS)) (orElse (rt_required r) [])"
    if "r \<in> set crm_routes" for r
    using required_are_tenant_slugs tenant_slug_seeded [of _ v] that
    by (auto simp: unseeded_def list_all_iff)
  then show ?thesis unfolding unseeded_core [symmetric] by (intro filter_cong refl)
qed

definition asks_for_one :: "route \<Rightarrow> bool" where
  "asks_for_one r \<longleftrightarrow> (case rt_required r of Some [p] \<Rightarrow> True | _ \<Rightarrow> False)"

lemma asks_for_oneD: "asks_for_one r \<Longrightarrow> \<exists>p. rt_required r = Some [p]"
  by (auto simp: asks_for_one_def split: option.splits list.splits)

lemma unseeded_ask_for_one:
  "list_all asks_for_one
     ([createActivity_route, updateActivity_route, deleteActivity_route] @ tasks_routes)"
  by code_simp

text \<open>No request adds a permission to the tables of a tenant, so what the seeds left out stays out.\<close>

definition catalogue :: "string \<Rightarrow> world \<Rightarrow> permission list option" where
  "catalogue s w = map_option db_permissions (w_schemas w s)"

lemma change_catalogue: "db_change db db' \<Longrightarrow> db_permissions db' = db_permissions db"
  by (erule db_change.cases) simp_all

interpretation catalogue: tenant_writes "same (catalogue s)" for s
proof
  show "w_schemas w' = w_schemas w \<Longrightarrow> same (catalogue s) w w'" for w w' :: world
    by (simp add: same_def catalogue_def)
  show "same (catalogue s) w w'"
    if "w_schemas w s' = Some db" and "db_change db db'" and "w_schemas w' = (w_schemas w)(s' \<mapsto> db')"
    for w w' :: world and s' db db'
    using that change_catalogue [OF that(2)] by (auto simp: same_def catalogue_def)
qed

lemma granted_in_catalogue: "granted db u \<subseteq> pm_slug ` set (db_permissions db)"
  by (auto simp: granted_def dest: lookupBy_in)

lemma guards_refuse:
  assumes "jwtAuthGuard E False auth w = (Inr (Some u), w)" and "\<not> rt_public r"
    and "tenant_scoped u" and "au_permissions u = []"
    and "rt_required r = Some [p]" and "resolve (au_userId u) (au_tenantId u) w = (Inr ps, w')"
    and "p \<notin> set ps"
  shows "serveRoute E r auth ids h w = (Inl (Permission (InsufficientPermissionsException (Some [p]))), w')"
  using assms
  by (simp add: serveRoute_def guards_def await_run permissionsGuard_def load_permissions_def Let_def throwIf_run)

text \<open>C38: the routes of the task module and those that log activities refuse everybody. The permissions that
  they ask for are in no seed, for no vertical, and no request adds a permission to a tenant: after
  every run of requests from a tenant whose permissions are (at most) the seeded ones, and with a
  cache of permissions that holds no others for the member, a member with a valid token, the owner
  too, is told that the permission is missing, and no row of a tenant changes. Those are all the
  routes with that defect.\<close>

theorem unseeded_routes_refuse_everyone:
  assumes "w_schemas w0 s = Some db0" and "pm_slug ` set (db_permissions db0) \<subseteq> seeded_slugs v"
    and "tenant_run E w0 w" and "getSchemaName T w = (Inr s, w)" and "valid_schema_name s"
    and "r \<in> set crm_routes" and "unseeded v r"
    and "jwtAuthGuard E False auth w = (Inr (Some u), w)" and "tenant_scoped u" and "au_tenantId u = Some T"
    and "\<And>ps. kv_get (w_now w) (w_permCache w) (cache_key (au_userId u) (Some T)) = Some ps \<Longrightarrow>
      set ps \<subseteq> seeded_slugs v"
  shows "(\<exists>w'. serveRoute E r auth ids h w =
      (Inl (Permission (InsufficientPermissionsException (rt_required r))), w') \<and> same_but_cache w w') \<and>
    filter (unseeded v) crm_routes =
      [createActivity_route, updateActivity_route, deleteActivity_route] @ tasks_routes"
proof -
  have "same (catalogue s) w0 w" by (rule catalogue.run_effect [OF assms(3)])
  with assms(1) obtain db where db: "w_schemas w s = Some db" "db_permissions db = db_permissions db0"
    by (auto simp: same_def catalogue_def)
  have seeded: "granted db (au_userId u) \<subseteq> seeded_slugs v"
    using subset_trans [OF granted_in_catalogue, of db "seeded_slugs v"] assms(2) db(2) by simp
  have "\<exists>ps w'. resolve (au_userId u) (Some T) w = (Inr ps, w') \<and> set ps \<subseteq> seeded_slugs v"
  proof (cases "kv_get (w_now w) (w_permCache w) (cache_key (au_userId u) (Some T))")
    case None
    from assms(4) obtain t where "lookupBy t_id T (w_tenants w) = Some t" "t_schemaName t = s"
      by (auto simp: getSchemaName_run split: option.splits)
    with resolve_cold [OF None this(1)] assms(5) db(1) seeded show ?thesis by auto
  next
    case (Some ps)
    with assms(11) [OF Some] show ?thesis by (simp add: resolve_def await_run)
  qed
  then obtain ps w' where
    ps: "resolve (au_userId u) (Some T) w = (Inr ps, w')" "set ps \<subseteq> seeded_slugs v" by blast
  have "r \<in> set (filter (unseeded v) crm_routes)" using assms(6,7) by simp
  then have "r \<in> set ([createActivity_route, updateActivity_route, deleteActivity_route] @ tasks_routes)"
    unfolding unseeded_routes .
  then obtain p where p: "rt_required r = Some [p]"
    using unseeded_ask_for_one asks_for_oneD by (auto simp: list_all_iff)
  have missing: "p \<notin> set ps" using ps(2) assms(7) p by (auto simp: unseeded_def)
  have "\<not> rt_public r"
  proof
    assume "rt_public r"
    with assms(6) have "r \<in> set (filter rt_public crm_routes)" by simp
    then have "r \<in> set health_routes \<or> r = ingestLead_route" unfolding public_routes by auto
    with p show False
      by (auto simp: ingestLead_route_def health_routes_def health_route_def liveness_route_def readiness_route_def)
  qed
  moreover have "au_permissions u = []"
    using jwtAuthGuard_passes [OF assms(8)] principal by blast
  ultimately have "serveRoute E r auth ids h w =
      (Inl (Permission (InsufficientPermissionsException (Some [p]))), w')"
    using guards_refuse [OF assms(8) _ assms(9) _ p _ missing, of w'] ps(1) assms(10) by simp
  then show ?thesis using p resolve_state [OF ps(1)] unseeded_routes by simp
qed

lemma demo_clerk_tenants: "w_tenants demo_clerk_world = [demo_tenant]"
  by (simp add: demo_clerk_world_def demo_world_def)

lemma unseeded_routes_refuse_everyone_witness:
  "\<forall>dto. \<exists>w'. createTask_request demo_env (Some ''Bearer ju1'') dto demo_clerk_world =
     (Inl (Permission (InsufficientPermissionsException (Some [''tenant:tasks:create'']))), w')"
proof
  fix dto
  have there: "createTask_route \<in> set tasks_routes" by (simp add: tasks_routes_def)
  then have "createTask_route \<in> set (filter (unseeded None) crm_routes)" unfolding unseeded_routes by simp
  then have r: "createTask_route \<in> set crm_routes" "unseeded None createTask_route" by simp_all
  have "pm_slug ` set (db_permissions demo_clerk_db) = {''tenant:leads:create''}"
    by (simp add: demo_clerk_db_def)
  moreover have "''tenant:leads:create'' \<in> set (map ps_slug CORE_TENANT_PERMISSIONS)" by code_simp
  ultimately have seeds: "pm_slug ` set (db_permissions demo_clerk_db) \<subseteq> seeded_slugs None"
    using tenant_slug_seeded [of "''tenant:leads:create''" None] by simp
  have "w_schemas demo_clerk_world demo_schema = Some demo_clerk_db"
    by (simp add: demo_clerk_world_def demo_schema_def)
  from unseeded_routes_refuse_everyone [OF this seeds tenant_run.Start _ demo_valid r demo_guard
      demo_clerk_facts(1,4), where ids = "[]" and
      h = "\<lambda>T u. createTask demo_env T dto u"]
  have "\<exists>w'. serveRoute demo_env createTask_route (Some ''Bearer ju1'') [] (\<lambda>T u. createTask demo_env T dto u)
      demo_clerk_world = (Inl (Permission (InsufficientPermissionsException (rt_required createTask_route))), w')"
    using demo_clerk_tenants by (auto simp: demo_cache kv_get_def)
  then show "\<exists>w'. createTask_request demo_env (Some ''Bearer ju1'') dto demo_clerk_world =
     (Inl (Permission (InsufficientPermissionsException (Some [''tenant:tasks:create'']))), w')"
    by (simp add: createTask_request_def createTask_route_def)
qed

end
