(* ===== verification/Names.thy ===== *)
theory Names
  imports Main
begin

text \<open>
  Names of types, tables and columns, and lists that are keyed by them. The lemmas of the second
  part are code equations: a comparison stops at the first character that differs, so the scripts
  can be evaluated in the kernel.
\<close>

definition lookup :: "string \<Rightarrow> (string \<times> 'a) list \<Rightarrow> 'a option" where
  "lookup n xs = map_of xs n"

definition listed :: "string \<Rightarrow> string list \<Rightarrow> bool" where
  "listed n xs \<longleftrightarrow> n \<in> set xs"

definition no_duplicates :: "string list \<Rightarrow> bool" where
  "no_duplicates xs \<longleftrightarrow> distinct xs"

lemma listed_append [simp]: "listed n (xs @ ys) \<longleftrightarrow> listed n xs \<or> listed n ys"
  by (simp add: listed_def)

lemma lookup_append: "lookup n (xs @ ys) = (case lookup n xs of None \<Rightarrow> lookup n ys | Some x \<Rightarrow> Some x)"
  by (simp add: lookup_def map_add_def split: option.split)

lemma lookup_None: "lookup n xs = None \<longleftrightarrow> \<not> listed n (map fst xs)"
  by (simp add: lookup_def listed_def map_of_eq_None_iff)

lemma lookup_in: "lookup n xs = Some x \<Longrightarrow> (n, x) \<in> set xs"
  by (simp add: lookup_def map_of_SomeD)

lemma lookup_unique: "distinct (map fst xs) \<Longrightarrow> lookup n xs = Some x \<longleftrightarrow> (n, x) \<in> set xs"
  by (simp add: lookup_def)

subsection \<open>Evaluation\<close>

fun same_name :: "string \<Rightarrow> string \<Rightarrow> bool" where
  "same_name [] t = (case t of [] \<Rightarrow> True | d # t' \<Rightarrow> False)"
| "same_name (c # s) t = (case t of [] \<Rightarrow> False | d # t' \<Rightarrow> if c = d then same_name s t' else False)"

lemma same_name_iff: "same_name s t \<longleftrightarrow> s = t"
  by (induction s t rule: same_name.induct) (auto split: list.split)

lemma same_name_unfold [code_unfold]: "s = t \<longleftrightarrow> same_name s t" for s :: string
  by (simp add: same_name_iff)

lemma lookup_code [code]:
  "lookup n [] = None"
  "lookup n (x # xs) = (if same_name (fst x) n then Some (snd x) else lookup n xs)"
  by (auto simp: lookup_def same_name_iff)

lemma listed_code [code]:
  "listed n [] = False"
  "listed n (x # xs) = (if same_name x n then True else listed n xs)"
  by (auto simp: listed_def same_name_iff)

lemma no_duplicates_code [code]:
  "no_duplicates [] = True"
  "no_duplicates (x # xs) = (if listed x xs then False else no_duplicates xs)"
  by (auto simp: no_duplicates_def listed_def)

end
