(* ===== verification/Ddl.thy ===== *)
theory Ddl
  imports Tenant_Defaults Names "HOL-Library.AList"
begin

text \<open>
  The statements of the SQL scripts under \<^verbatim>\<open>libs/database/src/sql\<close> and what they do to a tenant
  schema: its catalog (types, tables with columns, indexes, foreign keys) and its tables of roles
  and permissions. Names of types and tables share one space, and so do those of tables and
  indexes, as in PostgreSQL; a primary key makes an index of its name. The order in which the
  errors of a statement are found is that of the database.
\<close>

subsection \<open>Statements\<close>

datatype sql_type =
    UUID_t | TEXT_t | BOOLEAN_t | JSONB_t | TIMESTAMPTZ_t | INTEGER_t | DOUBLE_PRECISION_t
  | Enum_t string

datatype sql_default =
    Gen_random_uuid | Current_timestamp | Text_literal string | Bool_literal bool | Int_literal int

record column =
  co_name :: string
  co_type :: sql_type
  co_notNull :: bool
  co_default :: "sql_default option"

text \<open>\<^verbatim>\<open>"c" T\<close>, \<^verbatim>\<open>"c" T NOT NULL\<close> and \<^verbatim>\<open>"c" T NOT NULL DEFAULT d\<close>.\<close>

definition nullable :: "string \<Rightarrow> sql_type \<Rightarrow> column" where
  "nullable n t = \<lparr>co_name = n, co_type = t, co_notNull = False, co_default = None\<rparr>"

definition notNull :: "string \<Rightarrow> sql_type \<Rightarrow> column" where
  "notNull n t = \<lparr>co_name = n, co_type = t, co_notNull = True, co_default = None\<rparr>"

definition defaulted :: "string \<Rightarrow> sql_type \<Rightarrow> sql_default \<Rightarrow> column" where
  "defaulted n t d = \<lparr>co_name = n, co_type = t, co_notNull = True, co_default = Some d\<rparr>"

datatype on_delete = CASCADE | SET_NULL | RESTRICT

text \<open>
  The flag of \<open>CREATE_TABLE\<close> is \<^verbatim>\<open>IF NOT EXISTS\<close>, those of \<open>CREATE_INDEX\<close> are \<^verbatim>\<open>UNIQUE\<close> and
  \<^verbatim>\<open>IF NOT EXISTS\<close>; columns and labels are always added with \<^verbatim>\<open>IF NOT EXISTS\<close>. The direction of an
  index column does not show. \<open>GUARDED\<close> is \<^verbatim>\<open>DO $$ BEGIN ... EXCEPTION WHEN duplicate_object THEN
  NULL; END $$\<close>.
\<close>

datatype ddl =
    CREATE_TYPE string "string list"
  | ADD_VALUE string string
  | CREATE_TABLE bool string "column list" string "string list"
  | ADD_COLUMN string column
  | CREATE_INDEX bool bool string string "string list"
  | ADD_FOREIGN_KEY string string string string string on_delete

datatype statement =
    DDL ddl
  | GUARDED ddl
  | INSERT_PERMISSIONS "TenantPermissionSeed list"
  | GRANT_PERMISSIONS "string list" "string list"

datatype sql_error =
    Duplicate_object | Duplicate_table | Duplicate_column | Undefined_table | Undefined_column
  | Undefined_object | Invalid_text_representation | Invalid_foreign_key | Datatype_mismatch
  | Unique_violation

subsection \<open>Catalogs\<close>

record sql_index =
  ix_unique :: bool
  ix_table :: string
  ix_columns :: "string list"

record foreign_key =
  fk_name :: string
  fk_table :: string
  fk_column :: string
  fk_refTable :: string
  fk_refColumn :: string
  fk_onDelete :: on_delete

definition index_on :: "bool \<Rightarrow> string \<Rightarrow> string list \<Rightarrow> sql_index" where
  "index_on unique t ks = \<lparr>ix_unique = unique, ix_table = t, ix_columns = ks\<rparr>"

definition foreign_key ::
    "string \<Rightarrow> string \<Rightarrow> string \<Rightarrow> string \<Rightarrow> string \<Rightarrow> on_delete \<Rightarrow> foreign_key" where
  "foreign_key t n k rt rk od =
     \<lparr>fk_name = n, fk_table = t, fk_column = k, fk_refTable = rt, fk_refColumn = rk,
      fk_onDelete = od\<rparr>"

record catalog =
  cat_types :: "(string \<times> string list) list"
  cat_tables :: "(string \<times> column list) list"
  cat_indexes :: "(string \<times> sql_index) list"
  cat_fkeys :: "foreign_key list"

definition empty_catalog :: catalog where
  "empty_catalog = \<lparr>cat_types = [], cat_tables = [], cat_indexes = [], cat_fkeys = []\<rparr>"

definition type_names :: "catalog \<Rightarrow> string list" where
  "type_names c = map fst (cat_types c) @ map fst (cat_tables c)"

definition relation_names :: "catalog \<Rightarrow> string list" where
  "relation_names c = map fst (cat_tables c) @ map fst (cat_indexes c)"

definition column_of :: "catalog \<Rightarrow> string \<Rightarrow> string \<Rightarrow> column option" where
  "column_of c t k =
     (case lookup t (cat_tables c) of None \<Rightarrow> None | Some cols \<Rightarrow> find (\<lambda>x. co_name x = k) cols)"

definition has_columns :: "catalog \<Rightarrow> string \<Rightarrow> string list \<Rightarrow> bool" where
  "has_columns c t ks \<longleftrightarrow> list_all (\<lambda>k. column_of c t k \<noteq> None) ks"

text \<open>A column that a foreign key may name: there is a unique index on it alone.\<close>

definition is_key :: "catalog \<Rightarrow> string \<Rightarrow> string \<Rightarrow> bool" where
  "is_key c t k \<longleftrightarrow>
     list_ex (\<lambda>(_, ix). ix_unique ix \<and> ix_table ix = t \<and> ix_columns ix = [k]) (cat_indexes c)"

definition label_error :: "string list \<Rightarrow> sql_default option \<Rightarrow> sql_error option" where
  "label_error labels d =
     (case d of
        Some (Text_literal l) \<Rightarrow> if listed l labels then None else Some Invalid_text_representation
      | _ \<Rightarrow> None)"

definition column_error :: "catalog \<Rightarrow> column \<Rightarrow> sql_error option" where
  "column_error c k =
     (case co_type k of
        Enum_t e \<Rightarrow>
          (case lookup e (cat_types c) of
             None \<Rightarrow> Some Undefined_object
           | Some labels \<Rightarrow> label_error labels (co_default k))
      | _ \<Rightarrow> None)"

fun first_error :: "catalog \<Rightarrow> column list \<Rightarrow> sql_error option" where
  "first_error c [] = None"
| "first_error c (k # ks) =
     (case column_error c k of Some e \<Rightarrow> Some e | None \<Rightarrow> first_error c ks)"

subsection \<open>Execution\<close>

definition create_type :: "string \<Rightarrow> string list \<Rightarrow> catalog \<Rightarrow> sql_error + catalog" where
  "create_type n labels c =
     (if listed n (type_names c) then Inl Duplicate_object
      else Inr (c\<lparr>cat_types := cat_types c @ [(n, labels)]\<rparr>))"

definition add_value :: "string \<Rightarrow> string \<Rightarrow> catalog \<Rightarrow> sql_error + catalog" where
  "add_value n l c =
     (case lookup n (cat_types c) of
        None \<Rightarrow> Inl Undefined_object
      | Some labels \<Rightarrow>
          if listed l labels then Inr c
          else Inr (c\<lparr>cat_types := AList.map_entry n (\<lambda>ls. ls @ [l]) (cat_types c)\<rparr>))"

definition create_table ::
    "bool \<Rightarrow> string \<Rightarrow> column list \<Rightarrow> string \<Rightarrow> string list \<Rightarrow> catalog \<Rightarrow> sql_error + catalog" where
  "create_table ifNotExists n cols pkey key c =
     (if listed n (relation_names c) then (if ifNotExists then Inr c else Inl Duplicate_table)
      else if listed n (type_names c) then Inl Duplicate_object
      else if \<not> no_duplicates (map co_name cols) then Inl Duplicate_column
      else
        (case first_error c cols of
           Some e \<Rightarrow> Inl e
         | None \<Rightarrow>
             if \<not> list_all (\<lambda>k. listed k (map co_name cols)) key then Inl Undefined_column
             else if pkey = n \<or> listed pkey (relation_names c) then Inl Duplicate_table
             else Inr (c\<lparr>cat_tables := cat_tables c @ [(n, cols)],
                         cat_indexes := cat_indexes c @
                           [(pkey, index_on True n key)]\<rparr>)))"

definition add_column :: "string \<Rightarrow> column \<Rightarrow> catalog \<Rightarrow> sql_error + catalog" where
  "add_column t k c =
     (case lookup t (cat_tables c) of
        None \<Rightarrow> Inl Undefined_table
      | Some cols \<Rightarrow>
          if listed (co_name k) (map co_name cols) then Inr c
          else
            (case column_error c k of
               Some e \<Rightarrow> Inl e
             | None \<Rightarrow> Inr (c\<lparr>cat_tables := AList.map_entry t (\<lambda>cols. cols @ [k]) (cat_tables c)\<rparr>)))"

definition create_index ::
    "bool \<Rightarrow> bool \<Rightarrow> string \<Rightarrow> string \<Rightarrow> string list \<Rightarrow> catalog \<Rightarrow> sql_error + catalog" where
  "create_index unique ifNotExists n t ks c =
     (if lookup t (cat_tables c) = None then Inl Undefined_table
      else if \<not> has_columns c t ks then Inl Undefined_column
      else if listed n (relation_names c) then (if ifNotExists then Inr c else Inl Duplicate_table)
      else Inr (c\<lparr>cat_indexes := cat_indexes c @ [(n, index_on unique t ks)]\<rparr>))"

definition add_foreign_key ::
    "string \<Rightarrow> string \<Rightarrow> string \<Rightarrow> string \<Rightarrow> string \<Rightarrow> on_delete \<Rightarrow> catalog \<Rightarrow> sql_error + catalog" where
  "add_foreign_key t n k rt rk od c =
     (if lookup t (cat_tables c) = None then Inl Undefined_table
      else if list_ex (\<lambda>f. fk_table f = t \<and> fk_name f = n) (cat_fkeys c) then Inl Duplicate_object
      else if lookup rt (cat_tables c) = None then Inl Undefined_table
      else
        (case column_of c t k of
           None \<Rightarrow> Inl Undefined_column
         | Some col \<Rightarrow>
             (case column_of c rt rk of
                None \<Rightarrow> Inl Undefined_column
              | Some rcol \<Rightarrow>
                  if \<not> is_key c rt rk then Inl Invalid_foreign_key
                  else if co_type col \<noteq> co_type rcol then Inl Datatype_mismatch
                  else Inr (c\<lparr>cat_fkeys := cat_fkeys c @ [foreign_key t n k rt rk od]\<rparr>))))"

fun ddl_step :: "ddl \<Rightarrow> catalog \<Rightarrow> sql_error + catalog" where
  "ddl_step (CREATE_TYPE n labels) c = create_type n labels c"
| "ddl_step (ADD_VALUE n l) c = add_value n l c"
| "ddl_step (CREATE_TABLE ifNotExists n cols pkey key) c = create_table ifNotExists n cols pkey key c"
| "ddl_step (ADD_COLUMN t k) c = add_column t k c"
| "ddl_step (CREATE_INDEX unique ifNotExists n t ks) c = create_index unique ifNotExists n t ks c"
| "ddl_step (ADD_FOREIGN_KEY t n k rt rk od) c = add_foreign_key t n k rt rk od c"

definition guarded_step :: "ddl \<Rightarrow> catalog \<Rightarrow> sql_error + catalog" where
  "guarded_step d c =
     (case ddl_step d c of
        Inl e \<Rightarrow> if e = Duplicate_object then Inr c else Inl e
      | Inr c' \<Rightarrow> Inr c')"

text \<open>
  The data statements insert into \<^verbatim>\<open>"Permission"\<close> with \<^verbatim>\<open>ON CONFLICT (slug) DO NOTHING\<close> and into
  \<^verbatim>\<open>"RolePermission"\<close> with \<^verbatim>\<open>ON CONFLICT DO NOTHING\<close>. A row that is not inserted draws no identifier.
\<close>

record schema_state =
  ss_catalog :: catalog
  ss_db :: tenant_db
  ss_now :: int
  ss_rnd :: nat

type_synonym 'a sql_act = "(sql_error, schema_state, 'a) act"

definition on_catalog :: "(catalog \<Rightarrow> sql_error + catalog) \<Rightarrow> unit sql_act" where
  "on_catalog f = (\<lambda>s. case f (ss_catalog s) of Inl e \<Rightarrow> (Inl e, s) | Inr c \<Rightarrow> (Inr (), s\<lparr>ss_catalog := c\<rparr>))"

definition requires_table :: "string \<Rightarrow> unit sql_act" where
  "requires_table t =
     await (reads (\<lambda>s. lookup t (cat_tables (ss_catalog s)) = None)) (\<lambda>missing. throwIf missing Undefined_table)"

definition new_permission :: "(nat \<Rightarrow> string) \<Rightarrow> TenantPermissionSeed \<Rightarrow> schema_state \<Rightarrow> permission" where
  "new_permission uuid p s =
     \<lparr>pm_id = uuid (ss_rnd s), pm_slug = ps_slug p, pm_scope = ''tenant'', pm_resource = ps_resource p,
      pm_action = ps_action p, pm_description = ps_description p, pm_isSystem = True,
      pm_createdAt = ss_now s\<rparr>"

definition insert_permission :: "(nat \<Rightarrow> string) \<Rightarrow> TenantPermissionSeed \<Rightarrow> unit sql_act" where
  "insert_permission uuid p = (\<lambda>s.
     if existsRow (\<lambda>q. pm_slug q = ps_slug p) (db_permissions (ss_db s)) then (Inr (), s)
     else if existsRow (permission_clash (new_permission uuid p s)) (db_permissions (ss_db s))
     then (Inl Unique_violation, s)
     else (Inr (), s\<lparr>ss_db := (ss_db s)\<lparr>db_permissions :=
                        insertRow (new_permission uuid p s) (db_permissions (ss_db s))\<rparr>,
                     ss_rnd := Suc (ss_rnd s)\<rparr>))"

definition insert_grant :: "string \<times> string \<Rightarrow> unit sql_act" where
  "insert_grant = (\<lambda>(r, p) s.
     if existsRow (\<lambda>g. rp_roleId g = r \<and> rp_permissionId g = p) (db_rolePermissions (ss_db s)) then (Inr (), s)
     else (Inr (), s\<lparr>ss_db := (ss_db s)\<lparr>db_rolePermissions :=
             insertRow \<lparr>rp_roleId = r, rp_permissionId = p, rp_createdAt = ss_now s\<rparr>
               (db_rolePermissions (ss_db s))\<rparr>\<rparr>))"

text \<open>The pairs of \<^verbatim>\<open>SELECT r.id, p.id FROM "Role" r, "Permission" p WHERE r.slug IN ... AND p.slug IN ...\<close>.\<close>

definition selected :: "string list \<Rightarrow> string list \<Rightarrow> schema_state \<Rightarrow> (string \<times> string) list" where
  "selected rslugs pslugs s =
     List.product (map r_id (filter (\<lambda>r. r_slug r \<in> set rslugs) (db_roles (ss_db s))))
       (map pm_id (filter (\<lambda>p. pm_slug p \<in> set pslugs) (db_permissions (ss_db s))))"

fun run_statement :: "(nat \<Rightarrow> string) \<Rightarrow> statement \<Rightarrow> unit sql_act" where
  "run_statement uuid (DDL d) = on_catalog (ddl_step d)"
| "run_statement uuid (GUARDED d) = on_catalog (guarded_step d)"
| "run_statement uuid (INSERT_PERMISSIONS ps) =
     await (requires_table ''Permission'') (\<lambda>_. transaction (forEach ps (insert_permission uuid)))"
| "run_statement uuid (GRANT_PERMISSIONS rslugs pslugs) =
     await (requires_table ''RolePermission'') (\<lambda>_.
     await (requires_table ''Role'') (\<lambda>_.
     await (requires_table ''Permission'') (\<lambda>_.
     await (reads (selected rslugs pslugs)) (\<lambda>pairs. forEach pairs insert_grant))))"

text \<open>
  The loop of \<^verbatim>\<open>provisionSchema\<close> and of \<^verbatim>\<open>applyMigrationToAllTenants\<close> over one schema: each statement is
  its own request, so those before the one that fails keep their effect.
\<close>

definition run_script :: "(nat \<Rightarrow> string) \<Rightarrow> statement list \<Rightarrow> unit sql_act" where
  "run_script uuid script = forEach script (run_statement uuid)"

end
