(* ===== verification/Ddl_Facts.thy ===== *)
theory Ddl_Facts
  imports Ddl
begin

text \<open>
  What holds of every script: catalogs only grow, and they stay consistent. The effect of a script on
  the catalog alone is \<open>catalog_script\<close>; the statements that insert rows leave the catalog.
\<close>

subsection \<open>The catalog after a script\<close>

fun catalog_step :: "statement \<Rightarrow> catalog \<Rightarrow> sql_error + catalog" where
  "catalog_step (DDL d) c = ddl_step d c"
| "catalog_step (GUARDED d) c = guarded_step d c"
| "catalog_step (INSERT_PERMISSIONS ps) c = Inr c"
| "catalog_step (GRANT_PERMISSIONS rs ps) c = Inr c"

fun catalog_script :: "statement list \<Rightarrow> catalog \<Rightarrow> sql_error + catalog" where
  "catalog_script [] c = Inr c"
| "catalog_script (st # sts) c =
     (case catalog_step st c of Inl e \<Rightarrow> Inl e | Inr c' \<Rightarrow> catalog_script sts c')"

subsection \<open>Growth\<close>

definition extends :: "catalog \<Rightarrow> catalog \<Rightarrow> bool" where
  "extends c c' \<longleftrightarrow>
     (\<forall>n ls. lookup n (cat_types c) = Some ls \<longrightarrow>
        (\<exists>ls'. lookup n (cat_types c') = Some ls' \<and> set ls \<subseteq> set ls')) \<and>
     (\<forall>t. lookup t (cat_tables c) \<noteq> None \<longrightarrow> lookup t (cat_tables c') \<noteq> None) \<and>
     (\<forall>t k col. column_of c t k = Some col \<longrightarrow> column_of c' t k = Some col) \<and>
     set (cat_indexes c) \<subseteq> set (cat_indexes c') \<and> set (cat_fkeys c) \<subseteq> set (cat_fkeys c')"

lemma extends_refl: "extends c c"
  by (auto simp: extends_def)

lemma extends_trans: "extends c c' \<Longrightarrow> extends c' c'' \<Longrightarrow> extends c c''"
  unfolding extends_def by (meson order_trans)

lemma column_of_other [simp]:
  "column_of (c\<lparr>cat_types := A\<rparr>) t k = column_of c t k"
  "column_of (c\<lparr>cat_indexes := C\<rparr>) t k = column_of c t k"
  "column_of (c\<lparr>cat_fkeys := D\<rparr>) t k = column_of c t k"
  by (simp_all add: column_of_def)

lemma find_append: "find p (xs @ ys) = (case find p xs of None \<Rightarrow> find p ys | Some x \<Rightarrow> Some x)"
  by (induction xs) auto

lemma lookup_map_entry:
  "lookup n (AList.map_entry t f xs) = (if n = t then map_option f (lookup n xs) else lookup n xs)"
  by (auto simp: lookup_def AList.map_of_map_entry split: option.split)

lemma map_entry_keys: "map fst (AList.map_entry t f xs) = map fst xs"
  by (induction xs) auto

lemma create_type_extends: "create_type n ls c = Inr c' \<Longrightarrow> extends c c'"
  by (auto simp: create_type_def extends_def lookup_append split: if_splits)

lemma add_value_extends: "add_value n l c = Inr c' \<Longrightarrow> extends c c'"
  by (auto simp: add_value_def extends_def lookup_map_entry
        split: if_splits option.splits)

lemma create_table_extends: "create_table i n cols p key c = Inr c' \<Longrightarrow> extends c c'"
  by (auto simp: create_table_def extends_def lookup_append column_of_def
        split: if_splits option.splits)

lemma add_column_extends: "add_column t k c = Inr c' \<Longrightarrow> extends c c'"
  by (auto simp: add_column_def extends_def lookup_map_entry column_of_def find_append
        split: if_splits option.splits)

lemma create_index_extends: "create_index u i n t ks c = Inr c' \<Longrightarrow> extends c c'"
  by (auto simp: create_index_def extends_def split: if_splits)

lemma add_foreign_key_extends: "add_foreign_key t n k rt rk od c = Inr c' \<Longrightarrow> extends c c'"
  by (auto simp: add_foreign_key_def extends_def split: if_splits option.splits)

lemma ddl_extends: "ddl_step d c = Inr c' \<Longrightarrow> extends c c'"
  by (cases d)
     (auto intro: create_type_extends add_value_extends create_table_extends add_column_extends
        create_index_extends add_foreign_key_extends)

lemma step_extends: "catalog_step st c = Inr c' \<Longrightarrow> extends c c'"
  by (cases st) (auto simp: guarded_step_def extends_refl intro: ddl_extends split: sum.splits if_splits)

subsection \<open>Consistency\<close>

text \<open>
  A catalog is consistent when no name is used twice, every column has a declared type and a default
  that the type allows, every index is on columns that exist, and every foreign key leads from a
  column to a unique column of the same type.
\<close>

definition key_ok :: "catalog \<Rightarrow> foreign_key \<Rightarrow> bool" where
  "key_ok c f \<longleftrightarrow>
     is_key c (fk_refTable f) (fk_refColumn f) \<and>
     (\<exists>col rcol. column_of c (fk_table f) (fk_column f) = Some col \<and>
        column_of c (fk_refTable f) (fk_refColumn f) = Some rcol \<and> co_type col = co_type rcol)"

definition index_ok :: "catalog \<Rightarrow> sql_index \<Rightarrow> bool" where
  "index_ok c ix \<longleftrightarrow>
     lookup (ix_table ix) (cat_tables c) \<noteq> None \<and> has_columns c (ix_table ix) (ix_columns ix)"

definition catalog_ok :: "catalog \<Rightarrow> bool" where
  "catalog_ok c \<longleftrightarrow>
     distinct (type_names c) \<and> distinct (relation_names c) \<and>
     (\<forall>(t, cols) \<in> set (cat_tables c). distinct (map co_name cols) \<and> (\<forall>k \<in> set cols. column_error c k = None)) \<and>
     (\<forall>(n, ix) \<in> set (cat_indexes c). index_ok c ix) \<and>
     (\<forall>f \<in> set (cat_fkeys c). key_ok c f) \<and>
     distinct (map (\<lambda>f. (fk_table f, fk_name f)) (cat_fkeys c))"

lemma empty_catalog_ok: "catalog_ok empty_catalog"
  by (simp add: catalog_ok_def empty_catalog_def type_names_def relation_names_def)

lemma column_error_mono: "extends c c' \<Longrightarrow> column_error c k = None \<Longrightarrow> column_error c' k = None"
  by (auto simp: extends_def column_error_def label_error_def listed_def
        split: sql_type.splits option.splits sql_default.splits if_splits)
     (metis option.distinct(1) option.inject subsetD)+

lemma has_columns_mono: "extends c c' \<Longrightarrow> has_columns c t ks \<Longrightarrow> has_columns c' t ks"
  by (auto simp: extends_def has_columns_def list_all_iff)

lemma is_key_mono: "extends c c' \<Longrightarrow> is_key c t k \<Longrightarrow> is_key c' t k"
  by (auto simp: extends_def is_key_def list_ex_iff)

lemma is_key_other: "is_key (c\<lparr>cat_fkeys := D\<rparr>) t k = is_key c t k"
  by (simp add: is_key_def)

lemma index_ok_mono: "extends c c' \<Longrightarrow> index_ok c ix \<Longrightarrow> index_ok c' ix"
  by (auto simp: index_ok_def has_columns_mono extends_def)

lemma key_ok_mono: "extends c c' \<Longrightarrow> key_ok c f \<Longrightarrow> key_ok c' f"
  by (auto simp: key_ok_def is_key_mono extends_def)

lemma first_error_None: "first_error c ks = None \<longleftrightarrow> (\<forall>k \<in> set ks. column_error c k = None)"
  by (induction ks) (auto split: option.split)

text \<open>Each part of the invariant, for a catalog that a statement has grown from a consistent one.\<close>

lemma catalog_okI:
  assumes "catalog_ok c" and "extends c c'"
    and "distinct (type_names c')" and "distinct (relation_names c')"
    and tables: "\<And>t cols. (t, cols) \<in> set (cat_tables c') \<Longrightarrow>
      distinct (map co_name cols) \<and> (\<forall>k \<in> set cols. column_error c k = None \<or> column_error c' k = None)"
    and indexes: "\<And>n ix. (n, ix) \<in> set (cat_indexes c') \<Longrightarrow> (n, ix) \<in> set (cat_indexes c) \<or> index_ok c' ix"
    and fkeys: "\<And>f. f \<in> set (cat_fkeys c') \<Longrightarrow> f \<in> set (cat_fkeys c) \<or> key_ok c' f"
    and "distinct (map (\<lambda>f. (fk_table f, fk_name f)) (cat_fkeys c'))"
  shows "catalog_ok c'"
  using assms(1-4,8) tables indexes fkeys
  unfolding catalog_ok_def by (fast intro: column_error_mono index_ok_mono key_ok_mono)

lemma catalog_okD:
  assumes "catalog_ok c"
  shows "distinct (type_names c)" "distinct (relation_names c)"
    "distinct (map (\<lambda>f. (fk_table f, fk_name f)) (cat_fkeys c))"
    "(t, cols) \<in> set (cat_tables c) \<Longrightarrow> distinct (map co_name cols)"
    "(t, cols) \<in> set (cat_tables c) \<Longrightarrow> k \<in> set cols \<Longrightarrow> column_error c k = None"
  using assms by (auto simp: catalog_ok_def)

lemma names_same [simp]:
  "type_names (c\<lparr>cat_indexes := C\<rparr>) = type_names c" "type_names (c\<lparr>cat_fkeys := D\<rparr>) = type_names c"
  "type_names (c\<lparr>cat_types := AList.map_entry n f (cat_types c)\<rparr>) = type_names c"
  "type_names (c\<lparr>cat_tables := AList.map_entry t g (cat_tables c)\<rparr>) = type_names c"
  "relation_names (c\<lparr>cat_types := A\<rparr>) = relation_names c"
  "relation_names (c\<lparr>cat_fkeys := D\<rparr>) = relation_names c"
  "relation_names (c\<lparr>cat_tables := AList.map_entry t g (cat_tables c)\<rparr>) = relation_names c"
  by (simp_all add: type_names_def relation_names_def map_entry_keys)

lemma names_new [simp]:
  "distinct (type_names (c\<lparr>cat_types := cat_types c @ [(n, ls)]\<rparr>)) \<longleftrightarrow>
     \<not> listed n (type_names c) \<and> distinct (type_names c)"
  "distinct (relation_names (c\<lparr>cat_indexes := cat_indexes c @ [(i, ix)]\<rparr>)) \<longleftrightarrow>
     \<not> listed i (relation_names c) \<and> distinct (relation_names c)"
  "distinct (type_names (c\<lparr>cat_tables := cat_tables c @ [(n, cols)]\<rparr>)) \<longleftrightarrow>
     \<not> listed n (type_names c) \<and> distinct (type_names c)"
  "distinct (relation_names (c\<lparr>cat_tables := cat_tables c @ [(n, cols)],
      cat_indexes := cat_indexes c @ [(i, ix)]\<rparr>)) \<longleftrightarrow>
     \<not> listed n (relation_names c) \<and> i \<noteq> n \<and> \<not> listed i (relation_names c) \<and> distinct (relation_names c)"
  by (auto simp: type_names_def relation_names_def listed_def)

lemma map_entry_in:
  "(n, v) \<in> set (AList.map_entry t f xs) \<Longrightarrow>
     (n, v) \<in> set xs \<or> (\<exists>u. (n, u) \<in> set xs \<and> n = t \<and> v = f u \<and> lookup t xs = Some u)"
  by (induction xs) (auto simp: lookup_def split: if_splits)

lemma create_type_ok:
  assumes c: "catalog_ok c" and run: "create_type n ls c = Inr c'"
  shows "catalog_ok c'"
  using run catalog_okD [OF c]
  by (intro catalog_okI [OF c create_type_extends [OF run]]) (auto simp: create_type_def split: if_splits)

lemma add_value_ok:
  assumes c: "catalog_ok c" and run: "add_value n l c = Inr c'"
  shows "catalog_ok c'"
  using run catalog_okD [OF c]
  by (intro catalog_okI [OF c add_value_extends [OF run]])
     (auto simp: add_value_def split: if_splits option.splits)

lemma create_table_ok:
  assumes c: "catalog_ok c" and run: "create_table i n cols p key c = Inr c'"
  shows "catalog_ok c'"
proof (cases "listed n (relation_names c)")
  case True
  with run c show ?thesis by (auto simp: create_table_def split: if_splits)
next
  case False
  with run have new: "\<not> listed n (type_names c)" "no_duplicates (map co_name cols)"
      "\<forall>k \<in> set cols. column_error c k = None" "\<forall>k \<in> set key. k \<in> co_name ` set cols"
      "p \<noteq> n" "\<not> listed p (relation_names c)"
    and c': "c' = c\<lparr>cat_tables := cat_tables c @ [(n, cols)],
                    cat_indexes := cat_indexes c @ [(p, index_on True n key)]\<rparr>"
    by (auto simp: create_table_def first_error_None list_all_iff listed_def split: if_splits option.splits)
  have "lookup n (cat_tables c) = None" using False by (simp add: lookup_None relation_names_def)
  moreover have "find (\<lambda>x. co_name x = k) cols \<noteq> None" if "k \<in> set key" for k
    using that new(4) by (auto simp: find_None_iff)
  ultimately have "index_ok c' (index_on True n key)"
    by (auto simp: index_ok_def c' index_on_def has_columns_def list_all_iff column_of_def lookup_append
          lookup_code same_name_iff split: option.split)
  then show ?thesis
    using new False catalog_okD [OF c]
    by (intro catalog_okI [OF c create_table_extends [OF run]])
       (auto simp: c' no_duplicates_def)
qed

lemma add_column_ok:
  assumes c: "catalog_ok c" and run: "add_column t k c = Inr c'"
  shows "catalog_ok c'"
proof (rule catalog_okI [OF c add_column_extends [OF run]])
  fix n cols
  assume "(n, cols) \<in> set (cat_tables c')"
  with run catalog_okD(4,5) [OF c]
  show "distinct (map co_name cols) \<and> (\<forall>k \<in> set cols. column_error c k = None \<or> column_error c' k = None)"
    by (auto simp: add_column_def listed_def split: if_splits option.splits dest!: map_entry_in)
qed (use run catalog_okD [OF c] in
      \<open>auto simp: add_column_def split: if_splits option.splits\<close>)

lemma create_index_ok:
  assumes c: "catalog_ok c" and run: "create_index u i n t ks c = Inr c'"
  shows "catalog_ok c'"
  using run catalog_okD [OF c]
  by (intro catalog_okI [OF c create_index_extends [OF run]])
     (auto simp: create_index_def index_ok_def index_on_def
        has_columns_def list_all_iff split: if_splits)

lemma add_foreign_key_ok:
  assumes c: "catalog_ok c" and run: "add_foreign_key t n k rt rk od c = Inr c'"
  shows "catalog_ok c'"
  using run catalog_okD [OF c]
  by (intro catalog_okI [OF c add_foreign_key_extends [OF run]])
     (auto simp: add_foreign_key_def key_ok_def foreign_key_def is_key_other list_ex_iff split: if_splits option.splits)

lemma ddl_ok: "catalog_ok c \<Longrightarrow> ddl_step d c = Inr c' \<Longrightarrow> catalog_ok c'"
  by (cases d)
     (auto intro: create_type_ok add_value_ok create_table_ok add_column_ok create_index_ok
        add_foreign_key_ok)

lemma step_ok: "catalog_ok c \<Longrightarrow> catalog_step st c = Inr c' \<Longrightarrow> catalog_ok c'"
  by (cases st) (auto simp: guarded_step_def intro: ddl_ok split: sum.splits if_splits)

end
