(* ===== verification/Ddl_Scripts.thy ===== *)
theory Ddl_Scripts
  imports Ddl_Facts
begin

text \<open>
  Scripts on a tenant schema: what a statement does to the catalog and to the tables of roles and
  permissions, and which statements can be run again.
\<close>

subsection \<open>The effect of a statement\<close>

definition grown :: "schema_state \<Rightarrow> schema_state \<Rightarrow> bool" where
  "grown s s' \<longleftrightarrow>
     extends (ss_catalog s) (ss_catalog s') \<and> db_roles (ss_db s') = db_roles (ss_db s) \<and>
     set (db_permissions (ss_db s)) \<subseteq> set (db_permissions (ss_db s')) \<and>
     set (db_rolePermissions (ss_db s)) \<subseteq> set (db_rolePermissions (ss_db s'))"

interpretation grown: effect grown
proof
  show "grown s s" for s by (simp add: grown_def extends_refl)
  show "grown s t \<Longrightarrow> grown t u \<Longrightarrow> grown s u" for s t u
    unfolding grown_def by (metis extends_trans order_trans)
qed

definition catalog_consistent :: "schema_state \<Rightarrow> bool" where
  "catalog_consistent s \<longleftrightarrow> catalog_ok (ss_catalog s)"

definition permission_rows :: "schema_state \<Rightarrow> permission list" where
  "permission_rows s = db_permissions (ss_db s)"

lemma requires_table_run:
  "requires_table t s = (if lookup t (cat_tables (ss_catalog s)) = None then (Inl Undefined_table, s) else (Inr (), s))"
  by (simp add: requires_table_def await_run throwIf_run)

lemma insert_permission_grown: "has_effect grown (insert_permission uuid p)"
  by (auto intro!: has_effectI simp: insert_permission_def after_def grown_def extends_refl insertRow_def)

lemma insert_grant_grown: "has_effect grown (insert_grant g)"
  by (cases g) (auto intro!: has_effectI simp: insert_grant_def after_def grown_def extends_refl insertRow_def)

lemma on_catalog_grown: "(\<And>c c'. f c = Inr c' \<Longrightarrow> extends c c') \<Longrightarrow> has_effect grown (on_catalog f)"
  by (auto intro!: has_effectI simp: on_catalog_def after_def grown_def extends_refl split: sum.split)

lemma requires_table_effect: "effect R \<Longrightarrow> has_effect R (requires_table t)"
  unfolding requires_table_def by (intro effect.effect_rules)

lemma run_statement_grown: "has_effect grown (run_statement uuid st)"
proof (cases st)
  case (DDL d)
  then show ?thesis by (auto intro: on_catalog_grown ddl_extends)
next
  case (GUARDED d)
  then show ?thesis using step_extends [of "GUARDED d"] by (auto intro: on_catalog_grown)
qed (auto intro!: grown.effect_rules insert_permission_grown insert_grant_grown
       requires_table_effect grown.effect_axioms)

text \<open>Statements that insert rows leave the catalog, and only \<open>INSERT_PERMISSIONS\<close> adds permissions.\<close>

lemma insert_rows_catalog:
  "has_effect (same ss_catalog) (insert_permission uuid p)" "has_effect (same ss_catalog) (insert_grant g)"
  by (auto intro!: has_effectI simp: insert_permission_def insert_grant_def after_def same_def split: prod.split)

lemma run_statement_catalog:
  assumes "run_statement uuid st s = (r, s')"
  shows "case r of Inl _ \<Rightarrow> ss_catalog s' = ss_catalog s
    | Inr _ \<Rightarrow> catalog_step st (ss_catalog s) = Inr (ss_catalog s')"
proof (cases st)
  case (INSERT_PERMISSIONS ps)
  then have "has_effect (same ss_catalog) (run_statement uuid st)"
    by (auto intro!: same.effect_rules insert_rows_catalog requires_table_effect same.effect_axioms)
  from has_effectD [OF this assms] INSERT_PERMISSIONS show ?thesis by (simp add: same_def split: sum.split)
next
  case (GRANT_PERMISSIONS rs ps)
  then have "has_effect (same ss_catalog) (run_statement uuid st)"
    by (auto intro!: same.effect_rules insert_rows_catalog requires_table_effect same.effect_axioms)
  from has_effectD [OF this assms] GRANT_PERMISSIONS show ?thesis by (simp add: same_def split: sum.split)
qed (use assms in \<open>auto simp: on_catalog_def split: sum.splits\<close>)

lemma run_statement_consistent: "has_effect (keeps catalog_consistent) (run_statement uuid st)"
proof (rule has_effectI)
  fix s
  obtain r s' where run: "run_statement uuid st s = (r, s')" by fastforce
  from run_statement_catalog [OF run] step_ok [of "ss_catalog s" st "ss_catalog s'"]
  show "keeps catalog_consistent s (after (run_statement uuid st) s)"
    by (auto simp: keeps_def after_def run catalog_consistent_def split: sum.splits)
qed

lemma run_script_consistent: "has_effect (keeps catalog_consistent) (run_script uuid script)"
  unfolding run_script_def by (intro keeps.effect_forEach run_statement_consistent)

lemma run_script_catalog:
  "run_script uuid script s = (Inr (), s') \<Longrightarrow> catalog_script script (ss_catalog s) = Inr (ss_catalog s')"
proof (induction script arbitrary: s)
  case (Cons st script)
  then obtain t where "run_statement uuid st s = (Inr (), t)" "run_script uuid script t = (Inr (), s')"
    by (auto simp: run_script_def await_Inr_iff)
  with Cons.IH run_statement_catalog [of uuid st s "Inr ()" t] show ?case by simp
qed (simp add: run_script_def)

subsection \<open>Statements that can be run again\<close>

definition grants :: "schema_state \<Rightarrow> (string \<times> string) set" where
  "grants s = (\<lambda>g. (rp_roleId g, rp_permissionId g)) ` set (db_rolePermissions (ss_db s))"

fun ddl_settled :: "ddl \<Rightarrow> catalog \<Rightarrow> bool" where
  "ddl_settled (CREATE_TYPE n labels) c \<longleftrightarrow> listed n (type_names c)"
| "ddl_settled (ADD_VALUE n l) c \<longleftrightarrow> (\<exists>ls. lookup n (cat_types c) = Some ls \<and> l \<in> set ls)"
| "ddl_settled (CREATE_TABLE i n cols pkey key) c \<longleftrightarrow> listed n (relation_names c)"
| "ddl_settled (ADD_COLUMN t k) c \<longleftrightarrow> column_of c t (co_name k) \<noteq> None"
| "ddl_settled (CREATE_INDEX u i n t ks) c \<longleftrightarrow>
     lookup t (cat_tables c) \<noteq> None \<and> has_columns c t ks \<and> listed n (relation_names c)"
| "ddl_settled (ADD_FOREIGN_KEY t n k rt rk od) c \<longleftrightarrow>
     lookup t (cat_tables c) \<noteq> None \<and> (\<exists>f \<in> set (cat_fkeys c). fk_table f = t \<and> fk_name f = n)"

fun settled :: "statement \<Rightarrow> schema_state \<Rightarrow> bool" where
  "settled (DDL d) s = ddl_settled d (ss_catalog s)"
| "settled (GUARDED d) s = ddl_settled d (ss_catalog s)"
| "settled (INSERT_PERMISSIONS ps) s \<longleftrightarrow>
     lookup ''Permission'' (cat_tables (ss_catalog s)) \<noteq> None \<and>
     (\<forall>p \<in> set ps. \<exists>q \<in> set (db_permissions (ss_db s)). pm_slug q = ps_slug p)"
| "settled (GRANT_PERMISSIONS rs ps) s \<longleftrightarrow>
     (\<forall>t \<in> {''RolePermission'', ''Role'', ''Permission''}. lookup t (cat_tables (ss_catalog s)) \<noteq> None) \<and>
     set (selected rs ps s) \<subseteq> grants s"

text \<open>The guards that the migrations use, and the order of their data statements.\<close>

fun steady :: "statement \<Rightarrow> bool" where
  "steady (DDL (ADD_VALUE n l)) = True"
| "steady (DDL (CREATE_TABLE ifNotExists n cols pkey key)) = ifNotExists"
| "steady (DDL (ADD_COLUMN t k)) = True"
| "steady (DDL (CREATE_INDEX u ifNotExists n t ks)) = ifNotExists"
| "steady (GUARDED (CREATE_TYPE n ls)) = True"
| "steady (GUARDED (ADD_FOREIGN_KEY t n k rt rk od)) = True"
| "steady (INSERT_PERMISSIONS ps) = True"
| "steady (GRANT_PERMISSIONS rs ps) = True"
| "steady st = False"

fun before :: "statement \<Rightarrow> statement \<Rightarrow> bool" where
  "before (GRANT_PERMISSIONS rs ps) (INSERT_PERMISSIONS qs) = False"
| "before st st' = True"

lemma extends_names:
  assumes "extends c c'"
  shows "listed n (type_names c) \<Longrightarrow> listed n (type_names c')"
    and "listed n (relation_names c) \<Longrightarrow> listed n (relation_names c')"
proof -
  have "lookup n (cat_types c) = None \<or> lookup n (cat_types c') \<noteq> None"
    using assms unfolding extends_def by (metis option.distinct(1) option.exhaust)
  moreover from assms have "lookup n (cat_tables c) = None \<or> lookup n (cat_tables c') \<noteq> None"
      "listed n (map fst (cat_indexes c)) \<Longrightarrow> listed n (map fst (cat_indexes c'))"
    by (auto simp: extends_def listed_def)
  ultimately show "listed n (type_names c) \<Longrightarrow> listed n (type_names c')"
      "listed n (relation_names c) \<Longrightarrow> listed n (relation_names c')"
    by (auto simp: type_names_def relation_names_def lookup_None simp del: not_None_eq)
qed

lemma ddl_settled_mono:
  assumes "extends c c'" and "ddl_settled d c"
  shows "ddl_settled d c'"
proof (cases d)
  case (ADD_VALUE n l)
  with assms show ?thesis unfolding extends_def by simp (metis subsetD)
qed (use assms in \<open>auto simp: extends_names has_columns_mono, auto simp: extends_def\<close>)

lemma column_of_listed:
  "lookup t (cat_tables c) = Some cols \<Longrightarrow> column_of c t k = None \<longleftrightarrow> \<not> listed k (map co_name cols)"
  by (auto simp: column_of_def find_None_iff listed_def)

lemma ddl_settles:
  assumes "ddl_step d c = Inr c'"
  shows "ddl_settled d c'"
proof (cases d)
  case (ADD_COLUMN t k)
  with assms obtain cols where cols: "lookup t (cat_tables c) = Some cols"
    by (auto simp: add_column_def split: option.splits)
  show ?thesis
  proof (cases "listed (co_name k) (map co_name cols)")
    case True
    with assms ADD_COLUMN cols show ?thesis
      by (simp add: add_column_def column_of_listed del: not_None_eq)
  next
    case False
    with assms ADD_COLUMN cols show ?thesis
      by (auto simp: add_column_def column_of_def lookup_map_entry find_append split: option.splits)
  qed
next
  case (CREATE_INDEX u i n t ks)
  with assms show ?thesis
    by (auto simp: create_index_def has_columns_def relation_names_def listed_def split: if_splits)
qed (use assms in \<open>auto simp: create_type_def add_value_def create_table_def add_foreign_key_def
       type_names_def relation_names_def listed_def lookup_map_entry foreign_key_def list_ex_iff
       split: if_splits option.splits\<close>)

lemma guard_settles:
  assumes "guarded_step d c = Inr c'" and "steady (GUARDED d)"
  shows "ddl_settled d c'"
proof (cases "ddl_step d c")
  case (Inl e)
  with assms have "ddl_step d c = Inl Duplicate_object" and c': "c' = c"
    by (auto simp: guarded_step_def split: if_splits)
  with assms(2) show ?thesis unfolding c'
    by (cases d) (auto simp: create_type_def add_foreign_key_def list_ex_iff split: if_splits option.splits)
next
  case (Inr c'')
  with assms(1) ddl_settles show ?thesis by (simp add: guarded_step_def)
qed

lemma ddl_skips:
  assumes "ddl_settled d c" and "steady (DDL d)"
  shows "ddl_step d c = Inr c"
proof (cases d)
  case (ADD_COLUMN t k)
  with assms obtain cols where "lookup t (cat_tables c) = Some cols" by (auto simp: column_of_def split: option.splits)
  with assms(1) ADD_COLUMN show ?thesis
    by (simp add: add_column_def column_of_listed del: not_None_eq)
qed (use assms in \<open>auto simp: add_value_def create_table_def create_index_def listed_def\<close>)

lemma guard_skips:
  assumes "ddl_settled d c" and "steady (GUARDED d)"
  shows "guarded_step d c = Inr c"
  using assms by (cases d) (auto simp: guarded_step_def create_type_def add_foreign_key_def list_ex_iff)

subsection \<open>Data statements\<close>

lemma requires_table_Inr:
  "requires_table t s = (Inr x, s') \<longleftrightarrow> lookup t (cat_tables (ss_catalog s)) \<noteq> None \<and> s' = s"
  by (auto simp: requires_table_run)

lemma insert_permission_settles:
  "insert_permission uuid p s = (Inr (), s') \<Longrightarrow> \<exists>q \<in> set (db_permissions (ss_db s')). pm_slug q = ps_slug p"
  by (auto simp: insert_permission_def existsRow_iff insertRow_def new_permission_def split: if_splits)

lemma insert_permissions_settle:
  "forEach ps (insert_permission uuid) s = (Inr (), s') \<Longrightarrow>
     \<forall>p \<in> set ps. \<exists>q \<in> set (db_permissions (ss_db s')). pm_slug q = ps_slug p"
proof (induction ps arbitrary: s)
  case (Cons p ps)
  then obtain t where t: "insert_permission uuid p s = (Inr (), t)" "forEach ps (insert_permission uuid) t = (Inr (), s')"
    by (auto simp: await_Inr_iff)
  have "has_effect grown (forEach ps (insert_permission uuid))"
    by (intro grown.effect_forEach insert_permission_grown)
  from has_effectD [OF this t(2)] insert_permission_settles [OF t(1)] Cons.IH [OF t(2)]
  show ?case by (auto simp: grown_def)
qed simp

lemma insert_grant_run:
  "insert_grant g s = (r, s') \<Longrightarrow> r = Inr () \<and> grants s' = insert g (grants s)"
  by (cases g) (auto simp: insert_grant_def grants_def existsRow_iff insertRow_def split: if_splits)

lemma insert_grants_run:
  "forEach pairs insert_grant s = (r, s') \<Longrightarrow> r = Inr () \<and> grants s' = set pairs \<union> grants s"
proof (induction pairs arbitrary: s)
  case (Cons g pairs)
  obtain t where t: "insert_grant g s = (Inr (), t)" "grants t = insert g (grants s)"
    using insert_grant_run [of g s] by (metis surj_pair)
  with Cons.prems have "forEach pairs insert_grant t = (r, s')" by (simp add: await_run)
  from Cons.IH [OF this] t(2) show ?case by auto
qed simp

lemma insert_grants_same:
  "has_effect (same (\<lambda>s. (ss_catalog s, db_roles (ss_db s), db_permissions (ss_db s)))) (forEach pairs insert_grant)"
  by (intro same.effect_forEach) (auto intro!: has_effectI simp: insert_grant_def after_def same_def split: prod.split)

lemma insert_grant_skip: "g \<in> grants s \<Longrightarrow> insert_grant g s = (Inr (), s)"
  by (cases g) (auto simp: insert_grant_def grants_def existsRow_iff)

lemma insert_grants_skip: "set pairs \<subseteq> grants s \<Longrightarrow> forEach pairs insert_grant s = (Inr (), s)"
  by (induction pairs) (auto simp: await_run insert_grant_skip)

lemma insert_permissions_skip:
  "\<forall>p \<in> set ps. \<exists>q \<in> set (db_permissions (ss_db s)). pm_slug q = ps_slug p \<Longrightarrow>
     forEach ps (insert_permission uuid) s = (Inr (), s)"
  by (induction ps) (auto simp: await_run insert_permission_def existsRow_iff)

subsection \<open>The interface\<close>

lemma statement_settles:
  assumes "steady st" and run: "run_statement uuid st s = (Inr (), s')"
  shows "settled st s'"
proof (cases st)
  case (DDL d)
  with run show ?thesis by (auto simp: on_catalog_def intro: ddl_settles split: sum.splits)
next
  case (GUARDED d)
  with assms show ?thesis by (auto simp: on_catalog_def intro: guard_settles split: sum.splits)
next
  case (INSERT_PERMISSIONS ps)
  with run have "lookup ''Permission'' (cat_tables (ss_catalog s)) \<noteq> None"
      "forEach ps (insert_permission uuid) s = (Inr (), s')"
    by (auto simp: await_Inr_iff requires_table_Inr transaction_run split: prod.splits sum.splits)
  moreover have "ss_catalog s' = ss_catalog s"
    using run_statement_catalog [OF run] INSERT_PERMISSIONS by simp
  ultimately show ?thesis using insert_permissions_settle INSERT_PERMISSIONS by simp
next
  case (GRANT_PERMISSIONS rs ps)
  with run have tables: "\<forall>t \<in> {''RolePermission'', ''Role'', ''Permission''}.
        lookup t (cat_tables (ss_catalog s)) \<noteq> None"
      and pairs: "forEach (selected rs ps s) insert_grant s = (Inr (), s')"
    by (auto simp: await_Inr_iff requires_table_Inr)
  from has_effectD [OF insert_grants_same pairs] insert_grants_run [OF pairs] tables GRANT_PERMISSIONS
  show ?thesis by (simp add: same_def selected_def)
qed

lemma statement_stays:
  assumes order: "before st st'" and st: "settled st s" and run: "run_statement uuid st' s = (Inr (), s')"
  shows "settled st s'"
proof -
  have grown: "grown s s'" by (rule has_effectD [OF run_statement_grown run])
  then have tables: "lookup t (cat_tables (ss_catalog s)) \<noteq> None \<Longrightarrow> lookup t (cat_tables (ss_catalog s')) \<noteq> None" for t
    unfolding grown_def extends_def by blast
  show ?thesis
  proof (cases st)
    case (GRANT_PERMISSIONS rs ps)
    have "db_permissions (ss_db s') = db_permissions (ss_db s)"
    proof (cases st')
      case (GRANT_PERMISSIONS rs' ps')
      with run obtain pairs where "forEach pairs insert_grant s = (Inr (), s')"
        by (auto simp: await_Inr_iff requires_table_Inr)
      from has_effectD [OF insert_grants_same this] show ?thesis by (simp add: same_def)
    qed (use order run GRANT_PERMISSIONS in \<open>auto simp: on_catalog_def split: sum.splits\<close>)
    then have "selected rs ps s' = selected rs ps s" using grown by (simp add: selected_def grown_def)
    moreover have "grants s \<subseteq> grants s'" using grown by (auto simp: grants_def grown_def)
    ultimately show ?thesis using st GRANT_PERMISSIONS tables by fastforce
  next
    case (INSERT_PERMISSIONS ps)
    from grown have "set (db_permissions (ss_db s)) \<subseteq> set (db_permissions (ss_db s'))"
      by (simp add: grown_def)
    with st tables INSERT_PERMISSIONS show ?thesis by (simp del: not_None_eq) (meson subsetD)
  qed (use st grown in \<open>auto simp: grown_def intro: ddl_settled_mono\<close>)
qed

lemma statement_skips:
  assumes "steady st" and "settled st s"
  shows "run_statement uuid st s = (Inr (), s)"
proof (cases st)
  case (INSERT_PERMISSIONS ps)
  with assms insert_permissions_skip [of ps s uuid] show ?thesis
    by (auto simp: await_run requires_table_run transaction_run)
next
  case (GRANT_PERMISSIONS rs ps)
  with assms insert_grants_skip [of "selected rs ps s" s] show ?thesis
    by (auto simp: await_run requires_table_run)
qed (use assms in \<open>simp_all add: on_catalog_def ddl_skips guard_skips\<close>)

interpretation scripts: rerunnable "run_statement uuid" settled steady before for uuid
  by unfold_locales (rule statement_settles statement_stays statement_skips; assumption)+

end
