(* ===== verification/Ddl_Eval.thy ===== *)
theory Ddl_Eval
  imports Ddl_Facts
begin

text \<open>
  Evaluation of scripts in the kernel. A catalog is held as \<open>cat\<close> of its four lists, with new entries
  at their ends. The equations \<open>sql_eval\<close> rewrite a script one statement at a time, and the weak
  congruences \<open>sql_weak\<close> keep the rewriting out of the parts that are not looked at, so that a
  script of a hundred statements takes seconds.
\<close>

named_theorems sql_eval "equations that evaluate a script"
named_theorems sql_weak "congruences that leave arguments alone"

definition cat ::
    "(string \<times> string list) list \<Rightarrow> (string \<times> column list) list \<Rightarrow> (string \<times> sql_index) list \<Rightarrow>
       foreign_key list \<Rightarrow> catalog" where
  "cat A B C D = \<lparr>cat_types = A, cat_tables = B, cat_indexes = C, cat_fkeys = D\<rparr>"

lemma cat_parts [simp]:
  "cat_types (cat A B C D) = A" "cat_tables (cat A B C D) = B" "cat_indexes (cat A B C D) = C"
  "cat_fkeys (cat A B C D) = D"
  "(cat A B C D)\<lparr>cat_types := A'\<rparr> = cat A' B C D" "(cat A B C D)\<lparr>cat_tables := B'\<rparr> = cat A B' C D"
  "(cat A B C D)\<lparr>cat_indexes := C'\<rparr> = cat A B C' D" "(cat A B C D)\<lparr>cat_fkeys := D'\<rparr> = cat A B C D'"
  by (simp_all add: cat_def)

lemma empty_cat: "empty_catalog = cat [] [] [] []"
  by (simp add: cat_def empty_catalog_def)

subsection \<open>What is looked up\<close>

definition defined :: "string \<Rightarrow> (string \<times> 'a) list \<Rightarrow> bool" where
  "defined n xs \<longleftrightarrow> lookup n xs \<noteq> None"

definition key_named :: "string \<Rightarrow> string \<Rightarrow> foreign_key list \<Rightarrow> bool" where
  "key_named t n D \<longleftrightarrow> list_ex (\<lambda>f. fk_table f = t \<and> fk_name f = n) D"

definition unique_on :: "string \<Rightarrow> string \<Rightarrow> (string \<times> sql_index) list \<Rightarrow> bool" where
  "unique_on t k C \<longleftrightarrow>
     list_ex (\<lambda>(_, ix). ix_unique ix \<and> ix_table ix = t \<and> ix_columns ix = [k]) C"

definition column_in :: "string \<Rightarrow> column list \<Rightarrow> column option" where
  "column_in k cols = find (\<lambda>x. co_name x = k) cols"

definition error_in :: "(string \<times> string list) list \<Rightarrow> column \<Rightarrow> sql_error option" where
  "error_in A k =
     (case co_type k of
        Enum_t e \<Rightarrow>
          (case lookup e A of None \<Rightarrow> Some Undefined_object | Some labels \<Rightarrow> label_error labels (co_default k))
      | _ \<Rightarrow> None)"

fun errors_in :: "(string \<times> string list) list \<Rightarrow> column list \<Rightarrow> sql_error option" where
  "errors_in A [] = None"
| "errors_in A (k # ks) = (case error_in A k of Some e \<Rightarrow> Some e | None \<Rightarrow> errors_in A ks)"

definition all_in :: "string list \<Rightarrow> column list \<Rightarrow> bool" where
  "all_in ks cols \<longleftrightarrow> list_all (\<lambda>k. column_in k cols \<noteq> None) ks"

definition all_listed :: "string list \<Rightarrow> string list \<Rightarrow> bool" where
  "all_listed ks ns \<longleftrightarrow> list_all (\<lambda>k. listed k ns) ks"

lemma column_of_cat: "column_of (cat A B C D) t k = (case lookup t B of None \<Rightarrow> None | Some cols \<Rightarrow> column_in k cols)"
  by (simp add: column_of_def column_in_def cong: option.case_cong)

lemma error_cat: "column_error (cat A B C D) k = error_in A k"
  by (simp add: column_error_def error_in_def cong: sql_type.case_cong)

lemma errors_cat: "first_error (cat A B C D) ks = errors_in A ks"
  by (induction ks) (simp_all add: error_cat cong: option.case_cong)

lemma listed_defined: "listed n (map fst xs) = defined n xs"
  by (simp add: defined_def lookup_None)

lemma names_cat:
  "listed n (type_names (cat A B C D)) \<longleftrightarrow> defined n A \<or> defined n B"
  "listed n (relation_names (cat A B C D)) \<longleftrightarrow> defined n B \<or> defined n C"
  by (simp_all add: type_names_def relation_names_def listed_defined)

subsection \<open>The statements\<close>

lemma create_type_cat [sql_eval]:
  "create_type n ls (cat A B C D) =
     (if defined n A then Inl Duplicate_object
      else if defined n B then Inl Duplicate_object
      else Inr (cat (A @ [(n, ls)]) B C D))"
  by (simp add: create_type_def names_cat)

lemma add_value_cat [sql_eval]:
  "add_value n l (cat A B C D) =
     (case lookup n A of
        None \<Rightarrow> Inl Undefined_object
      | Some labels \<Rightarrow>
          if listed l labels then Inr (cat A B C D)
          else Inr (cat (AList.map_entry n (\<lambda>ls. ls @ [l]) A) B C D))"
  by (simp add: add_value_def split: option.split)

lemma create_table_cat [sql_eval]:
  "create_table i n cols p key (cat A B C D) =
     (if defined n B then if i then Inr (cat A B C D) else Inl Duplicate_table
      else if defined n C then if i then Inr (cat A B C D) else Inl Duplicate_table
      else if defined n A then Inl Duplicate_object
      else if no_duplicates (map co_name cols) then
        (case errors_in A cols of
           Some e \<Rightarrow> Inl e
         | None \<Rightarrow>
             if all_listed key (map co_name cols) then
               if same_name p n then Inl Duplicate_table
               else if defined p B then Inl Duplicate_table
               else if defined p C then Inl Duplicate_table
               else Inr (cat A (B @ [(n, cols)]) (C @ [(p, index_on True n key)]) D)
             else Inl Undefined_column)
      else Inl Duplicate_column)"
  by (simp add: create_table_def names_cat errors_cat all_listed_def same_name_iff split: option.split)

lemma add_column_cat [sql_eval]:
  "add_column t k (cat A B C D) =
     (case lookup t B of
        None \<Rightarrow> Inl Undefined_table
      | Some cols \<Rightarrow>
          if listed (co_name k) (map co_name cols) then Inr (cat A B C D)
          else
            (case error_in A k of
               Some e \<Rightarrow> Inl e
             | None \<Rightarrow> Inr (cat A (AList.map_entry t (\<lambda>cols. cols @ [k]) B) C D)))"
  by (cases "lookup t B"; cases "error_in A k") (simp_all add: add_column_def error_cat)

lemma create_index_cat [sql_eval]:
  "create_index u i n t ks (cat A B C D) =
     (case lookup t B of
        None \<Rightarrow> Inl Undefined_table
      | Some cols \<Rightarrow>
          if all_in ks cols then
            if defined n B then if i then Inr (cat A B C D) else Inl Duplicate_table
            else if defined n C then if i then Inr (cat A B C D) else Inl Duplicate_table
            else Inr (cat A B (C @ [(n, index_on u t ks)]) D)
          else Inl Undefined_column)"
  by (simp add: create_index_def has_columns_def column_of_cat all_in_def names_cat split: option.split)

lemma add_foreign_key_cat [sql_eval]:
  "add_foreign_key t n k rt rk od (cat A B C D) =
     (case lookup t B of
        None \<Rightarrow> Inl Undefined_table
      | Some cols \<Rightarrow>
          if key_named t n D then Inl Duplicate_object
          else
            (case lookup rt B of
               None \<Rightarrow> Inl Undefined_table
             | Some rcols \<Rightarrow>
                 (case column_in k cols of
                    None \<Rightarrow> Inl Undefined_column
                  | Some col \<Rightarrow>
                      (case column_in rk rcols of
                         None \<Rightarrow> Inl Undefined_column
                       | Some rcol \<Rightarrow>
                           if unique_on rt rk C then
                             if co_type col = co_type rcol
                             then Inr (cat A B C (D @ [foreign_key t n k rt rk od]))
                             else Inl Datatype_mismatch
                           else Inl Invalid_foreign_key))))"
  by (simp add: add_foreign_key_def column_of_cat key_named_def is_key_def unique_on_def split: option.split)

subsection \<open>The lists\<close>

lemma lookup_snoc [sql_eval]:
  "lookup n [] = None"
  "lookup n (xs @ [(m, v)]) =
     (case lookup n xs of None \<Rightarrow> if same_name m n then Some v else None | Some y \<Rightarrow> Some y)"
  "lookup n (AList.map_entry t f xs) =
     (case lookup n xs of None \<Rightarrow> None | Some x \<Rightarrow> if same_name t n then Some (f x) else Some x)"
  by (simp_all add: lookup_append same_name_iff lookup_code lookup_map_entry split: option.split)

lemma defined_snoc [sql_eval]:
  "defined n [] = False"
  "defined n (xs @ [(m, v)]) = (if same_name m n then True else defined n xs)"
  "defined n (AList.map_entry t f xs) = defined n xs"
  by (auto simp: defined_def lookup_snoc same_name_iff split: option.split)

lemma key_named_snoc [sql_eval]:
  "key_named t n [] = False"
  "key_named t n (D @ [foreign_key t' n' k rt rk od]) =
     (if same_name n' n then if same_name t' t then True else key_named t n D else key_named t n D)"
  by (auto simp: key_named_def foreign_key_def same_name_iff)

lemma unique_on_snoc [sql_eval]:
  "unique_on t k [] = False"
  "unique_on t k (C @ [(n, index_on u t' ks)]) =
     (if u then
        if same_name t' t then
          (case ks of
             [] \<Rightarrow> unique_on t k C
           | j # js \<Rightarrow>
               (case js of
                  [] \<Rightarrow> if same_name j k then True else unique_on t k C
                | _ # _ \<Rightarrow> unique_on t k C))
        else unique_on t k C
      else unique_on t k C)"
  by (auto simp: unique_on_def index_on_def same_name_iff split: list.splits)

lemma column_parts [sql_eval]:
  "co_name (nullable n t) = n" "co_name (notNull n t) = n" "co_name (defaulted n t d) = n"
  "co_type (nullable n t) = t" "co_type (notNull n t) = t" "co_type (defaulted n t d) = t"
  "co_default (nullable n t) = None" "co_default (notNull n t) = None"
  "co_default (defaulted n t d) = Some d"
  by (simp_all add: nullable_def notNull_def defaulted_def)

lemma column_in_code [sql_eval]:
  "column_in k [] = None"
  "column_in k (nullable n t # xs) = (if same_name n k then Some (nullable n t) else column_in k xs)"
  "column_in k (notNull n t # xs) = (if same_name n k then Some (notNull n t) else column_in k xs)"
  "column_in k (defaulted n t d # xs) = (if same_name n k then Some (defaulted n t d) else column_in k xs)"
  "column_in k (xs @ [x]) = (case column_in k xs of None \<Rightarrow> column_in k [x] | Some y \<Rightarrow> Some y)"
  by (simp_all add: column_in_def same_name_iff column_parts find_append split: option.split)

lemma all_code [sql_eval]:
  "all_in [] cols = True"
  "all_in (k # ks) cols = (case column_in k cols of None \<Rightarrow> False | Some _ \<Rightarrow> all_in ks cols)"
  "all_listed [] ns = True"
  "all_listed (k # ks) ns = (if listed k ns then all_listed ks ns else False)"
  by (auto simp: all_in_def all_listed_def split: option.split)

lemma listed_snoc [sql_eval]:
  "listed n (map f (xs @ ys)) = (if listed n (map f xs) then True else listed n (map f ys))"
  by simp

lemma same_name_cons [sql_eval]:
  "same_name [] [] = True" "same_name [] (d # t) = False" "same_name (c # s) [] = False"
  "same_name (c # s) (d # t) = (if c = d then same_name s t else False)"
  by simp_all

lemmas [sql_eval] =
  catalog_script.simps catalog_step.simps ddl_step.simps guarded_step_def errors_in.simps error_in_def
  label_error_def listed_code no_duplicates_code if_True if_False sum.case option.case list.case list.map
  not_False_eq_True not_True_eq_False fst_conv snd_conv char.inject simp_thms sql_type.case
  sql_default.case sql_type.inject sql_type.distinct append_Nil append_Cons

subsection \<open>Weak congruences\<close>

lemma weak_scripts [sql_weak]:
  "catalog_script ss c = catalog_script ss c" "catalog_step st c = catalog_step st c"
  "ddl_step d c = ddl_step d c" "guarded_step d c = guarded_step d c"
  "create_type n ls c = create_type n ls c" "add_value n l c = add_value n l c"
  "create_table i n cols p key c = create_table i n cols p key c" "add_column t col c = add_column t col c"
  "create_index u i n t key c = create_index u i n t key c"
  "add_foreign_key t n k rt rk od c = add_foreign_key t n k rt rk od c" "cat A B C D = cat A B C D"
  by (rule refl)+

lemma weak_lookups [sql_weak]:
  "lookup n xs = lookup n xs" "defined n xs = defined n xs" "key_named t n D = key_named t n D"
  "unique_on t k C = unique_on t k C" "error_in A col = error_in A col" "errors_in A cols' = errors_in A cols'"
  "same_name s s' = same_name s s'" "Some x = Some x" "column_in k cols = column_in k cols"
  "all_in ks cols = all_in ks cols"
  by (rule refl)+

lemmas [sql_weak] = if_weak_cong sum.case_cong_weak option.case_cong_weak list.case_cong_weak

end
