(* ===== verification/Tenant_Template.thy ===== *)
theory Tenant_Template
  imports Ddl
begin

text \<open>
  \<^verbatim>\<open>tenant-template.ts\<close>: the script that makes a new tenant schema, in the order of the source. Its first
  part, up to the foreign keys of the five tables of branches and roles, is the script that the
  oldest schemas were made with, and all that \<^verbatim>\<open>tenant-template.sql\<close> holds.
\<close>

subsection \<open>Branches, roles and memberships\<close>

definition base_tables :: "statement list" where
  "base_tables =
     [DDL (CREATE_TYPE ''RoleScopeType'' [''tenant'', ''branch'']),
      DDL (CREATE_TABLE False ''Branch''
         [defaulted ''id'' UUID_t Gen_random_uuid,
          notNull ''name'' TEXT_t,
          notNull ''code'' TEXT_t,
          nullable ''address'' TEXT_t,
          nullable ''city'' TEXT_t,
          nullable ''state'' TEXT_t,
          nullable ''country'' TEXT_t,
          nullable ''postalCode'' TEXT_t,
          nullable ''phone'' TEXT_t,
          nullable ''email'' TEXT_t,
          defaulted ''timezone'' TEXT_t (Text_literal ''UTC''),
          nullable ''parentBranchId'' UUID_t,
          defaulted ''isHeadOffice'' BOOLEAN_t (Bool_literal False),
          defaulted ''isActive'' BOOLEAN_t (Bool_literal True),
          defaulted ''metadata'' JSONB_t (Text_literal ''{}''),
          nullable ''deletedAt'' TIMESTAMPTZ_t,
          defaulted ''createdAt'' TIMESTAMPTZ_t Current_timestamp,
          notNull ''updatedAt'' TIMESTAMPTZ_t]
         ''Branch_pkey'' [''id'']),
      DDL (CREATE_TABLE False ''Role''
         [defaulted ''id'' UUID_t Gen_random_uuid,
          notNull ''slug'' TEXT_t,
          notNull ''name'' TEXT_t,
          nullable ''description'' TEXT_t,
          notNull ''scopeType'' (Enum_t ''RoleScopeType''),
          defaulted ''isSystem'' BOOLEAN_t (Bool_literal False),
          nullable ''verticalSlug'' TEXT_t,
          defaulted ''createdAt'' TIMESTAMPTZ_t Current_timestamp,
          notNull ''updatedAt'' TIMESTAMPTZ_t]
         ''Role_pkey'' [''id'']),
      DDL (CREATE_TABLE False ''Permission''
         [defaulted ''id'' UUID_t Gen_random_uuid,
          notNull ''slug'' TEXT_t,
          notNull ''scope'' TEXT_t,
          notNull ''resource'' TEXT_t,
          notNull ''action'' TEXT_t,
          notNull ''description'' TEXT_t,
          defaulted ''isSystem'' BOOLEAN_t (Bool_literal True),
          defaulted ''createdAt'' TIMESTAMPTZ_t Current_timestamp]
         ''Permission_pkey'' [''id'']),
      DDL (CREATE_TABLE False ''RolePermission''
         [notNull ''roleId'' UUID_t,
          notNull ''permissionId'' UUID_t,
          defaulted ''createdAt'' TIMESTAMPTZ_t Current_timestamp]
         ''RolePermission_pkey'' [''roleId'', ''permissionId'']),
      DDL (CREATE_TABLE False ''UserBranchMembership''
         [defaulted ''id'' UUID_t Gen_random_uuid,
          notNull ''userId'' UUID_t,
          nullable ''branchId'' UUID_t,
          notNull ''roleId'' UUID_t,
          nullable ''assignedByUserId'' UUID_t,
          defaulted ''assignedAt'' TIMESTAMPTZ_t Current_timestamp,
          nullable ''revokedAt'' TIMESTAMPTZ_t,
          nullable ''revokedReason'' TEXT_t,
          defaulted ''createdAt'' TIMESTAMPTZ_t Current_timestamp,
          notNull ''updatedAt'' TIMESTAMPTZ_t]
         ''UserBranchMembership_pkey'' [''id''])]"

definition base_indexes :: "statement list" where
  "base_indexes =
     [DDL (CREATE_INDEX True False ''Branch_code_key'' ''Branch'' [''code'']),
      DDL (CREATE_INDEX False False ''Branch_isActive_idx'' ''Branch'' [''isActive'']),
      DDL (CREATE_INDEX False False ''Branch_parentBranchId_idx'' ''Branch'' [''parentBranchId'']),
      DDL (CREATE_INDEX True False ''Role_slug_key'' ''Role'' [''slug'']),
      DDL (CREATE_INDEX False False ''Role_scopeType_isSystem_idx'' ''Role'' [''scopeType'',
            ''isSystem'']),
      DDL (CREATE_INDEX False False ''Role_verticalSlug_idx'' ''Role'' [''verticalSlug'']),
      DDL (CREATE_INDEX True False ''Permission_slug_key'' ''Permission'' [''slug'']),
      DDL (CREATE_INDEX False False ''Permission_scope_resource_idx'' ''Permission'' [''scope'',
            ''resource'']),
      DDL (CREATE_INDEX True False ''Permission_scope_resource_action_key'' ''Permission'' [''scope'',
            ''resource'', ''action'']),
      DDL (CREATE_INDEX False False ''RolePermission_permissionId_idx'' ''RolePermission''
            [''permissionId'']),
      DDL (CREATE_INDEX False False ''UserBranchMembership_userId_idx'' ''UserBranchMembership''
            [''userId'']),
      DDL (CREATE_INDEX False False ''UserBranchMembership_branchId_idx'' ''UserBranchMembership''
            [''branchId'']),
      DDL (CREATE_INDEX False False ''UserBranchMembership_roleId_idx'' ''UserBranchMembership''
            [''roleId'']),
      DDL (CREATE_INDEX True False ''UserBranchMembership_userId_branchId_roleId_key''
            ''UserBranchMembership'' [''userId'', ''branchId'', ''roleId''])]"

definition base_keys :: "statement list" where
  "base_keys =
     [DDL (ADD_FOREIGN_KEY ''Branch'' ''Branch_parentBranchId_fkey'' ''parentBranchId'' ''Branch''
            ''id'' SET_NULL),
      DDL (ADD_FOREIGN_KEY ''RolePermission'' ''RolePermission_roleId_fkey'' ''roleId'' ''Role'' ''id''
            CASCADE),
      DDL (ADD_FOREIGN_KEY ''RolePermission'' ''RolePermission_permissionId_fkey'' ''permissionId''
            ''Permission'' ''id'' CASCADE),
      DDL (ADD_FOREIGN_KEY ''UserBranchMembership'' ''UserBranchMembership_branchId_fkey'' ''branchId''
            ''Branch'' ''id'' CASCADE),
      DDL (ADD_FOREIGN_KEY ''UserBranchMembership'' ''UserBranchMembership_roleId_fkey'' ''roleId''
            ''Role'' ''id'' RESTRICT)]"

subsection \<open>Custom fields\<close>

definition custom_field_template :: "statement list" where
  "custom_field_template =
     [DDL (CREATE_TYPE ''CustomFieldEntityType'' [''CONTACT'', ''DEAL'', ''LEAD'']),
      DDL (CREATE_TYPE ''CustomFieldType'' [''TEXT'', ''TEXTAREA'', ''NUMBER'', ''BOOLEAN'', ''DATE'',
            ''DATETIME'', ''SELECT'', ''MULTI_SELECT'', ''URL'', ''EMAIL'', ''PHONE'']),
      DDL (CREATE_TABLE False ''CustomFieldDefinition''
         [defaulted ''id'' UUID_t Gen_random_uuid,
          notNull ''entityType'' (Enum_t ''CustomFieldEntityType''),
          notNull ''label'' TEXT_t,
          notNull ''key'' TEXT_t,
          notNull ''fieldType'' (Enum_t ''CustomFieldType''),
          defaulted ''isRequired'' BOOLEAN_t (Bool_literal False),
          defaulted ''options'' JSONB_t (Text_literal ''[]''),
          nullable ''defaultValue'' TEXT_t,
          nullable ''placeholder'' TEXT_t,
          defaulted ''displayOrder'' INTEGER_t (Int_literal 0),
          defaulted ''isActive'' BOOLEAN_t (Bool_literal True),
          defaulted ''createdAt'' TIMESTAMPTZ_t Current_timestamp,
          notNull ''updatedAt'' TIMESTAMPTZ_t]
         ''CustomFieldDefinition_pkey'' [''id'']),
      DDL (CREATE_TABLE False ''CustomFieldValue''
         [defaulted ''id'' UUID_t Gen_random_uuid,
          notNull ''definitionId'' UUID_t,
          notNull ''entityType'' (Enum_t ''CustomFieldEntityType''),
          notNull ''entityId'' UUID_t,
          notNull ''value'' JSONB_t,
          defaulted ''createdAt'' TIMESTAMPTZ_t Current_timestamp,
          notNull ''updatedAt'' TIMESTAMPTZ_t]
         ''CustomFieldValue_pkey'' [''id'']),
      DDL (CREATE_INDEX True False ''CustomFieldDefinition_entityType_key_key''
            ''CustomFieldDefinition'' [''entityType'', ''key'']),
      DDL (CREATE_INDEX False False ''CustomFieldDefinition_entityType_isActive_idx''
            ''CustomFieldDefinition'' [''entityType'', ''isActive'']),
      DDL (CREATE_INDEX True False ''CustomFieldValue_definitionId_entityId_key'' ''CustomFieldValue''
            [''definitionId'', ''entityId'']),
      DDL (CREATE_INDEX False False ''CustomFieldValue_entityType_entityId_idx'' ''CustomFieldValue''
            [''entityType'', ''entityId'']),
      DDL (CREATE_INDEX False False ''CustomFieldValue_definitionId_idx'' ''CustomFieldValue''
            [''definitionId'']),
      DDL (ADD_FOREIGN_KEY ''CustomFieldValue'' ''CustomFieldValue_definitionId_fkey'' ''definitionId''
            ''CustomFieldDefinition'' ''id'' CASCADE)]"

subsection \<open>Tags, contacts, leads and lists\<close>

definition crm_types :: "statement list" where
  "crm_types =
     [DDL (CREATE_TYPE ''TagEntityType'' [''CONTACT'', ''LEAD'']),
      DDL (CREATE_TYPE ''ContactStatus'' [''ACTIVE'', ''INACTIVE'', ''ARCHIVED'']),
      DDL (CREATE_TYPE ''LeadPriority'' [''LOW'', ''MEDIUM'', ''HIGH'']),
      DDL (CREATE_TYPE ''ContactListType'' [''STATIC''])]"

definition crm_tables :: "statement list" where
  "crm_tables =
     [DDL (CREATE_TABLE False ''Tag''
         [defaulted ''id'' UUID_t Gen_random_uuid,
          notNull ''name'' TEXT_t,
          nullable ''color'' TEXT_t,
          defaulted ''isSystem'' BOOLEAN_t (Bool_literal False),
          defaulted ''createdAt'' TIMESTAMPTZ_t Current_timestamp,
          notNull ''updatedAt'' TIMESTAMPTZ_t]
         ''Tag_pkey'' [''id'']),
      DDL (CREATE_TABLE False ''EntityTag''
         [notNull ''tagId'' UUID_t,
          notNull ''entityType'' (Enum_t ''TagEntityType''),
          notNull ''entityId'' UUID_t,
          defaulted ''createdAt'' TIMESTAMPTZ_t Current_timestamp]
         ''EntityTag_pkey'' [''tagId'', ''entityType'', ''entityId'']),
      DDL (CREATE_TABLE False ''ContactSource''
         [defaulted ''id'' UUID_t Gen_random_uuid,
          notNull ''branchId'' UUID_t,
          notNull ''name'' TEXT_t,
          defaulted ''isSystem'' BOOLEAN_t (Bool_literal False),
          defaulted ''isActive'' BOOLEAN_t (Bool_literal True),
          defaulted ''createdAt'' TIMESTAMPTZ_t Current_timestamp,
          notNull ''updatedAt'' TIMESTAMPTZ_t]
         ''ContactSource_pkey'' [''id'']),
      DDL (CREATE_TABLE False ''LeadStatusConfig''
         [defaulted ''id'' UUID_t Gen_random_uuid,
          notNull ''branchId'' UUID_t,
          notNull ''name'' TEXT_t,
          nullable ''color'' TEXT_t,
          defaulted ''displayOrder'' INTEGER_t (Int_literal 0),
          defaulted ''isSystem'' BOOLEAN_t (Bool_literal False),
          defaulted ''isActive'' BOOLEAN_t (Bool_literal True),
          defaulted ''createdAt'' TIMESTAMPTZ_t Current_timestamp,
          notNull ''updatedAt'' TIMESTAMPTZ_t]
         ''LeadStatusConfig_pkey'' [''id'']),
      DDL (CREATE_TABLE False ''Contact''
         [defaulted ''id'' UUID_t Gen_random_uuid,
          notNull ''branchId'' UUID_t,
          notNull ''firstName'' TEXT_t,
          nullable ''lastName'' TEXT_t,
          nullable ''email'' TEXT_t,
          nullable ''phone'' TEXT_t,
          nullable ''company'' TEXT_t,
          nullable ''jobTitle'' TEXT_t,
          nullable ''address'' TEXT_t,
          nullable ''city'' TEXT_t,
          nullable ''state'' TEXT_t,
          nullable ''country'' TEXT_t,
          nullable ''postalCode'' TEXT_t,
          nullable ''sourceId'' UUID_t,
          nullable ''originLeadId'' UUID_t,
          defaulted ''status'' (Enum_t ''ContactStatus'') (Text_literal ''ACTIVE''),
          nullable ''ownedByUserId'' UUID_t,
          nullable ''notes'' TEXT_t,
          defaulted ''metadata'' JSONB_t (Text_literal ''{}''),
          nullable ''createdByUserId'' UUID_t,
          nullable ''deletedAt'' TIMESTAMPTZ_t,
          defaulted ''createdAt'' TIMESTAMPTZ_t Current_timestamp,
          notNull ''updatedAt'' TIMESTAMPTZ_t]
         ''Contact_pkey'' [''id'']),
      DDL (CREATE_TABLE False ''Lead''
         [defaulted ''id'' UUID_t Gen_random_uuid,
          notNull ''branchId'' UUID_t,
          nullable ''contactId'' UUID_t,
          notNull ''firstName'' TEXT_t,
          nullable ''lastName'' TEXT_t,
          nullable ''email'' TEXT_t,
          nullable ''phone'' TEXT_t,
          nullable ''company'' TEXT_t,
          nullable ''sourceId'' UUID_t,
          nullable ''statusId'' UUID_t,
          defaulted ''priority'' (Enum_t ''LeadPriority'') (Text_literal ''MEDIUM''),
          nullable ''estimatedValue'' DOUBLE_PRECISION_t,
          nullable ''ownedByUserId'' UUID_t,
          nullable ''notes'' TEXT_t,
          nullable ''convertedAt'' TIMESTAMPTZ_t,
          nullable ''convertedByUserId'' UUID_t,
          defaulted ''metadata'' JSONB_t (Text_literal ''{}''),
          nullable ''createdByUserId'' UUID_t,
          nullable ''deletedAt'' TIMESTAMPTZ_t,
          defaulted ''createdAt'' TIMESTAMPTZ_t Current_timestamp,
          notNull ''updatedAt'' TIMESTAMPTZ_t]
         ''Lead_pkey'' [''id'']),
      DDL (CREATE_TABLE False ''ContactList''
         [defaulted ''id'' UUID_t Gen_random_uuid,
          notNull ''branchId'' UUID_t,
          notNull ''name'' TEXT_t,
          nullable ''description'' TEXT_t,
          defaulted ''listType'' (Enum_t ''ContactListType'') (Text_literal ''STATIC''),
          nullable ''createdByUserId'' UUID_t,
          defaulted ''isActive'' BOOLEAN_t (Bool_literal True),
          defaulted ''createdAt'' TIMESTAMPTZ_t Current_timestamp,
          notNull ''updatedAt'' TIMESTAMPTZ_t]
         ''ContactList_pkey'' [''id'']),
      DDL (CREATE_TABLE False ''ContactListMember''
         [notNull ''listId'' UUID_t,
          notNull ''contactId'' UUID_t,
          nullable ''addedByUserId'' UUID_t,
          defaulted ''addedAt'' TIMESTAMPTZ_t Current_timestamp]
         ''ContactListMember_pkey'' [''listId'', ''contactId''])]"

definition crm_indexes :: "statement list" where
  "crm_indexes =
     [DDL (CREATE_INDEX True False ''Tag_name_key'' ''Tag'' [''name'']),
      DDL (CREATE_INDEX False False ''EntityTag_entityType_entityId_idx'' ''EntityTag''
            [''entityType'', ''entityId'']),
      DDL (CREATE_INDEX False False ''EntityTag_tagId_idx'' ''EntityTag'' [''tagId'']),
      DDL (CREATE_INDEX True False ''ContactSource_branchId_name_key'' ''ContactSource'' [''branchId'',
            ''name'']),
      DDL (CREATE_INDEX False False ''ContactSource_branchId_isActive_idx'' ''ContactSource''
            [''branchId'', ''isActive'']),
      DDL (CREATE_INDEX True False ''LeadStatusConfig_branchId_name_key'' ''LeadStatusConfig''
            [''branchId'', ''name'']),
      DDL (CREATE_INDEX False False ''LeadStatusConfig_branchId_isActive_idx'' ''LeadStatusConfig''
            [''branchId'', ''isActive'']),
      DDL (CREATE_INDEX False False ''Contact_branchId_status_idx'' ''Contact'' [''branchId'',
            ''status'']),
      DDL (CREATE_INDEX False False ''Contact_branchId_deletedAt_idx'' ''Contact'' [''branchId'',
            ''deletedAt'']),
      DDL (CREATE_INDEX False False ''Contact_email_idx'' ''Contact'' [''email'']),
      DDL (CREATE_INDEX False False ''Contact_phone_idx'' ''Contact'' [''phone'']),
      DDL (CREATE_INDEX False False ''Contact_sourceId_idx'' ''Contact'' [''sourceId'']),
      DDL (CREATE_INDEX False False ''Contact_ownedByUserId_idx'' ''Contact'' [''ownedByUserId'']),
      DDL (CREATE_INDEX False False ''Lead_branchId_idx'' ''Lead'' [''branchId'']),
      DDL (CREATE_INDEX False False ''Lead_branchId_deletedAt_idx'' ''Lead'' [''branchId'',
            ''deletedAt'']),
      DDL (CREATE_INDEX False False ''Lead_contactId_idx'' ''Lead'' [''contactId'']),
      DDL (CREATE_INDEX False False ''Lead_sourceId_idx'' ''Lead'' [''sourceId'']),
      DDL (CREATE_INDEX False False ''Lead_statusId_idx'' ''Lead'' [''statusId'']),
      DDL (CREATE_INDEX False False ''Lead_ownedByUserId_idx'' ''Lead'' [''ownedByUserId'']),
      DDL (CREATE_INDEX False False ''Lead_convertedAt_idx'' ''Lead'' [''convertedAt'']),
      DDL (CREATE_INDEX True False ''ContactList_branchId_name_key'' ''ContactList'' [''branchId'',
            ''name'']),
      DDL (CREATE_INDEX False False ''ContactList_branchId_isActive_idx'' ''ContactList''
            [''branchId'', ''isActive'']),
      DDL (CREATE_INDEX False False ''ContactListMember_contactId_idx'' ''ContactListMember''
            [''contactId'']),
      DDL (CREATE_INDEX False False ''ContactListMember_listId_idx'' ''ContactListMember'' [''listId''])]"

definition crm_keys :: "statement list" where
  "crm_keys =
     [DDL (ADD_FOREIGN_KEY ''EntityTag'' ''EntityTag_tagId_fkey'' ''tagId'' ''Tag'' ''id'' CASCADE),
      DDL (ADD_FOREIGN_KEY ''ContactSource'' ''ContactSource_branchId_fkey'' ''branchId'' ''Branch''
            ''id'' CASCADE),
      DDL (ADD_FOREIGN_KEY ''LeadStatusConfig'' ''LeadStatusConfig_branchId_fkey'' ''branchId''
            ''Branch'' ''id'' CASCADE),
      DDL (ADD_FOREIGN_KEY ''Contact'' ''Contact_branchId_fkey'' ''branchId'' ''Branch'' ''id'' RESTRICT),
      DDL (ADD_FOREIGN_KEY ''Contact'' ''Contact_sourceId_fkey'' ''sourceId'' ''ContactSource'' ''id''
            SET_NULL),
      DDL (ADD_FOREIGN_KEY ''Lead'' ''Lead_branchId_fkey'' ''branchId'' ''Branch'' ''id'' RESTRICT),
      DDL (ADD_FOREIGN_KEY ''Lead'' ''Lead_contactId_fkey'' ''contactId'' ''Contact'' ''id'' SET_NULL),
      DDL (ADD_FOREIGN_KEY ''Lead'' ''Lead_sourceId_fkey'' ''sourceId'' ''ContactSource'' ''id'' SET_NULL),
      DDL (ADD_FOREIGN_KEY ''Lead'' ''Lead_statusId_fkey'' ''statusId'' ''LeadStatusConfig'' ''id''
            SET_NULL),
      DDL (ADD_FOREIGN_KEY ''ContactList'' ''ContactList_branchId_fkey'' ''branchId'' ''Branch'' ''id''
            CASCADE),
      DDL (ADD_FOREIGN_KEY ''ContactListMember'' ''ContactListMember_listId_fkey'' ''listId''
            ''ContactList'' ''id'' CASCADE),
      DDL (ADD_FOREIGN_KEY ''ContactListMember'' ''ContactListMember_contactId_fkey'' ''contactId''
            ''Contact'' ''id'' CASCADE)]"

subsection \<open>Assignment and webhooks\<close>

definition assignment_template :: "statement list" where
  "assignment_template =
     [DDL (ADD_COLUMN ''UserBranchMembership'' (defaulted ''roundRobinAvailable'' BOOLEAN_t
            (Bool_literal True))),
      DDL (CREATE_TYPE ''LeadAssignmentMode'' [''ROUND_ROBIN'', ''MANUAL'']),
      DDL (CREATE_TABLE False ''LeadAssignmentConfig''
         [defaulted ''id'' UUID_t Gen_random_uuid,
          notNull ''branchId'' UUID_t,
          defaulted ''assignmentMode'' (Enum_t ''LeadAssignmentMode'') (Text_literal
            ''ROUND_ROBIN''),
          defaulted ''eligibleRoleIds'' JSONB_t (Text_literal ''[]''),
          defaulted ''isActive'' BOOLEAN_t (Bool_literal True),
          defaulted ''createdAt'' TIMESTAMPTZ_t Current_timestamp,
          notNull ''updatedAt'' TIMESTAMPTZ_t]
         ''LeadAssignmentConfig_pkey'' [''id'']),
      DDL (CREATE_TABLE False ''LeadWebhook''
         [defaulted ''id'' UUID_t Gen_random_uuid,
          notNull ''branchId'' UUID_t,
          nullable ''sourceId'' UUID_t,
          notNull ''name'' TEXT_t,
          notNull ''token'' TEXT_t,
          defaulted ''isActive'' BOOLEAN_t (Bool_literal True),
          defaulted ''createdAt'' TIMESTAMPTZ_t Current_timestamp,
          notNull ''updatedAt'' TIMESTAMPTZ_t]
         ''LeadWebhook_pkey'' [''id'']),
      DDL (CREATE_INDEX True False ''LeadAssignmentConfig_branchId_key'' ''LeadAssignmentConfig''
            [''branchId'']),
      DDL (CREATE_INDEX True False ''LeadWebhook_token_key'' ''LeadWebhook'' [''token'']),
      DDL (CREATE_INDEX False False ''LeadWebhook_token_idx'' ''LeadWebhook'' [''token'']),
      DDL (CREATE_INDEX False False ''LeadWebhook_branchId_idx'' ''LeadWebhook'' [''branchId'']),
      DDL (ADD_FOREIGN_KEY ''LeadAssignmentConfig'' ''LeadAssignmentConfig_branchId_fkey'' ''branchId''
            ''Branch'' ''id'' CASCADE),
      DDL (ADD_FOREIGN_KEY ''LeadWebhook'' ''LeadWebhook_branchId_fkey'' ''branchId'' ''Branch'' ''id''
            CASCADE)]"

subsection \<open>Activities\<close>

definition activity_types :: "statement list" where
  "activity_types =
     [DDL (ADD_COLUMN ''Lead'' (nullable ''lastActivityAt'' TIMESTAMPTZ_t)),
      DDL (ADD_COLUMN ''Lead'' (nullable ''nextFollowUpAt'' TIMESTAMPTZ_t)),
      DDL (ADD_COLUMN ''Lead'' (defaulted ''touchpointCount'' INTEGER_t (Int_literal 0))),
      DDL (CREATE_INDEX False True ''Lead_nextFollowUpAt_idx'' ''Lead'' [''nextFollowUpAt'']),
      GUARDED (CREATE_TYPE ''LeadActivityType'' [''NOTE'', ''CALL'', ''EMAIL'', ''SMS'', ''WHATSAPP'',
            ''MEETING'', ''TASK'']),
      GUARDED (CREATE_TYPE ''ActivityDirection'' [''INBOUND'', ''OUTBOUND'']),
      GUARDED (CREATE_TYPE ''CallOutcome'' [''SPOKE'', ''NO_ANSWER'', ''VOICEMAIL'', ''BUSY'',
            ''WRONG_NUMBER'', ''CALL_BACK_REQUESTED'']),
      GUARDED (CREATE_TYPE ''ActivityTaskStatus'' [''PENDING'', ''IN_PROGRESS'', ''COMPLETED'',
            ''CANCELLED''])]"

definition activity_table :: "statement list" where
  "activity_table =
     [DDL (CREATE_TABLE True ''LeadActivity''
         [defaulted ''id'' UUID_t Gen_random_uuid,
          notNull ''leadId'' UUID_t,
          notNull ''type'' (Enum_t ''LeadActivityType''),
          nullable ''direction'' (Enum_t ''ActivityDirection''),
          nullable ''subject'' TEXT_t,
          nullable ''body'' TEXT_t,
          nullable ''outcome'' (Enum_t ''CallOutcome''),
          nullable ''durationSeconds'' INTEGER_t,
          nullable ''recordingUrl'' TEXT_t,
          nullable ''transcriptUrl'' TEXT_t,
          nullable ''scheduledAt'' TIMESTAMPTZ_t,
          nullable ''completedAt'' TIMESTAMPTZ_t,
          nullable ''dueAt'' TIMESTAMPTZ_t,
          nullable ''taskStatus'' (Enum_t ''ActivityTaskStatus''),
          notNull ''createdByUserId'' UUID_t,
          nullable ''assignedToUserId'' UUID_t,
          nullable ''metadata'' JSONB_t,
          nullable ''deletedAt'' TIMESTAMPTZ_t,
          defaulted ''createdAt'' TIMESTAMPTZ_t Current_timestamp,
          notNull ''updatedAt'' TIMESTAMPTZ_t]
         ''LeadActivity_pkey'' [''id'']),
      DDL (CREATE_INDEX False True ''LeadActivity_leadId_createdAt_idx'' ''LeadActivity'' [''leadId'',
            ''createdAt'']),
      DDL (CREATE_INDEX False True ''LeadActivity_assignedToUserId_dueAt_idx'' ''LeadActivity''
            [''assignedToUserId'', ''dueAt'']),
      DDL (CREATE_INDEX False True ''LeadActivity_type_leadId_idx'' ''LeadActivity'' [''type'',
            ''leadId'']),
      DDL (CREATE_INDEX False True ''LeadActivity_taskStatus_assignedToUserId_idx'' ''LeadActivity''
            [''taskStatus'', ''assignedToUserId'']),
      GUARDED (ADD_FOREIGN_KEY ''LeadActivity'' ''LeadActivity_leadId_fkey'' ''leadId'' ''Lead'' ''id''
            CASCADE)]"

subsection \<open>Tasks\<close>

definition task_tables :: "statement list" where
  "task_tables =
     [GUARDED (CREATE_TYPE ''TaskType'' [''TODO'', ''CALL'', ''EMAIL'', ''MEETING'', ''FOLLOW_UP'']),
      GUARDED (CREATE_TYPE ''TaskStatus'' [''TODO'', ''IN_PROGRESS'', ''BLOCKED'', ''DONE'',
            ''CANCELLED'']),
      GUARDED (CREATE_TYPE ''TaskPriority'' [''URGENT'', ''HIGH'', ''NORMAL'', ''LOW'']),
      GUARDED (CREATE_TYPE ''TaskEntityType'' [''LEAD'', ''CONTACT'']),
      DDL (CREATE_TABLE True ''Task''
         [defaulted ''id'' UUID_t Gen_random_uuid,
          notNull ''title'' TEXT_t,
          nullable ''description'' TEXT_t,
          defaulted ''type'' (Enum_t ''TaskType'') (Text_literal ''TODO''),
          defaulted ''status'' (Enum_t ''TaskStatus'') (Text_literal ''TODO''),
          defaulted ''priority'' (Enum_t ''TaskPriority'') (Text_literal ''NORMAL''),
          nullable ''startDate'' TIMESTAMPTZ_t,
          nullable ''dueAt'' TIMESTAMPTZ_t,
          nullable ''completedAt'' TIMESTAMPTZ_t,
          nullable ''points'' INTEGER_t,
          nullable ''timeEstimate'' INTEGER_t,
          nullable ''recurrenceRule'' TEXT_t,
          nullable ''reminders'' JSONB_t,
          nullable ''entityType'' (Enum_t ''TaskEntityType''),
          nullable ''entityId'' UUID_t,
          nullable ''parentTaskId'' UUID_t,
          nullable ''watchers'' JSONB_t,
          notNull ''createdByUserId'' UUID_t,
          nullable ''metadata'' JSONB_t,
          nullable ''deletedAt'' TIMESTAMPTZ_t,
          defaulted ''createdAt'' TIMESTAMPTZ_t Current_timestamp,
          notNull ''updatedAt'' TIMESTAMPTZ_t]
         ''Task_pkey'' [''id'']),
      DDL (CREATE_TABLE True ''TaskAssignee''
         [notNull ''taskId'' UUID_t,
          notNull ''userId'' UUID_t,
          defaulted ''assignedAt'' TIMESTAMPTZ_t Current_timestamp,
          nullable ''assignedByUserId'' UUID_t]
         ''TaskAssignee_pkey'' [''taskId'', ''userId'']),
      DDL (CREATE_TABLE True ''TaskChecklist''
         [defaulted ''id'' UUID_t Gen_random_uuid,
          notNull ''taskId'' UUID_t,
          notNull ''title'' TEXT_t,
          defaulted ''displayOrder'' INTEGER_t (Int_literal 0),
          defaulted ''createdAt'' TIMESTAMPTZ_t Current_timestamp,
          notNull ''updatedAt'' TIMESTAMPTZ_t]
         ''TaskChecklist_pkey'' [''id'']),
      DDL (CREATE_TABLE True ''TaskChecklistItem''
         [defaulted ''id'' UUID_t Gen_random_uuid,
          notNull ''checklistId'' UUID_t,
          notNull ''title'' TEXT_t,
          defaulted ''isChecked'' BOOLEAN_t (Bool_literal False),
          nullable ''checkedAt'' TIMESTAMPTZ_t,
          nullable ''checkedByUserId'' UUID_t,
          defaulted ''displayOrder'' INTEGER_t (Int_literal 0),
          defaulted ''createdAt'' TIMESTAMPTZ_t Current_timestamp,
          notNull ''updatedAt'' TIMESTAMPTZ_t]
         ''TaskChecklistItem_pkey'' [''id''])]"

definition task_indexes :: "statement list" where
  "task_indexes =
     [DDL (CREATE_INDEX False True ''Task_entityType_entityId_idx'' ''Task'' [''entityType'',
            ''entityId'']),
      DDL (CREATE_INDEX False True ''Task_createdByUserId_idx'' ''Task'' [''createdByUserId'']),
      DDL (CREATE_INDEX False True ''Task_status_dueAt_idx'' ''Task'' [''status'', ''dueAt'']),
      DDL (CREATE_INDEX False True ''Task_parentTaskId_idx'' ''Task'' [''parentTaskId'']),
      DDL (CREATE_INDEX False True ''Task_dueAt_idx'' ''Task'' [''dueAt'']),
      DDL (CREATE_INDEX False True ''TaskAssignee_userId_idx'' ''TaskAssignee'' [''userId'']),
      DDL (CREATE_INDEX False True ''TaskChecklist_taskId_idx'' ''TaskChecklist'' [''taskId'']),
      DDL (CREATE_INDEX False True ''TaskChecklistItem_checklistId_idx'' ''TaskChecklistItem''
            [''checklistId'']),
      GUARDED (ADD_FOREIGN_KEY ''Task'' ''Task_parentTaskId_fkey'' ''parentTaskId'' ''Task'' ''id''
            SET_NULL),
      GUARDED (ADD_FOREIGN_KEY ''TaskAssignee'' ''TaskAssignee_taskId_fkey'' ''taskId'' ''Task'' ''id''
            CASCADE),
      GUARDED (ADD_FOREIGN_KEY ''TaskChecklist'' ''TaskChecklist_taskId_fkey'' ''taskId'' ''Task''
            ''id'' CASCADE),
      GUARDED (ADD_FOREIGN_KEY ''TaskChecklistItem'' ''TaskChecklistItem_checklistId_fkey''
            ''checklistId'' ''TaskChecklist'' ''id'' CASCADE)]"

subsection \<open>The script\<close>

definition base_template :: "statement list" where
  "base_template = base_tables @ base_indexes @ base_keys"

definition TENANT_TEMPLATE_SQL :: "statement list" where
  "TENANT_TEMPLATE_SQL = base_template @ custom_field_template @ crm_types @
     crm_tables @ crm_indexes @ crm_keys @
     assignment_template @ activity_types @ activity_table @
     task_tables @ task_indexes"

end
