(* ===== verification/Tenant_Migrations.thy ===== *)
theory Tenant_Migrations
  imports Ddl
begin

text \<open>
  The incremental migrations of tenant schemas under \<^verbatim>\<open>libs/database/src/sql\<close>, in the order in which the
  parts of the template were added, and the table of those that the development controller offers.
\<close>

subsection \<open>Custom fields\<close>

definition custom_field_statements :: "statement list" where
  "custom_field_statements =
     [GUARDED (CREATE_TYPE ''CustomFieldEntityType'' [''CONTACT'', ''DEAL'']),
      GUARDED (CREATE_TYPE ''CustomFieldType'' [''TEXT'', ''TEXTAREA'', ''NUMBER'', ''BOOLEAN'',
            ''DATE'', ''DATETIME'', ''SELECT'', ''MULTI_SELECT'', ''URL'', ''EMAIL'', ''PHONE'']),
      DDL (CREATE_TABLE True ''CustomFieldDefinition''
         [defaulted ''id'' UUID_t Gen_random_uuid,
          notNull ''entityType'' (Enum_t ''CustomFieldEntityType''),
          notNull ''label'' TEXT_t,
          notNull ''key'' TEXT_t,
          notNull ''fieldType'' (Enum_t ''CustomFieldType''),
          defaulted ''isRequired'' BOOLEAN_t (Bool_literal False),
          defaulted ''options'' JSONB_t (Text_literal ''[]''),
          nullable ''defaultValue'' TEXT_t,
          nullable ''placeholder'' TEXT_t,
          defaulted ''displayOrder'' INTEGER_t (Int_literal 0),
          defaulted ''isActive'' BOOLEAN_t (Bool_literal True),
          defaulted ''createdAt'' TIMESTAMPTZ_t Current_timestamp,
          notNull ''updatedAt'' TIMESTAMPTZ_t]
         ''CustomFieldDefinition_pkey'' [''id'']),
      DDL (CREATE_TABLE True ''CustomFieldValue''
         [defaulted ''id'' UUID_t Gen_random_uuid,
          notNull ''definitionId'' UUID_t,
          notNull ''entityType'' (Enum_t ''CustomFieldEntityType''),
          notNull ''entityId'' UUID_t,
          notNull ''value'' JSONB_t,
          defaulted ''createdAt'' TIMESTAMPTZ_t Current_timestamp,
          notNull ''updatedAt'' TIMESTAMPTZ_t]
         ''CustomFieldValue_pkey'' [''id'']),
      DDL (CREATE_INDEX True True ''CustomFieldDefinition_entityType_key_key''
            ''CustomFieldDefinition'' [''entityType'', ''key'']),
      DDL (CREATE_INDEX False True ''CustomFieldDefinition_entityType_isActive_idx''
            ''CustomFieldDefinition'' [''entityType'', ''isActive'']),
      DDL (CREATE_INDEX True True ''CustomFieldValue_definitionId_entityId_key'' ''CustomFieldValue''
            [''definitionId'', ''entityId'']),
      DDL (CREATE_INDEX False True ''CustomFieldValue_entityType_entityId_idx'' ''CustomFieldValue''
            [''entityType'', ''entityId'']),
      DDL (CREATE_INDEX False True ''CustomFieldValue_definitionId_idx'' ''CustomFieldValue''
            [''definitionId'']),
      GUARDED (ADD_FOREIGN_KEY ''CustomFieldValue'' ''CustomFieldValue_definitionId_fkey''
            ''definitionId'' ''CustomFieldDefinition'' ''id'' CASCADE)]"

definition custom_field_grants :: "statement list" where
  "custom_field_grants =
     [INSERT_PERMISSIONS
        [permission_seed ''tenant:custom_fields:manage'' ''custom_fields'' ''manage''
            ''Create and manage custom field definitions''],
      GRANT_PERMISSIONS [''owner'', ''admin''] [''tenant:custom_fields:manage'']]"

definition CUSTOM_FIELDS_MIGRATION_SQL :: "statement list" where
  "CUSTOM_FIELDS_MIGRATION_SQL = custom_field_statements @ custom_field_grants"

subsection \<open>Contacts and leads\<close>

definition crm_migration_types :: "statement list" where
  "crm_migration_types =
     [DDL (ADD_VALUE ''CustomFieldEntityType'' ''LEAD''),
      GUARDED (CREATE_TYPE ''TagEntityType'' [''CONTACT'', ''LEAD'']),
      GUARDED (CREATE_TYPE ''ContactStatus'' [''ACTIVE'', ''INACTIVE'', ''ARCHIVED'']),
      GUARDED (CREATE_TYPE ''LeadPriority'' [''LOW'', ''MEDIUM'', ''HIGH'']),
      GUARDED (CREATE_TYPE ''ContactListType'' [''STATIC''])]"

definition crm_migration_tables :: "statement list" where
  "crm_migration_tables =
     [DDL (CREATE_TABLE True ''Tag''
         [defaulted ''id'' UUID_t Gen_random_uuid,
          notNull ''name'' TEXT_t,
          nullable ''color'' TEXT_t,
          defaulted ''isSystem'' BOOLEAN_t (Bool_literal False),
          defaulted ''createdAt'' TIMESTAMPTZ_t Current_timestamp,
          notNull ''updatedAt'' TIMESTAMPTZ_t]
         ''Tag_pkey'' [''id'']),
      DDL (CREATE_TABLE True ''EntityTag''
         [notNull ''tagId'' UUID_t,
          notNull ''entityType'' (Enum_t ''TagEntityType''),
          notNull ''entityId'' UUID_t,
          defaulted ''createdAt'' TIMESTAMPTZ_t Current_timestamp]
         ''EntityTag_pkey'' [''tagId'', ''entityType'', ''entityId'']),
      DDL (CREATE_TABLE True ''ContactSource''
         [defaulted ''id'' UUID_t Gen_random_uuid,
          notNull ''branchId'' UUID_t,
          notNull ''name'' TEXT_t,
          defaulted ''isSystem'' BOOLEAN_t (Bool_literal False),
          defaulted ''isActive'' BOOLEAN_t (Bool_literal True),
          defaulted ''createdAt'' TIMESTAMPTZ_t Current_timestamp,
          notNull ''updatedAt'' TIMESTAMPTZ_t]
         ''ContactSource_pkey'' [''id'']),
      DDL (CREATE_TABLE True ''LeadStatusConfig''
         [defaulted ''id'' UUID_t Gen_random_uuid,
          notNull ''branchId'' UUID_t,
          notNull ''name'' TEXT_t,
          nullable ''color'' TEXT_t,
          defaulted ''displayOrder'' INTEGER_t (Int_literal 0),
          defaulted ''isSystem'' BOOLEAN_t (Bool_literal False),
          defaulted ''isActive'' BOOLEAN_t (Bool_literal True),
          defaulted ''createdAt'' TIMESTAMPTZ_t Current_timestamp,
          notNull ''updatedAt'' TIMESTAMPTZ_t]
         ''LeadStatusConfig_pkey'' [''id'']),
      DDL (CREATE_TABLE True ''Contact''
         [defaulted ''id'' UUID_t Gen_random_uuid,
          notNull ''branchId'' UUID_t,
          notNull ''firstName'' TEXT_t,
          nullable ''lastName'' TEXT_t,
          nullable ''email'' TEXT_t,
          nullable ''phone'' TEXT_t,
          nullable ''company'' TEXT_t,
          nullable ''jobTitle'' TEXT_t,
          nullable ''address'' TEXT_t,
          nullable ''city'' TEXT_t,
          nullable ''state'' TEXT_t,
          nullable ''country'' TEXT_t,
          nullable ''postalCode'' TEXT_t,
          nullable ''sourceId'' UUID_t,
          nullable ''originLeadId'' UUID_t,
          defaulted ''status'' (Enum_t ''ContactStatus'') (Text_literal ''ACTIVE''),
          nullable ''ownedByUserId'' UUID_t,
          nullable ''notes'' TEXT_t,
          defaulted ''metadata'' JSONB_t (Text_literal ''{}''),
          nullable ''createdByUserId'' UUID_t,
          nullable ''deletedAt'' TIMESTAMPTZ_t,
          defaulted ''createdAt'' TIMESTAMPTZ_t Current_timestamp,
          notNull ''updatedAt'' TIMESTAMPTZ_t]
         ''Contact_pkey'' [''id'']),
      DDL (CREATE_TABLE True ''Lead''
         [defaulted ''id'' UUID_t Gen_random_uuid,
          notNull ''branchId'' UUID_t,
          nullable ''contactId'' UUID_t,
          notNull ''firstName'' TEXT_t,
          nullable ''lastName'' TEXT_t,
          nullable ''email'' TEXT_t,
          nullable ''phone'' TEXT_t,
          nullable ''company'' TEXT_t,
          nullable ''sourceId'' UUID_t,
          nullable ''statusId'' UUID_t,
          defaulted ''priority'' (Enum_t ''LeadPriority'') (Text_literal ''MEDIUM''),
          nullable ''estimatedValue'' DOUBLE_PRECISION_t,
          nullable ''ownedByUserId'' UUID_t,
          nullable ''notes'' TEXT_t,
          nullable ''convertedAt'' TIMESTAMPTZ_t,
          nullable ''convertedByUserId'' UUID_t,
          defaulted ''metadata'' JSONB_t (Text_literal ''{}''),
          nullable ''createdByUserId'' UUID_t,
          nullable ''deletedAt'' TIMESTAMPTZ_t,
          defaulted ''createdAt'' TIMESTAMPTZ_t Current_timestamp,
          notNull ''updatedAt'' TIMESTAMPTZ_t]
         ''Lead_pkey'' [''id'']),
      DDL (CREATE_TABLE True ''ContactList''
         [defaulted ''id'' UUID_t Gen_random_uuid,
          notNull ''branchId'' UUID_t,
          notNull ''name'' TEXT_t,
          nullable ''description'' TEXT_t,
          defaulted ''listType'' (Enum_t ''ContactListType'') (Text_literal ''STATIC''),
          nullable ''createdByUserId'' UUID_t,
          defaulted ''isActive'' BOOLEAN_t (Bool_literal True),
          defaulted ''createdAt'' TIMESTAMPTZ_t Current_timestamp,
          notNull ''updatedAt'' TIMESTAMPTZ_t]
         ''ContactList_pkey'' [''id'']),
      DDL (CREATE_TABLE True ''ContactListMember''
         [notNull ''listId'' UUID_t,
          notNull ''contactId'' UUID_t,
          nullable ''addedByUserId'' UUID_t,
          defaulted ''addedAt'' TIMESTAMPTZ_t Current_timestamp]
         ''ContactListMember_pkey'' [''listId'', ''contactId''])]"

definition crm_migration_indexes :: "statement list" where
  "crm_migration_indexes =
     [DDL (CREATE_INDEX True True ''Tag_name_key'' ''Tag'' [''name'']),
      DDL (CREATE_INDEX False True ''EntityTag_entityType_entityId_idx'' ''EntityTag'' [''entityType'',
            ''entityId'']),
      DDL (CREATE_INDEX False True ''EntityTag_tagId_idx'' ''EntityTag'' [''tagId'']),
      DDL (CREATE_INDEX True True ''ContactSource_branchId_name_key'' ''ContactSource'' [''branchId'',
            ''name'']),
      DDL (CREATE_INDEX False True ''ContactSource_branchId_isActive_idx'' ''ContactSource''
            [''branchId'', ''isActive'']),
      DDL (CREATE_INDEX True True ''LeadStatusConfig_branchId_name_key'' ''LeadStatusConfig''
            [''branchId'', ''name'']),
      DDL (CREATE_INDEX False True ''LeadStatusConfig_branchId_isActive_idx'' ''LeadStatusConfig''
            [''branchId'', ''isActive'']),
      DDL (CREATE_INDEX False True ''Contact_branchId_status_idx'' ''Contact'' [''branchId'', ''status'']),
      DDL (CREATE_INDEX False True ''Contact_branchId_deletedAt_idx'' ''Contact'' [''branchId'',
            ''deletedAt'']),
      DDL (CREATE_INDEX False True ''Contact_email_idx'' ''Contact'' [''email'']),
      DDL (CREATE_INDEX False True ''Contact_phone_idx'' ''Contact'' [''phone'']),
      DDL (CREATE_INDEX False True ''Contact_sourceId_idx'' ''Contact'' [''sourceId'']),
      DDL (CREATE_INDEX False True ''Contact_ownedByUserId_idx'' ''Contact'' [''ownedByUserId'']),
      DDL (CREATE_INDEX False True ''Lead_branchId_idx'' ''Lead'' [''branchId'']),
      DDL (CREATE_INDEX False True ''Lead_branchId_deletedAt_idx'' ''Lead'' [''branchId'', ''deletedAt'']),
      DDL (CREATE_INDEX False True ''Lead_contactId_idx'' ''Lead'' [''contactId'']),
      DDL (CREATE_INDEX False True ''Lead_sourceId_idx'' ''Lead'' [''sourceId'']),
      DDL (CREATE_INDEX False True ''Lead_statusId_idx'' ''Lead'' [''statusId'']),
      DDL (CREATE_INDEX False True ''Lead_ownedByUserId_idx'' ''Lead'' [''ownedByUserId'']),
      DDL (CREATE_INDEX False True ''Lead_convertedAt_idx'' ''Lead'' [''convertedAt'']),
      DDL (CREATE_INDEX True True ''ContactList_branchId_name_key'' ''ContactList'' [''branchId'',
            ''name'']),
      DDL (CREATE_INDEX False True ''ContactList_branchId_isActive_idx'' ''ContactList'' [''branchId'',
            ''isActive'']),
      DDL (CREATE_INDEX False True ''ContactListMember_contactId_idx'' ''ContactListMember''
            [''contactId'']),
      DDL (CREATE_INDEX False True ''ContactListMember_listId_idx'' ''ContactListMember'' [''listId''])]"

definition crm_migration_keys :: "statement list" where
  "crm_migration_keys =
     [GUARDED (ADD_FOREIGN_KEY ''EntityTag'' ''EntityTag_tagId_fkey'' ''tagId'' ''Tag'' ''id'' CASCADE),
      GUARDED (ADD_FOREIGN_KEY ''ContactSource'' ''ContactSource_branchId_fkey'' ''branchId''
            ''Branch'' ''id'' CASCADE),
      GUARDED (ADD_FOREIGN_KEY ''LeadStatusConfig'' ''LeadStatusConfig_branchId_fkey'' ''branchId''
            ''Branch'' ''id'' CASCADE),
      GUARDED (ADD_FOREIGN_KEY ''Contact'' ''Contact_branchId_fkey'' ''branchId'' ''Branch'' ''id''
            RESTRICT),
      GUARDED (ADD_FOREIGN_KEY ''Contact'' ''Contact_sourceId_fkey'' ''sourceId'' ''ContactSource''
            ''id'' SET_NULL),
      GUARDED (ADD_FOREIGN_KEY ''Lead'' ''Lead_branchId_fkey'' ''branchId'' ''Branch'' ''id'' RESTRICT),
      GUARDED (ADD_FOREIGN_KEY ''Lead'' ''Lead_contactId_fkey'' ''contactId'' ''Contact'' ''id'' SET_NULL),
      GUARDED (ADD_FOREIGN_KEY ''Lead'' ''Lead_sourceId_fkey'' ''sourceId'' ''ContactSource'' ''id''
            SET_NULL),
      GUARDED (ADD_FOREIGN_KEY ''Lead'' ''Lead_statusId_fkey'' ''statusId'' ''LeadStatusConfig'' ''id''
            SET_NULL),
      GUARDED (ADD_FOREIGN_KEY ''ContactList'' ''ContactList_branchId_fkey'' ''branchId'' ''Branch''
            ''id'' CASCADE),
      GUARDED (ADD_FOREIGN_KEY ''ContactListMember'' ''ContactListMember_listId_fkey'' ''listId''
            ''ContactList'' ''id'' CASCADE),
      GUARDED (ADD_FOREIGN_KEY ''ContactListMember'' ''ContactListMember_contactId_fkey'' ''contactId''
            ''Contact'' ''id'' CASCADE)]"

definition crm_migration_grants :: "statement list" where
  "crm_migration_grants =
     [INSERT_PERMISSIONS
        [permission_seed ''tenant:leads:delete'' ''leads'' ''delete'' ''Delete leads'',
         permission_seed ''tenant:leads:view_all'' ''leads'' ''view_all''
            ''View all leads across tenant'',
         permission_seed ''tenant:leads:view_own'' ''leads'' ''view_own''
            ''View leads assigned to me'',
         permission_seed ''tenant:leads:convert'' ''leads'' ''convert''
            ''Convert a lead to a contact'',
         permission_seed ''tenant:tags:manage'' ''tags'' ''manage''
            ''Create, update, and delete tags'',
         permission_seed ''tenant:contact_lists:manage'' ''contact_lists'' ''manage''
            ''Create and manage contact lists'',
         permission_seed ''tenant:sources:manage'' ''sources'' ''manage''
            ''Create and manage contact sources and lead statuses''],
      GRANT_PERMISSIONS [''owner'', ''admin''] [''tenant:leads:delete'', ''tenant:leads:view_all'',
            ''tenant:leads:view_own'', ''tenant:leads:convert'', ''tenant:tags:manage'',
            ''tenant:contact_lists:manage'', ''tenant:sources:manage''],
      GRANT_PERMISSIONS [''manager''] [''tenant:leads:delete'', ''tenant:leads:convert'',
            ''tenant:tags:manage'', ''tenant:contact_lists:manage'', ''tenant:sources:manage''],
      GRANT_PERMISSIONS [''staff''] [''tenant:contacts:update'', ''tenant:leads:view_branch'',
            ''tenant:leads:create'', ''tenant:leads:update'']]"

definition CONTACTS_LEADS_MIGRATION_SQL :: "statement list" where
  "CONTACTS_LEADS_MIGRATION_SQL = crm_migration_types @ crm_migration_tables @ crm_migration_indexes @
     crm_migration_keys @ crm_migration_grants"

subsection \<open>Assignment and webhooks\<close>

definition assignment_statements :: "statement list" where
  "assignment_statements =
     [DDL (ADD_COLUMN ''UserBranchMembership'' (defaulted ''roundRobinAvailable'' BOOLEAN_t
            (Bool_literal True))),
      GUARDED (CREATE_TYPE ''LeadAssignmentMode'' [''ROUND_ROBIN'', ''MANUAL'']),
      DDL (CREATE_TABLE True ''LeadAssignmentConfig''
         [defaulted ''id'' UUID_t Gen_random_uuid,
          notNull ''branchId'' UUID_t,
          defaulted ''assignmentMode'' (Enum_t ''LeadAssignmentMode'') (Text_literal
            ''ROUND_ROBIN''),
          defaulted ''eligibleRoleIds'' JSONB_t (Text_literal ''[]''),
          defaulted ''isActive'' BOOLEAN_t (Bool_literal True),
          defaulted ''createdAt'' TIMESTAMPTZ_t Current_timestamp,
          notNull ''updatedAt'' TIMESTAMPTZ_t]
         ''LeadAssignmentConfig_pkey'' [''id'']),
      DDL (CREATE_TABLE True ''LeadWebhook''
         [defaulted ''id'' UUID_t Gen_random_uuid,
          notNull ''branchId'' UUID_t,
          nullable ''sourceId'' UUID_t,
          notNull ''name'' TEXT_t,
          notNull ''token'' TEXT_t,
          defaulted ''isActive'' BOOLEAN_t (Bool_literal True),
          defaulted ''createdAt'' TIMESTAMPTZ_t Current_timestamp,
          notNull ''updatedAt'' TIMESTAMPTZ_t]
         ''LeadWebhook_pkey'' [''id'']),
      DDL (CREATE_INDEX True True ''LeadAssignmentConfig_branchId_key'' ''LeadAssignmentConfig''
            [''branchId'']),
      DDL (CREATE_INDEX True True ''LeadWebhook_token_key'' ''LeadWebhook'' [''token'']),
      DDL (CREATE_INDEX False True ''LeadWebhook_token_idx'' ''LeadWebhook'' [''token'']),
      DDL (CREATE_INDEX False True ''LeadWebhook_branchId_idx'' ''LeadWebhook'' [''branchId'']),
      GUARDED (ADD_FOREIGN_KEY ''LeadAssignmentConfig'' ''LeadAssignmentConfig_branchId_fkey''
            ''branchId'' ''Branch'' ''id'' CASCADE),
      GUARDED (ADD_FOREIGN_KEY ''LeadWebhook'' ''LeadWebhook_branchId_fkey'' ''branchId'' ''Branch''
            ''id'' CASCADE)]"

definition assignment_grants :: "statement list" where
  "assignment_grants =
     [INSERT_PERMISSIONS
        [permission_seed ''tenant:leads:configure'' ''leads'' ''configure''
            ''Configure lead assignment rules and webhooks'',
         permission_seed ''tenant:staff:round_robin'' ''staff'' ''round_robin''
            ''Toggle staff round-robin availability''],
      GRANT_PERMISSIONS [''owner'', ''admin''] [''tenant:leads:configure'', ''tenant:staff:round_robin''],
      GRANT_PERMISSIONS [''manager''] [''tenant:leads:configure'', ''tenant:staff:round_robin'']]"

definition LEAD_ASSIGNMENT_WEBHOOK_MIGRATION_SQL :: "statement list" where
  "LEAD_ASSIGNMENT_WEBHOOK_MIGRATION_SQL = assignment_statements @ assignment_grants"

subsection \<open>Activities\<close>

definition activity_statements :: "statement list" where
  "activity_statements =
     [DDL (ADD_COLUMN ''Lead'' (nullable ''lastActivityAt'' TIMESTAMPTZ_t)),
      DDL (ADD_COLUMN ''Lead'' (nullable ''nextFollowUpAt'' TIMESTAMPTZ_t)),
      DDL (ADD_COLUMN ''Lead'' (defaulted ''touchpointCount'' INTEGER_t (Int_literal 0))),
      DDL (CREATE_INDEX False True ''Lead_nextFollowUpAt_idx'' ''Lead'' [''nextFollowUpAt'']),
      GUARDED (CREATE_TYPE ''LeadActivityType'' [''NOTE'', ''CALL'', ''EMAIL'', ''SMS'', ''WHATSAPP'',
            ''MEETING'', ''TASK'']),
      GUARDED (CREATE_TYPE ''ActivityDirection'' [''INBOUND'', ''OUTBOUND'']),
      GUARDED (CREATE_TYPE ''CallOutcome'' [''SPOKE'', ''NO_ANSWER'', ''VOICEMAIL'', ''BUSY'',
            ''WRONG_NUMBER'', ''CALL_BACK_REQUESTED'']),
      GUARDED (CREATE_TYPE ''ActivityTaskStatus'' [''PENDING'', ''IN_PROGRESS'', ''COMPLETED'',
            ''CANCELLED'']),
      DDL (CREATE_TABLE True ''LeadActivity''
         [defaulted ''id'' UUID_t Gen_random_uuid,
          notNull ''leadId'' UUID_t,
          notNull ''type'' (Enum_t ''LeadActivityType''),
          nullable ''direction'' (Enum_t ''ActivityDirection''),
          nullable ''subject'' TEXT_t,
          nullable ''body'' TEXT_t,
          nullable ''outcome'' (Enum_t ''CallOutcome''),
          nullable ''durationSeconds'' INTEGER_t,
          nullable ''recordingUrl'' TEXT_t,
          nullable ''transcriptUrl'' TEXT_t,
          nullable ''scheduledAt'' TIMESTAMPTZ_t,
          nullable ''completedAt'' TIMESTAMPTZ_t,
          nullable ''dueAt'' TIMESTAMPTZ_t,
          nullable ''taskStatus'' (Enum_t ''ActivityTaskStatus''),
          notNull ''createdByUserId'' UUID_t,
          nullable ''assignedToUserId'' UUID_t,
          nullable ''metadata'' JSONB_t,
          nullable ''deletedAt'' TIMESTAMPTZ_t,
          defaulted ''createdAt'' TIMESTAMPTZ_t Current_timestamp,
          notNull ''updatedAt'' TIMESTAMPTZ_t]
         ''LeadActivity_pkey'' [''id'']),
      DDL (CREATE_INDEX False True ''LeadActivity_leadId_createdAt_idx'' ''LeadActivity'' [''leadId'',
            ''createdAt'']),
      DDL (CREATE_INDEX False True ''LeadActivity_assignedToUserId_dueAt_idx'' ''LeadActivity''
            [''assignedToUserId'', ''dueAt'']),
      DDL (CREATE_INDEX False True ''LeadActivity_type_leadId_idx'' ''LeadActivity'' [''type'',
            ''leadId'']),
      DDL (CREATE_INDEX False True ''LeadActivity_taskStatus_assignedToUserId_idx'' ''LeadActivity''
            [''taskStatus'', ''assignedToUserId'']),
      GUARDED (ADD_FOREIGN_KEY ''LeadActivity'' ''LeadActivity_leadId_fkey'' ''leadId'' ''Lead'' ''id''
            CASCADE)]"

definition activity_grants :: "statement list" where
  "activity_grants =
     [INSERT_PERMISSIONS
        [permission_seed ''tenant:leads:log_activity'' ''leads'' ''log_activity''
            ''Create, update, and delete lead activity entries''],
      GRANT_PERMISSIONS [''owner'', ''admin'', ''manager''] [''tenant:leads:log_activity''],
      GRANT_PERMISSIONS [''staff''] [''tenant:leads:log_activity'']]"

definition LEAD_ACTIVITIES_MIGRATION_SQL :: "statement list" where
  "LEAD_ACTIVITIES_MIGRATION_SQL = activity_statements @ activity_grants"

subsection \<open>Tasks\<close>

definition task_migration_tables :: "statement list" where
  "task_migration_tables =
     [GUARDED (CREATE_TYPE ''TaskType'' [''TODO'', ''CALL'', ''EMAIL'', ''MEETING'', ''FOLLOW_UP'']),
      GUARDED (CREATE_TYPE ''TaskStatus'' [''TODO'', ''IN_PROGRESS'', ''BLOCKED'', ''DONE'',
            ''CANCELLED'']),
      GUARDED (CREATE_TYPE ''TaskPriority'' [''URGENT'', ''HIGH'', ''NORMAL'', ''LOW'']),
      GUARDED (CREATE_TYPE ''TaskEntityType'' [''LEAD'', ''CONTACT'']),
      DDL (CREATE_TABLE True ''Task''
         [defaulted ''id'' UUID_t Gen_random_uuid,
          notNull ''title'' TEXT_t,
          nullable ''description'' TEXT_t,
          defaulted ''type'' (Enum_t ''TaskType'') (Text_literal ''TODO''),
          defaulted ''status'' (Enum_t ''TaskStatus'') (Text_literal ''TODO''),
          defaulted ''priority'' (Enum_t ''TaskPriority'') (Text_literal ''NORMAL''),
          nullable ''startDate'' TIMESTAMPTZ_t,
          nullable ''dueAt'' TIMESTAMPTZ_t,
          nullable ''completedAt'' TIMESTAMPTZ_t,
          nullable ''points'' INTEGER_t,
          nullable ''timeEstimate'' INTEGER_t,
          nullable ''recurrenceRule'' TEXT_t,
          nullable ''reminders'' JSONB_t,
          nullable ''entityType'' (Enum_t ''TaskEntityType''),
          nullable ''entityId'' UUID_t,
          nullable ''parentTaskId'' UUID_t,
          nullable ''watchers'' JSONB_t,
          notNull ''createdByUserId'' UUID_t,
          nullable ''metadata'' JSONB_t,
          nullable ''deletedAt'' TIMESTAMPTZ_t,
          defaulted ''createdAt'' TIMESTAMPTZ_t Current_timestamp,
          notNull ''updatedAt'' TIMESTAMPTZ_t]
         ''Task_pkey'' [''id'']),
      DDL (CREATE_TABLE True ''TaskAssignee''
         [notNull ''taskId'' UUID_t,
          notNull ''userId'' UUID_t,
          defaulted ''assignedAt'' TIMESTAMPTZ_t Current_timestamp,
          nullable ''assignedByUserId'' UUID_t]
         ''TaskAssignee_pkey'' [''taskId'', ''userId'']),
      DDL (CREATE_TABLE True ''TaskChecklist''
         [defaulted ''id'' UUID_t Gen_random_uuid,
          notNull ''taskId'' UUID_t,
          notNull ''title'' TEXT_t,
          defaulted ''displayOrder'' INTEGER_t (Int_literal 0),
          defaulted ''createdAt'' TIMESTAMPTZ_t Current_timestamp,
          notNull ''updatedAt'' TIMESTAMPTZ_t]
         ''TaskChecklist_pkey'' [''id'']),
      DDL (CREATE_TABLE True ''TaskChecklistItem''
         [defaulted ''id'' UUID_t Gen_random_uuid,
          notNull ''checklistId'' UUID_t,
          notNull ''title'' TEXT_t,
          defaulted ''isChecked'' BOOLEAN_t (Bool_literal False),
          nullable ''checkedAt'' TIMESTAMPTZ_t,
          nullable ''checkedByUserId'' UUID_t,
          defaulted ''displayOrder'' INTEGER_t (Int_literal 0),
          defaulted ''createdAt'' TIMESTAMPTZ_t Current_timestamp,
          notNull ''updatedAt'' TIMESTAMPTZ_t]
         ''TaskChecklistItem_pkey'' [''id''])]"

definition task_migration_indexes :: "statement list" where
  "task_migration_indexes =
     [DDL (CREATE_INDEX False True ''Task_entityType_entityId_idx'' ''Task'' [''entityType'',
            ''entityId'']),
      DDL (CREATE_INDEX False True ''Task_createdByUserId_idx'' ''Task'' [''createdByUserId'']),
      DDL (CREATE_INDEX False True ''Task_status_dueAt_idx'' ''Task'' [''status'', ''dueAt'']),
      DDL (CREATE_INDEX False True ''Task_parentTaskId_idx'' ''Task'' [''parentTaskId'']),
      DDL (CREATE_INDEX False True ''Task_dueAt_idx'' ''Task'' [''dueAt'']),
      DDL (CREATE_INDEX False True ''TaskAssignee_userId_idx'' ''TaskAssignee'' [''userId'']),
      DDL (CREATE_INDEX False True ''TaskChecklist_taskId_idx'' ''TaskChecklist'' [''taskId'']),
      DDL (CREATE_INDEX False True ''TaskChecklistItem_checklistId_idx'' ''TaskChecklistItem''
            [''checklistId'']),
      GUARDED (ADD_FOREIGN_KEY ''Task'' ''Task_parentTaskId_fkey'' ''parentTaskId'' ''Task'' ''id''
            SET_NULL),
      GUARDED (ADD_FOREIGN_KEY ''TaskAssignee'' ''TaskAssignee_taskId_fkey'' ''taskId'' ''Task'' ''id''
            CASCADE),
      GUARDED (ADD_FOREIGN_KEY ''TaskChecklist'' ''TaskChecklist_taskId_fkey'' ''taskId'' ''Task''
            ''id'' CASCADE),
      GUARDED (ADD_FOREIGN_KEY ''TaskChecklistItem'' ''TaskChecklistItem_checklistId_fkey''
            ''checklistId'' ''TaskChecklist'' ''id'' CASCADE)]"

definition task_grants :: "statement list" where
  "task_grants =
     [INSERT_PERMISSIONS
        [permission_seed ''tenant:tasks:view'' ''tasks'' ''view'' ''View tasks'',
         permission_seed ''tenant:tasks:create'' ''tasks'' ''create'' ''Create tasks'',
         permission_seed ''tenant:tasks:update'' ''tasks'' ''update'' ''Update tasks'',
         permission_seed ''tenant:tasks:delete'' ''tasks'' ''delete'' ''Delete tasks'',
         permission_seed ''tenant:tasks:manage_checklist'' ''tasks'' ''manage_checklist''
            ''Manage checklists on tasks''],
      GRANT_PERMISSIONS [''owner'', ''admin'', ''manager''] [''tenant:tasks:view'',
            ''tenant:tasks:create'', ''tenant:tasks:update'', ''tenant:tasks:delete'',
            ''tenant:tasks:manage_checklist''],
      GRANT_PERMISSIONS [''staff''] [''tenant:tasks:view'', ''tenant:tasks:create'',
            ''tenant:tasks:update'', ''tenant:tasks:manage_checklist'']]"

definition TASKS_MIGRATION_SQL :: "statement list" where
  "TASKS_MIGRATION_SQL = task_migration_tables @ task_migration_indexes @ task_grants"

subsection \<open>The migrations that can be run\<close>

definition all_migrations :: "statement list list" where
  "all_migrations =
     [CUSTOM_FIELDS_MIGRATION_SQL, CONTACTS_LEADS_MIGRATION_SQL, LEAD_ASSIGNMENT_WEBHOOK_MIGRATION_SQL,
      LEAD_ACTIVITIES_MIGRATION_SQL, TASKS_MIGRATION_SQL]"

text \<open>\<^verbatim>\<open>MIGRATIONS\<close> of \<^verbatim>\<open>dev.controller.ts\<close>.\<close>

definition MIGRATIONS :: "string \<Rightarrow> statement list option" where
  "MIGRATIONS key =
     (if key = ''lead_assignment_webhook'' then Some LEAD_ASSIGNMENT_WEBHOOK_MIGRATION_SQL
      else if key = ''lead_activities'' then Some LEAD_ACTIVITIES_MIGRATION_SQL
      else if key = ''tasks'' then Some TASKS_MIGRATION_SQL
      else None)"

end
