(* ===== verification/Tenant_Models.thy ===== *)
theory Tenant_Models
  imports Ddl
begin

text \<open>
  \<^verbatim>\<open>prisma/tenant-template/schema.prisma\<close>: the models from which the database client of a tenant is
  generated, and the catalog that they stand for: one table per model, a primary key, a unique
  index per \<^verbatim>\<open>@unique\<close> and \<^verbatim>\<open>@@unique\<close>, an index per \<^verbatim>\<open>@@index\<close> and a foreign key per relation, with
  the names that the schema language gives them. Fields of a relation are not columns.
\<close>

datatype prisma_type =
    String_p | Uuid_p | Boolean_p | Json_p | DateTime_p | Int_p | Float_p | Enum_p string

record prisma_field =
  pf_name :: string
  pf_type :: prisma_type
  pf_optional :: bool
  pf_default :: "sql_default option"

record prisma_relation =
  pr_field :: string
  pr_model :: string
  pr_reference :: string
  pr_onDelete :: on_delete

record prisma_model =
  md_name :: string
  md_fields :: "prisma_field list"
  md_id :: "string list"
  md_unique :: "string list list"
  md_index :: "string list list"
  md_relations :: "prisma_relation list"

definition field :: "string \<Rightarrow> prisma_type \<Rightarrow> prisma_field" where
  "field n t = \<lparr>pf_name = n, pf_type = t, pf_optional = False, pf_default = None\<rparr>"

definition optional_field :: "string \<Rightarrow> prisma_type \<Rightarrow> prisma_field" where
  "optional_field n t = \<lparr>pf_name = n, pf_type = t, pf_optional = True, pf_default = None\<rparr>"

definition default_field :: "string \<Rightarrow> prisma_type \<Rightarrow> sql_default \<Rightarrow> prisma_field" where
  "default_field n t d = \<lparr>pf_name = n, pf_type = t, pf_optional = False, pf_default = Some d\<rparr>"

definition relation :: "string \<Rightarrow> string \<Rightarrow> string \<Rightarrow> on_delete \<Rightarrow> prisma_relation" where
  "relation f m r d = \<lparr>pr_field = f, pr_model = m, pr_reference = r, pr_onDelete = d\<rparr>"

subsection \<open>The catalog of a schema\<close>

fun column_type :: "prisma_type \<Rightarrow> sql_type" where
  "column_type String_p = TEXT_t"
| "column_type Uuid_p = UUID_t"
| "column_type Boolean_p = BOOLEAN_t"
| "column_type Json_p = JSONB_t"
| "column_type DateTime_p = TIMESTAMPTZ_t"
| "column_type Int_p = INTEGER_t"
| "column_type Float_p = DOUBLE_PRECISION_t"
| "column_type (Enum_p e) = Enum_t e"

definition field_column :: "prisma_field \<Rightarrow> column" where
  "field_column f =
     \<lparr>co_name = pf_name f, co_type = column_type (pf_type f), co_notNull = (\<not> pf_optional f),
      co_default = pf_default f\<rparr>"

fun index_name :: "string \<Rightarrow> string list \<Rightarrow> string \<Rightarrow> string" where
  "index_name m [] suffix = m @ ''_'' @ suffix"
| "index_name m (f # fs) suffix = index_name (m @ ''_'' @ f) fs suffix"

definition model_indexes :: "prisma_model \<Rightarrow> (string \<times> sql_index) list" where
  "model_indexes m =
     (md_name m @ ''_pkey'', index_on True (md_name m) (md_id m)) #
     map (\<lambda>fs. (index_name (md_name m) fs ''key'', index_on True (md_name m) fs)) (md_unique m) @
     map (\<lambda>fs. (index_name (md_name m) fs ''idx'', index_on False (md_name m) fs)) (md_index m)"

definition model_keys :: "prisma_model \<Rightarrow> foreign_key list" where
  "model_keys m =
     map (\<lambda>r. foreign_key (md_name m) (index_name (md_name m) [pr_field r] ''fkey'') (pr_field r)
              (pr_model r) (pr_reference r) (pr_onDelete r)) (md_relations m)"

definition schema_catalog :: "(string \<times> string list) list \<Rightarrow> prisma_model list \<Rightarrow> catalog" where
  "schema_catalog enums models =
     \<lparr>cat_types = enums,
      cat_tables = map (\<lambda>m. (md_name m, map field_column (md_fields m))) models,
      cat_indexes = concat (map model_indexes models),
      cat_fkeys = concat (map model_keys models)\<rparr>"

subsection \<open>Enumerations\<close>

definition RoleScopeType_enum :: "(string \<times> string list) list" where
  "RoleScopeType_enum =
     [(''RoleScopeType'', [''tenant'', ''branch''])]"

definition CustomFieldEntityType_enums :: "(string \<times> string list) list" where
  "CustomFieldEntityType_enums =
     [(''CustomFieldEntityType'', [''CONTACT'', ''DEAL'', ''LEAD'']),
      (''CustomFieldType'', [''TEXT'', ''TEXTAREA'', ''NUMBER'', ''BOOLEAN'', ''DATE'',
        ''DATETIME'', ''SELECT'', ''MULTI_SELECT'', ''URL'', ''EMAIL'', ''PHONE''])]"

definition TagEntityType_enum :: "(string \<times> string list) list" where
  "TagEntityType_enum =
     [(''TagEntityType'', [''CONTACT'', ''LEAD''])]"

definition ContactStatus_enum :: "(string \<times> string list) list" where
  "ContactStatus_enum =
     [(''ContactStatus'', [''ACTIVE'', ''INACTIVE'', ''ARCHIVED''])]"

definition LeadPriority_enums :: "(string \<times> string list) list" where
  "LeadPriority_enums =
     [(''LeadPriority'', [''LOW'', ''MEDIUM'', ''HIGH'']),
      (''LeadActivityType'', [''NOTE'', ''CALL'', ''EMAIL'', ''SMS'', ''WHATSAPP'',
        ''MEETING'', ''TASK'']),
      (''ActivityDirection'', [''INBOUND'', ''OUTBOUND'']),
      (''CallOutcome'', [''SPOKE'', ''NO_ANSWER'', ''VOICEMAIL'', ''BUSY'', ''WRONG_NUMBER'',
        ''CALL_BACK_REQUESTED'']),
      (''ActivityTaskStatus'', [''PENDING'', ''IN_PROGRESS'', ''COMPLETED'', ''CANCELLED''])]"

definition ContactListType_enum :: "(string \<times> string list) list" where
  "ContactListType_enum =
     [(''ContactListType'', [''STATIC''])]"

definition LeadAssignmentMode_enum :: "(string \<times> string list) list" where
  "LeadAssignmentMode_enum =
     [(''LeadAssignmentMode'', [''ROUND_ROBIN'', ''MANUAL''])]"

definition TaskType_enums :: "(string \<times> string list) list" where
  "TaskType_enums =
     [(''TaskType'', [''TODO'', ''CALL'', ''EMAIL'', ''MEETING'', ''FOLLOW_UP'']),
      (''TaskStatus'', [''TODO'', ''IN_PROGRESS'', ''BLOCKED'', ''DONE'', ''CANCELLED'']),
      (''TaskPriority'', [''URGENT'', ''HIGH'', ''NORMAL'', ''LOW'']),
      (''TaskEntityType'', [''LEAD'', ''CONTACT''])]"

definition tenant_enums :: "(string \<times> string list) list" where
  "tenant_enums =
     RoleScopeType_enum @ CustomFieldEntityType_enums @ TagEntityType_enum @ ContactStatus_enum @
     LeadPriority_enums @ ContactListType_enum @ LeadAssignmentMode_enum @ TaskType_enums"

subsection \<open>Models\<close>

definition Branch_model :: prisma_model where
  "Branch_model =
     \<lparr>md_name = ''Branch'',
      md_fields =
        [default_field ''id'' Uuid_p Gen_random_uuid,
         field ''name'' String_p,
         field ''code'' String_p,
         optional_field ''address'' String_p,
         optional_field ''city'' String_p,
         optional_field ''state'' String_p,
         optional_field ''country'' String_p,
         optional_field ''postalCode'' String_p,
         optional_field ''phone'' String_p,
         optional_field ''email'' String_p,
         default_field ''timezone'' String_p (Text_literal ''UTC''),
         optional_field ''parentBranchId'' Uuid_p,
         default_field ''isHeadOffice'' Boolean_p (Bool_literal False),
         default_field ''isActive'' Boolean_p (Bool_literal True),
         default_field ''metadata'' Json_p (Text_literal ''{}''),
         optional_field ''deletedAt'' DateTime_p,
         default_field ''createdAt'' DateTime_p Current_timestamp,
         field ''updatedAt'' DateTime_p],
      md_id = [''id''],
      md_unique = [[''code'']],
      md_index = [[''isActive''], [''parentBranchId'']],
      md_relations = [relation ''parentBranchId'' ''Branch'' ''id'' SET_NULL]\<rparr>"

definition Role_model :: prisma_model where
  "Role_model =
     \<lparr>md_name = ''Role'',
      md_fields =
        [default_field ''id'' Uuid_p Gen_random_uuid,
         field ''slug'' String_p,
         field ''name'' String_p,
         optional_field ''description'' String_p,
         field ''scopeType'' (Enum_p ''RoleScopeType''),
         default_field ''isSystem'' Boolean_p (Bool_literal False),
         optional_field ''verticalSlug'' String_p,
         default_field ''createdAt'' DateTime_p Current_timestamp,
         field ''updatedAt'' DateTime_p],
      md_id = [''id''],
      md_unique = [[''slug'']],
      md_index = [[''scopeType'', ''isSystem''], [''verticalSlug'']],
      md_relations = []\<rparr>"

definition Permission_model :: prisma_model where
  "Permission_model =
     \<lparr>md_name = ''Permission'',
      md_fields =
        [default_field ''id'' Uuid_p Gen_random_uuid,
         field ''slug'' String_p,
         field ''scope'' String_p,
         field ''resource'' String_p,
         field ''action'' String_p,
         field ''description'' String_p,
         default_field ''isSystem'' Boolean_p (Bool_literal True),
         default_field ''createdAt'' DateTime_p Current_timestamp],
      md_id = [''id''],
      md_unique = [[''slug''], [''scope'', ''resource'', ''action'']],
      md_index = [[''scope'', ''resource'']],
      md_relations = []\<rparr>"

definition RolePermission_model :: prisma_model where
  "RolePermission_model =
     \<lparr>md_name = ''RolePermission'',
      md_fields =
        [field ''roleId'' Uuid_p,
         field ''permissionId'' Uuid_p,
         default_field ''createdAt'' DateTime_p Current_timestamp],
      md_id = [''roleId'', ''permissionId''],
      md_unique = [],
      md_index = [[''permissionId'']],
      md_relations = [relation ''roleId'' ''Role'' ''id'' CASCADE,
        relation ''permissionId'' ''Permission'' ''id'' CASCADE]\<rparr>"

definition UserBranchMembership_model :: prisma_model where
  "UserBranchMembership_model =
     \<lparr>md_name = ''UserBranchMembership'',
      md_fields =
        [default_field ''id'' Uuid_p Gen_random_uuid,
         field ''userId'' Uuid_p,
         optional_field ''branchId'' Uuid_p,
         field ''roleId'' Uuid_p,
         optional_field ''assignedByUserId'' Uuid_p,
         default_field ''assignedAt'' DateTime_p Current_timestamp,
         optional_field ''revokedAt'' DateTime_p,
         optional_field ''revokedReason'' String_p,
         default_field ''roundRobinAvailable'' Boolean_p (Bool_literal True),
         default_field ''createdAt'' DateTime_p Current_timestamp,
         field ''updatedAt'' DateTime_p],
      md_id = [''id''],
      md_unique = [[''userId'', ''branchId'', ''roleId'']],
      md_index = [[''userId''],
        [''branchId''],
        [''roleId'']],
      md_relations = [relation ''branchId'' ''Branch'' ''id'' CASCADE,
        relation ''roleId'' ''Role'' ''id'' RESTRICT]\<rparr>"

definition CustomFieldDefinition_model :: prisma_model where
  "CustomFieldDefinition_model =
     \<lparr>md_name = ''CustomFieldDefinition'',
      md_fields =
        [default_field ''id'' Uuid_p Gen_random_uuid,
         field ''entityType'' (Enum_p ''CustomFieldEntityType''),
         field ''label'' String_p,
         field ''key'' String_p,
         field ''fieldType'' (Enum_p ''CustomFieldType''),
         default_field ''isRequired'' Boolean_p (Bool_literal False),
         default_field ''options'' Json_p (Text_literal ''[]''),
         optional_field ''defaultValue'' String_p,
         optional_field ''placeholder'' String_p,
         default_field ''displayOrder'' Int_p (Int_literal 0),
         default_field ''isActive'' Boolean_p (Bool_literal True),
         default_field ''createdAt'' DateTime_p Current_timestamp,
         field ''updatedAt'' DateTime_p],
      md_id = [''id''],
      md_unique = [[''entityType'', ''key'']],
      md_index = [[''entityType'', ''isActive'']],
      md_relations = []\<rparr>"

definition CustomFieldValue_model :: prisma_model where
  "CustomFieldValue_model =
     \<lparr>md_name = ''CustomFieldValue'',
      md_fields =
        [default_field ''id'' Uuid_p Gen_random_uuid,
         field ''definitionId'' Uuid_p,
         field ''entityType'' (Enum_p ''CustomFieldEntityType''),
         field ''entityId'' Uuid_p,
         field ''value'' Json_p,
         default_field ''createdAt'' DateTime_p Current_timestamp,
         field ''updatedAt'' DateTime_p],
      md_id = [''id''],
      md_unique = [[''definitionId'', ''entityId'']],
      md_index = [[''entityType'', ''entityId''], [''definitionId'']],
      md_relations = [relation ''definitionId'' ''CustomFieldDefinition'' ''id'' CASCADE]\<rparr>"

definition Tag_model :: prisma_model where
  "Tag_model =
     \<lparr>md_name = ''Tag'',
      md_fields =
        [default_field ''id'' Uuid_p Gen_random_uuid,
         field ''name'' String_p,
         optional_field ''color'' String_p,
         default_field ''isSystem'' Boolean_p (Bool_literal False),
         default_field ''createdAt'' DateTime_p Current_timestamp,
         field ''updatedAt'' DateTime_p],
      md_id = [''id''],
      md_unique = [[''name'']],
      md_index = [],
      md_relations = []\<rparr>"

definition EntityTag_model :: prisma_model where
  "EntityTag_model =
     \<lparr>md_name = ''EntityTag'',
      md_fields =
        [field ''tagId'' Uuid_p,
         field ''entityType'' (Enum_p ''TagEntityType''),
         field ''entityId'' Uuid_p,
         default_field ''createdAt'' DateTime_p Current_timestamp],
      md_id = [''tagId'', ''entityType'', ''entityId''],
      md_unique = [],
      md_index = [[''entityType'', ''entityId''], [''tagId'']],
      md_relations = [relation ''tagId'' ''Tag'' ''id'' CASCADE]\<rparr>"

definition ContactSource_model :: prisma_model where
  "ContactSource_model =
     \<lparr>md_name = ''ContactSource'',
      md_fields =
        [default_field ''id'' Uuid_p Gen_random_uuid,
         field ''branchId'' Uuid_p,
         field ''name'' String_p,
         default_field ''isSystem'' Boolean_p (Bool_literal False),
         default_field ''isActive'' Boolean_p (Bool_literal True),
         default_field ''createdAt'' DateTime_p Current_timestamp,
         field ''updatedAt'' DateTime_p],
      md_id = [''id''],
      md_unique = [[''branchId'', ''name'']],
      md_index = [[''branchId'', ''isActive'']],
      md_relations = [relation ''branchId'' ''Branch'' ''id'' CASCADE]\<rparr>"

definition LeadStatusConfig_model :: prisma_model where
  "LeadStatusConfig_model =
     \<lparr>md_name = ''LeadStatusConfig'',
      md_fields =
        [default_field ''id'' Uuid_p Gen_random_uuid,
         field ''branchId'' Uuid_p,
         field ''name'' String_p,
         optional_field ''color'' String_p,
         default_field ''displayOrder'' Int_p (Int_literal 0),
         default_field ''isSystem'' Boolean_p (Bool_literal False),
         default_field ''isActive'' Boolean_p (Bool_literal True),
         default_field ''createdAt'' DateTime_p Current_timestamp,
         field ''updatedAt'' DateTime_p],
      md_id = [''id''],
      md_unique = [[''branchId'', ''name'']],
      md_index = [[''branchId'', ''isActive'']],
      md_relations = [relation ''branchId'' ''Branch'' ''id'' CASCADE]\<rparr>"

definition Contact_model :: prisma_model where
  "Contact_model =
     \<lparr>md_name = ''Contact'',
      md_fields =
        [default_field ''id'' Uuid_p Gen_random_uuid,
         field ''branchId'' Uuid_p,
         field ''firstName'' String_p,
         optional_field ''lastName'' String_p,
         optional_field ''email'' String_p,
         optional_field ''phone'' String_p,
         optional_field ''company'' String_p,
         optional_field ''jobTitle'' String_p,
         optional_field ''address'' String_p,
         optional_field ''city'' String_p,
         optional_field ''state'' String_p,
         optional_field ''country'' String_p,
         optional_field ''postalCode'' String_p,
         optional_field ''sourceId'' Uuid_p,
         optional_field ''originLeadId'' Uuid_p,
         default_field ''status'' (Enum_p ''ContactStatus'') (Text_literal ''ACTIVE''),
         optional_field ''ownedByUserId'' Uuid_p,
         optional_field ''notes'' String_p,
         default_field ''metadata'' Json_p (Text_literal ''{}''),
         optional_field ''createdByUserId'' Uuid_p,
         optional_field ''deletedAt'' DateTime_p,
         default_field ''createdAt'' DateTime_p Current_timestamp,
         field ''updatedAt'' DateTime_p],
      md_id = [''id''],
      md_unique = [],
      md_index = [[''branchId'', ''status''],
        [''branchId'', ''deletedAt''],
        [''email''],
        [''phone''],
        [''sourceId''],
        [''ownedByUserId'']],
      md_relations = [relation ''branchId'' ''Branch'' ''id'' RESTRICT,
        relation ''sourceId'' ''ContactSource'' ''id'' SET_NULL]\<rparr>"

definition Lead_model :: prisma_model where
  "Lead_model =
     \<lparr>md_name = ''Lead'',
      md_fields =
        [default_field ''id'' Uuid_p Gen_random_uuid,
         field ''branchId'' Uuid_p,
         optional_field ''contactId'' Uuid_p,
         field ''firstName'' String_p,
         optional_field ''lastName'' String_p,
         optional_field ''email'' String_p,
         optional_field ''phone'' String_p,
         optional_field ''company'' String_p,
         optional_field ''sourceId'' Uuid_p,
         optional_field ''statusId'' Uuid_p,
         default_field ''priority'' (Enum_p ''LeadPriority'') (Text_literal ''MEDIUM''),
         optional_field ''estimatedValue'' Float_p,
         optional_field ''ownedByUserId'' Uuid_p,
         optional_field ''notes'' String_p,
         optional_field ''convertedAt'' DateTime_p,
         optional_field ''convertedByUserId'' Uuid_p,
         optional_field ''lastActivityAt'' DateTime_p,
         optional_field ''nextFollowUpAt'' DateTime_p,
         default_field ''touchpointCount'' Int_p (Int_literal 0),
         default_field ''metadata'' Json_p (Text_literal ''{}''),
         optional_field ''createdByUserId'' Uuid_p,
         optional_field ''deletedAt'' DateTime_p,
         default_field ''createdAt'' DateTime_p Current_timestamp,
         field ''updatedAt'' DateTime_p],
      md_id = [''id''],
      md_unique = [],
      md_index = [[''branchId''],
        [''branchId'', ''deletedAt''],
        [''contactId''],
        [''sourceId''],
        [''statusId''],
        [''ownedByUserId''],
        [''convertedAt''],
        [''nextFollowUpAt'']],
      md_relations = [relation ''branchId'' ''Branch'' ''id'' RESTRICT,
        relation ''contactId'' ''Contact'' ''id'' SET_NULL,
        relation ''sourceId'' ''ContactSource'' ''id'' SET_NULL,
        relation ''statusId'' ''LeadStatusConfig'' ''id'' SET_NULL]\<rparr>"

definition LeadActivity_model :: prisma_model where
  "LeadActivity_model =
     \<lparr>md_name = ''LeadActivity'',
      md_fields =
        [default_field ''id'' Uuid_p Gen_random_uuid,
         field ''leadId'' Uuid_p,
         field ''type'' (Enum_p ''LeadActivityType''),
         optional_field ''direction'' (Enum_p ''ActivityDirection''),
         optional_field ''subject'' String_p,
         optional_field ''body'' String_p,
         optional_field ''outcome'' (Enum_p ''CallOutcome''),
         optional_field ''durationSeconds'' Int_p,
         optional_field ''recordingUrl'' String_p,
         optional_field ''transcriptUrl'' String_p,
         optional_field ''scheduledAt'' DateTime_p,
         optional_field ''completedAt'' DateTime_p,
         optional_field ''dueAt'' DateTime_p,
         optional_field ''taskStatus'' (Enum_p ''ActivityTaskStatus''),
         field ''createdByUserId'' Uuid_p,
         optional_field ''assignedToUserId'' Uuid_p,
         optional_field ''metadata'' Json_p,
         optional_field ''deletedAt'' DateTime_p,
         default_field ''createdAt'' DateTime_p Current_timestamp,
         field ''updatedAt'' DateTime_p],
      md_id = [''id''],
      md_unique = [],
      md_index = [[''leadId'', ''createdAt''],
        [''assignedToUserId'', ''dueAt''],
        [''type'', ''leadId''],
        [''taskStatus'', ''assignedToUserId'']],
      md_relations = [relation ''leadId'' ''Lead'' ''id'' CASCADE]\<rparr>"

definition ContactList_model :: prisma_model where
  "ContactList_model =
     \<lparr>md_name = ''ContactList'',
      md_fields =
        [default_field ''id'' Uuid_p Gen_random_uuid,
         field ''branchId'' Uuid_p,
         field ''name'' String_p,
         optional_field ''description'' String_p,
         default_field ''listType'' (Enum_p ''ContactListType'') (Text_literal ''STATIC''),
         optional_field ''createdByUserId'' Uuid_p,
         default_field ''isActive'' Boolean_p (Bool_literal True),
         default_field ''createdAt'' DateTime_p Current_timestamp,
         field ''updatedAt'' DateTime_p],
      md_id = [''id''],
      md_unique = [[''branchId'', ''name'']],
      md_index = [[''branchId'', ''isActive'']],
      md_relations = [relation ''branchId'' ''Branch'' ''id'' CASCADE]\<rparr>"

definition ContactListMember_model :: prisma_model where
  "ContactListMember_model =
     \<lparr>md_name = ''ContactListMember'',
      md_fields =
        [field ''listId'' Uuid_p,
         field ''contactId'' Uuid_p,
         optional_field ''addedByUserId'' Uuid_p,
         default_field ''addedAt'' DateTime_p Current_timestamp],
      md_id = [''listId'', ''contactId''],
      md_unique = [],
      md_index = [[''contactId''], [''listId'']],
      md_relations = [relation ''listId'' ''ContactList'' ''id'' CASCADE,
        relation ''contactId'' ''Contact'' ''id'' CASCADE]\<rparr>"

definition LeadAssignmentConfig_model :: prisma_model where
  "LeadAssignmentConfig_model =
     \<lparr>md_name = ''LeadAssignmentConfig'',
      md_fields =
        [default_field ''id'' Uuid_p Gen_random_uuid,
         field ''branchId'' Uuid_p,
         default_field ''assignmentMode'' (Enum_p ''LeadAssignmentMode'') (Text_literal ''ROUND_ROBIN''),
         default_field ''eligibleRoleIds'' Json_p (Text_literal ''[]''),
         default_field ''isActive'' Boolean_p (Bool_literal True),
         default_field ''createdAt'' DateTime_p Current_timestamp,
         field ''updatedAt'' DateTime_p],
      md_id = [''id''],
      md_unique = [[''branchId'']],
      md_index = [],
      md_relations = [relation ''branchId'' ''Branch'' ''id'' CASCADE]\<rparr>"

definition LeadWebhook_model :: prisma_model where
  "LeadWebhook_model =
     \<lparr>md_name = ''LeadWebhook'',
      md_fields =
        [default_field ''id'' Uuid_p Gen_random_uuid,
         field ''branchId'' Uuid_p,
         optional_field ''sourceId'' Uuid_p,
         field ''name'' String_p,
         field ''token'' String_p,
         default_field ''isActive'' Boolean_p (Bool_literal True),
         default_field ''createdAt'' DateTime_p Current_timestamp,
         field ''updatedAt'' DateTime_p],
      md_id = [''id''],
      md_unique = [[''token'']],
      md_index = [[''token''], [''branchId'']],
      md_relations = [relation ''branchId'' ''Branch'' ''id'' CASCADE]\<rparr>"

definition Task_model :: prisma_model where
  "Task_model =
     \<lparr>md_name = ''Task'',
      md_fields =
        [default_field ''id'' Uuid_p Gen_random_uuid,
         field ''title'' String_p,
         optional_field ''description'' String_p,
         default_field ''type'' (Enum_p ''TaskType'') (Text_literal ''TODO''),
         default_field ''status'' (Enum_p ''TaskStatus'') (Text_literal ''TODO''),
         default_field ''priority'' (Enum_p ''TaskPriority'') (Text_literal ''NORMAL''),
         optional_field ''startDate'' DateTime_p,
         optional_field ''dueAt'' DateTime_p,
         optional_field ''completedAt'' DateTime_p,
         optional_field ''points'' Int_p,
         optional_field ''timeEstimate'' Int_p,
         optional_field ''recurrenceRule'' String_p,
         optional_field ''reminders'' Json_p,
         optional_field ''entityType'' (Enum_p ''TaskEntityType''),
         optional_field ''entityId'' Uuid_p,
         optional_field ''parentTaskId'' Uuid_p,
         optional_field ''watchers'' Json_p,
         field ''createdByUserId'' Uuid_p,
         optional_field ''metadata'' Json_p,
         optional_field ''deletedAt'' DateTime_p,
         default_field ''createdAt'' DateTime_p Current_timestamp,
         field ''updatedAt'' DateTime_p],
      md_id = [''id''],
      md_unique = [],
      md_index = [[''entityType'', ''entityId''],
        [''createdByUserId''],
        [''status'', ''dueAt''],
        [''parentTaskId''],
        [''dueAt'']],
      md_relations = [relation ''parentTaskId'' ''Task'' ''id'' SET_NULL]\<rparr>"

definition TaskAssignee_model :: prisma_model where
  "TaskAssignee_model =
     \<lparr>md_name = ''TaskAssignee'',
      md_fields =
        [field ''taskId'' Uuid_p,
         field ''userId'' Uuid_p,
         default_field ''assignedAt'' DateTime_p Current_timestamp,
         optional_field ''assignedByUserId'' Uuid_p],
      md_id = [''taskId'', ''userId''],
      md_unique = [],
      md_index = [[''userId'']],
      md_relations = [relation ''taskId'' ''Task'' ''id'' CASCADE]\<rparr>"

definition TaskChecklist_model :: prisma_model where
  "TaskChecklist_model =
     \<lparr>md_name = ''TaskChecklist'',
      md_fields =
        [default_field ''id'' Uuid_p Gen_random_uuid,
         field ''taskId'' Uuid_p,
         field ''title'' String_p,
         default_field ''displayOrder'' Int_p (Int_literal 0),
         default_field ''createdAt'' DateTime_p Current_timestamp,
         field ''updatedAt'' DateTime_p],
      md_id = [''id''],
      md_unique = [],
      md_index = [[''taskId'']],
      md_relations = [relation ''taskId'' ''Task'' ''id'' CASCADE]\<rparr>"

definition TaskChecklistItem_model :: prisma_model where
  "TaskChecklistItem_model =
     \<lparr>md_name = ''TaskChecklistItem'',
      md_fields =
        [default_field ''id'' Uuid_p Gen_random_uuid,
         field ''checklistId'' Uuid_p,
         field ''title'' String_p,
         default_field ''isChecked'' Boolean_p (Bool_literal False),
         optional_field ''checkedAt'' DateTime_p,
         optional_field ''checkedByUserId'' Uuid_p,
         default_field ''displayOrder'' Int_p (Int_literal 0),
         default_field ''createdAt'' DateTime_p Current_timestamp,
         field ''updatedAt'' DateTime_p],
      md_id = [''id''],
      md_unique = [],
      md_index = [[''checklistId'']],
      md_relations = [relation ''checklistId'' ''TaskChecklist'' ''id'' CASCADE]\<rparr>"

definition tenant_models :: "prisma_model list" where
  "tenant_models =
     [Branch_model, Role_model, Permission_model, RolePermission_model,
      UserBranchMembership_model, CustomFieldDefinition_model, CustomFieldValue_model, Tag_model,
      EntityTag_model, ContactSource_model, LeadStatusConfig_model, Contact_model,
      Lead_model, LeadActivity_model, ContactList_model, ContactListMember_model,
      LeadAssignmentConfig_model, LeadWebhook_model, Task_model, TaskAssignee_model,
      TaskChecklist_model, TaskChecklistItem_model]"

definition tenant_schema_catalog :: catalog where
  "tenant_schema_catalog = schema_catalog tenant_enums tenant_models"

end
