(* ===== verification/Tenant_Catalog.thy ===== *)
theory Tenant_Catalog
  imports Ddl_Eval Tenant_Template Tenant_Migrations Tenant_Models
begin

text \<open>
  The comparison of the catalog that a script makes with the one that the schema of the database client
  stands for: \<open>same_catalog\<close> is the comparison, \<open>fits\<close> how it is evaluated.
\<close>

definition same_catalog :: "catalog \<Rightarrow> catalog \<Rightarrow> bool" where
  "same_catalog c d \<longleftrightarrow>
     set (cat_types c) = set (cat_types d) \<and>
     (\<lambda>(t, cols). (t, set cols)) ` set (cat_tables c) = (\<lambda>(t, cols). (t, set cols)) ` set (cat_tables d) \<and>
     set (cat_indexes c) = set (cat_indexes d) \<and>
     set (cat_fkeys c) = set (cat_fkeys d)"

lemma same_catalog_sym: "same_catalog c d \<Longrightarrow> same_catalog d c"
  by (simp add: same_catalog_def)

lemma same_catalog_trans: "same_catalog c d \<Longrightarrow> same_catalog d e \<Longrightarrow> same_catalog c e"
  by (simp add: same_catalog_def)

subsection \<open>Evaluation\<close>

definition length_is :: "nat \<Rightarrow> 'a list \<Rightarrow> bool" where
  "length_is k xs \<longleftrightarrow> length xs = k"

lemma length_is_code [sql_eval]:
  "length_is 0 [] = True"
  "length_is (numeral n) (xs @ [x]) = length_is (pred_numeral n) xs"
  "length_is (numeral n) (x # xs) = length_is (pred_numeral n) xs"
  "length_is k (AList.map_entry t f ys) = length_is k ys"
  by (auto simp: length_is_def numeral_eq_Suc) (metis length_map map_entry_keys)+

fun types_in :: "(string \<times> string list) list \<Rightarrow> (string \<times> string list) list \<Rightarrow> bool" where
  "types_in [] A = True"
| "types_in ((n, ls) # es) A =
     (case lookup n A of None \<Rightarrow> False | Some ls' \<Rightarrow> if ls' = ls then types_in es A else False)"

fun fields_in :: "prisma_field list \<Rightarrow> column list \<Rightarrow> bool" where
  "fields_in [] cols = True"
| "fields_in (f # fs) cols =
     (case column_in (pf_name f) cols of
        None \<Rightarrow> False
      | Some col \<Rightarrow> if col = field_column f then fields_in fs cols else False)"

definition index_found :: "string \<Rightarrow> sql_index \<Rightarrow> (string \<times> sql_index) list \<Rightarrow> bool" where
  "index_found i ix C = (case lookup i C of None \<Rightarrow> False | Some ix' \<Rightarrow> if ix' = ix then True else False)"

fun indexes_in :: "(string \<times> sql_index) list \<Rightarrow> (string \<times> sql_index) list \<Rightarrow> bool" where
  "indexes_in [] C = True"
| "indexes_in ((i, ix) # is) C = (if index_found i ix C then indexes_in is C else False)"

fun key_found :: "foreign_key \<Rightarrow> foreign_key list \<Rightarrow> bool" where
  "key_found f [] = False"
| "key_found f (g # D) = (if f = g then True else key_found f D)"

fun keys_in :: "foreign_key list \<Rightarrow> foreign_key list \<Rightarrow> bool" where
  "keys_in [] D = True"
| "keys_in (f # fs) D = (if key_found f D then keys_in fs D else False)"

definition field_names :: "prisma_field list \<Rightarrow> string list" where
  "field_names fs = map pf_name fs"

fun same_length :: "'a list \<Rightarrow> 'b list \<Rightarrow> bool" where
  "same_length [] ys = (case ys of [] \<Rightarrow> True | _ # _ \<Rightarrow> False)"
| "same_length (x # xs) ys = (case ys of [] \<Rightarrow> False | _ # ys' \<Rightarrow> same_length xs ys')"

definition model_fits ::
    "prisma_model \<Rightarrow> (string \<times> column list) list \<Rightarrow> (string \<times> sql_index) list \<Rightarrow> foreign_key list \<Rightarrow> bool" where
  "model_fits m B C D =
     (case lookup (md_name m) B of
        None \<Rightarrow> False
      | Some cols \<Rightarrow>
          if fields_in (md_fields m) cols then
            if same_length (md_fields m) cols then
              if indexes_in (model_indexes m) C then keys_in (model_keys m) D else False
            else False
          else False)"

fun models_fit ::
    "prisma_model list \<Rightarrow> (string \<times> column list) list \<Rightarrow> (string \<times> sql_index) list \<Rightarrow> foreign_key list \<Rightarrow>
       bool" where
  "models_fit [] B C D = True"
| "models_fit (m # ms) B C D = (if model_fits m B C D then models_fit ms B C D else False)"

definition fits :: "(string \<times> string list) list \<Rightarrow> prisma_model list \<Rightarrow> sql_error + catalog \<Rightarrow> bool" where
  "fits es ms r =
     (case r of
        Inl e \<Rightarrow> False
      | Inr c \<Rightarrow>
          if types_in es (cat_types c) then
            if models_fit ms (cat_tables c) (cat_indexes c) (cat_fkeys c) then
              if same_length es (cat_types c) then
                if same_length ms (cat_tables c) then
                  if length_is 82 (cat_indexes c) then length_is 25 (cat_fkeys c) else False
                else False
              else False
            else False
          else False)"

subsection \<open>Its equations\<close>

lemma fits_code [sql_eval]:
  "fits es ms (Inl e) = False"
  "fits es ms (Inr (cat A B C D)) =
     (if types_in es A then
        if models_fit ms B C D then
          if same_length es A then
            if same_length ms B then if length_is 82 C then length_is 25 D else False else False
          else False
        else False
      else False)"
  by (simp_all add: fits_def)

lemma same_length_iff: "same_length xs ys \<longleftrightarrow> length xs = length ys"
  by (induction xs ys rule: same_length.induct) (auto split: list.split)

lemma same_length_code [sql_eval]:
  "same_length [] [] = True"
  "same_length (x # xs) (y # ys) = same_length xs ys"
  "same_length (x # xs) (zs @ [z]) = same_length xs zs"
  "same_length xs (AList.map_entry t f vs) = same_length xs vs"
  by (auto simp: same_length_iff) (metis length_map map_entry_keys)+

lemma field_parts [sql_eval]:
  "pf_name (field n t) = n" "pf_name (optional_field n t) = n" "pf_name (default_field n t d) = n"
  "field_column (field n t) = notNull n (column_type t)"
  "field_column (optional_field n t) = nullable n (column_type t)"
  "field_column (default_field n t d) = defaulted n (column_type t) d"
  by (simp_all add: field_def optional_field_def default_field_def field_column_def notNull_def nullable_def
        defaulted_def)

lemma fields_in_code [sql_eval]:
  "fields_in [] cols = True"
  "fields_in (field n t # fs) cols =
     (case column_in n cols of
        None \<Rightarrow> False | Some col \<Rightarrow> if col = notNull n (column_type t) then fields_in fs cols else False)"
  "fields_in (optional_field n t # fs) cols =
     (case column_in n cols of
        None \<Rightarrow> False | Some col \<Rightarrow> if col = nullable n (column_type t) then fields_in fs cols else False)"
  "fields_in (default_field n t d # fs) cols =
     (case column_in n cols of
        None \<Rightarrow> False | Some col \<Rightarrow> if col = defaulted n (column_type t) d then fields_in fs cols else False)"
  by (simp_all add: field_parts cong: option.case_cong)

fun uniques_in :: "bool \<Rightarrow> string \<Rightarrow> string \<Rightarrow> string list list \<Rightarrow> (string \<times> sql_index) list \<Rightarrow> bool" where
  "uniques_in u n suffix [] C = True"
| "uniques_in u n suffix (fs # fss) C =
     (if index_found (index_name n fs suffix) (index_on u n fs) C then uniques_in u n suffix fss C else False)"

lemma indexes_in_append: "indexes_in (xs @ ys) C \<longleftrightarrow> indexes_in xs C \<and> indexes_in ys C"
  by (induction xs C rule: indexes_in.induct) auto

lemma uniques_in_iff:
  "indexes_in (map (\<lambda>fs. (index_name n fs suffix, index_on u n fs)) fss) C \<longleftrightarrow> uniques_in u n suffix fss C"
  by (induction fss) auto

fun relations_in :: "string \<Rightarrow> prisma_relation list \<Rightarrow> foreign_key list \<Rightarrow> bool" where
  "relations_in n [] D = True"
| "relations_in n (r # rs) D =
     (if key_found (foreign_key n (index_name n [pr_field r] ''fkey'') (pr_field r) (pr_model r) (pr_reference r)
          (pr_onDelete r)) D
      then relations_in n rs D else False)"

lemma relations_in_iff: "keys_in (model_keys m) D \<longleftrightarrow> relations_in (md_name m) (md_relations m) D"
proof -
  have "keys_in (map (\<lambda>r. foreign_key n (index_name n [pr_field r] ''fkey'') (pr_field r) (pr_model r)
      (pr_reference r) (pr_onDelete r)) rs) D \<longleftrightarrow> relations_in n rs D" for n rs
    by (induction rs) auto
  then show ?thesis by (simp add: model_keys_def)
qed

lemma relations_in_code [sql_eval]:
  "relations_in n [] D = True"
  "relations_in n (relation f m r d # rs) D =
     (if key_found (foreign_key n (index_name n [f] ''fkey'') f m r d) D then relations_in n rs D else False)"
  by (simp_all add: relation_def)

lemma model_fits_code [sql_eval]:
  "model_fits \<lparr>md_name = n, md_fields = fs, md_id = is, md_unique = us, md_index = ixs, md_relations = rs\<rparr> B C D =
     (case lookup n B of
        None \<Rightarrow> False
      | Some cols \<Rightarrow>
          if fields_in fs cols then
            if same_length fs cols then
              if index_found (n @ ''_pkey'') (index_on True n is) C then
                if uniques_in True n ''key'' us C then
                  if uniques_in False n ''idx'' ixs C then relations_in n rs D else False
                else False
              else False
            else False
          else False)"
  by (simp add: model_fits_def model_indexes_def relations_in_iff indexes_in_append uniques_in_iff
        split: option.split)

lemma key_found_code [sql_eval]:
  "key_found f [] = False"
  "key_found (foreign_key t n k rt rk od) (D @ [foreign_key t' n' k' rt' rk' od']) =
     (if same_name n n' then
        if foreign_key t n k rt rk od = foreign_key t' n' k' rt' rk' od' then True
        else key_found (foreign_key t n k rt rk od) D
      else key_found (foreign_key t n k rt rk od) D)"
proof -
  have append: "key_found f (D @ [g]) \<longleftrightarrow> f = g \<or> key_found f D" for f g D by (induction D) auto
  show "key_found f [] = False" by simp
  show "key_found (foreign_key t n k rt rk od) (D @ [foreign_key t' n' k' rt' rk' od']) =
     (if same_name n n' then
        if foreign_key t n k rt rk od = foreign_key t' n' k' rt' rk' od' then True
        else key_found (foreign_key t n k rt rk od) D
      else key_found (foreign_key t n k rt rk od) D)"
    by (auto simp: append same_name_iff foreign_key_def)
qed

lemmas [sql_eval] = types_in.simps models_fit.simps uniques_in.simps index_found_def index_name.simps
  column_type.simps pred_numeral_simps Num.BitM.simps

lemma weak_models [sql_weak]:
  "types_in es A = types_in es A" "models_fit ms B C D = models_fit ms B C D"
  "model_fits m B C D = model_fits m B C D" "fields_in fs cols = fields_in fs cols"
  "same_length xs ys = same_length xs ys"
  "uniques_in u n suffix fss C = uniques_in u n suffix fss C" "relations_in n rs D = relations_in n rs D"
  by (rule refl)+

lemma weak_found [sql_weak]:
  "i = i' \<Longrightarrow> index_found i ix C = index_found i' ix C"
  "f = f' \<Longrightarrow> key_found f D = key_found f' D"
  "k = k' \<Longrightarrow> length_is k xs = length_is k' xs"
  by simp_all

lemma weak_fits [sql_weak]: "r = r' \<Longrightarrow> fits es ms r = fits es ms r'"
  by simp

subsection \<open>Soundness\<close>

lemma subset_length:
  assumes "set ys \<subseteq> set xs" and "distinct ys" and "length xs = length ys"
  shows "set xs = set ys"
proof -
  from assms(2,3) have "card (set ys) = length xs" by (simp add: distinct_card)
  with card_length [of xs] assms(1) show ?thesis by (metis List.finite_set card_seteq)
qed

lemma distinct_keys: "distinct (map f xs) \<Longrightarrow> distinct xs"
  by (simp add: distinct_map)

lemma types_in_sound: "types_in es A \<Longrightarrow> set es \<subseteq> set A"
  by (induction es A rule: types_in.induct) (auto split: option.splits if_splits dest: lookup_in)

lemma column_in_set: "column_in k cols = Some col \<Longrightarrow> col \<in> set cols"
  by (induction cols) (auto simp: column_in_def split: if_splits)

lemma fields_in_sound: "fields_in fs cols \<Longrightarrow> set (map field_column fs) \<subseteq> set cols"
  by (induction fs) (auto dest: column_in_set split: option.splits if_splits)

lemma indexes_in_sound: "indexes_in is C \<Longrightarrow> set is \<subseteq> set C"
  by (induction "is" C rule: indexes_in.induct)
     (auto simp: index_found_def split: option.splits if_splits dest: lookup_in)

lemma key_found_iff: "key_found f D \<longleftrightarrow> f \<in> set D"
  by (induction D) auto

lemma keys_in_sound: "keys_in fs D \<Longrightarrow> set fs \<subseteq> set D"
  by (induction fs) (auto simp: key_found_iff split: if_splits)

lemma models_fit_in: "models_fit ms B C D \<Longrightarrow> m \<in> set ms \<Longrightarrow> model_fits m B C D"
  by (induction ms) (auto split: if_splits)

text \<open>No name is declared twice in the schema of the client.\<close>

definition schema_names_ok :: "(string \<times> string list) list \<Rightarrow> prisma_model list \<Rightarrow> bool" where
  "schema_names_ok es ms \<longleftrightarrow>
     no_duplicates (map fst es) \<and> no_duplicates (map md_name ms) \<and>
     list_all (\<lambda>m. no_duplicates (map pf_name (md_fields m))) ms \<and>
     no_duplicates (map fst (concat (map model_indexes ms))) \<and>
     no_duplicates (map fk_name (concat (map model_keys ms))) \<and>
     length_is 82 (concat (map model_indexes ms)) \<and> length_is 25 (concat (map model_keys ms))"

lemma fits_sound:
  assumes names: "schema_names_ok es ms" and fits: "fits es ms r"
  shows "\<exists>c. r = Inr c \<and> same_catalog c (schema_catalog es ms)"
proof -
  from fits obtain c where r: "r = Inr c" by (cases r) (auto simp: fits_def)
  with fits have types: "types_in es (cat_types c)" "length (cat_types c) = length es"
      and models: "models_fit ms (cat_tables c) (cat_indexes c) (cat_fkeys c)" "length (cat_tables c) = length ms"
      and counts: "length (cat_indexes c) = 82" "length (cat_fkeys c) = 25"
    by (auto simp: fits_def same_length_iff length_is_def split: if_splits)
  have model: "model_fits m (cat_tables c) (cat_indexes c) (cat_fkeys c)" if "m \<in> set ms" for m
    using models_fit_in [OF models(1) that] .
  have T: "set (cat_types c) = set es"
    by (rule subset_length [OF types_in_sound [OF types(1)] _ types(2)])
       (use names in \<open>auto simp: schema_names_ok_def no_duplicates_def intro: distinct_keys\<close>)
  have "set (concat (map model_indexes ms)) \<subseteq> set (cat_indexes c)"
    using model indexes_in_sound by (fastforce simp: model_fits_def split: option.splits if_splits)
  then have I: "set (cat_indexes c) = set (concat (map model_indexes ms))"
    by (rule subset_length)
       (use names counts in \<open>auto simp: schema_names_ok_def no_duplicates_def length_is_def intro: distinct_keys\<close>)
  have "set (concat (map model_keys ms)) \<subseteq> set (cat_fkeys c)"
    using model keys_in_sound by (fastforce simp: model_fits_def split: option.splits if_splits)
  then have K: "set (cat_fkeys c) = set (concat (map model_keys ms))"
    by (rule subset_length)
       (use names counts in \<open>auto simp: schema_names_ok_def no_duplicates_def length_is_def intro: distinct_keys\<close>)
  have table: "\<exists>cols. (md_name m, cols) \<in> set (cat_tables c) \<and> set cols = set (map field_column (md_fields m))"
    if "m \<in> set ms" for m
  proof -
    from model [OF that] obtain cols where cols: "lookup (md_name m) (cat_tables c) = Some cols"
        "fields_in (md_fields m) cols" "length cols = length (map field_column (md_fields m))"
      by (auto simp: model_fits_def same_length_iff split: option.splits if_splits)
    have "map pf_name (md_fields m) = map co_name (map field_column (md_fields m))"
      by (simp add: field_column_def)
    with names that have "distinct (map co_name (map field_column (md_fields m)))"
      unfolding schema_names_ok_def no_duplicates_def list_all_iff by metis
    then have "distinct (map field_column (md_fields m))" by (rule distinct_keys)
    with cols fields_in_sound [OF cols(2)] show ?thesis
      by (blast dest: lookup_in subset_length)
  qed
  define f where "f = (\<lambda>(t :: string, cols :: column list). (t, set cols))"
  have sub: "set (map (\<lambda>m. f (md_name m, map field_column (md_fields m))) ms) \<subseteq> set (map f (cat_tables c))"
  proof
    fix x
    assume "x \<in> set (map (\<lambda>m. f (md_name m, map field_column (md_fields m))) ms)"
    then obtain m where m: "m \<in> set ms" "x = (md_name m, set (map field_column (md_fields m)))"
      by (auto simp: f_def)
    from table [OF m(1)] obtain cols where "(md_name m, cols) \<in> set (cat_tables c)"
        "set cols = set (map field_column (md_fields m))" by blast
    with m(2) have "x = f (md_name m, cols)" "(md_name m, cols) \<in> set (cat_tables c)"
      by (simp_all add: f_def)
    then show "x \<in> set (map f (cat_tables c))" by simp
  qed
  have "distinct (map fst (map (\<lambda>m. f (md_name m, map field_column (md_fields m))) ms))"
    using names by (simp add: schema_names_ok_def no_duplicates_def f_def comp_def)
  from subset_length [OF sub distinct_keys [OF this]] models(2)
  have "set (map f (cat_tables c)) = set (map (\<lambda>m. f (md_name m, map field_column (md_fields m))) ms)"
    by simp
  then have "f ` set (cat_tables c) = f ` set (map (\<lambda>m. (md_name m, map field_column (md_fields m))) ms)"
    by (simp add: image_image)
  with T I K r show ?thesis by (simp add: same_catalog_def schema_catalog_def f_def)
qed

subsection \<open>The scripts as lists\<close>

lemmas template_parts = base_tables_def base_indexes_def base_keys_def custom_field_template_def crm_types_def
  crm_tables_def crm_indexes_def crm_keys_def assignment_template_def activity_types_def activity_table_def
  task_tables_def task_indexes_def

lemmas migration_parts = CUSTOM_FIELDS_MIGRATION_SQL_def custom_field_statements_def custom_field_grants_def
  CONTACTS_LEADS_MIGRATION_SQL_def crm_migration_types_def crm_migration_tables_def crm_migration_indexes_def
  crm_migration_keys_def crm_migration_grants_def LEAD_ASSIGNMENT_WEBHOOK_MIGRATION_SQL_def
  assignment_statements_def assignment_grants_def LEAD_ACTIVITIES_MIGRATION_SQL_def activity_statements_def
  activity_grants_def TASKS_MIGRATION_SQL_def task_migration_tables_def task_migration_indexes_def task_grants_def

lemmas model_parts = tenant_enums_def RoleScopeType_enum_def CustomFieldEntityType_enums_def TagEntityType_enum_def
  ContactStatus_enum_def LeadPriority_enums_def ContactListType_enum_def LeadAssignmentMode_enum_def
  TaskType_enums_def tenant_models_def Branch_model_def Role_model_def Permission_model_def
  RolePermission_model_def UserBranchMembership_model_def CustomFieldDefinition_model_def
  CustomFieldValue_model_def Tag_model_def EntityTag_model_def ContactSource_model_def
  LeadStatusConfig_model_def Contact_model_def Lead_model_def LeadActivity_model_def ContactList_model_def
  ContactListMember_model_def LeadAssignmentConfig_model_def LeadWebhook_model_def Task_model_def
  TaskAssignee_model_def TaskChecklist_model_def TaskChecklistItem_model_def

lemma template_fits: "fits tenant_enums tenant_models (catalog_script TENANT_TEMPLATE_SQL (cat [] [] [] []))"
  unfolding TENANT_TEMPLATE_SQL_def base_template_def template_parts model_parts append_Cons append_Nil
  by (simp only: sql_eval cong: sql_weak)

lemma migrations_fit:
  "fits tenant_enums tenant_models
     (catalog_script (base_template @ concat all_migrations) (cat [] [] [] []))"
  unfolding base_template_def all_migrations_def concat.simps template_parts migration_parts model_parts
    append_Cons append_Nil
  by (simp only: sql_eval cong: sql_weak)

lemma weak_names: "no_duplicates ns = no_duplicates ns" "listed n ns = listed n ns"
  by (rule refl)+

lemma distinct_declarations:
  "no_duplicates (map fst tenant_enums)"
  "no_duplicates (map md_name tenant_models)"
  "list_all (\<lambda>m. no_duplicates (map pf_name (md_fields m))) tenant_models"
  unfolding model_parts by code_simp+

lemma distinct_indexes: "no_duplicates (map fst (concat (map model_indexes tenant_models)))"
  unfolding model_parts list.map concat.simps model_indexes_def prisma_model.simps index_name.simps append_Cons append_Nil
    fst_conv
  by (simp only: sql_eval cong: sql_weak weak_names)

lemma distinct_keys_of_models: "no_duplicates (map fk_name (concat (map model_keys tenant_models)))"
  unfolding model_parts list.map concat.simps model_keys_def prisma_model.simps relation_def prisma_relation.simps
    foreign_key_def foreign_key.simps index_name.simps append_Cons append_Nil
  by (simp only: sql_eval cong: sql_weak weak_names)

lemma declared_counts:
  "length (concat (map model_indexes tenant_models)) = 82" "length (concat (map model_keys tenant_models)) = 25"
  by (simp_all add: model_parts model_indexes_def model_keys_def)

lemma tenant_names_ok: "schema_names_ok tenant_enums tenant_models"
  using distinct_declarations distinct_indexes distinct_keys_of_models declared_counts
  by (simp add: schema_names_ok_def length_is_def)

end
