(* ===== verification/Schema_Properties.thy ===== *)
theory Schema_Properties
  imports Ddl_Scripts Tenant_Catalog
begin

text \<open>
  The scripts of \<^verbatim>\<open>libs/database/src/sql\<close> as a whole: the template makes the schema that the database
  client expects, the migrations bring a schema of the first days to the same form and can be run
  again, and the one that is to replace an enumeration of older schemas fails on them.
\<close>

subsection \<open>Scripts that return\<close>

fun is_ddl :: "statement \<Rightarrow> bool" where
  "is_ddl (DDL d) = True"
| "is_ddl (GUARDED d) = True"
| "is_ddl st = False"

lemma run_ddl_script:
  "list_all is_ddl script \<Longrightarrow> catalog_script script (ss_catalog s) = Inr c \<Longrightarrow>
     run_script uuid script s = (Inr (), s\<lparr>ss_catalog := c\<rparr>)"
proof (induction script arbitrary: s)
  case (Cons st script)
  then obtain c' where c': "catalog_step st (ss_catalog s) = Inr c'" "catalog_script script c' = Inr c"
    by (auto split: sum.splits)
  with Cons.prems(1) have "run_statement uuid st s = (Inr (), s\<lparr>ss_catalog := c'\<rparr>)"
    by (cases st) (auto simp: on_catalog_def)
  with Cons.IH [of "s\<lparr>ss_catalog := c'\<rparr>"] Cons.prems(1) c'(2) show ?case
    by (simp add: run_script_def await_run)
qed (simp add: run_script_def)

text \<open>
  A state to which seeds can be added: fresh identifiers, and no stored permission that has the
  resource and action of a seed under another slug.
\<close>

definition mergeable :: "(nat \<Rightarrow> string) \<Rightarrow> TenantPermissionSeed list \<Rightarrow> schema_state \<Rightarrow> bool" where
  "mergeable uuid seeds s \<longleftrightarrow>
     (\<forall>q \<in> set (db_permissions (ss_db s)). \<forall>k \<ge> ss_rnd s. uuid k \<noteq> pm_id q) \<and>
     (\<forall>q \<in> set (db_permissions (ss_db s)). \<forall>p \<in> set seeds.
        pm_scope q = ''tenant'' \<and> pm_resource q = ps_resource p \<and> pm_action q = ps_action p \<longrightarrow>
        pm_slug q = ps_slug p)"

definition coherent :: "TenantPermissionSeed list \<Rightarrow> bool" where
  "coherent seeds \<longleftrightarrow>
     (\<forall>p \<in> set seeds. \<forall>q \<in> set seeds.
        ps_resource p = ps_resource q \<and> ps_action p = ps_action q \<longrightarrow> ps_slug p = ps_slug q)"

lemma insert_permission_mergeable:
  assumes inj: "inj uuid" and seeds: "coherent seeds" and p: "p \<in> set seeds" and s: "mergeable uuid seeds s"
  shows "\<exists>s'. insert_permission uuid p s = (Inr (), s') \<and> mergeable uuid seeds s'"
proof (cases "existsRow (\<lambda>q. pm_slug q = ps_slug p) (db_permissions (ss_db s))")
  case True
  with s show ?thesis by (simp add: insert_permission_def)
next
  case False
  define row where "row = new_permission uuid p s"
  define t where "t = s\<lparr>ss_db := (ss_db s)\<lparr>db_permissions := insertRow row (db_permissions (ss_db s))\<rparr>,
    ss_rnd := Suc (ss_rnd s)\<rparr>"
  have old: "uuid k \<noteq> pm_id q"
      "pm_scope q = ''tenant'' \<Longrightarrow> pm_resource q = ps_resource p' \<Longrightarrow> pm_action q = ps_action p' \<Longrightarrow>
       pm_slug q = ps_slug p'"
    if "q \<in> set (db_permissions (ss_db s))" "ss_rnd s \<le> k" "p' \<in> set seeds" for q k p'
    using s that by (auto simp: mergeable_def)
  have "\<not> existsRow (permission_clash row) (db_permissions (ss_db s))"
  proof
    assume "existsRow (permission_clash row) (db_permissions (ss_db s))"
    then obtain q where q: "q \<in> set (db_permissions (ss_db s))" "permission_clash row q"
      by (auto simp: existsRow_iff)
    with False have "pm_slug q \<noteq> ps_slug p" by (auto simp: existsRow_iff)
    with q(2) old [OF q(1) order_refl p] show False
      by (auto simp: permission_clash_def row_def new_permission_def)
  qed
  with False have "insert_permission uuid p s = (Inr (), t)"
    by (simp add: insert_permission_def row_def t_def)
  moreover have "mergeable uuid seeds t"
    unfolding mergeable_def
  proof (intro conjI ballI allI impI)
    fix q k
    assume q: "q \<in> set (db_permissions (ss_db t))" and k: "ss_rnd t \<le> k"
    from q have "q = row \<or> q \<in> set (db_permissions (ss_db s))" by (auto simp: t_def insertRow_def)
    with k old(1) [of q k p] p show "uuid k \<noteq> pm_id q"
      by (auto simp: t_def row_def new_permission_def inj_eq [OF inj])
  next
    fix q p'
    assume q: "q \<in> set (db_permissions (ss_db t))" "p' \<in> set seeds"
      "pm_scope q = ''tenant'' \<and> pm_resource q = ps_resource p' \<and> pm_action q = ps_action p'"
    show "pm_slug q = ps_slug p'"
    proof (cases "q = row")
      case True
      with q(3) have "ps_resource p = ps_resource p'" "ps_action p = ps_action p'" "pm_slug q = ps_slug p"
        by (simp_all add: row_def new_permission_def)
      with seeds p q(2) show ?thesis unfolding coherent_def by metis
    next
      case False
      with q(1) have "q \<in> set (db_permissions (ss_db s))" by (auto simp: t_def insertRow_def)
      with old(2) [of q "ss_rnd s" p'] q(2,3) show ?thesis by simp
    qed
  qed
  ultimately show ?thesis by blast
qed

lemma insert_permissions_mergeable:
  assumes "inj uuid" and "coherent seeds"
  shows "set ps \<subseteq> set seeds \<Longrightarrow> mergeable uuid seeds s \<Longrightarrow>
    \<exists>s'. forEach ps (insert_permission uuid) s = (Inr (), s') \<and> mergeable uuid seeds s'"
proof (induction ps arbitrary: s)
  case (Cons p ps)
  then obtain t where t: "insert_permission uuid p s = (Inr (), t)" "mergeable uuid seeds t"
    using insert_permission_mergeable [OF assms, of p s] by auto
  with Cons.IH [of t] Cons.prems(1) show ?case by (auto simp: await_run)
qed simp

lemma insert_grants_mergeable:
  assumes "mergeable uuid seeds s" and run: "forEach pairs insert_grant s = (r, s')"
  shows "mergeable uuid seeds s'"
proof -
  have "has_effect (same (\<lambda>s. (db_permissions (ss_db s), ss_rnd s))) (forEach pairs insert_grant)"
    by (intro same.effect_forEach) (auto intro!: has_effectI simp: insert_grant_def after_def same_def split: prod.split)
  from has_effectD [OF this run] assms(1) show ?thesis by (simp add: same_def mergeable_def)
qed

fun seeds_of :: "statement \<Rightarrow> TenantPermissionSeed list" where
  "seeds_of (INSERT_PERMISSIONS ps) = ps"
| "seeds_of st = []"

definition has_base :: "catalog \<Rightarrow> bool" where
  "has_base c \<longleftrightarrow> (\<forall>t \<in> {''Permission'', ''Role'', ''RolePermission''}. lookup t (cat_tables c) \<noteq> None)"

lemma has_base_mono: "extends c c' \<Longrightarrow> has_base c \<Longrightarrow> has_base c'"
  unfolding has_base_def extends_def by blast

lemma statement_returns:
  assumes "inj uuid" and "coherent seeds" and "set (seeds_of st) \<subseteq> set seeds"
    and s: "mergeable uuid seeds s" "has_base (ss_catalog s)"
    and c: "catalog_step st (ss_catalog s) = Inr c"
  shows "\<exists>s'. run_statement uuid st s = (Inr (), s') \<and> ss_catalog s' = c \<and> mergeable uuid seeds s'"
proof -
  have "\<exists>s'. run_statement uuid st s = (Inr (), s') \<and> mergeable uuid seeds s'"
  proof (cases st)
    case (INSERT_PERMISSIONS ps)
    with insert_permissions_mergeable [OF assms(1,2) _ s(1), of ps] assms(3) s(2) show ?thesis
      by (auto simp: await_run requires_table_run transaction_run has_base_def)
  next
    case (GRANT_PERMISSIONS rs ps)
    obtain r s' where run: "forEach (selected rs ps s) insert_grant s = (r, s')" by fastforce
    from insert_grants_run [OF run] insert_grants_mergeable [OF s(1) run] GRANT_PERMISSIONS run s(2)
    show ?thesis by (auto simp: await_run requires_table_run has_base_def)
  qed (use c s(1) in \<open>auto simp: on_catalog_def mergeable_def\<close>)
  then show ?thesis using run_statement_catalog [of uuid st s] c by fastforce
qed

lemma script_returns:
  assumes "inj uuid" and "coherent seeds"
  shows "\<forall>st \<in> set script. set (seeds_of st) \<subseteq> set seeds \<Longrightarrow> mergeable uuid seeds s \<Longrightarrow>
    has_base (ss_catalog s) \<Longrightarrow> catalog_script script (ss_catalog s) = Inr c \<Longrightarrow>
    \<exists>s'. run_script uuid script s = (Inr (), s') \<and> ss_catalog s' = c"
proof (induction script arbitrary: s)
  case (Cons st script)
  then obtain d where d: "catalog_step st (ss_catalog s) = Inr d" "catalog_script script d = Inr c"
    by (auto split: sum.splits)
  with statement_returns [OF assms, of st s d] Cons.prems obtain t where
    t: "run_statement uuid st s = (Inr (), t)" "ss_catalog t = d" "mergeable uuid seeds t"
    by auto
  moreover have "has_base (ss_catalog t)"
    using Cons.prems(3) step_extends [OF d(1)] t(2) by (auto intro: has_base_mono)
  ultimately show ?case using Cons.IH [of t] Cons.prems(1) d(2) by (simp add: run_script_def await_run)
qed (simp add: run_script_def)

lemma catalog_script_append:
  "catalog_script (xs @ ys) c = (case catalog_script xs c of Inl e \<Rightarrow> Inl e | Inr c' \<Rightarrow> catalog_script ys c')"
  by (induction xs arbitrary: c) (auto split: sum.split)

subsection \<open>Every script\<close>

definition demo_state :: schema_state where
  "demo_state = \<lparr>ss_catalog = empty_catalog, ss_db = empty_db, ss_now = 0, ss_rnd = 0\<rparr>"

definition demo_uuid :: "nat \<Rightarrow> string" where
  "demo_uuid n = replicate n CHR ''a''"

text \<open>Whatever statements of the kinds that occur in the scripts run on the schema of a tenant (no script drops
  anything), and whichever of them fail, its catalog stays
  consistent: no name is declared twice, every column has a declared type and a default of that type, every
  index is on columns that exist, and every foreign key leads to a unique column of the same type. Nothing
  that was declared is lost.\<close>

theorem scripts_keep_catalog_consistent:
  assumes "catalog_ok (ss_catalog s)"
  shows "catalog_ok (ss_catalog (after (run_script uuid script) s)) \<and>
    extends (ss_catalog s) (ss_catalog (after (run_script uuid script) s))"
proof -
  obtain r s' where run: "run_script uuid script s = (r, s')" by fastforce
  have "has_effect grown (run_script uuid script)"
    unfolding run_script_def by (intro grown.effect_forEach run_statement_grown)
  from has_effectD [OF this run] has_effectD [OF run_script_consistent run] assms
  show ?thesis by (simp add: after_def run grown_def keeps_def catalog_consistent_def)
qed

theorem scripts_keep_catalog_consistent_witness:
  "catalog_ok (ss_catalog (after (run_script demo_uuid TASKS_MIGRATION_SQL) demo_state))"
  using scripts_keep_catalog_consistent [of demo_state demo_uuid TASKS_MIGRATION_SQL]
  by (simp add: demo_state_def empty_catalog_ok)

subsection \<open>The template\<close>

lemma weak_list_all: "list_all P xs = list_all P xs" "is_ddl st = is_ddl st" "steady st = steady st"
  "sorted_wrt R xs = sorted_wrt R xs" "before st st' = before st st'"
  by (rule refl)+

lemma template_is_ddl: "list_all is_ddl TENANT_TEMPLATE_SQL"
  unfolding TENANT_TEMPLATE_SQL_def base_template_def template_parts append_Cons append_Nil
  by (simp only: list.pred_inject is_ddl.simps simp_thms cong: weak_list_all)

text \<open>C20: on an empty schema the template runs to its end, touches no row, and makes the schema from which the
  database client of a tenant is generated: the same types with the same labels, the same tables with the
  same columns, the same indexes and the same foreign keys.\<close>

theorem template_makes_client_schema:
  "\<exists>c. run_script uuid TENANT_TEMPLATE_SQL (s\<lparr>ss_catalog := empty_catalog\<rparr>) =
       (Inr (), s\<lparr>ss_catalog := c\<rparr>) \<and>
     same_catalog c (schema_catalog tenant_enums tenant_models) \<and> catalog_ok c"
proof -
  obtain c where c: "catalog_script TENANT_TEMPLATE_SQL empty_catalog = Inr c"
      "same_catalog c (schema_catalog tenant_enums tenant_models)"
    using fits_sound [OF tenant_names_ok template_fits] by (auto simp: empty_cat)
  from run_ddl_script [OF template_is_ddl, of "s\<lparr>ss_catalog := empty_catalog\<rparr>" c uuid] c(1)
  have run: "run_script uuid TENANT_TEMPLATE_SQL (s\<lparr>ss_catalog := empty_catalog\<rparr>) = (Inr (), s\<lparr>ss_catalog := c\<rparr>)"
    by simp
  have "catalog_consistent (s\<lparr>ss_catalog := empty_catalog\<rparr>)"
    by (simp add: catalog_consistent_def empty_catalog_ok)
  with has_effectD [OF run_script_consistent run] have "catalog_ok c"
    by (simp add: keeps_def catalog_consistent_def)
  with run c(2) show ?thesis by blast
qed

subsection \<open>The migrations\<close>

definition migration_seeds :: "TenantPermissionSeed list" where
  "migration_seeds = concat (map seeds_of (concat all_migrations))"

definition spells_out :: "TenantPermissionSeed \<Rightarrow> bool" where
  "spells_out p \<longleftrightarrow> ps_slug p = ''tenant:'' @ ps_resource p @ '':'' @ ps_action p"

lemma spells_out_seed: "spells_out (permission_seed s r a d) \<longleftrightarrow> s = ''tenant:'' @ r @ '':'' @ a"
  by (simp add: spells_out_def)

lemma migration_seeds_coherent: "coherent migration_seeds"
proof -
  have "list_all spells_out migration_seeds"
    unfolding migration_seeds_def all_migrations_def migration_parts concat.simps append_Cons append_Nil
      list.map seeds_of.simps list.pred_inject spells_out_seed
    by simp
  then show ?thesis by (auto simp: coherent_def spells_out_def list_all_iff)
qed

lemma defined_tables: "defined n (cat_tables (cat A B C D)) = defined n B"
  by simp

lemma base_tables_there:
  assumes "catalog_script base_template empty_catalog = Inr c"
  shows "has_base c"
proof -
  have "(case catalog_script base_template (cat [] [] [] []) of
      Inl e \<Rightarrow> False
    | Inr c \<Rightarrow>
        if defined ''Permission'' (cat_tables c) then
          if defined ''Role'' (cat_tables c) then defined ''RolePermission'' (cat_tables c) else False
        else False)"
    unfolding base_template_def template_parts append_Cons append_Nil
    by (simp only: sql_eval defined_tables cong: sql_weak)
  with assms show ?thesis
    by (auto simp: empty_cat has_base_def defined_def split: if_splits)
qed

lemma migrations_run:
  assumes "catalog_script base_template empty_catalog = Inr (ss_catalog s)"
    and "inj uuid" and "mergeable uuid migration_seeds s"
  shows "\<exists>s'. run_script uuid (concat all_migrations) s = (Inr (), s') \<and>
    same_catalog (ss_catalog s') (schema_catalog tenant_enums tenant_models)"
proof -
  obtain c where c: "catalog_script (base_template @ concat all_migrations) empty_catalog = Inr c"
      "same_catalog c (schema_catalog tenant_enums tenant_models)"
    using fits_sound [OF tenant_names_ok migrations_fit] by (auto simp: empty_cat)
  with assms(1) have "catalog_script (concat all_migrations) (ss_catalog s) = Inr c"
    by (simp add: catalog_script_append)
  with script_returns [OF assms(2) migration_seeds_coherent _ assms(3) base_tables_there [OF assms(1)],
      of "concat all_migrations" c] c(2)
  show ?thesis by (auto simp: migration_seeds_def)
qed

text \<open>C22: the five migrations, run one after the other on a schema made with the first part of the template,
  return and bring it to the schema that the whole template makes today, if identifiers are fresh and no
  stored permission has the resource and action of a new one under another slug.\<close>

theorem old_schemas_catch_up:
  assumes "catalog_script base_template empty_catalog = Inr (ss_catalog s)"
    and "inj uuid" and "mergeable uuid migration_seeds s"
  shows "\<exists>s' c. run_script uuid (concat all_migrations) s = (Inr (), s') \<and>
    catalog_script TENANT_TEMPLATE_SQL empty_catalog = Inr c \<and> same_catalog (ss_catalog s') c"
proof -
  obtain c where "catalog_script TENANT_TEMPLATE_SQL empty_catalog = Inr c"
      "same_catalog c (schema_catalog tenant_enums tenant_models)"
    using fits_sound [OF tenant_names_ok template_fits] by (auto simp: empty_cat)
  with migrations_run [OF assms] show ?thesis
    by (blast intro: same_catalog_trans same_catalog_sym)
qed

lemma base_runs: "\<exists>c. catalog_script base_template empty_catalog = Inr c"
  using fits_sound [OF tenant_names_ok migrations_fit]
  by (auto simp: catalog_script_append empty_cat split: sum.splits)

definition base_state :: schema_state where
  "base_state = demo_state\<lparr>ss_catalog := projr (catalog_script base_template empty_catalog)\<rparr>"

lemma base_state_facts:
  "catalog_script base_template empty_catalog = Inr (ss_catalog base_state)" "inj demo_uuid"
  "mergeable demo_uuid seeds base_state"
proof -
  show "catalog_script base_template empty_catalog = Inr (ss_catalog base_state)"
    using base_runs by (auto simp: base_state_def)
  show "inj demo_uuid" by (rule injI) (metis demo_uuid_def length_replicate)
  show "mergeable demo_uuid seeds base_state"
    by (simp add: mergeable_def base_state_def demo_state_def empty_db_def)
qed

theorem old_schemas_catch_up_witness:
  "\<exists>s' c. run_script demo_uuid (concat all_migrations) base_state = (Inr (), s') \<and>
    catalog_script TENANT_TEMPLATE_SQL empty_catalog = Inr c \<and> same_catalog (ss_catalog s') c"
  by (rule old_schemas_catch_up [OF base_state_facts])

text \<open>In each migration the data statements come last, and the grants after the permissions.\<close>

lemma ddl_before: "is_ddl st \<Longrightarrow> before st st'"
  by (cases st) simp_all

lemma sorted_ddl: "list_all is_ddl xs \<Longrightarrow> sorted_wrt before ys \<Longrightarrow> sorted_wrt before (xs @ ys)"
  by (auto simp: sorted_wrt_append list_all_iff ddl_before intro!: sorted_wrt_iff_nth_less [THEN iffD2])

definition data_parts :: "(statement list \<times> statement list) list" where
  "data_parts =
     [(custom_field_statements, custom_field_grants),
      (crm_migration_types @ crm_migration_tables @ crm_migration_indexes @ crm_migration_keys, crm_migration_grants),
      (assignment_statements, assignment_grants), (activity_statements, activity_grants),
      (task_migration_tables @ task_migration_indexes, task_grants)]"

lemma all_migrations_parts: "all_migrations = map (\<lambda>(xs, ys). xs @ ys) data_parts"
  by (simp add: all_migrations_def data_parts_def CUSTOM_FIELDS_MIGRATION_SQL_def CONTACTS_LEADS_MIGRATION_SQL_def
        LEAD_ASSIGNMENT_WEBHOOK_MIGRATION_SQL_def LEAD_ACTIVITIES_MIGRATION_SQL_def TASKS_MIGRATION_SQL_def)

lemma ddl_parts_steady:
  "list_all (\<lambda>st. is_ddl st \<and> steady st)
     (custom_field_statements @ crm_migration_types @ crm_migration_tables @ crm_migration_indexes @
      crm_migration_keys @ assignment_statements @ activity_statements @ task_migration_tables @
      task_migration_indexes)"
  unfolding migration_parts append_Cons append_Nil
  by (simp only: list.pred_inject is_ddl.simps steady.simps simp_thms cong: weak_list_all)

lemma grant_parts_steady:
  "list_all (\<lambda>ys. list_all steady ys \<and> sorted_wrt before ys)
     [custom_field_grants, crm_migration_grants, assignment_grants, activity_grants, task_grants]"
  by (simp add: custom_field_grants_def crm_migration_grants_def assignment_grants_def activity_grants_def
        task_grants_def)

lemma data_parts_steady:
  "list_all (\<lambda>(xs, ys). list_all is_ddl xs \<and> list_all steady xs \<and> list_all steady ys \<and> sorted_wrt before ys)
     data_parts"
  using ddl_parts_steady grant_parts_steady by (auto simp: data_parts_def list_all_iff)

lemma migrations_steady: "\<forall>m \<in> set all_migrations. list_all steady m \<and> sorted_wrt before m"
  using data_parts_steady by (auto simp: all_migrations_parts list_all_iff intro!: sorted_ddl)

text \<open>C21: a migration that has succeeded can be run again at once and changes nothing, neither the catalog nor a
  row.\<close>

theorem migrations_are_idempotent:
  assumes "migration \<in> set all_migrations" and "run_script uuid migration s = (Inr (), s')"
  shows "run_script uuid migration s' = (Inr (), s')"
  using assms migrations_steady scripts.rerun [of migration uuid s s'] by (simp add: run_script_def)

lemma forEach_append: "forEach (xs @ ys) f = await (forEach xs f) (\<lambda>_. forEach ys f)"
proof (induction xs)
  case Nil
  show ?case by (rule ext) (simp add: await_run)
qed (simp add: await_assoc)

theorem migrations_are_idempotent_witness:
  "\<exists>s'. run_script demo_uuid CUSTOM_FIELDS_MIGRATION_SQL base_state = (Inr (), s') \<and>
    run_script demo_uuid CUSTOM_FIELDS_MIGRATION_SQL s' = (Inr (), s')"
proof -
  obtain s'' where "run_script demo_uuid (concat all_migrations) base_state = (Inr (), s'')"
    using migrations_run [OF base_state_facts] by blast
  then obtain s' where "run_script demo_uuid CUSTOM_FIELDS_MIGRATION_SQL base_state = (Inr (), s')"
    by (auto simp: run_script_def all_migrations_def forEach_append await_Inr_iff)
  then show ?thesis
    using migrations_are_idempotent [of CUSTOM_FIELDS_MIGRATION_SQL demo_uuid base_state s']
    by (auto simp: all_migrations_def)
qed

subsection \<open>The enumeration of older schemas\<close>

lemma cat_eta: "c = cat (cat_types c) (cat_tables c) (cat_indexes c) (cat_fkeys c)"
  by (simp add: cat_def)

lemma script_stops:
  assumes "list_all is_ddl xs" and "catalog_script xs (ss_catalog s) = Inr c" and "is_ddl st"
    and "catalog_step st c = Inl e"
  shows "run_script uuid (xs @ st # ys) s = (Inl e, s\<lparr>ss_catalog := c\<rparr>)"
proof -
  from assms(3,4) have "run_statement uuid st (s\<lparr>ss_catalog := c\<rparr>) = (Inl e, s\<lparr>ss_catalog := c\<rparr>)"
    by (cases st) (auto simp: on_catalog_def)
  with run_ddl_script [OF assms(1,2), of uuid] show ?thesis
    by (simp add: run_script_def forEach_append await_run)
qed

definition task_types :: "statement list" where
  "task_types = take 4 task_migration_tables"

definition task_table :: statement where
  "task_table = task_migration_tables ! 4"

lemma task_migration_starts:
  "TASKS_MIGRATION_SQL = task_types @ task_table # drop 5 task_migration_tables @ task_migration_indexes @ task_grants"
  "list_all is_ddl task_types" "is_ddl task_table"
  by (simp_all add: TASKS_MIGRATION_SQL_def task_types_def task_table_def task_migration_tables_def)

lemma task_types_eq:
  "task_types =
     [GUARDED (CREATE_TYPE ''TaskType'' [''TODO'', ''CALL'', ''EMAIL'', ''MEETING'', ''FOLLOW_UP'']),
      GUARDED (CREATE_TYPE ''TaskStatus'' [''TODO'', ''IN_PROGRESS'', ''BLOCKED'', ''DONE'', ''CANCELLED'']),
      GUARDED (CREATE_TYPE ''TaskPriority'' [''URGENT'', ''HIGH'', ''NORMAL'', ''LOW'']),
      GUARDED (CREATE_TYPE ''TaskEntityType'' [''LEAD'', ''CONTACT''])]"
  by (simp add: task_types_def task_migration_tables_def)

lemmas task_table_eq = task_table_def [unfolded task_migration_tables_def, simplified]

text \<open>A schema from before the tasks, whose activities have an enumeration of the name that tasks now use.\<close>

definition old_task_status :: "catalog \<Rightarrow> bool" where
  "old_task_status c \<longleftrightarrow>
     (\<exists>labels. lookup ''TaskStatus'' (cat_types c) = Some labels \<and> ''TODO'' \<notin> set labels) \<and>
     (\<forall>n \<in> {''TaskType'', ''TaskPriority'', ''TaskEntityType'', ''Task''}. \<not> listed n (type_names c)) \<and>
     \<not> listed ''Task'' (relation_names c)"

lemma task_table_fails:
  assumes "old_task_status c"
  shows "\<exists>c'. catalog_script task_types c = Inr c' \<and> cat_tables c' = cat_tables c \<and>
    catalog_step task_table c' = Inl Invalid_text_representation"
proof -
  obtain A B C D where c: "c = cat A B C D" using cat_eta by blast
  from assms obtain labels where labels: "lookup ''TaskStatus'' A = Some labels" "\<not> listed ''TODO'' labels"
    by (auto simp: old_task_status_def c listed_def)
  from assms have free: "defined n A = False" "lookup n A = None" "defined n B = False"
    if "n \<in> {''TaskType'', ''TaskPriority'', ''TaskEntityType'', ''Task''}" for n
    using that unfolding old_task_status_def c names_cat defined_def by auto
  from assms have "defined ''Task'' C = False" unfolding old_task_status_def c names_cat by simp
  note facts = labels free [of "''TaskType''", simplified] free [of "''TaskPriority''", simplified]
    free [of "''TaskEntityType''", simplified] free [of "''Task''", simplified] this
  have status: "defined ''TaskStatus'' A = True" using labels by (simp add: defined_def)
  define A' where "A' = ((A @ [(''TaskType'', [''TODO'', ''CALL'', ''EMAIL'', ''MEETING'', ''FOLLOW_UP''])]) @
    [(''TaskPriority'', [''URGENT'', ''HIGH'', ''NORMAL'', ''LOW''])]) @ [(''TaskEntityType'', [''LEAD'', ''CONTACT''])]"
  have "catalog_script task_types (cat A B C D) = Inr (cat A' B C D)"
    unfolding task_types_eq A'_def by (simp only: sql_eval facts status sql_error.simps cong: sql_weak)
  moreover have "catalog_step task_table (cat A' B C D) = Inl Invalid_text_representation"
    unfolding task_table_eq A'_def by (simp only: sql_eval facts status cong: sql_weak)
  ultimately show ?thesis by (simp add: c)
qed

text \<open>C40: the migration of tasks says that it renames the enumeration that older schemas have under the name of
  the new one. It does not: on such a schema it fails at the table of tasks, whose default is not among
  the old labels, and leaves the schema without that table.\<close>

theorem tasks_migration_fails_on_older_schemas:
  assumes "old_task_status (ss_catalog s)"
  shows "\<exists>s'. run_script uuid TASKS_MIGRATION_SQL s = (Inl Invalid_text_representation, s') \<and>
    lookup ''Task'' (cat_tables (ss_catalog s')) = None \<and> ss_db s' = ss_db s"
proof -
  from task_table_fails [OF assms] obtain c' where c': "catalog_script task_types (ss_catalog s) = Inr c'"
      "cat_tables c' = cat_tables (ss_catalog s)" "catalog_step task_table c' = Inl Invalid_text_representation"
    by blast
  have "lookup ''Task'' (cat_tables (ss_catalog s)) = None"
    using assms by (simp add: old_task_status_def type_names_def lookup_None)
  with c' script_stops [OF task_migration_starts(2) c'(1) task_migration_starts(3) c'(3), of uuid]
  show ?thesis by (simp add: task_migration_starts(1))
qed

definition old_catalog :: catalog where
  "old_catalog = empty_catalog\<lparr>cat_types :=
     [(''TaskStatus'', [''PENDING'', ''IN_PROGRESS'', ''COMPLETED'', ''CANCELLED''])]\<rparr>"

theorem tasks_migration_fails_on_older_schemas_witness:
  "\<exists>s'. run_script demo_uuid TASKS_MIGRATION_SQL (demo_state\<lparr>ss_catalog := old_catalog\<rparr>) =
      (Inl Invalid_text_representation, s') \<and>
    lookup ''Task'' (cat_tables (ss_catalog s')) = None"
proof -
  have "old_task_status (ss_catalog (demo_state\<lparr>ss_catalog := old_catalog\<rparr>))"
    by (simp add: old_task_status_def old_catalog_def empty_catalog_def type_names_def relation_names_def
          listed_def lookup_def)
  from tasks_migration_fails_on_older_schemas [OF this, of demo_uuid] show ?thesis by blast
qed

end
