(* ===== verification/Schema_Grants.thy ===== *)
theory Schema_Grants
  imports Schema_Properties
begin

text \<open>
  What the migrations do to the rows: who is granted which permission afterwards, by the slugs of roles
  and permissions.
\<close>

definition slug_grants :: "schema_state \<Rightarrow> (string \<times> string) set" where
  "slug_grants s =
     {(r_slug r, pm_slug p) | r p. r \<in> set (db_roles (ss_db s)) \<and> p \<in> set (db_permissions (ss_db s)) \<and>
        (r_id r, pm_id p) \<in> grants s}"

definition permission_slugs :: "schema_state \<Rightarrow> string set" where
  "permission_slugs s = pm_slug ` set (db_permissions (ss_db s))"

definition rows_ok :: "schema_state \<Rightarrow> bool" where
  "rows_ok s \<longleftrightarrow>
     inj_on r_id (set (db_roles (ss_db s))) \<and> inj_on pm_id (set (db_permissions (ss_db s))) \<and>
     snd ` grants s \<subseteq> pm_id ` set (db_permissions (ss_db s))"

text \<open>What the script itself says.\<close>

definition granted_by :: "statement list \<Rightarrow> schema_state \<Rightarrow> (string \<times> string) set" where
  "granted_by script s =
     {(r, p). \<exists>rs ps. GRANT_PERMISSIONS rs ps \<in> set script \<and> r \<in> set rs \<and> p \<in> set ps \<and>
        r \<in> r_slug ` set (db_roles (ss_db s)) \<and> p \<in> permission_slugs s}"

definition inserted_by :: "statement list \<Rightarrow> string set" where
  "inserted_by script = {ps_slug p | p ps. INSERT_PERMISSIONS ps \<in> set script \<and> p \<in> set ps}"

lemma insert_permission_rows:
  assumes "insert_permission uuid p s = (Inr (), s')" and "rows_ok s"
  shows "rows_ok s' \<and> slug_grants s' = slug_grants s \<and> permission_slugs s' = insert (ps_slug p) (permission_slugs s) \<and>
    db_roles (ss_db s') = db_roles (ss_db s)"
proof (cases "existsRow (\<lambda>q. pm_slug q = ps_slug p) (db_permissions (ss_db s))")
  case True
  with assms show ?thesis
    by (auto simp: insert_permission_def existsRow_iff permission_slugs_def insert_absorb image_iff) metis
next
  case False
  define row where "row = new_permission uuid p s"
  from assms(1) False have free: "\<not> existsRow (permission_clash row) (db_permissions (ss_db s))"
    and s': "s' = s\<lparr>ss_db := (ss_db s)\<lparr>db_permissions := insertRow row (db_permissions (ss_db s))\<rparr>, ss_rnd := Suc (ss_rnd s)\<rparr>"
    by (auto simp: insert_permission_def row_def split: if_splits)
  from free have new: "pm_id row \<notin> pm_id ` set (db_permissions (ss_db s))"
    by (auto simp: existsRow_iff permission_clash_def)
  have slug: "pm_slug row = ps_slug p" by (simp add: row_def new_permission_def)
  have perms: "set (db_permissions (ss_db s')) = insert row (set (db_permissions (ss_db s)))"
    and rest: "grants s' = grants s" "db_roles (ss_db s') = db_roles (ss_db s)"
    by (auto simp: s' insertRow_def grants_def)
  have "(r, pm_id row) \<notin> grants s" for r
    using assms(2) new unfolding rows_ok_def by (metis imageI snd_conv subsetD)
  then have "slug_grants s' = slug_grants s"
    unfolding slug_grants_def perms rest by auto
  moreover have "rows_ok s'" using assms(2) new unfolding rows_ok_def perms rest by auto
  ultimately show ?thesis using rest(2) by (simp add: permission_slugs_def perms slug)
qed

lemma insert_permissions_rows:
  "forEach ps (insert_permission uuid) s = (Inr (), s') \<Longrightarrow> rows_ok s \<Longrightarrow>
     rows_ok s' \<and> slug_grants s' = slug_grants s \<and> permission_slugs s' = ps_slug ` set ps \<union> permission_slugs s \<and>
     db_roles (ss_db s') = db_roles (ss_db s)"
proof (induction ps arbitrary: s)
  case (Cons p ps)
  then obtain t where t: "insert_permission uuid p s = (Inr (), t)" "forEach ps (insert_permission uuid) t = (Inr (), s')"
    by (auto simp: await_Inr_iff)
  from insert_permission_rows [OF t(1) Cons.prems(2)] Cons.IH [OF t(2)] show ?case by auto
qed simp

lemma grant_rows:
  assumes run: "forEach (selected rs ps s) insert_grant s = (r, s')" and ok: "rows_ok s"
  shows "rows_ok s' \<and> permission_slugs s' = permission_slugs s \<and> db_roles (ss_db s') = db_roles (ss_db s) \<and>
    slug_grants s' = slug_grants s \<union> granted_by [GRANT_PERMISSIONS rs ps] s"
proof -
  from has_effectD [OF insert_grants_same run]
  have same: "db_roles (ss_db s') = db_roles (ss_db s)" "db_permissions (ss_db s') = db_permissions (ss_db s)"
    by (simp_all add: same_def)
  from insert_grants_run [OF run] have g: "grants s' = set (selected rs ps s) \<union> grants s" by simp
  have "rows_ok s'" using ok unfolding rows_ok_def same g by (force simp: selected_def)
  moreover have "slug_grants s' = slug_grants s \<union> granted_by [GRANT_PERMISSIONS rs ps] s"
  proof (rule set_eqI, rule iffI)
    fix x
    assume "x \<in> slug_grants s'"
    then obtain a b where ab: "x = (r_slug a, pm_slug b)" "a \<in> set (db_roles (ss_db s))"
        "b \<in> set (db_permissions (ss_db s))" "(r_id a, pm_id b) \<in> set (selected rs ps s) \<or> (r_id a, pm_id b) \<in> grants s"
      unfolding slug_grants_def same g by blast
    show "x \<in> slug_grants s \<union> granted_by [GRANT_PERMISSIONS rs ps] s"
    proof (cases "(r_id a, pm_id b) \<in> grants s")
      case True
      with ab show ?thesis unfolding slug_grants_def by blast
    next
      case False
      with ab obtain a' b' where "a' \<in> set (db_roles (ss_db s))" "b' \<in> set (db_permissions (ss_db s))"
          "r_id a' = r_id a" "pm_id b' = pm_id b" "r_slug a' \<in> set rs" "pm_slug b' \<in> set ps"
        by (auto simp: selected_def)
      moreover from this ab ok have "a' = a" "b' = b" by (auto simp: rows_ok_def dest: inj_onD)
      ultimately show ?thesis using ab by (auto simp: granted_by_def permission_slugs_def)
    qed
  next
    fix x
    assume "x \<in> slug_grants s \<union> granted_by [GRANT_PERMISSIONS rs ps] s"
    then show "x \<in> slug_grants s'"
      unfolding slug_grants_def same g granted_by_def permission_slugs_def selected_def by fastforce
  qed
  ultimately show ?thesis using same by (simp add: permission_slugs_def)
qed

subsection \<open>Scripts\<close>

lemma granted_by_Cons: "granted_by (st # script) s = granted_by [st] s \<union> granted_by script s"
  by (auto simp: granted_by_def)

lemma inserted_by_Cons: "inserted_by (st # script) = inserted_by [st] \<union> inserted_by script"
  by (auto simp: inserted_by_def)

lemma granted_by_same:
  "db_roles (ss_db s') = db_roles (ss_db s) \<Longrightarrow> permission_slugs s' = permission_slugs s \<Longrightarrow>
     granted_by script s' = granted_by script s"
  by (simp add: granted_by_def)

lemma rows_of_catalog [simp]:
  "grants (s\<lparr>ss_catalog := c\<rparr>) = grants s" "slug_grants (s\<lparr>ss_catalog := c\<rparr>) = slug_grants s"
  "permission_slugs (s\<lparr>ss_catalog := c\<rparr>) = permission_slugs s" "rows_ok (s\<lparr>ss_catalog := c\<rparr>) = rows_ok s"
  by (simp_all add: grants_def slug_grants_def permission_slugs_def rows_ok_def)

lemma statement_rows:
  assumes run: "run_statement uuid st s = (Inr (), s')" and ok: "rows_ok s"
  shows "rows_ok s' \<and> db_roles (ss_db s') = db_roles (ss_db s) \<and>
    permission_slugs s' = permission_slugs s \<union> inserted_by [st] \<and>
    slug_grants s' = slug_grants s \<union> granted_by [st] s"
proof (cases st)
  case (INSERT_PERMISSIONS ps)
  with run have "forEach ps (insert_permission uuid) s = (Inr (), s')"
    by (auto simp: await_Inr_iff requires_table_Inr transaction_run split: prod.splits sum.splits)
  from insert_permissions_rows [OF this ok] INSERT_PERMISSIONS show ?thesis
    by (auto simp: inserted_by_def granted_by_def)
next
  case (GRANT_PERMISSIONS rs ps)
  with run have "forEach (selected rs ps s) insert_grant s = (Inr (), s')"
    by (auto simp: await_Inr_iff requires_table_Inr)
  from grant_rows [OF this ok] GRANT_PERMISSIONS show ?thesis by (simp add: inserted_by_def)
qed (use run ok in \<open>auto simp: on_catalog_def inserted_by_def granted_by_def split: sum.splits\<close>)

text \<open>After a grant no statement adds a permission.\<close>

lemma grant_then_nothing:
  "\<forall>st' \<in> set script. before (GRANT_PERMISSIONS rs ps) st' \<Longrightarrow> inserted_by script = {}"
  by (auto simp: inserted_by_def)

lemma script_rows:
  "run_script uuid script s = (Inr (), s') \<Longrightarrow> rows_ok s \<Longrightarrow> sorted_wrt before script \<Longrightarrow>
     rows_ok s' \<and> db_roles (ss_db s') = db_roles (ss_db s) \<and>
     permission_slugs s' = permission_slugs s \<union> inserted_by script \<and>
     slug_grants s' = slug_grants s \<union> granted_by script s'"
proof (induction script arbitrary: s)
  case (Cons st script)
  then obtain t where t: "run_statement uuid st s = (Inr (), t)" "run_script uuid script t = (Inr (), s')"
    by (auto simp: run_script_def await_Inr_iff)
  note head = statement_rows [OF t(1) Cons.prems(2)]
  with Cons.IH [OF t(2)] Cons.prems(3) have
    tail: "rows_ok s'" "db_roles (ss_db s') = db_roles (ss_db t)"
      "permission_slugs s' = permission_slugs t \<union> inserted_by script"
      "slug_grants s' = slug_grants t \<union> granted_by script s'"
    by auto
  have "granted_by [st] s = granted_by [st] s'"
  proof (cases st)
    case (GRANT_PERMISSIONS rs ps)
    with Cons.prems(3) have "inserted_by script = {}" using grant_then_nothing [of script rs ps] by simp
    with head tail GRANT_PERMISSIONS show ?thesis by (intro granted_by_same) (auto simp: inserted_by_def)
  qed (simp_all add: granted_by_def)
  with head tail show ?case
    unfolding granted_by_Cons [of st script s'] inserted_by_Cons [of st script] by simp blast
qed (simp add: run_script_def inserted_by_def granted_by_def)

text \<open>C23: a migration that returns grants exactly what it says: afterwards a role has a permission, by their slugs,
  if it had it before or the migration names the pair and the tenant has both; the permissions are those of
  before and the new ones, and the roles are as they were.\<close>

theorem migrations_grant_exactly:
  assumes "migration \<in> set all_migrations" and "run_script uuid migration s = (Inr (), s')" and "rows_ok s"
  shows "slug_grants s' = slug_grants s \<union> granted_by migration s' \<and>
    permission_slugs s' = permission_slugs s \<union> inserted_by migration \<and>
    db_roles (ss_db s') = db_roles (ss_db s) \<and> rows_ok s'"
  using script_rows [OF assms(2,3)] assms(1) migrations_steady by auto

lemma inserted_by_seeds: "inserted_by script = ps_slug ` set (concat (map seeds_of script))"
proof (induction script)
  case (Cons st script)
  have "inserted_by [st] = ps_slug ` set (seeds_of st)" by (cases st) (auto simp: inserted_by_def)
  with Cons.IH inserted_by_Cons [of st script] show ?case by (simp add: image_Un)
qed (simp add: inserted_by_def)

lemma granted_by_code:
  "granted_by [] s = {}"
  "granted_by (INSERT_PERMISSIONS ps # script) s = granted_by script s"
  "granted_by (GRANT_PERMISSIONS rs qs # script) s =
     (set rs \<inter> r_slug ` set (db_roles (ss_db s))) \<times> (set qs \<inter> permission_slugs s) \<union> granted_by script s"
  by (auto simp: granted_by_def)

definition staff_role :: role where
  "staff_role = \<lparr>r_id = ''r'', r_slug = ''staff'', r_name = ''Staff'', r_description = None,
     r_scopeType = Scope_branch, r_isSystem = True, r_verticalSlug = None, r_createdAt = 0\<rparr>"

definition staffed_state :: schema_state where
  "staffed_state = base_state\<lparr>ss_db := (ss_db base_state)\<lparr>db_roles := [staff_role]\<rparr>\<rparr>"

lemma ddl_data: "list_all is_ddl xs \<Longrightarrow> granted_by xs s = {} \<and> inserted_by xs = {}"
  by (auto simp: granted_by_def inserted_by_def list_all_iff)

lemma data_append:
  "granted_by (xs @ ys) s = granted_by xs s \<union> granted_by ys s"
  "inserted_by (xs @ ys) = inserted_by xs \<union> inserted_by ys"
  by (auto simp: granted_by_def inserted_by_def)

lemma tasks_data:
  "granted_by TASKS_MIGRATION_SQL s = granted_by task_grants s" "inserted_by TASKS_MIGRATION_SQL = inserted_by task_grants"
proof -
  have "list_all is_ddl (task_migration_tables @ task_migration_indexes)"
    using data_parts_steady by (simp add: data_parts_def)
  from ddl_data [OF this]
  show "granted_by TASKS_MIGRATION_SQL s = granted_by task_grants s"
      "inserted_by TASKS_MIGRATION_SQL = inserted_by task_grants"
    by (simp_all add: TASKS_MIGRATION_SQL_def data_append)
qed

lemma tasks_run_on_base: "\<exists>c. catalog_script TASKS_MIGRATION_SQL (ss_catalog base_state) = Inr c"
proof -
  have "case catalog_script (base_template @ TASKS_MIGRATION_SQL) (cat [] [] [] []) of Inl e \<Rightarrow> False | Inr c \<Rightarrow> True"
    unfolding base_template_def template_parts migration_parts append_Cons append_Nil
    by (simp only: sql_eval cong: sql_weak)
  then show ?thesis
    using base_state_facts(1) by (auto simp: catalog_script_append empty_cat split: sum.splits)
qed

theorem migrations_grant_exactly_witness:
  "\<exists>s s'. run_script demo_uuid TASKS_MIGRATION_SQL s = (Inr (), s') \<and> slug_grants s = {} \<and>
    slug_grants s' = {(''staff'', ''tenant:tasks:view''), (''staff'', ''tenant:tasks:create''),
      (''staff'', ''tenant:tasks:update''), (''staff'', ''tenant:tasks:manage_checklist'')}"
proof -
  have rows: "db_permissions (ss_db staffed_state) = []" "db_roles (ss_db staffed_state) = [staff_role]"
      "db_rolePermissions (ss_db staffed_state) = []" "ss_catalog staffed_state = ss_catalog base_state"
    by (simp_all add: staffed_state_def base_state_def demo_state_def empty_db_def)
  then have start: "mergeable demo_uuid migration_seeds staffed_state" "rows_ok staffed_state"
      "slug_grants staffed_state = {}" "permission_slugs staffed_state = {}"
    by (simp_all add: mergeable_def rows_ok_def slug_grants_def permission_slugs_def grants_def)
  obtain c where "catalog_script TASKS_MIGRATION_SQL (ss_catalog staffed_state) = Inr c"
    using tasks_run_on_base rows(4) by auto
  moreover have "\<forall>st \<in> set TASKS_MIGRATION_SQL. set (seeds_of st) \<subseteq> set migration_seeds"
    by (auto simp: migration_seeds_def all_migrations_def)
  ultimately obtain s' where s': "run_script demo_uuid TASKS_MIGRATION_SQL staffed_state = (Inr (), s')"
    using script_returns [OF base_state_facts(2) migration_seeds_coherent _ start(1)] rows(4)
      base_tables_there [OF base_state_facts(1)] by metis
  have "TASKS_MIGRATION_SQL \<in> set all_migrations" by (simp add: all_migrations_def)
  from migrations_grant_exactly [OF this s' start(2)]
  have after: "slug_grants s' = granted_by task_grants s'" "permission_slugs s' = inserted_by task_grants"
      "db_roles (ss_db s') = [staff_role]"
    using start rows by (simp_all add: tasks_data)
  have "inserted_by task_grants = {''tenant:tasks:view'', ''tenant:tasks:create'', ''tenant:tasks:update'',
      ''tenant:tasks:delete'', ''tenant:tasks:manage_checklist''}"
    by (simp add: inserted_by_seeds task_grants_def)
  then have "slug_grants s' = {(''staff'', ''tenant:tasks:view''), (''staff'', ''tenant:tasks:create''),
      (''staff'', ''tenant:tasks:update''), (''staff'', ''tenant:tasks:manage_checklist'')}"
    unfolding after granted_by_code task_grants_def by (auto simp: after(2,3) staff_role_def)
  with s' start(3) show ?thesis by blast
qed

end
