(* ===== verification/Core_Seed.thy ===== *)
theory Core_Seed
  imports Prisma Core_Schema "HOL-Library.AList"
begin

text \<open>
  \<^verbatim>\<open>prisma/core/seed.ts\<close>: the script that puts the permissions and roles of the platform, the plans,
  the presets of modules and the terminology into the core database. Its state is the tables it
  writes, with their unique and foreign keys, and a counter from which identifiers are drawn. A run
  takes place at one instant, which the database and the client put into the columns \<^verbatim>\<open>createdAt\<close> and
  \<^verbatim>\<open>updatedAt\<close>. The identifiers of presets and terms, which nothing refers to, are left out; prices are
  whole numbers.
\<close>

subsection \<open>Rows\<close>

record platform_permission =
  pp_id :: string
  pp_slug :: string
  pp_resource :: string
  pp_action :: string
  pp_description :: string
  pp_createdAt :: int

record platform_role =
  plr_id :: string
  plr_slug :: string
  plr_name :: string
  plr_description :: "string option"
  plr_isSystem :: bool
  plr_createdAt :: int
  plr_updatedAt :: int

record platform_role_permission =
  prp_platformRoleId :: string
  prp_platformPermissionId :: string
  prp_createdAt :: int

datatype feature = Flag bool | Limit int

record plan_row =
  tp_id :: string
  tp_slug :: string
  tp_name :: string
  tp_description :: "string option"
  tp_priceMonthly :: int
  tp_priceYearly :: int
  tp_currency :: string
  tp_features :: "(string \<times> feature) list"
  tp_maxUsers :: "int option"
  tp_maxBranches :: "int option"
  tp_maxStorage :: "int option"
  tp_isActive :: bool
  tp_sortOrder :: int
  tp_createdAt :: int
  tp_updatedAt :: int

record core_db =
  cd_permissions :: "platform_permission list"
  cd_roles :: "platform_role list"
  cd_rolePermissions :: "platform_role_permission list"
  cd_plans :: "plan_row list"
  cd_presets :: "module_preset list"
  cd_terms :: "vertical_terminology list"
  cd_rnd :: nat

definition platformPermission :: "(core_db, platform_permission) tbl" where
  "platformPermission =
     \<lparr>rows = (\<lambda>d. Some (cd_permissions d)), on_rows = (\<lambda>f d. d\<lparr>cd_permissions := f (cd_permissions d)\<rparr>)\<rparr>"

definition platformRole :: "(core_db, platform_role) tbl" where
  "platformRole = \<lparr>rows = (\<lambda>d. Some (cd_roles d)), on_rows = (\<lambda>f d. d\<lparr>cd_roles := f (cd_roles d)\<rparr>)\<rparr>"

definition platformRolePermission :: "(core_db, platform_role_permission) tbl" where
  "platformRolePermission =
     \<lparr>rows = (\<lambda>d. Some (cd_rolePermissions d)),
      on_rows = (\<lambda>f d. d\<lparr>cd_rolePermissions := f (cd_rolePermissions d)\<rparr>)\<rparr>"

definition tenantPlan :: "(core_db, plan_row) tbl" where
  "tenantPlan = \<lparr>rows = (\<lambda>d. Some (cd_plans d)), on_rows = (\<lambda>f d. d\<lparr>cd_plans := f (cd_plans d)\<rparr>)\<rparr>"

definition modulePreset :: "(core_db, module_preset) tbl" where
  "modulePreset = \<lparr>rows = (\<lambda>d. Some (cd_presets d)), on_rows = (\<lambda>f d. d\<lparr>cd_presets := f (cd_presets d)\<rparr>)\<rparr>"

definition verticalTerminology :: "(core_db, vertical_terminology) tbl" where
  "verticalTerminology = \<lparr>rows = (\<lambda>d. Some (cd_terms d)), on_rows = (\<lambda>f d. d\<lparr>cd_terms := f (cd_terms d)\<rparr>)\<rparr>"

text \<open>What the unique keys forbid, and what the foreign keys of an assignment ask for.\<close>

definition platform_permission_clash :: "platform_permission \<Rightarrow> platform_permission \<Rightarrow> bool" where
  "platform_permission_clash r q \<longleftrightarrow>
     pp_id r = pp_id q \<or> pp_slug r = pp_slug q \<or> (pp_resource r = pp_resource q \<and> pp_action r = pp_action q)"

definition platform_role_clash :: "platform_role \<Rightarrow> platform_role \<Rightarrow> bool" where
  "platform_role_clash r q \<longleftrightarrow> plr_id r = plr_id q \<or> plr_slug r = plr_slug q"

definition plan_clash :: "plan_row \<Rightarrow> plan_row \<Rightarrow> bool" where
  "plan_clash r q \<longleftrightarrow> tp_id r = tp_id q \<or> tp_slug r = tp_slug q"

definition preset_clash :: "module_preset \<Rightarrow> module_preset \<Rightarrow> bool" where
  "preset_clash r q \<longleftrightarrow> mp_vertical r = mp_vertical q"

definition term_key :: "vertical_terminology \<Rightarrow> VerticalType \<times> string" where
  "term_key r = (vt_vertical r, vt_termKey r)"

definition term_clash :: "vertical_terminology \<Rightarrow> vertical_terminology \<Rightarrow> bool" where
  "term_clash r q \<longleftrightarrow> term_key r = term_key q"

definition assignment_key :: "platform_role_permission \<Rightarrow> string \<times> string" where
  "assignment_key g = (prp_platformRoleId g, prp_platformPermissionId g)"

definition assignment_clash :: "platform_role_permission \<Rightarrow> platform_role_permission \<Rightarrow> bool" where
  "assignment_clash g g' \<longleftrightarrow> assignment_key g = assignment_key g'"

definition platform_role_permission_refs :: "platform_role_permission \<Rightarrow> core_db \<Rightarrow> bool" where
  "platform_role_permission_refs g d \<longleftrightarrow>
     existsRow (\<lambda>r. plr_id r = prp_platformRoleId g) (cd_roles d) \<and>
     existsRow (\<lambda>p. pp_id p = prp_platformPermissionId g) (cd_permissions d)"

subsection \<open>Seeds\<close>

record platform_permission_seed =
  pps_slug :: string
  pps_resource :: string
  pps_action :: string
  pps_description :: string

definition platform_permission_seed :: "string \<Rightarrow> string \<Rightarrow> string \<Rightarrow> string \<Rightarrow> platform_permission_seed" where
  "platform_permission_seed s r a d =
     \<lparr>pps_slug = s, pps_resource = r, pps_action = a, pps_description = d\<rparr>"

definition PLATFORM_PERMISSIONS :: "platform_permission_seed list" where
  "PLATFORM_PERMISSIONS =
     [platform_permission_seed ''platform:tenants:view'' ''tenants'' ''view''
        ''List and view tenant details'',
      platform_permission_seed ''platform:tenants:create'' ''tenants'' ''create''
        ''Manually create a tenant'',
      platform_permission_seed ''platform:tenants:suspend'' ''tenants'' ''suspend''
        ''Suspend a tenant'',
      platform_permission_seed ''platform:tenants:delete'' ''tenants'' ''delete''
        ''Soft-delete a tenant'',
      platform_permission_seed ''platform:tenants:impersonate'' ''tenants'' ''impersonate''
        ''Impersonate a tenant user for support'',
      platform_permission_seed ''platform:users:view'' ''users'' ''view''
        ''Search and view users across tenants'',
      platform_permission_seed ''platform:users:lock'' ''users'' ''lock''
        ''Lock or unlock any user account'',
      platform_permission_seed ''platform:billing:view'' ''billing'' ''view''
        ''View platform revenue and tenant billing'',
      platform_permission_seed ''platform:billing:adjust'' ''billing'' ''adjust''
        ''Adjust tenant plan or pricing'',
      platform_permission_seed ''platform:billing:refund'' ''billing'' ''refund''
        ''Issue refunds'',
      platform_permission_seed ''platform:support:read_all'' ''support'' ''read_all''
        ''Read tenant data for support (with audit)'',
      platform_permission_seed ''platform:support:tickets_manage'' ''support'' ''tickets_manage''
        ''Manage tenant support tickets'',
      platform_permission_seed ''platform:system:metrics'' ''system'' ''metrics''
        ''View platform health metrics'',
      platform_permission_seed ''platform:system:feature_flags'' ''system'' ''feature_flags''
        ''Toggle feature flags per tenant'',
      platform_permission_seed ''platform:system:audit_logs'' ''system'' ''audit_logs''
        ''Read platform-wide audit logs'',
      platform_permission_seed ''platform:marketplace:review'' ''marketplace'' ''review''
        ''Review plugin submissions'',
      platform_permission_seed ''platform:marketplace:publish'' ''marketplace'' ''publish''
        ''Publish or unpublish plugins'']"

text \<open>\<^verbatim>\<open>string[] | '*'\<close>.\<close>

datatype role_permissions = Every | Listed "string list"

record platform_role_seed =
  prs_slug :: string
  prs_name :: string
  prs_description :: string
  prs_permissions :: role_permissions

definition platform_role_seed :: "string \<Rightarrow> string \<Rightarrow> string \<Rightarrow> role_permissions \<Rightarrow> platform_role_seed" where
  "platform_role_seed s n d ps =
     \<lparr>prs_slug = s, prs_name = n, prs_description = d, prs_permissions = ps\<rparr>"

definition PLATFORM_ROLES :: "platform_role_seed list" where
  "PLATFORM_ROLES =
     [platform_role_seed ''super_admin'' ''Super Administrator''
        ''Full control over the BOS platform''
        Every,
      platform_role_seed ''platform_support'' ''Platform Support''
        (''Support staff '' @ em_dash @ '' read tenant data, impersonate with permission'')
        (Listed [''platform:tenants:view'', ''platform:tenants:impersonate'',
                 ''platform:users:view'', ''platform:support:read_all'',
                 ''platform:support:tickets_manage'']),
      platform_role_seed ''platform_billing'' ''Platform Billing''
        ''Billing and finance staff''
        (Listed [''platform:tenants:view'', ''platform:billing:view'',
                 ''platform:billing:adjust'', ''platform:billing:refund'']),
      platform_role_seed ''platform_engineer'' ''Platform Engineer''
        ''Technical operations and feature flag control''
        (Listed [''platform:tenants:view'', ''platform:system:metrics'',
                 ''platform:system:feature_flags'', ''platform:system:audit_logs'']),
      platform_role_seed ''marketplace_moderator'' ''Marketplace Moderator''
        ''Plugin review and marketplace curation (Phase 3)''
        (Listed [''platform:marketplace:review'', ''platform:marketplace:publish''])]"

record tenant_plan_seed =
  ts_slug :: string
  ts_name :: string
  ts_description :: string
  ts_priceMonthly :: int
  ts_priceYearly :: int
  ts_features :: "(string \<times> feature) list"
  ts_maxUsers :: "int option"
  ts_maxBranches :: "int option"
  ts_maxStorageGb :: "int option"
  ts_sortOrder :: int

definition enabled :: "string list \<Rightarrow> (string \<times> feature) list" where
  "enabled fs = map (\<lambda>f. (f, Flag True)) fs"

definition TENANT_PLANS :: "tenant_plan_seed list" where
  "TENANT_PLANS =
     [\<lparr>ts_slug = ''free'', ts_name = ''Free'',
       ts_description = (''Get started at no cost '' @ em_dash @ '' single user, single branch''),
       ts_priceMonthly = 0, ts_priceYearly = 0,
       ts_features = enabled [''crm'', ''scheduling'', ''basic_reports''],
       ts_maxUsers = Some 1, ts_maxBranches = Some 1, ts_maxStorageGb = Some 1, ts_sortOrder = 0\<rparr>,
      \<lparr>ts_slug = ''starter'', ts_name = ''Starter'',
       ts_description = ''For small businesses getting organized'',
       ts_priceMonthly = 29, ts_priceYearly = 290,
       ts_features = enabled [''crm'', ''scheduling'', ''billing'', ''documents'', ''basic_reports''],
       ts_maxUsers = Some 5, ts_maxBranches = Some 1, ts_maxStorageGb = Some 10, ts_sortOrder = 1\<rparr>,
      \<lparr>ts_slug = ''pro'', ts_name = ''Pro'',
       ts_description = ''For growing multi-location businesses'',
       ts_priceMonthly = 99, ts_priceYearly = 990,
       ts_features = enabled [''crm'', ''scheduling'', ''billing'', ''documents'', ''hrm'', ''inventory'',
           ''campaigns'', ''custom_reports'', ''whatsapp''],
       ts_maxUsers = Some 25, ts_maxBranches = Some 5, ts_maxStorageGb = Some 100, ts_sortOrder = 2\<rparr>,
      \<lparr>ts_slug = ''enterprise'', ts_name = ''Enterprise'',
       ts_description = ''Unlimited everything with priority support'',
       ts_priceMonthly = 299, ts_priceYearly = 2990,
       ts_features = enabled [''crm'', ''scheduling'', ''billing'', ''documents'', ''hrm'', ''inventory'',
           ''campaigns'', ''custom_reports'', ''whatsapp'', ''ai_chatbot'', ''white_label'',
           ''api_access'', ''sla_support''],
       ts_maxUsers = None, ts_maxBranches = None, ts_maxStorageGb = None, ts_sortOrder = 3\<rparr>]"

definition MODULE_PRESETS :: "module_preset list" where
  "MODULE_PRESETS =
     [\<lparr>mp_vertical = MEDICAL, mp_modules =
         [CONTACTS, APPOINTMENTS, DOCUMENTS, BILLING, CALENDAR]\<rparr>,
      \<lparr>mp_vertical = LAW, mp_modules =
         [CONTACTS, APPOINTMENTS, DOCUMENTS, DEALS_PIPELINE, BILLING, CALENDAR]\<rparr>,
      \<lparr>mp_vertical = RESTAURANT, mp_modules =
         [CONTACTS, INVENTORY, CAMPAIGNS]\<rparr>,
      \<lparr>mp_vertical = SCHOOL, mp_modules =
         [CONTACTS, APPOINTMENTS, DOCUMENTS, CAMPAIGNS]\<rparr>,
      \<lparr>mp_vertical = GYM, mp_modules =
         [CONTACTS, APPOINTMENTS, BILLING, CAMPAIGNS]\<rparr>]"

definition terminology :: "VerticalType \<Rightarrow> string \<Rightarrow> string \<Rightarrow> string \<Rightarrow> vertical_terminology" where
  "terminology v k s p =
     \<lparr>vt_vertical = v, vt_termKey = k, vt_singular = s, vt_plural = p, vt_icon = None\<rparr>"

definition VERTICAL_TERMINOLOGY :: "vertical_terminology list" where
  "VERTICAL_TERMINOLOGY =
     [terminology MEDICAL ''contact'' ''Patient'' ''Patients'',
      terminology MEDICAL ''appointment'' ''Appointment'' ''Appointments'',
      terminology MEDICAL ''deal'' ''Account'' ''Accounts'',
      terminology LAW ''contact'' ''Client'' ''Clients'',
      terminology LAW ''appointment'' ''Consultation'' ''Consultations'',
      terminology LAW ''deal'' ''Matter'' ''Matters'',
      terminology RESTAURANT ''contact'' ''Guest'' ''Guests'',
      terminology RESTAURANT ''appointment'' ''Reservation'' ''Reservations'',
      terminology RESTAURANT ''deal'' ''Order'' ''Orders'',
      terminology SCHOOL ''contact'' ''Student'' ''Students'',
      terminology SCHOOL ''appointment'' ''Class'' ''Classes'',
      terminology SCHOOL ''deal'' ''Enrollment'' ''Enrollments'',
      terminology GYM ''contact'' ''Member'' ''Members'',
      terminology GYM ''appointment'' ''Session'' ''Sessions'',
      terminology GYM ''deal'' ''Package'' ''Packages'']"

subsection \<open>The script\<close>

definition gen_random_uuid :: "(nat \<Rightarrow> string) \<Rightarrow> (core_db, string) handler" where
  "gen_random_uuid uuid =
     await (reads (\<lambda>d. uuid (cd_rnd d))) (\<lambda>i.
     await (writes (\<lambda>d. d\<lparr>cd_rnd := Suc (cd_rnd d)\<rparr>)) (\<lambda>_. ret i))"

text \<open>\<^verbatim>\<open>upsert\<close>: the row with the key is updated, or a new one made with a fresh identifier.\<close>

definition upsert ::
    "(nat \<Rightarrow> string) \<Rightarrow> (core_db, 'r) tbl \<Rightarrow> ('r \<Rightarrow> 'k) \<Rightarrow> ('r \<Rightarrow> 'r \<Rightarrow> bool) \<Rightarrow>
     'k \<Rightarrow> (string \<Rightarrow> 'r) \<Rightarrow> ('r \<Rightarrow> 'r) \<Rightarrow> (core_db, 'r) handler" where
  "upsert uuid T key clash k mk f =
     await (findUnique T key k) (\<lambda>found.
     if found \<noteq> None then update T key k f
     else await (gen_random_uuid uuid) (\<lambda>i. create T clash no_refs (mk i)))"

definition new_platform_permission :: "int \<Rightarrow> platform_permission_seed \<Rightarrow> string \<Rightarrow> platform_permission" where
  "new_platform_permission now p i =
     \<lparr>pp_id = i, pp_slug = pps_slug p, pp_resource = pps_resource p, pp_action = pps_action p,
      pp_description = pps_description p, pp_createdAt = now\<rparr>"

definition patch_platform_permission :: "platform_permission_seed \<Rightarrow> platform_permission \<Rightarrow> platform_permission" where
  "patch_platform_permission p r = r\<lparr>pp_description := pps_description p\<rparr>"

text \<open>The map from slugs to identifiers is the list of its entries in the order of insertion.\<close>

fun seedPermissions_from ::
    "(nat \<Rightarrow> string) \<Rightarrow> int \<Rightarrow> platform_permission_seed list \<Rightarrow> (string \<times> string) list \<Rightarrow>
     (core_db, (string \<times> string) list) handler" where
  "seedPermissions_from uuid now [] bySlug = ret bySlug"
| "seedPermissions_from uuid now (perm # perms) bySlug =
     await (upsert uuid platformPermission pp_slug platform_permission_clash (pps_slug perm)
       (new_platform_permission now perm) (patch_platform_permission perm)) (\<lambda>row.
     seedPermissions_from uuid now perms (AList.update (pps_slug perm) (pp_id row) bySlug))"

definition seedPermissions :: "(nat \<Rightarrow> string) \<Rightarrow> int \<Rightarrow> (core_db, (string \<times> string) list) handler" where
  "seedPermissions uuid now = seedPermissions_from uuid now PLATFORM_PERMISSIONS []"

definition new_platform_role :: "int \<Rightarrow> platform_role_seed \<Rightarrow> string \<Rightarrow> platform_role" where
  "new_platform_role now r i =
     \<lparr>plr_id = i, plr_slug = prs_slug r, plr_name = prs_name r, plr_description = Some (prs_description r),
      plr_isSystem = True, plr_createdAt = now, plr_updatedAt = now\<rparr>"

definition patch_platform_role :: "int \<Rightarrow> platform_role_seed \<Rightarrow> platform_role \<Rightarrow> platform_role" where
  "patch_platform_role now s r =
     r\<lparr>plr_name := prs_name s, plr_description := Some (prs_description s), plr_updatedAt := now\<rparr>"

text \<open>The callback of \<^verbatim>\<open>map\<close> throws at the first slug without an identifier, before anything is inserted.\<close>

fun assignments ::
    "int \<Rightarrow> (string \<times> string) list \<Rightarrow> string \<Rightarrow> string list \<Rightarrow>
     (core_db, platform_role_permission list) handler" where
  "assignments now permIdBySlug roleId [] = ret []"
| "assignments now permIdBySlug roleId (slug # slugs) =
     (if \<not> truthy (map_of permIdBySlug slug) then throw (PlainError (''Unknown permission slug: '' @ slug))
      else
        await (assignments now permIdBySlug roleId slugs) (\<lambda>gs.
        ret (\<lparr>prp_platformRoleId = roleId, prp_platformPermissionId = the (map_of permIdBySlug slug),
              prp_createdAt = now\<rparr> # gs)))"

text \<open>\<^verbatim>\<open>createMany\<close> with \<^verbatim>\<open>skipDuplicates\<close> is one statement.\<close>

definition add_assignment :: "platform_role_permission \<Rightarrow> (core_db, unit) handler" where
  "add_assignment g =
     await (query platformRolePermission (existsRow (assignment_clash g))) (\<lambda>there.
     if there then ret ()
     else
       await (create platformRolePermission assignment_clash platform_role_permission_refs g) (\<lambda>_. ret ()))"

definition createMany_skipDuplicates :: "platform_role_permission list \<Rightarrow> (core_db, unit) handler" where
  "createMany_skipDuplicates gs = transaction (forEach gs add_assignment)"

definition target_slugs :: "(string \<times> string) list \<Rightarrow> platform_role_seed \<Rightarrow> string list" where
  "target_slugs permIdBySlug role =
     (case prs_permissions role of Every \<Rightarrow> map fst permIdBySlug | Listed slugs \<Rightarrow> slugs)"

definition upsert_platform_role :: "(nat \<Rightarrow> string) \<Rightarrow> int \<Rightarrow> platform_role_seed \<Rightarrow> (core_db, platform_role) handler" where
  "upsert_platform_role uuid now role =
     upsert uuid platformRole plr_slug platform_role_clash (prs_slug role)
       (new_platform_role now role) (patch_platform_role now role)"

definition seed_role ::
    "(nat \<Rightarrow> string) \<Rightarrow> int \<Rightarrow> (string \<times> string) list \<Rightarrow> platform_role_seed \<Rightarrow> (core_db, unit) handler" where
  "seed_role uuid now permIdBySlug role =
     await (upsert_platform_role uuid now role) (\<lambda>row.
     await (deleteMany platformRolePermission (\<lambda>g. prp_platformRoleId g = plr_id row)) (\<lambda>_.
     await (assignments now permIdBySlug (plr_id row) (target_slugs permIdBySlug role)) (\<lambda>data.
     createMany_skipDuplicates data)))"

definition seedRoles :: "(nat \<Rightarrow> string) \<Rightarrow> int \<Rightarrow> (string \<times> string) list \<Rightarrow> (core_db, unit) handler" where
  "seedRoles uuid now permIdBySlug = forEach PLATFORM_ROLES (seed_role uuid now permIdBySlug)"

text \<open>Zero gigabytes count as no limit, as \<^verbatim>\<open>null\<close> does.\<close>

definition max_storage :: "tenant_plan_seed \<Rightarrow> int option" where
  "max_storage p =
     (case ts_maxStorageGb p of
        None \<Rightarrow> None
      | Some gb \<Rightarrow> if gb = 0 then None else Some (gb * 1073741824))"

definition patch_plan :: "int \<Rightarrow> tenant_plan_seed \<Rightarrow> plan_row \<Rightarrow> plan_row" where
  "patch_plan now p r =
     r\<lparr>tp_name := ts_name p, tp_description := Some (ts_description p), tp_priceMonthly := ts_priceMonthly p,
       tp_priceYearly := ts_priceYearly p, tp_features := ts_features p, tp_maxUsers := ts_maxUsers p,
       tp_maxBranches := ts_maxBranches p, tp_maxStorage := max_storage p, tp_sortOrder := ts_sortOrder p,
       tp_updatedAt := now\<rparr>"

definition new_plan :: "int \<Rightarrow> tenant_plan_seed \<Rightarrow> string \<Rightarrow> plan_row" where
  "new_plan now p i =
     \<lparr>tp_id = i, tp_slug = ts_slug p, tp_name = ts_name p, tp_description = Some (ts_description p),
      tp_priceMonthly = ts_priceMonthly p, tp_priceYearly = ts_priceYearly p, tp_currency = ''USD'',
      tp_features = ts_features p, tp_maxUsers = ts_maxUsers p, tp_maxBranches = ts_maxBranches p,
      tp_maxStorage = max_storage p, tp_isActive = True, tp_sortOrder = ts_sortOrder p,
      tp_createdAt = now, tp_updatedAt = now\<rparr>"

definition seed_plan :: "(nat \<Rightarrow> string) \<Rightarrow> int \<Rightarrow> tenant_plan_seed \<Rightarrow> (core_db, unit) handler" where
  "seed_plan uuid now plan =
     await (upsert uuid tenantPlan tp_slug plan_clash (ts_slug plan) (new_plan now plan) (patch_plan now plan))
       (\<lambda>_. ret ())"

definition seedPlans :: "(nat \<Rightarrow> string) \<Rightarrow> int \<Rightarrow> (core_db, unit) handler" where
  "seedPlans uuid now = forEach TENANT_PLANS (seed_plan uuid now)"

definition seed_preset :: "(nat \<Rightarrow> string) \<Rightarrow> module_preset \<Rightarrow> (core_db, unit) handler" where
  "seed_preset uuid preset =
     await (upsert uuid modulePreset mp_vertical preset_clash (mp_vertical preset) (\<lambda>_. preset)
       (\<lambda>r. r\<lparr>mp_modules := mp_modules preset\<rparr>)) (\<lambda>_. ret ())"

definition seedModulePresets :: "(nat \<Rightarrow> string) \<Rightarrow> (core_db, unit) handler" where
  "seedModulePresets uuid = forEach MODULE_PRESETS (seed_preset uuid)"

definition seed_term :: "(nat \<Rightarrow> string) \<Rightarrow> vertical_terminology \<Rightarrow> (core_db, unit) handler" where
  "seed_term uuid t =
     await (upsert uuid verticalTerminology term_key term_clash (term_key t) (\<lambda>_. t)
       (\<lambda>r. r\<lparr>vt_singular := vt_singular t, vt_plural := vt_plural t, vt_icon := vt_icon t\<rparr>)) (\<lambda>_. ret ())"

definition seedVerticalTerminology :: "(nat \<Rightarrow> string) \<Rightarrow> (core_db, unit) handler" where
  "seedVerticalTerminology uuid = forEach VERTICAL_TERMINOLOGY (seed_term uuid)"

definition seed_main :: "(nat \<Rightarrow> string) \<Rightarrow> int \<Rightarrow> (core_db, unit) handler" where
  "seed_main uuid now =
     await (seedPermissions uuid now) (\<lambda>permIdBySlug.
     await (seedRoles uuid now permIdBySlug) (\<lambda>_.
     await (seedPlans uuid now) (\<lambda>_.
     await (seedModulePresets uuid) (\<lambda>_.
     seedVerticalTerminology uuid))))"

end
