(* ===== verification/Core_Seed_Facts.thy ===== *)
theory Core_Seed_Facts
  imports Core_Seed
begin

text \<open>
  What an upsert leaves in its table: the row of the seed is there and has the values of the seed, the
  identifiers of the rows that were there stay, and a second upsert does nothing.
\<close>

definition seeded :: "('r \<Rightarrow> 'k) \<Rightarrow> 'k \<Rightarrow> ('r \<Rightarrow> 'r) \<Rightarrow> 'r list \<Rightarrow> bool" where
  "seeded key k f t \<longleftrightarrow> (\<exists>r \<in> set t. key r = k) \<and> (\<forall>r \<in> set t. key r = k \<longrightarrow> f r = r)"

definition identified :: "('r \<Rightarrow> 'k) \<Rightarrow> ('r \<Rightarrow> 'i) \<Rightarrow> 'r list \<Rightarrow> 'r list \<Rightarrow> bool" where
  "identified key ident t t' \<longleftrightarrow>
     (\<forall>k r. lookupBy key k t = Some r \<longrightarrow> (\<exists>r'. lookupBy key k t' = Some r' \<and> ident r' = ident r))"

lemma identified_refl: "identified key ident t t"
  by (simp add: identified_def)

lemma identified_trans: "identified key ident t u \<Longrightarrow> identified key ident u v \<Longrightarrow> identified key ident t v"
  unfolding identified_def by metis

lemma gen_random_uuid_run: "gen_random_uuid uuid d = (Inr (uuid (cd_rnd d)), d\<lparr>cd_rnd := Suc (cd_rnd d)\<rparr>)"
  by (simp add: gen_random_uuid_def await_run)

locale seed_table =
  fixes uuid :: "nat \<Rightarrow> string"
    and T :: "(core_db, 'r) tbl"
    and content :: "core_db \<Rightarrow> 'r list"
    and key :: "'r \<Rightarrow> 'k"
    and ident :: "'r \<Rightarrow> string"
    and clash :: "'r \<Rightarrow> 'r \<Rightarrow> bool"
    and k :: "'x \<Rightarrow> 'k"
    and mk :: "'x \<Rightarrow> string \<Rightarrow> 'r"
    and upd :: "'x \<Rightarrow> 'r \<Rightarrow> 'r"
    and ok :: "nat \<Rightarrow> 'r list \<Rightarrow> bool"
    and seeds :: "'x set"
  assumes rows_content: "rows T d = Some (content d)"
    and content_on_rows: "content (on_rows T f d) = f (content d)"
    and on_rows_same: "f (content d) = content d \<Longrightarrow> on_rows T f d = d"
    and content_rnd: "content (d\<lparr>cd_rnd := n\<rparr>) = content d"
    and rnd_on_rows: "cd_rnd (on_rows T f d) = cd_rnd d"
    and key_mk: "key (mk x i) = k x"
    and key_upd: "key (upd x r) = key r"
    and ident_upd: "ident (upd x r) = ident r"
    and upd_mk: "upd x (mk x i) = mk x i"
    and upd_upd: "upd x (upd x r) = upd x r"
    and ok_mk: "ok n t \<Longrightarrow> x \<in> seeds \<Longrightarrow> lookupBy key (k x) t = None \<Longrightarrow>
      \<not> existsRow (clash (mk x (uuid n))) t \<and> ok (Suc n) (insertRow (mk x (uuid n)) t)"
    and ok_upd: "ok n t \<Longrightarrow> x \<in> seeds \<Longrightarrow> ok n (updateBy key j (upd x) t)"
    and ok_mono: "ok n t \<Longrightarrow> n \<le> m \<Longrightarrow> ok m t"
begin

lemma upsert_run:
  "upsert uuid T key clash (k x) (mk x) (upd x) d =
     (case lookupBy key (k x) (content d) of
        Some r \<Rightarrow> (Inr (upd x r), on_rows T (updateBy key (k x) (upd x)) d)
      | None \<Rightarrow>
          let i = uuid (cd_rnd d); d1 = d\<lparr>cd_rnd := Suc (cd_rnd d)\<rparr> in
          if existsRow (clash (mk x i)) (content d) then (Inl (Prisma P2002), d1)
          else (Inr (mk x i), on_rows T (insertRow (mk x i)) d1))"
  by (auto simp: upsert_def await_run findUnique_run [OF rows_content] update_run [OF rows_content]
        gen_random_uuid_run create_run [OF rows_content] content_rnd Let_def split: option.split)

lemma upsert_skips:
  assumes "seeded key (k x) (upd x) (content d)"
  shows "\<exists>r. upsert uuid T key clash (k x) (mk x) (upd x) d = (Inr r, d) \<and>
    lookupBy key (k x) (content d) = Some r"
proof -
  from assms obtain r where r: "lookupBy key (k x) (content d) = Some r"
    unfolding seeded_def by (metis lookupBy_None_iff not_None_eq)
  with assms have "upd x r = r" by (auto simp: seeded_def dest: lookupBy_in)
  moreover have "updateBy key (k x) (upd x) (content d) = content d"
    using assms by (auto simp: updateBy_def updateRows_def seeded_def intro: map_idI)
  ultimately show ?thesis using r by (simp add: upsert_run on_rows_same)
qed

lemma upsert_done:
  assumes "upsert uuid T key clash (k x) (mk x) (upd x) d = (Inr r, d')"
  shows "seeded key (k x) (upd x) (content d')" "lookupBy key (k x) (content d') = Some r"
    "identified key ident (content d) (content d')" "cd_rnd d \<le> cd_rnd d'"
    "\<And>j f. j \<noteq> k x \<Longrightarrow> seeded key j f (content d) \<Longrightarrow> seeded key j f (content d')"
proof -
  have "seeded key (k x) (upd x) (content d') \<and> lookupBy key (k x) (content d') = Some r \<and>
    identified key ident (content d) (content d') \<and> cd_rnd d \<le> cd_rnd d' \<and>
    (\<forall>j f. j \<noteq> k x \<longrightarrow> seeded key j f (content d) \<longrightarrow> seeded key j f (content d'))"
  proof (cases "lookupBy key (k x) (content d)")
    case (Some q)
    with assms have d': "r = upd x q" "d' = on_rows T (updateBy key (k x) (upd x)) d"
      by (auto simp: upsert_run)
    from Some have q: "q \<in> set (content d)" "key q = k x" by (auto dest: lookupBy_in)
    have t: "content d' = updateBy key (k x) (upd x) (content d)" by (simp add: d' content_on_rows)
    have look: "lookupBy key j (content d') =
        (if j = k x then map_option (upd x) (lookupBy key j (content d)) else lookupBy key j (content d))" for j
      by (simp add: t lookupBy_updateBy key_upd)
    have rows: "set (content d') = (\<lambda>r. if key r = k x then upd x r else r) ` set (content d)"
      by (simp add: t updateBy_def set_updateRows)
    have "seeded key (k x) (upd x) (content d')"
    proof -
      have "upd x q \<in> set (content d')" using q by (auto simp: rows intro!: image_eqI [where x = q])
      with q have "\<exists>r \<in> set (content d'). key r = k x" by (metis key_upd)
      moreover have "\<forall>r \<in> set (content d'). key r = k x \<longrightarrow> upd x r = r" by (auto simp: rows upd_upd)
      ultimately show ?thesis by (simp add: seeded_def)
    qed
    moreover have "identified key ident (content d) (content d')"
      by (simp add: identified_def look ident_upd)
    moreover have "seeded key j f (content d')" if "j \<noteq> k x" "seeded key j f (content d)" for j f
      using that by (force simp: seeded_def rows key_upd)
    moreover have "lookupBy key (k x) (content d') = Some r" using Some by (simp add: look d'(1))
    moreover have "cd_rnd d' = cd_rnd d" by (simp add: d'(2) rnd_on_rows)
    ultimately show ?thesis by simp
  next
    case None
    with assms have d': "r = mk x (uuid (cd_rnd d))"
        "d' = on_rows T (insertRow r) (d\<lparr>cd_rnd := Suc (cd_rnd d)\<rparr>)"
      by (auto simp: upsert_run Let_def split: if_splits)
    then have t: "content d' = content d @ [r]" by (simp add: content_on_rows content_rnd insertRow_def)
    have r: "key r = k x" "upd x r = r" by (simp_all add: d' key_mk upd_mk)
    have look: "lookupBy key (k x) (content d') = Some r" using None r by (simp add: t lookupBy_append)
    have "identified key ident (content d) (content d')"
      by (auto simp: identified_def t lookupBy_append)
    moreover have "seeded key (k x) (upd x) (content d')"
      using None r by (auto simp: seeded_def t lookupBy_None_iff)
    moreover have "seeded key j f (content d')" if "j \<noteq> k x" "seeded key j f (content d)" for j f
      using that r by (auto simp: seeded_def t)
    moreover have "cd_rnd d' = Suc (cd_rnd d)" by (simp add: d'(2) rnd_on_rows)
    ultimately show ?thesis using look by simp
  qed
  then show "seeded key (k x) (upd x) (content d')" "lookupBy key (k x) (content d') = Some r"
    "identified key ident (content d) (content d')" "cd_rnd d \<le> cd_rnd d'"
    "\<And>j f. j \<noteq> k x \<Longrightarrow> seeded key j f (content d) \<Longrightarrow> seeded key j f (content d')"
    by blast+
qed

lemma upsert_keys:
  "upsert uuid T key clash (k x) (mk x) (upd x) d = (Inr r, d') \<Longrightarrow>
     key ` set (content d') \<subseteq> insert (k x) (key ` set (content d))"
  by (auto simp: upsert_run Let_def content_on_rows content_rnd updateBy_def set_updateRows key_upd key_mk
        split: option.splits if_splits)

lemma upsert_returns:
  assumes "ok (cd_rnd d) (content d)" and "x \<in> seeds"
  shows "\<exists>r d'. upsert uuid T key clash (k x) (mk x) (upd x) d = (Inr r, d') \<and> ok (cd_rnd d') (content d')"
  using ok_mk [OF assms] ok_upd [OF assms]
  by (auto simp: upsert_run Let_def content_on_rows content_rnd rnd_on_rows split: option.split)

abbreviation (input) step :: "'x \<Rightarrow> (core_db, unit) handler" where
  "step x \<equiv> await (upsert uuid T key clash (k x) (mk x) (upd x)) (\<lambda>_. ret ())"

lemma step_Inr_iff:
  "step x d = (Inr (), d') \<longleftrightarrow> (\<exists>r. upsert uuid T key clash (k x) (mk x) (upd x) d = (Inr r, d'))"
  by (auto simp: await_Inr_iff)

end

sublocale seed_table \<subseteq> rerunnable "\<lambda>x. await (upsert uuid T key clash (k x) (mk x) (upd x)) (\<lambda>_. ret ())"
  "\<lambda>x d. seeded key (k x) (upd x) (content d)" "\<lambda>_. True" "\<lambda>x y. k x \<noteq> k y"
proof
  fix x y d d'
  show "step x d = (Inr (), d') \<Longrightarrow> seeded key (k x) (upd x) (content d')"
    by (auto simp: step_Inr_iff intro: upsert_done)
  show "k x \<noteq> k y \<Longrightarrow> seeded key (k x) (upd x) (content d) \<Longrightarrow> step y d = (Inr (), d') \<Longrightarrow>
      seeded key (k x) (upd x) (content d')"
    by (auto simp: step_Inr_iff intro: upsert_done)
  show "seeded key (k x) (upd x) (content d) \<Longrightarrow> step x d = (Inr (), d)"
    by (auto simp: step_Inr_iff dest: upsert_skips)
qed

context seed_table
begin

text \<open>A loop over seeds with different keys.\<close>

lemma steps_keep:
  "forEach xs step d = (Inr (), d') \<Longrightarrow> identified key ident (content d) (content d') \<and> cd_rnd d \<le> cd_rnd d'"
proof (induction xs arbitrary: d)
  case (Cons x xs)
  then have "await (step x) (\<lambda>_. forEach xs step) d = (Inr (), d')" by (simp only: forEach.simps)
  then obtain d1 where "step x d = (Inr (), d1)" and rest: "forEach xs step d1 = (Inr (), d')"
    unfolding await_Inr_iff [of "step x"] by auto
  then obtain r where up: "upsert uuid T key clash (k x) (mk x) (upd x) d = (Inr r, d1)"
    unfolding step_Inr_iff by blast
  from Cons.IH [OF rest] upsert_done(3,4) [OF up] show ?case
    by (auto intro: identified_trans)
qed (simp add: identified_refl)

lemma steps_return:
  assumes "ok (cd_rnd d) (content d)" and "set xs \<subseteq> seeds"
  shows "\<exists>d'. forEach xs step d = (Inr (), d') \<and> ok (cd_rnd d') (content d')"
  using assms
proof (induction xs arbitrary: d)
  case (Cons x xs)
  then obtain r d1 where up: "upsert uuid T key clash (k x) (mk x) (upd x) d = (Inr r, d1)"
      and ok: "ok (cd_rnd d1) (content d1)"
    using upsert_returns [of d x] by auto
  from Cons.prems have "set xs \<subseteq> seeds" by simp
  with Cons.IH [OF ok] up show ?case by (auto simp: await_run)
qed simp

lemma steps_seeded:
  assumes "forEach xs step d = (Inr (), d')" and "distinct (map k xs)" and "x \<in> set xs"
  shows "seeded key (k x) (upd x) (content d')"
proof -
  from assms(2) have "sorted_wrt (\<lambda>x y. k x \<noteq> k y) xs"
    by (induction xs) (auto simp: image_iff)
  with settles_all [of xs d d'] assms show ?thesis by (simp add: list.pred_True)
qed

lemma steps_skip:
  "\<forall>x \<in> set xs. seeded key (k x) (upd x) (content d) \<Longrightarrow> forEach xs step d = (Inr (), d)"
  by (rule skips_all) (simp_all add: list.pred_True)

end

subsection \<open>The five tables\<close>

text \<open>Identifiers are drawn without repetition, are not empty, and those still to come are not in use.\<close>

definition good_uuid :: "(nat \<Rightarrow> string) \<Rightarrow> bool" where
  "good_uuid uuid \<longleftrightarrow> inj uuid \<and> (\<forall>n. uuid n \<noteq> [])"

definition ids_fresh :: "(nat \<Rightarrow> string) \<Rightarrow> ('r \<Rightarrow> string) \<Rightarrow> nat \<Rightarrow> 'r list \<Rightarrow> bool" where
  "ids_fresh uuid ident n t \<longleftrightarrow>
     good_uuid uuid \<and> uniqueBy ident t \<and> [] \<notin> ident ` set t \<and> (\<forall>j \<ge> n. uuid j \<notin> ident ` set t)"

lemma ids_fresh_free: "ids_fresh uuid ident n t \<Longrightarrow> \<forall>r \<in> set t. uuid n \<noteq> ident r"
  by (force simp: ids_fresh_def)

lemma ids_fresh_insert:
  assumes "ids_fresh uuid ident n t" and r: "ident r = uuid n"
  shows "ids_fresh uuid ident (Suc n) (insertRow r t)"
proof -
  from assms(1) have inj: "inj uuid" "uuid n \<noteq> []" and unique: "uniqueBy ident t"
    and old: "\<forall>j \<ge> n. uuid j \<notin> ident ` set t"
    by (auto simp: ids_fresh_def good_uuid_def)
  have "uuid j \<noteq> uuid n" if "Suc n \<le> j" for j
    using that inj_eq [OF inj(1), of j n] by simp
  moreover have "lookupBy ident (ident r) t = None"
    using old r by (force simp: lookupBy_None_iff)
  ultimately show ?thesis
    using assms(1) inj(2) unique old by (auto simp: ids_fresh_def r uniqueBy_insertRow)
qed

lemma ids_fresh_update:
  "(\<And>r. ident (f r) = ident r) \<Longrightarrow> ids_fresh uuid ident n (updateRows p f t) = ids_fresh uuid ident n t"
  by (simp add: ids_fresh_def uniqueBy_updateRows image_updateRows)

lemma ids_fresh_mono: "ids_fresh uuid ident n t \<Longrightarrow> n \<le> m \<Longrightarrow> ids_fresh uuid ident m t"
  by (auto simp: ids_fresh_def)

text \<open>A row with the resource and action of a seed has its slug.\<close>

definition slug_matches :: "platform_permission \<Rightarrow> bool" where
  "slug_matches q \<longleftrightarrow>
     (\<forall>p \<in> set PLATFORM_PERMISSIONS.
        pp_resource q = pps_resource p \<and> pp_action q = pps_action p \<longrightarrow> pp_slug q = pps_slug p)"

lemma slug_matches_patch: "slug_matches (patch_platform_permission x q) = slug_matches q"
  by (simp add: slug_matches_def patch_platform_permission_def)

definition permissions_ok :: "(nat \<Rightarrow> string) \<Rightarrow> nat \<Rightarrow> platform_permission list \<Rightarrow> bool" where
  "permissions_ok uuid n t \<longleftrightarrow>
     ids_fresh uuid pp_id n t \<and> uniqueBy pp_slug t \<and> (\<forall>q \<in> set t. slug_matches q)"

definition roles_ok :: "(nat \<Rightarrow> string) \<Rightarrow> nat \<Rightarrow> platform_role list \<Rightarrow> bool" where
  "roles_ok uuid n t \<longleftrightarrow> ids_fresh uuid plr_id n t \<and> uniqueBy plr_slug t"

definition plans_ok :: "(nat \<Rightarrow> string) \<Rightarrow> nat \<Rightarrow> plan_row list \<Rightarrow> bool" where
  "plans_ok uuid n t \<longleftrightarrow> ids_fresh uuid tp_id n t \<and> uniqueBy tp_slug t"

text \<open>Every slug of a permission is spelled from its resource and its action.\<close>

lemma permissions_spelled:
  "list_all (\<lambda>p. pps_slug p = ''platform:'' @ pps_resource p @ '':'' @ pps_action p) PLATFORM_PERMISSIONS"
  by (simp add: PLATFORM_PERMISSIONS_def platform_permission_seed_def)

lemma permissions_coherent:
  "p \<in> set PLATFORM_PERMISSIONS \<Longrightarrow> q \<in> set PLATFORM_PERMISSIONS \<Longrightarrow> pps_resource p = pps_resource q \<Longrightarrow>
     pps_action p = pps_action q \<Longrightarrow> pps_slug p = pps_slug q"
  using permissions_spelled by (simp add: list_all_iff)

lemma patches [simp]:
  "pp_id (patch_platform_permission x q) = pp_id q" "pp_slug (patch_platform_permission x q) = pp_slug q"
  by (simp_all add: patch_platform_permission_def)

interpretation permission_seeds: seed_table uuid platformPermission cd_permissions pp_slug pp_id
  platform_permission_clash pps_slug "new_platform_permission now" patch_platform_permission
  "permissions_ok uuid" "set PLATFORM_PERMISSIONS" for uuid now
proof
  fix n t x
  assume ok: "permissions_ok uuid n t" and x: "x \<in> set PLATFORM_PERMISSIONS"
    and new: "lookupBy pp_slug (pps_slug x) t = None"
  let ?r = "new_platform_permission now x (uuid n)"
  have old: "pps_slug x \<noteq> pp_slug q" "uuid n \<noteq> pp_id q"
      "pps_resource x = pp_resource q \<Longrightarrow> pps_action x \<noteq> pp_action q" if "q \<in> set t" for q
    using that new ok x ids_fresh_free [of uuid pp_id n t]
    by (auto simp: lookupBy_None_iff permissions_ok_def slug_matches_def)
  have "\<not> existsRow (platform_permission_clash ?r) t"
    by (auto simp: existsRow_iff platform_permission_clash_def new_platform_permission_def dest: old)
  moreover have "permissions_ok uuid (Suc n) (insertRow ?r t)"
    using ok new permissions_coherent [OF x] ids_fresh_insert [of uuid pp_id n t ?r]
    by (simp add: permissions_ok_def new_platform_permission_def uniqueBy_insertRow slug_matches_def)
  ultimately show "\<not> existsRow (platform_permission_clash ?r) t \<and> permissions_ok uuid (Suc n) (insertRow ?r t)" ..
next
  fix n t x and j :: string
  assume "permissions_ok uuid n t"
  then show "permissions_ok uuid n (updateBy pp_slug j (patch_platform_permission x) t)"
    by (auto simp: permissions_ok_def ids_fresh_update patches updateBy_def uniqueBy_updateRows
          set_updateRows slug_matches_patch)
qed (auto simp: platformPermission_def new_platform_permission_def patch_platform_permission_def
      permissions_ok_def intro: ids_fresh_mono)

interpretation role_seeds: seed_table uuid platformRole cd_roles plr_slug plr_id
  platform_role_clash prs_slug "new_platform_role now" "patch_platform_role now" "roles_ok uuid" UNIV
  for uuid now
proof
  fix n t and x :: platform_role_seed
  assume ok: "roles_ok uuid n t" and new: "lookupBy plr_slug (prs_slug x) t = None"
  then show "\<not> existsRow (platform_role_clash (new_platform_role now x (uuid n))) t \<and>
      roles_ok uuid (Suc n) (insertRow (new_platform_role now x (uuid n)) t)"
    using ids_fresh_insert [of uuid plr_id n t "new_platform_role now x (uuid n)"] ids_fresh_free [of uuid plr_id n t]
    by (auto simp: roles_ok_def existsRow_iff platform_role_clash_def new_platform_role_def uniqueBy_insertRow
          lookupBy_None_iff)
qed (auto simp: platformRole_def new_platform_role_def patch_platform_role_def roles_ok_def
      ids_fresh_update updateBy_def uniqueBy_updateRows intro: ids_fresh_mono)

interpretation plan_seeds: seed_table uuid tenantPlan cd_plans tp_slug tp_id
  plan_clash ts_slug "new_plan now" "patch_plan now" "plans_ok uuid" UNIV for uuid now
proof
  fix n t and x :: tenant_plan_seed
  assume ok: "plans_ok uuid n t" and new: "lookupBy tp_slug (ts_slug x) t = None"
  then show "\<not> existsRow (plan_clash (new_plan now x (uuid n))) t \<and>
      plans_ok uuid (Suc n) (insertRow (new_plan now x (uuid n)) t)"
    using ids_fresh_insert [of uuid tp_id n t "new_plan now x (uuid n)"] ids_fresh_free [of uuid tp_id n t]
    by (auto simp: plans_ok_def existsRow_iff plan_clash_def new_plan_def uniqueBy_insertRow
          lookupBy_None_iff)
qed (auto simp: tenantPlan_def new_plan_def patch_plan_def plans_ok_def
      ids_fresh_update updateBy_def uniqueBy_updateRows intro: ids_fresh_mono)

interpretation preset_seeds: seed_table uuid modulePreset cd_presets mp_vertical "\<lambda>_. []"
  preset_clash mp_vertical "\<lambda>p _. p" "\<lambda>p r. r\<lparr>mp_modules := mp_modules p\<rparr>" "\<lambda>_ _. True" UNIV for uuid
  by unfold_locales
    (auto simp: modulePreset_def preset_clash_def existsRow_iff lookupBy_None_iff)

interpretation term_seeds: seed_table uuid verticalTerminology cd_terms term_key "\<lambda>_. []"
  term_clash term_key "\<lambda>t _. t"
  "\<lambda>t r. r\<lparr>vt_singular := vt_singular t, vt_plural := vt_plural t, vt_icon := vt_icon t\<rparr>"
  "\<lambda>_ _. True" UNIV for uuid
  by unfold_locales
    (auto simp: verticalTerminology_def term_clash_def term_key_def existsRow_iff lookupBy_None_iff)

subsection \<open>What a phase leaves alone\<close>

lemma upsert_same:
  assumes "\<And>g d. F (on_rows T g d) = F d" and "\<And>n d. F (d\<lparr>cd_rnd := n\<rparr>) = F d"
  shows "has_effect (same F) (upsert uuid T key clash k mk f)"
  unfolding upsert_def gen_random_uuid_def
  by (intro same.effect_await same.effect_if same.table_rules same.effect_reads same.effect_ret)
    (simp_all add: same_def assms)

subsection \<open>The map of permissions\<close>

definition id_of :: "('r \<Rightarrow> 'k) \<Rightarrow> ('r \<Rightarrow> string) \<Rightarrow> 'r list \<Rightarrow> 'k \<Rightarrow> string" where
  "id_of key ident t k = ident (the (lookupBy key k t))"

lemma id_of_identified:
  "identified key ident t t' \<Longrightarrow> lookupBy key k t = Some r \<Longrightarrow> id_of key ident t' k = ident r"
  unfolding identified_def id_of_def by (metis option.sel)

definition permission_entry :: "platform_permission list \<Rightarrow> platform_permission_seed \<Rightarrow> string \<times> string" where
  "permission_entry t p = (pps_slug p, id_of pp_slug pp_id t (pps_slug p))"

lemma update_new: "k \<notin> fst ` set m \<Longrightarrow> AList.update k v m = m @ [(k, v)]"
  by (induction m) auto

lemma seedPermissions_from_run:
  assumes "forEach ps (permission_seeds.step uuid now) d = (Inr (), d')"
    and "distinct (map fst m @ map pps_slug ps)"
  shows "seedPermissions_from uuid now ps m d = (Inr (m @ map (permission_entry (cd_permissions d')) ps), d')"
  using assms
proof (induction ps arbitrary: m d)
  case (Cons p ps)
  let ?up = "upsert uuid platformPermission pp_slug platform_permission_clash (pps_slug p)
    (new_platform_permission now p) (patch_platform_permission p)"
  from Cons.prems(1) have "await (permission_seeds.step uuid now p) (\<lambda>_. forEach ps (permission_seeds.step uuid now)) d = (Inr (), d')"
    by (simp only: forEach.simps)
  then obtain d1 where "permission_seeds.step uuid now p d = (Inr (), d1)"
      and rest: "forEach ps (permission_seeds.step uuid now) d1 = (Inr (), d')"
    unfolding await_Inr_iff [of "permission_seeds.step uuid now p"] by auto
  then obtain r where up: "?up d = (Inr r, d1)"
    unfolding permission_seeds.step_Inr_iff by blast
  have "id_of pp_slug pp_id (cd_permissions d') (pps_slug p) = pp_id r"
    using permission_seeds.steps_keep [OF rest] permission_seeds.upsert_done(2) [OF up]
    by (auto intro: id_of_identified)
  moreover from Cons.prems(2) have "pps_slug p \<notin> fst ` set m" by auto
  ultimately have "AList.update (pps_slug p) (pp_id r) m = m @ [permission_entry (cd_permissions d') p]"
    by (simp add: update_new permission_entry_def)
  moreover from Cons.prems(2) have "distinct (map fst (m @ [permission_entry (cd_permissions d') p]) @ map pps_slug ps)"
    by (auto simp: permission_entry_def)
  ultimately show ?case using Cons.IH [OF rest] up by (simp add: await_run)
qed simp

subsection \<open>The roles\<close>

text \<open>A map of slugs to identifiers of permissions that are there, and a role whose slugs it has.\<close>

definition map_ok :: "(string \<times> string) list \<Rightarrow> platform_permission list \<Rightarrow> bool" where
  "map_ok m t \<longleftrightarrow>
     distinct (map fst m) \<and> distinct (map snd m) \<and> [] \<notin> snd ` set m \<and> snd ` set m \<subseteq> pp_id ` set t"

definition targets_ok :: "(string \<times> string) list \<Rightarrow> platform_role_seed \<Rightarrow> bool" where
  "targets_ok m role \<longleftrightarrow> distinct (target_slugs m role) \<and> set (target_slugs m role) \<subseteq> fst ` set m"

definition assignment :: "int \<Rightarrow> (string \<times> string) list \<Rightarrow> string \<Rightarrow> string \<Rightarrow> platform_role_permission" where
  "assignment now m roleId slug =
     \<lparr>prp_platformRoleId = roleId, prp_platformPermissionId = the (map_of m slug), prp_createdAt = now\<rparr>"

lemma map_ok_lookup:
  assumes "map_ok m t" and "slug \<in> fst ` set m"
  shows "\<exists>i. map_of m slug = Some i \<and> i \<noteq> [] \<and> i \<in> pp_id ` set t"
  using assms by (force simp: map_ok_def map_of_eq_Some_iff)

lemma map_ok_inj:
  assumes m: "map_ok m t" and s: "s \<in> fst ` set m" "s' \<in> fst ` set m"
    and eq: "the (map_of m s) = the (map_of m s')"
  shows "s = s'"
proof -
  from map_ok_lookup [OF m s(1)] map_ok_lookup [OF m s(2)]
  obtain i j where "map_of m s = Some i" "map_of m s' = Some j" by blast
  with eq have "(s, i) \<in> set m" "(s', i) \<in> set m" by (auto dest: map_of_SomeD)
  moreover have "inj_on snd (set m)" using m by (simp add: map_ok_def distinct_map)
  ultimately show ?thesis by (auto dest: inj_onD [where x = "(s, i)" and y = "(s', i)"])
qed

lemma assignments_run:
  "map_ok m t \<Longrightarrow> set slugs \<subseteq> fst ` set m \<Longrightarrow>
     assignments now m roleId slugs d = (Inr (map (assignment now m roleId) slugs), d)"
proof (induction slugs)
  case (Cons s slugs)
  with map_ok_lookup [of m t s] show ?case
    by (auto simp: await_run assignment_def)
qed simp

lemma add_assignment_run:
  assumes "platform_role_permission_refs g d" and "assignment_key g \<notin> assignment_key ` set (cd_rolePermissions d)"
  shows "add_assignment g d = (Inr (), d\<lparr>cd_rolePermissions := cd_rolePermissions d @ [g]\<rparr>)"
  using assms
  by (auto simp: add_assignment_def await_run query_run create_def throwIf_run platformRolePermission_def
        existsRow_iff insertRow_def assignment_clash_def image_iff)

lemma createMany_run:
  assumes "\<forall>g \<in> set gs. platform_role_permission_refs g d" and "distinct (map assignment_key gs)"
    and "assignment_key ` set gs \<inter> assignment_key ` set (cd_rolePermissions d) = {}"
  shows "createMany_skipDuplicates gs d = (Inr (), d\<lparr>cd_rolePermissions := cd_rolePermissions d @ gs\<rparr>)"
proof -
  from assms have "forEach gs add_assignment d = (Inr (), d\<lparr>cd_rolePermissions := cd_rolePermissions d @ gs\<rparr>)"
  proof (induction gs arbitrary: d)
    case (Cons g gs)
    let ?d = "d\<lparr>cd_rolePermissions := cd_rolePermissions d @ [g]\<rparr>"
    from Cons.prems have "add_assignment g d = (Inr (), ?d)" by (simp add: add_assignment_run)
    moreover have "forEach gs add_assignment ?d = (Inr (), ?d\<lparr>cd_rolePermissions := cd_rolePermissions ?d @ gs\<rparr>)"
      using Cons.prems by (intro Cons.IH) (auto simp: platform_role_permission_refs_def)
    ultimately show ?case by (simp add: await_run)
  qed simp
  then show ?thesis by (simp add: createMany_skipDuplicates_def transaction_run)
qed

definition granted :: "int \<Rightarrow> (string \<times> string) list \<Rightarrow> platform_role list \<Rightarrow> platform_role_seed \<Rightarrow> platform_role_permission list" where
  "granted now m t role = map (assignment now m (id_of plr_slug plr_id t (prs_slug role))) (target_slugs m role)"

lemma seed_role_run:
  assumes up: "upsert_platform_role uuid now role d = (Inr row, d1)" and row: "row \<in> set (cd_roles d1)"
    and m: "map_ok m (cd_permissions d1)" "targets_ok m role"
  shows "seed_role uuid now m role d =
    (Inr (), d1\<lparr>cd_rolePermissions :=
       filter (\<lambda>g. prp_platformRoleId g \<noteq> plr_id row) (cd_rolePermissions d1) @
       map (assignment now m (plr_id row)) (target_slugs m role)\<rparr>)"
proof -
  let ?gs = "map (assignment now m (plr_id row)) (target_slugs m role)"
  let ?d = "d1\<lparr>cd_rolePermissions := filter (\<lambda>g. prp_platformRoleId g \<noteq> plr_id row) (cd_rolePermissions d1)\<rparr>"
  have look: "\<exists>i. map_of m s = Some i \<and> i \<in> pp_id ` set (cd_permissions d1)" if "s \<in> set (target_slugs m role)" for s
    using map_ok_lookup [OF m(1), of s] m(2) that by (auto simp: targets_ok_def)
  have refs: "\<forall>g \<in> set ?gs. platform_role_permission_refs g ?d"
    using row look by (force simp: platform_role_permission_refs_def existsRow_iff assignment_def)
  have "inj_on (assignment_key \<circ> assignment now m (plr_id row)) (set (target_slugs m role))"
  proof (rule inj_onI)
    fix s s'
    assume "s \<in> set (target_slugs m role)" "s' \<in> set (target_slugs m role)"
      and eq: "(assignment_key \<circ> assignment now m (plr_id row)) s = (assignment_key \<circ> assignment now m (plr_id row)) s'"
    with m(2) have "s \<in> fst ` set m" "s' \<in> fst ` set m" unfolding targets_ok_def by blast+
    moreover from eq have "the (map_of m s) = the (map_of m s')" by (simp add: assignment_key_def assignment_def)
    ultimately show "s = s'" by (rule map_ok_inj [OF m(1)])
  qed
  then have distinct: "distinct (map assignment_key ?gs)" using m(2) by (simp add: distinct_map targets_ok_def)
  have "assignment_key ` set ?gs \<inter> assignment_key ` set (cd_rolePermissions ?d) = {}"
    by (auto simp: assignment_key_def assignment_def)
  with refs distinct have create: "createMany_skipDuplicates ?gs ?d =
      (Inr (), ?d\<lparr>cd_rolePermissions := cd_rolePermissions ?d @ ?gs\<rparr>)"
    by (rule createMany_run)
  have delete: "deleteMany platformRolePermission (\<lambda>g. prp_platformRoleId g = plr_id row) d1 =
      (Inr (countRows (\<lambda>g. prp_platformRoleId g = plr_id row) (cd_rolePermissions d1)), ?d)"
    by (simp add: deleteMany_run platformRolePermission_def deleteRows_def)
  have assign: "assignments now m (plr_id row) (target_slugs m role) ?d = (Inr ?gs, ?d)"
    using m by (intro assignments_run) (simp_all add: targets_ok_def)
  show ?thesis
    using create by (simp add: seed_role_def await_run up delete assign)
qed

text \<open>The assignments after the loop over the roles, given the rows of the roles at its end.\<close>

definition regranted ::
    "int \<Rightarrow> (string \<times> string) list \<Rightarrow> platform_role list \<Rightarrow> platform_role_seed list \<Rightarrow>
     platform_role_permission list \<Rightarrow> platform_role_permission list" where
  "regranted now m t rs gs =
     filter (\<lambda>g. prp_platformRoleId g \<notin> (\<lambda>r. id_of plr_slug plr_id t (prs_slug r)) ` set rs) gs @
     concat (map (granted now m t) rs)"

definition role_seeded :: "int \<Rightarrow> platform_role list \<Rightarrow> platform_role_seed \<Rightarrow> bool" where
  "role_seeded now t r \<longleftrightarrow> seeded plr_slug (prs_slug r) (patch_platform_role now r) t"

lemma seeded_id:
  assumes "seeded key k f t"
  shows "\<exists>row \<in> set t. key row = k \<and> id_of key ident t k = ident row"
proof -
  from assms obtain row where "lookupBy key k t = Some row"
    unfolding seeded_def by (metis lookupBy_None_iff not_None_eq)
  then show ?thesis by (auto simp: id_of_def dest: lookupBy_in)
qed

lemma seeded_ids_differ:
  assumes "uniqueBy ident t" and "seeded key k f t" "seeded key k' f' t" and "k \<noteq> k'"
  shows "id_of key ident t k \<noteq> id_of key ident t k'"
proof -
  obtain q q' where "q \<in> set t" "q' \<in> set t" "key q \<noteq> key q'"
      and ids: "id_of key ident t k = ident q" "id_of key ident t k' = ident q'"
    using seeded_id [OF assms(2)] seeded_id [OF assms(3)] assms(4) by metis
  moreover have "inj_on ident (set t)" using assms(1) by (simp add: uniqueBy_def distinct_map)
  ultimately show ?thesis by (auto dest: inj_onD)
qed

lemma role_ids_differ:
  "roles_ok uuid n t \<Longrightarrow> role_seeded now t r \<Longrightarrow> role_seeded now t r' \<Longrightarrow> prs_slug r \<noteq> prs_slug r' \<Longrightarrow>
     id_of plr_slug plr_id t (prs_slug r) \<noteq> id_of plr_slug plr_id t (prs_slug r')"
  unfolding role_seeded_def roles_ok_def ids_fresh_def
  using seeded_ids_differ [of plr_id t plr_slug "prs_slug r" _ "prs_slug r'"] by blast

definition beside_roles where
  "beside_roles d = (cd_permissions d, cd_plans d, cd_presets d, cd_terms d)"

lemma upsert_role_same:
  "upsert_platform_role uuid now role d = (Inr row, d1) \<Longrightarrow>
     beside_roles d1 = beside_roles d \<and> cd_rolePermissions d1 = cd_rolePermissions d"
proof -
  assume up: "upsert_platform_role uuid now role d = (Inr row, d1)"
  have "has_effect (same (\<lambda>d. (beside_roles d, cd_rolePermissions d))) (upsert_platform_role uuid now role)"
    unfolding upsert_platform_role_def by (rule upsert_same) (simp_all add: beside_roles_def platformRole_def)
  from has_effectD [OF this up] show ?thesis by (simp add: same_def)
qed

lemma seed_roles_run:
  assumes "roles_ok uuid (cd_rnd d) (cd_roles d)" and "map_ok m (cd_permissions d)"
    and "\<forall>r \<in> set rs. targets_ok m r" and "distinct (map prs_slug rs)"
  shows "\<exists>d'. forEach rs (seed_role uuid now m) d = (Inr (), d') \<and>
    roles_ok uuid (cd_rnd d') (cd_roles d') \<and> cd_rnd d \<le> cd_rnd d' \<and> beside_roles d' = beside_roles d \<and>
    identified plr_slug plr_id (cd_roles d) (cd_roles d') \<and>
    plr_slug ` set (cd_roles d') \<subseteq> plr_slug ` set (cd_roles d) \<union> prs_slug ` set rs \<and>
    (\<forall>r. (r \<in> set rs \<or> prs_slug r \<notin> prs_slug ` set rs \<and> role_seeded now (cd_roles d) r) \<longrightarrow> role_seeded now (cd_roles d') r) \<and>
    ((\<forall>r \<in> set rs. role_seeded now (cd_roles d) r) \<longrightarrow> d' = d\<lparr>cd_rolePermissions := cd_rolePermissions d'\<rparr>) \<and>
    cd_rolePermissions d' = regranted now m (cd_roles d') rs (cd_rolePermissions d)"
  using assms
proof (induction rs arbitrary: d)
  case Nil
  then show ?case by (simp add: identified_refl regranted_def)
next
  case (Cons r rs)
  from Cons.prems(1) obtain row d0 where up: "upsert_platform_role uuid now r d = (Inr row, d0)"
      and ok: "roles_ok uuid (cd_rnd d0) (cd_roles d0)"
    unfolding upsert_platform_role_def using role_seeds.upsert_returns [where uuid = uuid and now = now and d = d and x = r] by auto
  note upserted = role_seeds.upsert_done [OF up [unfolded upsert_platform_role_def]]
  note others = upsert_role_same [OF up]
  from upserted(2) have row: "row \<in> set (cd_roles d0)" by (auto dest: lookupBy_in)
  define d1 where "d1 = d0\<lparr>cd_rolePermissions :=
       filter (\<lambda>g. prp_platformRoleId g \<noteq> plr_id row) (cd_rolePermissions d) @
       map (assignment now m (plr_id row)) (target_slugs m r)\<rparr>"
  from seed_role_run [OF up row] Cons.prems(2,3) others have step: "seed_role uuid now m r d = (Inr (), d1)"
    by (simp add: d1_def beside_roles_def)
  from Cons.IH [of d1] ok Cons.prems(2-4) others obtain d' where
    d': "forEach rs (seed_role uuid now m) d1 = (Inr (), d')" "roles_ok uuid (cd_rnd d') (cd_roles d')"
      "cd_rnd d0 \<le> cd_rnd d'" "beside_roles d' = beside_roles d"
      "identified plr_slug plr_id (cd_roles d0) (cd_roles d')"
      "\<forall>r. (r \<in> set rs \<or> prs_slug r \<notin> prs_slug ` set rs \<and> role_seeded now (cd_roles d0) r) \<longrightarrow> role_seeded now (cd_roles d') r"
      "(\<forall>r \<in> set rs. role_seeded now (cd_roles d0) r) \<longrightarrow> d' = d1\<lparr>cd_rolePermissions := cd_rolePermissions d'\<rparr>"
      "cd_rolePermissions d' = regranted now m (cd_roles d') rs (cd_rolePermissions d1)"
      "plr_slug ` set (cd_roles d') \<subseteq> plr_slug ` set (cd_roles d0) \<union> prs_slug ` set rs"
    by (auto simp: d1_def beside_roles_def)
  have "forEach (r # rs) (seed_role uuid now m) d = (Inr (), d')" using step d'(1) by (simp add: await_run)
  moreover have "cd_rnd d \<le> cd_rnd d'" using upserted(4) d'(3) by simp
  moreover have "identified plr_slug plr_id (cd_roles d) (cd_roles d')"
    using upserted(3) d'(5) by (rule identified_trans)
  moreover have "plr_slug ` set (cd_roles d') \<subseteq> plr_slug ` set (cd_roles d) \<union> prs_slug ` set (r # rs)"
    using d'(9) role_seeds.upsert_keys [OF up [unfolded upsert_platform_role_def]] by auto
  moreover have seeded: "\<forall>r'. (r' \<in> set (r # rs) \<or> prs_slug r' \<notin> prs_slug ` set (r # rs) \<and> role_seeded now (cd_roles d) r')
      \<longrightarrow> role_seeded now (cd_roles d') r'"
    using d'(6) upserted(1,5) Cons.prems(4) by (auto simp: role_seeded_def)
  moreover have "d' = d\<lparr>cd_rolePermissions := cd_rolePermissions d'\<rparr>" if "\<forall>r' \<in> set (r # rs). role_seeded now (cd_roles d) r'"
  proof -
    from that role_seeds.upsert_skips [where x = r and now = now and d = d and uuid = uuid] up have "d0 = d"
      by (auto simp: role_seeded_def upsert_platform_role_def)
    with d'(7) that show ?thesis by (simp add: d1_def)
  qed
  moreover have "cd_rolePermissions d' = regranted now m (cd_roles d') (r # rs) (cd_rolePermissions d)"
  proof -
    have id: "id_of plr_slug plr_id (cd_roles d') (prs_slug r) = plr_id row"
      using d'(5) upserted(2) by (rule id_of_identified)
    have "plr_id row \<noteq> id_of plr_slug plr_id (cd_roles d') (prs_slug r')" if "r' \<in> set rs" for r'
      using role_ids_differ [OF d'(2), of now r r'] seeded that Cons.prems(4) id by (auto simp: image_iff)
    then have "plr_id row \<notin> (\<lambda>r. id_of plr_slug plr_id (cd_roles d') (prs_slug r)) ` set rs" by auto
    then show ?thesis
      by (simp add: d'(8) regranted_def d1_def granted_def id filter_empty_conv assignment_def o_def conj_commute)
  qed
  ultimately show ?case using d'(2,4) by blast
qed

end
