(* ===== verification/Core_Seed_Properties.thy ===== *)
theory Core_Seed_Properties
  imports Core_Seed_Facts
begin

text \<open>
  The seed script as a whole: it can be run again at any time, and after it the roles of the platform hold
  what the seeds say.
\<close>

subsection \<open>The whole script\<close>

definition permission_map :: "platform_permission list \<Rightarrow> (string \<times> string) list" where
  "permission_map t = map (permission_entry t) PLATFORM_PERMISSIONS"

text \<open>
  A core database that the script can run on: identifiers and slugs are unique, the identifiers to come are
  fresh, no other permission has the resource and action of a seed, and no assignment dangles.
\<close>

definition core_ok :: "(nat \<Rightarrow> string) \<Rightarrow> core_db \<Rightarrow> bool" where
  "core_ok uuid d \<longleftrightarrow>
     permissions_ok uuid (cd_rnd d) (cd_permissions d) \<and> roles_ok uuid (cd_rnd d) (cd_roles d) \<and>
     plans_ok uuid (cd_rnd d) (cd_plans d) \<and>
     (\<forall>g \<in> set (cd_rolePermissions d). platform_role_permission_refs g d)"

lemma seed_slugs_distinct:
  "distinct (map pps_slug PLATFORM_PERMISSIONS)" "distinct (map prs_slug PLATFORM_ROLES)"
  "distinct (map ts_slug TENANT_PLANS)" "distinct (map mp_vertical MODULE_PRESETS)"
  "distinct (map term_key VERTICAL_TERMINOLOGY)"
  by (simp_all add: PLATFORM_PERMISSIONS_def platform_permission_seed_def PLATFORM_ROLES_def platform_role_seed_def
        TENANT_PLANS_def MODULE_PRESETS_def VERTICAL_TERMINOLOGY_def terminology_def term_key_def)

definition permissions_seeded :: "core_db \<Rightarrow> bool" where
  "permissions_seeded d \<longleftrightarrow>
     (\<forall>p \<in> set PLATFORM_PERMISSIONS. seeded pp_slug (pps_slug p) (patch_platform_permission p) (cd_permissions d))"

definition beside_permissions where
  "beside_permissions d = (cd_roles d, cd_rolePermissions d, cd_plans d, cd_presets d, cd_terms d)"

lemma permissions_phase:
  assumes "permissions_ok uuid (cd_rnd d) (cd_permissions d)"
  shows "\<exists>d'. seedPermissions uuid now d = (Inr (permission_map (cd_permissions d')), d') \<and>
    permissions_ok uuid (cd_rnd d') (cd_permissions d') \<and> cd_rnd d \<le> cd_rnd d' \<and> permissions_seeded d' \<and>
    identified pp_slug pp_id (cd_permissions d) (cd_permissions d') \<and>
    beside_permissions d' = beside_permissions d"
proof -
  from permission_seeds.steps_return [OF assms] obtain d' where
    run: "forEach PLATFORM_PERMISSIONS (permission_seeds.step uuid now) d = (Inr (), d')"
    and ok: "permissions_ok uuid (cd_rnd d') (cd_permissions d')" by blast
  have "seedPermissions uuid now d = (Inr (permission_map (cd_permissions d')), d')"
    using seedPermissions_from_run [OF run, of "[]"] seed_slugs_distinct(1)
    by (simp add: seedPermissions_def permission_map_def)
  moreover have "permissions_seeded d'"
    using permission_seeds.steps_seeded [OF run seed_slugs_distinct(1)] by (simp add: permissions_seeded_def)
  moreover have "has_effect (same beside_permissions) (forEach PLATFORM_PERMISSIONS (permission_seeds.step uuid now))"
    by (intro same.effect_forEach same.effect_await same.effect_ret upsert_same)
      (simp_all add: beside_permissions_def platformPermission_def)
  then have "beside_permissions d' = beside_permissions d" using run by (auto dest: has_effectD simp: same_def)
  ultimately show ?thesis using permission_seeds.steps_keep [OF run] ok by blast
qed

lemma permissions_skip:
  assumes "permissions_seeded d"
  shows "seedPermissions uuid now d = (Inr (permission_map (cd_permissions d)), d)"
proof -
  have "forEach PLATFORM_PERMISSIONS (permission_seeds.step uuid now) d = (Inr (), d)"
    using assms by (intro permission_seeds.steps_skip) (simp add: permissions_seeded_def)
  from seedPermissions_from_run [OF this, of "[]"] seed_slugs_distinct(1) show ?thesis
    by (simp add: seedPermissions_def permission_map_def)
qed

text \<open>Plans, presets and terms.\<close>

definition catalog_seeded :: "int \<Rightarrow> core_db \<Rightarrow> bool" where
  "catalog_seeded now d \<longleftrightarrow>
     (\<forall>p \<in> set TENANT_PLANS. seeded tp_slug (ts_slug p) (patch_plan now p) (cd_plans d)) \<and>
     (\<forall>p \<in> set MODULE_PRESETS. seeded mp_vertical (mp_vertical p) (\<lambda>r. r\<lparr>mp_modules := mp_modules p\<rparr>) (cd_presets d)) \<and>
     (\<forall>t \<in> set VERTICAL_TERMINOLOGY. seeded term_key (term_key t)
        (\<lambda>r. r\<lparr>vt_singular := vt_singular t, vt_plural := vt_plural t, vt_icon := vt_icon t\<rparr>) (cd_terms d))"

definition seed_catalog :: "(nat \<Rightarrow> string) \<Rightarrow> int \<Rightarrow> (core_db, unit) handler" where
  "seed_catalog uuid now =
     await (seedPlans uuid now) (\<lambda>_. await (seedModulePresets uuid) (\<lambda>_. seedVerticalTerminology uuid))"

definition access_part where
  "access_part d = (cd_permissions d, cd_roles d, cd_rolePermissions d)"

lemma seed_loops:
  "seedPlans uuid now = forEach TENANT_PLANS (plan_seeds.step uuid now)"
  "seedModulePresets uuid = forEach MODULE_PRESETS (preset_seeds.step uuid)"
  "seedVerticalTerminology uuid = forEach VERTICAL_TERMINOLOGY (term_seeds.step uuid)"
  by (simp_all add: seedPlans_def seedModulePresets_def seedVerticalTerminology_def seed_plan_def [abs_def]
        seed_preset_def [abs_def] seed_term_def [abs_def])

lemma catalog_phase:
  assumes "plans_ok uuid (cd_rnd d) (cd_plans d)"
  shows "\<exists>d'. seed_catalog uuid now d = (Inr (), d') \<and> plans_ok uuid (cd_rnd d') (cd_plans d') \<and>
    cd_rnd d \<le> cd_rnd d' \<and> catalog_seeded now d' \<and> access_part d' = access_part d"
proof -
  from plan_seeds.steps_return [OF assms] obtain d1 where
    r1: "forEach TENANT_PLANS (plan_seeds.step uuid now) d = (Inr (), d1)"
    and ok: "plans_ok uuid (cd_rnd d1) (cd_plans d1)" by blast
  obtain d2 where r2: "forEach MODULE_PRESETS (preset_seeds.step uuid) d1 = (Inr (), d2)"
    using preset_seeds.steps_return [where d = d1 and xs = MODULE_PRESETS and uuid = uuid] by auto
  obtain d3 where r3: "forEach VERTICAL_TERMINOLOGY (term_seeds.step uuid) d2 = (Inr (), d3)"
    using term_seeds.steps_return [where d = d2 and xs = VERTICAL_TERMINOLOGY and uuid = uuid] by auto
  have "has_effect (same (\<lambda>d. (access_part d, cd_presets d, cd_terms d))) (forEach TENANT_PLANS (plan_seeds.step uuid now))"
    by (intro same.effect_forEach same.effect_await same.effect_ret upsert_same)
      (simp_all add: access_part_def tenantPlan_def)
  from has_effectD [OF this r1] have s1: "access_part d1 = access_part d" by (simp add: same_def)
  have "has_effect (same (\<lambda>d. (access_part d, cd_plans d, cd_terms d))) (forEach MODULE_PRESETS (preset_seeds.step uuid))"
    by (intro same.effect_forEach same.effect_await same.effect_ret upsert_same)
      (simp_all add: access_part_def modulePreset_def)
  from has_effectD [OF this r2] have s2: "access_part d2 = access_part d1" "cd_plans d2 = cd_plans d1"
    by (simp_all add: same_def)
  have "has_effect (same (\<lambda>d. (access_part d, cd_plans d, cd_presets d))) (forEach VERTICAL_TERMINOLOGY (term_seeds.step uuid))"
    by (intro same.effect_forEach same.effect_await same.effect_ret upsert_same)
      (simp_all add: access_part_def verticalTerminology_def)
  from has_effectD [OF this r3] have s3: "access_part d3 = access_part d2" "cd_plans d3 = cd_plans d2"
      "cd_presets d3 = cd_presets d2"
    by (simp_all add: same_def)
  have "seed_catalog uuid now d = (Inr (), d3)"
    unfolding seed_catalog_def seed_loops by (simp only: await_run r1 r2 r3 prod.case sum.case)
  moreover have n: "cd_rnd d \<le> cd_rnd d1" "cd_rnd d1 \<le> cd_rnd d3"
    using plan_seeds.steps_keep [OF r1] preset_seeds.steps_keep [OF r2] term_seeds.steps_keep [OF r3] by simp_all
  moreover have "plans_ok uuid (cd_rnd d3) (cd_plans d3)"
    using plan_seeds.ok_mono [OF ok n(2)] s2(2) s3(2) by simp
  moreover have "catalog_seeded now d3"
    using plan_seeds.steps_seeded [OF r1] preset_seeds.steps_seeded [OF r2] term_seeds.steps_seeded [OF r3]
      seed_slugs_distinct(3-5) s2(2) s3(2,3)
    by (simp add: catalog_seeded_def)
  ultimately show ?thesis using s1 s2(1) s3(1) by auto
qed

lemma catalog_skip:
  assumes "catalog_seeded now d"
  shows "seed_catalog uuid now d = (Inr (), d)"
proof -
  have "forEach TENANT_PLANS (plan_seeds.step uuid now) d = (Inr (), d)"
      "forEach MODULE_PRESETS (preset_seeds.step uuid) d = (Inr (), d)"
      "forEach VERTICAL_TERMINOLOGY (term_seeds.step uuid) d = (Inr (), d)"
    using assms unfolding catalog_seeded_def
    by (blast intro: plan_seeds.steps_skip preset_seeds.steps_skip term_seeds.steps_skip)+
  then show ?thesis unfolding seed_catalog_def seed_loops by (simp only: await_run prod.case sum.case)
qed

text \<open>The map of the first phase is one that the second can use.\<close>

lemma permission_map_fst: "map fst (permission_map t) = map pps_slug PLATFORM_PERMISSIONS"
  by (simp add: permission_map_def permission_entry_def o_def)

lemma permission_map_ok:
  assumes "permissions_ok uuid n (cd_permissions d)" and "permissions_seeded d"
  shows "map_ok (permission_map (cd_permissions d)) (cd_permissions d)"
proof -
  let ?t = "cd_permissions d"
  have seeded: "seeded pp_slug (pps_slug p) (patch_platform_permission p) ?t" if "p \<in> set PLATFORM_PERMISSIONS" for p
    using assms(2) that by (simp add: permissions_seeded_def)
  have unique: "uniqueBy pp_id ?t" "[] \<notin> pp_id ` set ?t"
    using assms(1) by (simp_all add: permissions_ok_def ids_fresh_def)
  have "inj_on (\<lambda>p. id_of pp_slug pp_id ?t (pps_slug p)) (set PLATFORM_PERMISSIONS)"
    using seeded_ids_differ [OF unique(1) seeded seeded] seed_slugs_distinct(1)
    by (auto simp: inj_on_def distinct_map)
  then have "distinct (map snd (permission_map ?t))"
    using seed_slugs_distinct(1) by (simp add: permission_map_def permission_entry_def o_def distinct_map)
  moreover have "snd ` set (permission_map ?t) \<subseteq> pp_id ` set ?t"
    using seeded_id [OF seeded, of _ pp_id] by (force simp: permission_map_def permission_entry_def)
  ultimately show ?thesis
    using unique(2) seed_slugs_distinct(1) by (auto simp: map_ok_def permission_map_fst)
qed

lemma platform_roles_targets: "\<forall>role \<in> set PLATFORM_ROLES. targets_ok (permission_map t) role"
proof
  fix role
  assume role: "role \<in> set PLATFORM_ROLES"
  have keys: "fst ` set (permission_map t) = set (map pps_slug PLATFORM_PERMISSIONS)"
    by (metis permission_map_fst set_map)
  show "targets_ok (permission_map t) role"
  proof (cases "prs_permissions role")
    case Every
    with keys seed_slugs_distinct(1) show ?thesis
      by (simp add: targets_ok_def target_slugs_def permission_map_fst)
  next
    case (Listed slugs)
    with role have "distinct slugs \<and> set slugs \<subseteq> set (map pps_slug PLATFORM_PERMISSIONS)"
      by (auto simp: PLATFORM_ROLES_def PLATFORM_PERMISSIONS_def platform_role_seed_def platform_permission_seed_def)
    with Listed keys show ?thesis by (simp add: targets_ok_def target_slugs_def)
  qed
qed

definition roles_seeded :: "int \<Rightarrow> core_db \<Rightarrow> bool" where
  "roles_seeded now d \<longleftrightarrow> (\<forall>r \<in> set PLATFORM_ROLES. role_seeded now (cd_roles d) r)"

lemma seed_main_phases:
  "seed_main uuid now =
     await (seedPermissions uuid now) (\<lambda>m. await (seedRoles uuid now m) (\<lambda>_. seed_catalog uuid now))"
  by (simp add: seed_main_def seed_catalog_def)

lemma seed_main_run:
  assumes "core_ok uuid d"
  shows "\<exists>d'. seed_main uuid now d = (Inr (), d') \<and> permissions_ok uuid (cd_rnd d') (cd_permissions d') \<and>
    roles_ok uuid (cd_rnd d') (cd_roles d') \<and> plans_ok uuid (cd_rnd d') (cd_plans d') \<and>
    permissions_seeded d' \<and> roles_seeded now d' \<and> catalog_seeded now d' \<and>
    identified pp_slug pp_id (cd_permissions d) (cd_permissions d') \<and>
    identified plr_slug plr_id (cd_roles d) (cd_roles d') \<and>
    plr_slug ` set (cd_roles d') \<subseteq> plr_slug ` set (cd_roles d) \<union> prs_slug ` set PLATFORM_ROLES \<and>
    cd_rolePermissions d' =
      regranted now (permission_map (cd_permissions d')) (cd_roles d') PLATFORM_ROLES (cd_rolePermissions d)"
proof -
  from assms have ok: "permissions_ok uuid (cd_rnd d) (cd_permissions d)" "roles_ok uuid (cd_rnd d) (cd_roles d)"
      "plans_ok uuid (cd_rnd d) (cd_plans d)"
    by (simp_all add: core_ok_def)
  from permissions_phase [OF ok(1)] obtain d1 where
    d1: "seedPermissions uuid now d = (Inr (permission_map (cd_permissions d1)), d1)"
      "permissions_ok uuid (cd_rnd d1) (cd_permissions d1)" "cd_rnd d \<le> cd_rnd d1" "permissions_seeded d1"
      "identified pp_slug pp_id (cd_permissions d) (cd_permissions d1)"
      "beside_permissions d1 = beside_permissions d" by blast
  from d1(6) have same1: "cd_roles d1 = cd_roles d" "cd_rolePermissions d1 = cd_rolePermissions d" "cd_plans d1 = cd_plans d"
    by (simp_all add: beside_permissions_def)
  have "roles_ok uuid (cd_rnd d1) (cd_roles d1)"
    using role_seeds.ok_mono [OF ok(2) d1(3)] same1 by simp
  from seed_roles_run [where now = now, OF this permission_map_ok [OF d1(2,4)] platform_roles_targets seed_slugs_distinct(2)]
  obtain d2 where d2: "seedRoles uuid now (permission_map (cd_permissions d1)) d1 = (Inr (), d2)"
      "roles_ok uuid (cd_rnd d2) (cd_roles d2)" "cd_rnd d1 \<le> cd_rnd d2" "beside_roles d2 = beside_roles d1"
      "identified plr_slug plr_id (cd_roles d1) (cd_roles d2)"
      "plr_slug ` set (cd_roles d2) \<subseteq> plr_slug ` set (cd_roles d1) \<union> prs_slug ` set PLATFORM_ROLES"
      "roles_seeded now d2"
      "cd_rolePermissions d2 =
        regranted now (permission_map (cd_permissions d1)) (cd_roles d2) PLATFORM_ROLES (cd_rolePermissions d1)"
    unfolding seedRoles_def roles_seeded_def by blast
  from d2(4) have same2: "cd_permissions d2 = cd_permissions d1" "cd_plans d2 = cd_plans d1"
    by (simp_all add: beside_roles_def)
  have "plans_ok uuid (cd_rnd d2) (cd_plans d2)"
    using plan_seeds.ok_mono [OF ok(3), of "cd_rnd d2"] d1(3) d2(3) same1 same2 by simp
  from catalog_phase [OF this] obtain d3 where
    d3: "seed_catalog uuid now d2 = (Inr (), d3)" "plans_ok uuid (cd_rnd d3) (cd_plans d3)" "cd_rnd d2 \<le> cd_rnd d3"
      "catalog_seeded now d3" "access_part d3 = access_part d2" by blast
  from d3(5) have same3: "cd_permissions d3 = cd_permissions d1" "cd_roles d3 = cd_roles d2"
      "cd_rolePermissions d3 = cd_rolePermissions d2"
    using same2 by (simp_all add: access_part_def)
  have "seed_main uuid now d = (Inr (), d3)"
    by (simp add: seed_main_phases await_run d1(1) d2(1) d3(1))
  moreover have "permissions_ok uuid (cd_rnd d3) (cd_permissions d3)"
    using permission_seeds.ok_mono [OF d1(2), of "cd_rnd d3"] d2(3) d3(3) same3 by simp
  moreover have "roles_ok uuid (cd_rnd d3) (cd_roles d3)"
    using role_seeds.ok_mono [OF d2(2) d3(3)] same3 by simp
  ultimately show ?thesis
    using d1(4,5) d2(5-8) d3(2,4) same1 same3 by (auto simp: permissions_seeded_def roles_seeded_def)
qed

lemma identified_ids: "uniqueBy key t \<Longrightarrow> identified key ident t t' \<Longrightarrow> ident ` set t \<subseteq> ident ` set t'"
proof
  fix i
  assume "uniqueBy key t" "identified key ident t t'" "i \<in> ident ` set t"
  then obtain r where "lookupBy key (key r) t = Some r" "i = ident r" by (auto intro: lookupBy_unique)
  with \<open>identified key ident t t'\<close> obtain r' where "lookupBy key (key r) t' = Some r'" "ident r' = i"
    unfolding identified_def by blast
  then show "i \<in> ident ` set t'" by (auto dest: lookupBy_in)
qed

lemma regranted_twice: "regranted now m t rs (regranted now m t rs gs) = regranted now m t rs gs"
proof -
  have "filter (\<lambda>g. prp_platformRoleId g \<notin> (\<lambda>r. id_of plr_slug plr_id t (prs_slug r)) ` set rs)
      (concat (map (granted now m t) rs)) = []"
    by (auto simp: filter_empty_conv granted_def assignment_def)
  then show ?thesis by (simp add: regranted_def)
qed

lemma refs_iff:
  "platform_role_permission_refs g d \<longleftrightarrow>
     prp_platformRoleId g \<in> plr_id ` set (cd_roles d) \<and>
     prp_platformPermissionId g \<in> pp_id ` set (cd_permissions d)"
  by (auto simp: platform_role_permission_refs_def existsRow_iff image_iff) (metis+)

lemma granted_refs:
  assumes "g \<in> set (granted now (permission_map (cd_permissions d)) (cd_roles d) role)" and "role \<in> set PLATFORM_ROLES"
    and "permissions_ok uuid n (cd_permissions d)" "permissions_seeded d" "roles_seeded now d"
  shows "platform_role_permission_refs g d"
proof -
  let ?m = "permission_map (cd_permissions d)"
  from assms(1) obtain s where g: "g = assignment now ?m (id_of plr_slug plr_id (cd_roles d) (prs_slug role)) s"
      and s: "s \<in> set (target_slugs ?m role)"
    by (auto simp: granted_def)
  from platform_roles_targets [of "cd_permissions d"] assms(2) s have "s \<in> fst ` set ?m" by (auto simp: targets_ok_def)
  from map_ok_lookup [OF permission_map_ok [OF assms(3,4)] this]
  have "the (map_of ?m s) \<in> pp_id ` set (cd_permissions d)" by auto
  moreover have "id_of plr_slug plr_id (cd_roles d) (prs_slug role) \<in> plr_id ` set (cd_roles d)"
    using assms(2,5) seeded_id [of plr_slug "prs_slug role" _ "cd_roles d" plr_id]
    unfolding roles_seeded_def role_seeded_def by (metis image_eqI)
  ultimately show ?thesis
    by (simp add: g refs_iff assignment_def)
qed

lemma references_kept:
  assumes "core_ok uuid d" and "seed_main uuid now d = (Inr (), d')"
  shows "\<forall>g \<in> set (cd_rolePermissions d'). platform_role_permission_refs g d'"
proof
  fix g
  assume g: "g \<in> set (cd_rolePermissions d')"
  obtain d'' where run: "seed_main uuid now d = (Inr (), d'')"
    and ok: "permissions_ok uuid (cd_rnd d'') (cd_permissions d'')" "permissions_seeded d''" "roles_seeded now d''"
    and ids: "identified pp_slug pp_id (cd_permissions d) (cd_permissions d'')"
      "identified plr_slug plr_id (cd_roles d) (cd_roles d'')"
    and gs: "cd_rolePermissions d'' =
      regranted now (permission_map (cd_permissions d'')) (cd_roles d'') PLATFORM_ROLES (cd_rolePermissions d)"
    using seed_main_run [OF assms(1)] by blast
  with assms(2) have d'': "d'' = d'" by simp
  from g gs d'' consider "g \<in> set (cd_rolePermissions d)"
    | role where "role \<in> set PLATFORM_ROLES" "g \<in> set (granted now (permission_map (cd_permissions d')) (cd_roles d') role)"
    by (auto simp: regranted_def)
  then show "platform_role_permission_refs g d'"
  proof cases
    case 1
    with assms(1) have "prp_platformRoleId g \<in> plr_id ` set (cd_roles d)"
        "prp_platformPermissionId g \<in> pp_id ` set (cd_permissions d)"
      by (simp_all add: core_ok_def refs_iff)
    moreover have "plr_id ` set (cd_roles d) \<subseteq> plr_id ` set (cd_roles d')"
        "pp_id ` set (cd_permissions d) \<subseteq> pp_id ` set (cd_permissions d')"
      using identified_ids [OF _ ids(2)] identified_ids [OF _ ids(1)] assms(1) d''
      by (simp_all add: core_ok_def roles_ok_def permissions_ok_def)
    ultimately show ?thesis unfolding refs_iff by blast
  next
    case 2
    with ok d'' show ?thesis by (blast intro: granted_refs)
  qed
qed

lemma seeded_database_stays:
  assumes "permissions_ok uuid (cd_rnd d) (cd_permissions d)" "roles_ok uuid (cd_rnd d) (cd_roles d)"
    and "permissions_seeded d" "roles_seeded now d" "catalog_seeded now d"
    and gs: "cd_rolePermissions d = regranted now (permission_map (cd_permissions d)) (cd_roles d) PLATFORM_ROLES gs"
  shows "seed_main uuid now d = (Inr (), d)"
proof -
  let ?m = "permission_map (cd_permissions d)"
  from seed_roles_run [where now = now, OF assms(2) permission_map_ok [OF assms(1,3)] platform_roles_targets seed_slugs_distinct(2)] assms(4)
  obtain d' where d': "seedRoles uuid now ?m d = (Inr (), d')" "d' = d\<lparr>cd_rolePermissions := cd_rolePermissions d'\<rparr>"
      "cd_rolePermissions d' = regranted now ?m (cd_roles d') PLATFORM_ROLES (cd_rolePermissions d)"
    unfolding seedRoles_def roles_seeded_def by blast
  have "cd_roles d' = cd_roles d" by (subst d'(2)) simp
  with d'(3) gs have "cd_rolePermissions d' = cd_rolePermissions d" by (simp add: regranted_twice)
  with d'(2) have "d' = d" by simp
  with d'(1) have "seedRoles uuid now ?m d = (Inr (), d)" by simp
  then show ?thesis
    by (simp add: seed_main_phases await_run permissions_skip [OF assms(3)] catalog_skip [OF assms(5)])
qed

lemma seed_main_again:
  assumes "core_ok uuid d"
  shows "\<exists>d'. seed_main uuid now d = (Inr (), d') \<and> core_ok uuid d' \<and> seed_main uuid now d' = (Inr (), d')"
proof -
  obtain d' where run: "seed_main uuid now d = (Inr (), d')"
    and ok: "permissions_ok uuid (cd_rnd d') (cd_permissions d')" "roles_ok uuid (cd_rnd d') (cd_roles d')"
      "plans_ok uuid (cd_rnd d') (cd_plans d')"
    and seeded: "permissions_seeded d'" "roles_seeded now d'" "catalog_seeded now d'"
    and gs: "cd_rolePermissions d' =
      regranted now (permission_map (cd_permissions d')) (cd_roles d') PLATFORM_ROLES (cd_rolePermissions d)"
    using seed_main_run [OF assms] by blast
  have "core_ok uuid d'" using ok references_kept [OF assms run] by (simp add: core_ok_def)
  with run seeded_database_stays [OF ok(1,2) seeded gs] show ?thesis by blast
qed

subsection \<open>Runs at other times\<close>

text \<open>
  A database without its time stamps. A run at any time does to it what a run at the instant zero does,
  so that two runs differ in the stamps alone.
\<close>

definition undated_permission :: "platform_permission \<Rightarrow> platform_permission" where
  "undated_permission r = r\<lparr>pp_createdAt := 0\<rparr>"

definition undated_role :: "platform_role \<Rightarrow> platform_role" where
  "undated_role r = r\<lparr>plr_createdAt := 0, plr_updatedAt := 0\<rparr>"

definition undated_assignment :: "platform_role_permission \<Rightarrow> platform_role_permission" where
  "undated_assignment g = g\<lparr>prp_createdAt := 0\<rparr>"

definition undated_plan :: "plan_row \<Rightarrow> plan_row" where
  "undated_plan r = r\<lparr>tp_createdAt := 0, tp_updatedAt := 0\<rparr>"

definition undated :: "core_db \<Rightarrow> core_db" where
  "undated d = d\<lparr>cd_permissions := map undated_permission (cd_permissions d),
     cd_roles := map undated_role (cd_roles d),
     cd_rolePermissions := map undated_assignment (cd_rolePermissions d),
     cd_plans := map undated_plan (cd_plans d)\<rparr>"

definition same_but_dates :: "('a \<Rightarrow> 'b) \<Rightarrow> (core_db, 'a) handler \<Rightarrow> (core_db, 'b) handler \<Rightarrow> bool" where
  "same_but_dates er m m0 \<longleftrightarrow>
     (\<forall>d. m0 (undated d) = (case m d of (r, d') \<Rightarrow> (map_sum id er r, undated d')))"

lemma same_but_dates_await:
  "same_but_dates er m m0 \<Longrightarrow> (\<And>x. same_but_dates er' (f x) (f0 (er x))) \<Longrightarrow>
     same_but_dates er' (await m f) (await m0 f0)"
  by (simp add: same_but_dates_def await_run split: prod.splits sum.splits)

lemma same_but_dates_ret: "y = er x \<Longrightarrow> same_but_dates er (ret x) (ret y)"
  by (simp add: same_but_dates_def)

lemma same_but_dates_throw: "same_but_dates er (throw e) (throw e)"
  by (simp add: same_but_dates_def)

lemma same_but_dates_if:
  "b = b0 \<Longrightarrow> (b0 \<Longrightarrow> same_but_dates er m m0) \<Longrightarrow> (\<not> b0 \<Longrightarrow> same_but_dates er n n0) \<Longrightarrow>
     same_but_dates er (if b then m else n) (if b0 then m0 else n0)"
  by simp

lemma same_but_dates_forEach:
  "(\<And>x. same_but_dates id (f x) (f0 (er x))) \<Longrightarrow> same_but_dates id (forEach xs f) (forEach (map er xs) f0)"
  by (induction xs) (auto intro!: same_but_dates_await [where er = id] same_but_dates_ret)

lemma same_but_dates_loop:
  "(\<And>x. same_but_dates id (f x) (f0 x)) \<Longrightarrow> same_but_dates id (forEach xs f) (forEach xs f0)"
  by (induction xs) (auto intro!: same_but_dates_await [where er = id] same_but_dates_ret)

lemma same_but_dates_transaction: "same_but_dates er m m0 \<Longrightarrow> same_but_dates er (transaction m) (transaction m0)"
  by (simp add: same_but_dates_def transaction_def split: prod.splits sum.splits)

lemma same_but_dates_uuid: "same_but_dates id (gen_random_uuid uuid) (gen_random_uuid uuid)"
  by (simp add: same_but_dates_def gen_random_uuid_run undated_def)

lemma lookupBy_erased: "(\<And>r. key (er r) = key r) \<Longrightarrow> lookupBy key k (map er t) = map_option er (lookupBy key k t)"
  by (induction t) (simp_all add: lookupBy_def findRow_def)

locale dated_table =
  fixes T :: "(core_db, 'r) tbl"
    and content :: "core_db \<Rightarrow> 'r list"
    and er :: "'r \<Rightarrow> 'r"
  assumes rows: "rows T d = Some (content d)"
    and content_undated: "content (undated d) = map er (content d)"
    and on_rows_undated: "f0 (map er (content d)) = map er (f (content d)) \<Longrightarrow>
      on_rows T f0 (undated d) = undated (on_rows T f d)"
begin

lemma same_query: "(\<And>t. f0 (map er t) = e (f t)) \<Longrightarrow> same_but_dates e (query T f) (query T f0)"
  by (simp add: same_but_dates_def query_run rows content_undated)

lemma same_mutate: "(\<And>t. f0 (map er t) = map er (f t)) \<Longrightarrow> same_but_dates id (mutate T f) (mutate T f0)"
  by (simp add: same_but_dates_def on_rows_undated)

lemma same_create:
  assumes "\<And>r. clash (er x) (er r) = clash x r" and "\<And>d. refs (er x) (undated d) = refs x d"
  shows "same_but_dates er (create T clash refs x) (create T clash refs (er x))"
proof -
  have "existsRow (clash (er x)) (map er t) = existsRow (clash x) t" for t
    by (induction t) (simp_all add: existsRow_def assms(1))
  then show ?thesis
    using assms(2)
    by (simp add: same_but_dates_def create_run [OF rows] content_undated on_rows_undated insertRow_def)
qed

lemma same_update:
  assumes "\<And>r. key (er r) = key r" and "\<And>r. f0 (er r) = er (f r)"
  shows "same_but_dates er (update T key k f) (update T key k f0)"
proof -
  have "updateBy key k f0 (map er t) = map er (updateBy key k f t)" for t
    by (induction t) (simp_all add: updateBy_def updateRows_def assms)
  then show ?thesis
    by (simp add: same_but_dates_def update_run [OF rows] content_undated on_rows_undated lookupBy_erased assms
        split: option.split)
qed

lemma same_upsert:
  assumes "\<And>r. key (er r) = key r" and "\<And>r q. clash (er r) (er q) = clash r q"
    and "\<And>r. f0 (er r) = er (f r)" and "\<And>i. mk0 i = er (mk i)"
  shows "same_but_dates er (upsert uuid T key clash k mk f) (upsert uuid T key clash k mk0 f0)"
  unfolding upsert_def findUnique_def assms(4)
  by (intro same_but_dates_await [where er = "map_option er"] same_but_dates_if same_query same_update
      same_but_dates_await [OF same_but_dates_uuid] lookupBy_erased assms)
    (simp_all add: assms same_create no_refs_def)

end

interpretation dated_permissions: dated_table platformPermission cd_permissions undated_permission
  by unfold_locales (simp_all add: platformPermission_def undated_def)

interpretation dated_roles: dated_table platformRole cd_roles undated_role
  by unfold_locales (simp_all add: platformRole_def undated_def)

interpretation dated_assignments: dated_table platformRolePermission cd_rolePermissions undated_assignment
  by unfold_locales (simp_all add: platformRolePermission_def undated_def)

interpretation dated_plans: dated_table tenantPlan cd_plans undated_plan
  by unfold_locales (simp_all add: tenantPlan_def undated_def)

interpretation dated_presets: dated_table modulePreset cd_presets id
  by unfold_locales (simp_all add: modulePreset_def undated_def)

interpretation dated_terms: dated_table verticalTerminology cd_terms id
  by unfold_locales (simp_all add: verticalTerminology_def undated_def)

lemma same_seedPermissions: "same_but_dates id (seedPermissions uuid now) (seedPermissions uuid 0)"
proof -
  have "same_but_dates id (seedPermissions_from uuid now ps m) (seedPermissions_from uuid 0 ps m)" for ps m
  proof (induction ps arbitrary: m)
    case (Cons p ps)
    have "pp_id (undated_permission row) = pp_id row" for row by (simp add: undated_permission_def)
    with Cons show ?case
      by (auto intro!: same_but_dates_await [where er = undated_permission] dated_permissions.same_upsert
          simp: undated_permission_def new_platform_permission_def patch_platform_permission_def
            platform_permission_clash_def)
  qed (simp add: same_but_dates_ret)
  then show ?thesis by (simp add: seedPermissions_def)
qed

lemma same_assignments:
  "same_but_dates (map undated_assignment) (assignments now m roleId slugs) (assignments 0 m roleId slugs)"
proof (induction slugs)
  case Nil
  show ?case unfolding assignments.simps by (rule same_but_dates_ret) simp
next
  case (Cons s slugs)
  show ?case
    unfolding assignments.simps
    by (intro same_but_dates_if same_but_dates_throw same_but_dates_await [OF Cons.IH] same_but_dates_ret)
      (simp_all add: undated_assignment_def)
qed

lemma same_add_assignment: "same_but_dates id (add_assignment g) (add_assignment (undated_assignment g))"
proof -
  have key: "assignment_key (undated_assignment g) = assignment_key g" for g
    by (simp add: assignment_key_def undated_assignment_def)
  have refs: "platform_role_permission_refs (undated_assignment g) (undated d) = platform_role_permission_refs g d"
    for d
    by (simp add: refs_iff undated_def undated_assignment_def image_image undated_role_def undated_permission_def)
  show ?thesis
    unfolding add_assignment_def
    by (intro same_but_dates_await [where er = id] same_but_dates_if same_but_dates_ret
        same_but_dates_await [OF dated_assignments.same_create] dated_assignments.same_query refl)
      (simp_all add: existsRow_def list_ex_iff assignment_clash_def key refs)
qed

lemma same_seed_role: "same_but_dates id (seed_role uuid now m role) (seed_role uuid 0 m role)"
proof -
  have upsert: "same_but_dates undated_role (upsert_platform_role uuid now role) (upsert_platform_role uuid 0 role)"
    unfolding upsert_platform_role_def
    by (rule dated_roles.same_upsert)
      (simp_all add: undated_role_def new_platform_role_def patch_platform_role_def platform_role_clash_def)
  have id: "plr_id (undated_role r) = plr_id r" for r by (simp add: undated_role_def)
  have delete: "same_but_dates id (deleteMany platformRolePermission (\<lambda>g. prp_platformRoleId g = i))
      (deleteMany platformRolePermission (\<lambda>g. prp_platformRoleId g = i))" for i
    unfolding deleteMany_def count_def
    by (intro same_but_dates_await [where er = id] dated_assignments.same_query dated_assignments.same_mutate
        same_but_dates_ret)
      (simp_all add: countRows_def deleteRows_def filter_map o_def undated_assignment_def)
  have create: "same_but_dates id (createMany_skipDuplicates gs) (createMany_skipDuplicates (map undated_assignment gs))"
    for gs
    unfolding createMany_skipDuplicates_def
    by (intro same_but_dates_transaction same_but_dates_forEach) (rule same_add_assignment)
  have grants: "same_but_dates id
      (await (assignments now m i slugs) createMany_skipDuplicates)
      (await (assignments 0 m i slugs) createMany_skipDuplicates)" for i slugs
    by (rule same_but_dates_await [OF same_assignments]) (rule create)
  have "same_but_dates id
      (await (deleteMany platformRolePermission (\<lambda>g. prp_platformRoleId g = i)) (\<lambda>_.
         await (assignments now m i slugs) createMany_skipDuplicates))
      (await (deleteMany platformRolePermission (\<lambda>g. prp_platformRoleId g = i)) (\<lambda>_.
         await (assignments 0 m i slugs) createMany_skipDuplicates))" for i slugs
    by (rule same_but_dates_await [OF delete]) (rule grants)
  then show ?thesis
    unfolding seed_role_def by (intro same_but_dates_await [OF upsert]) (simp add: id)
qed

lemma same_seed_catalog: "same_but_dates id (seed_catalog uuid now) (seed_catalog uuid 0)"
proof -
  have "same_but_dates id (seed_plan uuid now plan) (seed_plan uuid 0 plan)" for plan
    unfolding seed_plan_def
    by (intro same_but_dates_await [OF dated_plans.same_upsert] same_but_dates_ret)
      (simp_all add: undated_plan_def new_plan_def patch_plan_def plan_clash_def)
  moreover have "same_but_dates id (seed_preset uuid preset) (seed_preset uuid preset)" for preset
    unfolding seed_preset_def
    by (intro same_but_dates_await [OF dated_presets.same_upsert] same_but_dates_ret) simp_all
  moreover have "same_but_dates id (seed_term uuid t) (seed_term uuid t)" for t
    unfolding seed_term_def
    by (intro same_but_dates_await [OF dated_terms.same_upsert] same_but_dates_ret) simp_all
  ultimately show ?thesis
    unfolding seed_catalog_def seedPlans_def seedModulePresets_def seedVerticalTerminology_def
    by (intro same_but_dates_await [where er = id] same_but_dates_loop)
qed

lemma same_seed_main: "same_but_dates id (seed_main uuid now) (seed_main uuid 0)"
proof -
  have "same_but_dates id (seedRoles uuid now m) (seedRoles uuid 0 m)" for m
    unfolding seedRoles_def by (rule same_but_dates_loop) (rule same_seed_role)
  then have "same_but_dates id (await (seedRoles uuid now m) (\<lambda>_. seed_catalog uuid now))
      (await (seedRoles uuid 0 m) (\<lambda>_. seed_catalog uuid 0))" for m
    by (rule same_but_dates_await) (rule same_seed_catalog)
  then show ?thesis unfolding seed_main_phases by (intro same_but_dates_await [OF same_seedPermissions]) simp
qed

lemma undated_run:
  "seed_main uuid now d = (Inr (), d') \<Longrightarrow> seed_main uuid 0 (undated d) = (Inr (), undated d')"
  using same_seed_main [of uuid now] by (auto simp: same_but_dates_def)

lemma ids_fresh_map:
  "(\<And>r. ident (f r) = ident r) \<Longrightarrow> ids_fresh uuid ident n (map f t) = ids_fresh uuid ident n t"
  by (simp add: ids_fresh_def uniqueBy_def image_image o_def)

lemma core_ok_undated: "core_ok uuid d \<Longrightarrow> core_ok uuid (undated d)"
  unfolding core_ok_def refs_iff
  by (simp add: undated_def permissions_ok_def roles_ok_def plans_ok_def ids_fresh_map uniqueBy_def o_def
      image_image slug_matches_def undated_permission_def undated_role_def undated_plan_def
      undated_assignment_def)

text \<open>C27: the script returns on every database on which it can run and leaves one on which it can, and a second
  run, at whatever time, changes nothing but time stamps: it makes and removes no row, draws no
  identifier and leaves every other column as it is. The database is one that satisfies the unique
  and foreign keys of the six tables and in which no permission other than that of a seed has the
  resource and the action of the seed; the identifiers that the database generates are different from
  each other and from those in use.\<close>

theorem core_seed_is_idempotent:
  assumes "core_ok uuid d"
  shows "\<exists>d'. seed_main uuid now d = (Inr (), d') \<and> core_ok uuid d' \<and>
    (\<forall>later. \<exists>d''. seed_main uuid later d' = (Inr (), d'') \<and> undated d'' = undated d')"
proof -
  obtain d' where d': "seed_main uuid now d = (Inr (), d')" "core_ok uuid d'"
    using seed_main_again [OF assms] by blast
  have "seed_main uuid 0 (undated d') = (Inr (), undated d')"
    using seed_main_again [OF core_ok_undated [OF assms], of 0] undated_run [OF d'(1)] by simp
  moreover have "\<exists>d''. seed_main uuid later d' = (Inr (), d'')" for later
    using seed_main_again [OF d'(2)] by blast
  ultimately show ?thesis using d' undated_run by fastforce
qed

subsection \<open>What the roles hold\<close>

definition held :: "core_db \<Rightarrow> string \<Rightarrow> string set" where
  "held d role =
     {pp_slug p | p r. p \<in> set (cd_permissions d) \<and> r \<in> set (cd_roles d) \<and> plr_slug r = role \<and>
        (plr_id r, pp_id p) \<in> assignment_key ` set (cd_rolePermissions d)}"

definition listed_permissions :: "platform_role_seed \<Rightarrow> string set" where
  "listed_permissions role =
     (case prs_permissions role of
        Every \<Rightarrow> pps_slug ` set PLATFORM_PERMISSIONS
      | Listed slugs \<Rightarrow> set slugs)"

lemma target_slugs_listed: "set (target_slugs (permission_map t) role) = listed_permissions role"
  by (simp add: target_slugs_def listed_permissions_def permission_map_fst split: role_permissions.split)

lemma held_iff:
  "s \<in> held d role \<longleftrightarrow>
     (\<exists>p \<in> set (cd_permissions d). \<exists>r \<in> set (cd_roles d). pp_slug p = s \<and> plr_slug r = role \<and>
        (plr_id r, pp_id p) \<in> assignment_key ` set (cd_rolePermissions d))"
  by (auto simp: held_def)

lemma map_of_entries:
  "s \<in> pps_slug ` set ps \<Longrightarrow> map_of (map (permission_entry t) ps) s = Some (id_of pp_slug pp_id t s)"
  by (induction ps) (auto simp: permission_entry_def)

text \<open>A row is found again by its identifier, and the row of a slug by the slug.\<close>

lemma unique_row: "uniqueBy ident t \<Longrightarrow> r \<in> set t \<Longrightarrow> r' \<in> set t \<Longrightarrow> ident r = ident r' \<Longrightarrow> r = r'"
  by (auto simp: uniqueBy_def distinct_map dest: inj_onD)

lemma identified_row:
  assumes "uniqueBy key t" and "identified key ident t t'" and "r \<in> set t"
  shows "\<exists>r' \<in> set t'. key r' = key r \<and> ident r' = ident r"
proof -
  have "lookupBy key (key r) t = Some r" using assms(1,3) by (rule lookupBy_unique)
  with assms(2) obtain r' where "lookupBy key (key r) t' = Some r'" "ident r' = ident r"
    unfolding identified_def by blast
  then show ?thesis by (auto dest: lookupBy_in)
qed

lemma granted_role: "g \<in> set (granted now m t r) \<Longrightarrow> prp_platformRoleId g = id_of plr_slug plr_id t (prs_slug r)"
  by (auto simp: granted_def assignment_def)

lemma regranted_own:
  assumes "role \<in> set rs" and g: "prp_platformRoleId g = id_of plr_slug plr_id t (prs_slug role)"
    and same: "\<And>r. r \<in> set rs \<Longrightarrow>
      id_of plr_slug plr_id t (prs_slug r) = id_of plr_slug plr_id t (prs_slug role) \<Longrightarrow> r = role"
  shows "g \<in> set (regranted now m t rs gs) \<longleftrightarrow> g \<in> set (granted now m t role)"
proof
  assume "g \<in> set (regranted now m t rs gs)"
  moreover have "prp_platformRoleId g \<in> (\<lambda>r. id_of plr_slug plr_id t (prs_slug r)) ` set rs"
    unfolding g using assms(1) by (rule imageI)
  ultimately obtain r where r: "r \<in> set rs" "g \<in> set (granted now m t r)"
    unfolding regranted_def by auto
  from granted_role [OF r(2)] have "id_of plr_slug plr_id t (prs_slug r) = id_of plr_slug plr_id t (prs_slug role)"
    unfolding g by (rule sym)
  with same r have "r = role" by blast
  with r(2) show "g \<in> set (granted now m t role)" by simp
next
  assume "g \<in> set (granted now m t role)"
  with assms(1) show "g \<in> set (regranted now m t rs gs)" by (auto simp: regranted_def)
qed

lemma regranted_other:
  assumes "prp_platformRoleId g \<notin> (\<lambda>r. id_of plr_slug plr_id t (prs_slug r)) ` set rs"
  shows "g \<in> set (regranted now m t rs gs) \<longleftrightarrow> g \<in> set gs"
  using assms by (auto simp: regranted_def dest: granted_role)

text \<open>The same for the keys of the assignments.\<close>

lemma same_keys:
  assumes "\<And>g. prp_platformRoleId g = i \<Longrightarrow> g \<in> G \<longleftrightarrow> g \<in> H"
  shows "(i, j) \<in> assignment_key ` G \<longleftrightarrow> (i, j) \<in> assignment_key ` H"
  using assms by (auto simp: assignment_key_def image_iff)

lemma held_seeded:
  assumes ok: "permissions_ok uuid n (cd_permissions d)" "roles_ok uuid n' (cd_roles d)"
    and seeded: "permissions_seeded d" "roles_seeded now d"
    and gs: "cd_rolePermissions d = regranted now (permission_map (cd_permissions d)) (cd_roles d) PLATFORM_ROLES gs"
    and role: "role \<in> set PLATFORM_ROLES"
  shows "held d (prs_slug role) = listed_permissions role"
proof -
  let ?m = "permission_map (cd_permissions d)"
  let ?rid = "\<lambda>r. id_of plr_slug plr_id (cd_roles d) (prs_slug r)"
  let ?pid = "id_of pp_slug pp_id (cd_permissions d)"
  have unique: "uniqueBy plr_slug (cd_roles d)" "uniqueBy pp_id (cd_permissions d)"
    using ok by (simp_all add: roles_ok_def permissions_ok_def ids_fresh_def)
  have listed: "listed_permissions role \<subseteq> pps_slug ` set PLATFORM_PERMISSIONS" if "role \<in> set PLATFORM_ROLES" for role
  proof -
    have "fst ` set ?m = pps_slug ` set PLATFORM_PERMISSIONS"
      by (metis permission_map_fst set_map)
    moreover have "set (target_slugs ?m role) \<subseteq> fst ` set ?m"
      using platform_roles_targets that by (simp add: targets_ok_def)
    ultimately show ?thesis by (simp add: target_slugs_listed)
  qed
  have grants: "(?rid role, i) \<in> assignment_key ` set (cd_rolePermissions d) \<longleftrightarrow>
      (\<exists>s \<in> listed_permissions role. i = ?pid s)" for i
  proof -
    have same: "r = role" if "r \<in> set PLATFORM_ROLES" "?rid r = ?rid role" for r
      using role_ids_differ [OF ok(2), of now r role] that role seeded(2) seed_slugs_distinct(2)
      by (auto simp: roles_seeded_def distinct_map dest: inj_onD)
    have entry: "the (map_of ?m s) = ?pid s" if "s \<in> listed_permissions role" for s
      using map_of_entries [of s PLATFORM_PERMISSIONS] listed [OF role] that by (auto simp: permission_map_def)
    have "(?rid role, i) \<in> assignment_key ` set (cd_rolePermissions d) \<longleftrightarrow>
        (?rid role, i) \<in> assignment_key ` set (granted now ?m (cd_roles d) role)"
      unfolding gs using role by (intro same_keys regranted_own same) simp_all
    also have "\<dots> \<longleftrightarrow> (\<exists>s \<in> listed_permissions role. i = ?pid s)"
      using entry target_slugs_listed [of "cd_permissions d" role]
      by (auto simp: granted_def assignment_def assignment_key_def image_iff)
    finally show ?thesis .
  qed
  have row: "plr_id r = ?rid role" if "r \<in> set (cd_roles d)" "plr_slug r = prs_slug role" for r
    using lookupBy_unique [OF unique(1) that(1)] that(2) by (simp add: id_of_def)
  obtain r0 where r0: "r0 \<in> set (cd_roles d)" "plr_slug r0 = prs_slug role"
    using seeded(2) role seeded_id [of plr_slug "prs_slug role" _ "cd_roles d" plr_id]
    unfolding roles_seeded_def role_seeded_def by blast
  have perm: "\<exists>q \<in> set (cd_permissions d). pp_slug q = s \<and> ?pid s = pp_id q" if "s \<in> listed_permissions role" for s
    using listed [OF role] that seeded(1) seeded_id [of pp_slug s _ "cd_permissions d" pp_id]
    unfolding permissions_seeded_def by blast
  show ?thesis
  proof (intro equalityI subsetI)
    fix s
    assume "s \<in> held d (prs_slug role)"
    then obtain p r where "p \<in> set (cd_permissions d)" "pp_slug p = s" "r \<in> set (cd_roles d)"
        "plr_slug r = prs_slug role" "(plr_id r, pp_id p) \<in> assignment_key ` set (cd_rolePermissions d)"
      unfolding held_iff by blast
    moreover from this row [of r] have "(?rid role, pp_id p) \<in> assignment_key ` set (cd_rolePermissions d)"
      by simp
    ultimately obtain s' where p: "p \<in> set (cd_permissions d)" "pp_slug p = s" "s' \<in> listed_permissions role"
        "pp_id p = ?pid s'"
      unfolding grants by blast
    from perm [OF p(3)] obtain q where "q \<in> set (cd_permissions d)" "pp_slug q = s'" "?pid s' = pp_id q" by blast
    with p unique_row [OF unique(2), of p q] show "s \<in> listed_permissions role" by simp
  next
    fix s
    assume s: "s \<in> listed_permissions role"
    with perm obtain q where q: "q \<in> set (cd_permissions d)" "pp_slug q = s" "?pid s = pp_id q" by blast
    from q(3) have "\<exists>s \<in> listed_permissions role. pp_id q = ?pid s" by (intro bexI [OF _ s]) simp
    then have "(plr_id r0, pp_id q) \<in> assignment_key ` set (cd_rolePermissions d)"
      unfolding row [OF r0] grants .
    with q r0 show "s \<in> held d (prs_slug role)" unfolding held_iff by blast
  qed
qed

text \<open>Roles that the script does not know keep what they hold.\<close>

lemma held_other:
  assumes "core_ok uuid d"
    and ok: "permissions_ok uuid n (cd_permissions d')" "roles_ok uuid n' (cd_roles d')"
    and seeded: "roles_seeded now d'"
    and ids: "identified pp_slug pp_id (cd_permissions d) (cd_permissions d')"
      "identified plr_slug plr_id (cd_roles d) (cd_roles d')"
    and keys: "plr_slug ` set (cd_roles d') \<subseteq> plr_slug ` set (cd_roles d) \<union> prs_slug ` set PLATFORM_ROLES"
    and gs: "cd_rolePermissions d' =
      regranted now (permission_map (cd_permissions d')) (cd_roles d') PLATFORM_ROLES (cd_rolePermissions d)"
    and slug: "slug \<notin> prs_slug ` set PLATFORM_ROLES"
  shows "held d' slug = held d slug"
proof -
  have unique: "uniqueBy plr_slug (cd_roles d)" "uniqueBy pp_slug (cd_permissions d)" "uniqueBy plr_slug (cd_roles d')"
      "uniqueBy plr_id (cd_roles d')" "uniqueBy pp_id (cd_permissions d')"
    using ok assms(1) by (simp_all add: core_ok_def roles_ok_def permissions_ok_def ids_fresh_def)
  have grants: "g \<in> set (cd_rolePermissions d') \<longleftrightarrow> g \<in> set (cd_rolePermissions d)"
    if r: "r \<in> set (cd_roles d')" "plr_slug r = slug" "prp_platformRoleId g = plr_id r" for g r
    unfolding gs
  proof (rule regranted_other, rule notI)
    assume "prp_platformRoleId g \<in> (\<lambda>r. id_of plr_slug plr_id (cd_roles d') (prs_slug r)) ` set PLATFORM_ROLES"
    then obtain x where x: "x \<in> set PLATFORM_ROLES" "plr_id r = id_of plr_slug plr_id (cd_roles d') (prs_slug x)"
      using r(3) by auto
    from seeded x(1) have "seeded plr_slug (prs_slug x) (patch_platform_role now x) (cd_roles d')"
      by (simp add: roles_seeded_def role_seeded_def)
    from seeded_id [OF this, of plr_id] x(2) obtain q where
      "q \<in> set (cd_roles d')" "plr_slug q = prs_slug x" "plr_id r = plr_id q" by auto
    with unique_row [OF unique(4) r(1)] r(2) x(1) slug show False by auto
  qed
  show ?thesis
  proof (intro equalityI subsetI)
    fix s
    assume "s \<in> held d' slug"
    then obtain p' r' where p': "p' \<in> set (cd_permissions d')" "pp_slug p' = s"
      and r': "r' \<in> set (cd_roles d')" "plr_slug r' = slug"
      and "(plr_id r', pp_id p') \<in> assignment_key ` set (cd_rolePermissions d')"
      unfolding held_iff by blast
    with same_keys [OF grants [OF r']] have
      g: "(plr_id r', pp_id p') \<in> assignment_key ` set (cd_rolePermissions d)"
      by simp
    from r' have "slug \<in> plr_slug ` set (cd_roles d')" by (metis image_eqI)
    with keys slug have "slug \<in> plr_slug ` set (cd_roles d)" by blast
    then obtain r where r: "r \<in> set (cd_roles d)" "plr_slug r = slug" by auto
    from identified_row [OF unique(1) ids(2) r(1)] obtain r'' where
      "r'' \<in> set (cd_roles d')" "plr_slug r'' = slug" "plr_id r'' = plr_id r" using r(2) by auto
    with unique_row [OF unique(3) r'(1), of r''] r'(2) have role: "plr_id r = plr_id r'" by simp
    from g obtain a where "a \<in> set (cd_rolePermissions d)" "prp_platformPermissionId a = pp_id p'"
      by (auto simp: assignment_key_def)
    with assms(1) have "pp_id p' \<in> pp_id ` set (cd_permissions d)" by (metis core_ok_def refs_iff)
    then obtain p where p: "p \<in> set (cd_permissions d)" "pp_id p = pp_id p'" by auto
    from identified_row [OF unique(2) ids(1) p(1)] obtain p'' where
      "p'' \<in> set (cd_permissions d')" "pp_slug p'' = pp_slug p" "pp_id p'' = pp_id p" by auto
    with unique_row [OF unique(5) p'(1), of p''] p p' have "pp_slug p = s" by simp
    with p r g show "s \<in> held d slug" unfolding held_iff role [symmetric] by metis
  next
    fix s
    assume "s \<in> held d slug"
    then obtain p r where p: "p \<in> set (cd_permissions d)" "pp_slug p = s"
      and r: "r \<in> set (cd_roles d)" "plr_slug r = slug"
      and g: "(plr_id r, pp_id p) \<in> assignment_key ` set (cd_rolePermissions d)"
      unfolding held_iff by blast
    from identified_row [OF unique(1) ids(2) r(1)] obtain r' where
      r': "r' \<in> set (cd_roles d')" "plr_slug r' = slug" "plr_id r' = plr_id r" using r(2) by auto
    from identified_row [OF unique(2) ids(1) p(1)] obtain p' where
      p': "p' \<in> set (cd_permissions d')" "pp_slug p' = s" "pp_id p' = pp_id p" using p(2) by auto
    from g have "(plr_id r', pp_id p') \<in> assignment_key ` set (cd_rolePermissions d')"
      using same_keys [OF grants [OF r'(1,2)]] r'(3) p'(3) by simp
    with r' p' show "s \<in> held d' slug" unfolding held_iff by blast
  qed
qed

text \<open>C26: after the script every role of the platform holds exactly the permissions that the seeds list for it,
  whatever it held before; the super administrator holds those of the seeds and no other. A role that the
  seeds do not name keeps what it held.\<close>

theorem platform_roles_hold_exactly:
  assumes "core_ok uuid d" and "seed_main uuid now d = (Inr (), d')"
  shows "(\<forall>role \<in> set PLATFORM_ROLES. held d' (prs_slug role) = listed_permissions role) \<and>
    (\<forall>slug. slug \<notin> prs_slug ` set PLATFORM_ROLES \<longrightarrow> held d' slug = held d slug)"
proof -
  obtain d'' where run: "seed_main uuid now d = (Inr (), d'')"
    and ok: "permissions_ok uuid (cd_rnd d'') (cd_permissions d'')" "roles_ok uuid (cd_rnd d'') (cd_roles d'')"
    and seeded: "permissions_seeded d''" "roles_seeded now d''"
    and ids: "identified pp_slug pp_id (cd_permissions d) (cd_permissions d'')"
      "identified plr_slug plr_id (cd_roles d) (cd_roles d'')"
    and keys: "plr_slug ` set (cd_roles d'') \<subseteq> plr_slug ` set (cd_roles d) \<union> prs_slug ` set PLATFORM_ROLES"
    and gs: "cd_rolePermissions d'' =
      regranted now (permission_map (cd_permissions d'')) (cd_roles d'') PLATFORM_ROLES (cd_rolePermissions d)"
    using seed_main_run [OF assms(1)] by blast
  from run assms(2) have "d'' = d'" by simp
  with held_seeded [OF ok seeded gs] held_other [OF assms(1) ok seeded(2) ids keys gs] show ?thesis by blast
qed

subsection \<open>A database with a stale assignment\<close>

definition letters :: "nat \<Rightarrow> string" where
  "letters n = replicate (Suc n) CHR ''a''"

definition stale_core :: core_db where
  "stale_core =
     \<lparr>cd_permissions =
        [\<lparr>pp_id = ''x'', pp_slug = ''platform:tenants:rename'', pp_resource = ''tenants'', pp_action = ''rename'',
          pp_description = ''Rename a tenant'', pp_createdAt = 1\<rparr>],
      cd_roles =
        [\<lparr>plr_id = ''y'', plr_slug = ''platform_support'', plr_name = ''Support'', plr_description = None,
          plr_isSystem = True, plr_createdAt = 1, plr_updatedAt = 1\<rparr>],
      cd_rolePermissions = [\<lparr>prp_platformRoleId = ''y'', prp_platformPermissionId = ''x'', prp_createdAt = 1\<rparr>],
      cd_plans = [], cd_presets = [], cd_terms = [], cd_rnd = 0\<rparr>"

lemma stale_core_ok: "core_ok letters stale_core"
proof -
  have "good_uuid letters"
    by (simp add: good_uuid_def letters_def inj_def)
  moreover have "letters n \<noteq> ''x''" "letters n \<noteq> ''y''" for n
    by (simp_all add: letters_def)
  moreover have "slug_matches \<lparr>pp_id = ''x'', pp_slug = ''platform:tenants:rename'', pp_resource = ''tenants'',
      pp_action = ''rename'', pp_description = ''Rename a tenant'', pp_createdAt = 1\<rparr>"
    by (simp add: slug_matches_def PLATFORM_PERMISSIONS_def platform_permission_seed_def)
  ultimately show ?thesis
    by (simp add: core_ok_def stale_core_def permissions_ok_def roles_ok_def plans_ok_def ids_fresh_def uniqueBy_def
          platform_role_permission_refs_def existsRow_def)
qed

theorem core_seed_is_idempotent_witness:
  "\<exists>d' d''. seed_main letters 2 stale_core = (Inr (), d') \<and> seed_main letters 3 d' = (Inr (), d'') \<and>
     undated d'' = undated d'"
  using core_seed_is_idempotent [OF stale_core_ok] by blast

theorem platform_roles_hold_exactly_witness:
  "held stale_core ''platform_support'' = {''platform:tenants:rename''} \<and>
   (\<exists>d'. seed_main letters 2 stale_core = (Inr (), d') \<and>
     held d' ''platform_support'' =
       {''platform:tenants:view'', ''platform:tenants:impersonate'', ''platform:users:view'',
        ''platform:support:read_all'', ''platform:support:tickets_manage''})"
proof -
  obtain d' where d': "seed_main letters 2 stale_core = (Inr (), d')"
    using seed_main_run [OF stale_core_ok] by blast
  have role: "PLATFORM_ROLES ! 1 \<in> set PLATFORM_ROLES" "prs_slug (PLATFORM_ROLES ! 1) = ''platform_support''"
    by (simp_all add: PLATFORM_ROLES_def platform_role_seed_def)
  have "held d' ''platform_support'' = listed_permissions (PLATFORM_ROLES ! 1)"
    using platform_roles_hold_exactly [OF stale_core_ok d'] role by metis
  moreover have "held stale_core ''platform_support'' = {''platform:tenants:rename''}"
    by (auto simp: held_def stale_core_def assignment_key_def)
  ultimately show ?thesis
    using d' by (simp add: PLATFORM_ROLES_def platform_role_seed_def listed_permissions_def)
qed

end
