(* ===== verification/Spec2Isabelle.thy ===== *)
theory Spec2Isabelle
  imports Refresh_Race Login_Properties Account_Properties Two_Factor_Properties
    Provisioning_Properties Platform_Properties Api_Properties
    Refresh_Properties Crm_Properties Lead_Properties Schema_Grants Core_Seed_Properties
begin

text \<open>
  The BOS platform: a multi-tenant business back end of two NestJS services, \<^verbatim>\<open>apps/auth-service\<close> and
  \<^verbatim>\<open>apps/crm-core\<close>, over the libraries of \<^verbatim>\<open>libs\<close>. A client signs in at the first and works with the
  second. Both read and write one core database (users, tenants, sessions, tokens), a database with
  one schema per tenant (branches, roles, memberships, customers, leads, tasks), a key-value store
  (revocation list, lockout counters, permission cache, webhook tokens) and queues of jobs (mails,
  new leads) that workers process. All paths below are under \<^verbatim>\<open>src\<close>.
\<close>

section \<open>How the program is modelled\<close>

text \<open>
  \<^item> A handler, service method or repository method is a function \<open>(world, 'a) handler\<close> from the state
    to an error or a result and the next state (\<open>Prelude\<close>): \<open>await\<close> is the order of two
    statements, \<open>throw\<close> an exception, \<open>tryCatch\<close> a \<^verbatim>\<open>catch\<close>, \<open>transaction\<close> a \<^verbatim>\<open>$transaction\<close> that undoes its
    writes when it throws, \<open>forEach\<close> a loop. An exception does not undo what was written before it
    outside a transaction, as in the code. \<^verbatim>\<open>Promise.all\<close> is \<open>both\<close>: its parts run in the order of
    the text. The interleaving of two requests is modelled where the code is sensitive to it
    (\<open>Refresh_Race\<close>).
  \<^item> \<open>World\<close> is the state: the tables of the core database, the map from schema names to tenant
    databases, the key-value store with expiry times, the queues, the outbox, the clock in
    milliseconds and a counter from which every random value is drawn. \<open>Prisma\<close> has one definition
    per kind of query of the database client, with its unique keys (\<open>P2002\<close>), foreign keys (\<open>P2003\<close>)
    and missing rows (\<open>P2025\<close>).
  \<^item> \<open>Errors\<close> has every exception class of \<^verbatim>\<open>libs/errors\<close> as a constructor, with its code, status and
    details; \<open>Core_Schema\<close>, \<open>Tenant_Schema\<close> and \<open>Crm_Schema\<close> have the enumerations, rows and keys of
    \<^verbatim>\<open>prisma\<close>.
  \<^item> JavaScript numbers that the code counts or compares are \<open>int\<close> or \<open>nat\<close> (all are far below
    \<open>2 ^ 53\<close>), instants are milliseconds as \<open>int\<close>, strings are lists of characters. A field that may
    be null is an option; a field of a change that may also be absent is an option of an option.
  \<^item> What is not under \<^verbatim>\<open>src\<close> is a field of the environment \<open>env\<close> or an argument: hashing, signing and
    verification of tokens, one-time codes, random values, case-insensitive search, the format of
    dates, the client of the mail provider. The manager of tenant schemas sends a data definition
    statement as a text, whose effect there is a field of the environment; what the statements of
    the scripts do is modelled in \<open>Ddl\<close>. No theorem assumes more of these fields than its statement
    says.
\<close>

section \<open>The theories\<close>

text \<open>
  Shared: \<open>Prelude\<close> (handlers, the locale \<open>effect\<close> for relations that every statement keeps, the
  locale \<open>keyed_table\<close> and the collections \<open>act\<close> and \<open>table\<close>), \<open>Errors\<close>, \<open>Prisma\<close> (locale
  \<open>stored_table\<close>), the three schemas, \<open>World\<close> (locale \<open>kv_store\<close>).

  \<^verbatim>\<open>libs\<close>:
  \<^item> \<open>Passwords\<close>, \<open>Guards\<close> and \<open>Http\<close>: \<^verbatim>\<open>libs/security\<close> and \<^verbatim>\<open>libs/auth-client\<close>, the password policy, the
    three guards (locale \<open>permission_resolver\<close>), the filter, the interceptors, the middleware and
    the validation pipe.
  \<^item> \<open>Sql_Text\<close>, \<open>Tenant_Defaults\<close> and \<open>Schema_Manager\<close>: \<^verbatim>\<open>libs/database\<close>, the splitter of SQL texts (as a
    recursion and as the loop of the source), the seeds, and the provisioning of a tenant schema.
  \<^item> \<open>Names\<close> and \<open>Ddl\<close>: the statements of \<^verbatim>\<open>libs/database/src/sql\<close>, the catalog of a schema (types,
    tables with columns, indexes, foreign keys) and the execution of a script with the errors of the
    database. \<open>Tenant_Template\<close> and \<open>Tenant_Migrations\<close> are the scripts, statement by statement;
    \<open>Tenant_Models\<close> is \<^verbatim>\<open>prisma/tenant-template/schema.prisma\<close> as models with the catalog they stand for.
    \<open>Ddl_Facts\<close>, \<open>Ddl_Scripts\<close> (an instance of the locale \<open>rerunnable\<close> of \<open>Prelude\<close>), \<open>Ddl_Eval\<close> (evaluation of a script by
    the simplifier) and \<open>Tenant_Catalog\<close> carry their proofs.
  \<^item> \<open>Mail\<close>: \<^verbatim>\<open>libs/mailer\<close> and the mail worker of the authentication service.

  \<^verbatim>\<open>prisma/core/seed.ts\<close>: \<open>Core_Seed\<close> (the tables of seeds and the script) and \<open>Core_Seed_Facts\<close> (locale
  \<open>seed_table\<close>, one instance for each table that is seeded).

  \<^verbatim>\<open>apps/auth-service\<close>: \<open>Users\<close>, \<open>Tokens\<close>, \<open>Login\<close>, \<open>Refresh\<close> (with logout), \<open>Two_Factor\<close>, \<open>Accounts\<close>
  (what the links sent by mail share, locale \<open>one_time_token\<close>), \<open>Signup\<close>, \<open>Email_Verify\<close>,
  \<open>Password_Reset\<close>, \<open>Invite_Accept\<close> and \<open>Auth_Controller\<close>, each after the file of that name, and \<open>Auth_Api\<close>
  (the routes of the service, with the controller for developers).

  \<^verbatim>\<open>apps/crm-core\<close>: \<open>Permission_Resolver\<close>; \<open>Tenant_Api\<close> (the way to the schema of a tenant, the changes
  that the tables allow, and the locale \<open>tenant_writes\<close>) and \<open>Crm_Tables\<close>; and one theory per module:
  \<open>Roles\<close>, \<open>Branches\<close>, \<open>Staff\<close>, \<open>Tags\<close> (with custom fields), \<open>Contacts\<close>, \<open>Contact_Lists\<close> (with
  sources), \<open>Leads\<close>, \<open>Lead_Assignment\<close> (with statuses and the worker), \<open>Lead_Activities\<close>, \<open>Tasks\<close>,
  \<open>Webhooks\<close> and \<open>Tenant_Config\<close>. \<open>Routes\<close> (global guards, path patterns, the status
  of an answer) and \<open>Crm_Api\<close> (the handlers of the controllers and the table of routes) are
  the way from a request to these services.

  Compositions: \<open>Token_Families\<close>, \<open>Token_Effects\<close> and \<open>Auth_System\<close> (a run of the authentication
  service is a sequence of its requests, successful or not, with time passing between them),
  \<open>Provisioning\<close> (what the seeds grant), \<open>Crm_System\<close> (a run of requests to the tenant core and of its
  worker). \<open>Login_Facts\<close> and \<open>Example\<close> hold shared facts and a concrete platform for the witnesses.
\<close>

section \<open>What is shown\<close>

text \<open>
  \<^item> \<open>Refresh_Properties\<close> and \<open>Refresh_Race\<close>: while requests are served one after another, a family has
    at most one live refresh token; a spent token is refused for ever; reuse cuts off the family;
    rotation exactly; a logout is final for its access token and its cookie. Two overlapping requests
    with one token can both succeed.
  \<^item> \<open>Login_Properties\<close>, \<open>Two_Factor_Properties\<close> and \<open>Account_Properties\<close>: what a login needs and does,
    lockout after wrong passwords of any kind, no enumeration of accounts, the second factor and its
    backup codes, and the links of reset and verification, with the flaws that the findings of the
    manifest name.
  \<^item> \<open>Provisioning_Properties\<close> and \<open>Access_Properties\<close>: a provisioned tenant has exactly the seeded
    grants, the guard admits exactly those who hold the permissions, the cache is at most a minute
    behind.
  \<^item> \<open>Crm_Properties\<close> and \<open>Lead_Properties\<close>: the tables of branches, roles, permissions and
    memberships keep the keys and references of \<open>db_ok\<close> through every run of requests; a conversion is
    final; pages partition a list when no two leads have the same date; round robin is fair; the
    public route for leads fails.
  \<^item> \<open>Role_Properties\<close>, \<open>Staff_Properties\<close>, \<open>Webhook_Properties\<close> and \<open>Activity_Properties\<close>: roles refine a
    finite map; the guard of the last owner exactly, and its gap; a deactivation is complete in the
    database at once and for the guard when the cache has run out; a regenerated token replaces the old
    one; the summaries that a lead keeps do not drift.
  \<^item> \<open>Api_Properties\<close>: in both services a route that is not public fails closed, the public ones are listed, with the health
    checks that every service has, the permissions that nothing seeds
    shut their routes to everybody, and every path is served by its own route.
  \<^item> \<open>Schema_Properties\<close> and \<open>Schema_Grants\<close>: the statements that occur leave a catalog consistent; the template
    makes exactly the schema of the data model; the migrations bring the first schemas to the same
    form, can be run again, and grant exactly what they name; the one for tasks fails on schemas with
    the enumeration that it says it renames.
  \<^item> \<open>Core_Seed_Properties\<close>: the seed script gives the roles of the platform exactly their permissions, and
    a second run, at whatever time, changes nothing but time stamps (locale \<open>dated_table\<close>).
  \<^item> \<open>Platform_Properties\<close>: responses hide internal failures; every mail job is accounted for; the
    SQL splitter, the escape of literals, the password policy and schema names.

  An invariant over a run rests on one lemma per operation of the form "this handler relates its
  start to its end", found by the introduction rules of \<open>effect\<close>, \<open>token_effect\<close> or \<open>tenant_writes\<close>;
  a result on one operation runs it with the equations of \<open>act\<close>. Every recursion is structural, so no
  fuel is used and every handler is total; \<open>Sql_Text\<close> shows for the one \<^verbatim>\<open>while\<close> of the code that it ends
  and gives what the structural definition gives.
\<close>

section \<open>Not modelled\<close>

text \<open>
  Start-up, wiring, configuration, the output of the log and what a health check measures have no logic of
  their own. The cache of permissions is a store of entries with an end, without a bound on their number. Rows
  that a query orders by equal keys come in the order of the table, which the database does not promise; the
  theorem on pages excludes such rows. Of
  the SQL scripts the layout of the text, the direction of index columns and the check of existing rows
  against a new constraint are not modelled. The checks that the validation package makes from the decorators of a
  request object come before a handler, which is modelled on any object of the declared type; the
  pipe that reports their failures is modelled. The throttling of the framework and the
  retries of the queue are not. Of the columns of the schemas, \<^verbatim>\<open>updatedAt\<close> (but for the
  tables of seeds) and those that no code reads or writes are left out.
\<close>

end
